(* ===== verification/Prelude.thy ===== *)
theory Prelude
  imports Main "HOL-Library.AList" "HOL-Library.List_Lexorder" "HOL-Library.Char_ord" "HOL-Library.Sublist"
begin

text \<open>
  What every component shares: the typed errors of \<^verbatim>\<open>capt_runtime/errors.py\<close>, results
  (\<open>Inl\<close> an exception, \<open>Inr\<close> a value), the sequencing combinators the models are
  written with, and the string operations the source uses.
  Strings are lists of characters in code-point order, so \<open><\<close> on them is Python's
  \<^verbatim>\<open><\<close> on \<^verbatim>\<open>str\<close> for the ASCII text (identifiers, RFC 3339 timestamps) of the runtime.
\<close>

named_theorems unfold_ops "definitions of the operations of the components"
named_theorems keeps "frame facts: what an operation leaves unchanged"

section \<open>Errors and results\<close>

text \<open>
  One constructor per exception class. \<open>IllegalTransition\<close> and \<open>ConcurrencyConflict\<close> carry the
  fields that the Python classes store; the others carry their message, with the formatted
  arguments reduced to the constant text where the format uses \<^verbatim>\<open>%r\<close> or a sorted list; \<open>OtherError\<close> carries the name of its class.
\<close>

datatype py_error =
    ContractViolation string "string list"
  | AuthorityViolation string
  | ConcurrencyConflict string int int
  | IdempotencyConflict string
  | IntegrityViolation string
  | NotFound string
  | IllegalTransition string string string
  | CapabilityDenied string "string option"
  | CapabilityViolation string
  | ReconciliationRequired string
  | ConcurrencyError string
  | ValueError string
  | KeyError string
  | TypeError string
  | AssertionError string
  | ClaimRejected string
  | SqlIntegrityError string
  | HandlerError string
  | OtherError string string

text \<open>The \<^verbatim>\<open>category\<close> class attribute of the typed errors.\<close>

fun category :: "py_error \<Rightarrow> string option" where
  "category (ContractViolation _ _) = Some ''validation''"
| "category (AuthorityViolation _) = Some ''authority''"
| "category (ConcurrencyConflict _ _ _) = Some ''concurrency''"
| "category (IdempotencyConflict _) = Some ''idempotency''"
| "category (IntegrityViolation _) = Some ''integrity''"
| "category (NotFound _) = Some ''not_found''"
| "category (IllegalTransition _ _ _) = Some ''illegal_transition''"
| "category (CapabilityDenied _ _) = Some ''capability_denied''"
| "category (CapabilityViolation _) = Some ''capability_violation''"
| "category (ReconciliationRequired _) = Some ''reconciliation_required''"
| "category _ = None"

type_synonym 'a res = "py_error + 'a"

text \<open>
  \<open>bnd\<close> is sequencing (an exception propagates), \<open>raise_if c e k\<close> is
  \<^verbatim>\<open>if c: raise e\<close> followed by \<open>k\<close>.
\<close>

definition bnd :: "'a res \<Rightarrow> ('a \<Rightarrow> 'b res) \<Rightarrow> 'b res" where
  "bnd m f = (case m of Inl e \<Rightarrow> Inl e | Inr x \<Rightarrow> f x)"

definition raise_if :: "bool \<Rightarrow> py_error \<Rightarrow> 'a res \<Rightarrow> 'a res" where
  "raise_if c e k = (if c then Inl e else k)"

lemma bnd_simps [simp]: "bnd (Inl e) f = Inl e" "bnd (Inr x) f = f x"
  by (simp_all add: bnd_def)

lemma bnd_Inr [simp]: "bnd m f = Inr y \<longleftrightarrow> (\<exists>x. m = Inr x \<and> f x = Inr y)"
  by (cases m) auto

lemma Inr_bnd [simp]: "Inr y = bnd m f \<longleftrightarrow> (\<exists>x. m = Inr x \<and> f x = Inr y)"
  by (cases m) auto

lemma bnd_Inl: "bnd m f = Inl e \<longleftrightarrow> m = Inl e \<or> (\<exists>x. m = Inr x \<and> f x = Inl e)"
  by (cases m) auto

lemma bnd_cong [fundef_cong]:
  "m = m' \<Longrightarrow> (\<And>x. m' = Inr x \<Longrightarrow> f x = g x) \<Longrightarrow> bnd m f = bnd m' g"
  by (cases m') auto

lemma raise_if_Inr [simp]: "raise_if c e k = Inr y \<longleftrightarrow> \<not> c \<and> k = Inr y"
  by (auto simp: raise_if_def)

lemma raise_if_simps [simp]: "raise_if True e k = Inl e" "raise_if False e k = k"
  by (simp_all add: raise_if_def)

lemma raise_if_Inl: "raise_if c e k = Inl e' \<longleftrightarrow> (c \<and> e' = e) \<or> (\<not> c \<and> k = Inl e')"
  by (auto simp: raise_if_def)

lemma raise_if_cong: "c = c' \<Longrightarrow> (\<not> c' \<Longrightarrow> k = k') \<Longrightarrow> raise_if c e k = raise_if c' e k'"
  by (auto simp: raise_if_def)

text \<open>Running a list of operations: \<open>run\<close> stops at the first exception; \<open>attempt\<close> is what a
  caller of the runtime sees, a rejected operation leaves the committed state as it was.\<close>

fun run :: "('s \<Rightarrow> 'o \<Rightarrow> 's res) \<Rightarrow> 's \<Rightarrow> 'o list \<Rightarrow> 's res" where
  "run step s [] = Inr s"
| "run step s (x # xs) = bnd (step s x) (\<lambda>s'. run step s' xs)"

fun attempt :: "('s \<Rightarrow> 'o \<Rightarrow> 's res) \<Rightarrow> 's \<Rightarrow> 'o list \<Rightarrow> 's" where
  "attempt step s [] = s"
| "attempt step s (x # xs) =
     attempt step (case step s x of Inl _ \<Rightarrow> s | Inr s' \<Rightarrow> s') xs"

lemma run_append: "run step s (xs @ ys) = bnd (run step s xs) (\<lambda>s'. run step s' ys)"
proof (induction xs arbitrary: s)
  case (Cons x xs)
  then show ?case by (cases "step s x") simp_all
qed simp

lemma run_is_attempt: "run step s xs = Inr s' \<Longrightarrow> attempt step s xs = s'"
  by (induction xs arbitrary: s) auto

lemma attempt_invariant:
  assumes "\<And>s x s'. P s \<Longrightarrow> step s x = Inr s' \<Longrightarrow> P s'" and "P s"
  shows "P (attempt step s xs)"
  using assms(2)
proof (induction xs arbitrary: s)
  case (Cons x xs)
  then show ?case using assms(1) by (cases "step s x") auto
qed simp

text \<open>The same, for what holds of the operations that occur in the list.\<close>

lemma attempt_invariant_on:
  assumes "\<And>s x s'. x \<in> set xs \<Longrightarrow> P s \<Longrightarrow> step s x = Inr s' \<Longrightarrow> P s'" and "P s"
  shows "P (attempt step s xs)"
  using assms
proof (induction xs arbitrary: s)
  case (Cons x xs)
  have "P (case step s x of Inl _ \<Rightarrow> s | Inr s' \<Rightarrow> s')"
    using Cons.prems by (cases "step s x") auto
  moreover have "\<And>y t t'. y \<in> set xs \<Longrightarrow> P t \<Longrightarrow> step t y = Inr t' \<Longrightarrow> P t'"
    using Cons.prems(1) by (meson list.set_intros(2))
  ultimately show ?case using Cons.IH by simp
qed simp

lemma attempt_append: "attempt step s (xs @ ys) = attempt step (attempt step s xs) ys"
  by (induction xs arbitrary: s) simp_all

lemma attempt_stuck: "(\<And>x. \<exists>e. step s x = Inl e) \<Longrightarrow> attempt step s xs = s"
proof (induction xs)
  case (Cons x xs)
  from Cons.prems[of x] obtain e where "step s x = Inl e" by blast
  with Cons show ?case by simp
qed simp

lemma attempt_relation:
  assumes "\<And>s x s'. P s \<Longrightarrow> step s x = Inr s' \<Longrightarrow> P s'"
    and "\<And>s x s'. P s \<Longrightarrow> step s x = Inr s' \<Longrightarrow> R s s'"
    and "\<And>s. R s s" and "\<And>a b c. R a b \<Longrightarrow> R b c \<Longrightarrow> R a c" and "P s"
  shows "R s (attempt step s xs)"
  using assms(5)
proof (induction xs arbitrary: s)
  case (Cons x xs)
  show ?case
  proof (cases "step s x")
    case (Inr s')
    then have "R s' (attempt step s' xs)" using Cons assms(1) by blast
    with Inr Cons.prems assms(2,4) show ?thesis by fastforce
  qed (use Cons in simp)
qed (use assms(3) in simp)

text \<open>The operations of a list of attempts that were accepted, in order.\<close>

fun accepted :: "('s \<Rightarrow> 'o \<Rightarrow> 's res) \<Rightarrow> 's \<Rightarrow> 'o list \<Rightarrow> 'o list" where
  "accepted step s [] = []"
| "accepted step s (x # xs) = (case step s x of
     Inl _ \<Rightarrow> accepted step s xs | Inr s' \<Rightarrow> x # accepted step s' xs)"

lemma accepted_snoc:
  "accepted step s (xs @ [x]) = accepted step s xs @ (case step (attempt step s xs) x of Inl _ \<Rightarrow> [] | Inr _ \<Rightarrow> [x])"
proof (induction xs arbitrary: s)
  case Nil
  show ?case by (cases "step s x") simp_all
next
  case (Cons y ys)
  then show ?case by (cases "step s y") simp_all
qed

lemma accepted_invariant:
  assumes "Q [] s" and "\<And>acc t x t'. Q acc t \<Longrightarrow> step t x = Inr t' \<Longrightarrow> Q (acc @ [x]) t'"
  shows "Q (accepted step s xs) (attempt step s xs)"
proof (induction xs rule: rev_induct)
  case (snoc x xs)
  show ?case
  proof (cases "step (attempt step s xs) x")
    case (Inl e)
    with snoc show ?thesis by (simp add: accepted_snoc attempt_append)
  next
    case (Inr t)
    with assms(2)[OF snoc this] show ?thesis by (simp add: accepted_snoc attempt_append)
  qed
qed (use assms(1) in simp)

section \<open>Strings\<close>

text \<open>\<^verbatim>\<open>s.rstrip("/")\<close>, \<^verbatim>\<open>s.strip()\<close>, \<^verbatim>\<open>s.startswith(p)\<close>, \<^verbatim>\<open>sub in s\<close>, \<^verbatim>\<open>s.lower()\<close>.\<close>

definition rstrip_char :: "char \<Rightarrow> string \<Rightarrow> string" where
  "rstrip_char c s = rev (dropWhile (\<lambda>x. x = c) (rev s))"

definition is_space :: "char \<Rightarrow> bool" where
  "is_space c \<longleftrightarrow> of_char c \<in> {9::nat, 10, 11, 12, 13, 28, 29, 30, 31, 32}"

definition py_strip :: "string \<Rightarrow> string" where
  "py_strip s = rev (dropWhile is_space (rev (dropWhile is_space s)))"

definition starts_with :: "string \<Rightarrow> string \<Rightarrow> bool" where
  "starts_with s p \<longleftrightarrow> take (length p) s = p"

fun contains_sub :: "string \<Rightarrow> string \<Rightarrow> bool" where
  "contains_sub p [] = (p = [])"
| "contains_sub p (c # cs) = (starts_with (c # cs) p \<or> contains_sub p cs)"

definition lower_char :: "char \<Rightarrow> char" where
  "lower_char c = (if (65::nat) \<le> of_char c \<and> of_char c \<le> (90::nat)
     then char_of (of_char c + (32::nat)) else c)"

definition py_lower :: "string \<Rightarrow> string" where
  "py_lower s = map lower_char s"

lemma starts_with_iff_prefix: "starts_with s p \<longleftrightarrow> prefix p s"
  unfolding starts_with_def by (metis append_eq_conv_conj append_take_drop_id prefix_def)

text \<open>\<^verbatim>\<open>str(n)\<close> of an integer.\<close>

fun digits_of :: "nat \<Rightarrow> string" where
  "digits_of n = (if n < 10 then [char_of (48 + n)] else digits_of (n div 10) @ [char_of (48 + n mod 10)])"

declare digits_of.simps [simp del]

definition str_int :: "int \<Rightarrow> string" where
  "str_int i = (if i < 0 then ''-'' @ digits_of (nat (- i)) else digits_of (nat i))"

text \<open>\<^verbatim>\<open>sorted(set(xs))\<close> and the insertion-ordered \<^verbatim>\<open>list(dict.fromkeys(xs))\<close>.\<close>

definition sorted_set :: "string list \<Rightarrow> string list" where
  "sorted_set xs = sort (remdups xs)"

lemma set_sorted_set [simp]: "set (sorted_set xs) = set xs"
  by (simp add: sorted_set_def)

lemma sorted_set_props [simp]: "sorted (sorted_set xs)" "distinct (sorted_set xs)"
  by (simp_all add: sorted_set_def)

lemma sorted_set_idem [simp]: "sorted_set (sorted_set xs) = sorted_set xs"
  by (simp add: sorted_set_def distinct_remdups_id sorted_sort_id)

definition dedup :: "'a list \<Rightarrow> 'a list" where
  "dedup xs = rev (remdups (rev xs))"

text \<open>\<^verbatim>\<open>if x not in ids: ids.append(x)\<close>.\<close>

definition add_once :: "'a \<Rightarrow> 'a list \<Rightarrow> 'a list" where
  "add_once x xs = (if x \<in> set xs then xs else xs @ [x])"

lemma set_add_once [simp]: "set (add_once x xs) = insert x (set xs)"
  by (auto simp: add_once_def)

lemma distinct_add_once [simp]: "distinct (add_once x xs) \<longleftrightarrow> distinct xs"
  by (auto simp: add_once_def)

lemma add_once_idem [simp]: "add_once x (add_once x xs) = add_once x xs"
  by (simp add: add_once_def)

lemma add_once_ne [simp]: "add_once x xs \<noteq> []"
  by (auto simp: add_once_def)

lemma find_Some_mem: "find P xs = Some x \<Longrightarrow> x \<in> set xs \<and> P x"
  by (induction xs) (auto split: if_splits)

end
