(* ===== verification/Authority.thy ===== *)
theory Authority
  imports Prelude
begin

text \<open>
  \<^verbatim>\<open>capt_runtime/authority.py\<close>: the authority planes and the table that says which kinds of
  actor may perform which authoritative act. An act that is not listed has no permitted
  author at all.
\<close>

definition GOVERNANCE :: string where "GOVERNANCE = ''governance_kernel''"
definition COGNITION :: string where "COGNITION = ''cognitive_plane''"
definition EXECUTION :: string where "EXECUTION = ''execution_plane''"
definition VERIFICATION :: string where "VERIFICATION = ''verification_plane''"
definition CLAIM_AUTHORITY :: string where "CLAIM_AUTHORITY = ''claim_authority''"
definition HUMAN :: string where "HUMAN = ''human''"
definition SYSTEM :: string where "SYSTEM = ''system''"
definition EXTERNAL_DRIVER :: string where "EXTERNAL_DRIVER = ''external_driver''"

lemmas planes = GOVERNANCE_def COGNITION_def EXECUTION_def VERIFICATION_def
  CLAIM_AUTHORITY_def HUMAN_def SYSTEM_def EXTERNAL_DRIVER_def

definition PERMITTED :: "(string \<times> string list) list" where
  "PERMITTED = [
    (''evaluate_policy'', [GOVERNANCE]),
    (''issue_grant'', [GOVERNANCE]),
    (''revoke'', [GOVERNANCE, HUMAN]),
    (''activate_lease'', [GOVERNANCE]),
    (''reserve_use'', [EXECUTION]),
    (''finalize_use'', [EXECUTION]),
    (''prepare_tool_execution'', [EXECUTION, SYSTEM]),
    (''transition_tool_execution'', [EXECUTION, SYSTEM]),
    (''reserve_sandbox_lease'', [EXECUTION, SYSTEM]),
    (''transition_sandbox_lease'', [EXECUTION, SYSTEM]),
    (''create_mission'', [HUMAN, SYSTEM]),
    (''transition_mission'', [HUMAN, SYSTEM]),
    (''create_driver_run'', [EXECUTION, SYSTEM]),
    (''transition_driver_run'', [EXECUTION, HUMAN, SYSTEM]),
    (''record_driver_dispatch_boundary'', [EXECUTION, SYSTEM]),
    (''plan_tasks'', [COGNITION, SYSTEM]),
    (''transition_task'', [EXECUTION, SYSTEM]),
    (''submit_result'', [EXECUTION, SYSTEM]),
    (''request_human_approval'', [EXECUTION, GOVERNANCE, SYSTEM]),
    (''submit_human_approval_decision'', [HUMAN]),
    (''submit_human_claim_review'', [HUMAN]),
    (''consume_human_approval'', [EXECUTION, SYSTEM]),
    (''cancel_task'', [EXECUTION, HUMAN, SYSTEM]),
    (''cancel_driver_run'', [EXECUTION, HUMAN, SYSTEM]),
    (''record_evidence'', [VERIFICATION, EXECUTION, SYSTEM]),
    (''produce_verification'', [VERIFICATION]),
    (''propose_claim'', [COGNITION, EXECUTION, SYSTEM]),
    (''decide_claim'', [CLAIM_AUTHORITY]),
    (''create_checkpoint'', [SYSTEM]),
    (''prepare_artifact_promotion'', [EXECUTION, SYSTEM]),
    (''authorize_artifact_promotion'', [HUMAN, GOVERNANCE, SYSTEM]),
    (''adopt_artifact_promotion'', [EXECUTION, SYSTEM]),
    (''discard_artifact_promotion'', [EXECUTION, HUMAN, SYSTEM]),
    (''persist_cohort'', [COGNITION, SYSTEM]),
    (''admit_council_plan'', [SYSTEM]),
    (''record_council_analysis'', [COGNITION, SYSTEM]),
    (''steer_cohort'', [HUMAN]),
    (''create_replay_fork'', [HUMAN]),
    (''register_bot'', [HUMAN, SYSTEM]),
    (''propose_cognitive_candidate'', [COGNITION, SYSTEM]),
    (''decide_cognitive_candidate'', [HUMAN, GOVERNANCE]),
    (''create_skill_candidate'', [COGNITION, HUMAN, SYSTEM]),
    (''transition_skill_candidate'', [COGNITION, HUMAN, GOVERNANCE, SYSTEM]),
    (''create_lab_board_item'', [COGNITION, EXECUTION, HUMAN, SYSTEM]),
    (''transition_lab_board_item'', [COGNITION, EXECUTION, HUMAN, GOVERNANCE, SYSTEM]),
    (''assign_delegate'', [COGNITION, HUMAN, SYSTEM]),
    (''transition_delegate_assignment'', [COGNITION, HUMAN, GOVERNANCE, SYSTEM]),
    (''bind_cloudflare_resource_adoption'', [EXECUTION, SYSTEM])]"

definition permitted_actors :: "string \<Rightarrow> string list" where
  "permitted_actors act = (case map_of PERMITTED act of None \<Rightarrow> [] | Some ks \<Rightarrow> ks)"

definition require_authority :: "string \<Rightarrow> string \<Rightarrow> unit res" where
  "require_authority act actor_kind =
     (case map_of PERMITTED act of
        None \<Rightarrow> Inl (AuthorityViolation (''unknown authoritative act '' @ act @ ''; no actor may perform it''))
      | Some ks \<Rightarrow>
          if actor_kind \<notin> set ks
          then Inl (AuthorityViolation (''actor kind '' @ actor_kind @ '' may not perform '' @ act))
          else Inr ())"

definition known_acts :: "string list" where
  "known_acts = map fst PERMITTED"

lemma require_authority_iff: "require_authority act k = Inr u \<longleftrightarrow> k \<in> set (permitted_actors act)"
  by (auto simp: require_authority_def permitted_actors_def split: option.splits)

lemma unknown_act_denied: "act \<notin> set known_acts \<Longrightarrow> require_authority act k \<noteq> Inr u"
  by (cases "map_of PERMITTED act")
     (force simp: require_authority_def known_acts_def dest: map_of_SomeD)+

text \<open>Table facts, by evaluation of the table.\<close>

definition acts_of :: "string \<Rightarrow> string list" where
  "acts_of k = map fst (filter (\<lambda>(a, ks). k \<in> set ks) PERMITTED)"

lemma distinct_acts: "distinct (map fst PERMITTED)"
  by (simp add: PERMITTED_def)

lemma alist_column:
  "distinct (map fst T) \<Longrightarrow>
    k \<in> set (case map_of T a of None \<Rightarrow> [] | Some ks \<Rightarrow> ks) \<longleftrightarrow>
    a \<in> set (map fst (filter (\<lambda>(a, ks). k \<in> set ks) T))"
proof (induction T)
  case (Cons p T)
  obtain a' ks where "p = (a', ks)" by force
  with Cons show ?case by (cases "a = a'") force+
qed simp

lemma permitted_iff_acts_of: "k \<in> set (permitted_actors a) \<longleftrightarrow> a \<in> set (acts_of k)"
  unfolding permitted_actors_def acts_of_def by (rule alist_column [OF distinct_acts])

lemma acts_of_verification: "acts_of VERIFICATION = [''record_evidence'', ''produce_verification'']"
  by (simp add: acts_of_def PERMITTED_def planes)

lemma acts_of_claim_authority: "acts_of CLAIM_AUTHORITY = [''decide_claim'']"
  by (simp add: acts_of_def PERMITTED_def planes)

lemma acts_of_external_driver: "acts_of EXTERNAL_DRIVER = []"
  by (simp add: acts_of_def PERMITTED_def planes)


end
