(* ===== verification/Json.thy ===== *)
theory Json
  imports Prelude "HOL-Library.Multiset"
begin

text \<open>
  The JSON values the runtime passes around (\<^verbatim>\<open>Dict[str, Any]\<close>), Python dictionaries over
  them, and \<^verbatim>\<open>capt_runtime/contracts.py\<close>: the deterministic serialisation
  \<^verbatim>\<open>canonical_json\<close>, the content digest over it and \<^verbatim>\<open>require\<close>. SHA-256 (its hexadecimal
  digest) is the parameter \<open>sha\<close>, the generated contract validator
  (\<^verbatim>\<open>contracts/generated\<close>) the parameter \<open>validate\<close>. A float is kept as its \<^verbatim>\<open>repr\<close> text.
\<close>

datatype json =
    JNull
  | JBool bool
  | JInt int
  | JFloat string
  | JStr string
  | JList "json list"
  | JObj "(string \<times> json) list"

type_synonym dict = "(string \<times> json) list"

section \<open>Dictionaries\<close>

text \<open>
  \<^verbatim>\<open>d.get(k)\<close> with its \<^verbatim>\<open>None\<close> for a missing key kept apart (\<open>dlook\<close>) or merged
  (\<open>dget\<close>), \<^verbatim>\<open>d[k]\<close> (\<open>dreq\<close>, a \<^verbatim>\<open>KeyError\<close> when missing), \<^verbatim>\<open>k in d\<close>, \<^verbatim>\<open>d[k] = v\<close>,
  \<^verbatim>\<open>d.update(p)\<close>, \<^verbatim>\<open>d.setdefault(k, v)\<close>.
\<close>

abbreviation dlook :: "dict \<Rightarrow> string \<Rightarrow> json option" where
  "dlook d k \<equiv> map_of d k"

definition dget :: "dict \<Rightarrow> string \<Rightarrow> json" where
  "dget d k = (case dlook d k of None \<Rightarrow> JNull | Some v \<Rightarrow> v)"

definition dreq :: "dict \<Rightarrow> string \<Rightarrow> json res" where
  "dreq d k = (case dlook d k of None \<Rightarrow> Inl (KeyError k) | Some v \<Rightarrow> Inr v)"

definition dhas :: "dict \<Rightarrow> string \<Rightarrow> bool" where
  "dhas d k = (dlook d k \<noteq> None)"

definition dput :: "dict \<Rightarrow> string \<Rightarrow> json \<Rightarrow> dict" where
  "dput d k v = AList.update k v d"

fun dupdate :: "dict \<Rightarrow> dict \<Rightarrow> dict" where
  "dupdate d [] = d"
| "dupdate d ((k, v) # p) = dupdate (dput d k v) p"

definition dsetdefault :: "dict \<Rightarrow> string \<Rightarrow> json \<Rightarrow> dict" where
  "dsetdefault d k v = (if dhas d k then d else dput d k v)"

definition dkeys :: "dict \<Rightarrow> string list" where
  "dkeys d = map fst d"

lemma dlook_dput [simp]: "dlook (dput d k v) k' = (if k' = k then Some v else dlook d k')"
  by (simp add: dput_def update_conv)

lemma dget_dput [simp]: "dget (dput d k v) k' = (if k' = k then v else dget d k')"
  by (simp add: dget_def)

lemma dhas_dput [simp]: "dhas (dput d k v) k' \<longleftrightarrow> k' = k \<or> dhas d k'"
  by (auto simp: dhas_def)

lemma dreq_Inr [simp]: "dreq d k = Inr v \<longleftrightarrow> dlook d k = Some v"
  by (auto simp: dreq_def split: option.splits)

lemma dlook_dupdate: "dlook (dupdate d p) k = (case map_of (rev p) k of None \<Rightarrow> dlook d k | Some v \<Rightarrow> Some v)"
  by (induction d p rule: dupdate.induct) (auto simp: map_add_def split: option.splits)

lemma map_of_rev_distinct: "distinct (map fst p) \<Longrightarrow> map_of (rev p) = map_of p"
  by (rule map_of_inject_set [THEN iffD2]) (simp_all add: rev_map [symmetric])

lemma dlook_dupdate_distinct [simp]:
  "distinct (map fst p) \<Longrightarrow> dlook (dupdate d p) k = (case dlook p k of None \<Rightarrow> dlook d k | Some v \<Rightarrow> Some v)"
  by (simp add: dlook_dupdate map_of_rev_distinct)

lemma dhas_dupdate [simp]: "dhas (dupdate d p) k \<longleftrightarrow> dhas p k \<or> dhas d k"
proof (induction d p rule: dupdate.induct)
  case (2 d k' v p)
  then show ?case by (auto simp: dhas_def)
qed (simp add: dhas_def)

section \<open>Python equality and truth of JSON values\<close>

text \<open>
  \<^verbatim>\<open>==\<close> on dictionaries ignores the order of keys, and \<^verbatim>\<open>True == 1\<close>: values are compared
  through \<open>eqform\<close>, which sorts the keys of every object and reads booleans as integers.
\<close>

fun eqform :: "json \<Rightarrow> json" where
  "eqform (JBool b) = JInt (if b then 1 else 0)"
| "eqform (JList xs) = JList (map eqform xs)"
| "eqform (JObj kvs) = JObj (sort_key fst (map (\<lambda>(k, v). (k, eqform v)) kvs))"
| "eqform v = v"

definition json_eq :: "json \<Rightarrow> json \<Rightarrow> bool" where
  "json_eq a b = (eqform a = eqform b)"

definition dict_eq :: "dict \<Rightarrow> dict \<Rightarrow> bool" where
  "dict_eq a b = json_eq (JObj a) (JObj b)"

fun truthy :: "json \<Rightarrow> bool" where
  "truthy JNull = False"
| "truthy (JBool b) = b"
| "truthy (JInt i) = (i \<noteq> 0)"
| "truthy (JFloat s) = (s \<noteq> ''0.0'' \<and> s \<noteq> ''-0.0'')"
| "truthy (JStr s) = (s \<noteq> [])"
| "truthy (JList xs) = (xs \<noteq> [])"
| "truthy (JObj kvs) = (kvs \<noteq> [])"

lemma json_eq_refl [simp]: "json_eq a a"
  by (simp add: json_eq_def)

lemma json_eq_sym: "json_eq a b \<Longrightarrow> json_eq b a"
  by (simp add: json_eq_def)

lemma json_eq_trans: "json_eq a b \<Longrightarrow> json_eq b c \<Longrightarrow> json_eq a c"
  by (simp add: json_eq_def)

lemma dict_eq_refl [simp]: "dict_eq a a"
  by (simp add: dict_eq_def)

section \<open>contracts.py\<close>

definition hex_digit :: "nat \<Rightarrow> char" where
  "hex_digit n = (if n < 10 then char_of (48 + n) else char_of (87 + n))"

text \<open>\<^verbatim>\<open>json.dumps\<close> escapes the quote, the backslash and the control characters.\<close>

definition escape_char :: "char \<Rightarrow> string" where
  "escape_char c = (let n = (of_char c :: nat) in
     if n = 34 then [char_of (92::nat), char_of (34::nat)]
     else if n = 92 then [char_of (92::nat), char_of (92::nat)]
     else if n = 8 then char_of (92::nat) # ''b''
     else if n = 9 then char_of (92::nat) # ''t''
     else if n = 10 then char_of (92::nat) # ''n''
     else if n = 12 then char_of (92::nat) # ''f''
     else if n = 13 then char_of (92::nat) # ''r''
     else if n < 32 then char_of (92::nat) # ''u00'' @ [hex_digit (n div 16), hex_digit (n mod 16)]
     else [c])"

definition json_string :: "string \<Rightarrow> string" where
  "json_string s = char_of (34::nat) # concat (map escape_char s) @ [char_of (34::nat)]"

fun join_with :: "string \<Rightarrow> string list \<Rightarrow> string" where
  "join_with sep [] = []"
| "join_with sep [x] = x"
| "join_with sep (x # y # xs) = x @ sep @ join_with sep (y # xs)"

text \<open>\<^verbatim>\<open>json.dumps(value, sort_keys=True, separators=(",", ":"), ensure_ascii=False)\<close>.\<close>

fun canonical_json :: "json \<Rightarrow> string" where
  "canonical_json JNull = ''null''"
| "canonical_json (JBool b) = (if b then ''true'' else ''false'')"
| "canonical_json (JInt i) = str_int i"
| "canonical_json (JFloat s) = s"
| "canonical_json (JStr s) = json_string s"
| "canonical_json (JList xs) = ''['' @ join_with '','' (map canonical_json xs) @ '']''"
| "canonical_json (JObj kvs) =
     ''{'' @ join_with '',''
       (map snd (sort_key fst (map (\<lambda>(k, v). (k, json_string k @ '':'' @ canonical_json v)) kvs)))
     @ ''}''"

definition digest :: "(string \<Rightarrow> string) \<Rightarrow> json \<Rightarrow> string" where
  "digest sha v = ''sha256:'' @ sha (canonical_json v)"

definition require :: "(string \<Rightarrow> 'v \<Rightarrow> string list) \<Rightarrow> string \<Rightarrow> 'v \<Rightarrow> 'v res" where
  "require validate type_name value =
     (let errors = validate type_name value in
      raise_if (errors \<noteq> []) (ContractViolation type_name errors) (Inr value))"

lemma require_Inr [simp]: "require validate t v = Inr w \<longleftrightarrow> validate t v = [] \<and> w = v"
  by (auto simp: require_def Let_def)

text \<open>The order in which a dictionary was filled does not change its serialisation.\<close>

lemma sort_key_perm:
  assumes "distinct (map fst xs)" and "mset xs = mset ys"
  shows "sort_key fst xs = sort_key fst ys"
proof (rule sort_key_inj_key_eq)
  show "mset xs = mset (sort_key fst ys)" using assms(2) by simp
  show "inj_on fst (set xs)" using assms(1) by (simp add: distinct_map)
  show "sorted (map fst (sort_key fst ys))" by simp
qed

end
