(* ===== verification/Lifecycle.thy ===== *)
theory Lifecycle
  imports Json
begin

text \<open>
  The contract every aggregate state machine of \<^verbatim>\<open>capt_runtime/aggregates\<close> keeps: a table of
  allowed successor states, a set of terminal states with no successor, and operations that
  move the state label along the table or leave it alone. The locale \<open>lifecycle\<close> states
  it; each aggregate theory interprets it on its own operations, and the histories of the
  aggregate are governed by the lemmas proved here once.
\<close>

section \<open>Transition tables\<close>

type_synonym table = "(string \<times> string list) list"

text \<open>\<^verbatim>\<open>to_state in TRANSITIONS.get(current, frozenset())\<close>.\<close>

definition allowed :: "table \<Rightarrow> string \<Rightarrow> string \<Rightarrow> bool" where
  "allowed T s t = (case map_of T s of None \<Rightarrow> False | Some ts \<Rightarrow> t \<in> set ts)"

definition reaches :: "table \<Rightarrow> string \<Rightarrow> string \<Rightarrow> bool" where
  "reaches T = (allowed T)\<^sup>*\<^sup>*"

lemma allowed_target: "allowed T s t \<Longrightarrow> \<exists>ts. (s, ts) \<in> set T \<and> t \<in> set ts"
  by (auto simp: allowed_def split: option.splits dest: map_of_SomeD)

lemma reaches_refl [simp]: "reaches T s s"
  by (simp add: reaches_def)

lemma reaches_trans: "reaches T a b \<Longrightarrow> reaches T b c \<Longrightarrow> reaches T a c"
  by (simp add: reaches_def)

lemma reaches_step: "allowed T a b \<Longrightarrow> reaches T a b"
  by (simp add: reaches_def r_into_rtranclp)

text \<open>A set of labels closed under the table holds every label reached from it.\<close>

definition closed_under :: "table \<Rightarrow> string list \<Rightarrow> bool" where
  "closed_under T ls = list_all (\<lambda>(s, ts). s \<in> set ls \<longrightarrow> set ts \<subseteq> set ls) T"

lemma closed_under_reaches:
  assumes "closed_under T ls" and "reaches T s t" and "s \<in> set ls"
  shows "t \<in> set ls"
  using assms(2,3) unfolding reaches_def
proof (induction rule: rtranclp_induct)
  case (step y z)
  then obtain ts where "(y, ts) \<in> set T" "z \<in> set ts" by (blast dest: allowed_target)
  with step assms(1) show ?case by (auto simp: closed_under_def list_all_iff)
qed simp

section \<open>The lifecycle contract\<close>

text \<open>The contract under an invariant \<open>ok\<close> of the aggregate's states.\<close>

locale lifecycle_inv =
  fixes table :: table
    and terminal :: "string list"
    and label :: "'s \<Rightarrow> string"
    and ident :: "'s \<Rightarrow> 'i"
    and ok :: "'s \<Rightarrow> bool"
    and step :: "'s \<Rightarrow> 'o \<Rightarrow> 's res"
  assumes terminal_no_exit: "s \<in> set terminal \<Longrightarrow> \<not> allowed table s t"
    and step_ok: "ok x \<Longrightarrow> step x a = Inr y \<Longrightarrow> ok y"
    and step_moves: "ok x \<Longrightarrow> step x a = Inr y \<Longrightarrow> label y = label x \<or> allowed table (label x) (label y)"
    and step_ident: "step x a = Inr y \<Longrightarrow> ident y = ident x"
begin

lemma history_ok: "ok x \<Longrightarrow> ok (attempt step x ops)"
  by (rule attempt_invariant[where P = ok]) (auto intro: step_ok)

lemma history_follows_table: "ok x \<Longrightarrow> reaches table (label x) (label (attempt step x ops))"
proof (rule attempt_relation [where P = ok and R = "\<lambda>a b. reaches table (label a) (label b)"])
  fix s a s' assume "ok s" "step s a = Inr s'"
  then show "reaches table (label s) (label s')"
    using step_moves reaches_step by (metis reaches_refl)
qed (auto intro: reaches_trans step_ok)

lemma terminal_reaches: "s \<in> set terminal \<Longrightarrow> reaches table s t \<Longrightarrow> t = s"
  unfolding reaches_def by (erule converse_rtranclpE) (auto dest: terminal_no_exit)

lemma terminal_absorbing:
  "ok x \<Longrightarrow> label x \<in> set terminal \<Longrightarrow> label (attempt step x ops) = label x"
  using history_follows_table terminal_reaches by blast

lemma identity_kept: "ident (attempt step x ops) = ident x"
proof (rule attempt_invariant [where P = "\<lambda>s. ident s = ident x"])
  fix s a s' assume "ident s = ident x" "step s a = Inr s'"
  then show "ident s' = ident x" by (simp add: step_ident)
qed simp

lemma never_back:
  assumes "closed_under table ls" and "ok x" and "label x \<in> set ls"
  shows "label (attempt step x ops) \<in> set ls"
  using closed_under_reaches[OF assms(1) history_follows_table[OF assms(2)] assms(3)] .

end

text \<open>Where the contract holds for every state, the invariant is trivial.\<close>

locale lifecycle =
  fixes table :: table
    and terminal :: "string list"
    and label :: "'s \<Rightarrow> string"
    and ident :: "'s \<Rightarrow> 'i"
    and step :: "'s \<Rightarrow> 'o \<Rightarrow> 's res"
  assumes no_exit: "s \<in> set terminal \<Longrightarrow> \<not> allowed table s t"
    and moves: "step x a = Inr y \<Longrightarrow> label y = label x \<or> allowed table (label x) (label y)"
    and keeps_ident: "step x a = Inr y \<Longrightarrow> ident y = ident x"

sublocale lifecycle \<subseteq> live: lifecycle_inv table terminal label ident "\<lambda>_. True" step
  by unfold_locales (auto simp: no_exit dest: moves keeps_ident)

context lifecycle
begin

lemmas history_follows_table = live.history_follows_table [OF TrueI]
lemmas terminal_absorbing = live.terminal_absorbing [OF TrueI]
lemmas identity_kept = live.identity_kept
lemmas never_back = live.never_back [OF _ TrueI]

end

end
