(* ===== verification/Mission_Task.thy ===== *)
theory Mission_Task
  imports Lifecycle
begin

text \<open>
  \<^verbatim>\<open>capt_runtime/aggregates/mission_task.py\<close>: the mission and task aggregates. A state is the
  record of the snapshot's keys; an operation validates a transition and returns the next
  state or raises.
\<close>

section \<open>Mission\<close>

record objective =
  ob_objectiveId :: string
  ob_statement :: string
  ob_priority :: int

record criterion =
  cr_criterionId :: string
  cr_statement :: string
  cr_requiresVerification :: "bool option"
  cr_terminalState :: "string option"

record mission_spec =
  sp_missionId :: string
  sp_rawRequest :: string
  sp_normalizedRequest :: string
  sp_objectives :: "objective list"
  sp_constraints :: "json list"
  sp_successCriteria :: "criterion list"
  sp_terminationCriteria :: "criterion list"
  sp_unresolvedAmbiguities :: "json list"
  sp_externalCommitments :: "json list option"
  sp_taskGraphId :: "string option"
  sp_createdAt :: string

record mission =
  ms_missionId :: string
  ms_state :: string
  ms_objectives :: "string list"
  ms_successCriteria :: "string list"
  ms_terminationCriteria :: "string list"
  ms_taskGraphId :: "string option"
  ms_externalCommitments :: "json list"
  ms_policyDecisionIds :: "string list"

definition MISSION_TERMINAL :: "string list" where
  "MISSION_TERMINAL = [''completed'', ''failed'', ''cancelled'']"

definition MISSION_TRANSITIONS :: table where
  "MISSION_TRANSITIONS = [
    (''draft'', [''authorized'', ''cancelled'', ''failed'']),
    (''authorized'', [''executing'', ''cancelled'', ''failed'']),
    (''executing'', [''suspended'', ''completed'', ''failed'', ''cancelled'']),
    (''suspended'', [''executing'', ''cancelled'', ''failed'']),
    (''completed'', []),
    (''failed'', []),
    (''cancelled'', [])]"

definition MISSION_OWNED :: "string list" where
  "MISSION_OWNED = [''mission.state'', ''mission.objectives'', ''mission.successCriteria'',
    ''mission.terminationCriteria'', ''mission.taskGraphId'', ''mission.policyDecisionIds'']"

definition mission_stream_id :: "string \<Rightarrow> string" where
  "mission_stream_id mission_id = ''mission-'' @ mission_id"

text \<open>\<^verbatim>\<open>list(spec.get(k) or [])\<close>: a missing or null list reads as empty.\<close>

definition or_empty :: "'a list option \<Rightarrow> 'a list" where
  "or_empty x = (case x of None \<Rightarrow> [] | Some xs \<Rightarrow> xs)"

definition mission_create :: "mission_spec \<Rightarrow> mission" where
  "mission_create spec = \<lparr>
    ms_missionId = sp_missionId spec,
    ms_state = ''draft'',
    ms_objectives = map ob_objectiveId (sp_objectives spec),
    ms_successCriteria = map cr_criterionId (sp_successCriteria spec),
    ms_terminationCriteria = map cr_criterionId (sp_terminationCriteria spec),
    ms_taskGraphId = sp_taskGraphId spec,
    ms_externalCommitments = or_empty (sp_externalCommitments spec),
    ms_policyDecisionIds = []\<rparr>"

definition mission_transition :: "mission \<Rightarrow> string \<Rightarrow> mission res" where
  "mission_transition s to_state =
    (let current = ms_state s in
     raise_if (current \<in> set MISSION_TERMINAL)
       (IllegalTransition (''mission '' @ ms_missionId s @ '' is terminal'') current to_state) (
     raise_if (\<not> allowed MISSION_TRANSITIONS current to_state)
       (IllegalTransition (''mission '' @ ms_missionId s) current to_state) (
     Inr (s\<lparr>ms_state := to_state\<rparr>))))"

definition mission_record_policy_decision :: "mission \<Rightarrow> string \<Rightarrow> mission" where
  "mission_record_policy_decision s decision_id =
    s\<lparr>ms_policyDecisionIds := add_once decision_id (ms_policyDecisionIds s)\<rparr>"

datatype mission_op = MissionTransition string | MissionPolicyDecision string

fun mission_step :: "mission \<Rightarrow> mission_op \<Rightarrow> mission res" where
  "mission_step s (MissionTransition t) = mission_transition s t"
| "mission_step s (MissionPolicyDecision d) = Inr (mission_record_policy_decision s d)"

lemmas mission_defs = mission_transition_def mission_record_policy_decision_def MISSION_TERMINAL_def Let_def

lemma mission_transition_Inr:
  "mission_transition s t = Inr s' \<longleftrightarrow>
    ms_state s \<notin> set MISSION_TERMINAL \<and> allowed MISSION_TRANSITIONS (ms_state s) t \<and> s' = s\<lparr>ms_state := t\<rparr>"
  by (auto simp: mission_transition_def Let_def)

lemma mission_terminal_no_exit: "s \<in> set MISSION_TERMINAL \<Longrightarrow> \<not> allowed MISSION_TRANSITIONS s t"
  by (auto simp: MISSION_TERMINAL_def MISSION_TRANSITIONS_def allowed_def)

interpretation mission_lc: lifecycle MISSION_TRANSITIONS MISSION_TERMINAL ms_state ms_missionId mission_step
proof unfold_locales
  fix x a y assume "mission_step x a = Inr y"
  then show "ms_state y = ms_state x \<or> allowed MISSION_TRANSITIONS (ms_state x) (ms_state y)"
    and "ms_missionId y = ms_missionId x"
    by (cases a; auto simp: mission_transition_Inr mission_record_policy_decision_def)+
qed (rule mission_terminal_no_exit)

text \<open>Operations never rewrite what a mission was created with.\<close>

lemma mission_spec_fields_kept [keeps]:
  "mission_step s a = Inr s' \<Longrightarrow>
     ms_objectives s' = ms_objectives s \<and> ms_successCriteria s' = ms_successCriteria s \<and>
     ms_terminationCriteria s' = ms_terminationCriteria s \<and>
     ms_externalCommitments s' = ms_externalCommitments s"
  by (cases a) (auto simp: mission_transition_Inr mission_record_policy_decision_def)


definition sample_spec :: mission_spec where
  "sample_spec = \<lparr>sp_missionId = ''m1'', sp_rawRequest = ''r'', sp_normalizedRequest = ''r'',
     sp_objectives = [\<lparr>ob_objectiveId = ''o1'', ob_statement = ''s'', ob_priority = 1\<rparr>],
     sp_constraints = [],
     sp_successCriteria = [\<lparr>cr_criterionId = ''c1'', cr_statement = ''s'',
       cr_requiresVerification = Some True, cr_terminalState = None\<rparr>],
     sp_terminationCriteria = [], sp_unresolvedAmbiguities = [], sp_externalCommitments = None,
     sp_taskGraphId = None, sp_createdAt = ''2026-01-01T00:00:00Z''\<rparr>"


section \<open>Task\<close>

record task_node =
  tn_taskId :: string
  tn_missionId :: string
  tn_title :: string
  tn_state :: "string option"
  tn_capabilityRequirements :: "json list"
  tn_attempt :: "int option"
  tn_maxAttempts :: "int option"
  tn_assignedDriverId :: "string option"
  tn_recoveryState :: "string option"
  tn_dependencies :: "string list option"
  tn_consequential :: "bool option"

record task =
  tk_taskId :: string
  tk_missionId :: string
  tk_title :: string
  tk_state :: string
  tk_capabilityRequirements :: "json list"
  tk_attempt :: int
  tk_maxAttempts :: int
  tk_assignedDriverId :: "string option"
  tk_recoveryState :: string
  tk_dependencies :: "string list"
  tk_consequential :: bool
  tk_resultRefs :: "string list"

definition TASK_TERMINAL :: "string list" where
  "TASK_TERMINAL = [''succeeded'', ''failed'', ''cancelled'']"

definition TASK_TRANSITIONS :: table where
  "TASK_TRANSITIONS = [
    (''pending'', [''ready'', ''cancelled'']),
    (''ready'', [''assigned'', ''cancelled'']),
    (''assigned'', [''running'', ''cancelled'', ''failed'']),
    (''running'', [''awaiting_verification'', ''suspended'', ''succeeded'', ''failed'', ''cancelled'']),
    (''suspended'', [''running'', ''cancelled'', ''failed'']),
    (''awaiting_verification'', [''succeeded'', ''failed'', ''cancelled'']),
    (''succeeded'', []),
    (''failed'', []),
    (''cancelled'', [])]"

definition TASK_OWNED :: "string list" where
  "TASK_OWNED = [''task.state'', ''task.attempt'', ''task.maxAttempts'', ''task.assignedDriverId'',
    ''task.recoveryState'', ''task.dependencies'', ''task.consequential'', ''task.resultRefs'']"

definition task_stream_id :: "string \<Rightarrow> string" where
  "task_stream_id task_id = ''task-'' @ task_id"

text \<open>\<^verbatim>\<open>d.get(k, default)\<close>.\<close>

definition default_to :: "'a \<Rightarrow> 'a option \<Rightarrow> 'a" where
  "default_to d x = (case x of None \<Rightarrow> d | Some v \<Rightarrow> v)"

lemma default_to_simps [simp]: "default_to d None = d" "default_to d (Some v) = v"
  by (simp_all add: default_to_def)

definition task_create :: "task_node \<Rightarrow> task" where
  "task_create node = \<lparr>
    tk_taskId = tn_taskId node,
    tk_missionId = tn_missionId node,
    tk_title = tn_title node,
    tk_state = default_to ''pending'' (tn_state node),
    tk_capabilityRequirements = tn_capabilityRequirements node,
    tk_attempt = default_to 0 (tn_attempt node),
    tk_maxAttempts = default_to 1 (tn_maxAttempts node),
    tk_assignedDriverId = tn_assignedDriverId node,
    tk_recoveryState = default_to ''none'' (tn_recoveryState node),
    tk_dependencies = default_to [] (tn_dependencies node),
    tk_consequential = default_to False (tn_consequential node),
    tk_resultRefs = []\<rparr>"

definition task_transition :: "task \<Rightarrow> string \<Rightarrow> string option \<Rightarrow> task res" where
  "task_transition s to_state driver_id =
    (let current = tk_state s in
     raise_if (current \<in> set TASK_TERMINAL)
       (IllegalTransition (''task '' @ tk_taskId s @ '' is terminal'') current to_state) (
     raise_if (\<not> allowed TASK_TRANSITIONS current to_state)
       (IllegalTransition (''task '' @ tk_taskId s) current to_state) (
     let nxt = s\<lparr>tk_state := to_state\<rparr>;
         nxt = (if to_state = ''running'' then nxt\<lparr>tk_attempt := tk_attempt s + 1\<rparr> else nxt) in
     raise_if (to_state = ''running'' \<and> tk_attempt nxt > tk_maxAttempts s)
       (IllegalTransition (''task '' @ tk_taskId s @ '' exceeded maxAttempts '' @ str_int (tk_maxAttempts s))
          current to_state) (
     Inr (case driver_id of None \<Rightarrow> nxt | Some d \<Rightarrow> nxt\<lparr>tk_assignedDriverId := Some d\<rparr>)))))"

definition task_record_result :: "task \<Rightarrow> string \<Rightarrow> task" where
  "task_record_result s result_ref = s\<lparr>tk_resultRefs := add_once result_ref (tk_resultRefs s)\<rparr>"

datatype task_op = TaskTransition string "string option" | TaskRecordResult string

fun task_step :: "task \<Rightarrow> task_op \<Rightarrow> task res" where
  "task_step s (TaskTransition t d) = task_transition s t d"
| "task_step s (TaskRecordResult r) = Inr (task_record_result s r)"

lemma task_transition_Inr:
  "task_transition s t d = Inr s' \<longleftrightarrow>
    tk_state s \<notin> set TASK_TERMINAL \<and> allowed TASK_TRANSITIONS (tk_state s) t
    \<and> (t = ''running'' \<longrightarrow> tk_attempt s + 1 \<le> tk_maxAttempts s)
    \<and> s' = s\<lparr>tk_state := t,
             tk_attempt := (if t = ''running'' then tk_attempt s + 1 else tk_attempt s),
             tk_assignedDriverId := (case d of None \<Rightarrow> tk_assignedDriverId s | Some v \<Rightarrow> Some v)\<rparr>"
  by (auto simp: task_transition_def Let_def split: option.splits)

lemma task_terminal_no_exit: "s \<in> set TASK_TERMINAL \<Longrightarrow> \<not> allowed TASK_TRANSITIONS s t"
  by (auto simp: TASK_TERMINAL_def TASK_TRANSITIONS_def allowed_def)

interpretation task_lc: lifecycle TASK_TRANSITIONS TASK_TERMINAL tk_state tk_taskId task_step
proof unfold_locales
  fix x a y assume "task_step x a = Inr y"
  then show "tk_state y = tk_state x \<or> allowed TASK_TRANSITIONS (tk_state x) (tk_state y)"
    and "tk_taskId y = tk_taskId x"
    by (cases a; auto simp: task_transition_Inr task_record_result_def)+
qed (rule task_terminal_no_exit)

text \<open>How many times a list of attempted operations put the task into \<open>running\<close>.\<close>

fun starts_op :: "task_op \<Rightarrow> nat" where
  "starts_op (TaskTransition t _) = (if t = ''running'' then 1 else 0)"
| "starts_op (TaskRecordResult _) = 0"

fun task_starts :: "task \<Rightarrow> task_op list \<Rightarrow> nat" where
  "task_starts s [] = 0"
| "task_starts s (a # as) = (case task_step s a of
     Inl _ \<Rightarrow> task_starts s as
   | Inr s' \<Rightarrow> starts_op a + task_starts s' as)"

lemma task_step_attempt:
  "task_step s a = Inr s' \<Longrightarrow>
     tk_attempt s' = tk_attempt s + int (starts_op a) \<and> tk_maxAttempts s' = tk_maxAttempts s
     \<and> (starts_op a = 1 \<longrightarrow> tk_attempt s' \<le> tk_maxAttempts s')"
  by (cases a) (auto simp: task_transition_Inr task_record_result_def)

lemma starts_op_cases: "starts_op a = 0 \<or> starts_op a = 1"
  by (cases a) auto

lemma task_attempt_counts:
  "tk_attempt (attempt task_step s ops) = tk_attempt s + int (task_starts s ops)
   \<and> tk_maxAttempts (attempt task_step s ops) = tk_maxAttempts s"
proof (induction ops arbitrary: s)
  case (Cons a ops)
  show ?case
  proof (cases "task_step s a")
    case (Inr s')
    with Cons[of s'] task_step_attempt[OF Inr] show ?thesis by simp
  qed (use Cons in simp)
qed simp

lemma task_attempt_bound:
  assumes "tk_attempt s \<le> tk_maxAttempts s"
  shows "tk_attempt (attempt task_step s ops) \<le> tk_maxAttempts (attempt task_step s ops)"
proof (rule attempt_invariant [where P = "\<lambda>s. tk_attempt s \<le> tk_maxAttempts s", OF _ assms])
  fix s a s' assume "tk_attempt s \<le> tk_maxAttempts s" "task_step s a = Inr s'"
  then show "tk_attempt s' \<le> tk_maxAttempts s'"
    using task_step_attempt[of s a s'] starts_op_cases[of a] by auto
qed

text \<open>
  C23. The attempt budget of a task: over any sequence of attempted operations the attempt
  counter grows by exactly the number of times the task entered \<open>running\<close> (resuming a
  suspended task counts), and a task created within its budget is started at most
  \<open>maxAttempts - attempt\<close> times; terminal states are final.
\<close>

theorem task_attempt_budget:
  assumes "tk_attempt s \<le> tk_maxAttempts s"
  shows "tk_attempt s + int (task_starts s ops) \<le> tk_maxAttempts s
    \<and> tk_attempt (attempt task_step s ops) = tk_attempt s + int (task_starts s ops)
    \<and> (tk_state s \<in> set TASK_TERMINAL \<longrightarrow> tk_state (attempt task_step s ops) = tk_state s)"
  using task_attempt_bound[OF assms, of ops] task_attempt_counts[of s ops] task_lc.terminal_absorbing[of s ops]
  by simp

definition sample_node :: task_node where
  "sample_node = \<lparr>tn_taskId = ''t1'', tn_missionId = ''m1'', tn_title = ''t'', tn_state = None,
     tn_capabilityRequirements = [], tn_attempt = None, tn_maxAttempts = None,
     tn_assignedDriverId = None, tn_recoveryState = None, tn_dependencies = None, tn_consequential = None\<rparr>"

definition sample_task_ops :: "task_op list" where
  "sample_task_ops = [TaskTransition ''ready'' None, TaskTransition ''assigned'' (Some ''d1''),
     TaskTransition ''running'' None, TaskTransition ''suspended'' None, TaskTransition ''running'' None]"

lemmas task_eval = task_transition_def task_create_def TASK_TERMINAL_def TASK_TRANSITIONS_def
  allowed_def raise_if_def sample_node_def sample_task_ops_def Let_def

theorem task_attempt_budget_witness:
  "tk_attempt (attempt task_step (task_create sample_node) sample_task_ops) = 1
   \<and> task_starts (task_create sample_node) sample_task_ops = 1
   \<and> tk_state (attempt task_step (task_create sample_node) sample_task_ops) = ''suspended''"
proof -
  have h: "tk_attempt (task_create sample_node) \<le> tk_maxAttempts (task_create sample_node)"
    by (simp add: task_eval)
  have n: "task_starts (task_create sample_node) sample_task_ops = 1"
    and st: "tk_state (attempt task_step (task_create sample_node) sample_task_ops) = ''suspended''"
    by (simp_all add: task_eval)
  show ?thesis
    using task_attempt_budget [OF h, of sample_task_ops] n st by (simp add: task_create_def sample_node_def)
qed

end
