(* ===== verification/Capability.thy ===== *)
theory Capability
  imports Mission_Task
begin

text \<open>
  \<^verbatim>\<open>capt_runtime/aggregates/capability.py\<close>: scopes and their containment, and the capability
  aggregate: one grant with its lease, reservations, consumptions, revocation and expiry.
\<close>

section \<open>Scopes\<close>

text \<open>The tagged union of \<^verbatim>\<open>ResourceScope\<close>; \<open>OtherScope\<close> is a kind the code does not know.\<close>

datatype scope =
    NoneScope
  | FilesystemScope (rootPath: string) (recursive: bool)
  | RepositoryScope (repositoryId: string) (refPattern: string)
  | NetworkScope (hosts: "string list")
  | ToolScope (toolIds: "string list")
  | OtherScope (otherKind: string)

text \<open>\<^verbatim>\<open>path.rstrip("/") or "/"\<close>.\<close>

definition norm_root :: "string \<Rightarrow> string" where
  "norm_root p = (let r = rstrip_char (CHR ''/'') p in if r = [] then ''/'' else r)"

fun scope_contains :: "scope \<Rightarrow> scope \<Rightarrow> bool" where
  "scope_contains NoneScope NoneScope = True"
| "scope_contains (FilesystemScope p outer_rec) (FilesystemScope q inner_rec) =
    (let outer_root = norm_root p; inner_root = norm_root q in
     if \<not> outer_rec then inner_root = outer_root \<and> \<not> inner_rec
     else if inner_root = outer_root then True
     else starts_with inner_root (outer_root @ ''/''))"
| "scope_contains (RepositoryScope i p) (RepositoryScope j q) = (i = j \<and> (p = q \<or> p = ''*''))"
| "scope_contains (NetworkScope hs) (NetworkScope is) = (set is \<subseteq> set hs)"
| "scope_contains (ToolScope ts) (ToolScope us) = (set us \<subseteq> set ts)"
| "scope_contains _ _ = False"

text \<open>Below or at a root, on path-segment boundaries.\<close>

definition under :: "string \<Rightarrow> string \<Rightarrow> bool" where
  "under r q \<longleftrightarrow> q = r \<or> prefix (r @ ''/'') q"

lemma under_trans: "under a b \<Longrightarrow> under b c \<Longrightarrow> under a c"
  by (auto simp: under_def prefix_def)

lemma scope_contains_fs:
  "scope_contains (FilesystemScope p rp) (FilesystemScope q rq) \<longleftrightarrow>
     (if rp then under (norm_root p) (norm_root q) else norm_root q = norm_root p \<and> \<not> rq)"
  by (auto simp: under_def starts_with_iff_prefix Let_def)

lemma scope_contains_refl: "(\<nexists>k. s = OtherScope k) \<Longrightarrow> scope_contains s s"
  by (cases s) (auto simp: Let_def)

lemma scope_contains_trans:
  assumes "scope_contains a b" and "scope_contains b c"
  shows "scope_contains a c"
proof (cases "\<exists>p rp. a = FilesystemScope p rp")
  case True
  then obtain p rp where a: "a = FilesystemScope p rp" by blast
  with assms(1) obtain q rq where b: "b = FilesystemScope q rq" by (cases b) auto
  with assms(2) obtain r rr where c: "c = FilesystemScope r rr" by (cases c) auto
  show ?thesis
    using assms unfolding a b c scope_contains_fs
    by (auto split: if_splits intro: under_trans)
next
  case False
  with assms show ?thesis by (cases a; cases b; cases c) auto
qed



section \<open>The aggregate's state\<close>

record cap_lease =
  cl_leaseId :: string
  cl_missionId :: string
  cl_taskId :: string
  cl_executionContextId :: string
  cl_operations :: "string list"
  cl_scope :: scope
  cl_maxUses :: "int option"
  cl_validFrom :: string
  cl_validUntil :: string
  cl_state :: string

record reservation =
  rv_reservationId :: string
  rv_leaseId :: string
  rv_operation :: string
  rv_operationFingerprint :: string
  rv_idempotencyKey :: string
  rv_state :: string

record consumption =
  cn_consumptionId :: string
  cn_reservationId :: string
  cn_leaseId :: string
  cn_outcome :: string
  cn_sideEffectIdentity :: "string option"

record revocation =
  rk_revocationId :: string
  rk_targetKind :: string
  rk_targetId :: string
  rk_reason :: string
  rk_revokedBy :: string

record capability =
  cs_grantId :: string
  cs_grantState :: string
  cs_capabilityId :: string
  cs_subjectActorId :: string
  cs_operations :: "string list"
  cs_scope :: scope
  cs_conditions :: "json list"
  cs_policyDecisionId :: string
  cs_policyBundleDigest :: string
  cs_approvalRequestId :: "string option"
  cs_externalCommitments :: "json list"
  cs_maxUses :: "int option"
  cs_usesConsumed :: int
  cs_validFrom :: string
  cs_validUntil :: string
  cs_lease :: "cap_lease option"
  cs_reservations :: "reservation list"
  cs_consumptions :: "consumption list"
  cs_revocation :: "revocation option"

text \<open>The payloads the operations take (the contract's grant, lease, reservation records).\<close>

record actor =
  ac_actorId :: string
  ac_kind :: string

record grant =
  gr_grantId :: string
  gr_capabilityId :: string
  gr_subject :: actor
  gr_operations :: "string list"
  gr_scope :: scope
  gr_conditions :: "json list"
  gr_policyDecisionId :: string
  gr_policyBundleDigest :: string
  gr_approvalRequestId :: "string option"
  gr_externalCommitments :: "json list option"
  gr_maxUses :: "int option"
  gr_validFrom :: string
  gr_validUntil :: string
  gr_issuedBy :: actor
  gr_issuedAt :: string

record lease_req =
  lq_leaseId :: string
  lq_grantId :: string
  lq_missionId :: string
  lq_taskId :: string
  lq_executionContextId :: string
  lq_operations :: "string list"
  lq_scope :: scope
  lq_maxUses :: "int option"
  lq_validFrom :: string
  lq_validUntil :: string

record reservation_req =
  rq_reservationId :: string
  rq_leaseId :: string
  rq_operation :: string
  rq_operationFingerprint :: string
  rq_idempotencyKey :: string
  rq_reservedAt :: string

record revocation_req =
  vq_revocationId :: string
  vq_targetKind :: string
  vq_targetId :: string
  vq_reason :: string
  vq_revokedBy :: actor

definition CAPABILITY_OWNED :: "string list" where
  "CAPABILITY_OWNED = [''capability.grantState'', ''capability.operations'', ''capability.scope'',
    ''capability.conditions'', ''capability.maxUses'', ''capability.usesConsumed'',
    ''capability.validFrom'', ''capability.validUntil'', ''capability.lease'',
    ''capability.reservations'', ''capability.consumptions'', ''capability.revocation'']"

definition capability_stream_id :: "string \<Rightarrow> string" where
  "capability_stream_id grant_id = ''capability-'' @ grant_id"

section \<open>Operations\<close>

definition cap_grant :: "grant \<Rightarrow> capability" where
  "cap_grant g = \<lparr>
    cs_grantId = gr_grantId g,
    cs_grantState = ''granted'',
    cs_capabilityId = gr_capabilityId g,
    cs_subjectActorId = ac_actorId (gr_subject g),
    cs_operations = gr_operations g,
    cs_scope = gr_scope g,
    cs_conditions = gr_conditions g,
    cs_policyDecisionId = gr_policyDecisionId g,
    cs_policyBundleDigest = gr_policyBundleDigest g,
    cs_approvalRequestId = gr_approvalRequestId g,
    cs_externalCommitments = or_empty (gr_externalCommitments g),
    cs_maxUses = gr_maxUses g,
    cs_usesConsumed = 0,
    cs_validFrom = gr_validFrom g,
    cs_validUntil = gr_validUntil g,
    cs_lease = None,
    cs_reservations = [],
    cs_consumptions = [],
    cs_revocation = None\<rparr>"

text \<open>\<^verbatim>\<open>grant_max is not None and (lease_max is None or lease_max > grant_max)\<close>.\<close>

definition exceeds_max :: "int option \<Rightarrow> int option \<Rightarrow> bool" where
  "exceeds_max lease_max grant_max = (case grant_max of None \<Rightarrow> False
     | Some g \<Rightarrow> (case lease_max of None \<Rightarrow> True | Some l \<Rightarrow> l > g))"

definition cap_activate_lease :: "capability \<Rightarrow> lease_req \<Rightarrow> capability res" where
  "cap_activate_lease s l =
    raise_if (cs_grantState s \<noteq> ''granted'')
      (IllegalTransition (''grant '' @ cs_grantId s) (cs_grantState s) ''leased'') (
    raise_if (cs_revocation s \<noteq> None)
      (CapabilityDenied (''grant '' @ cs_grantId s @ '' is revoked'') None) (
    raise_if (lq_grantId l \<noteq> cs_grantId s)
      (CapabilityDenied ''lease references a different grant'' None) (
    raise_if (\<not> set (lq_operations l) \<subseteq> set (cs_operations s))
      (CapabilityDenied ''lease operations exceed grant operations'' None) (
    raise_if (\<not> scope_contains (cs_scope s) (lq_scope l))
      (CapabilityDenied ''lease scope is not contained by grant scope'' (Some (lq_leaseId l))) (
    raise_if (lq_validFrom l < cs_validFrom s \<or> lq_validUntil l > cs_validUntil s)
      (CapabilityDenied ''lease validity window exceeds grant window'' (Some (lq_leaseId l))) (
    raise_if (exceeds_max (lq_maxUses l) (cs_maxUses s))
      (CapabilityDenied ''lease maxUses exceeds grant maxUses'' (Some (lq_leaseId l))) (
    Inr (s\<lparr>cs_grantState := ''leased'',
           cs_lease := Some \<lparr>
             cl_leaseId = lq_leaseId l,
             cl_missionId = lq_missionId l,
             cl_taskId = lq_taskId l,
             cl_executionContextId = lq_executionContextId l,
             cl_operations = lq_operations l,
             cl_scope = lq_scope l,
             cl_maxUses = lq_maxUses l,
             cl_validFrom = lq_validFrom l,
             cl_validUntil = lq_validUntil l,
             cl_state = ''active''\<rparr>\<rparr>))))))))"

text \<open>\<^verbatim>\<open>lease["maxUses"] if lease["maxUses"] is not None else state["maxUses"]\<close>.\<close>

definition effective_max :: "capability \<Rightarrow> int option" where
  "effective_max s = (case cs_lease s of None \<Rightarrow> cs_maxUses s
     | Some l \<Rightarrow> (case cl_maxUses l of None \<Rightarrow> cs_maxUses s | Some m \<Rightarrow> Some m))"

definition exhausted :: "capability \<Rightarrow> bool" where
  "exhausted s = (case effective_max s of None \<Rightarrow> False | Some m \<Rightarrow> cs_usesConsumed s \<ge> m)"

definition cap_check_lease :: "capability \<Rightarrow> string \<Rightarrow> string \<Rightarrow> scope \<Rightarrow> string \<Rightarrow> unit res" where
  "cap_check_lease s lease_id operation sc now =
    (case cs_revocation s of
       Some r \<Rightarrow> Inl (CapabilityDenied (''grant '' @ cs_grantId s @ '' was revoked: '' @ rk_reason r) (Some lease_id))
     | None \<Rightarrow>
    (case cs_lease s of
       None \<Rightarrow> Inl (CapabilityDenied (''no active lease on grant '' @ cs_grantId s) (Some lease_id))
     | Some lease \<Rightarrow>
    raise_if (cl_leaseId lease \<noteq> lease_id)
      (CapabilityDenied (''lease '' @ lease_id @ '' is not active on this grant'') (Some lease_id)) (
    raise_if (cl_state lease \<noteq> ''active'')
      (CapabilityDenied (''lease '' @ lease_id @ '' is '' @ cl_state lease @ '', not active'') (Some lease_id)) (
    raise_if (now < cl_validFrom lease)
      (CapabilityDenied (''lease '' @ lease_id @ '' is not yet valid'') (Some lease_id)) (
    raise_if (now > cl_validUntil lease)
      (CapabilityDenied (''lease '' @ lease_id @ '' expired at '' @ cl_validUntil lease) (Some lease_id)) (
    raise_if (now > cs_validUntil s)
      (CapabilityDenied (''grant '' @ cs_grantId s @ '' expired at '' @ cs_validUntil s) (Some lease_id)) (
    raise_if (operation \<notin> set (cl_operations lease))
      (CapabilityDenied (''operation is not in lease '' @ lease_id) (Some lease_id)) (
    raise_if (\<not> scope_contains (cl_scope lease) sc)
      (CapabilityDenied (''requested scope is not contained by lease '' @ lease_id) (Some lease_id)) (
    raise_if (exhausted s)
      (CapabilityDenied (''lease '' @ lease_id @ '' exhausted'') (Some lease_id)) (
    Inr ()))))))))))"

text \<open>
  \<^verbatim>\<open>reserve\<close> reads \<^verbatim>\<open>state["lease"]["scope"]\<close> to build the arguments of \<^verbatim>\<open>check_lease\<close>, so
  a grant with no lease raises \<^verbatim>\<open>TypeError\<close> before any check. The loop over the existing
  reservations raises at the first that carries the same identifier or an open one with
  the same idempotency key.
\<close>

fun reservation_conflict :: "reservation list \<Rightarrow> reservation_req \<Rightarrow> py_error option" where
  "reservation_conflict [] r = None"
| "reservation_conflict (x # xs) r =
    (if rv_reservationId x = rq_reservationId r
     then Some (CapabilityDenied (''reservation '' @ rq_reservationId r @ '' already exists'') None)
     else if rv_idempotencyKey x = rq_idempotencyKey r \<and> rv_state x = ''open''
     then Some (CapabilityDenied (''an open reservation already holds idempotency key '' @ rq_idempotencyKey r) None)
     else reservation_conflict xs r)"

definition cap_reserve :: "capability \<Rightarrow> reservation_req \<Rightarrow> string \<Rightarrow> capability res" where
  "cap_reserve s r now =
    (case cs_lease s of
       None \<Rightarrow> Inl (TypeError ''NoneType object is not subscriptable'')
     | Some lease \<Rightarrow>
    bnd (cap_check_lease s (rq_leaseId r) (rq_operation r) (cl_scope lease) now) (\<lambda>_.
    (case reservation_conflict (cs_reservations s) r of
       Some e \<Rightarrow> Inl e
     | None \<Rightarrow>
    Inr (s\<lparr>cs_reservations := cs_reservations s @ [\<lparr>
             rv_reservationId = rq_reservationId r,
             rv_leaseId = rq_leaseId r,
             rv_operation = rq_operation r,
             rv_operationFingerprint = rq_operationFingerprint r,
             rv_idempotencyKey = rq_idempotencyKey r,
             rv_state = ''open''\<rparr>]\<rparr>))))"

definition cap_finalize :: "capability \<Rightarrow> consumption \<Rightarrow> capability res" where
  "cap_finalize s c =
    (let reservation_id = cn_reservationId c in
     case find (\<lambda>r. rv_reservationId r = reservation_id) (cs_reservations s) of
       None \<Rightarrow> Inl (CapabilityDenied (''no reservation '' @ reservation_id) None)
     | Some found \<Rightarrow>
     raise_if (rv_state found \<noteq> ''open'')
       (CapabilityDenied (''reservation '' @ reservation_id @ '' is already '' @ rv_state found
          @ ''; duplicate consumption rejected'') None) (
     let outcome = cn_outcome c;
         new_reservation_state = (if outcome = ''indeterminate'' then ''awaiting_reconciliation'' else ''finalized'');
         nxt = s\<lparr>cs_reservations := map (\<lambda>r. if rv_reservationId r = reservation_id
                       then r\<lparr>rv_state := new_reservation_state\<rparr> else r) (cs_reservations s),
                 cs_consumptions := cs_consumptions s @ [c]\<rparr>;
         nxt = (if outcome \<in> {''succeeded'', ''indeterminate''}
                then nxt\<lparr>cs_usesConsumed := cs_usesConsumed s + 1\<rparr> else nxt) in
     Inr (if exhausted nxt
          then nxt\<lparr>cs_grantState := ''consumed'',
                   cs_lease := map_option (\<lambda>l. l\<lparr>cl_state := ''exhausted''\<rparr>) (cs_lease nxt)\<rparr>
          else nxt)))"

definition cap_revoke :: "capability \<Rightarrow> revocation_req \<Rightarrow> capability res" where
  "cap_revoke s v =
    raise_if (cs_revocation s \<noteq> None)
      (IllegalTransition (''grant '' @ cs_grantId s) ''revoked'' ''revoked'') (
    Inr (s\<lparr>cs_grantState := ''revoked'',
           cs_revocation := Some \<lparr>
             rk_revocationId = vq_revocationId v,
             rk_targetKind = vq_targetKind v,
             rk_targetId = vq_targetId v,
             rk_reason = vq_reason v,
             rk_revokedBy = ac_actorId (vq_revokedBy v)\<rparr>,
           cs_lease := map_option (\<lambda>l. l\<lparr>cl_state := ''revoked''\<rparr>) (cs_lease s)\<rparr>))"

definition cap_expire :: "capability \<Rightarrow> string \<Rightarrow> capability" where
  "cap_expire s now =
    (if cs_revocation s \<noteq> None then s
     else if now \<le> cs_validUntil s then s
     else s\<lparr>cs_grantState := ''expired'',
            cs_lease := map_option (\<lambda>l. l\<lparr>cl_state := ''expired''\<rparr>) (cs_lease s)\<rparr>)"

definition cap_open_reservations :: "capability \<Rightarrow> string list" where
  "cap_open_reservations s =
    map rv_reservationId (filter (\<lambda>r. rv_state r = ''open'') (cs_reservations s))"

definition cap_unresolved_reservations :: "capability \<Rightarrow> string list" where
  "cap_unresolved_reservations s =
    map rv_reservationId (filter (\<lambda>r. rv_state r \<in> {''open'', ''awaiting_reconciliation''}) (cs_reservations s))"

datatype cap_op =
    ActivateLease lease_req
  | Reserve reservation_req string
  | Finalize consumption
  | Revoke revocation_req
  | Expire string

fun cap_step :: "capability \<Rightarrow> cap_op \<Rightarrow> capability res" where
  "cap_step s (ActivateLease l) = cap_activate_lease s l"
| "cap_step s (Reserve r now) = cap_reserve s r now"
| "cap_step s (Finalize c) = cap_finalize s c"
| "cap_step s (Revoke v) = cap_revoke s v"
| "cap_step s (Expire now) = Inr (cap_expire s now)"

end
