(* ===== verification/Capability_Safety.thy ===== *)
theory Capability_Safety
  imports Capability
begin

text \<open>
  What the capability aggregate guarantees over whole histories of attempted operations:
  the lease stays inside its grant, every reservation is consumed at most once and every
  counted use has its consumption record, revocation is final for new uses, and the use
  budget holds for histories with one open reservation at a time (and can be exceeded by
  histories with several).
\<close>

section \<open>The operations as relations\<close>

lemma cap_activate_Inr:
  "cap_activate_lease s l = Inr s' \<longleftrightarrow>
     cs_grantState s = ''granted'' \<and> cs_revocation s = None \<and> lq_grantId l = cs_grantId s
     \<and> set (lq_operations l) \<subseteq> set (cs_operations s) \<and> scope_contains (cs_scope s) (lq_scope l)
     \<and> \<not> lq_validFrom l < cs_validFrom s \<and> \<not> lq_validUntil l > cs_validUntil s
     \<and> \<not> exceeds_max (lq_maxUses l) (cs_maxUses s)
     \<and> s' = s\<lparr>cs_grantState := ''leased'', cs_lease := Some
         \<lparr>cl_leaseId = lq_leaseId l, cl_missionId = lq_missionId l, cl_taskId = lq_taskId l,
          cl_executionContextId = lq_executionContextId l, cl_operations = lq_operations l,
          cl_scope = lq_scope l, cl_maxUses = lq_maxUses l, cl_validFrom = lq_validFrom l,
          cl_validUntil = lq_validUntil l, cl_state = ''active''\<rparr>\<rparr>"
  by (auto simp: cap_activate_lease_def)

lemma cap_check_Inr:
  "cap_check_lease s i oper sc now = Inr u \<longleftrightarrow>
     cs_revocation s = None \<and> (\<exists>l. cs_lease s = Some l \<and> cl_leaseId l = i \<and> cl_state l = ''active''
       \<and> \<not> now < cl_validFrom l \<and> \<not> now > cl_validUntil l \<and> \<not> now > cs_validUntil s
       \<and> oper \<in> set (cl_operations l) \<and> scope_contains (cl_scope l) sc \<and> \<not> exhausted s)"
  by (auto simp: cap_check_lease_def split: option.splits)

lemma reservation_conflict_None:
  "reservation_conflict xs r = None \<longleftrightarrow>
     (\<forall>x\<in>set xs. rv_reservationId x \<noteq> rq_reservationId r
        \<and> \<not> (rv_idempotencyKey x = rq_idempotencyKey r \<and> rv_state x = ''open''))"
  by (induction xs) auto

definition new_reservation :: "reservation_req \<Rightarrow> reservation" where
  "new_reservation r = \<lparr>rv_reservationId = rq_reservationId r, rv_leaseId = rq_leaseId r,
     rv_operation = rq_operation r, rv_operationFingerprint = rq_operationFingerprint r,
     rv_idempotencyKey = rq_idempotencyKey r, rv_state = ''open''\<rparr>"

lemma new_reservation_simps [simp]:
  "rv_reservationId (new_reservation r) = rq_reservationId r"
  "rv_state (new_reservation r) = ''open''" "rv_operation (new_reservation r) = rq_operation r"
  "rv_leaseId (new_reservation r) = rq_leaseId r"
  by (simp_all add: new_reservation_def)

lemma cap_reserve_Inr:
  "cap_reserve s r now = Inr s' \<longleftrightarrow>
     (\<exists>l. cs_lease s = Some l \<and> cap_check_lease s (rq_leaseId r) (rq_operation r) (cl_scope l) now = Inr ())
     \<and> reservation_conflict (cs_reservations s) r = None
     \<and> s' = s\<lparr>cs_reservations := cs_reservations s @ [new_reservation r]\<rparr>"
  by (auto simp: cap_reserve_def new_reservation_def split: option.splits)

text \<open>The grant's own fields never change; a lease keeps everything but its state.\<close>

definition same_grant :: "capability \<Rightarrow> capability \<Rightarrow> bool" where
  "same_grant s s' \<longleftrightarrow> cs_grantId s' = cs_grantId s \<and> cs_operations s' = cs_operations s
     \<and> cs_scope s' = cs_scope s \<and> cs_maxUses s' = cs_maxUses s \<and> cs_validFrom s' = cs_validFrom s
     \<and> cs_validUntil s' = cs_validUntil s \<and> cs_conditions s' = cs_conditions s
     \<and> cs_capabilityId s' = cs_capabilityId s \<and> cs_subjectActorId s' = cs_subjectActorId s
     \<and> cs_policyDecisionId s' = cs_policyDecisionId s \<and> cs_approvalRequestId s' = cs_approvalRequestId s"

definition counted :: "string \<Rightarrow> bool" where
  "counted out \<longleftrightarrow> out = ''succeeded'' \<or> out = ''indeterminate''"

definition close_reservation :: "string \<Rightarrow> string \<Rightarrow> reservation list \<Rightarrow> reservation list" where
  "close_reservation i out = map (\<lambda>r. if rv_reservationId r = i
     then r\<lparr>rv_state := (if out = ''indeterminate'' then ''awaiting_reconciliation'' else ''finalized'')\<rparr> else r)"

lemma close_reservation_ids [simp]:
  "map rv_reservationId (close_reservation i out rs) = map rv_reservationId rs"
  by (simp add: close_reservation_def)

lemma cap_finalize_Inr:
  "cap_finalize s c = Inr s' \<Longrightarrow>
     (\<exists>f. find (\<lambda>r. rv_reservationId r = cn_reservationId c) (cs_reservations s) = Some f \<and> rv_state f = ''open'')
     \<and> cs_reservations s' = close_reservation (cn_reservationId c) (cn_outcome c) (cs_reservations s)
     \<and> cs_consumptions s' = cs_consumptions s @ [c]
     \<and> cs_usesConsumed s' = cs_usesConsumed s + (if counted (cn_outcome c) then 1 else 0)
     \<and> cs_revocation s' = cs_revocation s \<and> same_grant s s'
     \<and> (cs_lease s' = cs_lease s \<or> cs_lease s' = map_option (\<lambda>l. l\<lparr>cl_state := ''exhausted''\<rparr>) (cs_lease s))
     \<and> (cs_grantState s' = cs_grantState s \<or> cs_grantState s' = ''consumed'')"
  by (auto simp: cap_finalize_def same_grant_def close_reservation_def counted_def Let_def
      split: option.splits if_splits)

lemma same_grant_step [keeps]: "cap_step s a = Inr s' \<Longrightarrow> same_grant s s'"
  by (cases a)
     (auto simp: same_grant_def cap_activate_Inr cap_reserve_Inr cap_revoke_def cap_expire_def
        cap_finalize_def Let_def split: option.splits if_splits)

lemma same_grant_refl: "same_grant s s"
  and same_grant_trans: "same_grant a b \<Longrightarrow> same_grant b c \<Longrightarrow> same_grant a c"
  by (simp_all add: same_grant_def)

lemma same_grant_attempt: "same_grant s (attempt cap_step s ops)"
  by (rule attempt_relation [where P = "\<lambda>_. True" and R = same_grant])
     (auto intro: same_grant_step same_grant_refl same_grant_trans)

section \<open>The lease stays inside the grant\<close>

definition narrowed :: "capability \<Rightarrow> cap_lease \<Rightarrow> bool" where
  "narrowed s l \<longleftrightarrow> set (cl_operations l) \<subseteq> set (cs_operations s)
     \<and> scope_contains (cs_scope s) (cl_scope l)
     \<and> \<not> cl_validFrom l < cs_validFrom s \<and> \<not> cl_validUntil l > cs_validUntil s
     \<and> \<not> exceeds_max (cl_maxUses l) (cs_maxUses s)"

definition lease_inv :: "capability \<Rightarrow> bool" where
  "lease_inv s \<longleftrightarrow>
     (case cs_lease s of None \<Rightarrow> cs_reservations s = [] \<and> cs_usesConsumed s = 0
      | Some l \<Rightarrow> narrowed s l \<and> cs_grantState s \<noteq> ''granted''
          \<and> (\<forall>r\<in>set (cs_reservations s). rv_leaseId r = cl_leaseId l \<and> rv_operation r \<in> set (cl_operations l)))"

lemma lease_inv_grant: "lease_inv (cap_grant g)"
  by (simp add: lease_inv_def cap_grant_def)

lemma lease_inv_step:
  assumes inv: "lease_inv s" and st: "cap_step s a = Inr s'"
  shows "lease_inv s'"
proof (cases a)
  case (ActivateLease q)
  with inv st have "cs_lease s = None"
    by (auto simp: lease_inv_def cap_activate_Inr split: option.splits)
  with inv st ActivateLease show ?thesis
    by (auto simp: lease_inv_def cap_activate_Inr narrowed_def)
next
  case (Reserve r now)
  with inv st show ?thesis
    by (auto simp: lease_inv_def cap_reserve_Inr cap_check_Inr narrowed_def)
next
  case (Finalize c)
  with st have f: "cap_finalize s c = Inr s'" by simp
  have rs: "\<forall>r\<in>set (close_reservation i out rs). \<exists>r'\<in>set rs. rv_leaseId r = rv_leaseId r' \<and> rv_operation r = rv_operation r'"
    for i out rs by (auto simp: close_reservation_def)
  from inv cap_finalize_Inr[OF f] show ?thesis
    by (cases "cs_lease s") (auto simp: lease_inv_def narrowed_def same_grant_def dest!: bspec[OF rs])
next
  case (Revoke v)
  with inv st show ?thesis
    by (cases "cs_lease s") (auto simp: cap_revoke_def lease_inv_def narrowed_def)
next
  case (Expire now)
  with inv st show ?thesis
    by (cases "cs_lease s"; cases "now \<le> cs_validUntil s")
       (auto simp: cap_expire_def lease_inv_def narrowed_def split: if_splits)
qed

lemma lease_inv_attempt: "lease_inv (attempt cap_step (cap_grant g) ops)"
  by (rule attempt_invariant [where P = lease_inv]) (auto intro: lease_inv_step lease_inv_grant)

text \<open>
  C15. Attenuation over whole histories: whatever is attempted on a freshly issued grant,
  the grant's identity, operations, scope, window and limits never change, and any lease
  it ever has stays within them; every reservation ever recorded carries that lease's
  identifier and an operation the grant lists.
\<close>

theorem lease_within_grant:
  "let s = attempt cap_step (cap_grant g) ops in
     same_grant (cap_grant g) s
     \<and> (\<forall>l. cs_lease s = Some l \<longrightarrow>
          set (cl_operations l) \<subseteq> set (gr_operations g) \<and> scope_contains (gr_scope g) (cl_scope l)
          \<and> gr_validFrom g \<le> cl_validFrom l \<and> cl_validUntil l \<le> gr_validUntil g
          \<and> (\<forall>m. gr_maxUses g = Some m \<longrightarrow> (\<exists>k. cl_maxUses l = Some k \<and> k \<le> m))
          \<and> (\<forall>r\<in>set (cs_reservations s). rv_leaseId r = cl_leaseId l))
     \<and> (\<forall>r\<in>set (cs_reservations s). rv_operation r \<in> set (gr_operations g))"
proof -
  define s where "s = attempt cap_step (cap_grant g) ops"
  have inv: "lease_inv s" and same: "same_grant (cap_grant g) s"
    unfolding s_def by (rule lease_inv_attempt, rule same_grant_attempt)
  have g: "cs_operations s = gr_operations g" "cs_scope s = gr_scope g" "cs_maxUses s = gr_maxUses g"
    "cs_validFrom s = gr_validFrom g" "cs_validUntil s = gr_validUntil g"
    using same by (simp_all add: same_grant_def cap_grant_def)
  show ?thesis
    unfolding Let_def s_def[symmetric]
    using inv same g
    by (cases "cs_lease s")
       (auto simp: lease_inv_def narrowed_def exceeds_max_def not_less split: option.splits)
qed

section \<open>Accounting of uses\<close>

definition closed_ids :: "capability \<Rightarrow> string set" where
  "closed_ids s = {rv_reservationId r | r. r \<in> set (cs_reservations s) \<and> rv_state r \<noteq> ''open''}"

definition consumed_ids :: "capability \<Rightarrow> string list" where
  "consumed_ids s = map cn_reservationId (cs_consumptions s)"

definition acct_inv :: "capability \<Rightarrow> bool" where
  "acct_inv s \<longleftrightarrow> distinct (map rv_reservationId (cs_reservations s))
     \<and> distinct (consumed_ids s) \<and> set (consumed_ids s) = closed_ids s
     \<and> cs_usesConsumed s = int (length (filter (\<lambda>c. counted (cn_outcome c)) (cs_consumptions s)))"

lemma acct_inv_grant: "acct_inv (cap_grant g)"
  by (simp add: acct_inv_def cap_grant_def closed_ids_def consumed_ids_def)

lemma acct_inv_cong:
  "cs_reservations s = cs_reservations t \<Longrightarrow> cs_consumptions s = cs_consumptions t \<Longrightarrow>
   cs_usesConsumed s = cs_usesConsumed t \<Longrightarrow> acct_inv s \<longleftrightarrow> acct_inv t"
  by (simp add: acct_inv_def closed_ids_def consumed_ids_def)

lemma closed_ids_close:
  assumes "f \<in> set rs" and "rv_reservationId f = i"
  shows "{rv_reservationId r | r. r \<in> set (close_reservation i out rs) \<and> rv_state r \<noteq> ''open''}
    = insert i {rv_reservationId r | r. r \<in> set rs \<and> rv_state r \<noteq> ''open''}"
  (is "?L = insert i ?R")
proof
  show "?L \<subseteq> insert i ?R"
    by (auto simp: close_reservation_def split: if_splits)
  have "rv_reservationId r \<in> ?L" if "r \<in> set rs" "rv_state r \<noteq> ''open'' \<or> rv_reservationId r = i" for r
    using that
    by (intro CollectI exI[of _ "if rv_reservationId r = i
          then r\<lparr>rv_state := (if out = ''indeterminate'' then ''awaiting_reconciliation'' else ''finalized'')\<rparr> else r"])
       (auto simp: close_reservation_def)
  then show "insert i ?R \<subseteq> ?L" using assms by fastforce
qed

lemma acct_inv_finalize:
  assumes inv: "acct_inv s" and st: "cap_finalize s c = Inr s'"
  shows "acct_inv s'"
proof -
  let ?i = "cn_reservationId c"
  obtain f where f: "find (\<lambda>r. rv_reservationId r = ?i) (cs_reservations s) = Some f"
    and open_f: "rv_state f = ''open''"
    and s': "cs_reservations s' = close_reservation ?i (cn_outcome c) (cs_reservations s)"
      "cs_consumptions s' = cs_consumptions s @ [c]"
      "cs_usesConsumed s' = cs_usesConsumed s + (if counted (cn_outcome c) then 1 else 0)"
    using cap_finalize_Inr[OF st] by blast
  from f have mem: "f \<in> set (cs_reservations s)" and id: "rv_reservationId f = ?i"
    by (auto simp: find_Some_iff)
  have fresh: "?i \<notin> closed_ids s"
  proof
    assume "?i \<in> closed_ids s"
    then obtain r where r: "r \<in> set (cs_reservations s)" "rv_state r \<noteq> ''open''" "rv_reservationId r = ?i"
      by (auto simp: closed_ids_def)
    from inv have "inj_on rv_reservationId (set (cs_reservations s))"
      by (simp add: acct_inv_def distinct_map)
    then have "r = f" using r mem id by (metis inj_onD)
    with r open_f show False by simp
  qed
  have "closed_ids s' = insert ?i (closed_ids s)"
    using closed_ids_close[OF mem id, of "cn_outcome c"] by (simp add: closed_ids_def s')
  then show ?thesis
    using inv fresh by (auto simp: acct_inv_def s' consumed_ids_def)
qed

lemma acct_inv_step:
  assumes inv: "acct_inv s" and st: "cap_step s a = Inr s'"
  shows "acct_inv s'"
proof (cases a)
  case (Reserve r now)
  with st have s': "s' = s\<lparr>cs_reservations := cs_reservations s @ [new_reservation r]\<rparr>"
    and "\<forall>x\<in>set (cs_reservations s). rv_reservationId x \<noteq> rq_reservationId r"
    by (auto simp: cap_reserve_Inr reservation_conflict_None)
  moreover have "closed_ids s' = closed_ids s"
    by (auto simp: s' closed_ids_def)
  ultimately show ?thesis
    using inv by (auto simp: acct_inv_def consumed_ids_def)
next
  case (Finalize c)
  with inv st show ?thesis using acct_inv_finalize by simp
qed (use inv st in \<open>auto simp: cap_activate_Inr cap_revoke_def cap_expire_def
       intro: acct_inv_cong [THEN iffD1, of s] split: if_splits\<close>)

lemma acct_inv_attempt: "acct_inv (attempt cap_step (cap_grant g) ops)"
  by (rule attempt_invariant [where P = acct_inv]) (auto intro: acct_inv_step acct_inv_grant)

text \<open>
  C14. No double spending: in every state a grant can get into, no two reservations share an
  identifier, each reservation has at most one consumption record, exactly the closed
  reservations have one, and \<open>usesConsumed\<close> is the number of recorded consumptions whose
  outcome is \<open>succeeded\<close> or \<open>indeterminate\<close>; finalising a reservation a second time is
  refused.
\<close>

theorem uses_accounted:
  "let s = attempt cap_step (cap_grant g) ops in
     distinct (map rv_reservationId (cs_reservations s)) \<and> distinct (consumed_ids s)
     \<and> set (consumed_ids s) = closed_ids s
     \<and> cs_usesConsumed s = int (length (filter (\<lambda>c. counted (cn_outcome c)) (cs_consumptions s)))
     \<and> (cn_reservationId c \<in> set (consumed_ids s) \<longrightarrow> (\<exists>e. cap_finalize s c = Inl e))"
proof -
  define s where "s = attempt cap_step (cap_grant g) ops"
  have inv: "acct_inv s" unfolding s_def by (rule acct_inv_attempt)
  have "\<exists>e. cap_finalize s c = Inl e" if "cn_reservationId c \<in> set (consumed_ids s)"
  proof (cases "cap_finalize s c")
    case (Inr s')
    from acct_inv_finalize[OF inv Inr] cap_finalize_Inr[OF Inr] that show ?thesis
      by (auto simp: acct_inv_def consumed_ids_def)
  qed simp
  with inv show ?thesis unfolding Let_def s_def[symmetric] by (auto simp: acct_inv_def)
qed

section \<open>Revocation\<close>

lemma revoked_step:
  assumes "cs_revocation s \<noteq> None" and "cap_step s a = Inr s'"
  shows "cs_revocation s' = cs_revocation s
    \<and> map rv_reservationId (cs_reservations s') = map rv_reservationId (cs_reservations s)"
proof (cases a)
  case (Finalize c)
  with assms cap_finalize_Inr[of s c s'] show ?thesis by simp
qed (use assms in \<open>auto simp: cap_activate_Inr cap_reserve_Inr cap_check_Inr cap_revoke_def cap_expire_def\<close>)

lemma revoked_attempt:
  assumes "cs_revocation s = Some r"
  shows "cs_revocation (attempt cap_step s ops) = Some r
    \<and> map rv_reservationId (cs_reservations (attempt cap_step s ops)) = map rv_reservationId (cs_reservations s)"
proof (rule attempt_invariant [where P = "\<lambda>t. cs_revocation t = Some r
        \<and> map rv_reservationId (cs_reservations t) = map rv_reservationId (cs_reservations s)"])
  fix t a t'
  assume t: "cs_revocation t = Some r \<and> map rv_reservationId (cs_reservations t) = map rv_reservationId (cs_reservations s)"
    and st: "cap_step t a = Inr t'"
  then show "cs_revocation t' = Some r \<and> map rv_reservationId (cs_reservations t') = map rv_reservationId (cs_reservations s)"
    using revoked_step[of t a t'] by simp
qed (use assms in simp)

text \<open>
  C16. Revocation is final: once a grant is revoked, no sequence of attempted operations
  clears or replaces the revocation, no new reservation is ever recorded, every lease check
  and every reservation is refused, and no lease can be activated.
\<close>

theorem revocation_final:
  assumes "cap_revoke s v = Inr s1"
  shows "let s2 = attempt cap_step s1 ops in
     cs_revocation s2 = cs_revocation s1 \<and> cs_revocation s2 \<noteq> None
     \<and> map rv_reservationId (cs_reservations s2) = map rv_reservationId (cs_reservations s)
     \<and> (\<exists>e. cap_check_lease s2 i oper sc now = Inl e)
     \<and> (\<exists>e. cap_reserve s2 rq now = Inl e)
     \<and> (\<exists>e. cap_activate_lease s2 l = Inl e)
     \<and> (\<exists>e. cap_revoke s2 v' = Inl e)"
proof -
  from assms obtain r where r: "cs_revocation s1 = Some r" and rs: "cs_reservations s1 = cs_reservations s"
    by (auto simp: cap_revoke_def)
  define s2 where "s2 = attempt cap_step s1 ops"
  have k: "cs_revocation s2 = Some r"
    "map rv_reservationId (cs_reservations s2) = map rv_reservationId (cs_reservations s1)"
    using revoked_attempt[OF r, of ops] by (simp_all add: s2_def)
  have "cap_check_lease s2 i oper sc now \<noteq> Inr ()" "cap_reserve s2 rq now \<noteq> Inr t"
    "cap_activate_lease s2 l \<noteq> Inr t" "cap_revoke s2 v' \<noteq> Inr t" for t
    using k by (auto simp: cap_check_Inr cap_reserve_Inr cap_activate_Inr cap_revoke_def)
  then have "\<exists>e. cap_check_lease s2 i oper sc now = Inl e" "\<exists>e. cap_reserve s2 rq now = Inl e"
    "\<exists>e. cap_activate_lease s2 l = Inl e" "\<exists>e. cap_revoke s2 v' = Inl e"
    by (metis sum.exhaust old.unit.exhaust)+
  with k r rs show ?thesis unfolding Let_def s2_def[symmetric] by simp
qed

section \<open>The use budget\<close>

definition n_open :: "reservation list \<Rightarrow> nat" where
  "n_open rs = length (filter (\<lambda>r. rv_state r = ''open'') rs)"

text \<open>Reservations are only attempted while none is open.\<close>

fun one_at_a_time :: "capability \<Rightarrow> cap_op list \<Rightarrow> bool" where
  "one_at_a_time s [] = True"
| "one_at_a_time s (a # as) =
    ((case a of Reserve _ _ \<Rightarrow> cap_open_reservations s = [] | _ \<Rightarrow> True)
     \<and> one_at_a_time (case cap_step s a of Inl _ \<Rightarrow> s | Inr s' \<Rightarrow> s') as)"

definition budget_inv :: "capability \<Rightarrow> bool" where
  "budget_inv s \<longleftrightarrow> lease_inv s \<and>
     (\<forall>m. effective_max s = Some m \<longrightarrow> cs_usesConsumed s + int (n_open (cs_reservations s)) \<le> max 0 m)"

lemma n_open_close:
  "f \<in> set rs \<Longrightarrow> rv_reservationId f = i \<Longrightarrow> rv_state f = ''open'' \<Longrightarrow>
     n_open (close_reservation i out rs) + 1 \<le> n_open rs"
proof (induction rs)
  case (Cons r rs)
  have le: "n_open (close_reservation i out xs) \<le> n_open xs" for xs
    by (induction xs) (auto simp: n_open_def close_reservation_def)
  show ?case
  proof (cases "f = r")
    case True
    with Cons.prems le[of rs] show ?thesis by (auto simp: n_open_def close_reservation_def)
  next
    case False
    with Cons have "n_open (close_reservation i out rs) + 1 \<le> n_open rs" by simp
    then show ?thesis by (auto simp: n_open_def close_reservation_def)
  qed
qed simp

lemma effective_max_state [simp]:
  "effective_max (s\<lparr>cs_reservations := rs, cs_consumptions := cs, cs_usesConsumed := u\<rparr>) = effective_max s"
  "effective_max (s\<lparr>cs_reservations := rs\<rparr>) = effective_max s"
  by (simp_all add: effective_max_def split: option.splits)

lemma effective_max_cong:
  assumes "cs_maxUses s' = cs_maxUses s"
    and "map_option cl_maxUses (cs_lease s') = map_option cl_maxUses (cs_lease s)"
  shows "effective_max s' = effective_max s"
  using assms by (cases "cs_lease s"; cases "cs_lease s'") (simp_all add: effective_max_def split: option.splits)

lemma budget_inv_step:
  assumes inv: "budget_inv s" and st: "cap_step s a = Inr s'"
    and serial: "\<And>r now. a = Reserve r now \<Longrightarrow> cap_open_reservations s = []"
  shows "budget_inv s'"
proof -
  have li: "lease_inv s" "lease_inv s'" using inv st lease_inv_step by (auto simp: budget_inv_def)
  have bound: "cs_usesConsumed s + int (n_open (cs_reservations s)) \<le> max 0 m" if "effective_max s = Some m" for m
    using inv that by (auto simp: budget_inv_def)
  have "cs_usesConsumed s' + int (n_open (cs_reservations s')) \<le> max 0 m" if m: "effective_max s' = Some m" for m
  proof (cases a)
    case (ActivateLease q)
    with st have "cs_grantState s = ''granted''" and s': "cs_reservations s' = cs_reservations s" "cs_usesConsumed s' = cs_usesConsumed s"
      by (auto simp: cap_activate_Inr)
    with li(1) have "cs_lease s = None" by (auto simp: lease_inv_def split: option.splits)
    with li(1) s' show ?thesis by (simp add: lease_inv_def n_open_def)
  next
    case (Reserve r now)
    with serial have "n_open (cs_reservations s) = 0" by (simp add: cap_open_reservations_def n_open_def)
    moreover from Reserve st have "s' = s\<lparr>cs_reservations := cs_reservations s @ [new_reservation r]\<rparr>" "\<not> exhausted s"
      by (auto simp: cap_reserve_Inr cap_check_Inr)
    ultimately show ?thesis using m by (auto simp: exhausted_def n_open_def)
  next
    case (Finalize c)
    with st have f: "cap_finalize s c = Inr s'" by simp
    note F = cap_finalize_Inr[OF f]
    from F obtain r where "r \<in> set (cs_reservations s)" "rv_reservationId r = cn_reservationId c" "rv_state r = ''open''"
      by (blast dest: find_Some_mem)
    then have n: "n_open (cs_reservations s') + 1 \<le> n_open (cs_reservations s)"
      using F n_open_close by metis
    have "effective_max s' = effective_max s"
      using F by (intro effective_max_cong) (auto simp: same_grant_def option.map_comp comp_def)
    with bound m have "cs_usesConsumed s + int (n_open (cs_reservations s)) \<le> max 0 m" by simp
    with n F show ?thesis by (auto split: if_splits)
  next
    case (Revoke v)
    with st have "cs_usesConsumed s' = cs_usesConsumed s" "cs_reservations s' = cs_reservations s"
      "effective_max s' = effective_max s"
      by (auto simp: cap_revoke_def option.map_comp comp_def intro!: effective_max_cong)
    with bound m show ?thesis by simp
  next
    case (Expire now)
    with st have "cs_usesConsumed s' = cs_usesConsumed s" "cs_reservations s' = cs_reservations s"
      "effective_max s' = effective_max s"
      by (auto simp: cap_expire_def option.map_comp comp_def intro!: effective_max_cong)
    with bound m show ?thesis by simp
  qed
  with li show ?thesis by (auto simp: budget_inv_def)
qed

lemma budget_attempt:
  "budget_inv s \<Longrightarrow> one_at_a_time s ops \<Longrightarrow> budget_inv (attempt cap_step s ops)"
proof (induction ops arbitrary: s)
  case (Cons a ops)
  show ?case
  proof (cases "cap_step s a")
    case (Inr s')
    with Cons.prems have "budget_inv s'" by (auto intro!: budget_inv_step[of s a s'])
    with Inr Cons show ?thesis by simp
  qed (use Cons in simp)
qed simp

text \<open>
  C25. The use limit, for callers that hold one reservation at a time: however uses,
  failures, revocations and expiry interleave, the uses consumed never exceed the limit in
  force (the lease's, or the grant's when the lease names none).
\<close>

theorem serial_use_within_limit:
  assumes "one_at_a_time (cap_grant g) ops"
    and "effective_max (attempt cap_step (cap_grant g) ops) = Some m" and "0 \<le> m"
  shows "cs_usesConsumed (attempt cap_step (cap_grant g) ops) \<le> m"
proof -
  have "budget_inv (cap_grant g)"
    by (simp add: budget_inv_def lease_inv_grant) (simp add: cap_grant_def n_open_def)
  with assms(1) have "budget_inv (attempt cap_step (cap_grant g) ops)" by (rule budget_attempt[rotated])
  with assms(2,3) show ?thesis by (fastforce simp: budget_inv_def)
qed

section \<open>Concrete histories\<close>

definition sample_grant :: grant where
  "sample_grant = \<lparr>gr_grantId = ''g1'', gr_capabilityId = ''cap.fs.read'',
    gr_subject = \<lparr>ac_actorId = ''exec-1'', ac_kind = ''execution_plane''\<rparr>,
    gr_operations = [''fs.read'', ''fs.list''], gr_scope = FilesystemScope ''/tmp'' True, gr_conditions = [],
    gr_policyDecisionId = ''pd1'', gr_policyBundleDigest = ''d'', gr_approvalRequestId = None,
    gr_externalCommitments = None, gr_maxUses = Some 1,
    gr_validFrom = ''2026-01-01T00:00:00Z'', gr_validUntil = ''2026-12-31T00:00:00Z'',
    gr_issuedBy = \<lparr>ac_actorId = ''gov'', ac_kind = ''governance_kernel''\<rparr>, gr_issuedAt = ''2026-01-01T00:00:00Z''\<rparr>"

definition sample_lease :: lease_req where
  "sample_lease = \<lparr>lq_leaseId = ''l1'', lq_grantId = ''g1'', lq_missionId = ''m1'', lq_taskId = ''t1'',
    lq_executionContextId = ''x1'', lq_operations = [''fs.read''], lq_scope = FilesystemScope ''/tmp/a'' True,
    lq_maxUses = Some 1, lq_validFrom = ''2026-01-01T00:00:00Z'', lq_validUntil = ''2026-06-30T00:00:00Z''\<rparr>"

definition sample_res :: "string \<Rightarrow> reservation_req" where
  "sample_res i = \<lparr>rq_reservationId = i, rq_leaseId = ''l1'', rq_operation = ''fs.read'',
    rq_operationFingerprint = ''f'', rq_idempotencyKey = i, rq_reservedAt = ''2026-02-01T00:00:00Z''\<rparr>"

definition sample_use :: "string \<Rightarrow> consumption" where
  "sample_use i = \<lparr>cn_consumptionId = ''c'' @ i, cn_reservationId = i, cn_leaseId = ''l1'',
    cn_outcome = ''succeeded'', cn_sideEffectIdentity = None\<rparr>"

definition sample_revocation :: revocation_req where
  "sample_revocation = \<lparr>vq_revocationId = ''v1'', vq_targetKind = ''grant'', vq_targetId = ''g1'',
    vq_reason = ''stop'', vq_revokedBy = \<lparr>ac_actorId = ''op'', ac_kind = ''human''\<rparr>\<rparr>"

definition feb :: string where "feb = ''2026-02-01T00:00:00Z''"

lemmas cap_eval = cap_activate_lease_def cap_check_lease_def cap_reserve_def cap_finalize_def cap_revoke_def
  cap_expire_def cap_grant_def effective_max_def exhausted_def exceeds_max_def cap_open_reservations_def
  norm_root_def rstrip_char_def starts_with_def or_empty_def Let_def
  sample_grant_def sample_lease_def sample_res_def sample_use_def sample_revocation_def feb_def

definition leased_sample :: capability where
  "leased_sample = attempt cap_step (cap_grant sample_grant) [ActivateLease sample_lease]"

lemma leased_sample_eq:
  "leased_sample = (cap_grant sample_grant)\<lparr>cs_grantState := ''leased'', cs_lease := Some
     \<lparr>cl_leaseId = ''l1'', cl_missionId = ''m1'', cl_taskId = ''t1'', cl_executionContextId = ''x1'',
      cl_operations = [''fs.read''], cl_scope = FilesystemScope ''/tmp/a'' True, cl_maxUses = Some 1,
      cl_validFrom = ''2026-01-01T00:00:00Z'', cl_validUntil = ''2026-06-30T00:00:00Z'',
      cl_state = ''active''\<rparr>\<rparr>"
  by (simp add: leased_sample_def cap_eval)

theorem lease_within_grant_witness:
  "\<exists>l. cs_lease leased_sample = Some l \<and> scope_contains (gr_scope sample_grant) (cl_scope l)
     \<and> cl_validUntil l \<le> gr_validUntil sample_grant"
proof -
  obtain l where l: "cs_lease leased_sample = Some l" by (simp add: leased_sample_eq)
  with lease_within_grant [of sample_grant "[ActivateLease sample_lease]"] show ?thesis
    by (auto simp: leased_sample_def Let_def)
qed

theorem uses_accounted_witness:
  "let s = attempt cap_step (cap_grant sample_grant)
       [ActivateLease sample_lease, Reserve (sample_res ''r1'') feb, Finalize (sample_use ''r1'')] in
     consumed_ids s = [''r1''] \<and> (\<exists>e. cap_finalize s (sample_use ''r1'') = Inl e)"
proof -
  define ops where "ops = [ActivateLease sample_lease, Reserve (sample_res ''r1'') feb, Finalize (sample_use ''r1'')]"
  have c: "consumed_ids (attempt cap_step (cap_grant sample_grant) ops) = [''r1'']"
    by (simp add: ops_def consumed_ids_def cap_eval)
  then have "cn_reservationId (sample_use ''r1'') \<in> set (consumed_ids (attempt cap_step (cap_grant sample_grant) ops))"
    by (simp add: sample_use_def)
  with uses_accounted [of sample_grant ops "sample_use ''r1''"] c show ?thesis
    unfolding ops_def[symmetric] Let_def by blast
qed

theorem revocation_final_witness:
  "\<exists>s1 e. cap_revoke leased_sample sample_revocation = Inr s1
     \<and> cap_reserve (attempt cap_step s1 [Expire feb]) (sample_res ''r1'') feb = Inl e"
proof -
  obtain s1 where s1: "cap_revoke leased_sample sample_revocation = Inr s1"
    by (simp add: cap_revoke_def leased_sample_eq cap_grant_def)
  from revocation_final [OF s1, of "[Expire feb]" _ _ _ feb "sample_res ''r1''"] s1 show ?thesis
    unfolding Let_def by blast
qed

theorem serial_use_within_limit_witness:
  "cs_usesConsumed (attempt cap_step (cap_grant sample_grant)
     [ActivateLease sample_lease, Reserve (sample_res ''r1'') feb, Finalize (sample_use ''r1''),
      Reserve (sample_res ''r2'') feb]) \<le> 1"
  by (rule serial_use_within_limit) (simp_all add: cap_eval)

section \<open>What the aggregate does not prevent\<close>

text \<open>
  Open reservations do not count against the limit, so several can be taken before the
  first is finalised, and \<^verbatim>\<open>finalize\<close> does not look at the limit.
\<close>

lemma reserve_many:
  "distinct (ds @ is) \<Longrightarrow>
   attempt cap_step (leased_sample\<lparr>cs_reservations := map (\<lambda>i. new_reservation (sample_res i)) ds\<rparr>)
      (map (\<lambda>i. Reserve (sample_res i) feb) is)
   = leased_sample\<lparr>cs_reservations := map (\<lambda>i. new_reservation (sample_res i)) (ds @ is)\<rparr>"
proof (induction "is" arbitrary: ds)
  case (Cons i js)
  let ?s = "leased_sample\<lparr>cs_reservations := map (\<lambda>i. new_reservation (sample_res i)) ds\<rparr>"
  have "cap_check_lease ?s ''l1'' ''fs.read'' (FilesystemScope ''/tmp/a'' True) feb = Inr ()"
    by (simp add: leased_sample_eq cap_check_Inr exhausted_def effective_max_def cap_grant_def
        sample_grant_def feb_def Let_def)
  then have "cap_step ?s (Reserve (sample_res i) feb)
      = Inr (leased_sample\<lparr>cs_reservations := map (\<lambda>i. new_reservation (sample_res i)) (ds @ [i])\<rparr>)"
    using Cons.prems
    by (auto simp: cap_reserve_Inr reservation_conflict_None leased_sample_eq sample_res_def new_reservation_def)
  with Cons.IH[of "ds @ [i]"] Cons.prems show ?case by simp
qed simp

definition is_open :: "capability \<Rightarrow> string \<Rightarrow> bool" where
  "is_open s i \<longleftrightarrow> (\<exists>r\<in>set (cs_reservations s). rv_reservationId r = i \<and> rv_state r = ''open'')"

lemma finalize_open:
  assumes d: "distinct (map rv_reservationId (cs_reservations s))" and o: "is_open s i"
  shows "\<exists>s'. cap_finalize s (sample_use i) = Inr s' \<and> cs_usesConsumed s' = cs_usesConsumed s + 1
    \<and> effective_max s' = effective_max s
    \<and> map rv_reservationId (cs_reservations s') = map rv_reservationId (cs_reservations s)
    \<and> (\<forall>j. j \<noteq> i \<longrightarrow> is_open s j \<longrightarrow> is_open s' j)"
proof -
  from o obtain r where r: "r \<in> set (cs_reservations s)" "rv_reservationId r = i" "rv_state r = ''open''"
    by (auto simp: is_open_def)
  obtain f where f: "find (\<lambda>r. rv_reservationId r = i) (cs_reservations s) = Some f"
    using r by (cases "find (\<lambda>r. rv_reservationId r = i) (cs_reservations s)") (auto simp: find_None_iff)
  from find_Some_mem[OF f] r d have "f = r" by (metis distinct_map inj_onD)
  with f r obtain s' where s': "cap_finalize s (sample_use i) = Inr s'"
    by (simp add: cap_finalize_def sample_use_def Let_def)
  note F = cap_finalize_Inr[OF s']
  have "effective_max s' = effective_max s"
    using F by (intro effective_max_cong) (auto simp: same_grant_def option.map_comp comp_def)
  moreover have "is_open s' j" if "j \<noteq> i" "is_open s j" for j
    using that F by (force simp: is_open_def close_reservation_def sample_use_def)
  ultimately show ?thesis using s' F by (auto simp: counted_def sample_use_def)
qed

lemma finalize_many:
  "distinct (map rv_reservationId (cs_reservations s)) \<Longrightarrow> distinct is \<Longrightarrow> (\<forall>i\<in>set is. is_open s i) \<Longrightarrow>
   cs_usesConsumed (attempt cap_step s (map (\<lambda>i. Finalize (sample_use i)) is)) = cs_usesConsumed s + int (length is)
   \<and> effective_max (attempt cap_step s (map (\<lambda>i. Finalize (sample_use i)) is)) = effective_max s"
proof (induction "is" arbitrary: s)
  case (Cons i js)
  then obtain s' where s': "cap_finalize s (sample_use i) = Inr s'" "cs_usesConsumed s' = cs_usesConsumed s + 1"
      "effective_max s' = effective_max s" "map rv_reservationId (cs_reservations s') = map rv_reservationId (cs_reservations s)"
      "\<forall>j. j \<noteq> i \<longrightarrow> is_open s j \<longrightarrow> is_open s' j"
    using finalize_open[of s i] by auto
  have "\<forall>j\<in>set js. is_open s' j" using Cons.prems s'(5) by auto
  with Cons.IH[of s'] Cons.prems s' show ?case by simp
qed simp

text \<open>
  The limit of a grant is not a bound on its uses: a grant and lease with
  \<open>maxUses = 1\<close> can end with any number of uses consumed, because reservations taken
  before the first finalisation are all admitted and all finalised.
\<close>

theorem use_limit_can_be_exceeded:
  "\<exists>ops. effective_max (attempt cap_step (cap_grant sample_grant) ops) = Some 1
     \<and> cs_usesConsumed (attempt cap_step (cap_grant sample_grant) ops) = int n"
proof -
  define ids where "ids = map (\<lambda>k. replicate k (CHR ''r'')) [0..<n]"
  have d: "distinct ids" unfolding ids_def distinct_map
    by (auto intro!: inj_onI dest: arg_cong[of _ _ length])
  let ?mid = "leased_sample\<lparr>cs_reservations := map (\<lambda>i. new_reservation (sample_res i)) ids\<rparr>"
  let ?ops = "[ActivateLease sample_lease] @ map (\<lambda>i. Reserve (sample_res i) feb) ids
      @ map (\<lambda>i. Finalize (sample_use i)) ids"
  have app: "attempt cap_step s (xs @ ys) = attempt cap_step (attempt cap_step s xs) ys" for s xs ys
    by (induction xs arbitrary: s) simp_all
  have "leased_sample\<lparr>cs_reservations := []\<rparr> = leased_sample"
    by (simp add: leased_sample_eq cap_grant_def)
  with reserve_many[of "[]" ids] d have mid: "attempt cap_step leased_sample (map (\<lambda>i. Reserve (sample_res i) feb) ids) = ?mid"
    by simp
  have "map rv_reservationId (cs_reservations ?mid) = ids"
    by (simp add: comp_def sample_res_def)
  then have dm: "distinct (map rv_reservationId (cs_reservations ?mid))" using d by simp
  have op: "\<forall>i\<in>set ids. is_open ?mid i"
    by (auto simp: is_open_def sample_res_def)
  have u: "cs_usesConsumed ?mid = 0" "effective_max ?mid = Some 1"
    by (simp_all add: leased_sample_eq cap_grant_def effective_max_def)
  have len: "length ids = n" by (simp add: ids_def)
  have ops: "attempt cap_step (cap_grant sample_grant) ?ops
      = attempt cap_step ?mid (map (\<lambda>i. Finalize (sample_use i)) ids)"
    unfolding app leased_sample_def[symmetric] mid by (rule refl)
  have "cs_usesConsumed (attempt cap_step (cap_grant sample_grant) ?ops) = int n
      \<and> effective_max (attempt cap_step (cap_grant sample_grant) ?ops) = Some 1"
    unfolding ops using finalize_many[OF dm d op] unfolding u len by simp
  then show ?thesis by blast
qed

text \<open>
  Expiry at the boundary. Timestamps are compared as text, which agrees with time only
  for one layout; the contract also admits fractional seconds, and half a second after the
  end of a lease its text is smaller, so the check passes.
\<close>

theorem fractional_second_outlives_lease:
  "cap_check_lease leased_sample ''l1'' ''fs.read'' (FilesystemScope ''/tmp/a'' True) ''2026-06-30T00:00:00.5Z'' = Inr ()
   \<and> (\<exists>e. cap_check_lease leased_sample ''l1'' ''fs.read'' (FilesystemScope ''/tmp/a'' True) ''2026-06-30T00:00:01Z'' = Inl e)"
  by (simp add: leased_sample_eq cap_eval)

text \<open>A grant with no lease makes \<^verbatim>\<open>reserve\<close> fail with an untyped error, not \<open>CapabilityDenied\<close>.\<close>

lemma reserve_without_lease: "cap_reserve (cap_grant g) r now = Inl (TypeError ''NoneType object is not subscriptable'')"
  by (simp add: cap_reserve_def cap_grant_def)

text \<open>Finalising the last use of a revoked grant reports it as \<open>consumed\<close>; the revocation stays.\<close>

lemma revoked_then_consumed:
  "let s = attempt cap_step (cap_grant sample_grant)
     [ActivateLease sample_lease, Reserve (sample_res ''r1'') feb, Revoke sample_revocation, Finalize (sample_use ''r1'')] in
   cs_grantState s = ''consumed'' \<and> cs_revocation s \<noteq> None"
  by (simp add: cap_eval)

text \<open>A recursive grant of the root directory contains nothing but itself; \<^verbatim>\<open>..\<close> is not resolved.\<close>

lemma root_scope_contains_nothing:
  "\<not> scope_contains (FilesystemScope ''/'' True) (FilesystemScope ''/tmp'' r)"
  by (simp add: norm_root_def rstrip_char_def starts_with_def)

lemma parent_segments_not_resolved:
  "scope_contains (FilesystemScope ''/tmp/a'' True) (FilesystemScope ''/tmp/a/../../etc'' True)"
  by (simp add: norm_root_def rstrip_char_def starts_with_def)

end
