(* ===== verification/Claims.thy ===== *)
theory Claims
  imports Mission_Task Authority
begin

text \<open>
  The claim aggregate of \<^verbatim>\<open>capt_runtime/aggregates/claim_driver.py\<close>: proposal, evidence,
  independent verification and the verdict of the claim guard.
\<close>

section \<open>State and payloads\<close>

record claim_req =
  cp_claimId :: string
  cp_missionId :: string
  cp_taskId :: "string option"
  cp_kind :: string
  cp_statement :: string
  cp_evidenceIds :: "string list option"
  cp_sourceProposalId :: "string option"

record claim =
  cm_claimId :: string
  cm_missionId :: string
  cm_taskId :: "string option"
  cm_kind :: string
  cm_statement :: string
  cm_evidenceIds :: "string list"
  cm_verificationId :: "string option"
  cm_verificationStatus :: "string option"
  cm_promotionState :: string
  cm_guardVerdict :: "string option"
  cm_qualification :: "json option"
  cm_sourceProposalId :: "string option"

record verification =
  vf_verificationId :: string
  vf_claimId :: string
  vf_status_kind :: string

record decision =
  gd_verdict :: string
  gd_verificationId :: "string option"
  gd_qualification :: "json option"

definition CLAIM_TERMINAL :: "string list" where
  "CLAIM_TERMINAL = [''accepted'', ''rejected'', ''suppressed'']"

definition CLAIM_TRANSITIONS :: table where
  "CLAIM_TRANSITIONS = [
    (''proposed'', [''verified'', ''rejected'', ''escalated'', ''qualified'', ''suppressed'']),
    (''verified'', [''accepted'', ''qualified'', ''rejected'', ''escalated'']),
    (''qualified'', [''accepted'', ''rejected'', ''escalated'']),
    (''escalated'', [''accepted'', ''qualified'', ''rejected'', ''suppressed'']),
    (''accepted'', []),
    (''rejected'', []),
    (''suppressed'', [])]"

definition CLAIM_OWNED :: "string list" where
  "CLAIM_OWNED = [''claim.statement'', ''claim.kind'', ''claim.evidenceIds'', ''claim.verificationId'',
    ''claim.verificationStatus'', ''claim.promotionState'', ''claim.guardVerdict'', ''claim.qualification'']"

definition claim_stream_id :: "string \<Rightarrow> string" where
  "claim_stream_id claim_id = ''claim-'' @ claim_id"

section \<open>Operations\<close>

definition claim_propose :: "claim_req \<Rightarrow> claim" where
  "claim_propose c = \<lparr>
    cm_claimId = cp_claimId c,
    cm_missionId = cp_missionId c,
    cm_taskId = cp_taskId c,
    cm_kind = cp_kind c,
    cm_statement = cp_statement c,
    cm_evidenceIds = or_empty (cp_evidenceIds c),
    cm_verificationId = None,
    cm_verificationStatus = None,
    cm_promotionState = ''proposed'',
    cm_guardVerdict = None,
    cm_qualification = None,
    cm_sourceProposalId = cp_sourceProposalId c\<rparr>"

definition claim_attach_evidence :: "claim \<Rightarrow> string \<Rightarrow> claim res" where
  "claim_attach_evidence s evidence_id =
    raise_if (cm_promotionState s \<in> set CLAIM_TERMINAL)
      (IllegalTransition (''claim '' @ cm_claimId s @ '' is terminal'') (cm_promotionState s) ''attach_evidence'') (
    Inr (s\<lparr>cm_evidenceIds := add_once evidence_id (cm_evidenceIds s)\<rparr>))"

definition claim_record_verification :: "claim \<Rightarrow> verification \<Rightarrow> claim res" where
  "claim_record_verification s v =
    raise_if (vf_claimId v \<noteq> cm_claimId s)
      (AuthorityViolation ''verification references a different claim'') (
    raise_if (cm_promotionState s \<in> set CLAIM_TERMINAL)
      (IllegalTransition (''claim '' @ cm_claimId s @ '' is terminal'') (cm_promotionState s) ''record_verification'') (
    let status_kind = vf_status_kind v;
        nxt = s\<lparr>cm_verificationId := Some (vf_verificationId v), cm_verificationStatus := Some status_kind\<rparr>
    in Inr (if status_kind = ''verified'' then nxt\<lparr>cm_promotionState := ''verified''\<rparr>
            else if status_kind = ''contradicted'' then nxt\<lparr>cm_promotionState := ''rejected''\<rparr>
            else nxt)))"

text \<open>The verdict table; another verdict is a \<^verbatim>\<open>KeyError\<close>.\<close>

definition verdict_target :: "string \<Rightarrow> string option" where
  "verdict_target = map_of [(''accept'', ''accepted''), (''qualify'', ''qualified''),
     (''reject'', ''rejected''), (''escalate'', ''escalated'')]"

definition claim_decide :: "claim \<Rightarrow> decision \<Rightarrow> claim res" where
  "claim_decide s d =
    (let verdict = gd_verdict d; current = cm_promotionState s;
         guarded = (verdict = ''accept'' \<and> cm_kind s = ''completion'') in
     case verdict_target verdict of
       None \<Rightarrow> Inl (KeyError verdict)
     | Some target \<Rightarrow>
    raise_if (guarded \<and> cm_verificationStatus s \<noteq> Some ''verified'')
      (AuthorityViolation (''completion claim '' @ cm_claimId s @ '' cannot be accepted: verification status is not verified'')) (
    raise_if (guarded \<and> cm_evidenceIds s = [])
      (AuthorityViolation (''completion claim '' @ cm_claimId s @ '' cannot be accepted with no evidence'')) (
    raise_if (guarded \<and> gd_verificationId d \<noteq> cm_verificationId s)
      (AuthorityViolation ''ClaimGuard decision must reference the recorded verification'') (
    raise_if (current \<in> set CLAIM_TERMINAL)
      (IllegalTransition (''claim '' @ cm_claimId s @ '' is terminal'') current target) (
    raise_if (\<not> allowed CLAIM_TRANSITIONS current target)
      (IllegalTransition (''claim '' @ cm_claimId s) current target) (
    Inr (s\<lparr>cm_promotionState := target, cm_guardVerdict := Some verdict,
           cm_qualification := gd_qualification d\<rparr>)))))))"

datatype claim_op = AttachEvidence string | RecordVerification verification | Decide decision

fun claim_step :: "claim \<Rightarrow> claim_op \<Rightarrow> claim res" where
  "claim_step s (AttachEvidence e) = claim_attach_evidence s e"
| "claim_step s (RecordVerification v) = claim_record_verification s v"
| "claim_step s (Decide d) = claim_decide s d"

section \<open>What an accepted operation did\<close>

lemma claim_attach_evidence_Inr:
  "claim_attach_evidence s e = Inr s' \<longleftrightarrow>
     cm_promotionState s \<notin> set CLAIM_TERMINAL \<and> s' = s\<lparr>cm_evidenceIds := add_once e (cm_evidenceIds s)\<rparr>"
  by (auto simp: claim_attach_evidence_def)

lemma claim_record_verification_Inr:
  "claim_record_verification s v = Inr s' \<longleftrightarrow>
     vf_claimId v = cm_claimId s \<and> cm_promotionState s \<notin> set CLAIM_TERMINAL
     \<and> s' = s\<lparr>cm_verificationId := Some (vf_verificationId v), cm_verificationStatus := Some (vf_status_kind v),
              cm_promotionState := (if vf_status_kind v = ''verified'' then ''verified''
                else if vf_status_kind v = ''contradicted'' then ''rejected'' else cm_promotionState s)\<rparr>"
  by (auto simp: claim_record_verification_def Let_def)

lemma claim_decide_Inr:
  "claim_decide s d = Inr s' \<longleftrightarrow> (\<exists>target. verdict_target (gd_verdict d) = Some target
     \<and> (gd_verdict d = ''accept'' \<and> cm_kind s = ''completion'' \<longrightarrow>
          cm_verificationStatus s = Some ''verified'' \<and> cm_evidenceIds s \<noteq> [] \<and> gd_verificationId d = cm_verificationId s)
     \<and> cm_promotionState s \<notin> set CLAIM_TERMINAL \<and> allowed CLAIM_TRANSITIONS (cm_promotionState s) target
     \<and> s' = s\<lparr>cm_promotionState := target, cm_guardVerdict := Some (gd_verdict d), cm_qualification := gd_qualification d\<rparr>)"
  by (cases "verdict_target (gd_verdict d)") (auto simp: claim_decide_def Let_def)

lemmas claim_step_Inr = claim_attach_evidence_Inr claim_record_verification_Inr claim_decide_Inr

lemma verdict_target_accepted: "verdict_target v = Some ''accepted'' \<longleftrightarrow> v = ''accept''"
  by (auto simp: verdict_target_def split: if_splits)

lemma claim_step_terminal:
  assumes "cm_promotionState s \<in> set CLAIM_TERMINAL"
  shows "\<exists>e. claim_step s a = Inl e"
proof (cases "claim_step s a")
  case (Inr s')
  with assms show ?thesis by (cases a) (auto simp: claim_step_Inr)
qed blast

lemma claim_step_frame [keeps]:
  "claim_step s a = Inr s' \<Longrightarrow> cm_claimId s' = cm_claimId s \<and> cm_kind s' = cm_kind s
     \<and> cm_statement s' = cm_statement s \<and> set (cm_evidenceIds s) \<subseteq> set (cm_evidenceIds s')"
  by (cases a) (auto simp: claim_step_Inr)

section \<open>Claim integrity\<close>

text \<open>
  What the recorded operations justify: the verification fields come from a recorded
  verification of this claim, and an accepted completion claim passed the guard.
\<close>

definition claim_inv :: "claim_op set \<Rightarrow> claim \<Rightarrow> bool" where
  "claim_inv H s \<longleftrightarrow>
     (\<forall>i st. cm_verificationId s = Some i \<and> cm_verificationStatus s = Some st \<longrightarrow>
        (\<exists>v. RecordVerification v \<in> H \<and> vf_claimId v = cm_claimId s \<and> vf_verificationId v = i \<and> vf_status_kind v = st))
     \<and> (cm_verificationStatus s \<noteq> None \<longrightarrow> cm_verificationId s \<noteq> None)
     \<and> (cm_promotionState s = ''accepted'' \<longrightarrow> (\<exists>d. Decide d \<in> H \<and> gd_verdict d = ''accept''
          \<and> (cm_kind s = ''completion'' \<longrightarrow> cm_verificationStatus s = Some ''verified'' \<and> cm_evidenceIds s \<noteq> []
               \<and> gd_verificationId d = cm_verificationId s)))"

lemma claim_inv_step:
  assumes "claim_inv H s" and "claim_step s a = Inr s'" and "a \<in> H"
  shows "claim_inv H s'"
proof (cases a)
  case (AttachEvidence e)
  with assms show ?thesis by (auto simp: claim_step_Inr claim_inv_def CLAIM_TERMINAL_def)
next
  case (RecordVerification v)
  with assms(2) have r: "vf_claimId v = cm_claimId s" "cm_promotionState s \<notin> set CLAIM_TERMINAL"
      "s' = s\<lparr>cm_verificationId := Some (vf_verificationId v), cm_verificationStatus := Some (vf_status_kind v),
              cm_promotionState := (if vf_status_kind v = ''verified'' then ''verified''
                else if vf_status_kind v = ''contradicted'' then ''rejected'' else cm_promotionState s)\<rparr>"
    by (simp_all add: claim_step_Inr)
  then have "cm_promotionState s' \<noteq> ''accepted''" by (simp add: CLAIM_TERMINAL_def)
  with r assms(3) RecordVerification show ?thesis unfolding claim_inv_def by (simp, blast)
next
  case (Decide d)
  with assms obtain target where t: "verdict_target (gd_verdict d) = Some target"
      "s' = s\<lparr>cm_promotionState := target, cm_guardVerdict := Some (gd_verdict d), cm_qualification := gd_qualification d\<rparr>"
      "gd_verdict d = ''accept'' \<and> cm_kind s = ''completion'' \<longrightarrow>
         cm_verificationStatus s = Some ''verified'' \<and> cm_evidenceIds s \<noteq> [] \<and> gd_verificationId d = cm_verificationId s"
    by (auto simp: claim_decide_Inr)
  have "target = ''accepted'' \<Longrightarrow> gd_verdict d = ''accept''"
    using t(1) verdict_target_accepted by simp
  with t assms Decide show ?thesis unfolding claim_inv_def by auto
qed

lemma claim_history: "claim_inv (set ops) (attempt claim_step (claim_propose c) ops)"
proof (rule attempt_invariant_on)
  show "claim_inv (set ops) (claim_propose c)" by (simp add: claim_inv_def claim_propose_def)
qed (blast intro: claim_inv_step)

lemma claim_kind_kept: "cm_kind (attempt claim_step s ops) = cm_kind s \<and> cm_claimId (attempt claim_step s ops) = cm_claimId s"
  by (rule attempt_invariant[where P = "\<lambda>t. cm_kind t = cm_kind s \<and> cm_claimId t = cm_claimId s"])
     (use claim_step_frame in \<open>auto\<close>)


definition sample_claim :: claim_req where
  "sample_claim = \<lparr>cp_claimId = ''c1'', cp_missionId = ''m1'', cp_taskId = None, cp_kind = ''completion'',
     cp_statement = ''done'', cp_evidenceIds = None, cp_sourceProposalId = None\<rparr>"

definition sample_verification :: verification where
  "sample_verification = \<lparr>vf_verificationId = ''v1'', vf_claimId = ''c1'', vf_status_kind = ''verified''\<rparr>"

definition sample_accept :: decision where
  "sample_accept = \<lparr>gd_verdict = ''accept'', gd_verificationId = Some ''v1'', gd_qualification = None\<rparr>"

definition sample_claim_ops :: "claim_op list" where
  "sample_claim_ops = [Decide sample_accept, AttachEvidence ''e1'', RecordVerification sample_verification, Decide sample_accept]"

lemmas claim_eval = claim_propose_def claim_attach_evidence_def claim_record_verification_def claim_decide_def
  sample_claim_def sample_verification_def sample_accept_def sample_claim_ops_def verdict_target_def
  CLAIM_TERMINAL_def CLAIM_TRANSITIONS_def allowed_def raise_if_def or_empty_def add_once_def Let_def


text \<open>A recorded verification bypasses the table: \<open>qualified\<close> has no move to \<open>verified\<close> in it.\<close>

lemma verification_bypasses_table:
  "\<exists>s'. claim_record_verification ((claim_propose sample_claim)\<lparr>cm_promotionState := ''qualified''\<rparr>) sample_verification = Inr s'
     \<and> cm_promotionState s' = ''verified'' \<and> \<not> allowed CLAIM_TRANSITIONS ''qualified'' ''verified''"
  by (simp add: claim_eval)

end
