(* ===== verification/Driver_Runs.thy ===== *)
theory Driver_Runs
  imports Mission_Task
begin

text \<open>
  Driver runs. The kernel creates and moves a run with the aggregate of
  \<^verbatim>\<open>capt_runtime/aggregates/claim_driver.py\<close> and records its provider dispatch boundary
  with \<^verbatim>\<open>capt_runtime/driver_run.py\<close>; the dispatcher uses the second file's own
  \<^verbatim>\<open>create\<close> and \<^verbatim>\<open>transition\<close> (\<open>m0b_\<close> below). Both work on one dictionary, so one record
  holds the keys of both, \<open>None\<close> for a key a dictionary does not have.
\<close>

section \<open>State\<close>

record driver_run =
  dr_driverRunId :: string
  dr_driverId :: string
  dr_missionId :: string
  dr_taskId :: string
  dr_workOrderVersion :: int
  dr_externalRunId :: "string option"
  dr_state :: string
  dr_reconciliationStatus :: string
  dr_attemptCount :: "int option"
  dr_observationSequence :: "int option"
  dr_cancellationState :: "json option"
  dr_suspensionState :: "json option"
  dr_checkpointRef :: "json option"
  dr_reconciliationState :: "string option"
  dr_budgetConsumed :: "(string \<times> int) list option"
  dr_terminalDisposition :: "string option"
  dr_dispatchBoundary :: "string option"
  dr_dispatchBoundaryUpdatedAt :: "string option"
  dr_providerHttpRequestAttempts :: "int option"
  dr_providerHttpRequestLimit :: "json option"
  dr_providerRequestApprovalId :: "json option"

record driver_run_req =
  dq_driverRunId :: string
  dq_driverId :: string
  dq_missionId :: string
  dq_taskId :: string
  dq_workOrderVersion :: "int option"
  dq_externalRunId :: "string option"
  dq_providerHttpRequestLimit :: "json option"
  dq_providerRequestApprovalId :: "json option"

section \<open>The kernel's aggregate (claim\_driver.py)\<close>

definition DRIVER_TERMINAL :: "string list" where
  "DRIVER_TERMINAL = [''completed'', ''failed'', ''cancelled'', ''reconciled'']"

definition DRIVER_TRANSITIONS :: table where
  "DRIVER_TRANSITIONS = [
    (''created'', [''submitted'', ''cancelled'', ''failed'']),
    (''submitted'', [''running'', ''lost'', ''cancelled'', ''failed'']),
    (''running'', [''suspended'', ''completed'', ''failed'', ''lost'', ''cancelled'']),
    (''suspended'', [''running'', ''cancelled'', ''failed'', ''lost'']),
    (''lost'', [''reconciled'', ''failed'']),
    (''completed'', []),
    (''failed'', []),
    (''cancelled'', []),
    (''reconciled'', [])]"

definition DRIVER_OWNED :: "string list" where
  "DRIVER_OWNED = [''driverrun.state'', ''driverrun.reconciliationStatus'', ''driverrun.workOrderVersion'',
    ''driverrun.externalRunId'', ''driverrun.dispatchBoundary'']"

definition driver_stream_id :: "string \<Rightarrow> string" where
  "driver_stream_id driver_run_id = ''driverrun-'' @ driver_run_id"

definition driver_create :: "driver_run_req \<Rightarrow> driver_run res" where
  "driver_create r = (case dq_workOrderVersion r of
     None \<Rightarrow> Inl (KeyError ''workOrderVersion'')
   | Some version \<Rightarrow> Inr \<lparr>
    dr_driverRunId = dq_driverRunId r,
    dr_driverId = dq_driverId r,
    dr_missionId = dq_missionId r,
    dr_taskId = dq_taskId r,
    dr_workOrderVersion = version,
    dr_externalRunId = dq_externalRunId r,
    dr_state = ''created'',
    dr_reconciliationStatus = ''not_required'',
    dr_attemptCount = None, dr_observationSequence = None, dr_cancellationState = None,
    dr_suspensionState = None, dr_checkpointRef = None, dr_reconciliationState = None,
    dr_budgetConsumed = None, dr_terminalDisposition = None,
    dr_dispatchBoundary = Some ''not_dispatched'',
    dr_dispatchBoundaryUpdatedAt = None,
    dr_providerHttpRequestAttempts = None,
    dr_providerHttpRequestLimit = dq_providerHttpRequestLimit r,
    dr_providerRequestApprovalId = dq_providerRequestApprovalId r\<rparr>)"

text \<open>\<^verbatim>\<open>if external_run_id is not None: nxt["externalRunId"] = external_run_id\<close>.\<close>

definition set_some :: "'a option \<Rightarrow> 'a option \<Rightarrow> 'a option" where
  "set_some new old = (case new of None \<Rightarrow> old | Some x \<Rightarrow> Some x)"

definition driver_transition :: "driver_run \<Rightarrow> string \<Rightarrow> string option \<Rightarrow> driver_run res" where
  "driver_transition s to_state external_run_id =
    (let current = dr_state s in
     raise_if (current \<in> set DRIVER_TERMINAL)
       (IllegalTransition (''driver run '' @ dr_driverRunId s @ '' is terminal'') current to_state) (
     raise_if (\<not> allowed DRIVER_TRANSITIONS current to_state)
       (IllegalTransition (''driver run '' @ dr_driverRunId s) current to_state) (
     Inr (s\<lparr>dr_state := to_state,
            dr_externalRunId := set_some external_run_id (dr_externalRunId s),
            dr_reconciliationStatus :=
              (if to_state = ''lost'' then ''required''
               else if to_state = ''reconciled'' then ''resolved_effect_absent''
               else dr_reconciliationStatus s)\<rparr>))))"

section \<open>The dispatcher's aggregate (driver\_run.py)\<close>

definition M0B_TRANSITIONS :: table where
  "M0B_TRANSITIONS = [
    (''created'', [''queued'', ''cancelled'', ''failed'']),
    (''queued'', [''running'', ''cancelled'', ''failed'']),
    (''running'', [''suspended'', ''completed'', ''cancelled'', ''failed'', ''lost'']),
    (''suspended'', [''running'', ''cancelled'', ''failed'']),
    (''lost'', [''reconciled'', ''failed'']),
    (''completed'', []),
    (''cancelled'', []),
    (''failed'', []),
    (''reconciled'', [])]"

definition M0B_TERMINAL :: "string list" where
  "M0B_TERMINAL = [''completed'', ''cancelled'', ''failed'', ''reconciled'']"

definition M0B_OWNED :: "string list" where
  "M0B_OWNED = [''driverrun.state'', ''driverrun.reconciliationStatus'', ''driverrun.workOrderVersion'',
    ''driverrun.externalRunId'', ''driverrun.attemptCount'', ''driverrun.observationSequence'',
    ''driverrun.cancellationState'', ''driverrun.suspensionState'', ''driverrun.checkpointRef'',
    ''driverrun.reconciliationState'', ''driverrun.budgetConsumed'', ''driverrun.terminalDisposition'',
    ''driverrun.dispatchBoundary'']"

definition m0b_create :: "driver_run_req \<Rightarrow> driver_run" where
  "m0b_create r = \<lparr>
    dr_driverRunId = dq_driverRunId r,
    dr_driverId = dq_driverId r,
    dr_missionId = dq_missionId r,
    dr_taskId = dq_taskId r,
    dr_workOrderVersion = (case dq_workOrderVersion r of None \<Rightarrow> 1 | Some v \<Rightarrow> v),
    dr_externalRunId = dq_externalRunId r,
    dr_state = ''created'',
    dr_reconciliationStatus = ''not_required'',
    dr_attemptCount = Some 0, dr_observationSequence = Some 0, dr_cancellationState = Some JNull,
    dr_suspensionState = Some JNull, dr_checkpointRef = Some JNull, dr_reconciliationState = None,
    dr_budgetConsumed = Some [(''artifacts'', 0), (''observations'', 0), (''seconds'', 0)],
    dr_terminalDisposition = None,
    dr_dispatchBoundary = Some ''not_dispatched'',
    dr_dispatchBoundaryUpdatedAt = None,
    dr_providerHttpRequestAttempts = Some 0,
    dr_providerHttpRequestLimit = dq_providerHttpRequestLimit r,
    dr_providerRequestApprovalId = dq_providerRequestApprovalId r\<rparr>"

text \<open>\<^verbatim>\<open>state.get(k) or default\<close> for a text field.\<close>

definition str_or :: "string option \<Rightarrow> string \<Rightarrow> string" where
  "str_or x d = (case x of None \<Rightarrow> d | Some s \<Rightarrow> if s = [] then d else s)"

definition m0b_transition :: "driver_run \<Rightarrow> string \<Rightarrow> string option \<Rightarrow> driver_run res" where
  "m0b_transition s to_state external_run_id =
    (let current = dr_state s in
     raise_if (current \<in> set M0B_TERMINAL)
       (IllegalTransition (''driver run '' @ dr_driverRunId s @ '' is terminal'') current to_state) (
     raise_if (\<not> allowed M0B_TRANSITIONS current to_state)
       (IllegalTransition (''driver run '' @ dr_driverRunId s) current to_state) (
     raise_if (to_state = ''running'' \<and> dr_attemptCount s = None) (KeyError ''attemptCount'') (
     Inr (s\<lparr>dr_state := to_state,
            dr_externalRunId := set_some external_run_id (dr_externalRunId s),
            dr_attemptCount := (if to_state = ''running'' then map_option (\<lambda>n. n + 1) (dr_attemptCount s) else dr_attemptCount s),
            dr_terminalDisposition :=
              (if to_state \<in> {''completed'', ''cancelled'', ''failed''} then Some to_state else dr_terminalDisposition s),
            dr_reconciliationStatus :=
              (if to_state = ''lost'' then ''required''
               else if to_state = ''reconciled'' then str_or (dr_reconciliationState s) ''resolved_effect_absent''
               else dr_reconciliationStatus s)\<rparr>)))))"

definition next_observation_sequence :: "driver_run \<Rightarrow> int res" where
  "next_observation_sequence s = (case dr_observationSequence s of
     None \<Rightarrow> Inl (KeyError ''observationSequence'') | Some n \<Rightarrow> Inr (n + 1))"

section \<open>The dispatch boundary\<close>

definition MAX_PROVIDER_HTTP_REQUESTS_PER_RUN :: int where
  "MAX_PROVIDER_HTTP_REQUESTS_PER_RUN = 24"

definition DISPATCH_BOUNDARY_ORDER :: "(string \<times> nat) list" where
  "DISPATCH_BOUNDARY_ORDER = [(''not_dispatched'', 0), (''prepared'', 1), (''request_started'', 2),
    (''response_started'', 3), (''response_completed'', 4), (''result_persisted'', 5)]"

definition attempts_used :: "driver_run \<Rightarrow> int" where
  "attempts_used s = (case dr_providerHttpRequestAttempts s of None \<Rightarrow> 0 | Some n \<Rightarrow> n)"

text \<open>\<^verbatim>\<open>type(ceiling) is not int or not 1 <= ceiling <= 24\<close>, with the default for a missing key.\<close>

definition request_ceiling :: "driver_run \<Rightarrow> int res" where
  "request_ceiling s =
    (let ceiling = (case dr_providerHttpRequestLimit s of None \<Rightarrow> JInt MAX_PROVIDER_HTTP_REQUESTS_PER_RUN | Some v \<Rightarrow> v) in
     case ceiling of
       JInt n \<Rightarrow> raise_if (\<not> (1 \<le> n \<and> n \<le> 24)) (IllegalTransition ''INVALID_PROVIDER_REQUEST_CEILING'' (str_int n) (str_int (attempts_used s))) (Inr n)
     | _ \<Rightarrow> Inl (IllegalTransition ''INVALID_PROVIDER_REQUEST_CEILING'' (canonical_json ceiling) (str_int (attempts_used s))))"

definition boundary_of :: "driver_run \<Rightarrow> string" where
  "boundary_of s = (case dr_dispatchBoundary s of None \<Rightarrow> ''unknown'' | Some b \<Rightarrow> b)"

text \<open>Whether the boundary may move from the current value to another one.\<close>

definition boundary_moves :: "string \<Rightarrow> string \<Rightarrow> bool" where
  "boundary_moves current boundary =
    (if boundary = ''budget_rejected'' then current \<in> {''unknown'', ''not_dispatched'', ''prepared''}
     else case map_of DISPATCH_BOUNDARY_ORDER boundary of
       None \<Rightarrow> False
     | Some rank \<Rightarrow> current \<noteq> ''budget_rejected'' \<and>
         ((case map_of DISPATCH_BOUNDARY_ORDER current of None \<Rightarrow> True | Some r \<Rightarrow> rank > r)
          \<or> (boundary = ''request_started'' \<and> current = ''response_completed'')))"

definition record_dispatch_boundary :: "driver_run \<Rightarrow> string \<Rightarrow> string \<Rightarrow> driver_run res" where
  "record_dispatch_boundary s boundary recorded_at =
    (let current = boundary_of s in
     if boundary = current then
       raise_if (boundary = ''request_started'' \<and> (case dr_providerRequestApprovalId s of None \<Rightarrow> False | Some v \<Rightarrow> truthy v))
         (IllegalTransition ''PROVIDER_REQUEST_ALREADY_STARTED'' current boundary)
         (Inr (s\<lparr>dr_dispatchBoundaryUpdatedAt := Some recorded_at\<rparr>))
     else
       raise_if (\<not> boundary_moves current boundary)
         (IllegalTransition (''driver run '' @ dr_driverRunId s) current boundary) (
       let nxt = s\<lparr>dr_dispatchBoundary := Some boundary, dr_dispatchBoundaryUpdatedAt := Some recorded_at\<rparr> in
       if boundary = ''request_started'' then
         bnd (request_ceiling s) (\<lambda>ceiling.
           let used = attempts_used s in
           raise_if (used \<ge> ceiling)
             (IllegalTransition ''PROVIDER_HTTP_REQUEST_ATTEMPT_CAP_EXCEEDED'' (str_int used) (str_int (used + 1)))
             (Inr (nxt\<lparr>dr_providerHttpRequestAttempts := Some (used + 1)\<rparr>)))
       else Inr nxt))"

section \<open>Steps and their facts\<close>

datatype driver_op = DriverMove string "string option" | DriverBoundary string string

fun driver_step :: "driver_run \<Rightarrow> driver_op \<Rightarrow> driver_run res" where
  "driver_step s (DriverMove t x) = driver_transition s t x"
| "driver_step s (DriverBoundary b t) = record_dispatch_boundary s b t"

fun m0b_step :: "driver_run \<Rightarrow> driver_op \<Rightarrow> driver_run res" where
  "m0b_step s (DriverMove t x) = m0b_transition s t x"
| "m0b_step s (DriverBoundary b t) = record_dispatch_boundary s b t"

lemma driver_transition_Inr:
  "driver_transition s t x = Inr s' \<longleftrightarrow> dr_state s \<notin> set DRIVER_TERMINAL \<and> allowed DRIVER_TRANSITIONS (dr_state s) t
     \<and> s' = s\<lparr>dr_state := t, dr_externalRunId := set_some x (dr_externalRunId s),
            dr_reconciliationStatus := (if t = ''lost'' then ''required'' else if t = ''reconciled'' then ''resolved_effect_absent''
               else dr_reconciliationStatus s)\<rparr>"
  by (auto simp: driver_transition_def Let_def)

lemma m0b_transition_frame:
  "m0b_transition s t x = Inr s' \<Longrightarrow> dr_state s \<notin> set M0B_TERMINAL \<and> allowed M0B_TRANSITIONS (dr_state s) t \<and> dr_state s' = t
     \<and> dr_driverRunId s' = dr_driverRunId s \<and> boundary_of s' = boundary_of s \<and> attempts_used s' = attempts_used s
     \<and> dr_providerHttpRequestLimit s' = dr_providerHttpRequestLimit s
     \<and> dr_attemptCount s' = (if t = ''running'' then map_option (\<lambda>n. n + 1) (dr_attemptCount s) else dr_attemptCount s)
     \<and> dr_terminalDisposition s' = (if t \<in> {''completed'', ''cancelled'', ''failed''} then Some t else dr_terminalDisposition s)
     \<and> (t = ''lost'' \<longrightarrow> dr_reconciliationStatus s' = ''required'')"
proof -
  assume a: "m0b_transition s t x = Inr s'"
  then have g: "dr_state s \<notin> set M0B_TERMINAL" "allowed M0B_TRANSITIONS (dr_state s) t"
    by (simp_all add: m0b_transition_def Let_def)
  from a have "s' = s\<lparr>dr_state := t, dr_externalRunId := set_some x (dr_externalRunId s),
            dr_attemptCount := (if t = ''running'' then map_option (\<lambda>n. n + 1) (dr_attemptCount s) else dr_attemptCount s),
            dr_terminalDisposition := (if t \<in> {''completed'', ''cancelled'', ''failed''} then Some t else dr_terminalDisposition s),
            dr_reconciliationStatus := (if t = ''lost'' then ''required''
               else if t = ''reconciled'' then str_or (dr_reconciliationState s) ''resolved_effect_absent''
               else dr_reconciliationStatus s)\<rparr>"
    by (simp add: m0b_transition_def Let_def)
  with g show ?thesis by (simp add: boundary_of_def attempts_used_def)
qed

lemma request_ceiling_Inr: "request_ceiling s = Inr n \<Longrightarrow> 1 \<le> n \<and> n \<le> 24 \<and>
    (\<forall>k. dr_providerHttpRequestLimit s = Some (JInt k) \<longrightarrow> n = k)"
  by (auto simp: request_ceiling_def Let_def split: json.splits option.splits)

text \<open>An accepted boundary record keeps the boundary or moves it; a request is counted when it opens.\<close>

lemma record_dispatch_boundary_Inr:
  assumes "record_dispatch_boundary s b t = Inr s'"
  shows "boundary_of s' = b \<and> (b = boundary_of s \<or> boundary_moves (boundary_of s) b)
    \<and> attempts_used s' = attempts_used s + (if b = ''request_started'' \<and> boundary_of s \<noteq> b then 1 else 0)
    \<and> (b = ''request_started'' \<and> boundary_of s \<noteq> b \<longrightarrow> (\<exists>c. request_ceiling s = Inr c \<and> attempts_used s < c))
    \<and> dr_state s' = dr_state s \<and> dr_driverRunId s' = dr_driverRunId s
    \<and> dr_attemptCount s' = dr_attemptCount s \<and> dr_terminalDisposition s' = dr_terminalDisposition s
    \<and> dr_reconciliationStatus s' = dr_reconciliationStatus s
    \<and> dr_providerHttpRequestLimit s' = dr_providerHttpRequestLimit s"
proof (cases "b = boundary_of s")
  case True
  with assms show ?thesis
    by (auto simp: record_dispatch_boundary_def Let_def boundary_of_def attempts_used_def)
next
  case False
  then show ?thesis
    using assms by (auto simp: record_dispatch_boundary_def Let_def boundary_of_def attempts_used_def split: if_splits)
qed

lemma driver_terminal_no_exit: "s \<in> set DRIVER_TERMINAL \<Longrightarrow> \<not> allowed DRIVER_TRANSITIONS s t"
  by (auto simp: DRIVER_TERMINAL_def DRIVER_TRANSITIONS_def allowed_def)

lemma m0b_terminal_no_exit: "s \<in> set M0B_TERMINAL \<Longrightarrow> \<not> allowed M0B_TRANSITIONS s t"
  by (auto simp: M0B_TERMINAL_def M0B_TRANSITIONS_def allowed_def)

interpretation driver_lc: lifecycle DRIVER_TRANSITIONS DRIVER_TERMINAL dr_state dr_driverRunId driver_step
proof unfold_locales
  fix x a y assume "driver_step x a = Inr y"
  then show "dr_state y = dr_state x \<or> allowed DRIVER_TRANSITIONS (dr_state x) (dr_state y)"
    and "dr_driverRunId y = dr_driverRunId x"
    by (cases a; auto simp: driver_transition_Inr dest: record_dispatch_boundary_Inr)+
qed (rule driver_terminal_no_exit)

interpretation m0b_lc: lifecycle M0B_TRANSITIONS M0B_TERMINAL dr_state dr_driverRunId m0b_step
proof unfold_locales
  fix x a y assume "m0b_step x a = Inr y"
  then show "dr_state y = dr_state x \<or> allowed M0B_TRANSITIONS (dr_state x) (dr_state y)"
    and "dr_driverRunId y = dr_driverRunId x"
    by (cases a; auto dest: record_dispatch_boundary_Inr m0b_transition_frame)+
qed (rule m0b_terminal_no_exit)

section \<open>The request budget\<close>

text \<open>The boundaries a list of attempted operations newly entered, in order.\<close>

fun boundary_trace :: "(driver_run \<Rightarrow> 'o \<Rightarrow> driver_run res) \<Rightarrow> driver_run \<Rightarrow> 'o list \<Rightarrow> string list" where
  "boundary_trace step s [] = []"
| "boundary_trace step s (x # xs) = (case step s x of
     Inl _ \<Rightarrow> boundary_trace step s xs
   | Inr s' \<Rightarrow> (if boundary_of s' = boundary_of s then [] else [boundary_of s']) @ boundary_trace step s' xs)"

definition open_phase :: "string \<Rightarrow> nat" where
  "open_phase b = (if b \<in> {''request_started'', ''response_started'', ''result_persisted'', ''budget_rejected''} then 1 else 0)"

text \<open>A move between boundaries opens a request only outside an open phase.\<close>

lemma boundary_moves_phase:
  assumes "boundary_moves a b"
  shows "(if b = ''request_started'' then 1 else 0) + open_phase a
    \<le> (if b = ''response_completed'' then 1 else 0) + open_phase b"
  using assms by (auto simp: boundary_moves_def open_phase_def DISPATCH_BOUNDARY_ORDER_def split: if_splits)

definition before_requests :: "string list" where
  "before_requests = [''not_dispatched'', ''prepared'', ''budget_rejected'']"

lemma boundary_moves_known: "boundary_moves a b \<Longrightarrow> b \<in> set (''budget_rejected'' # map fst DISPATCH_BOUNDARY_ORDER)"
proof (cases "map_of DISPATCH_BOUNDARY_ORDER b")
  case None
  assume "boundary_moves a b"
  with None show ?thesis by (simp add: boundary_moves_def split: if_splits)
next
  case (Some r)
  then have "b \<in> fst ` set DISPATCH_BOUNDARY_ORDER" by (metis map_of_eq_None_iff option.distinct(1))
  then show ?thesis by simp
qed

lemma boundary_moves_into_before:
  assumes "boundary_moves a b" and "b \<in> set before_requests"
    and "a \<in> set (''budget_rejected'' # map fst DISPATCH_BOUNDARY_ORDER)"
  shows "a \<in> set before_requests"
  using assms by (auto simp: boundary_moves_def before_requests_def DISPATCH_BOUNDARY_ORDER_def split: if_splits)

definition budget_ok :: "driver_run \<Rightarrow> bool" where
  "budget_ok s \<longleftrightarrow> boundary_of s \<in> set (''budget_rejected'' # map fst DISPATCH_BOUNDARY_ORDER)
     \<and> (boundary_of s \<in> set before_requests \<longrightarrow> attempts_used s = 0)
     \<and> 0 \<le> attempts_used s \<and> attempts_used s \<le> 24
     \<and> (\<forall>k. dr_providerHttpRequestLimit s = Some (JInt k) \<longrightarrow> attempts_used s \<le> max 0 k)"

lemma budget_ok_boundary:
  assumes ok: "budget_ok s" and step: "record_dispatch_boundary s b t = Inr s'"
  shows "budget_ok s'"
proof (cases "b = boundary_of s")
  case True
  with assms record_dispatch_boundary_Inr[OF step] show ?thesis by (simp add: budget_ok_def)
next
  case False
  note R = record_dispatch_boundary_Inr[OF step]
  from R False have mv: "boundary_moves (boundary_of s) b" and b: "boundary_of s' = b" by auto
  have known: "b \<in> set (''budget_rejected'' # map fst DISPATCH_BOUNDARY_ORDER)" by (rule boundary_moves_known[OF mv])
  have zero: "b \<in> set before_requests \<Longrightarrow> attempts_used s' = 0"
  proof -
    assume z: "b \<in> set before_requests"
    with boundary_moves_into_before[OF mv] ok have "attempts_used s = 0" unfolding budget_ok_def by blast
    moreover from z have "b \<noteq> ''request_started''" by (auto simp: before_requests_def)
    ultimately show "attempts_used s' = 0" using R by simp
  qed
  have "attempts_used s' \<le> 24 \<and> (\<forall>k. dr_providerHttpRequestLimit s' = Some (JInt k) \<longrightarrow> attempts_used s' \<le> max 0 k)"
  proof (cases "b = ''request_started''")
    case True
    with R False obtain c where c: "request_ceiling s = Inr c" "attempts_used s < c" by metis
    with request_ceiling_Inr[OF c(1)] R True False show ?thesis by auto
  next
    case False
    with R ok show ?thesis by (auto simp: budget_ok_def)
  qed
  moreover have "0 \<le> attempts_used s'" using R ok by (auto simp: budget_ok_def)
  ultimately show ?thesis using known zero b by (simp add: budget_ok_def)
qed

text \<open>
  Both aggregates satisfy the same contract: their moves leave the boundary and the request
  counter alone, and they record boundaries with the one recorder.
\<close>

locale boundary_machine =
  fixes step :: "driver_run \<Rightarrow> driver_op \<Rightarrow> driver_run res"
  assumes move_keeps: "step s (DriverMove t x) = Inr s' \<Longrightarrow> boundary_of s' = boundary_of s
      \<and> attempts_used s' = attempts_used s \<and> dr_providerHttpRequestLimit s' = dr_providerHttpRequestLimit s"
    and boundary_step: "step s (DriverBoundary b t) = record_dispatch_boundary s b t"
begin

lemma step_budget: "budget_ok s \<Longrightarrow> step s a = Inr s' \<Longrightarrow> budget_ok s'"
proof (cases a)
  case (DriverMove t x)
  assume "budget_ok s" and "step s a = Inr s'"
  moreover from this DriverMove have "boundary_of s' = boundary_of s" "attempts_used s' = attempts_used s"
    "dr_providerHttpRequestLimit s' = dr_providerHttpRequestLimit s" by (simp_all add: move_keeps)
  ultimately show ?thesis by (simp add: budget_ok_def)
next
  case (DriverBoundary b t)
  assume "budget_ok s" and "step s a = Inr s'"
  with DriverBoundary show ?thesis by (auto simp: boundary_step intro: budget_ok_boundary)
qed

lemma budget: "budget_ok s \<Longrightarrow> budget_ok (attempt step s ops)"
  by (rule attempt_invariant) (auto intro: step_budget)

lemma step_counts:
  assumes "step s a = Inr s'"
  shows "attempts_used s' = attempts_used s + (if boundary_of s' = ''request_started'' \<and> boundary_of s \<noteq> boundary_of s' then 1 else 0)
    \<and> (boundary_of s' = boundary_of s \<or> boundary_moves (boundary_of s) (boundary_of s'))"
proof (cases a)
  case (DriverMove t x)
  with assms show ?thesis by (simp add: move_keeps)
next
  case (DriverBoundary b t)
  with assms show ?thesis using record_dispatch_boundary_Inr[of s b t s'] by (auto simp: boundary_step)
qed

lemma counted_requests:
  "attempts_used (attempt step s ops) = attempts_used s + int (count_list (boundary_trace step s ops) ''request_started'')"
proof (induction ops arbitrary: s)
  case (Cons a ops)
  show ?case
  proof (cases "step s a")
    case (Inr s')
    with Cons[of s'] step_counts[OF Inr] show ?thesis by auto
  qed (use Cons in simp)
qed simp

lemma requests_separated:
  "count_list (boundary_trace step s ops) ''request_started'' + open_phase (boundary_of s)
     \<le> count_list (boundary_trace step s ops) ''response_completed'' + open_phase (boundary_of (attempt step s ops))"
proof (induction ops arbitrary: s)
  case (Cons a ops)
  show ?case
  proof (cases "step s a")
    case (Inr s')
    show ?thesis
    proof (cases "boundary_of s' = boundary_of s")
      case True
      with Inr Cons[of s'] show ?thesis by simp
    next
      case False
      with step_counts[OF Inr] have "boundary_moves (boundary_of s) (boundary_of s')" by blast
      with boundary_moves_phase Inr Cons[of s'] False show ?thesis by fastforce
    qed
  qed (use Cons in simp)
qed simp

lemma rejected_final:
  "boundary_of s = ''budget_rejected'' \<Longrightarrow> boundary_of (attempt step s ops) = ''budget_rejected''"
proof (rule attempt_invariant[where P = "\<lambda>s. boundary_of s = ''budget_rejected''"])
  fix s a s' assume "boundary_of s = ''budget_rejected''" "step s a = Inr s'"
  then show "boundary_of s' = ''budget_rejected''"
    using step_counts[of s a s'] by (auto simp: boundary_moves_def split: if_splits option.splits)
qed

end

interpretation driver_bm: boundary_machine driver_step
  by unfold_locales (auto simp: driver_transition_Inr boundary_of_def attempts_used_def)

interpretation m0b_bm: boundary_machine m0b_step
  by unfold_locales (auto dest: m0b_transition_frame)

lemma created_budget_ok: "driver_create r = Inr s \<Longrightarrow> budget_ok s \<and> attempts_used s = 0 \<and> boundary_of s = ''not_dispatched''"
  by (auto simp: driver_create_def budget_ok_def boundary_of_def attempts_used_def DISPATCH_BOUNDARY_ORDER_def split: option.splits)


definition sample_run :: driver_run_req where
  "sample_run = \<lparr>dq_driverRunId = ''r1'', dq_driverId = ''d1'', dq_missionId = ''m1'', dq_taskId = ''t1'',
     dq_workOrderVersion = Some 1, dq_externalRunId = None, dq_providerHttpRequestLimit = Some (JInt 1),
     dq_providerRequestApprovalId = None\<rparr>"

definition sample_run_ops :: "driver_op list" where
  "sample_run_ops = [DriverMove ''submitted'' None, DriverMove ''running'' (Some ''x''), DriverBoundary ''prepared'' ''t'',
     DriverBoundary ''request_started'' ''t'', DriverBoundary ''response_completed'' ''t'', DriverBoundary ''request_started'' ''t'',
     DriverBoundary ''prepared'' ''t'']"

lemmas driver_eval = driver_create_def driver_transition_def record_dispatch_boundary_def request_ceiling_def attempts_used_def
  boundary_of_def boundary_moves_def DISPATCH_BOUNDARY_ORDER_def DRIVER_TERMINAL_def DRIVER_TRANSITIONS_def
  MAX_PROVIDER_HTTP_REQUESTS_PER_RUN_def sample_run_def sample_run_ops_def allowed_def raise_if_def set_some_def Let_def


section \<open>Bookkeeping of the dispatcher's aggregate\<close>

definition bookkept :: "driver_run \<Rightarrow> bool" where
  "bookkept s \<longleftrightarrow> dr_state s \<in> set (map fst M0B_TRANSITIONS)
     \<and> dr_terminalDisposition s = (if dr_state s \<in> {''completed'', ''cancelled'', ''failed''} then Some (dr_state s) else None)
     \<and> (dr_state s = ''lost'' \<longrightarrow> dr_reconciliationStatus s = ''required'')
     \<and> (\<exists>n\<ge>0. dr_attemptCount s = Some n \<and> (dr_state s \<in> {''running'', ''suspended'', ''completed'', ''lost'', ''reconciled''} \<longrightarrow> n \<ge> 1))"

lemma m0b_move_cases:
  "allowed M0B_TRANSITIONS a b \<Longrightarrow>
     (a = ''created'' \<and> b \<in> {''queued'', ''cancelled'', ''failed''})
     \<or> (a = ''queued'' \<and> b \<in> {''running'', ''cancelled'', ''failed''})
     \<or> (a = ''running'' \<and> b \<in> {''suspended'', ''completed'', ''cancelled'', ''failed'', ''lost''})
     \<or> (a = ''suspended'' \<and> b \<in> {''running'', ''cancelled'', ''failed''})
     \<or> (a = ''lost'' \<and> b \<in> {''reconciled'', ''failed''})"
  by (auto simp: M0B_TRANSITIONS_def allowed_def split: if_splits)

lemma bookkept_step:
  assumes inv: "bookkept s" and step: "m0b_step s a = Inr s'"
  shows "bookkept s'"
proof (cases a)
  case (DriverMove t x)
  with step have m: "m0b_transition s t x = Inr s'" by simp
  note F = m0b_transition_frame[OF m]
  from inv obtain n where n: "n \<ge> 0" "dr_attemptCount s = Some n"
      "dr_state s \<in> {''running'', ''suspended'', ''completed'', ''lost'', ''reconciled''} \<longrightarrow> n \<ge> 1"
    unfolding bookkept_def by blast
  have disp: "dr_terminalDisposition s = None"
    using inv F by (auto simp: bookkept_def M0B_TERMINAL_def split: if_splits)
  from F have mv: "allowed M0B_TRANSITIONS (dr_state s) t" by blast
  have known: "t \<in> set (map fst M0B_TRANSITIONS)"
    using m0b_move_cases[OF mv] by (auto simp: M0B_TRANSITIONS_def)
  have "\<exists>k\<ge>0. dr_attemptCount s' = Some k \<and> (t \<in> {''running'', ''suspended'', ''completed'', ''lost'', ''reconciled''} \<longrightarrow> k \<ge> 1)"
    using m0b_move_cases[OF mv] F n by auto
  with F disp known show ?thesis unfolding bookkept_def by simp
next
  case (DriverBoundary b t)
  with step inv show ?thesis using record_dispatch_boundary_Inr[of s b t s'] unfolding bookkept_def by simp
qed



text \<open>
  The two aggregates do not mix: a run the kernel created has no \<^verbatim>\<open>attemptCount\<close>, and the
  dispatcher's \<^verbatim>\<open>transition\<close> of it to \<open>running\<close> fails with a \<^verbatim>\<open>KeyError\<close>.
\<close>

lemma kernel_run_cannot_resume_in_dispatcher:
  assumes "driver_create r = Inr s0" and "s = attempt driver_step s0 ops" and "dr_state s = ''suspended''"
  shows "m0b_transition s ''running'' x = Inl (KeyError ''attemptCount'')"
proof -
  have "dr_attemptCount s = None"
    unfolding assms(2)
  proof (rule attempt_invariant[where P = "\<lambda>t. dr_attemptCount t = None"])
    fix t a t' assume "dr_attemptCount t = None" "driver_step t a = Inr t'"
    then show "dr_attemptCount t' = None"
    proof (cases a)
      case (DriverBoundary b u)
      with \<open>driver_step t a = Inr t'\<close> have "record_dispatch_boundary t b u = Inr t'" by simp
      from record_dispatch_boundary_Inr[OF this] \<open>dr_attemptCount t = None\<close> show ?thesis by simp
    qed (simp add: driver_transition_Inr)
  next
    show "dr_attemptCount s0 = None" using assms(1) by (auto simp: driver_create_def split: option.splits)
  qed
  with assms(3) show ?thesis
    by (simp add: m0b_transition_def M0B_TERMINAL_def M0B_TRANSITIONS_def allowed_def)
qed

end
