(* ===== verification/Approvals.thy ===== *)
theory Approvals
  imports Capability
begin

text \<open>
  \<^verbatim>\<open>aggregates/human_approval.py\<close>: a bounded approval request, the decision of its operator, and its
  consumption, revocation and expiry.
\<close>

section \<open>Human approval\<close>

record approval_req =
  aq_requestId :: string
  aq_missionId :: string
  aq_taskId :: string
  aq_requestedCapability :: string
  aq_resource :: json
  aq_operation :: string
  aq_operations :: "string list option"
  aq_capabilitySubject :: "actor option"
  aq_capabilityConditions :: "json list option"
  aq_capabilityMaxUses :: "int option"
  aq_scope :: "json option"
  aq_riskClassification :: string
  aq_policyReason :: string
  aq_requestedBy :: actor
  aq_expiresAt :: string
  aq_remainingUses :: "int option"
  aq_correlationId :: string
  aq_createdAt :: string
  aq_promptAssemblyDigest :: "string option"
  aq_externalCommitments :: "json list option"

record approval_decision =
  ad_idempotencyKey :: string
  ad_decision :: string
  ad_operatorId :: "string option"
  ad_decidedAt :: string
  ad_note :: "string option"

record approval_revocation =
  av_requestId :: "string option"
  av_operatorId :: "string option"
  av_reason :: "string option"
  av_revokedAt :: "string option"

record approval =
  ap_requestId :: string
  ap_missionId :: string
  ap_taskId :: string
  ap_requestedCapability :: string
  ap_resource :: json
  ap_operation :: string
  ap_operations :: "string list"
  ap_capabilitySubject :: "actor option"
  ap_capabilityConditions :: "json list"
  ap_capabilityMaxUses :: "int option"
  ap_scope :: json
  ap_riskClassification :: string
  ap_policyReason :: string
  ap_requestedBy :: actor
  ap_expiresAt :: string
  ap_remainingUses :: "int option"
  ap_correlationId :: string
  ap_createdAt :: string
  ap_promptAssemblyDigest :: "string option"
  ap_externalCommitments :: "json list"
  ap_state :: string
  ap_decision :: "string option"
  ap_operatorId :: "string option"
  ap_decidedAt :: "string option"
  ap_note :: "string option"
  ap_decidedIdempotencyKeys :: "string list"
  ap_consumedAt :: "string option"
  ap_consumedBy :: "string option"
  ap_revocation :: "approval_revocation option"

definition APPROVAL_TERMINAL :: "string list" where
  "APPROVAL_TERMINAL = [''denied'', ''expired'', ''consumed'', ''revoked'']"

definition APPROVAL_TRANSITIONS :: table where
  "APPROVAL_TRANSITIONS = [
    (''requested'', [''approved'', ''denied'', ''expired'']),
    (''approved'', [''consumed'', ''expired'', ''revoked'']),
    (''denied'', []), (''expired'', []), (''consumed'', []), (''revoked'', [])]"

definition APPROVAL_OWNED :: "string list" where
  "APPROVAL_OWNED = [''human_approval.state'', ''human_approval.operations'', ''human_approval.decision'',
    ''human_approval.operatorId'', ''human_approval.decidedAt'', ''human_approval.note'',
    ''human_approval.decidedIdempotencyKeys'', ''human_approval.remainingUses'', ''human_approval.consumedAt'',
    ''human_approval.consumedBy'', ''human_approval.revocation'']"

definition approval_stream_id :: "string \<Rightarrow> string" where
  "approval_stream_id request_id = ''human_approval-'' @ request_id"

definition approval_create :: "approval_req \<Rightarrow> approval" where
  "approval_create r = \<lparr>
    ap_requestId = aq_requestId r,
    ap_missionId = aq_missionId r,
    ap_taskId = aq_taskId r,
    ap_requestedCapability = aq_requestedCapability r,
    ap_resource = aq_resource r,
    ap_operation = aq_operation r,
    ap_operations = or_empty (aq_operations r),
    ap_capabilitySubject = aq_capabilitySubject r,
    ap_capabilityConditions = or_empty (aq_capabilityConditions r),
    ap_capabilityMaxUses = aq_capabilityMaxUses r,
    ap_scope = (case aq_scope r of None \<Rightarrow> JObj [] | Some v \<Rightarrow> v),
    ap_riskClassification = aq_riskClassification r,
    ap_policyReason = aq_policyReason r,
    ap_requestedBy = aq_requestedBy r,
    ap_expiresAt = aq_expiresAt r,
    ap_remainingUses = aq_remainingUses r,
    ap_correlationId = aq_correlationId r,
    ap_createdAt = aq_createdAt r,
    ap_promptAssemblyDigest = aq_promptAssemblyDigest r,
    ap_externalCommitments = or_empty (aq_externalCommitments r),
    ap_state = ''requested'',
    ap_decision = None, ap_operatorId = None, ap_decidedAt = None, ap_note = None,
    ap_decidedIdempotencyKeys = [], ap_consumedAt = None, ap_consumedBy = None,
    ap_revocation = None\<rparr>"

text \<open>\<^verbatim>\<open>not x\<close> for an optional text.\<close>

definition falsy :: "string option \<Rightarrow> bool" where
  "falsy x = (x = None \<or> x = Some [])"

definition approval_decide :: "approval \<Rightarrow> approval_decision \<Rightarrow> string \<Rightarrow> approval res" where
  "approval_decide s d now =
    (let current = ap_state s; idek = ad_idempotencyKey d in
     if idek \<in> set (ap_decidedIdempotencyKeys s) then Inr s
     else
     raise_if (current \<noteq> ''requested'')
       (IllegalTransition (''approval '' @ ap_requestId s @ '' cannot be decided from '' @ current) current (ad_decision d)) (
     raise_if (ad_decision d = ''approve'' \<and> now > ap_expiresAt s)
       (AuthorityViolation (''approval '' @ ap_requestId s @ '' expired at '' @ ap_expiresAt s @ ''; approval refused'')) (
     raise_if (falsy (ad_operatorId d))
       (AuthorityViolation (''approval '' @ ap_requestId s @ '' decision missing operatorId'')) (
     Inr (s\<lparr>ap_state := (if ad_decision d = ''approve'' then ''approved'' else ''denied''),
            ap_decision := Some (ad_decision d), ap_operatorId := ad_operatorId d,
            ap_decidedAt := Some (ad_decidedAt d), ap_note := ad_note d,
            ap_decidedIdempotencyKeys := add_once idek (ap_decidedIdempotencyKeys s)\<rparr>)))))"

definition approval_revoke :: "approval \<Rightarrow> approval_revocation \<Rightarrow> approval res" where
  "approval_revoke s v =
    raise_if (ap_state s \<noteq> ''approved'')
      (IllegalTransition ''only approved authority may be revoked'' (ap_state s) ''revoked'') (
    raise_if (av_requestId v \<noteq> Some (ap_requestId s) \<or> falsy (av_operatorId v))
      (AuthorityViolation ''APPROVAL_REVOCATION_IDENTITY_MISMATCH'') (
    raise_if (falsy (av_reason v) \<or> falsy (av_revokedAt v))
      (AuthorityViolation ''APPROVAL_REVOCATION_EVIDENCE_REQUIRED'') (
    Inr (s\<lparr>ap_state := ''revoked'', ap_revocation := Some v\<rparr>))))"

definition approval_mark_expired :: "approval \<Rightarrow> approval" where
  "approval_mark_expired s = (if ap_state s \<in> set APPROVAL_TERMINAL then s else s\<lparr>ap_state := ''expired''\<rparr>)"

definition approval_consume :: "approval \<Rightarrow> string \<Rightarrow> string \<Rightarrow> approval res" where
  "approval_consume s use_id now =
    raise_if (ap_state s \<noteq> ''approved'')
      (IllegalTransition (''approval '' @ ap_requestId s @ '' cannot be consumed from '' @ ap_state s) (ap_state s) ''consumed'') (
    raise_if (now > ap_expiresAt s) (AuthorityViolation ''MODEL_PROMPT_APPROVAL_EXPIRED'') (
    case ap_remainingUses s of
      None \<Rightarrow> Inl (AuthorityViolation ''MODEL_PROMPT_APPROVAL_USE_LIMIT_MISSING'')
    | Some remaining \<Rightarrow>
        raise_if (remaining < 1) (AuthorityViolation ''MODEL_PROMPT_APPROVAL_USE_LIMIT_MISSING'')
        (Inr (s\<lparr>ap_remainingUses := Some (remaining - 1), ap_consumedAt := Some now, ap_consumedBy := Some use_id,
               ap_state := (if remaining - 1 = 0 then ''consumed'' else ap_state s)\<rparr>))))"

datatype approval_op =
    ApprovalDecide approval_decision string
  | ApprovalRevoke approval_revocation
  | ApprovalExpire
  | ApprovalConsume string string

fun approval_step :: "approval \<Rightarrow> approval_op \<Rightarrow> approval res" where
  "approval_step s (ApprovalDecide d now) = approval_decide s d now"
| "approval_step s (ApprovalRevoke v) = approval_revoke s v"
| "approval_step s ApprovalExpire = Inr (approval_mark_expired s)"
| "approval_step s (ApprovalConsume u now) = approval_consume s u now"

lemma approval_decide_Inr:
  "approval_decide s d now = Inr s' \<longleftrightarrow>
    (if ad_idempotencyKey d \<in> set (ap_decidedIdempotencyKeys s) then s' = s
     else ap_state s = ''requested'' \<and> \<not> (ad_decision d = ''approve'' \<and> now > ap_expiresAt s) \<and> \<not> falsy (ad_operatorId d)
       \<and> s' = s\<lparr>ap_state := (if ad_decision d = ''approve'' then ''approved'' else ''denied''),
            ap_decision := Some (ad_decision d), ap_operatorId := ad_operatorId d,
            ap_decidedAt := Some (ad_decidedAt d), ap_note := ad_note d,
            ap_decidedIdempotencyKeys := add_once (ad_idempotencyKey d) (ap_decidedIdempotencyKeys s)\<rparr>)"
  by (auto simp: approval_decide_def Let_def)

lemma approval_revoke_Inr:
  "approval_revoke s v = Inr s' \<longleftrightarrow> ap_state s = ''approved'' \<and> av_requestId v = Some (ap_requestId s)
     \<and> \<not> falsy (av_operatorId v) \<and> \<not> falsy (av_reason v) \<and> \<not> falsy (av_revokedAt v)
     \<and> s' = s\<lparr>ap_state := ''revoked'', ap_revocation := Some v\<rparr>"
  by (auto simp: approval_revoke_def)

lemma approval_consume_Inr:
  "approval_consume s u now = Inr s' \<longleftrightarrow> ap_state s = ''approved'' \<and> now \<le> ap_expiresAt s
     \<and> (\<exists>n\<ge>1. ap_remainingUses s = Some n
       \<and> s' = s\<lparr>ap_remainingUses := Some (n - 1), ap_consumedAt := Some now, ap_consumedBy := Some u,
                ap_state := (if n = 1 then ''consumed'' else ap_state s)\<rparr>)"
  by (cases "ap_remainingUses s") (auto simp: approval_consume_def not_less)

lemmas approval_step_Inr = approval_decide_Inr approval_revoke_Inr approval_consume_Inr

definition approval_known :: "approval \<Rightarrow> bool" where
  "approval_known s \<longleftrightarrow> ap_state s \<in> set (map fst APPROVAL_TRANSITIONS)"

lemma approval_moves:
  assumes "approval_known s" and "approval_step s a = Inr s'"
  shows "ap_state s' = ap_state s \<or> allowed APPROVAL_TRANSITIONS (ap_state s) (ap_state s')"
proof (cases a)
  case ApprovalExpire
  with assms show ?thesis
    by (auto simp: approval_mark_expired_def approval_known_def APPROVAL_TRANSITIONS_def APPROVAL_TERMINAL_def allowed_def)
qed (use assms in \<open>auto simp: approval_step_Inr APPROVAL_TRANSITIONS_def allowed_def split: if_splits\<close>)

lemma approval_known_target: "allowed APPROVAL_TRANSITIONS a b \<Longrightarrow> b \<in> set (map fst APPROVAL_TRANSITIONS)"
  by (auto simp: APPROVAL_TRANSITIONS_def allowed_def split: if_splits)

lemma approval_known_step: "approval_known s \<Longrightarrow> approval_step s a = Inr s' \<Longrightarrow> approval_known s'"
  using approval_moves[of s a s'] approval_known_target unfolding approval_known_def by metis

lemma approval_ids: "approval_step s a = Inr s' \<Longrightarrow> ap_requestId s' = ap_requestId s \<and> ap_expiresAt s' = ap_expiresAt s
    \<and> ap_operations s' = ap_operations s \<and> ap_scope s' = ap_scope s"
proof -
  assume "approval_step s a = Inr s'"
  then show ?thesis
  proof (cases a)
    case (ApprovalDecide d now)
    with \<open>approval_step s a = Inr s'\<close> show ?thesis
      by (cases "ad_idempotencyKey d \<in> set (ap_decidedIdempotencyKeys s)") (simp_all add: approval_decide_Inr)
  next
    case (ApprovalConsume u now)
    with \<open>approval_step s a = Inr s'\<close> obtain n where "s' = s\<lparr>ap_remainingUses := Some (n - 1),
        ap_consumedAt := Some now, ap_consumedBy := Some u, ap_state := (if n = 1 then ''consumed'' else ap_state s)\<rparr>"
      by (auto simp: approval_consume_Inr)
    then show ?thesis by simp
  qed (auto simp: approval_revoke_Inr approval_mark_expired_def)
qed

interpretation approval_lc: lifecycle_inv APPROVAL_TRANSITIONS APPROVAL_TERMINAL ap_state ap_requestId approval_known approval_step
proof unfold_locales
  show "\<not> allowed APPROVAL_TRANSITIONS s t" if "s \<in> set APPROVAL_TERMINAL" for s t
    using that by (auto simp: APPROVAL_TERMINAL_def APPROVAL_TRANSITIONS_def allowed_def)
qed (use approval_known_step approval_moves approval_ids in blast)+

text \<open>How many uses a list of attempted operations consumed.\<close>

fun uses_of :: "approval \<Rightarrow> approval_op list \<Rightarrow> nat" where
  "uses_of s [] = 0"
| "uses_of s (a # as) = (case approval_step s a of
     Inl _ \<Rightarrow> uses_of s as
   | Inr s' \<Rightarrow> (case a of ApprovalConsume _ _ \<Rightarrow> 1 | _ \<Rightarrow> 0) + uses_of s' as)"

lemma approval_step_uses:
  assumes "approval_step s a = Inr s'"
  shows "case a of ApprovalConsume u now \<Rightarrow> (\<exists>n\<ge>1. ap_remainingUses s = Some n \<and> ap_remainingUses s' = Some (n - 1))
     | _ \<Rightarrow> ap_remainingUses s' = ap_remainingUses s"
proof (cases a)
  case (ApprovalDecide d now)
  with assms show ?thesis
    by (cases "ad_idempotencyKey d \<in> set (ap_decidedIdempotencyKeys s)") (simp_all add: approval_decide_Inr)
next
  case (ApprovalConsume u now)
  with assms obtain n where "n \<ge> 1" "ap_remainingUses s = Some n" "s' = s\<lparr>ap_remainingUses := Some (n - 1),
      ap_consumedAt := Some now, ap_consumedBy := Some u, ap_state := (if n = 1 then ''consumed'' else ap_state s)\<rparr>"
    by (auto simp: approval_consume_Inr)
  then show ?thesis using ApprovalConsume by simp
qed (use assms in \<open>auto simp: approval_revoke_Inr approval_mark_expired_def\<close>)

lemma uses_bounded:
  "(case ap_remainingUses s of None \<Rightarrow> uses_of s ops = 0 \<and> ap_remainingUses (attempt approval_step s ops) = None
    | Some n \<Rightarrow> int (uses_of s ops) \<le> max 0 n \<and> ap_remainingUses (attempt approval_step s ops) = Some (n - int (uses_of s ops)))"
proof (induction ops arbitrary: s)
  case (Cons a ops)
  show ?case
  proof (cases "approval_step s a")
    case (Inr s')
    from approval_step_uses[OF Inr] Cons[of s'] Inr show ?thesis
      by (cases a; cases "ap_remainingUses s") auto
  next
    case (Inl e)
    then have "uses_of s (a # ops) = uses_of s ops" "attempt approval_step s (a # ops) = attempt approval_step s ops" by simp_all
    with Cons[of s] show ?thesis by presburger
  qed
qed (simp split: option.split)

text \<open>What the attempted operations justify about the decision and the uses.\<close>

definition approved_by :: "approval_op set \<Rightarrow> string \<Rightarrow> string \<Rightarrow> bool" where
  "approved_by H who expires \<longleftrightarrow> (\<exists>d now. ApprovalDecide d now \<in> H \<and> ad_decision d = ''approve''
     \<and> ad_operatorId d = Some who \<and> who \<noteq> [] \<and> now \<le> expires)"

definition approval_inv :: "approval_op set \<Rightarrow> approval \<Rightarrow> bool" where
  "approval_inv H s \<longleftrightarrow>
     (ap_state s \<in> {''approved'', ''consumed'', ''revoked''} \<or> ap_consumedBy s \<noteq> None \<longrightarrow>
        (\<exists>who. ap_operatorId s = Some who \<and> approved_by H who (ap_expiresAt s)))
     \<and> (ap_state s = ''requested'' \<longrightarrow> ap_decidedIdempotencyKeys s = [] \<and> ap_consumedBy s = None)
     \<and> length (ap_decidedIdempotencyKeys s) \<le> 1
     \<and> (\<forall>t. ap_consumedAt s = Some t \<longrightarrow> t \<le> ap_expiresAt s)"

lemma approval_inv_step:
  assumes inv: "approval_inv H s" and step: "approval_step s a = Inr s'" and a: "a \<in> H"
  shows "approval_inv H s'"
proof (cases a)
  case (ApprovalDecide d now)
  show ?thesis
  proof (cases "ad_idempotencyKey d \<in> set (ap_decidedIdempotencyKeys s)")
    case True
    with ApprovalDecide step inv show ?thesis by (simp add: approval_decide_Inr)
  next
    case False
    with ApprovalDecide step have s': "ap_state s = ''requested''" "\<not> (ad_decision d = ''approve'' \<and> now > ap_expiresAt s)"
      "\<not> falsy (ad_operatorId d)"
      "s' = s\<lparr>ap_state := (if ad_decision d = ''approve'' then ''approved'' else ''denied''),
            ap_decision := Some (ad_decision d), ap_operatorId := ad_operatorId d,
            ap_decidedAt := Some (ad_decidedAt d), ap_note := ad_note d,
            ap_decidedIdempotencyKeys := add_once (ad_idempotencyKey d) (ap_decidedIdempotencyKeys s)\<rparr>"
      by (simp_all add: approval_decide_Inr)
    moreover have "ad_decision d = ''approve'' \<Longrightarrow> \<exists>who. ad_operatorId d = Some who \<and> approved_by H who (ap_expiresAt s)"
      using a ApprovalDecide s'(2,3) unfolding approved_by_def falsy_def by (metis not_Some_eq not_less)
    ultimately show ?thesis using inv by (auto simp: approval_inv_def add_once_def)
  qed
next
  case (ApprovalRevoke v)
  with step inv show ?thesis by (auto simp: approval_revoke_Inr approval_inv_def)
next
  case ApprovalExpire
  with step inv show ?thesis by (auto simp: approval_mark_expired_def approval_inv_def split: if_splits)
next
  case (ApprovalConsume u now)
  with step obtain n where n: "ap_state s = ''approved''" "now \<le> ap_expiresAt s"
      "s' = s\<lparr>ap_remainingUses := Some (n - 1), ap_consumedAt := Some now, ap_consumedBy := Some u,
                ap_state := (if n = 1 then ''consumed'' else ap_state s)\<rparr>"
    by (auto simp: approval_consume_Inr)
  then have "ap_state s' = (if n = 1 then ''consumed'' else ''approved'')" by simp
  then have "ap_state s' \<noteq> ''requested''" by simp
  with n inv show ?thesis by (simp add: approval_inv_def)
qed

text \<open>
  C17. What an approval is worth, over any attempted operations on a request: it is consumed
  at most as often as the request allowed and never after it expired; a consumed or revoked
  approval was approved before its expiry by a named operator; one decision is recorded, a
  denied, expired, consumed or revoked request is final, and neither its operations nor its
  scope change.
\<close>

theorem approval_bounds:
  "let s0 = approval_create r; s = attempt approval_step s0 ops in
     (case aq_remainingUses r of None \<Rightarrow> uses_of s0 ops = 0 | Some n \<Rightarrow> int (uses_of s0 ops) \<le> max 0 n)
     \<and> (ap_consumedBy s \<noteq> None \<or> ap_state s \<in> {''approved'', ''consumed'', ''revoked''} \<longrightarrow>
          (\<exists>who. ap_operatorId s = Some who \<and> approved_by (set ops) who (aq_expiresAt r)))
     \<and> (\<forall>t. ap_consumedAt s = Some t \<longrightarrow> t \<le> aq_expiresAt r)
     \<and> length (ap_decidedIdempotencyKeys s) \<le> 1
     \<and> (ap_state s \<in> set APPROVAL_TERMINAL \<longrightarrow> ap_state (attempt approval_step s ops') = ap_state s)
     \<and> ap_operations s = or_empty (aq_operations r) \<and> ap_scope s = ap_scope s0"
proof -
  define s0 where "s0 = approval_create r"
  define s where "s = attempt approval_step s0 ops"
  have inv: "approval_inv (set ops) s"
    unfolding s_def
  proof (rule attempt_invariant_on)
    show "approval_inv (set ops) s0" by (simp add: approval_inv_def s0_def approval_create_def)
  qed (rule approval_inv_step)
  have frame: "ap_expiresAt s = ap_expiresAt s0 \<and> ap_operations s = ap_operations s0 \<and> ap_scope s = ap_scope s0"
    unfolding s_def
    by (rule attempt_invariant[where P = "\<lambda>t. ap_expiresAt t = ap_expiresAt s0 \<and> ap_operations t = ap_operations s0 \<and> ap_scope t = ap_scope s0"])
       (auto dest: approval_ids)
  have known: "approval_known s"
    unfolding s_def by (rule approval_lc.history_ok) (simp add: approval_known_def s0_def approval_create_def APPROVAL_TRANSITIONS_def)
  have e: "ap_expiresAt s0 = aq_expiresAt r" "ap_operations s0 = or_empty (aq_operations r)" "ap_remainingUses s0 = aq_remainingUses r"
    by (simp_all add: s0_def approval_create_def)
  have uses: "case aq_remainingUses r of None \<Rightarrow> uses_of s0 ops = 0 | Some n \<Rightarrow> int (uses_of s0 ops) \<le> max 0 n"
    using uses_bounded[of s0 ops] e(3) by (auto split: option.splits)
  have final: "ap_state s \<in> set APPROVAL_TERMINAL \<longrightarrow> ap_state (attempt approval_step s ops') = ap_state s"
    using approval_lc.terminal_absorbing[OF known] by blast
  have "(ap_consumedBy s \<noteq> None \<or> ap_state s \<in> {''approved'', ''consumed'', ''revoked''} \<longrightarrow>
          (\<exists>who. ap_operatorId s = Some who \<and> approved_by (set ops) who (aq_expiresAt r)))"
      "\<forall>t. ap_consumedAt s = Some t \<longrightarrow> t \<le> aq_expiresAt r" "length (ap_decidedIdempotencyKeys s) \<le> 1"
    using inv frame e unfolding approval_inv_def by auto
  with frame e uses final show ?thesis unfolding s0_def[symmetric] s_def[symmetric] Let_def by simp
qed

definition sample_approval :: approval_req where
  "sample_approval = \<lparr>aq_requestId = ''q1'', aq_missionId = ''m1'', aq_taskId = ''t1'', aq_requestedCapability = ''c'',
     aq_resource = JNull, aq_operation = ''op'', aq_operations = None, aq_capabilitySubject = None,
     aq_capabilityConditions = None, aq_capabilityMaxUses = None, aq_scope = None, aq_riskClassification = ''low'',
     aq_policyReason = ''p'', aq_requestedBy = \<lparr>ac_actorId = ''a'', ac_kind = ''system''\<rparr>,
     aq_expiresAt = ''2026-06-30T00:00:00Z'', aq_remainingUses = Some 1, aq_correlationId = ''k'',
     aq_createdAt = ''2026-01-01T00:00:00Z'', aq_promptAssemblyDigest = None, aq_externalCommitments = None\<rparr>"

definition sample_approve :: approval_decision where
  "sample_approve = \<lparr>ad_idempotencyKey = ''i1'', ad_decision = ''approve'', ad_operatorId = Some ''op1'',
     ad_decidedAt = ''2026-02-01T00:00:00Z'', ad_note = None\<rparr>"

definition sample_approval_ops :: "approval_op list" where
  "sample_approval_ops = [ApprovalConsume ''u0'' ''2026-02-01T00:00:00Z'', ApprovalDecide sample_approve ''2026-02-01T00:00:00Z'',
     ApprovalDecide sample_approve ''2026-02-01T00:00:00Z'', ApprovalConsume ''u1'' ''2026-02-02T00:00:00Z'',
     ApprovalConsume ''u2'' ''2026-02-03T00:00:00Z'']"

theorem approval_bounds_witness:
  "ap_state (attempt approval_step (approval_create sample_approval) sample_approval_ops) = ''consumed''
   \<and> uses_of (approval_create sample_approval) sample_approval_ops = 1
   \<and> ap_state (attempt approval_step (attempt approval_step (approval_create sample_approval) sample_approval_ops) [ApprovalExpire]) = ''consumed''"
proof -
  define s where "s = attempt approval_step (approval_create sample_approval) sample_approval_ops"
  have st: "ap_state s = ''consumed''" "uses_of (approval_create sample_approval) sample_approval_ops = 1"
    unfolding s_def by code_simp+
  have "ap_state s \<in> set APPROVAL_TERMINAL" by (simp add: st APPROVAL_TERMINAL_def)
  with approval_bounds[of sample_approval sample_approval_ops "[ApprovalExpire]"] have
    "ap_state (attempt approval_step s [ApprovalExpire]) = ap_state s"
    unfolding s_def Let_def by blast
  with st show ?thesis unfolding s_def by simp
qed

end
