(* ===== verification/Artifacts_Prompts.thy ===== *)
theory Artifacts_Prompts
  imports Lifecycle
begin

text \<open>
  \<^verbatim>\<open>aggregates/artifact_promotion.py\<close>, the transaction that makes a verified artifact
  workspace state, and \<^verbatim>\<open>aggregates/prompt_proposal.py\<close>, a revisable advisory prompt
  proposal. Path resolution against the filesystem is the parameter \<open>resolve\<close>, SHA-256 the
  parameter \<open>sha\<close>.
\<close>

section \<open>Artifact promotion\<close>

record promotion_spec =
  xs_promotionId :: "string option"
  xs_candidateId :: "string option"
  xs_workspaceId :: "string option"
  xs_sourcePath :: "string option"
  xs_destinationPath :: "string option"
  xs_contentDigest :: "string option"
  xs_claimId :: "string option"
  xs_verificationId :: "string option"
  xs_evidenceId :: "string option"
  xs_preparedAt :: "string option"

record receipt =
  rc_destinationPath :: "string option"
  rc_contentDigest :: "string option"
  rc_rest :: dict

record promotion =
  pm_promotionId :: string
  pm_candidateId :: string
  pm_workspaceId :: string
  pm_sourcePath :: string
  pm_destinationPath :: string
  pm_contentDigest :: string
  pm_claimId :: string
  pm_verificationId :: string
  pm_evidenceId :: string
  pm_preparedAt :: string
  pm_authorizedAt :: "string option"
  pm_authorizedBy :: "string option"
  pm_adoptedAt :: "string option"
  pm_discardedAt :: "string option"
  pm_discardReason :: "string option"
  pm_adoptionReceipt :: "receipt option"
  pm_state :: string

definition PROMOTION_TERMINAL :: "string list" where
  "PROMOTION_TERMINAL = [''adopted'', ''discarded'']"

definition PROMOTION_OWNED :: "string list" where
  "PROMOTION_OWNED = [''artifact_promotion.state'', ''artifact_promotion.sourcePath'',
    ''artifact_promotion.destinationPath'', ''artifact_promotion.contentDigest'', ''artifact_promotion.preparedAt'',
    ''artifact_promotion.authorization'', ''artifact_promotion.adoption'', ''artifact_promotion.discard'']"

definition promotion_stream_id :: "string \<Rightarrow> string" where
  "promotion_stream_id promotion_id = ''artifact_promotion-'' @ promotion_id"

text \<open>The required fields, in the order the code checks them; a missing or empty one is missing.\<close>

definition spec_fields :: "promotion_spec \<Rightarrow> (string \<times> string option) list" where
  "spec_fields spec = [(''promotionId'', xs_promotionId spec), (''candidateId'', xs_candidateId spec),
    (''workspaceId'', xs_workspaceId spec), (''sourcePath'', xs_sourcePath spec),
    (''destinationPath'', xs_destinationPath spec), (''contentDigest'', xs_contentDigest spec),
    (''claimId'', xs_claimId spec), (''verificationId'', xs_verificationId spec),
    (''evidenceId'', xs_evidenceId spec), (''preparedAt'', xs_preparedAt spec)]"

definition promotion_prepare :: "(string \<Rightarrow> string) \<Rightarrow> promotion_spec \<Rightarrow> promotion res" where
  "promotion_prepare resolve spec =
    (let missing = map fst (filter (\<lambda>(k, v). v = None \<or> v = Some []) (spec_fields spec)) in
     raise_if (missing \<noteq> [])
       (ValueError (''artifact promotion spec missing fields: '' @ join_with '', '' missing)) (
     let source = resolve (the (xs_sourcePath spec));
         destination = resolve (the (xs_destinationPath spec)) in
     raise_if (source = destination)
       (IntegrityViolation ''promotion source and destination must differ'') (
     Inr \<lparr>pm_promotionId = the (xs_promotionId spec),
          pm_candidateId = the (xs_candidateId spec),
          pm_workspaceId = the (xs_workspaceId spec),
          pm_sourcePath = source,
          pm_destinationPath = destination,
          pm_contentDigest = the (xs_contentDigest spec),
          pm_claimId = the (xs_claimId spec),
          pm_verificationId = the (xs_verificationId spec),
          pm_evidenceId = the (xs_evidenceId spec),
          pm_preparedAt = the (xs_preparedAt spec),
          pm_authorizedAt = None, pm_authorizedBy = None, pm_adoptedAt = None,
          pm_discardedAt = None, pm_discardReason = None, pm_adoptionReceipt = None,
          pm_state = ''prepared''\<rparr>)))"

definition promotion_authorize :: "promotion \<Rightarrow> string \<Rightarrow> string \<Rightarrow> promotion res" where
  "promotion_authorize s actor_id authorized_at =
    raise_if (pm_state s \<noteq> ''prepared'')
      (IllegalTransition (''artifact promotion '' @ pm_promotionId s) (pm_state s) ''authorized'') (
    Inr (s\<lparr>pm_state := ''authorized'', pm_authorizedAt := Some authorized_at, pm_authorizedBy := Some actor_id\<rparr>))"

text \<open>\<^verbatim>\<open>prior = state.get("adoptionReceipt") or {}\<close>: an absent receipt has no fields.\<close>

definition prior_receipt :: "promotion \<Rightarrow> receipt" where
  "prior_receipt s = (case pm_adoptionReceipt s of
     None \<Rightarrow> \<lparr>rc_destinationPath = None, rc_contentDigest = None, rc_rest = []\<rparr> | Some r \<Rightarrow> r)"

definition promotion_adopt :: "promotion \<Rightarrow> receipt \<Rightarrow> string \<Rightarrow> promotion res" where
  "promotion_adopt s rc adopted_at =
    (let ill = IllegalTransition (''artifact promotion '' @ pm_promotionId s) (pm_state s) ''adopted'' in
     if pm_state s = ''adopted'' then
       (if rc_destinationPath (prior_receipt s) = rc_destinationPath rc
           \<and> rc_contentDigest (prior_receipt s) = rc_contentDigest rc
        then Inr s else Inl ill)
     else
       raise_if (pm_state s \<noteq> ''authorized'') ill (
       raise_if (rc_destinationPath rc \<noteq> Some (pm_destinationPath s))
         (AuthorityViolation ''adoption receipt destination does not match authorized destination'') (
       raise_if (rc_contentDigest rc \<noteq> Some (pm_contentDigest s))
         (AuthorityViolation ''adoption receipt digest does not match authorized digest'') (
       Inr (s\<lparr>pm_state := ''adopted'', pm_adoptedAt := Some adopted_at, pm_adoptionReceipt := Some rc\<rparr>)))))"

definition promotion_discard :: "promotion \<Rightarrow> string \<Rightarrow> string \<Rightarrow> promotion res" where
  "promotion_discard s reason discarded_at =
    raise_if (pm_state s \<in> set PROMOTION_TERMINAL)
      (IllegalTransition (''artifact promotion '' @ pm_promotionId s) (pm_state s) ''discarded'') (
    Inr (s\<lparr>pm_state := ''discarded'', pm_discardedAt := Some discarded_at, pm_discardReason := Some reason\<rparr>))"

datatype promotion_op = Authorize string string | Adopt receipt string | Discard string string

fun promotion_step :: "promotion \<Rightarrow> promotion_op \<Rightarrow> promotion res" where
  "promotion_step s (Authorize a t) = promotion_authorize s a t"
| "promotion_step s (Adopt r t) = promotion_adopt s r t"
| "promotion_step s (Discard r t) = promotion_discard s r t"

lemma promotion_authorize_Inr: "promotion_authorize s a t = Inr s' \<longleftrightarrow> pm_state s = ''prepared''
    \<and> s' = s\<lparr>pm_state := ''authorized'', pm_authorizedAt := Some t, pm_authorizedBy := Some a\<rparr>"
  by (auto simp: promotion_authorize_def)

lemma promotion_adopt_Inr: "promotion_adopt s r t = Inr s' \<longleftrightarrow>
    (if pm_state s = ''adopted'' then rc_destinationPath (prior_receipt s) = rc_destinationPath r
        \<and> rc_contentDigest (prior_receipt s) = rc_contentDigest r \<and> s' = s
     else pm_state s = ''authorized'' \<and> rc_destinationPath r = Some (pm_destinationPath s)
        \<and> rc_contentDigest r = Some (pm_contentDigest s)
        \<and> s' = s\<lparr>pm_state := ''adopted'', pm_adoptedAt := Some t, pm_adoptionReceipt := Some r\<rparr>)"
  by (auto simp: promotion_adopt_def Let_def)

lemma promotion_discard_Inr: "promotion_discard s r t = Inr s' \<longleftrightarrow> pm_state s \<notin> set PROMOTION_TERMINAL
    \<and> s' = s\<lparr>pm_state := ''discarded'', pm_discardedAt := Some t, pm_discardReason := Some r\<rparr>"
  by (auto simp: promotion_discard_def)

lemmas promotion_step_Inr = promotion_authorize_Inr promotion_adopt_Inr promotion_discard_Inr

text \<open>The moves the three operations make, as a table.\<close>

definition PROMOTION_MOVES :: table where
  "PROMOTION_MOVES = [(''prepared'', [''authorized'', ''discarded'']), (''authorized'', [''adopted'', ''discarded'']),
    (''adopted'', []), (''discarded'', [])]"

definition promotion_known :: "promotion \<Rightarrow> bool" where
  "promotion_known s \<longleftrightarrow> pm_state s \<in> set (map fst PROMOTION_MOVES)"

lemma promotion_step_cases:
  assumes "promotion_step s a = Inr s'"
  shows "s' = s \<or> (pm_state s = ''prepared'' \<and> pm_state s' = ''authorized'')
    \<or> (pm_state s = ''authorized'' \<and> pm_state s' = ''adopted'')
    \<or> (pm_state s \<notin> set PROMOTION_TERMINAL \<and> pm_state s' = ''discarded'')"
proof (cases a)
  case (Adopt r t)
  with assms show ?thesis by (cases "pm_state s = ''adopted''") (simp_all add: promotion_adopt_Inr)
qed (use assms in \<open>simp_all add: promotion_authorize_Inr promotion_discard_Inr\<close>)

lemma promotion_frame:
  assumes "promotion_step s a = Inr s'"
  shows "pm_contentDigest s' = pm_contentDigest s \<and> pm_sourcePath s' = pm_sourcePath s
     \<and> pm_destinationPath s' = pm_destinationPath s \<and> pm_promotionId s' = pm_promotionId s"
proof (cases a)
  case (Adopt r t)
  with assms show ?thesis by (cases "pm_state s = ''adopted''") (simp_all add: promotion_adopt_Inr)
qed (use assms in \<open>simp_all add: promotion_authorize_Inr promotion_discard_Inr\<close>)

lemma promotion_step_moves:
  assumes "promotion_known s" and "promotion_step s a = Inr s'"
  shows "pm_state s' = pm_state s \<or> allowed PROMOTION_MOVES (pm_state s) (pm_state s')"
  using promotion_step_cases[OF assms(2)] assms(1)
  by (elim disjE) (auto simp add: promotion_known_def PROMOTION_MOVES_def PROMOTION_TERMINAL_def allowed_def)

lemma promotion_step_known:
  assumes "promotion_known s" and "promotion_step s a = Inr s'"
  shows "promotion_known s'"
  using promotion_step_cases[OF assms(2)] assms(1)
  by (elim disjE) (simp_all add: promotion_known_def PROMOTION_MOVES_def)

interpretation promotion_lc: lifecycle_inv PROMOTION_MOVES PROMOTION_TERMINAL pm_state pm_promotionId promotion_known promotion_step
proof unfold_locales
  fix s t assume "s \<in> set PROMOTION_TERMINAL"
  then show "\<not> allowed PROMOTION_MOVES s t" by (auto simp: PROMOTION_TERMINAL_def PROMOTION_MOVES_def allowed_def)
qed (use promotion_step_moves promotion_step_known promotion_frame in blast)+

definition promotion_inv :: "promotion_op set \<Rightarrow> promotion \<Rightarrow> bool" where
  "promotion_inv H s \<longleftrightarrow> promotion_known s \<and> pm_sourcePath s \<noteq> pm_destinationPath s
     \<and> (pm_state s \<in> {''authorized'', ''adopted''} \<longrightarrow>
          (\<exists>a t. Authorize a t \<in> H \<and> pm_authorizedBy s = Some a \<and> pm_authorizedAt s = Some t))
     \<and> (pm_state s = ''adopted'' \<longrightarrow> (\<exists>r. pm_adoptionReceipt s = Some r
          \<and> rc_contentDigest r = Some (pm_contentDigest s) \<and> rc_destinationPath r = Some (pm_destinationPath s)))
     \<and> (pm_state s \<noteq> ''adopted'' \<longrightarrow> pm_adoptionReceipt s = None)"

lemma promotion_inv_step:
  assumes inv: "promotion_inv H s" and step: "promotion_step s a = Inr s'" and a: "a \<in> H"
  shows "promotion_inv H s'"
proof -
  have k: "promotion_known s'" using promotion_step_known[OF _ step] inv by (simp add: promotion_inv_def)
  show ?thesis
  proof (cases a)
    case (Authorize x t)
    with step have s': "s' = s\<lparr>pm_state := ''authorized'', pm_authorizedAt := Some t, pm_authorizedBy := Some x\<rparr>" "pm_state s = ''prepared''"
      by (simp_all add: promotion_step_Inr)
    with inv a Authorize k show ?thesis unfolding promotion_inv_def by simp
  next
    case (Adopt r t)
    with step inv k show ?thesis unfolding promotion_inv_def
      by (cases "pm_state s = ''adopted''") (simp_all add: promotion_step_Inr)
  next
    case (Discard r t)
    with step have s': "s' = s\<lparr>pm_state := ''discarded'', pm_discardedAt := Some t, pm_discardReason := Some r\<rparr>"
        "pm_state s \<notin> set PROMOTION_TERMINAL"
      by (simp_all add: promotion_step_Inr)
    with inv k show ?thesis unfolding promotion_inv_def by (simp add: PROMOTION_TERMINAL_def)
  qed
qed

lemma promotion_prepare_Inr:
  assumes "promotion_prepare resolve spec = Inr s"
  shows "pm_state s = ''prepared'' \<and> pm_adoptionReceipt s = None \<and> pm_sourcePath s \<noteq> pm_destinationPath s
    \<and> Some (pm_contentDigest s) = xs_contentDigest spec \<and> pm_destinationPath s = resolve (the (xs_destinationPath spec))
    \<and> Some (pm_verificationId s) = xs_verificationId spec \<and> xs_contentDigest spec \<noteq> Some [] \<and> pm_verificationId s \<noteq> []"
proof -
  have f: "filter (\<lambda>(k, v). v = None \<or> v = Some []) (spec_fields spec) = []"
    using assms by (simp add: promotion_prepare_def Let_def)
  then have "\<forall>(k, v) \<in> set (spec_fields spec). v \<noteq> None \<and> v \<noteq> Some []"
    unfolding filter_empty_conv by auto
  then have "xs_contentDigest spec \<noteq> None \<and> xs_contentDigest spec \<noteq> Some []
      \<and> xs_verificationId spec \<noteq> None \<and> xs_verificationId spec \<noteq> Some []"
    unfolding spec_fields_def by simp
  with assms show ?thesis by (auto simp: promotion_prepare_def Let_def)
qed

text \<open>
  C27. What adoption means, over any attempted operations on a prepared promotion: an adopted
  artifact was authorised by one of them, its receipt carries exactly the content digest the
  specification named and the destination resolved at preparation, which differs from the
  source; digest and paths never change; repeating the adoption with the same receipt changes
  nothing, with another digest it is refused, and an adopted promotion cannot be discarded.
\<close>

theorem adoption_matches_preparation:
  assumes "promotion_prepare resolve spec = Inr s0" and "s = attempt promotion_step s0 ops"
    and "pm_state s = ''adopted''"
  shows "pm_sourcePath s \<noteq> pm_destinationPath s
    \<and> pm_destinationPath s = resolve (the (xs_destinationPath spec))
    \<and> (\<exists>a t. Authorize a t \<in> set ops \<and> pm_authorizedBy s = Some a)
    \<and> (\<exists>r. pm_adoptionReceipt s = Some r \<and> rc_contentDigest r = xs_contentDigest spec
         \<and> rc_destinationPath r = Some (pm_destinationPath s)
         \<and> promotion_adopt s r t' = Inr s
         \<and> (\<forall>r'. rc_contentDigest r' \<noteq> rc_contentDigest r \<longrightarrow> promotion_adopt s r' t' \<noteq> Inr s'))
    \<and> pm_state (attempt promotion_step s ops') = ''adopted''"
proof -
  note P = promotion_prepare_Inr[OF assms(1)]
  have inv: "promotion_inv (set ops) s"
    unfolding assms(2)
  proof (rule attempt_invariant_on)
    show "promotion_inv (set ops) s0" using P by (auto simp: promotion_inv_def promotion_known_def PROMOTION_MOVES_def)
  qed (rule promotion_inv_step)
  have frame: "pm_contentDigest s = pm_contentDigest s0 \<and> pm_destinationPath s = pm_destinationPath s0"
    unfolding assms(2)
    by (rule attempt_invariant[where P = "\<lambda>t. pm_contentDigest t = pm_contentDigest s0 \<and> pm_destinationPath t = pm_destinationPath s0"])
       (use promotion_frame in auto)
  from inv assms(3) obtain r where r: "pm_adoptionReceipt s = Some r" "rc_contentDigest r = Some (pm_contentDigest s)"
      "rc_destinationPath r = Some (pm_destinationPath s)"
    unfolding promotion_inv_def by blast
  have "\<exists>a t. Authorize a t \<in> set ops \<and> pm_authorizedBy s = Some a"
    using inv assms(3) unfolding promotion_inv_def by blast
  moreover have "promotion_adopt s r t' = Inr s"
    "\<forall>r'. rc_contentDigest r' \<noteq> rc_contentDigest r \<longrightarrow> promotion_adopt s r' t' \<noteq> Inr s'"
    using r(1) assms(3) by (auto simp: promotion_adopt_Inr prior_receipt_def)
  moreover have "pm_state (attempt promotion_step s ops') = ''adopted''"
    using promotion_lc.terminal_absorbing[of s ops'] inv assms(3) by (simp add: promotion_inv_def PROMOTION_TERMINAL_def)
  moreover have "pm_sourcePath s \<noteq> pm_destinationPath s" using inv by (simp add: promotion_inv_def)
  ultimately show ?thesis using r frame P by auto
qed

definition sample_promotion :: promotion_spec where
  "sample_promotion = \<lparr>xs_promotionId = Some ''p1'', xs_candidateId = Some ''a1'', xs_workspaceId = Some ''w1'',
     xs_sourcePath = Some ''/w/a'', xs_destinationPath = Some ''/out/a'', xs_contentDigest = Some ''sha256:00'',
     xs_claimId = Some ''c1'', xs_verificationId = Some ''v1'', xs_evidenceId = Some ''e1'', xs_preparedAt = Some ''t0''\<rparr>"

definition sample_receipt :: receipt where
  "sample_receipt = \<lparr>rc_destinationPath = Some ''/out/a'', rc_contentDigest = Some ''sha256:00'', rc_rest = []\<rparr>"

theorem adoption_matches_preparation_witness:
  "let s0 = projr (promotion_prepare id sample_promotion);
       s = attempt promotion_step s0 [Adopt sample_receipt ''t1'', Authorize ''op'' ''t2'', Adopt sample_receipt ''t3''] in
     pm_state s = ''adopted'' \<and> pm_adoptedAt s = Some ''t3'' \<and> promotion_adopt s sample_receipt ''t4'' = Inr s"
proof -
  define s0 where "s0 = projr (promotion_prepare id sample_promotion)"
  define ops where "ops = [Adopt sample_receipt ''t1'', Authorize ''op'' ''t2'', Adopt sample_receipt ''t3'']"
  define s where "s = attempt promotion_step s0 ops"
  have c: "promotion_prepare id sample_promotion = Inr s0"
    unfolding s0_def by code_simp
  have a: "pm_state s = ''adopted''" "pm_adoptedAt s = Some ''t3''" "pm_adoptionReceipt s = Some sample_receipt"
    unfolding s_def s0_def ops_def by code_simp+
  from adoption_matches_preparation[OF c s_def a(1), of "''t4''"] a
  show ?thesis unfolding s_def ops_def s0_def Let_def by auto
qed

section \<open>Prompt proposals\<close>

record proposal_req =
  pq_proposalId :: string
  pq_originalPrompt :: string
  pq_proposedPrompt :: string
  pq_mode :: string
  pq_stageChain :: "json list"
  pq_stageRecords :: "json list option"
  pq_targetRoot :: string
  pq_provider :: "string option"
  pq_model :: "string option"
  pq_reasoningEffort :: "string option"
  pq_requestedContextBudget :: "int option"
  pq_effectiveContextBudget :: "int option"
  pq_capabilityRequests :: "json list option"
  pq_verificationContract :: dict
  pq_compilationStatus :: "string option"
  pq_rationale :: "string option"
  pq_unresolvedQuestions :: "json list option"

record proposal =
  pp_proposalId :: string
  pp_originalPrompt :: string
  pp_originalPromptDigest :: string
  pp_proposedPrompt :: string
  pp_proposedPromptDigest :: string
  pp_mode :: string
  pp_stageChain :: "json list"
  pp_stageRecords :: "json list"
  pp_targetRoot :: string
  pp_provider :: "string option"
  pp_model :: "string option"
  pp_reasoningEffort :: string
  pp_requestedContextBudget :: int
  pp_effectiveContextBudget :: int
  pp_capabilityRequests :: "json list"
  pp_verificationContract :: dict
  pp_state :: string
  pp_revision :: int
  pp_cancelReason :: "string option"
  pp_compilationStatus :: "string option"
  pp_rationale :: "string option"
  pp_unresolvedQuestions :: "json list option"

text \<open>A revision: every field but the prompt is optional, \<open>None\<close> when the key is absent.\<close>

record proposal_revision =
  pv_proposedPrompt :: string
  pv_stageChain :: "json list option"
  pv_stageRecords :: "json list option"
  pv_provider :: "string option option"
  pv_model :: "string option option"
  pv_reasoningEffort :: "string option"
  pv_requestedContextBudget :: "int option"
  pv_effectiveContextBudget :: "int option"
  pv_capabilityRequests :: "json list option"
  pv_verificationContract :: "dict option"

definition PROPOSAL_OWNED :: "string list" where
  "PROPOSAL_OWNED = [''prompt_proposal.proposedPrompt'', ''prompt_proposal.proposedPromptDigest'',
    ''prompt_proposal.stageChain'', ''prompt_proposal.stageRecords'', ''prompt_proposal.provider'',
    ''prompt_proposal.model'', ''prompt_proposal.reasoningEffort'', ''prompt_proposal.requestedContextBudget'',
    ''prompt_proposal.effectiveContextBudget'', ''prompt_proposal.capabilityRequests'',
    ''prompt_proposal.verificationContract'', ''prompt_proposal.compilationStatus'', ''prompt_proposal.rationale'',
    ''prompt_proposal.unresolvedQuestions'', ''prompt_proposal.state'', ''prompt_proposal.revision'',
    ''prompt_proposal.cancelReason'']"

definition proposal_stream_id :: "string \<Rightarrow> string" where
  "proposal_stream_id proposal_id = ''prompt_proposal-'' @ proposal_id"

text \<open>\<^verbatim>\<open>d.get(k, default)\<close> for a typed optional field.\<close>

definition opt_or :: "'a \<Rightarrow> 'a option \<Rightarrow> 'a" where
  "opt_or d x = (case x of None \<Rightarrow> d | Some v \<Rightarrow> v)"

lemma opt_or_simps [simp]: "opt_or d None = d" "opt_or d (Some v) = v"
  by (simp_all add: opt_or_def)

definition proposal_create :: "(string \<Rightarrow> string) \<Rightarrow> proposal_req \<Rightarrow> proposal res" where
  "proposal_create sha r =
    raise_if (pq_originalPrompt r = [] \<or> pq_proposedPrompt r = [])
      (ValueError ''prompt proposal originalPrompt and proposedPrompt are required'') (
    Inr \<lparr>pp_proposalId = pq_proposalId r,
         pp_originalPrompt = pq_originalPrompt r,
         pp_originalPromptDigest = digest sha (JStr (pq_originalPrompt r)),
         pp_proposedPrompt = pq_proposedPrompt r,
         pp_proposedPromptDigest = digest sha (JStr (pq_proposedPrompt r)),
         pp_mode = pq_mode r,
         pp_stageChain = pq_stageChain r,
         pp_stageRecords = opt_or [] (pq_stageRecords r),
         pp_targetRoot = pq_targetRoot r,
         pp_provider = pq_provider r,
         pp_model = pq_model r,
         pp_reasoningEffort = opt_or [] (pq_reasoningEffort r),
         pp_requestedContextBudget = opt_or 0 (pq_requestedContextBudget r),
         pp_effectiveContextBudget = opt_or 0 (pq_effectiveContextBudget r),
         pp_capabilityRequests = opt_or [] (pq_capabilityRequests r),
         pp_verificationContract = pq_verificationContract r,
         pp_state = ''active'',
         pp_revision = 0,
         pp_cancelReason = None,
         pp_compilationStatus = pq_compilationStatus r,
         pp_rationale = pq_rationale r,
         pp_unresolvedQuestions = pq_unresolvedQuestions r\<rparr>)"

definition proposal_revise :: "(string \<Rightarrow> string) \<Rightarrow> proposal \<Rightarrow> proposal_revision \<Rightarrow> proposal res" where
  "proposal_revise sha s v =
    raise_if (pp_state s \<noteq> ''active'')
      (IllegalTransition (''prompt proposal '' @ pp_proposalId s) (pp_state s) ''active'') (
    raise_if (pv_proposedPrompt v = [])
      (ValueError ''revised proposedPrompt is required'') (
    Inr (s\<lparr>pp_proposedPrompt := pv_proposedPrompt v,
           pp_proposedPromptDigest := digest sha (JStr (pv_proposedPrompt v)),
           pp_stageChain := opt_or (pp_stageChain s) (pv_stageChain v),
           pp_stageRecords := opt_or (pp_stageRecords s) (pv_stageRecords v),
           pp_provider := opt_or (pp_provider s) (pv_provider v),
           pp_model := opt_or (pp_model s) (pv_model v),
           pp_reasoningEffort := opt_or (pp_reasoningEffort s) (pv_reasoningEffort v),
           pp_requestedContextBudget := opt_or (pp_requestedContextBudget s) (pv_requestedContextBudget v),
           pp_effectiveContextBudget := opt_or (pp_effectiveContextBudget s) (pv_effectiveContextBudget v),
           pp_capabilityRequests := opt_or (pp_capabilityRequests s) (pv_capabilityRequests v),
           pp_verificationContract := opt_or (pp_verificationContract s) (pv_verificationContract v),
           pp_revision := pp_revision s + 1\<rparr>)))"

definition proposal_cancel :: "proposal \<Rightarrow> string \<Rightarrow> proposal res" where
  "proposal_cancel s reason =
    raise_if (pp_state s \<noteq> ''active'')
      (IllegalTransition (''prompt proposal '' @ pp_proposalId s) (pp_state s) ''cancelled'') (
    raise_if (reason = []) (ValueError ''prompt proposal cancellation reason is required'') (
    Inr (s\<lparr>pp_state := ''cancelled'', pp_cancelReason := Some reason\<rparr>)))"

definition proposal_replay_create :: "(string \<Rightarrow> string) \<Rightarrow> proposal \<Rightarrow> proposal res" where
  "proposal_replay_create sha snapshot =
    raise_if (pp_originalPromptDigest snapshot \<noteq> digest sha (JStr (pp_originalPrompt snapshot)))
      (IntegrityViolation ''prompt proposal original prompt digest mismatch'') (
    raise_if (pp_proposedPromptDigest snapshot \<noteq> digest sha (JStr (pp_proposedPrompt snapshot)))
      (IntegrityViolation ''prompt proposal proposed prompt digest mismatch'') (
    raise_if (pp_state snapshot \<noteq> ''active'' \<or> pp_revision snapshot \<noteq> 0)
      (IntegrityViolation ''invalid prompt proposal creation snapshot'') (
    Inr snapshot)))"

datatype proposal_op = Revise proposal_revision | CancelProposal string

fun proposal_step :: "(string \<Rightarrow> string) \<Rightarrow> proposal \<Rightarrow> proposal_op \<Rightarrow> proposal res" where
  "proposal_step sha s (Revise v) = proposal_revise sha s v"
| "proposal_step sha s (CancelProposal r) = proposal_cancel s r"

fun revisions :: "(string \<Rightarrow> string) \<Rightarrow> proposal \<Rightarrow> proposal_op list \<Rightarrow> nat" where
  "revisions sha s [] = 0"
| "revisions sha s (a # as) = (case proposal_step sha s a of
     Inl _ \<Rightarrow> revisions sha s as
   | Inr s' \<Rightarrow> (case a of Revise _ \<Rightarrow> 1 | _ \<Rightarrow> 0) + revisions sha s' as)"

lemma proposal_step_frame:
  assumes "proposal_step sha s a = Inr s'"
  shows "pp_originalPrompt s' = pp_originalPrompt s \<and> pp_originalPromptDigest s' = pp_originalPromptDigest s
     \<and> pp_proposalId s' = pp_proposalId s \<and> pp_mode s' = pp_mode s \<and> pp_targetRoot s' = pp_targetRoot s
     \<and> pp_state s = ''active''
     \<and> pp_revision s' = pp_revision s + (case a of Revise _ \<Rightarrow> 1 | _ \<Rightarrow> 0)
     \<and> (pp_proposedPromptDigest s = digest sha (JStr (pp_proposedPrompt s)) \<longrightarrow>
          pp_proposedPromptDigest s' = digest sha (JStr (pp_proposedPrompt s')))
     \<and> (pp_proposedPrompt s \<noteq> [] \<longrightarrow> pp_proposedPrompt s' \<noteq> [])"
  using assms by (cases a) (clarsimp simp: proposal_revise_def proposal_cancel_def)+

lemma revision_counts: "pp_revision (attempt (proposal_step sha) s ops) = pp_revision s + int (revisions sha s ops)"
proof (induction ops arbitrary: s)
  case (Cons a ops)
  show ?case
  proof (cases "proposal_step sha s a")
    case (Inr s')
    with Cons[of s'] proposal_step_frame[OF Inr] show ?thesis by (cases a) simp_all
  qed (use Cons in simp)
qed simp

definition proposal_ok :: "(string \<Rightarrow> string) \<Rightarrow> proposal_req \<Rightarrow> proposal \<Rightarrow> bool" where
  "proposal_ok sha r s \<longleftrightarrow> pp_originalPrompt s = pq_originalPrompt r
     \<and> pp_originalPromptDigest s = digest sha (JStr (pq_originalPrompt r))
     \<and> pp_proposalId s = pq_proposalId r \<and> pp_mode s = pq_mode r \<and> pp_targetRoot s = pq_targetRoot r
     \<and> pp_proposedPromptDigest s = digest sha (JStr (pp_proposedPrompt s)) \<and> pp_proposedPrompt s \<noteq> []"

text \<open>
  C28. A prompt proposal keeps the user's words: over any attempted revisions and cancellation
  the original prompt, its digest, the mode and the target never change, the digest of the
  proposed prompt always is the digest of the text beside it, the revision number counts the
  accepted revisions, and once cancelled nothing changes. The creation snapshot passes its
  replay check, and a snapshot whose prompt was altered to one with another digest does not.
\<close>

theorem proposal_keeps_intent:
  assumes "proposal_create sha r = Inr s0" and "s = attempt (proposal_step sha) s0 ops"
  shows "proposal_ok sha r s
    \<and> pp_revision s = int (revisions sha s0 ops)
    \<and> (pp_state s \<noteq> ''active'' \<longrightarrow> attempt (proposal_step sha) s ops' = s)
    \<and> proposal_replay_create sha s0 = Inr s0
    \<and> (digest sha (JStr x) \<noteq> digest sha (JStr (pq_originalPrompt r)) \<longrightarrow>
         proposal_replay_create sha (s0\<lparr>pp_originalPrompt := x\<rparr>) \<noteq> Inr s')"
proof -
  have c: "proposal_ok sha r s0" "pp_revision s0 = 0" "pp_state s0 = ''active''"
    using assms(1) by (auto simp: proposal_create_def proposal_ok_def)
  have ok: "proposal_ok sha r s"
    unfolding assms(2)
  proof (rule attempt_invariant[where P = "proposal_ok sha r", OF _ c(1)])
    fix s a s' assume "proposal_ok sha r s" "proposal_step sha s a = Inr s'"
    then show "proposal_ok sha r s'" using proposal_step_frame[of sha s a s'] by (simp add: proposal_ok_def)
  qed
  have "pp_state s \<noteq> ''active'' \<longrightarrow> attempt (proposal_step sha) s ops' = s"
  proof
    assume n: "pp_state s \<noteq> ''active''"
    show "attempt (proposal_step sha) s ops' = s"
    proof (rule attempt_stuck)
      fix a
      show "\<exists>e. proposal_step sha s a = Inl e"
      proof (cases "proposal_step sha s a")
        case (Inr s')
        from proposal_step_frame[OF this] n show ?thesis by blast
      qed blast
    qed
  qed
  moreover have "proposal_replay_create sha s0 = Inr s0"
    using c unfolding proposal_replay_create_def proposal_ok_def by simp
  moreover have "digest sha (JStr x) \<noteq> digest sha (JStr (pq_originalPrompt r)) \<longrightarrow>
         proposal_replay_create sha (s0\<lparr>pp_originalPrompt := x\<rparr>) \<noteq> Inr s'"
  proof
    assume d: "digest sha (JStr x) \<noteq> digest sha (JStr (pq_originalPrompt r))"
    have "pp_originalPromptDigest s0 = digest sha (JStr (pq_originalPrompt r))" using c by (simp add: proposal_ok_def)
    with d show "proposal_replay_create sha (s0\<lparr>pp_originalPrompt := x\<rparr>) \<noteq> Inr s'"
      by (simp add: proposal_replay_create_def)
  qed
  ultimately show ?thesis
    using ok revision_counts[of sha s0 ops] c(2) assms(2) by simp
qed

definition sample_proposal :: proposal_req where
  "sample_proposal = \<lparr>pq_proposalId = ''p1'', pq_originalPrompt = ''fix it'', pq_proposedPrompt = ''fix the bug'',
     pq_mode = ''m'', pq_stageChain = [], pq_stageRecords = None, pq_targetRoot = ''/w'', pq_provider = None,
     pq_model = None, pq_reasoningEffort = None, pq_requestedContextBudget = None, pq_effectiveContextBudget = None,
     pq_capabilityRequests = None, pq_verificationContract = [], pq_compilationStatus = None, pq_rationale = None,
     pq_unresolvedQuestions = None\<rparr>"

definition sample_prompt_revision :: proposal_revision where
  "sample_prompt_revision = \<lparr>pv_proposedPrompt = ''fix that bug'', pv_stageChain = None, pv_stageRecords = None,
     pv_provider = Some (Some ''x''), pv_model = None, pv_reasoningEffort = None, pv_requestedContextBudget = Some 5,
     pv_effectiveContextBudget = None, pv_capabilityRequests = None, pv_verificationContract = None\<rparr>"

theorem proposal_keeps_intent_witness:
  "let s0 = projr (proposal_create id sample_proposal);
       s = attempt (proposal_step id) s0 [Revise sample_prompt_revision, CancelProposal ''no'', Revise sample_prompt_revision] in
     pp_originalPrompt s = ''fix it'' \<and> pp_revision s = 1 \<and> pp_state s = ''cancelled''
     \<and> attempt (proposal_step id) s [Revise sample_prompt_revision] = s"
proof -
  define s0 where "s0 = projr (proposal_create id sample_proposal)"
  define ops where "ops = [Revise sample_prompt_revision, CancelProposal ''no'', Revise sample_prompt_revision]"
  define s where "s = attempt (proposal_step id) s0 ops"
  have c: "proposal_create id sample_proposal = Inr s0"
    by (simp add: s0_def proposal_create_def sample_proposal_def)
  have st: "pp_state s = ''cancelled''" "revisions id s0 ops = 1"
    by (simp_all add: s_def s0_def ops_def proposal_create_def sample_proposal_def sample_prompt_revision_def
        proposal_revise_def proposal_cancel_def)
  from proposal_keeps_intent[OF c s_def, of "[Revise sample_prompt_revision]"] st
  have "attempt (proposal_step id) s [Revise sample_prompt_revision] = s" "proposal_ok id sample_proposal s" "pp_revision s = 1"
    by simp_all
  with st show ?thesis
    unfolding s_def ops_def s0_def Let_def by (simp add: proposal_ok_def sample_proposal_def)
qed

end
