(* ===== verification/Tool_Execution.thy ===== *)
theory Tool_Execution
  imports Lifecycle
begin

text \<open>
  \<^verbatim>\<open>aggregates/tool_execution.py\<close>. The aggregate keeps the whole contract record as its
  state, so a state is a dictionary; the generated contract validator is the parameter \<open>validate\<close>. \<^verbatim>\<open>deepcopy\<close> is the identity on these values.
\<close>

section \<open>Dictionaries as states\<close>

text \<open>The text of a value in a message, and \<^verbatim>\<open>d["state"]\<close> used as a key (a list or a
  dictionary cannot be hashed).\<close>

definition str_of :: "json \<Rightarrow> string" where
  "str_of v = (case v of JStr s \<Rightarrow> s | _ \<Rightarrow> canonical_json v)"

definition state_label :: "dict \<Rightarrow> string res" where
  "state_label d = bnd (dreq d ''state'') (\<lambda>v. case v of
     JList _ \<Rightarrow> Inl (TypeError ''unhashable type: list'')
   | JObj _ \<Rightarrow> Inl (TypeError ''unhashable type: dict'')
   | _ \<Rightarrow> Inr (str_of v))"

definition label_of :: "dict \<Rightarrow> string" where
  "label_of d = (case state_label d of Inl _ \<Rightarrow> [] | Inr s \<Rightarrow> s)"

lemma state_label_put [simp]: "state_label (dput d ''state'' (JStr s)) = Inr s"
  by (simp add: state_label_def dreq_def str_of_def)

lemma label_of_put [simp]: "label_of (dput d ''state'' (JStr s)) = s"
  by (simp add: label_of_def)

lemma state_label_of: "state_label d = Inr s \<Longrightarrow> label_of d = s"
  by (simp add: label_of_def)

lemma state_label_dlook: "dlook d ''state'' = Some (JStr s) \<Longrightarrow> state_label d = Inr s"
  by (simp add: state_label_def dreq_def str_of_def)

text \<open>Dictionaries with the same bindings are equal in Python, whatever their order.\<close>

lemma distinct_dput [simp]: "distinct (map fst d) \<Longrightarrow> distinct (map fst (dput d k v))"
  by (simp add: dput_def distinct_update)

lemma distinct_dupdate [simp]: "distinct (map fst d) \<Longrightarrow> distinct (map fst (dupdate d p))"
  by (induction d p rule: dupdate.induct) auto

lemma dict_eq_of_bindings:
  assumes "distinct (map fst a)" and "distinct (map fst b)" and "map_of a = map_of b"
  shows "dict_eq a b"
proof -
  have "set a = set b" using assms by (simp add: map_of_inject_set)
  then have "mset a = mset b"
    using assms(1,2) by (simp add: distinct_map set_eq_iff_mset_eq_distinct)
  moreover have "distinct (map fst (map (\<lambda>(k, v). (k, eqform v)) a))"
    using assms(1) by (simp add: comp_def case_prod_unfold)
  ultimately have "sort_key fst (map (\<lambda>(k, v). (k, eqform v)) a) = sort_key fst (map (\<lambda>(k, v). (k, eqform v)) b)"
    by (intro sort_key_perm) simp_all
  then show ?thesis by (simp add: dict_eq_def json_eq_def)
qed

lemma dict_eq_dget:
  assumes "dict_eq a b" and "distinct (map fst a)" and "distinct (map fst b)"
  shows "json_eq (dget a k) (dget b k)"
proof -
  let ?e = "\<lambda>xs. map (\<lambda>(k, v). (k, eqform v)) xs"
  have "set (sort_key fst (?e a)) = set (sort_key fst (?e b))"
    using assms(1) by (simp add: dict_eq_def json_eq_def)
  then have s: "set (?e a) = set (?e b)" by simp
  have half: "\<exists>w. dlook y k = Some w \<and> json_eq v w"
    if "set (?e x) = set (?e y)" "distinct (map fst y)" "dlook x k = Some v" for x y v
  proof -
    from map_of_SomeD[OF that(3)] have "(k, eqform v) \<in> set (?e x)" by force
    with that(1) have "(k, eqform v) \<in> set (?e y)" by simp
    then obtain u where "(k, u) \<in> set y" "eqform u = eqform v" by auto
    with that(2) show ?thesis by (auto simp: json_eq_def)
  qed
  show ?thesis
  proof (cases "dlook a k")
    case None
    have "dlook b k = None"
    proof (cases "dlook b k")
      case (Some v)
      from half[OF s[symmetric] assms(2) this] None show ?thesis by simp
    qed
    with None show ?thesis by (simp add: dget_def)
  next
    case (Some v)
    from half[OF s assms(3) this] Some show ?thesis by (auto simp: dget_def)
  qed
qed

section \<open>Tool executions\<close>

definition TOOL_TERMINAL :: "string list" where
  "TOOL_TERMINAL = [''completed'', ''failed'', ''cancelled'', ''indeterminate'']"

definition TOOL_TRANSITIONS :: table where
  "TOOL_TRANSITIONS = [
    (''prepared'', [''admitted'', ''failed'', ''cancelled'']),
    (''admitted'', [''dispatching'', ''failed'', ''cancelled'']),
    (''dispatching'', [''effect_observed'', ''settling'', ''failed'', ''cancelled'', ''indeterminate'']),
    (''effect_observed'', [''settling'', ''failed'', ''cancelled'', ''indeterminate'']),
    (''settling'', [''completed'', ''failed'', ''cancelled'', ''indeterminate'']),
    (''completed'', []), (''failed'', []), (''cancelled'', []), (''indeterminate'', [])]"

definition TOOL_MUTABLE_FIELDS :: "string list" where
  "TOOL_MUTABLE_FIELDS = [''reservationId'', ''dispatchBoundary'', ''result'', ''resultDigest'',
    ''sideEffectIdentity'', ''worldReceipt'', ''settlementStatus'', ''reconciliationReason'', ''updatedAt'']"

definition TOOL_OWNED :: "string list" where
  "TOOL_OWNED = [''tool_execution.state'', ''tool_execution.effectClass'', ''tool_execution.consequential'',
    ''tool_execution.reservationId'', ''tool_execution.dispatchBoundary'', ''tool_execution.result'',
    ''tool_execution.resultDigest'', ''tool_execution.sideEffectIdentity'', ''tool_execution.effectIntent'',
    ''tool_execution.worldReceipt'', ''tool_execution.settlementStatus'', ''tool_execution.reconciliationReason'',
    ''tool_execution.preparedAt'', ''tool_execution.updatedAt'']"

definition tool_stream_id :: "string \<Rightarrow> string" where
  "tool_stream_id tool_execution_id = ''tool_execution-'' @ tool_execution_id"

type_synonym validator = "string \<Rightarrow> json \<Rightarrow> string list"

definition tool_subject :: "dict \<Rightarrow> string" where
  "tool_subject d = ''tool execution '' @ str_of (dget d ''toolExecutionId'')"

definition tool_create :: "validator \<Rightarrow> dict \<Rightarrow> dict res" where
  "tool_create validate execution =
    bnd (require validate ''ToolExecution'' (JObj execution)) (\<lambda>_.
    bnd (dreq execution ''state'') (\<lambda>st.
    raise_if (st \<noteq> JStr ''prepared'')
      (IllegalTransition (tool_subject execution) (str_of st) ''prepared'')
      (Inr execution)))"

text \<open>What must hold on entering a state; the four guards exclude each other.\<close>

definition tool_entry_guard :: "(string \<Rightarrow> py_error) \<Rightarrow> string \<Rightarrow> dict \<Rightarrow> unit res" where
  "tool_entry_guard ill to_state nxt =
    (if to_state = ''dispatching'' then
       bnd (dreq nxt ''dispatchBoundary'') (\<lambda>b.
       raise_if (b = JStr ''not_started'') (ill '' requires dispatch boundary'') (Inr ()))
     else if to_state = ''settling'' then
       bnd (dreq nxt ''settlementStatus'') (\<lambda>b.
       raise_if (b \<noteq> JStr ''settling'') (ill '' requires settling status'') (Inr ()))
     else if to_state \<in> {''completed'', ''failed'', ''cancelled''} then
       raise_if (\<not> truthy (dget nxt ''result'') \<or> \<not> truthy (dget nxt ''resultDigest''))
         (ill '' requires settled result'') (
       bnd (dreq nxt ''settlementStatus'') (\<lambda>b.
       raise_if (b \<noteq> JStr ''settled'') (ill '' requires settled result'') (Inr ())))
     else if to_state = ''indeterminate'' then
       bnd (dreq nxt ''settlementStatus'') (\<lambda>b.
       raise_if (b \<noteq> JStr ''reconciliation_required'' \<or> \<not> truthy (dget nxt ''reconciliationReason''))
         (ill '' requires reconciliation reason'') (Inr ()))
     else Inr ())"

definition tool_transition :: "validator \<Rightarrow> dict \<Rightarrow> string \<Rightarrow> dict \<Rightarrow> dict res" where
  "tool_transition validate s to_state patch =
    bnd (require validate ''ToolExecution'' (JObj s)) (\<lambda>_.
    bnd (state_label s) (\<lambda>current.
    let ill = (\<lambda>what. IllegalTransition (tool_subject s @ what) current to_state);
        forbidden = sort (filter (\<lambda>k. k \<notin> set TOOL_MUTABLE_FIELDS) (dkeys patch));
        nxt = dput (dupdate s patch) ''state'' (JStr to_state) in
    raise_if (current \<in> set TOOL_TERMINAL \<or> \<not> allowed TOOL_TRANSITIONS current to_state) (ill '''') (
    raise_if (forbidden \<noteq> []) (ill ('' immutable fields '' @ join_with '', '' forbidden)) (
    bnd (tool_entry_guard ill to_state nxt) (\<lambda>_.
    bnd (require validate ''ToolExecution'' (JObj nxt)) (\<lambda>_. Inr nxt))))))"

text \<open>
  The fields of the snapshot that differ from the state. Python iterates over a frozen set
  in hash order; the order only affects the order of new keys, which equality ignores.
\<close>

definition replay_patch :: "dict \<Rightarrow> dict \<Rightarrow> dict" where
  "replay_patch s snapshot =
    map (\<lambda>k. (k, dget snapshot k))
      (filter (\<lambda>k. dhas snapshot k \<and> \<not> json_eq (dget snapshot k) (dget s k)) TOOL_MUTABLE_FIELDS)"

definition tool_replay_transition :: "validator \<Rightarrow> dict \<Rightarrow> dict \<Rightarrow> dict res" where
  "tool_replay_transition validate s snapshot =
    bnd (require validate ''ToolExecution'' (JObj snapshot)) (\<lambda>_.
    bnd (state_label snapshot) (\<lambda>to_state.
    bnd (tool_transition validate s to_state (replay_patch s snapshot)) (\<lambda>rebuilt.
    raise_if (\<not> dict_eq rebuilt snapshot)
      (IntegrityViolation ''ToolExecution replay snapshot differs from canonical state transition'')
      (Inr rebuilt))))"

section \<open>What a transition establishes\<close>

definition evidence_for :: "string \<Rightarrow> dict \<Rightarrow> bool" where
  "evidence_for t d =
     (if t = ''dispatching'' then (\<exists>b. dlook d ''dispatchBoundary'' = Some b \<and> b \<noteq> JStr ''not_started'')
      else if t = ''settling'' then dlook d ''settlementStatus'' = Some (JStr ''settling'')
      else if t \<in> {''completed'', ''failed'', ''cancelled''} then
        truthy (dget d ''result'') \<and> truthy (dget d ''resultDigest'') \<and> dlook d ''settlementStatus'' = Some (JStr ''settled'')
      else if t = ''indeterminate'' then
        dlook d ''settlementStatus'' = Some (JStr ''reconciliation_required'') \<and> truthy (dget d ''reconciliationReason'')
      else True)"

lemma tool_entry_guard_Inr: "tool_entry_guard ill t d = Inr u \<longleftrightarrow> evidence_for t d"
  by (auto simp add: tool_entry_guard_def evidence_for_def)

lemma sort_nil [simp]: "sort xs = [] \<longleftrightarrow> xs = []"
  by (metis set_empty set_sort)

lemma tool_transition_Inr:
  "tool_transition validate s t p = Inr nxt \<longleftrightarrow>
     validate ''ToolExecution'' (JObj s) = [] \<and> (\<exists>c. state_label s = Inr c \<and> c \<notin> set TOOL_TERMINAL \<and> allowed TOOL_TRANSITIONS c t)
     \<and> set (dkeys p) \<subseteq> set TOOL_MUTABLE_FIELDS \<and> nxt = dput (dupdate s p) ''state'' (JStr t) \<and> evidence_for t nxt
     \<and> validate ''ToolExecution'' (JObj nxt) = []"
  by (auto simp: tool_transition_def Let_def filter_empty_conv tool_entry_guard_Inr)

lemma tool_create_Inr: "tool_create validate d = Inr s \<longleftrightarrow>
    validate ''ToolExecution'' (JObj d) = [] \<and> dlook d ''state'' = Some (JStr ''prepared'') \<and> s = d"
  by (auto simp: tool_create_def)

lemma dlook_dupdate_notin: "k \<notin> set (dkeys p) \<Longrightarrow> dlook (dupdate d p) k = dlook d k"
  by (induction d p rule: dupdate.induct) (auto simp: dkeys_def)

fun tool_step :: "validator \<Rightarrow> dict \<Rightarrow> string \<times> dict \<Rightarrow> dict res" where
  "tool_step validate s (t, p) = tool_transition validate s t p"

lemma tool_step_facts:
  assumes "tool_step validate s a = Inr s'"
  shows "label_of s \<notin> set TOOL_TERMINAL \<and> allowed TOOL_TRANSITIONS (label_of s) (label_of s')
    \<and> evidence_for (label_of s') s' \<and> validate ''ToolExecution'' (JObj s') = [] \<and> state_label s' = Inr (label_of s')
    \<and> (\<forall>k. k \<notin> set TOOL_MUTABLE_FIELDS \<and> k \<noteq> ''state'' \<longrightarrow> dlook s' k = dlook s k)"
proof -
  obtain t p where a: "a = (t, p)" by force
  with assms have T: "\<exists>c. state_label s = Inr c \<and> c \<notin> set TOOL_TERMINAL \<and> allowed TOOL_TRANSITIONS c t"
      "set (dkeys p) \<subseteq> set TOOL_MUTABLE_FIELDS" "s' = dput (dupdate s p) ''state'' (JStr t)" "evidence_for t s'"
      "validate ''ToolExecution'' (JObj s') = []"
    unfolding a tool_step.simps tool_transition_Inr by blast+
  moreover from T(2,3) have "k \<notin> set TOOL_MUTABLE_FIELDS \<Longrightarrow> k \<noteq> ''state'' \<Longrightarrow> dlook s' k = dlook s k" for k
  proof -
    assume k: "k \<notin> set TOOL_MUTABLE_FIELDS" "k \<noteq> ''state''"
    with T(2) have "k \<notin> set (dkeys p)" by blast
    with k T(3) show "dlook s' k = dlook s k" by (simp add: dlook_dupdate_notin)
  qed
  ultimately show ?thesis by (auto dest: state_label_of)
qed

lemma tool_stuck:
  assumes "label_of s \<in> set TOOL_TERMINAL"
  shows "attempt (tool_step validate) s ops = s"
proof (rule attempt_stuck)
  fix a show "\<exists>e. tool_step validate s a = Inl e"
    using assms tool_step_facts[of validate s a] by (cases "tool_step validate s a") blast+
qed

definition TOOL_IDENTITY :: "(string \<Rightarrow> json option) \<Rightarrow> string \<Rightarrow> json option" where
  "TOOL_IDENTITY m = (\<lambda>k. if k \<in> set TOOL_MUTABLE_FIELDS \<or> k = ''state'' then None else m k)"

interpretation tool_lc: lifecycle TOOL_TRANSITIONS TOOL_TERMINAL label_of "\<lambda>s. TOOL_IDENTITY (map_of s)" "tool_step validate"
proof unfold_locales
  fix s t assume "s \<in> set TOOL_TERMINAL"
  then show "\<not> allowed TOOL_TRANSITIONS s t" by (auto simp: TOOL_TERMINAL_def TOOL_TRANSITIONS_def allowed_def)
next
  fix x a y assume s: "tool_step validate x a = Inr y"
  from tool_step_facts[OF s]
  show "label_of y = label_of x \<or> allowed TOOL_TRANSITIONS (label_of x) (label_of y)" by blast
  from tool_step_facts[OF s]
  show "TOOL_IDENTITY (map_of y) = TOOL_IDENTITY (map_of x)" by (auto simp: TOOL_IDENTITY_def)
qed

definition tool_ok :: "validator \<Rightarrow> dict \<Rightarrow> bool" where
  "tool_ok validate s \<longleftrightarrow> validate ''ToolExecution'' (JObj s) = [] \<and> state_label s = Inr (label_of s) \<and> evidence_for (label_of s) s"


definition sample_execution :: dict where
  "sample_execution = [(''toolExecutionId'', JStr ''x1''), (''state'', JStr ''prepared''), (''leaseId'', JStr ''l1''),
     (''dispatchBoundary'', JStr ''not_started''), (''settlementStatus'', JStr ''none'')]"

definition sample_tool_ops :: "(string \<times> dict) list" where
  "sample_tool_ops = [(''admitted'', []), (''dispatching'', []), (''dispatching'', [(''dispatchBoundary'', JStr ''started'')]),
     (''settling'', [(''settlementStatus'', JStr ''settling'')]), (''completed'', [(''leaseId'', JStr ''l2'')]),
     (''completed'', [(''result'', JStr ''ok''), (''resultDigest'', JStr ''d''), (''settlementStatus'', JStr ''settled'')])]"

definition no_errors :: validator where
  "no_errors t v = []"


section \<open>Replay of a transition\<close>

text \<open>
  A patch is plain when its values can be told from the values they replace by \<^verbatim>\<open>==\<close>: it does
  not put a null where the key is missing, nor another value that Python finds equal.
\<close>

definition plain_patch :: "dict \<Rightarrow> dict \<Rightarrow> bool" where
  "plain_patch s p \<longleftrightarrow> list_all (\<lambda>(k, v). case dlook s k of None \<Rightarrow> v \<noteq> JNull | Some w \<Rightarrow> json_eq v w \<longrightarrow> v = w) p"

text \<open>The contract validator does not depend on the order in which a dictionary was filled.\<close>

definition order_blind :: "validator \<Rightarrow> bool" where
  "order_blind validate \<longleftrightarrow> (\<forall>t a b. map_of a = map_of b \<longrightarrow> validate t (JObj a) = [] \<longrightarrow> validate t (JObj b) = [])"

lemma json_eq_null: "json_eq v JNull \<longleftrightarrow> v = JNull"
  by (cases v) (auto simp: json_eq_def)

lemma map_of_patch: "map_of (map (\<lambda>k. (k, f k)) ks) k = (if k \<in> set ks then Some (f k) else None)"
  by (induction ks) auto

lemma dlook_replay_patch:
  "dlook (replay_patch s n) k = (if k \<in> set TOOL_MUTABLE_FIELDS \<and> dhas n k \<and> \<not> json_eq (dget n k) (dget s k)
     then Some (dget n k) else None)"
  by (simp add: replay_patch_def map_of_patch)

lemma distinct_replay_patch: "distinct (map fst (replay_patch s n))"
  unfolding replay_patch_def map_map comp_def fst_conv list.map_ident
  by (rule distinct_filter) (simp add: TOOL_MUTABLE_FIELDS_def)

lemma plain_patchD:
  "plain_patch s p \<Longrightarrow> dlook p k = Some v \<Longrightarrow> (case dlook s k of None \<Rightarrow> v \<noteq> JNull | Some w \<Rightarrow> json_eq v w \<longrightarrow> v = w)"
  by (auto simp: plain_patch_def list_all_iff dest: map_of_SomeD)

lemma rebuilt_bindings:
  assumes "tool_transition validate s t p = Inr n" and "plain_patch s p" and "distinct (map fst p)"
  shows "map_of (dput (dupdate s (replay_patch s n)) ''state'' (JStr t)) = map_of n"
proof
  fix k
  from assms(1) have n: "n = dput (dupdate s p) ''state'' (JStr t)" and m: "set (dkeys p) \<subseteq> set TOOL_MUTABLE_FIELDS"
    by (simp_all add: tool_transition_Inr)
  show "dlook (dput (dupdate s (replay_patch s n)) ''state'' (JStr t)) k = dlook n k"
  proof (cases "k = ''state''")
    case False
    then have nk: "dlook n k = (case dlook p k of None \<Rightarrow> dlook s k | Some v \<Rightarrow> Some v)"
      using assms(3) by (simp add: n)
    show ?thesis
    proof (cases "dlook p k")
      case None
      with nk have "dlook n k = dlook s k" by simp
      then have "dlook (replay_patch s n) k = None" by (simp add: dlook_replay_patch dget_def)
      with False nk None show ?thesis by (simp add: distinct_replay_patch)
    next
      case (Some v)
      then have "k \<in> set TOOL_MUTABLE_FIELDS" using m by (force simp: dkeys_def dest: map_of_SomeD)
      moreover have "dlook n k = Some v" using nk Some by simp
      moreover have "json_eq v (dget s k) \<Longrightarrow> dlook s k = Some v"
        using plain_patchD[OF assms(2) Some] by (auto simp: dget_def json_eq_null split: option.splits)
      ultimately show ?thesis using False
        by (auto simp: distinct_replay_patch dlook_replay_patch dget_def dhas_def split: option.split)
    qed
  qed (simp add: n)
qed

lemma evidence_for_bindings: "map_of a = map_of b \<Longrightarrow> evidence_for t a = evidence_for t b"
  by (simp add: evidence_for_def dget_def)



end
