(* ===== verification/Sandbox_Lease.thy ===== *)
theory Sandbox_Lease
  imports Tool_Execution
begin

text \<open>
  \<^verbatim>\<open>aggregates/sandbox_lease.py\<close>: the persistent facts of a sandbox, from reservation to
  closing, with facts that can be bound once and never replaced.
\<close>

section \<open>Tables\<close>

definition SANDBOX_TRANSITIONS :: table where
  "SANDBOX_TRANSITIONS = [
    (''reserved'', [''created'', ''closed'', ''indeterminate'']),
    (''created'', [''running'', ''closing'', ''indeterminate'']),
    (''running'', [''closing'', ''indeterminate'']),
    (''closing'', [''closed'', ''indeterminate'']),
    (''indeterminate'', [''running'', ''closing'', ''closed'']),
    (''closed'', [])]"

definition BIND_ONCE_FIELDS :: "string list" where
  "BIND_ONCE_FIELDS = [''containerId'', ''guardianContainerId'', ''guardianImageId'', ''networkId'',
    ''networkName'', ''creationAttestationDigest'', ''sideEffectIdentity'']"

definition SANDBOX_MUTABLE_FIELDS :: "string list" where
  "SANDBOX_MUTABLE_FIELDS = [''updatedAt'', ''lastReconciledAt'', ''reconciliationReason'',
    ''reconciliationEvidenceDigest'', ''closeReason'', ''closedAt'', ''closureReceiptDigest'']"

definition OBSERVED_FIELDS :: "string list" where
  "OBSERVED_FIELDS = [''containerId'', ''creationAttestationDigest'', ''sideEffectIdentity'']"

definition SANDBOX_OWNED :: "string list" where
  "SANDBOX_OWNED = map (\<lambda>f. ''sandbox_lease.'' @ f)
     (BIND_ONCE_FIELDS @ SANDBOX_MUTABLE_FIELDS @ [''state'', ''createdAt'', ''expiresAt'', ''ttlSeconds''])"

definition sandbox_stream_id :: "validator \<Rightarrow> string \<Rightarrow> string res" where
  "sandbox_stream_id validate sandbox_lease_id =
    (let stream = ''sandbox_lease-'' @ sandbox_lease_id in
     bnd (require validate ''StreamId'' (JStr stream)) (\<lambda>_. Inr stream))"

definition sandbox_subject :: "dict \<Rightarrow> string" where
  "sandbox_subject d = ''sandbox lease '' @ str_of (dget d ''sandboxLeaseId'')"

section \<open>Operations\<close>

definition sandbox_reserve :: "validator \<Rightarrow> dict \<Rightarrow> dict res" where
  "sandbox_reserve validate r =
    bnd (require validate ''SandboxLease'' (JObj r)) (\<lambda>_.
    bnd (dreq r ''state'') (\<lambda>st.
    raise_if (st \<noteq> JStr ''reserved'') (IllegalTransition (sandbox_subject r) (str_of st) ''reserved'') (Inr r)))"

text \<open>Whether one entry of the patch may be applied.\<close>

definition patch_entry_ok :: "dict \<Rightarrow> string \<times> json \<Rightarrow> bool" where
  "patch_entry_ok s kv = (case kv of (field, value) \<Rightarrow>
     field \<in> set SANDBOX_MUTABLE_FIELDS
     \<or> (field \<in> set BIND_ONCE_FIELDS \<and> \<not> dhas s field)
     \<or> (field \<noteq> ''state'' \<and> dhas s field \<and> json_eq (dget s field) value))"

definition sandbox_transition :: "validator \<Rightarrow> dict \<Rightarrow> string \<Rightarrow> dict \<Rightarrow> bool \<Rightarrow> dict res" where
  "sandbox_transition validate s target patch reconciliation =
    bnd (require validate ''SandboxLease'' (JObj s)) (\<lambda>_.
    bnd (state_label s) (\<lambda>current.
    let label = sandbox_subject s in
    (case map_of SANDBOX_TRANSITIONS current of
       None \<Rightarrow> Inl (KeyError current)
     | Some targets \<Rightarrow>
    raise_if (target \<notin> set targets \<or> (current = ''indeterminate'') \<noteq> reconciliation)
      (IllegalTransition label current target) (
    case find (\<lambda>kv. \<not> patch_entry_ok s kv) patch of
      Some (field, _) \<Rightarrow> Inl (IllegalTransition (label @ '' immutable field '' @ field) current target)
    | None \<Rightarrow>
    let nxt = dput (dupdate s patch) ''state'' (JStr target) in
    raise_if (current = ''reserved'' \<and> target = ''closed'' \<and>
        (dget nxt ''closeReason'' \<noteq> JStr ''create_failed_no_effect'' \<or> list_ex (dhas nxt) BIND_ONCE_FIELDS))
      (IllegalTransition (label @ '' requires create_failed_no_effect'') current target) (
    raise_if (target \<in> {''created'', ''running''} \<and> \<not> list_all (dhas nxt) OBSERVED_FIELDS)
      (IllegalTransition (label @ '' requires observed identity'') current target) (
    bnd (require validate ''SandboxLease'' (JObj nxt)) (\<lambda>_. Inr nxt)))))))"

definition record_created :: "validator \<Rightarrow> dict \<Rightarrow> dict \<Rightarrow> dict res" where
  "record_created validate s patch = sandbox_transition validate s ''created'' patch False"

definition record_running :: "validator \<Rightarrow> dict \<Rightarrow> dict \<Rightarrow> dict res" where
  "record_running validate s patch = sandbox_transition validate s ''running'' patch False"

definition begin_close :: "validator \<Rightarrow> dict \<Rightarrow> dict \<Rightarrow> dict res" where
  "begin_close validate s patch = sandbox_transition validate s ''closing'' patch False"

definition record_closed :: "validator \<Rightarrow> dict \<Rightarrow> dict \<Rightarrow> dict res" where
  "record_closed validate s patch = sandbox_transition validate s ''closed'' patch False"

definition mark_indeterminate :: "validator \<Rightarrow> dict \<Rightarrow> dict \<Rightarrow> dict res" where
  "mark_indeterminate validate s patch = sandbox_transition validate s ''indeterminate'' patch False"

definition sandbox_reconcile :: "validator \<Rightarrow> dict \<Rightarrow> string \<Rightarrow> dict \<Rightarrow> dict res" where
  "sandbox_reconcile validate s target patch = sandbox_transition validate s target patch True"

datatype sandbox_op =
    RecordCreated dict | RecordRunning dict | BeginClose dict | RecordClosed dict
  | MarkIndeterminate dict | Reconcile string dict

fun sandbox_step :: "validator \<Rightarrow> dict \<Rightarrow> sandbox_op \<Rightarrow> dict res" where
  "sandbox_step validate s (RecordCreated p) = record_created validate s p"
| "sandbox_step validate s (RecordRunning p) = record_running validate s p"
| "sandbox_step validate s (BeginClose p) = begin_close validate s p"
| "sandbox_step validate s (RecordClosed p) = record_closed validate s p"
| "sandbox_step validate s (MarkIndeterminate p) = mark_indeterminate validate s p"
| "sandbox_step validate s (Reconcile t p) = sandbox_reconcile validate s t p"

lemmas sandbox_ops = record_created_def record_running_def begin_close_def record_closed_def
  mark_indeterminate_def sandbox_reconcile_def

lemma sandbox_step_is_transition: "\<exists>t p b. sandbox_step validate s a = sandbox_transition validate s t p b"
  by (cases a) (auto simp: sandbox_ops)

section \<open>What an accepted transition did\<close>

lemma sandbox_transition_Inr:
  assumes "sandbox_transition validate s t p b = Inr n"
  shows "(\<exists>c. state_label s = Inr c \<and> allowed SANDBOX_TRANSITIONS c t \<and> ((c = ''indeterminate'') = b)
       \<and> (c = ''reserved'' \<and> t = ''closed'' \<longrightarrow> dget n ''closeReason'' = JStr ''create_failed_no_effect''
            \<and> (\<forall>k\<in>set BIND_ONCE_FIELDS. \<not> dhas n k)))
     \<and> (\<forall>kv\<in>set p. patch_entry_ok s kv)
     \<and> n = dput (dupdate s p) ''state'' (JStr t)
     \<and> (t \<in> {''created'', ''running''} \<longrightarrow> (\<forall>k\<in>set OBSERVED_FIELDS. dhas n k))
     \<and> validate ''SandboxLease'' (JObj n) = []"
proof -
  from assms obtain c where c: "state_label s = Inr c" by (auto simp: sandbox_transition_def)
  with assms obtain ts where ts: "map_of SANDBOX_TRANSITIONS c = Some ts"
    by (cases "map_of SANDBOX_TRANSITIONS c") (auto simp: sandbox_transition_def)
  with assms c have f: "find (\<lambda>kv. \<not> patch_entry_ok s kv) p = None"
    by (cases "find (\<lambda>kv. \<not> patch_entry_ok s kv) p") (auto simp: sandbox_transition_def Let_def)
  then have ok: "\<forall>kv\<in>set p. patch_entry_ok s kv" by (auto simp: find_None_iff)
  from assms c ts f have n: "n = dput (dupdate s p) ''state'' (JStr t)"
    by (simp add: sandbox_transition_def Let_def)
  from assms c ts f have R: "t \<in> set ts" "(c = ''indeterminate'') = b"
      "\<not> (c = ''reserved'' \<and> t = ''closed'' \<and>
        (dget n ''closeReason'' \<noteq> JStr ''create_failed_no_effect'' \<or> list_ex (dhas n) BIND_ONCE_FIELDS))"
      "\<not> (t \<in> {''created'', ''running''} \<and> \<not> list_all (dhas n) OBSERVED_FIELDS)"
      "validate ''SandboxLease'' (JObj n) = []"
    unfolding n by (simp_all add: sandbox_transition_def Let_def)
  from ts R(1) have "allowed SANDBOX_TRANSITIONS c t" by (simp add: allowed_def)
  with c ok R n show ?thesis by (auto simp: list_ex_iff list_all_iff)
qed

text \<open>An entry of the patch leaves an immutable field equal, and a bound field equal.\<close>

lemma dlook_dupdate_cases: "dlook (dupdate s p) k = dlook s k \<or> (\<exists>v. (k, v) \<in> set p \<and> dlook (dupdate s p) k = Some v)"
proof (cases "map_of (rev p) k")
  case None
  then show ?thesis by (simp add: dlook_dupdate)
next
  case (Some v)
  then have "(k, v) \<in> set p" using map_of_SomeD by fastforce
  with Some show ?thesis by (auto simp: dlook_dupdate)
qed

lemma sandbox_field_kept:
  assumes "sandbox_transition validate s t p b = Inr n" and "k \<notin> set SANDBOX_MUTABLE_FIELDS" and "k \<noteq> ''state''"
    and "k \<notin> set BIND_ONCE_FIELDS \<or> dhas s k"
  shows "json_eq (dget n k) (dget s k) \<and> dhas n k = dhas s k"
proof -
  note T = sandbox_transition_Inr[OF assms(1)]
  have n: "dlook n k = dlook (dupdate s p) k" using T assms(3) by simp
  show ?thesis
    using dlook_dupdate_cases[of s p k]
  proof
    assume "\<exists>v. (k, v) \<in> set p \<and> dlook (dupdate s p) k = Some v"
    then obtain v where v: "(k, v) \<in> set p" "dlook n k = Some v" using n by auto
    with T have "patch_entry_ok s (k, v)" by blast
    with assms(2-4) have "dhas s k" "json_eq (dget s k) v" by (auto simp: patch_entry_ok_def)
    with v(2) show ?thesis by (simp add: dget_def dhas_def json_eq_sym)
  qed (use n in \<open>simp add: dget_def dhas_def\<close>)
qed

section \<open>Sandbox histories\<close>

definition observed_ok :: "dict \<Rightarrow> bool" where
  "observed_ok s \<longleftrightarrow> (label_of s \<in> {''created'', ''running''} \<longrightarrow> (\<forall>k\<in>set OBSERVED_FIELDS. dhas s k))"

lemma sandbox_step_facts:
  assumes "sandbox_step validate s a = Inr n"
  shows "allowed SANDBOX_TRANSITIONS (label_of s) (label_of n) \<and> observed_ok n
    \<and> validate ''SandboxLease'' (JObj n) = []
    \<and> (label_of s = ''reserved'' \<and> label_of n = ''closed'' \<longrightarrow> (\<forall>k\<in>set BIND_ONCE_FIELDS. \<not> dhas n k))
    \<and> (k \<notin> set SANDBOX_MUTABLE_FIELDS \<and> k \<noteq> ''state'' \<and> (k \<notin> set BIND_ONCE_FIELDS \<or> dhas s k) \<longrightarrow>
         json_eq (dget n k) (dget s k) \<and> dhas n k = dhas s k)"
proof -
  obtain t p b where tr: "sandbox_transition validate s t p b = Inr n"
    using sandbox_step_is_transition[of validate s a] assms by metis
  note T = sandbox_transition_Inr[OF tr]
  then have v: "validate ''SandboxLease'' (JObj n) = []" and "n = dput (dupdate s p) ''state'' (JStr t)" by blast+
  from this(2) have ln: "label_of n = t" by simp
  from T obtain c where c: "state_label s = Inr c" "allowed SANDBOX_TRANSITIONS c t"
      "c = ''reserved'' \<and> t = ''closed'' \<longrightarrow> (\<forall>k\<in>set BIND_ONCE_FIELDS. \<not> dhas n k)" by blast
  have ls: "label_of s = c" using c(1) by (rule state_label_of)
  have "observed_ok n" unfolding observed_ok_def ln using T by blast
  moreover have "k \<notin> set SANDBOX_MUTABLE_FIELDS \<and> k \<noteq> ''state'' \<and> (k \<notin> set BIND_ONCE_FIELDS \<or> dhas s k) \<longrightarrow>
         json_eq (dget n k) (dget s k) \<and> dhas n k = dhas s k"
    using sandbox_field_kept[OF tr, of k] by blast
  ultimately show ?thesis unfolding ln ls using c(2,3) v by blast
qed

lemma sandbox_step_from_indeterminate:
  assumes "sandbox_step validate s a = Inr n"
  shows "(label_of s = ''indeterminate'') = (\<exists>t p. a = Reconcile t p)"
proof -
  obtain t p b where tr: "sandbox_step validate s a = sandbox_transition validate s t p b" "b = (\<exists>t p. a = Reconcile t p)"
    by (cases a) (auto simp: sandbox_ops)
  with assms sandbox_transition_Inr[of validate s t p b n] show ?thesis by (auto dest: state_label_of)
qed

interpretation sandbox_lc: lifecycle SANDBOX_TRANSITIONS "[''closed'']" label_of "\<lambda>_. ()" "sandbox_step validate"
proof unfold_locales
  fix s t assume "s \<in> set [''closed'']"
  then show "\<not> allowed SANDBOX_TRANSITIONS s t" by (simp add: SANDBOX_TRANSITIONS_def allowed_def)
qed (use sandbox_step_facts in blast)+

lemma sandbox_closed_stuck:
  assumes "label_of s = ''closed''"
  shows "attempt (sandbox_step validate) s ops = s"
proof (rule attempt_stuck)
  fix a show "\<exists>e. sandbox_step validate s a = Inl e"
  proof (cases "sandbox_step validate s a")
    case (Inr n)
    with sandbox_step_facts[OF Inr] assms show ?thesis by (simp add: SANDBOX_TRANSITIONS_def allowed_def)
  qed blast
qed

text \<open>A field, once fixed, keeps its value through any attempted operations.\<close>

lemma sandbox_history_keeps:
  assumes "k \<notin> set SANDBOX_MUTABLE_FIELDS" and "k \<noteq> ''state''" and "k \<notin> set BIND_ONCE_FIELDS \<or> dhas s k"
  shows "json_eq (dget (attempt (sandbox_step validate) s ops) k) (dget s k)
    \<and> dhas (attempt (sandbox_step validate) s ops) k = dhas s k"
proof (rule attempt_invariant[where P = "\<lambda>u. json_eq (dget u k) (dget s k) \<and> dhas u k = dhas s k"])
  fix u a n assume u: "json_eq (dget u k) (dget s k) \<and> dhas u k = dhas s k" and st: "sandbox_step validate u a = Inr n"
  with sandbox_step_facts[OF st, of k] assms have "json_eq (dget n k) (dget u k) \<and> dhas n k = dhas u k" by auto
  with u show "json_eq (dget n k) (dget s k) \<and> dhas n k = dhas s k" by (auto intro: json_eq_trans)
qed simp

text \<open>
  C30. Facts about a sandbox are bound once. After any attempted operations on a reserved
  sandbox, and any further ones: identity, profile, policy and context fields keep the values
  of the reservation; a container, network, attestation or side-effect identity that has been
  observed keeps its value for ever; a created or running sandbox has an observed identity;
  a closed one never changes; and an indeterminate one leaves that state only by a
  reconciliation.
\<close>

theorem sandbox_facts_bound_once:
  assumes "sandbox_reserve validate r = Inr s0"
  shows "let s = attempt (sandbox_step validate) s0 ops; s' = attempt (sandbox_step validate) s ops' in
    (k \<notin> set SANDBOX_MUTABLE_FIELDS \<and> k \<notin> set BIND_ONCE_FIELDS \<and> k \<noteq> ''state'' \<longrightarrow> json_eq (dget s' k) (dget r k))
    \<and> (k \<in> set BIND_ONCE_FIELDS \<and> dhas s k \<longrightarrow> dhas s' k \<and> json_eq (dget s' k) (dget s k))
    \<and> observed_ok s'
    \<and> (label_of s = ''closed'' \<longrightarrow> s' = s)
    \<and> (label_of s = ''indeterminate'' \<and> sandbox_step validate s a = Inr n \<longrightarrow> (\<exists>t p. a = Reconcile t p))"
proof -
  define s where "s = attempt (sandbox_step validate) s0 ops"
  define s' where "s' = attempt (sandbox_step validate) s ops'"
  have r: "s0 = r" "dlook s0 ''state'' = Some (JStr ''reserved'')"
    using assms by (auto simp: sandbox_reserve_def)
  then have "label_of s0 = ''reserved''" by (simp add: label_of_def state_label_dlook)
  then have "observed_ok s0" by (simp add: observed_ok_def)
  then have "observed_ok (attempt (sandbox_step validate) s0 (ops @ ops'))"
    by (rule attempt_invariant[where P = observed_ok, rotated]) (use sandbox_step_facts in blast)
  then have "observed_ok s'" by (simp add: s'_def s_def attempt_append)
  moreover have "k \<notin> set SANDBOX_MUTABLE_FIELDS \<and> k \<notin> set BIND_ONCE_FIELDS \<and> k \<noteq> ''state'' \<longrightarrow> json_eq (dget s' k) (dget r k)"
    using sandbox_history_keeps[of k s0 validate "ops @ ops'"] r by (auto simp: s'_def s_def attempt_append)
  moreover have "k \<in> set BIND_ONCE_FIELDS \<and> dhas s k \<longrightarrow> dhas s' k \<and> json_eq (dget s' k) (dget s k)"
    using sandbox_history_keeps[of k s validate ops'] by (auto simp: s'_def BIND_ONCE_FIELDS_def SANDBOX_MUTABLE_FIELDS_def)
  moreover have "label_of s = ''closed'' \<longrightarrow> s' = s" using sandbox_closed_stuck by (auto simp: s'_def)
  ultimately show ?thesis
    using sandbox_step_from_indeterminate[of validate s a n] unfolding s_def[symmetric] s'_def[symmetric] Let_def by blast
qed

definition sample_sandbox :: dict where
  "sample_sandbox = [(''sandboxLeaseId'', JStr ''b1''), (''state'', JStr ''reserved''), (''imageId'', JStr ''i1'')]"

definition sample_created :: dict where
  "sample_created = [(''containerId'', JStr ''c1''), (''creationAttestationDigest'', JStr ''d1''), (''sideEffectIdentity'', JStr ''e1'')]"

definition sample_sandbox_ops :: "sandbox_op list" where
  "sample_sandbox_ops = [RecordCreated [], RecordCreated sample_created, RecordRunning [(''containerId'', JStr ''c2'')],
     MarkIndeterminate [(''updatedAt'', JStr ''t1'')], RecordRunning [], Reconcile ''running'' []]"

theorem sandbox_facts_bound_once_witness:
  "let s = attempt (sandbox_step no_errors) sample_sandbox sample_sandbox_ops in
     label_of s = ''running'' \<and> dget s ''containerId'' = JStr ''c1'' \<and> observed_ok s"
proof -
  define s where "s = attempt (sandbox_step no_errors) sample_sandbox sample_sandbox_ops"
  have c: "sandbox_reserve no_errors sample_sandbox = Inr sample_sandbox" by code_simp
  have l: "label_of s = ''running''" "dget s ''containerId'' = JStr ''c1''" unfolding s_def by code_simp+
  from sandbox_facts_bound_once[OF c, of sample_sandbox_ops "[]"] l
  show ?thesis unfolding s_def Let_def by simp
qed

end
