(* ===== verification/Cohorts.thy ===== *)
theory Cohorts
  imports Mission_Task
begin

text \<open>
  \<^verbatim>\<open>aggregates/cohort_state.py\<close>: the durable state of a bounded deliberation. A snapshot
  offered by a caller is normalised and checked against the current state; contributions
  are append-only, cursors do not regress and the stopping reason is derived, not claimed.
\<close>

section \<open>State\<close>

record raw_contribution =
  rt_contributionId :: string
  rt_participant :: string
  rt_epoch :: int
  rt_round :: int
  rt_outcome :: string
  rt_cursor :: int
  rt_sourceSequences :: "int list option"
  rt_material :: "bool option"
  rt_escalation :: "json option"

record contribution =
  ct_contributionId :: string
  ct_participant :: string
  ct_epoch :: int
  ct_round :: int
  ct_outcome :: string
  ct_cursor :: int
  ct_sourceSequences :: "int list"
  ct_material :: bool
  ct_escalation :: json

record steer_record =
  st_directive :: string
  st_reason :: string
  st_steeredBy :: string
  st_steeredAt :: string
  st_epoch :: int

type_synonym cursors = "(string \<times> int) list"

record cohort_snapshot =
  sn_cohortId :: string
  sn_missionId :: string
  sn_taskId :: string
  sn_epoch :: "int option"
  sn_rounds :: "int option"
  sn_roundCap :: int
  sn_participantCap :: int
  sn_required :: "string list option"
  sn_roster :: "string list option"
  sn_participantCursors :: "cursors option"
  sn_contributions :: "raw_contribution list option"
  sn_stoppingReason :: "string option"
  sn_evidenceIds :: "string list option"
  sn_latestSteer :: "steer_record option"

record cohort =
  co_cohortId :: string
  co_missionId :: string
  co_taskId :: string
  co_epoch :: int
  co_rounds :: int
  co_roundCap :: int
  co_participantCap :: int
  co_required :: "string list"
  co_roster :: "string list"
  co_participantCursors :: cursors
  co_contributions :: "contribution list"
  co_stoppingReason :: "string option"
  co_evidenceIds :: "string list"
  co_latestSteer :: "steer_record option"

definition COHORT_OWNED :: "string list" where
  "COHORT_OWNED = [''cohort.epoch'', ''cohort.rounds'', ''cohort.roundCap'', ''cohort.participantCap'',
    ''cohort.required'', ''cohort.roster'', ''cohort.participantCursors'', ''cohort.contributions'',
    ''cohort.stoppingReason'', ''cohort.evidenceIds'', ''cohort.latestSteer'']"

definition cohort_stream_id :: "string \<Rightarrow> string res" where
  "cohort_stream_id cohort_id = raise_if (cohort_id = []) (ValueError ''COHORT_ID_REQUIRED'') (Inr (''cohort-'' @ cohort_id))"

section \<open>Normalisation\<close>

definition contribution_of :: "raw_contribution \<Rightarrow> contribution" where
  "contribution_of r = \<lparr>ct_contributionId = rt_contributionId r, ct_participant = rt_participant r,
     ct_epoch = rt_epoch r, ct_round = rt_round r, ct_outcome = rt_outcome r, ct_cursor = rt_cursor r,
     ct_sourceSequences = or_empty (rt_sourceSequences r),
     ct_material = (case rt_material r of None \<Rightarrow> False | Some b \<Rightarrow> b),
     ct_escalation = (case rt_escalation r of None \<Rightarrow> JNull | Some v \<Rightarrow> v)\<rparr>"

definition cursor_at :: "cursors \<Rightarrow> string \<Rightarrow> int" where
  "cursor_at cs p = (case map_of cs p of None \<Rightarrow> 0 | Some n \<Rightarrow> n)"

text \<open>The loop over the contributions: ids seen, cursors observed, and the list built.\<close>

fun scan_contributions :: "string list \<Rightarrow> int \<Rightarrow> int \<Rightarrow> int \<Rightarrow> string list \<Rightarrow> cursors \<Rightarrow> raw_contribution list
    \<Rightarrow> (contribution list \<times> cursors) res" where
  "scan_contributions roster epoch rounds round_cap seen observed [] = Inr ([], observed)"
| "scan_contributions roster epoch rounds round_cap seen observed (r # rs) =
     raise_if (rt_contributionId r \<in> set seen) (ValueError ''COHORT_DUPLICATE_CONTRIBUTION'') (
     raise_if (rt_participant r \<notin> set roster) (ValueError ''COHORT_PARTICIPANT_NOT_ADMITTED'') (
     raise_if (rt_epoch r < 0 \<or> rt_round r < 0 \<or> rt_cursor r < 0) (ValueError ''COHORT_POSITION_NEGATIVE'') (
     raise_if (rt_epoch r > epoch) (ValueError ''COHORT_FUTURE_EPOCH_CONTRIBUTION'') (
     raise_if (rt_round r \<ge> round_cap) (ValueError ''COHORT_CONTRIBUTION_ROUND_OUT_OF_RANGE'') (
     raise_if (rt_epoch r = epoch \<and> rt_round r > rounds) (ValueError ''COHORT_FUTURE_ROUND_CONTRIBUTION'') (
     raise_if (rt_cursor r < cursor_at observed (rt_participant r)) (ValueError ''COHORT_CONTRIBUTION_CURSOR_CANNOT_REGRESS'') (
     bnd (scan_contributions roster epoch rounds round_cap (rt_contributionId r # seen)
           (AList.update (rt_participant r) (rt_cursor r) observed) rs) (\<lambda>(cs, obs).
     Inr (contribution_of r # cs, obs)))))))))"

text \<open>\<^verbatim>\<open>for participant, observed in observed_cursors.items()\<close>.\<close>

fun merge_cursors :: "cursors \<Rightarrow> cursors \<Rightarrow> cursors res" where
  "merge_cursors declared [] = Inr declared"
| "merge_cursors declared ((p, observed) # rest) = (case map_of declared p of
     None \<Rightarrow> merge_cursors (AList.update p observed declared) rest
   | Some d \<Rightarrow> raise_if (d < observed) (ValueError ''COHORT_CURSOR_BEHIND_CONTRIBUTION'') (merge_cursors declared rest))"

definition cohort_normalize :: "cohort_snapshot \<Rightarrow> cohort res" where
  "cohort_normalize sn =
    (let required = sorted_set (or_empty (sn_required sn));
         roster = sorted_set (or_empty (sn_roster sn));
         epoch = (case sn_epoch sn of None \<Rightarrow> 0 | Some e \<Rightarrow> e);
         rounds = (case sn_rounds sn of None \<Rightarrow> 0 | Some n \<Rightarrow> n);
         declared = or_empty (sn_participantCursors sn) in
     raise_if (required = []) (ValueError ''COHORT_REQUIRED_EMPTY'') (
     raise_if (\<not> set required \<subseteq> set roster) (ValueError ''COHORT_REQUIRED_NOT_IN_ROSTER'') (
     raise_if (sn_participantCap sn \<le> 0 \<or> int (length roster) > sn_participantCap sn) (ValueError ''COHORT_PARTICIPANT_CAP'') (
     raise_if (sn_roundCap sn \<le> 0 \<or> rounds < 0 \<or> rounds \<ge> sn_roundCap sn) (ValueError ''COHORT_ROUND_POSITION_INVALID'') (
     raise_if (epoch < 0) (ValueError ''COHORT_EPOCH_NEGATIVE'') (
     raise_if (list_ex (\<lambda>(p, _). p \<notin> set roster) declared) (ValueError ''COHORT_CURSOR_PARTICIPANT_NOT_ADMITTED'') (
     raise_if (list_ex (\<lambda>(_, c). c < 0) declared) (ValueError ''COHORT_CURSOR_NEGATIVE'') (
     bnd (scan_contributions roster epoch rounds (sn_roundCap sn) [] [] (or_empty (sn_contributions sn))) (\<lambda>(cs, observed).
     bnd (merge_cursors declared observed) (\<lambda>merged.
     Inr \<lparr>co_cohortId = sn_cohortId sn, co_missionId = sn_missionId sn, co_taskId = sn_taskId sn,
          co_epoch = epoch, co_rounds = rounds, co_roundCap = sn_roundCap sn, co_participantCap = sn_participantCap sn,
          co_required = required, co_roster = roster, co_participantCursors = merged, co_contributions = cs,
          co_stoppingReason = sn_stoppingReason sn, co_evidenceIds = dedup (or_empty (sn_evidenceIds sn)),
          co_latestSteer = sn_latestSteer sn\<rparr>)))))))))) "

section \<open>The derived stopping reason\<close>

text \<open>\<^verbatim>\<open>latest\<close> is a dictionary filled in order, so the last contribution of a participant counts.\<close>

definition open_debt :: "contribution \<Rightarrow> bool" where
  "open_debt c \<longleftrightarrow> ct_outcome c \<in> {''ESCALATE'', ''REQUEST_EVIDENCE''} \<or> (ct_outcome c = ''DISSENT'' \<and> ct_material c)"

definition latest_in_round :: "int \<Rightarrow> contribution list \<Rightarrow> (string \<times> contribution) list" where
  "latest_in_round n cs = fold (\<lambda>c m. AList.update (ct_participant c) c m) (filter (\<lambda>c. ct_round c = n) cs) []"

definition derived_stopping_reason :: "cohort \<Rightarrow> string option" where
  "derived_stopping_reason s =
    (let vals = filter (\<lambda>c. ct_epoch c = co_epoch s) (co_contributions s);
         at_cap = co_rounds s + 1 \<ge> co_roundCap s;
         passed = map fst (filter (\<lambda>(_, c). ct_outcome c = ''PASS'') (latest_in_round (co_rounds s) vals)) in
     if list_ex open_debt vals then (if at_cap then Some ''BOUNDED_INCOMPLETE'' else None)
     else if set (co_required s) \<subseteq> set passed then Some ''SILENCE_QUORUM''
     else if at_cap then Some ''BOUNDED_INCOMPLETE'' else None)"

section \<open>Operations\<close>

definition cohort_create :: "cohort_snapshot \<Rightarrow> cohort res" where
  "cohort_create sn = bnd (cohort_normalize sn) (\<lambda>s.
     raise_if (co_epoch s \<noteq> 0) (ValueError ''COHORT_INITIAL_EPOCH_MUST_BE_ZERO'') (
     raise_if (co_evidenceIds s \<noteq> []) (AuthorityViolation ''cohort snapshot may not seed evidence authority'') (
     raise_if (co_latestSteer s \<noteq> None) (AuthorityViolation ''initial cohort snapshot may not seed steering authority'') (
     raise_if (co_stoppingReason s \<noteq> derived_stopping_reason s)
       (AuthorityViolation ''cohort stopping reason must be deterministically derived'') (Inr s)))))"

text \<open>\<^verbatim>\<open>==\<close> of two contributions: their escalations are compared as JSON values.\<close>

definition same_contribution :: "contribution \<Rightarrow> contribution \<Rightarrow> bool" where
  "same_contribution a b \<longleftrightarrow> a\<lparr>ct_escalation := JNull\<rparr> = b\<lparr>ct_escalation := JNull\<rparr> \<and> json_eq (ct_escalation a) (ct_escalation b)"

definition contributions_by_id :: "contribution list \<Rightarrow> (string \<times> contribution) list" where
  "contributions_by_id cs = rev (map (\<lambda>c. (ct_contributionId c, c)) cs)"

text \<open>The checks that \<^verbatim>\<open>replace_snapshot\<close> and \<^verbatim>\<open>replay_replace\<close> share.\<close>

definition check_replacement :: "cohort \<Rightarrow> cohort \<Rightarrow> unit res" where
  "check_replacement cur nxt =
    (let old_by_id = contributions_by_id (co_contributions cur); new_by_id = contributions_by_id (co_contributions nxt) in
     raise_if (co_cohortId nxt \<noteq> co_cohortId cur) (AuthorityViolation ''cohort identity cannot change'') (
     raise_if (co_missionId nxt \<noteq> co_missionId cur \<or> co_taskId nxt \<noteq> co_taskId cur)
       (AuthorityViolation ''cohort mission/task binding cannot change'') (
     raise_if (co_required nxt \<noteq> co_required cur \<or> co_roster nxt \<noteq> co_roster cur
         \<or> co_participantCap nxt \<noteq> co_participantCap cur \<or> co_roundCap nxt \<noteq> co_roundCap cur)
       (AuthorityViolation ''cohort quorum/roster/cap configuration is immutable after creation'') (
     raise_if (co_epoch nxt \<noteq> co_epoch cur) (AuthorityViolation ''cohort snapshot persistence may not change deliberation epoch'') (
     raise_if (co_rounds nxt < co_rounds cur) (AuthorityViolation ''cohort round position may not regress'') (
     raise_if (\<not> list_all (\<lambda>(i, _). map_of new_by_id i \<noteq> None) old_by_id)
       (AuthorityViolation ''cohort snapshot may not delete admitted contributions'') (
     raise_if (\<not> list_all (\<lambda>(i, prior). same_contribution (the (map_of new_by_id i)) (the (map_of old_by_id i))) old_by_id)
       (AuthorityViolation ''cohort snapshot may not rewrite admitted contributions'') (
     raise_if (list_ex (\<lambda>(p, c). cursor_at (co_participantCursors nxt) p < c) (co_participantCursors cur))
       (AuthorityViolation ''cohort participant cursor may not regress'') (Inr ())))))))))"

definition cohort_replace_snapshot :: "cohort \<Rightarrow> cohort_snapshot \<Rightarrow> cohort res" where
  "cohort_replace_snapshot cur sn = bnd (cohort_normalize sn) (\<lambda>nxt.
     bnd (check_replacement cur nxt) (\<lambda>_.
     raise_if (co_latestSteer nxt \<noteq> None \<and> co_latestSteer nxt \<noteq> co_latestSteer cur)
       (AuthorityViolation ''cohort snapshot may not forge steering authority'') (
     raise_if (co_evidenceIds nxt \<noteq> []) (AuthorityViolation ''cohort snapshot may not supply evidence authority'') (
     let nxt' = nxt\<lparr>co_latestSteer := co_latestSteer cur, co_evidenceIds := co_evidenceIds cur\<rparr> in
     raise_if (co_stoppingReason nxt' \<noteq> derived_stopping_reason nxt')
       (AuthorityViolation ''cohort stopping reason must be deterministically derived'') (Inr nxt')))))"

definition cohort_replay_create :: "cohort_snapshot \<Rightarrow> cohort res" where
  "cohort_replay_create sn = bnd (cohort_normalize sn) (\<lambda>s.
     raise_if (co_epoch s \<noteq> 0) (ValueError ''COHORT_INITIAL_EPOCH_MUST_BE_ZERO'') (
     raise_if (co_latestSteer s \<noteq> None) (AuthorityViolation ''initial cohort event may not contain steering state'') (
     raise_if (co_stoppingReason s \<noteq> derived_stopping_reason s)
       (AuthorityViolation ''cohort stopping reason must be deterministically derived'') (Inr s))))"

definition cohort_replay_replace :: "cohort \<Rightarrow> cohort_snapshot \<Rightarrow> cohort res" where
  "cohort_replay_replace cur sn = bnd (cohort_normalize sn) (\<lambda>nxt.
     bnd (check_replacement cur nxt) (\<lambda>_.
     raise_if (co_latestSteer nxt \<noteq> co_latestSteer cur) (AuthorityViolation ''snapshot event may not rewrite steering state'') (
     raise_if (\<not> set (co_evidenceIds cur) \<subseteq> set (co_evidenceIds nxt))
       (AuthorityViolation ''snapshot event may not delete Cohort evidence links'') (
     raise_if (co_stoppingReason nxt \<noteq> derived_stopping_reason nxt)
       (AuthorityViolation ''cohort stopping reason must be deterministically derived'') (Inr nxt)))))"

definition cohort_attach_evidence :: "cohort \<Rightarrow> string \<Rightarrow> cohort" where
  "cohort_attach_evidence cur evidence_id = cur\<lparr>co_evidenceIds := add_once evidence_id (co_evidenceIds cur)\<rparr>"

definition cohort_steer :: "cohort \<Rightarrow> string \<Rightarrow> string \<Rightarrow> string \<Rightarrow> string \<Rightarrow> cohort res" where
  "cohort_steer cur directive reason actor_id issued_at =
    raise_if (directive = [] \<or> py_strip directive = []) (ValueError ''COHORT_STEER_DIRECTIVE_REQUIRED'') (
    Inr (cur\<lparr>co_epoch := co_epoch cur + 1, co_rounds := 0, co_stoppingReason := None,
             co_latestSteer := Some \<lparr>st_directive = directive, st_reason = reason, st_steeredBy = actor_id,
               st_steeredAt = issued_at, st_epoch = co_epoch cur + 1\<rparr>\<rparr>))"

datatype cohort_op = ReplaceSnapshot cohort_snapshot | CohortEvidence string | Steer string string string string

fun cohort_step :: "cohort \<Rightarrow> cohort_op \<Rightarrow> cohort res" where
  "cohort_step s (ReplaceSnapshot sn) = cohort_replace_snapshot s sn"
| "cohort_step s (CohortEvidence e) = Inr (cohort_attach_evidence s e)"
| "cohort_step s (Steer d r a t) = cohort_steer s d r a t"

section \<open>Facts about normalisation\<close>

lemma cursor_at_update [simp]: "cursor_at (AList.update p c m) q = (if q = p then c else cursor_at m q)"
  by (simp add: cursor_at_def update_conv)

lemma update_new: "map_of d p = None \<Longrightarrow> AList.update p v d = d @ [(p, v)]"
  by (induction d) (auto split: if_splits)

definition position_ok :: "string list \<Rightarrow> int \<Rightarrow> int \<Rightarrow> int \<Rightarrow> contribution \<Rightarrow> bool" where
  "position_ok roster epoch rounds round_cap c \<longleftrightarrow> ct_participant c \<in> set roster
     \<and> 0 \<le> ct_epoch c \<and> ct_epoch c \<le> epoch \<and> 0 \<le> ct_round c \<and> ct_round c < round_cap \<and> 0 \<le> ct_cursor c
     \<and> (ct_epoch c = epoch \<longrightarrow> ct_round c \<le> rounds)"

lemma contribution_of_sel [simp]:
  "ct_contributionId (contribution_of r) = rt_contributionId r" "ct_participant (contribution_of r) = rt_participant r"
  "ct_epoch (contribution_of r) = rt_epoch r" "ct_round (contribution_of r) = rt_round r"
  "ct_cursor (contribution_of r) = rt_cursor r"
  by (simp_all add: contribution_of_def)

lemma scan_Cons:
  assumes "scan_contributions roster e n cap seen obs (r # rs) = Inr (cs, obs')"
  obtains cs' where "cs = contribution_of r # cs'" "rt_contributionId r \<notin> set seen"
    "position_ok roster e n cap (contribution_of r)" "cursor_at obs (rt_participant r) \<le> rt_cursor r"
    "scan_contributions roster e n cap (rt_contributionId r # seen) (AList.update (rt_participant r) (rt_cursor r) obs) rs = Inr (cs', obs')"
  using assms by (auto simp: position_ok_def not_less)

lemma scan_facts:
  "scan_contributions roster e n cap seen obs rs = Inr (cs, obs') \<Longrightarrow>
     distinct (map ct_contributionId cs) \<and> ct_contributionId ` set cs \<inter> set seen = {}
     \<and> list_all (position_ok roster e n cap) cs
     \<and> (\<forall>c\<in>set cs. ct_cursor c \<le> cursor_at obs' (ct_participant c))
     \<and> (\<forall>p. cursor_at obs p \<le> cursor_at obs' p)"
proof (induction rs arbitrary: seen obs cs)
  case (Cons r rs)
  from Cons.prems show ?case
  proof (rule scan_Cons)
    fix cs' assume h: "cs = contribution_of r # cs'" "rt_contributionId r \<notin> set seen"
      "position_ok roster e n cap (contribution_of r)" "cursor_at obs (rt_participant r) \<le> rt_cursor r"
      "scan_contributions roster e n cap (rt_contributionId r # seen) (AList.update (rt_participant r) (rt_cursor r) obs) rs = Inr (cs', obs')"
    note IH = Cons.IH[OF h(5)]
    have mono: "cursor_at obs p \<le> cursor_at obs' p" for p
      using IH h(4) by (metis cursor_at_update order_trans)
    have "rt_cursor r \<le> cursor_at obs' (rt_participant r)" using IH by (metis cursor_at_update)
    with IH h mono show ?thesis by auto
  qed
qed simp

lemma scan_observed:
  "scan_contributions roster e n cap seen obs rs = Inr (cs, obs') \<Longrightarrow>
     \<forall>p c. map_of obs p = Some c \<longrightarrow> p \<in> set roster \<and> 0 \<le> c \<Longrightarrow>
     \<forall>p c. map_of obs' p = Some c \<longrightarrow> p \<in> set roster \<and> 0 \<le> c"
proof (induction rs arbitrary: seen obs cs)
  case (Cons r rs)
  from Cons.prems(1) show ?case
  proof (rule scan_Cons)
    fix cs' assume "position_ok roster e n cap (contribution_of r)"
      and s: "scan_contributions roster e n cap (rt_contributionId r # seen) (AList.update (rt_participant r) (rt_cursor r) obs) rs = Inr (cs', obs')"
    then have "\<forall>p c. map_of (AList.update (rt_participant r) (rt_cursor r) obs) p = Some c \<longrightarrow> p \<in> set roster \<and> 0 \<le> c"
      using Cons.prems(2) by (auto simp: update_conv position_ok_def)
    with Cons.IH[OF s] show ?thesis by blast
  qed
qed simp

lemma scan_distinct:
  "scan_contributions roster e n cap seen obs rs = Inr (cs, obs') \<Longrightarrow> distinct (map fst obs) \<Longrightarrow> distinct (map fst obs')"
proof (induction rs arbitrary: seen obs cs)
  case (Cons r rs)
  from Cons.prems(1) show ?case
  proof (rule scan_Cons)
    fix cs' assume "scan_contributions roster e n cap (rt_contributionId r # seen) (AList.update (rt_participant r) (rt_cursor r) obs) rs = Inr (cs', obs')"
    from Cons.IH[OF this distinct_update[OF Cons.prems(2)]] show ?thesis .
  qed
qed simp

lemma merge_facts:
  "merge_cursors d obs = Inr d' \<Longrightarrow>
     (\<forall>p v. map_of d p = Some v \<longrightarrow> map_of d' p = Some v)
     \<and> (\<forall>(p, n)\<in>set obs. \<exists>v\<ge>n. map_of d' p = Some v)
     \<and> set d' \<subseteq> set d \<union> set obs \<and> (distinct (map fst d) \<longrightarrow> distinct (map fst d'))"
proof (induction d obs rule: merge_cursors.induct)
  case (2 d p n rest)
  show ?case
  proof (cases "map_of d p")
    case None
    with 2 have m: "merge_cursors (AList.update p n d) rest = Inr d'" by simp
    note IH = 2(1)[OF None m]
    have "map_of d' p = Some n" using IH by (simp add: update_conv)
    moreover have "map_of d' q = Some v" if "map_of d q = Some v" for q v
    proof -
      have "map_of (AList.update p n d) q = Some v" using that None by (auto simp: update_conv)
      with IH show ?thesis by blast
    qed
    moreover have "set (AList.update p n d) = insert (p, n) (set d)" using None by (simp add: update_new)
    moreover have "distinct (map fst d')" if "distinct (map fst d)"
    proof -
      have "distinct (map fst (AList.update p n d))" using that by (rule distinct_update)
      with IH show ?thesis by blast
    qed
    ultimately show ?thesis using IH by auto
  next
    case (Some v)
    with 2(3) have m: "merge_cursors d rest = Inr d'" "n \<le> v" by (auto simp: not_less)
    note IH = 2(2)[OF Some m(1)]
    with m Some show ?thesis by auto
  qed
qed simp

lemma merge_again: "\<forall>(p, n)\<in>set obs. \<exists>v\<ge>n. map_of d p = Some v \<Longrightarrow> merge_cursors d obs = Inr d"
  by (induction obs) auto

text \<open>What every normalised state satisfies.\<close>

definition cohort_wf :: "cohort \<Rightarrow> bool" where
  "cohort_wf s \<longleftrightarrow> co_required s \<noteq> [] \<and> sorted_set (co_required s) = co_required s \<and> sorted_set (co_roster s) = co_roster s
     \<and> set (co_required s) \<subseteq> set (co_roster s)
     \<and> 0 < co_participantCap s \<and> int (length (co_roster s)) \<le> co_participantCap s
     \<and> 0 < co_roundCap s \<and> 0 \<le> co_rounds s \<and> co_rounds s < co_roundCap s \<and> 0 \<le> co_epoch s
     \<and> list_all (\<lambda>(p, c). p \<in> set (co_roster s) \<and> 0 \<le> c) (co_participantCursors s)
     \<and> distinct (map ct_contributionId (co_contributions s))
     \<and> list_all (position_ok (co_roster s) (co_epoch s) (co_rounds s) (co_roundCap s)) (co_contributions s)
     \<and> (\<forall>c\<in>set (co_contributions s). ct_cursor c \<le> cursor_at (co_participantCursors s) (ct_participant c))
     \<and> distinct (co_evidenceIds s)"

lemma distinct_dedup [simp]: "distinct (dedup xs)"
  by (simp add: dedup_def)

lemma cursor_at_nonneg: "list_all (\<lambda>(p, c). p \<in> R \<and> 0 \<le> c) cs \<Longrightarrow> 0 \<le> cursor_at cs p"
  by (auto simp: cursor_at_def list_all_iff split: option.splits dest: map_of_SomeD)

lemma cohort_normalize_Inr:
  assumes "cohort_normalize sn = Inr s"
  shows "cohort_wf s" and "co_stoppingReason s = sn_stoppingReason sn" and "co_latestSteer s = sn_latestSteer sn"
    and "distinct (map fst (or_empty (sn_participantCursors sn))) \<longrightarrow> distinct (map fst (co_participantCursors s))"
proof -
  define required where "required = sorted_set (or_empty (sn_required sn))"
  define roster where "roster = sorted_set (or_empty (sn_roster sn))"
  define e where "e = (case sn_epoch sn of None \<Rightarrow> 0 | Some e \<Rightarrow> e)"
  define n where "n = (case sn_rounds sn of None \<Rightarrow> 0 | Some n \<Rightarrow> n)"
  define declared where "declared = or_empty (sn_participantCursors sn)"
  note defs = required_def[symmetric] roster_def[symmetric] e_def[symmetric] n_def[symmetric] declared_def[symmetric]
  from assms obtain cs obs merged where h:
      "scan_contributions roster e n (sn_roundCap sn) [] [] (or_empty (sn_contributions sn)) = Inr (cs, obs)"
      "merge_cursors declared obs = Inr merged"
      "s = \<lparr>co_cohortId = sn_cohortId sn, co_missionId = sn_missionId sn, co_taskId = sn_taskId sn,
          co_epoch = e, co_rounds = n, co_roundCap = sn_roundCap sn, co_participantCap = sn_participantCap sn,
          co_required = required, co_roster = roster, co_participantCursors = merged, co_contributions = cs,
          co_stoppingReason = sn_stoppingReason sn, co_evidenceIds = dedup (or_empty (sn_evidenceIds sn)),
          co_latestSteer = sn_latestSteer sn\<rparr>"
      "required \<noteq> []" "set required \<subseteq> set roster" "0 < sn_participantCap sn" "int (length roster) \<le> sn_participantCap sn"
      "0 < sn_roundCap sn" "0 \<le> n" "n < sn_roundCap sn" "0 \<le> e"
      "\<not> list_ex (\<lambda>(p, _). p \<notin> set roster) declared" "\<not> list_ex (\<lambda>(_, c). c < 0) declared"
    unfolding cohort_normalize_def Let_def defs by (auto simp: not_le not_less)
  note F = scan_facts[OF h(1)] and O = scan_observed[OF h(1)] and M = merge_facts[OF h(2)]
  have obs_ok: "p \<in> set roster \<and> 0 \<le> c" if "(p, c) \<in> set obs" for p c
  proof -
    have "distinct (map fst obs)" using scan_distinct[OF h(1)] by simp
    with that have "map_of obs p = Some c" by simp
    with O show ?thesis by simp
  qed
  have cur: "list_all (\<lambda>(p, c). p \<in> set roster \<and> 0 \<le> c) merged"
  proof -
    have "p \<in> set roster \<and> 0 \<le> c" if "(p, c) \<in> set merged" for p c
    proof (cases "(p, c) \<in> set obs")
      case False
      with that M have "(p, c) \<in> set declared" by blast
      with h(12,13) show ?thesis by (force simp: list_ex_iff)
    qed (rule obs_ok)
    then show ?thesis by (auto simp: list_all_iff)
  qed
  have below: "cursor_at obs p \<le> cursor_at merged p" for p
  proof (cases "map_of obs p")
    case None
    then show ?thesis using cursor_at_nonneg[OF cur, of p] by (simp add: cursor_at_def[of obs])
  next
    case (Some v)
    then have "(p, v) \<in> set obs" by (rule map_of_SomeD)
    with M obtain w where "v \<le> w" "map_of merged p = Some w" by blast
    with Some show ?thesis by (simp add: cursor_at_def)
  qed
  have "\<forall>c\<in>set cs. ct_cursor c \<le> cursor_at merged (ct_participant c)"
    using F below by (meson order_trans)
  then show "cohort_wf s"
    using F h cur by (simp add: cohort_wf_def required_def roster_def)
  show "co_stoppingReason s = sn_stoppingReason sn" and "co_latestSteer s = sn_latestSteer sn"
    by (simp_all add: h(3))
  show "distinct (map fst (or_empty (sn_participantCursors sn))) \<longrightarrow> distinct (map fst (co_participantCursors s))"
    using M by (simp add: h(3) declared_def)
qed

section \<open>Histories of a deliberation\<close>

lemma check_replacement_Inr:
  assumes "check_replacement cur nxt = Inr u" and "distinct (map ct_contributionId (co_contributions nxt))"
    and "distinct (map ct_contributionId (co_contributions cur))"
  shows "co_cohortId nxt = co_cohortId cur \<and> co_missionId nxt = co_missionId cur \<and> co_taskId nxt = co_taskId cur
    \<and> co_required nxt = co_required cur \<and> co_roster nxt = co_roster cur \<and> co_participantCap nxt = co_participantCap cur
    \<and> co_roundCap nxt = co_roundCap cur \<and> co_epoch nxt = co_epoch cur \<and> co_rounds cur \<le> co_rounds nxt
    \<and> (\<forall>c\<in>set (co_contributions cur). \<exists>c'\<in>set (co_contributions nxt). same_contribution c' c)
    \<and> (\<forall>(p, c)\<in>set (co_participantCursors cur). c \<le> cursor_at (co_participantCursors nxt) p)"
proof -
  let ?old = "contributions_by_id (co_contributions cur)" and ?new = "contributions_by_id (co_contributions nxt)"
  have R: "co_cohortId nxt = co_cohortId cur" "co_missionId nxt = co_missionId cur" "co_taskId nxt = co_taskId cur"
      "co_required nxt = co_required cur" "co_roster nxt = co_roster cur" "co_participantCap nxt = co_participantCap cur"
      "co_roundCap nxt = co_roundCap cur" "co_epoch nxt = co_epoch cur" "co_rounds cur \<le> co_rounds nxt"
      "list_all (\<lambda>(i, _). map_of ?new i \<noteq> None) ?old"
      "list_all (\<lambda>(i, prior). same_contribution (the (map_of ?new i)) (the (map_of ?old i))) ?old"
      "\<not> list_ex (\<lambda>(p, c). cursor_at (co_participantCursors nxt) p < c) (co_participantCursors cur)"
    using assms(1) unfolding check_replacement_def Let_def raise_if_Inr not_less de_Morgan_disj not_not by blast+
  have "\<exists>c'\<in>set (co_contributions nxt). same_contribution c' c" if c: "c \<in> set (co_contributions cur)" for c
  proof -
    have m: "(ct_contributionId c, c) \<in> set ?old" using c by (simp add: contributions_by_id_def)
    moreover have d: "distinct (map fst ?old)" using assms(3) by (simp add: contributions_by_id_def comp_def rev_map[symmetric])
    ultimately have o: "map_of ?old (ct_contributionId c) = Some c" by simp
    from R(10) m obtain c' where c': "map_of ?new (ct_contributionId c) = Some c'" by (auto simp: list_all_iff)
    then have "c' \<in> set (co_contributions nxt)"
      by (auto simp: contributions_by_id_def dest!: map_of_SomeD)
    moreover have "same_contribution c' c" using R(11) m o c' by (auto simp: list_all_iff)
    ultimately show ?thesis by blast
  qed
  moreover have "\<forall>(p, c)\<in>set (co_participantCursors cur). c \<le> cursor_at (co_participantCursors nxt) p"
    using R(12) by (auto simp: list_ex_iff not_less)
  ultimately show ?thesis using R(1-9) by blast
qed

lemma same_contribution_refl [simp]: "same_contribution c c"
  by (simp add: same_contribution_def)

lemma same_contribution_trans: "same_contribution a b \<Longrightarrow> same_contribution b c \<Longrightarrow> same_contribution a c"
  unfolding same_contribution_def using json_eq_trans by metis

definition epoch_fresh :: "cohort \<Rightarrow> bool" where
  "epoch_fresh s \<longleftrightarrow> (\<forall>c\<in>set (co_contributions s). ct_epoch c < co_epoch s) \<and> co_rounds s = 0 \<and> co_stoppingReason s = None"

definition stop_ok :: "cohort \<Rightarrow> bool" where
  "stop_ok s \<longleftrightarrow> co_stoppingReason s = derived_stopping_reason s \<or> epoch_fresh s"

text \<open>What a step may change.\<close>

definition deliberates :: "cohort \<Rightarrow> cohort \<Rightarrow> bool" where
  "deliberates s s' \<longleftrightarrow> co_cohortId s' = co_cohortId s \<and> co_missionId s' = co_missionId s \<and> co_taskId s' = co_taskId s
     \<and> co_required s' = co_required s \<and> co_roster s' = co_roster s \<and> co_participantCap s' = co_participantCap s
     \<and> co_roundCap s' = co_roundCap s
     \<and> (co_epoch s < co_epoch s' \<or> co_epoch s = co_epoch s' \<and> co_rounds s \<le> co_rounds s')
     \<and> (\<forall>c\<in>set (co_contributions s). \<exists>c'\<in>set (co_contributions s'). same_contribution c' c)
     \<and> (\<forall>p. cursor_at (co_participantCursors s) p \<le> cursor_at (co_participantCursors s') p)"

lemma deliberates_refl: "deliberates s s"
  unfolding deliberates_def using same_contribution_refl by blast

lemma deliberates_trans:
  assumes "deliberates a b" and "deliberates b c"
  shows "deliberates a c"
proof -
  have "\<exists>z\<in>set (co_contributions c). same_contribution z x" if "x \<in> set (co_contributions a)" for x
    using that assms same_contribution_trans unfolding deliberates_def by meson
  moreover have "cursor_at (co_participantCursors a) p \<le> cursor_at (co_participantCursors c) p" for p
    using assms order_trans unfolding deliberates_def by blast
  moreover have "co_epoch a < co_epoch c \<or> co_epoch a = co_epoch c \<and> co_rounds a \<le> co_rounds c"
    using assms unfolding deliberates_def by linarith
  ultimately show ?thesis using assms unfolding deliberates_def by simp
qed

lemma replace_snapshot_facts:
  assumes step: "cohort_replace_snapshot s sn = Inr s'" and wf: "cohort_wf s"
  shows "cohort_wf s' \<and> stop_ok s' \<and> deliberates s s' \<and> co_evidenceIds s' = co_evidenceIds s \<and> co_latestSteer s' = co_latestSteer s"
proof -
  from step obtain nxt where n: "cohort_normalize sn = Inr nxt" "check_replacement s nxt = Inr ()"
      "s' = nxt\<lparr>co_latestSteer := co_latestSteer s, co_evidenceIds := co_evidenceIds s\<rparr>"
      "co_stoppingReason s' = derived_stopping_reason s'"
    unfolding cohort_replace_snapshot_def Let_def by auto
  note W = cohort_normalize_Inr(1)[OF n(1)]
  have C: "check_replacement s nxt = Inr () \<Longrightarrow> deliberates s nxt"
  proof -
    assume c: "check_replacement s nxt = Inr ()"
    have d: "distinct (map ct_contributionId (co_contributions nxt))" "distinct (map ct_contributionId (co_contributions s))"
      using W wf by (simp_all add: cohort_wf_def)
    note K = check_replacement_Inr[OF c d]
    have "cursor_at (co_participantCursors s) p \<le> cursor_at (co_participantCursors nxt) p" for p
    proof (cases "map_of (co_participantCursors s) p")
      case None
      then show ?thesis using cursor_at_nonneg[of "set (co_roster nxt)" "co_participantCursors nxt" p] W
        by (simp add: cohort_wf_def cursor_at_def[of "co_participantCursors s"])
    next
      case (Some v)
      then have "(p, v) \<in> set (co_participantCursors s)" by (rule map_of_SomeD)
      with K Some show ?thesis by (auto simp: cursor_at_def[of "co_participantCursors s"])
    qed
    with K show ?thesis unfolding deliberates_def by simp
  qed
  have "cohort_wf s'" using W wf by (simp add: n(3) cohort_wf_def)
  moreover have "stop_ok s'" using n(4) by (simp add: stop_ok_def)
  moreover have "deliberates s s'" using C[OF n(2)] by (simp add: n(3) deliberates_def)
  ultimately show ?thesis by (simp add: n(3))
qed

lemma cohort_step_facts:
  assumes "cohort_step s a = Inr s'" and "cohort_wf s \<and> stop_ok s"
  shows "(cohort_wf s' \<and> stop_ok s') \<and> deliberates s s'"
proof (cases a)
  case (ReplaceSnapshot sn)
  with assms replace_snapshot_facts[of s sn s'] show ?thesis by simp
next
  case (CohortEvidence e)
  with assms have s': "s' = s\<lparr>co_evidenceIds := add_once e (co_evidenceIds s)\<rparr>" by (simp add: cohort_attach_evidence_def)
  moreover have "derived_stopping_reason s' = derived_stopping_reason s" by (simp add: s' derived_stopping_reason_def Let_def)
  moreover have "deliberates s s'" using deliberates_refl[of s] by (simp add: s' deliberates_def)
  ultimately show ?thesis using assms(2) by (simp add: cohort_wf_def stop_ok_def epoch_fresh_def)
next
  case (Steer d r x t)
  with assms obtain lst where s': "s' = s\<lparr>co_epoch := co_epoch s + 1, co_rounds := 0, co_stoppingReason := None, co_latestSteer := lst\<rparr>"
    by (auto simp: cohort_steer_def)
  have "list_all (position_ok (co_roster s) (co_epoch s + 1) 0 (co_roundCap s)) (co_contributions s)"
    using assms(2) by (auto simp: cohort_wf_def list_all_iff position_ok_def)
  then have "cohort_wf s'" using assms(2) by (simp add: s' cohort_wf_def)
  moreover have "epoch_fresh s'"
    using assms(2) by (auto simp: s' epoch_fresh_def cohort_wf_def list_all_iff position_ok_def)
  moreover have "deliberates s s'" using deliberates_refl[of s] by (simp add: s' deliberates_def)
  ultimately show ?thesis by (simp add: stop_ok_def)
qed

lemma cohort_create_facts: "cohort_create sn = Inr s \<Longrightarrow> cohort_wf s \<and> stop_ok s"
  by (auto simp: cohort_create_def stop_ok_def dest: cohort_normalize_Inr(1))

lemma cohort_reached: "cohort_wf s \<and> stop_ok s \<Longrightarrow> cohort_wf (attempt cohort_step s ops) \<and> stop_ok (attempt cohort_step s ops)"
  by (rule attempt_invariant[where P = "\<lambda>s. cohort_wf s \<and> stop_ok s"]) (use cohort_step_facts in blast)+

lemma cohort_deliberates:
  assumes "cohort_wf s \<and> stop_ok s"
  shows "deliberates s (attempt cohort_step s ops)"
  by (rule attempt_relation[where P = "\<lambda>s. cohort_wf s \<and> stop_ok s" and R = deliberates])
     (use cohort_step_facts deliberates_refl deliberates_trans assms in blast)+


section \<open>Silence as a quorum\<close>

lemma latest_distinct: "distinct (map fst m) \<Longrightarrow> distinct (map fst (fold (\<lambda>c m. AList.update (ct_participant c) c m) cs m))"
proof (induction cs arbitrary: m)
  case (Cons c cs)
  have "distinct (map fst (AList.update (ct_participant c) c m))" by (rule distinct_update) (rule Cons.prems)
  with Cons.IH show ?case by simp
qed simp

lemma latest_last:
  "map_of (fold (\<lambda>c m. AList.update (ct_participant c) c m) cs []) p = Some c \<Longrightarrow>
     \<exists>pre post. cs = pre @ c # post \<and> ct_participant c = p \<and> (\<forall>d\<in>set post. ct_participant d \<noteq> p)"
proof (induction cs rule: rev_induct)
  case (snoc x xs)
  show ?case
  proof (cases "ct_participant x = p")
    case True
    with snoc.prems have "x = c" by (simp add: update_conv)
    with True show ?thesis by (intro exI[of _ xs] exI[of _ "[]"]) simp
  next
    case False
    with snoc.prems have "map_of (fold (\<lambda>c m. AList.update (ct_participant c) c m) xs []) p = Some c" by (simp add: update_conv)
    from snoc.IH[OF this] obtain pre post where "xs = pre @ c # post" "ct_participant c = p" "\<forall>d\<in>set post. ct_participant d \<noteq> p"
      by blast
    with False show ?thesis by (intro exI[of _ pre] exI[of _ "post @ [x]"]) auto
  qed
qed simp

text \<open>The contributions of the current epoch, and of its current round, in the order admitted.\<close>

definition epoch_contributions :: "cohort \<Rightarrow> contribution list" where
  "epoch_contributions s = filter (\<lambda>c. ct_epoch c = co_epoch s) (co_contributions s)"

definition round_contributions :: "cohort \<Rightarrow> contribution list" where
  "round_contributions s = filter (\<lambda>c. ct_round c = co_rounds s) (epoch_contributions s)"

lemma silence_derived:
  assumes "derived_stopping_reason s = Some ''SILENCE_QUORUM''" and "p \<in> set (co_required s)"
  shows "(\<forall>c\<in>set (epoch_contributions s). \<not> open_debt c)
    \<and> (\<exists>pre c post. round_contributions s = pre @ c # post \<and> ct_participant c = p \<and> ct_outcome c = ''PASS''
         \<and> (\<forall>d\<in>set post. ct_participant d \<noteq> p))"
proof -
  let ?l = "latest_in_round (co_rounds s) (epoch_contributions s)"
  have d: "\<not> list_ex open_debt (epoch_contributions s)"
      "set (co_required s) \<subseteq> set (map fst (filter (\<lambda>(_, c). ct_outcome c = ''PASS'') ?l))"
    using assms(1) by (auto simp: derived_stopping_reason_def Let_def epoch_contributions_def split: if_splits)
  from d(2) assms(2) obtain c where c: "(p, c) \<in> set ?l" "ct_outcome c = ''PASS''" by auto
  have "distinct (map fst ?l)" unfolding latest_in_round_def by (rule latest_distinct) simp
  with c(1) have "map_of ?l p = Some c" by simp
  from latest_last[OF this[unfolded latest_in_round_def]] c(2) d(1) show ?thesis
    unfolding round_contributions_def list_ex_iff by blast
qed

text \<open>
  C32. Silence counts only when everybody passed. In any history of a created cohort, if the
  stopping reason is \<open>SILENCE_QUORUM\<close>, then no contribution of the current epoch escalates,
  asks for evidence or dissents materially, and for every required participant the last
  contribution to the current round is a pass.
\<close>

theorem silence_needs_every_required:
  assumes "cohort_create sn = Inr s0" and "s = attempt cohort_step s0 ops"
    and "co_stoppingReason s = Some ''SILENCE_QUORUM''" and "p \<in> set (co_required s)"
  shows "(\<forall>c\<in>set (epoch_contributions s). \<not> open_debt c)
    \<and> (\<exists>pre c post. round_contributions s = pre @ c # post \<and> ct_participant c = p \<and> ct_outcome c = ''PASS''
         \<and> (\<forall>d\<in>set post. ct_participant d \<noteq> p))"
proof -
  have "stop_ok s" unfolding assms(2) using cohort_reached[OF cohort_create_facts[OF assms(1)]] by blast
  then have "derived_stopping_reason s = Some ''SILENCE_QUORUM''" using assms(3) by (simp add: stop_ok_def epoch_fresh_def)
  from silence_derived[OF this assms(4)] show ?thesis .
qed

section \<open>Replay of snapshots\<close>

text \<open>The event's payload: the state itself, read as a snapshot.\<close>

definition raw_of :: "contribution \<Rightarrow> raw_contribution" where
  "raw_of c = \<lparr>rt_contributionId = ct_contributionId c, rt_participant = ct_participant c, rt_epoch = ct_epoch c,
     rt_round = ct_round c, rt_outcome = ct_outcome c, rt_cursor = ct_cursor c,
     rt_sourceSequences = Some (ct_sourceSequences c), rt_material = Some (ct_material c),
     rt_escalation = Some (ct_escalation c)\<rparr>"

definition snapshot_of :: "cohort \<Rightarrow> cohort_snapshot" where
  "snapshot_of s = \<lparr>sn_cohortId = co_cohortId s, sn_missionId = co_missionId s, sn_taskId = co_taskId s,
     sn_epoch = Some (co_epoch s), sn_rounds = Some (co_rounds s), sn_roundCap = co_roundCap s,
     sn_participantCap = co_participantCap s, sn_required = Some (co_required s), sn_roster = Some (co_roster s),
     sn_participantCursors = Some (co_participantCursors s),
     sn_contributions = Some (map raw_of (co_contributions s)), sn_stoppingReason = co_stoppingReason s,
     sn_evidenceIds = Some (co_evidenceIds s), sn_latestSteer = co_latestSteer s\<rparr>"

lemma contribution_of_raw [simp]: "contribution_of (raw_of c) = c"
  by (simp add: contribution_of_def raw_of_def or_empty_def)

lemma raw_of_sel [simp]:
  "rt_contributionId (raw_of c) = ct_contributionId c" "rt_participant (raw_of c) = ct_participant c"
  "rt_epoch (raw_of c) = ct_epoch c" "rt_round (raw_of c) = ct_round c" "rt_cursor (raw_of c) = ct_cursor c"
  by (simp_all add: raw_of_def)

lemma scan_again:
  "scan_contributions roster e n cap seen obs rs = Inr (cs, obs') \<Longrightarrow>
   scan_contributions roster e n cap seen obs (map raw_of cs) = Inr (cs, obs')"
proof (induction rs arbitrary: seen obs cs)
  case (Cons r rs)
  from Cons.prems show ?case
  proof (rule scan_Cons)
    fix cs' assume h: "cs = contribution_of r # cs'" "rt_contributionId r \<notin> set seen"
      "position_ok roster e n cap (contribution_of r)" "cursor_at obs (rt_participant r) \<le> rt_cursor r"
      "scan_contributions roster e n cap (rt_contributionId r # seen) (AList.update (rt_participant r) (rt_cursor r) obs) rs = Inr (cs', obs')"
    from Cons.IH[OF h(5)] h show ?thesis by (simp add: position_ok_def not_less not_le)
  qed
qed simp

lemma normalize_again:
  assumes "cohort_normalize sn = Inr s" and "distinct ev" and "s' = s\<lparr>co_latestSteer := l, co_evidenceIds := ev\<rparr>"
  shows "cohort_normalize (snapshot_of s') = Inr s'"
proof -
  define e where "e = (case sn_epoch sn of None \<Rightarrow> 0 | Some e \<Rightarrow> e)"
  define n where "n = (case sn_rounds sn of None \<Rightarrow> 0 | Some n \<Rightarrow> n)"
  from assms(1) obtain cs obs where h:
      "scan_contributions (co_roster s) (co_epoch s) (co_rounds s) (co_roundCap s) [] [] (or_empty (sn_contributions sn)) = Inr (cs, obs)"
      "merge_cursors (or_empty (sn_participantCursors sn)) obs = Inr (co_participantCursors s)" "co_contributions s = cs"
    unfolding cohort_normalize_def Let_def by auto
  note W = cohort_normalize_Inr(1)[OF assms(1)]
  have "merge_cursors (co_participantCursors s) obs = Inr (co_participantCursors s)"
    using merge_facts[OF h(2)] by (intro merge_again) blast
  moreover have "list_ex (\<lambda>(p, _). p \<notin> set (co_roster s)) (co_participantCursors s) = False"
      "list_ex (\<lambda>(_, c). c < 0) (co_participantCursors s) = False"
    using W by (force simp: cohort_wf_def list_ex_iff list_all_iff)+
  ultimately show ?thesis
    using scan_again[OF h(1)] h(3) W assms(2)
    by (simp add: cohort_normalize_def snapshot_of_def or_empty_def Let_def assms(3) cohort_wf_def dedup_def
        distinct_remdups_id not_le not_less)
qed

lemma derived_ignores_links:
  "derived_stopping_reason (s\<lparr>co_latestSteer := l, co_evidenceIds := ev\<rparr>) = derived_stopping_reason s"
  by (simp add: derived_stopping_reason_def Let_def)

lemma check_ignores_links:
  "check_replacement cur (s\<lparr>co_latestSteer := l, co_evidenceIds := ev\<rparr>) = check_replacement cur s"
  by (simp add: check_replacement_def Let_def)

text \<open>
  Replay accepts what was accepted live: the state a creation or a snapshot replacement
  produced, recorded as the event's snapshot, is rebuilt unchanged by the replay operations
  (also when the evidence the service minted is appended to it).
\<close>

theorem cohort_replay_roundtrip:
  assumes "cohort_create sn0 = Inr s0" and "s = attempt cohort_step s0 ops"
    and "cohort_replace_snapshot s sn = Inr nxt"
  shows "cohort_replay_create (snapshot_of (cohort_attach_evidence s0 e)) = Inr (cohort_attach_evidence s0 e)
    \<and> cohort_replay_replace s (snapshot_of (cohort_attach_evidence nxt e)) = Inr (cohort_attach_evidence nxt e)"
proof
  from assms(1) have c: "cohort_normalize sn0 = Inr s0" "co_epoch s0 = 0" "co_latestSteer s0 = None"
      "co_stoppingReason s0 = derived_stopping_reason s0" "co_evidenceIds s0 = []"
    by (auto simp: cohort_create_def)
  have e0: "cohort_attach_evidence s0 e = s0\<lparr>co_latestSteer := None, co_evidenceIds := [e]\<rparr>"
    using c by (simp add: cohort_attach_evidence_def add_once_def)
  have "cohort_normalize (snapshot_of (cohort_attach_evidence s0 e)) = Inr (cohort_attach_evidence s0 e)"
    by (rule normalize_again[OF c(1) _ e0]) simp
  then show "cohort_replay_create (snapshot_of (cohort_attach_evidence s0 e)) = Inr (cohort_attach_evidence s0 e)"
    using c by (simp add: cohort_replay_create_def e0 derived_ignores_links)
next
  have wf: "cohort_wf s" unfolding assms(2) using cohort_reached[OF cohort_create_facts[OF assms(1)]] by blast
  from assms(3) obtain m where m: "cohort_normalize sn = Inr m" "check_replacement s m = Inr ()"
      "nxt = m\<lparr>co_latestSteer := co_latestSteer s, co_evidenceIds := co_evidenceIds s\<rparr>"
      "co_stoppingReason m = derived_stopping_reason m"
    unfolding cohort_replace_snapshot_def Let_def by (auto simp: derived_ignores_links)
  have e1: "cohort_attach_evidence nxt e = m\<lparr>co_latestSteer := co_latestSteer s, co_evidenceIds := add_once e (co_evidenceIds s)\<rparr>"
    by (simp add: m(3) cohort_attach_evidence_def)
  have "cohort_normalize (snapshot_of (cohort_attach_evidence nxt e)) = Inr (cohort_attach_evidence nxt e)"
    by (rule normalize_again[OF m(1) _ e1]) (use wf in \<open>simp add: cohort_wf_def\<close>)
  moreover have "check_replacement s (cohort_attach_evidence nxt e) = Inr ()"
    "co_latestSteer (cohort_attach_evidence nxt e) = co_latestSteer s"
    "set (co_evidenceIds s) \<subseteq> set (co_evidenceIds (cohort_attach_evidence nxt e))"
    "co_stoppingReason (cohort_attach_evidence nxt e) = derived_stopping_reason (cohort_attach_evidence nxt e)"
    using m(2,4) unfolding e1 derived_ignores_links check_ignores_links by auto
  ultimately show "cohort_replay_replace s (snapshot_of (cohort_attach_evidence nxt e)) = Inr (cohort_attach_evidence nxt e)"
    by (simp add: cohort_replay_replace_def)
qed

section \<open>Witnesses\<close>

definition sample_contribution :: "string \<Rightarrow> string \<Rightarrow> raw_contribution" where
  "sample_contribution i p = \<lparr>rt_contributionId = i, rt_participant = p, rt_epoch = 0, rt_round = 0, rt_outcome = ''PASS'',
     rt_cursor = 3, rt_sourceSequences = None, rt_material = None, rt_escalation = None\<rparr>"

definition sample_cohort :: "raw_contribution list \<Rightarrow> string option \<Rightarrow> cohort_snapshot" where
  "sample_cohort cs stop = \<lparr>sn_cohortId = ''h1'', sn_missionId = ''m1'', sn_taskId = ''t1'', sn_epoch = None, sn_rounds = None,
     sn_roundCap = 3, sn_participantCap = 4, sn_required = Some [''b'', ''a''], sn_roster = Some [''a'', ''b'', ''c''],
     sn_participantCursors = None, sn_contributions = Some cs, sn_stoppingReason = stop,
     sn_evidenceIds = None, sn_latestSteer = None\<rparr>"

definition sample_cohort_ops :: "cohort_op list" where
  "sample_cohort_ops = [CohortEvidence ''e1'',
     ReplaceSnapshot (sample_cohort [sample_contribution ''k1'' ''a''] (Some ''SILENCE_QUORUM'')),
     ReplaceSnapshot (sample_cohort [sample_contribution ''k1'' ''a'', sample_contribution ''k2'' ''b''] (Some ''SILENCE_QUORUM''))]"

definition sample_cohort_start :: cohort where
  "sample_cohort_start = projr (cohort_create (sample_cohort [] None))"

lemma sample_cohort_created: "cohort_create (sample_cohort [] None) = Inr sample_cohort_start"
  unfolding sample_cohort_start_def by code_simp

theorem silence_needs_every_required_witness:
  "let s = attempt cohort_step sample_cohort_start sample_cohort_ops in
     co_stoppingReason s = Some ''SILENCE_QUORUM'' \<and> (\<exists>pre c post. round_contributions s = pre @ c # post \<and> ct_participant c = ''b'')"
proof -
  define s where "s = attempt cohort_step sample_cohort_start sample_cohort_ops"
  have q: "co_stoppingReason s = Some ''SILENCE_QUORUM''" "''b'' \<in> set (co_required s)"
    unfolding s_def by code_simp+
  from silence_needs_every_required[OF sample_cohort_created s_def q] q show ?thesis
    unfolding s_def[symmetric] Let_def by blast
qed


theorem cohort_replay_roundtrip_witness:
  "\<exists>nxt. cohort_replace_snapshot sample_cohort_start (sample_cohort [sample_contribution ''k1'' ''a''] None) = Inr nxt
     \<and> cohort_replay_replace sample_cohort_start (snapshot_of (cohort_attach_evidence nxt ''e1'')) = Inr (cohort_attach_evidence nxt ''e1'')"
proof -
  let ?sn = "sample_cohort [sample_contribution ''k1'' ''a''] None"
  define nxt where "nxt = projr (cohort_replace_snapshot sample_cohort_start ?sn)"
  have n: "cohort_replace_snapshot sample_cohort_start ?sn = Inr nxt" unfolding nxt_def by code_simp
  have s: "sample_cohort_start = attempt cohort_step sample_cohort_start []" by simp
  from cohort_replay_roundtrip[OF sample_cohort_created s n] n show ?thesis by blast
qed

end
