(* ===== verification/Coordination.thy ===== *)
theory Coordination
  imports Capability
begin

text \<open>
  The small aggregates that coordinate bots, people and provenance:
  \<^verbatim>\<open>aggregates/bot.py\<close>, \<^verbatim>\<open>cognitive_candidate.py\<close>, \<^verbatim>\<open>delegate_assignment.py\<close>,
  \<^verbatim>\<open>lab_board.py\<close>, \<^verbatim>\<open>skill_candidate.py\<close>, \<^verbatim>\<open>replay_fork.py\<close> and
  \<^verbatim>\<open>cloudflare_resource_binding.py\<close>. An optional key of a specification is an \<open>option\<close>;
  \<open>actor\<close> is the mapping with the keys \<^verbatim>\<open>actorId\<close> and \<^verbatim>\<open>kind\<close>.
\<close>

definition required_id :: "string \<Rightarrow> string \<Rightarrow> string \<Rightarrow> string res" where
  "required_id pre code i = raise_if (i = []) (ValueError code) (Inr (pre @ i))"

text \<open>\<^verbatim>\<open>bool(x)\<close> of an optional text.\<close>

definition given :: "string option \<Rightarrow> bool" where
  "given x \<longleftrightarrow> x \<noteq> None \<and> x \<noteq> Some []"

section \<open>Bots\<close>

record bot_spec =
  bs_botId :: string
  bs_displayName :: string
  bs_roleKind :: string
  bs_role :: string
  bs_missionId :: "string option"
  bs_modelStrategy :: "dict option"
  bs_cognitionPolicy :: "dict option"
  bs_localityPolicy :: "dict option"
  bs_collaboration :: "dict option"
  bs_authorityTemplateRef :: "string option"
  bs_createdBy :: actor
  bs_createdAt :: string

record bot =
  bo_botId :: string
  bo_displayName :: string
  bo_roleKind :: string
  bo_role :: string
  bo_missionId :: "string option"
  bo_modelStrategy :: dict
  bo_cognitionPolicy :: dict
  bo_localityPolicy :: dict
  bo_collaboration :: dict
  bo_authorityTemplateRef :: "string option"
  bo_createdBy :: actor
  bo_createdAt :: string

definition BOT_OWNED :: "string list" where
  "BOT_OWNED = [''bot.displayName'', ''bot.roleKind'', ''bot.role'', ''bot.missionId'', ''bot.modelStrategy'',
    ''bot.cognitionPolicy'', ''bot.localityPolicy'', ''bot.collaboration'', ''bot.authorityTemplateRef'',
    ''bot.createdBy'', ''bot.createdAt'']"

definition bot_stream_id :: "string \<Rightarrow> string res" where
  "bot_stream_id = required_id ''bot-'' ''BOT_ID_REQUIRED''"

definition bot_create :: "bot_spec \<Rightarrow> bot res" where
  "bot_create spec =
    raise_if (bs_roleKind spec = ''delegate'' \<and> \<not> given (bs_missionId spec)) (AuthorityViolation ''DELEGATE_MISSION_REQUIRED'') (
    Inr \<lparr>bo_botId = bs_botId spec, bo_displayName = bs_displayName spec, bo_roleKind = bs_roleKind spec,
         bo_role = bs_role spec, bo_missionId = bs_missionId spec,
         bo_modelStrategy = or_empty (bs_modelStrategy spec), bo_cognitionPolicy = or_empty (bs_cognitionPolicy spec),
         bo_localityPolicy = or_empty (bs_localityPolicy spec), bo_collaboration = or_empty (bs_collaboration spec),
         bo_authorityTemplateRef = bs_authorityTemplateRef spec,
         bo_createdBy = bs_createdBy spec, bo_createdAt = bs_createdAt spec\<rparr>)"

section \<open>Cognitive candidates\<close>

record cognitive_spec =
  gs_candidateId :: string
  gs_botId :: string
  gs_kind :: string
  gs_content :: string
  gs_sourceRefs :: "json list option"
  gs_provenance :: string
  gs_sensitivity :: string
  gs_confidence :: json
  gs_promotionMode :: string
  gs_state :: "string option"
  gs_proposedBy :: actor
  gs_proposedAt :: string
  gs_decidedBy :: "actor option"
  gs_decidedAt :: "string option"
  gs_decisionReason :: "string option"

record cognitive_candidate =
  cc_candidateId :: string
  cc_botId :: string
  cc_kind :: string
  cc_content :: string
  cc_sourceRefs :: "json list"
  cc_provenance :: string
  cc_sensitivity :: string
  cc_confidence :: json
  cc_promotionMode :: string
  cc_state :: string
  cc_proposedBy :: actor
  cc_proposedAt :: string
  cc_decidedBy :: "actor option"
  cc_decidedAt :: "string option"
  cc_decisionReason :: "string option"

definition COGNITIVE_OWNED :: "string list" where
  "COGNITIVE_OWNED = [''cognitive_candidate.kind'', ''cognitive_candidate.content'', ''cognitive_candidate.sourceRefs'',
    ''cognitive_candidate.provenance'', ''cognitive_candidate.sensitivity'', ''cognitive_candidate.confidence'',
    ''cognitive_candidate.promotionMode'', ''cognitive_candidate.state'', ''cognitive_candidate.proposedBy'',
    ''cognitive_candidate.proposedAt'', ''cognitive_candidate.decidedBy'', ''cognitive_candidate.decidedAt'',
    ''cognitive_candidate.decisionReason'']"

definition cognitive_stream_id :: "string \<Rightarrow> string res" where
  "cognitive_stream_id = required_id ''cognitive_candidate-'' ''COGNITIVE_CANDIDATE_ID_REQUIRED''"

definition cognitive_create :: "cognitive_spec \<Rightarrow> cognitive_candidate res" where
  "cognitive_create spec =
    raise_if (gs_state spec \<noteq> Some ''proposed'') (AuthorityViolation ''COGNITIVE_CANDIDATE_MUST_START_PROPOSED'') (
    raise_if (gs_decidedBy spec \<noteq> None \<or> gs_decidedAt spec \<noteq> None \<or> gs_decisionReason spec \<noteq> None)
      (AuthorityViolation ''COGNITIVE_CANDIDATE_CANNOT_SEED_DECISION'') (
    Inr \<lparr>cc_candidateId = gs_candidateId spec, cc_botId = gs_botId spec, cc_kind = gs_kind spec,
         cc_content = gs_content spec, cc_sourceRefs = or_empty (gs_sourceRefs spec),
         cc_provenance = gs_provenance spec, cc_sensitivity = gs_sensitivity spec, cc_confidence = gs_confidence spec,
         cc_promotionMode = gs_promotionMode spec, cc_state = ''proposed'', cc_proposedBy = gs_proposedBy spec,
         cc_proposedAt = gs_proposedAt spec, cc_decidedBy = None, cc_decidedAt = None, cc_decisionReason = None\<rparr>))"

definition COGNITIVE_TRANSITIONS :: table where
  "COGNITIVE_TRANSITIONS = [(''proposed'', [''promoted'', ''rejected'']), (''promoted'', [''revoked'']),
    (''rejected'', []), (''revoked'', [])]"

definition cognitive_decide :: "cognitive_candidate \<Rightarrow> string \<Rightarrow> actor \<Rightarrow> string \<Rightarrow> string option \<Rightarrow> cognitive_candidate res" where
  "cognitive_decide s decision actor decided_at reason =
    (let actor_kind = ac_kind actor; prior = cc_state s in
     raise_if (actor_kind = ''cognitive_plane'') (AuthorityViolation ''COGNITION_SELF_PROMOTION_FORBIDDEN'') (
     raise_if (actor_kind \<notin> {''human'', ''governance_kernel''}) (AuthorityViolation ''COGNITIVE_DECISION_REQUIRES_AUTHORITY'') (
     raise_if (cc_promotionMode s = ''locked'' \<and> actor_kind \<noteq> ''human'') (AuthorityViolation ''LOCKED_COGNITION_REQUIRES_HUMAN'') (
     case map_of [(''promote'', ''promoted''), (''reject'', ''rejected''), (''revoke'', ''revoked'')] decision of
       None \<Rightarrow> Inl (AuthorityViolation ''COGNITIVE_DECISION_INVALID'')
     | Some target \<Rightarrow>
     raise_if (\<not> allowed COGNITIVE_TRANSITIONS prior target)
       (IllegalTransition (''cognitive candidate '' @ cc_candidateId s) prior target) (
     Inr (s\<lparr>cc_state := target, cc_decidedBy := Some actor, cc_decidedAt := Some decided_at, cc_decisionReason := reason\<rparr>))))))"

section \<open>Delegate assignments\<close>

record delegate_spec =
  ds_assignmentId :: string
  ds_parentBotId :: string
  ds_delegateBotId :: string
  ds_missionId :: string
  ds_taskId :: "string option"
  ds_depth :: int
  ds_state :: "string option"
  ds_createdAt :: string
  ds_expiresAt :: string
  ds_createdBy :: actor
  ds_lastTransitionAt :: string
  ds_transitionReason :: "string option"

record delegate =
  da_assignmentId :: string
  da_parentBotId :: string
  da_delegateBotId :: string
  da_missionId :: string
  da_taskId :: "string option"
  da_depth :: int
  da_state :: string
  da_createdAt :: string
  da_expiresAt :: string
  da_createdBy :: actor
  da_lastTransitionAt :: string
  da_transitionReason :: "string option"

definition DELEGATE_TERMINAL :: "string list" where
  "DELEGATE_TERMINAL = [''completed'', ''revoked'', ''expired'']"

definition DELEGATE_TRANSITIONS :: table where
  "DELEGATE_TRANSITIONS = [(''active'', DELEGATE_TERMINAL), (''completed'', []), (''revoked'', []), (''expired'', [])]"

definition DELEGATE_OWNED :: "string list" where
  "DELEGATE_OWNED = [''delegate_assignment.parentBotId'', ''delegate_assignment.delegateBotId'',
    ''delegate_assignment.missionId'', ''delegate_assignment.taskId'', ''delegate_assignment.depth'',
    ''delegate_assignment.state'', ''delegate_assignment.createdAt'', ''delegate_assignment.expiresAt'',
    ''delegate_assignment.createdBy'', ''delegate_assignment.lastTransitionAt'', ''delegate_assignment.transitionReason'']"

definition delegate_stream_id :: "string \<Rightarrow> string res" where
  "delegate_stream_id = required_id ''delegate_assignment-'' ''DELEGATE_ASSIGNMENT_ID_REQUIRED''"

definition delegate_create :: "delegate_spec \<Rightarrow> delegate res" where
  "delegate_create spec =
    raise_if (ds_state spec \<noteq> Some ''active'') (AuthorityViolation ''DELEGATE_ASSIGNMENT_MUST_START_ACTIVE'') (
    raise_if (ds_expiresAt spec \<le> ds_createdAt spec) (AuthorityViolation ''DELEGATE_EXPIRY_NOT_AFTER_CREATION'') (
    Inr \<lparr>da_assignmentId = ds_assignmentId spec, da_parentBotId = ds_parentBotId spec,
         da_delegateBotId = ds_delegateBotId spec, da_missionId = ds_missionId spec, da_taskId = ds_taskId spec,
         da_depth = ds_depth spec, da_state = ''active'', da_createdAt = ds_createdAt spec,
         da_expiresAt = ds_expiresAt spec, da_createdBy = ds_createdBy spec,
         da_lastTransitionAt = ds_lastTransitionAt spec, da_transitionReason = ds_transitionReason spec\<rparr>))"

definition delegate_transition :: "delegate \<Rightarrow> string \<Rightarrow> actor \<Rightarrow> string option \<Rightarrow> string \<Rightarrow> delegate res" where
  "delegate_transition s to_state actor reason at =
    raise_if (\<not> allowed DELEGATE_TRANSITIONS (da_state s) to_state)
      (IllegalTransition (''delegate assignment '' @ da_assignmentId s) (da_state s) to_state) (
    raise_if (to_state = ''revoked'' \<and> ac_kind actor \<notin> {''human'', ''governance_kernel'', ''system''})
      (AuthorityViolation ''DELEGATE_REVOCATION_REQUIRES_AUTHORITY'') (
    raise_if (to_state = ''expired'' \<and> ac_kind actor \<notin> {''governance_kernel'', ''system''})
      (AuthorityViolation ''DELEGATE_EXPIRY_REQUIRES_SYSTEM'') (
    Inr (s\<lparr>da_state := to_state, da_lastTransitionAt := at, da_transitionReason := reason\<rparr>))))"

section \<open>The lab board\<close>

record lab_spec =
  ls_itemId :: string
  ls_missionId :: "string option"
  ls_title :: string
  ls_state :: string
  ls_ownerRef :: "string option"
  ls_blockerReason :: "string option"
  ls_humanRequest :: "string option"
  ls_evidenceRefs :: "json list option"
  ls_createdBy :: actor
  ls_createdAt :: string
  ls_updatedAt :: string

record lab_item =
  li_itemId :: string
  li_missionId :: "string option"
  li_title :: string
  li_state :: string
  li_ownerRef :: "string option"
  li_blockerReason :: "string option"
  li_humanRequest :: "string option"
  li_evidenceRefs :: "json list"
  li_createdBy :: actor
  li_createdAt :: string
  li_updatedAt :: string

definition LAB_TRANSITIONS :: table where
  "LAB_TRANSITIONS = [
    (''inbox'', [''ready'', ''human_task'', ''blocked_human'', ''done'']),
    (''ready'', [''active'', ''waiting_agent'', ''waiting_human'', ''human_task'', ''blocked_human'', ''done'']),
    (''active'', [''verifying'', ''waiting_agent'', ''waiting_human'', ''human_task'', ''blocked_human'', ''done'']),
    (''verifying'', [''active'', ''waiting_agent'', ''waiting_human'', ''blocked_human'', ''done'']),
    (''waiting_agent'', [''active'', ''ready'', ''blocked_human'', ''done'']),
    (''waiting_human'', [''ready'', ''active'', ''human_task'', ''blocked_human'', ''done'']),
    (''human_task'', [''ready'', ''active'', ''blocked_human'', ''done'']),
    (''blocked_human'', [''ready'', ''active'', ''human_task'', ''done'']),
    (''done'', [])]"

definition LAB_OWNED :: "string list" where
  "LAB_OWNED = [''lab_board.title'', ''lab_board.state'', ''lab_board.ownerRef'', ''lab_board.blockerReason'',
    ''lab_board.humanRequest'', ''lab_board.evidenceRefs'', ''lab_board.createdBy'', ''lab_board.createdAt'',
    ''lab_board.updatedAt'']"

definition lab_stream_id :: "string \<Rightarrow> string res" where
  "lab_stream_id = required_id ''lab_board-'' ''LAB_BOARD_ITEM_ID_REQUIRED''"

definition lab_create :: "lab_spec \<Rightarrow> lab_item res" where
  "lab_create spec =
    raise_if (ls_state spec = ''blocked_human'' \<and> \<not> (given (ls_blockerReason spec) \<or> given (ls_humanRequest spec)))
      (AuthorityViolation ''HUMAN_BLOCKER_REASON_REQUIRED'') (
    Inr \<lparr>li_itemId = ls_itemId spec, li_missionId = ls_missionId spec, li_title = ls_title spec,
         li_state = ls_state spec, li_ownerRef = ls_ownerRef spec, li_blockerReason = ls_blockerReason spec,
         li_humanRequest = ls_humanRequest spec, li_evidenceRefs = or_empty (ls_evidenceRefs spec),
         li_createdBy = ls_createdBy spec, li_createdAt = ls_createdAt spec, li_updatedAt = ls_updatedAt spec\<rparr>)"

definition lab_transition :: "lab_item \<Rightarrow> string \<Rightarrow> actor \<Rightarrow> string option \<Rightarrow> string \<Rightarrow> lab_item res" where
  "lab_transition s to_state actor reason updated_at =
    (let prior = li_state s in
     raise_if (prior = ''blocked_human'' \<and> ac_kind actor \<noteq> ''human'') (AuthorityViolation ''HUMAN_ONLY_BLOCKER'') (
     raise_if (\<not> allowed LAB_TRANSITIONS prior to_state)
       (IllegalTransition (''lab board item '' @ li_itemId s) prior to_state) (
     Inr (s\<lparr>li_state := to_state, li_updatedAt := updated_at,
            li_blockerReason := (if to_state = ''blocked_human'' \<and> given reason then reason else li_blockerReason s)\<rparr>))))"

section \<open>Skill candidates\<close>

record skill_spec =
  ss_skillId :: string
  ss_botId :: string
  ss_name :: string
  ss_sourceKind :: string
  ss_lifecycleState :: "string option"
  ss_requiredAuthority :: "json list option"
  ss_provenanceRefs :: "json list option"
  ss_revision :: int
  ss_createdBy :: actor
  ss_createdAt :: string
  ss_decisionReason :: "string option"

record skill =
  sk_skillId :: string
  sk_botId :: string
  sk_name :: string
  sk_sourceKind :: string
  sk_lifecycleState :: string
  sk_requiredAuthority :: "json list"
  sk_provenanceRefs :: "json list"
  sk_revision :: int
  sk_createdBy :: actor
  sk_createdAt :: string
  sk_decisionReason :: "string option"

definition SKILL_TRANSITIONS :: table where
  "SKILL_TRANSITIONS = [
    (''idea'', [''draft'', ''rejected'']), (''draft'', [''review'', ''rejected'']),
    (''review'', [''sandbox'', ''rejected'']), (''sandbox'', [''test'', ''rejected'']),
    (''test'', [''red_team'', ''rejected'']), (''red_team'', [''shadow'', ''rejected'']),
    (''shadow'', [''approved'', ''rejected'']), (''approved'', [''active'', ''rejected'']),
    (''active'', [''revoked'', ''superseded'']),
    (''rejected'', []), (''revoked'', []), (''superseded'', [])]"

definition FINAL_AUTHORITY_STATES :: "string list" where
  "FINAL_AUTHORITY_STATES = [''approved'', ''active'', ''revoked'', ''superseded'']"

definition SKILL_OWNED :: "string list" where
  "SKILL_OWNED = [''skill_candidate.name'', ''skill_candidate.sourceKind'', ''skill_candidate.lifecycleState'',
    ''skill_candidate.requiredAuthority'', ''skill_candidate.provenanceRefs'', ''skill_candidate.revision'',
    ''skill_candidate.createdBy'', ''skill_candidate.createdAt'', ''skill_candidate.decisionReason'']"

definition skill_stream_id :: "string \<Rightarrow> string res" where
  "skill_stream_id = required_id ''skill_candidate-'' ''SKILL_ID_REQUIRED''"

definition skill_create :: "skill_spec \<Rightarrow> skill res" where
  "skill_create spec =
    raise_if (ss_lifecycleState spec \<noteq> Some ''idea'') (AuthorityViolation ''SKILL_CANDIDATE_MUST_START_IDEA'') (
    raise_if (ss_decisionReason spec \<noteq> None) (AuthorityViolation ''SKILL_CANDIDATE_CANNOT_SEED_DECISION'') (
    Inr \<lparr>sk_skillId = ss_skillId spec, sk_botId = ss_botId spec, sk_name = ss_name spec, sk_sourceKind = ss_sourceKind spec,
         sk_lifecycleState = ''idea'', sk_requiredAuthority = or_empty (ss_requiredAuthority spec),
         sk_provenanceRefs = or_empty (ss_provenanceRefs spec), sk_revision = ss_revision spec,
         sk_createdBy = ss_createdBy spec, sk_createdAt = ss_createdAt spec, sk_decisionReason = None\<rparr>))"

definition skill_transition :: "skill \<Rightarrow> string \<Rightarrow> actor \<Rightarrow> string option \<Rightarrow> skill res" where
  "skill_transition s to_state actor reason =
    (let prior = sk_lifecycleState s in
     raise_if (\<not> allowed SKILL_TRANSITIONS prior to_state)
       (IllegalTransition (''skill candidate '' @ sk_skillId s) prior to_state) (
     raise_if ((prior \<in> set FINAL_AUTHORITY_STATES \<or> to_state \<in> set FINAL_AUTHORITY_STATES)
         \<and> ac_kind actor \<notin> {''human'', ''governance_kernel''})
       (AuthorityViolation ''SKILL_FINAL_PROMOTION_REQUIRES_AUTHORITY'') (
     Inr (s\<lparr>sk_lifecycleState := to_state, sk_decisionReason := reason\<rparr>))))"

section \<open>Replay forks and resource bindings\<close>

record fork_spec =
  fs_forkId :: "string option"
  fs_sourceSequence :: "int option"
  fs_sourceEventId :: "string option"
  fs_sourceStateDigest :: string
  fs_sourceChainDigest :: string
  fs_newMissionId :: "string option"
  fs_reason :: "string option"
  fs_createdBy :: actor
  fs_createdAt :: string
  fs_historicalAuthorityReactivated :: "json option"

record replay_fork =
  rf_forkId :: string
  rf_sourceSequence :: int
  rf_sourceEventId :: "string option"
  rf_sourceStateDigest :: string
  rf_sourceChainDigest :: string
  rf_newMissionId :: string
  rf_reason :: string
  rf_createdBy :: actor
  rf_createdAt :: string
  rf_historicalAuthorityReactivated :: bool
  rf_state :: string

definition FORK_OWNED :: "string list" where
  "FORK_OWNED = [''replay_fork.sourceSequence'', ''replay_fork.sourceEventId'', ''replay_fork.sourceStateDigest'',
    ''replay_fork.sourceChainDigest'', ''replay_fork.reason'', ''replay_fork.createdAt'',
    ''replay_fork.historicalAuthorityReactivated'', ''replay_fork.state'']"

definition fork_stream_id :: "string \<Rightarrow> string" where
  "fork_stream_id fork_id = ''replay_fork-'' @ fork_id"

definition fork_create :: "fork_spec \<Rightarrow> replay_fork res" where
  "fork_create r =
    raise_if (\<not> given (fs_forkId r)) (ValueError ''REPLAY_FORK_ID_REQUIRED'') (
    raise_if ((case fs_sourceSequence r of None \<Rightarrow> -1 | Some n \<Rightarrow> n) < 0) (ValueError ''REPLAY_FORK_SOURCE_SEQUENCE_INVALID'') (
    raise_if (\<not> given (fs_newMissionId r)) (ValueError ''REPLAY_FORK_NEW_MISSION_REQUIRED'') (
    raise_if (py_strip (case fs_reason r of None \<Rightarrow> [] | Some s \<Rightarrow> s) = []) (ValueError ''REPLAY_FORK_REASON_REQUIRED'') (
    raise_if (fs_historicalAuthorityReactivated r \<noteq> Some (JBool False))
      (ValueError ''REPLAY_FORK_CANNOT_REACTIVATE_HISTORICAL_AUTHORITY'') (
    Inr \<lparr>rf_forkId = the (fs_forkId r), rf_sourceSequence = the (fs_sourceSequence r), rf_sourceEventId = fs_sourceEventId r,
         rf_sourceStateDigest = fs_sourceStateDigest r, rf_sourceChainDigest = fs_sourceChainDigest r,
         rf_newMissionId = the (fs_newMissionId r), rf_reason = the (fs_reason r), rf_createdBy = fs_createdBy r,
         rf_createdAt = fs_createdAt r, rf_historicalAuthorityReactivated = False, rf_state = ''created''\<rparr>)))))"

definition BINDING_OWNED :: "string list" where
  "BINDING_OWNED = map (\<lambda>f. ''cloudflare_resource_binding.'' @ f) [''resourceKind'', ''resourceId'', ''resourceName'',
    ''targetAlias'', ''inventoryDigest'', ''proposalDigest'', ''approvalRequestId'', ''state'']"

definition binding_stream_id :: "string \<Rightarrow> string res" where
  "binding_stream_id = required_id ''cloudflare_resource_binding-'' ''CLOUDFLARE_RESOURCE_BINDING_ID_REQUIRED''"

definition binding_create :: "dict \<Rightarrow> dict res" where
  "binding_create b =
    raise_if (dget b ''state'' \<noteq> JStr ''active'') (AuthorityViolation ''CLOUDFLARE_RESOURCE_BINDING_MUST_START_ACTIVE'') (
    raise_if (dlook b ''adopted'' = Some (JBool False)) (AuthorityViolation ''CLOUDFLARE_RESOURCE_BINDING_CANNOT_BE_UNADOPTED'') (
    Inr b))"

section \<open>Lifecycles\<close>

type_synonym governed_op = "string \<times> actor \<times> string option \<times> string"

fun skill_step :: "skill \<Rightarrow> governed_op \<Rightarrow> skill res" where
  "skill_step s (t, a, r, at) = skill_transition s t a r"

fun lab_step :: "lab_item \<Rightarrow> governed_op \<Rightarrow> lab_item res" where
  "lab_step s (t, a, r, at) = lab_transition s t a r at"

fun delegate_step :: "delegate \<Rightarrow> governed_op \<Rightarrow> delegate res" where
  "delegate_step s (t, a, r, at) = delegate_transition s t a r at"

fun cognitive_step :: "cognitive_candidate \<Rightarrow> governed_op \<Rightarrow> cognitive_candidate res" where
  "cognitive_step s (d, a, r, at) = cognitive_decide s d a at r"

lemma skill_step_Inr:
  "skill_step s (t, a, r, at) = Inr s' \<longleftrightarrow> allowed SKILL_TRANSITIONS (sk_lifecycleState s) t
     \<and> (sk_lifecycleState s \<in> set FINAL_AUTHORITY_STATES \<or> t \<in> set FINAL_AUTHORITY_STATES \<longrightarrow> ac_kind a \<in> {''human'', ''governance_kernel''})
     \<and> s' = s\<lparr>sk_lifecycleState := t, sk_decisionReason := r\<rparr>"
  unfolding skill_step.simps skill_transition_def Let_def raise_if_Inr by blast

lemma lab_step_Inr:
  "lab_step s (t, a, r, at) = Inr s' \<longleftrightarrow> allowed LAB_TRANSITIONS (li_state s) t
     \<and> (li_state s = ''blocked_human'' \<longrightarrow> ac_kind a = ''human'')
     \<and> s' = s\<lparr>li_state := t, li_updatedAt := at,
            li_blockerReason := (if t = ''blocked_human'' \<and> given r then r else li_blockerReason s)\<rparr>"
  unfolding lab_step.simps lab_transition_def Let_def raise_if_Inr by blast

lemma delegate_step_Inr:
  "delegate_step s (t, a, r, at) = Inr s' \<longleftrightarrow> allowed DELEGATE_TRANSITIONS (da_state s) t
     \<and> (t = ''revoked'' \<longrightarrow> ac_kind a \<in> {''human'', ''governance_kernel'', ''system''})
     \<and> (t = ''expired'' \<longrightarrow> ac_kind a \<in> {''governance_kernel'', ''system''})
     \<and> s' = s\<lparr>da_state := t, da_lastTransitionAt := at, da_transitionReason := r\<rparr>"
  unfolding delegate_step.simps delegate_transition_def raise_if_Inr by blast

lemma cognitive_step_Inr:
  "cognitive_step s (d, a, r, at) = Inr s' \<longleftrightarrow> ac_kind a \<in> {''human'', ''governance_kernel''}
     \<and> (cc_promotionMode s = ''locked'' \<longrightarrow> ac_kind a = ''human'')
     \<and> (\<exists>t. map_of [(''promote'', ''promoted''), (''reject'', ''rejected''), (''revoke'', ''revoked'')] d = Some t
          \<and> allowed COGNITIVE_TRANSITIONS (cc_state s) t
          \<and> s' = s\<lparr>cc_state := t, cc_decidedBy := Some a, cc_decidedAt := Some at, cc_decisionReason := r\<rparr>)"
proof -
  have "ac_kind a \<in> {''human'', ''governance_kernel''} \<Longrightarrow> ac_kind a \<noteq> ''cognitive_plane''" by auto
  then show ?thesis
    unfolding cognitive_step.simps cognitive_decide_def Let_def raise_if_Inr
    by (cases "map_of [(''promote'', ''promoted''), (''reject'', ''rejected''), (''revoke'', ''revoked'')] d")
       (auto simp del: map_of.simps)
qed

interpretation skill_lc: lifecycle SKILL_TRANSITIONS "[''rejected'', ''revoked'', ''superseded'']" sk_lifecycleState sk_skillId skill_step
proof unfold_locales
  fix x a y assume "skill_step x a = Inr y"
  then show "sk_lifecycleState y = sk_lifecycleState x \<or> allowed SKILL_TRANSITIONS (sk_lifecycleState x) (sk_lifecycleState y)"
    and "sk_skillId y = sk_skillId x"
    by (cases a; simp add: skill_step_Inr del: skill_step.simps)+
qed (auto simp: SKILL_TRANSITIONS_def allowed_def)

interpretation lab_lc: lifecycle LAB_TRANSITIONS "[''done'']" li_state li_itemId lab_step
proof unfold_locales
  fix x a y assume "lab_step x a = Inr y"
  then show "li_state y = li_state x \<or> allowed LAB_TRANSITIONS (li_state x) (li_state y)" and "li_itemId y = li_itemId x"
    by (cases a; simp add: lab_step_Inr del: lab_step.simps)+
qed (simp add: LAB_TRANSITIONS_def allowed_def)

interpretation delegate_lc: lifecycle DELEGATE_TRANSITIONS DELEGATE_TERMINAL da_state da_assignmentId delegate_step
proof unfold_locales
  fix x a y assume "delegate_step x a = Inr y"
  then show "da_state y = da_state x \<or> allowed DELEGATE_TRANSITIONS (da_state x) (da_state y)" and "da_assignmentId y = da_assignmentId x"
    by (cases a; simp add: delegate_step_Inr del: delegate_step.simps)+
qed (auto simp: DELEGATE_TRANSITIONS_def DELEGATE_TERMINAL_def allowed_def)

interpretation cognitive_lc: lifecycle COGNITIVE_TRANSITIONS "[''rejected'', ''revoked'']" cc_state
  "\<lambda>s. (cc_candidateId s, cc_botId s, cc_content s, cc_sourceRefs s, cc_promotionMode s)" cognitive_step
proof unfold_locales
  fix x a y assume c: "cognitive_step x a = Inr y"
  obtain d k r t where a: "a = (d, k, r, t)" by (cases a)
  from c[unfolded a cognitive_step_Inr] obtain u where u: "allowed COGNITIVE_TRANSITIONS (cc_state x) u"
      "y = x\<lparr>cc_state := u, cc_decidedBy := Some k, cc_decidedAt := Some t, cc_decisionReason := r\<rparr>" by blast
  then show "cc_state y = cc_state x \<or> allowed COGNITIVE_TRANSITIONS (cc_state x) (cc_state y)"
    and "(cc_candidateId y, cc_botId y, cc_content y, cc_sourceRefs y, cc_promotionMode y)
       = (cc_candidateId x, cc_botId x, cc_content x, cc_sourceRefs x, cc_promotionMode x)"
    by simp_all
qed (auto simp: COGNITIVE_TRANSITIONS_def allowed_def)

section \<open>The skill pipeline\<close>

definition SKILL_PIPELINE :: "string list" where
  "SKILL_PIPELINE = [''idea'', ''draft'', ''review'', ''sandbox'', ''test'', ''red_team'', ''shadow'', ''approved'', ''active'']"

text \<open>The stages passed to reach a stage of the pipeline, itself included.\<close>

definition stages_to :: "string \<Rightarrow> string list" where
  "stages_to t = tl (takeWhile (\<lambda>x. x \<noteq> t) SKILL_PIPELINE @ [t])"

definition skill_history_ok :: "governed_op list \<Rightarrow> skill \<Rightarrow> bool" where
  "skill_history_ok acc s \<longleftrightarrow> sk_lifecycleState s \<in> set (map fst SKILL_TRANSITIONS)
     \<and> (sk_lifecycleState s \<in> set SKILL_PIPELINE \<longrightarrow> map fst acc = stages_to (sk_lifecycleState s))
     \<and> (\<forall>(t, a, _)\<in>set acc. t \<in> set FINAL_AUTHORITY_STATES \<longrightarrow> ac_kind a \<in> {''human'', ''governance_kernel''})"

lemma skill_moves:
  "allowed SKILL_TRANSITIONS s t \<Longrightarrow> t \<in> set (map fst SKILL_TRANSITIONS)
     \<and> (t \<in> set SKILL_PIPELINE \<longrightarrow> s \<in> set SKILL_PIPELINE \<and> stages_to t = stages_to s @ [t])"
  by (auto simp: SKILL_TRANSITIONS_def SKILL_PIPELINE_def stages_to_def allowed_def split: if_splits)

lemma skill_history_step:
  assumes "skill_history_ok acc s" and "skill_step s x = Inr s'"
  shows "skill_history_ok (acc @ [x]) s'"
proof -
  obtain t a r at where x: "x = (t, a, r, at)" by (cases x)
  from assms(2)[unfolded x skill_step_Inr] have S: "allowed SKILL_TRANSITIONS (sk_lifecycleState s) t"
      "t \<in> set FINAL_AUTHORITY_STATES \<longrightarrow> ac_kind a \<in> {''human'', ''governance_kernel''}"
      "s' = s\<lparr>sk_lifecycleState := t, sk_decisionReason := r\<rparr>" by blast+
  from S(3) have "sk_lifecycleState s' = t" by simp
  with skill_moves[OF S(1)] S(2) assms(1) show ?thesis unfolding skill_history_ok_def x by auto
qed

text \<open>
  C33. A skill goes live only through every gate. Over any attempted transitions of a created
  candidate: if it is active, the accepted transitions were exactly draft, review, sandbox,
  test, red team, shadow, approved, active, in this order, and whoever approved and activated
  it was a human or the governance kernel; a rejected, revoked or superseded one is final.
\<close>

theorem skill_pipeline_complete:
  assumes "skill_create spec = Inr s0" and "s = attempt skill_step s0 ops"
  shows "(sk_lifecycleState s = ''active'' \<longrightarrow> map fst (accepted skill_step s0 ops) = tl SKILL_PIPELINE)
    \<and> ((t, a, r) \<in> set (accepted skill_step s0 ops) \<and> t \<in> set FINAL_AUTHORITY_STATES \<longrightarrow> ac_kind a \<in> {''human'', ''governance_kernel''})
    \<and> (sk_lifecycleState s \<in> {''rejected'', ''revoked'', ''superseded''} \<longrightarrow>
         sk_lifecycleState (attempt skill_step s ops') = sk_lifecycleState s)"
proof -
  have "skill_history_ok (accepted skill_step s0 ops) s"
    unfolding assms(2)
  proof (rule accepted_invariant[where Q = skill_history_ok])
    show "skill_history_ok [] s0"
      using assms(1) by (auto simp: skill_create_def skill_history_ok_def SKILL_TRANSITIONS_def SKILL_PIPELINE_def stages_to_def)
  qed (rule skill_history_step)
  then have H: "sk_lifecycleState s \<in> set SKILL_PIPELINE \<longrightarrow> map fst (accepted skill_step s0 ops) = stages_to (sk_lifecycleState s)"
      "\<forall>(t, a, _)\<in>set (accepted skill_step s0 ops). t \<in> set FINAL_AUTHORITY_STATES \<longrightarrow> ac_kind a \<in> {''human'', ''governance_kernel''}"
    unfolding skill_history_ok_def by blast+
  have "stages_to ''active'' = tl SKILL_PIPELINE" "''active'' \<in> set SKILL_PIPELINE"
    by (simp_all add: stages_to_def SKILL_PIPELINE_def)
  moreover have "sk_lifecycleState s \<in> {''rejected'', ''revoked'', ''superseded''} \<longrightarrow>
         sk_lifecycleState (attempt skill_step s ops') = sk_lifecycleState s"
    using skill_lc.terminal_absorbing[of s ops'] by simp
  ultimately show ?thesis using H by auto
qed

definition governor :: actor where "governor = \<lparr>ac_actorId = ''g1'', ac_kind = ''governance_kernel''\<rparr>"
definition thinker :: actor where "thinker = \<lparr>ac_actorId = ''b1'', ac_kind = ''cognitive_plane''\<rparr>"

definition sample_skill :: skill_spec where
  "sample_skill = \<lparr>ss_skillId = ''k1'', ss_botId = ''b1'', ss_name = ''n'', ss_sourceKind = ''m'', ss_lifecycleState = Some ''idea'',
     ss_requiredAuthority = None, ss_provenanceRefs = None, ss_revision = 1, ss_createdBy = thinker, ss_createdAt = ''t'',
     ss_decisionReason = None\<rparr>"

definition sample_skill_ops :: "governed_op list" where
  "sample_skill_ops = map (\<lambda>t. (t, thinker, None, ''t'')) (tl SKILL_PIPELINE) @
     [(''approved'', governor, None, ''t''), (''active'', governor, None, ''t'')]"

theorem skill_pipeline_complete_witness:
  "let s0 = projr (skill_create sample_skill) in
     sk_lifecycleState (attempt skill_step s0 sample_skill_ops) = ''active''
     \<and> length (accepted skill_step s0 sample_skill_ops) = 8"
proof -
  define s0 where "s0 = projr (skill_create sample_skill)"
  define s where "s = attempt skill_step s0 sample_skill_ops"
  have c: "skill_create sample_skill = Inr s0" unfolding s0_def by code_simp
  have a: "sk_lifecycleState s = ''active''" unfolding s_def s0_def by code_simp
  from skill_pipeline_complete[OF c s_def] a
  have "map fst (accepted skill_step s0 sample_skill_ops) = tl SKILL_PIPELINE" by blast
  then have "length (accepted skill_step s0 sample_skill_ops) = length (tl SKILL_PIPELINE)" by (metis length_map)
  with a show ?thesis by (simp add: s_def s0_def SKILL_PIPELINE_def)
qed

section \<open>Cognition does not promote itself\<close>

definition cognitive_ok :: "governed_op list \<Rightarrow> cognitive_candidate \<Rightarrow> bool" where
  "cognitive_ok acc s \<longleftrightarrow>
     (cc_state s \<noteq> ''proposed'' \<longrightarrow> (\<exists>a. cc_decidedBy s = Some a \<and> ac_kind a \<in> {''human'', ''governance_kernel''}
        \<and> (cc_promotionMode s = ''locked'' \<longrightarrow> ac_kind a = ''human'')))
     \<and> (cc_state s = ''proposed'' \<longrightarrow> acc = [])"

lemma cognitive_ok_step:
  assumes "cognitive_step s x = Inr s'"
  shows "cognitive_ok (acc @ [x]) s'"
proof -
  obtain d a r at where x: "x = (d, a, r, at)" by (cases x)
  from assms[unfolded x cognitive_step_Inr] obtain t where t: "ac_kind a \<in> {''human'', ''governance_kernel''}"
      "cc_promotionMode s = ''locked'' \<longrightarrow> ac_kind a = ''human''" "allowed COGNITIVE_TRANSITIONS (cc_state s) t"
      "s' = s\<lparr>cc_state := t, cc_decidedBy := Some a, cc_decidedAt := Some at, cc_decisionReason := r\<rparr>"
    by blast
  have "t \<noteq> ''proposed''" using t(3) by (auto simp: COGNITIVE_TRANSITIONS_def allowed_def split: if_splits)
  with t show ?thesis by (simp add: cognitive_ok_def)
qed

text \<open>
  C34. Cognition does not promote itself, and only people clear human blockers. A candidate
  that left \<open>proposed\<close> was decided by a human or the governance kernel, a locked one by a
  human; its content and sources are those proposed and a rejected or revoked one is final. A
  lab item leaves \<open>blocked_human\<close> only by a human.
\<close>

theorem cognition_cannot_promote_itself:
  assumes "cognitive_create spec = Inr s0" and "s = attempt cognitive_step s0 ops"
  shows "(cc_state s \<noteq> ''proposed'' \<longrightarrow> (\<exists>a. cc_decidedBy s = Some a \<and> ac_kind a \<in> {''human'', ''governance_kernel''}
        \<and> (gs_promotionMode spec = ''locked'' \<longrightarrow> ac_kind a = ''human'')))
    \<and> cc_content s = gs_content spec \<and> cc_sourceRefs s = or_empty (gs_sourceRefs spec)
    \<and> (cc_state s \<in> {''rejected'', ''revoked''} \<longrightarrow> cc_state (attempt cognitive_step s ops') = cc_state s)
    \<and> (li_state item = ''blocked_human'' \<and> lab_transition item to_state who why at = Inr item' \<longrightarrow> ac_kind who = ''human'')"
proof -
  have c: "cognitive_ok [] s0" "cc_promotionMode s0 = gs_promotionMode spec" "cc_content s0 = gs_content spec"
      "cc_sourceRefs s0 = or_empty (gs_sourceRefs spec)"
    using assms(1) by (auto simp: cognitive_create_def cognitive_ok_def)
  have "cognitive_ok (accepted cognitive_step s0 ops) s"
    unfolding assms(2) by (rule accepted_invariant[where Q = cognitive_ok, OF c(1)]) (rule cognitive_ok_step)
  moreover have "cc_promotionMode s = cc_promotionMode s0 \<and> cc_content s = cc_content s0 \<and> cc_sourceRefs s = cc_sourceRefs s0"
    using cognitive_lc.identity_kept[of s0 ops] assms(2) by simp
  moreover have "cc_state s \<in> {''rejected'', ''revoked''} \<longrightarrow> cc_state (attempt cognitive_step s ops') = cc_state s"
    using cognitive_lc.terminal_absorbing[of s ops'] by simp
  moreover have "li_state item = ''blocked_human'' \<and> lab_transition item to_state who why at = Inr item' \<longrightarrow> ac_kind who = ''human''"
    using lab_step_Inr[of item to_state who why at item'] by simp
  ultimately show ?thesis using c by (simp add: cognitive_ok_def)
qed

definition sample_candidate :: cognitive_spec where
  "sample_candidate = \<lparr>gs_candidateId = ''c1'', gs_botId = ''b1'', gs_kind = ''k'', gs_content = ''x'', gs_sourceRefs = None,
     gs_provenance = ''p'', gs_sensitivity = ''s'', gs_confidence = JInt 1, gs_promotionMode = ''locked'', gs_state = Some ''proposed'',
     gs_proposedBy = thinker, gs_proposedAt = ''t'', gs_decidedBy = None, gs_decidedAt = None, gs_decisionReason = None\<rparr>"

definition sample_decisions :: "governed_op list" where
  "sample_decisions = [(''promote'', thinker, None, ''t''), (''promote'', governor, None, ''t''),
     (''promote'', \<lparr>ac_actorId = ''h1'', ac_kind = ''human''\<rparr>, None, ''t'')]"

theorem cognition_cannot_promote_itself_witness:
  "let s = attempt cognitive_step (projr (cognitive_create sample_candidate)) sample_decisions in
     cc_state s = ''promoted'' \<and> (\<exists>a. cc_decidedBy s = Some a \<and> ac_kind a = ''human'')"
proof -
  define s0 where "s0 = projr (cognitive_create sample_candidate)"
  define s where "s = attempt cognitive_step s0 sample_decisions"
  have c: "cognitive_create sample_candidate = Inr s0" unfolding s0_def by code_simp
  have p: "cc_state s = ''promoted''" unfolding s_def s0_def by code_simp
  have "gs_promotionMode sample_candidate = ''locked''" by (simp add: sample_candidate_def)
  with cognition_cannot_promote_itself[OF c s_def, THEN conjunct1] p
  have "\<exists>a. cc_decidedBy s = Some a \<and> ac_kind a = ''human''" by auto
  with p show ?thesis unfolding s_def s0_def Let_def by blast
qed

end
