(* ===== verification/Store.thy ===== *)
theory Store
  imports Json
begin

text \<open>
  \<^verbatim>\<open>capt_runtime/store.py\<close>: the SQLite event store, as the record of its tables. A statement
  of a transaction changes the record as it is executed; an exception rolls the whole
  transaction back (\<open>transaction\<close>), so what is left after an error is a theorem and not a
  convention of the model. Values are kept decoded: sealing at rest is a parameter that
  drops out, since what is opened is what was sealed. Payloads, aggregate states and
  checkpoint manifests are type parameters.
\<close>

section \<open>Tables\<close>

record 'p envelope =
  ev_eventId :: string
  ev_streamId :: string
  ev_streamVersion :: int
  ev_globalSequence :: int
  ev_eventType :: string
  ev_schemaVersion :: string
  ev_payload :: 'p
  ev_payloadDigest :: string
  ev_occurredAt :: string
  ev_rest :: dict

text \<open>\<open>er_envelope\<close> is \<open>None\<close> between the insertion of the row and the update that fills it.\<close>

record 'p event_row =
  er_sequence :: int
  er_event_id :: string
  er_stream_id :: string
  er_stream_version :: int
  er_event_type :: string
  er_schema_version :: string
  er_envelope :: "'p envelope option"
  er_payload_digest :: string
  er_chain_digest :: string

record 's agg_row =
  ar_kind :: string
  ar_version :: int
  ar_state :: 's
  ar_state_digest :: string

record outbox_row =
  ob_event_id :: string
  ob_sequence :: int
  ob_status :: string
  ob_attempts :: int

record command_result =
  cr_commandId :: string
  cr_status :: string
  cr_replayed :: bool
  cr_eventIds :: "string list"
  cr_globalSequences :: "int list"
  cr_streamVersions :: "(string \<times> int) list"

record idem_row =
  ir_fingerprint :: string
  ir_command_id :: string
  ir_result :: command_result
  ir_sequence :: "int option"

record 'm checkpoint_row =
  kr_manifest :: 'm
  kr_integrity :: string
  kr_sequence :: int

text \<open>A council receipt, less the keys that hold constants (schema version, durability, no replay).\<close>

record council_receipt =
  un_councilId :: string
  un_submissionDigest :: string
  un_commandId :: string
  un_state :: string
  un_createdAt :: string
  un_updatedAt :: string
  un_cohorts :: "dict list"
  un_complete :: bool

record council_row =
  ur_submission_digest :: string
  ur_command_id :: string
  ur_receipt :: council_receipt

record rejection_row =
  jr_rejection_id :: string
  jr_timestamp :: string
  jr_kind :: string
  jr_source_ip :: "string option"
  jr_actor_id :: "string option"
  jr_details :: dict

text \<open>The database; \<open>db_autoinc\<close> is the sequence SQLite keeps for \<^verbatim>\<open>AUTOINCREMENT\<close>.\<close>

record ('p, 's, 'm) db =
  db_events :: "'p event_row list"
  db_autoinc :: int
  db_aggregates :: "(string \<times> 's agg_row) list"
  db_outbox :: "outbox_row list"
  db_idempotency :: "(string \<times> idem_row) list"
  db_checkpoints :: "(string \<times> 'm checkpoint_row) list"
  db_rejections :: "rejection_row list"
  db_diagnostics :: "(string \<times> dict) list"
  db_council :: "(string \<times> council_row) list"

definition empty_db :: "('p, 's, 'm) db" where
  "empty_db = \<lparr>db_events = [], db_autoinc = 0, db_aggregates = [], db_outbox = [], db_idempotency = [],
     db_checkpoints = [], db_rejections = [], db_diagnostics = [], db_council = []\<rparr>"

text \<open>What the store computes with: SHA-256, the content digests of payloads and states, the contract.\<close>

record ('p, 's) hashing =
  hs_sha :: "string \<Rightarrow> string"
  hs_payload :: "'p \<Rightarrow> string"
  hs_state :: "'s \<Rightarrow> string"
  hs_validate :: "'p envelope \<Rightarrow> string list"

definition GENESIS_CHAIN :: string where
  "GENESIS_CHAIN = ''sha256:'' @ replicate 64 (CHR ''0'')"

definition chain_next :: "(string \<Rightarrow> string) \<Rightarrow> string \<Rightarrow> string \<Rightarrow> string \<Rightarrow> string" where
  "chain_next sha previous payload_digest event_id =
     ''sha256:'' @ sha (previous @ ''|'' @ payload_digest @ ''|'' @ event_id)"

section \<open>Transactions\<close>

type_synonym ('d, 'a) stmt = "'d \<Rightarrow> 'd \<times> 'a res"

definition sret :: "'a \<Rightarrow> ('d, 'a) stmt" where
  "sret x d = (d, Inr x)"

definition sraise :: "py_error \<Rightarrow> ('d, 'a) stmt" where
  "sraise e d = (d, Inl e)"

definition sthen :: "('d, 'a) stmt \<Rightarrow> ('a \<Rightarrow> ('d, 'b) stmt) \<Rightarrow> ('d, 'b) stmt" where
  "sthen m f d = (case m d of (d', Inl e) \<Rightarrow> (d', Inl e) | (d', Inr x) \<Rightarrow> f x d')"

text \<open>\<^verbatim>\<open>BEGIN IMMEDIATE\<close>, the body, then \<^verbatim>\<open>COMMIT\<close>, or \<^verbatim>\<open>ROLLBACK\<close> and the exception again.\<close>

definition transaction :: "('d, 'a) stmt \<Rightarrow> ('d, 'a) stmt" where
  "transaction body d = (case body d of (d', Inl e) \<Rightarrow> (d, Inl e) | (d', Inr x) \<Rightarrow> (d', Inr x))"

lemma sthen_simps [simp]:
  "m d = (d', Inl e) \<Longrightarrow> sthen m f d = (d', Inl e)"
  "m d = (d', Inr x) \<Longrightarrow> sthen m f d = f x d'"
  by (simp_all add: sthen_def)

lemma transaction_rollback: "transaction body d = (d', Inl e) \<Longrightarrow> d' = d"
  by (auto simp: transaction_def split: prod.splits sum.splits)

lemma transaction_commit: "transaction body d = (d', Inr x) \<longleftrightarrow> body d = (d', Inr x)"
  by (auto simp: transaction_def split: prod.splits sum.splits)

section \<open>Reads\<close>

definition aggregate_version :: "('p, 's, 'm) db \<Rightarrow> string \<Rightarrow> int" where
  "aggregate_version d stream = (case map_of (db_aggregates d) stream of None \<Rightarrow> 0 | Some r \<Rightarrow> ar_version r)"

definition load_state :: "('p, 's, 'm) db \<Rightarrow> string \<Rightarrow> 's option" where
  "load_state d stream = map_option ar_state (map_of (db_aggregates d) stream)"

definition require_state :: "('p, 's, 'm) db \<Rightarrow> string \<Rightarrow> 's res" where
  "require_state d stream = (case load_state d stream of
     None \<Rightarrow> Inl (NotFound (''no aggregate at stream '' @ stream)) | Some s \<Rightarrow> Inr s)"

text \<open>\<^verbatim>\<open>ORDER BY global_sequence\<close>; the rows come from an \<^verbatim>\<open>AUTOINCREMENT\<close> key.\<close>

definition event_rows :: "('p, 's, 'm) db \<Rightarrow> 'p event_row list" where
  "event_rows d = sort_key er_sequence (db_events d)"

definition head_sequence :: "('p, 's, 'm) db \<Rightarrow> int" where
  "head_sequence d = (if db_events d = [] then 0 else Max (er_sequence ` set (db_events d)))"

definition head_chain :: "('p, 's, 'm) db \<Rightarrow> string" where
  "head_chain d = (if db_events d = [] then GENESIS_CHAIN else er_chain_digest (last (event_rows d)))"

definition opened :: "'p event_row list \<Rightarrow> 'p envelope list" where
  "opened rows = map (\<lambda>r. the (er_envelope r)) rows"

definition read_events :: "('p, 's, 'm) db \<Rightarrow> int \<Rightarrow> 'p envelope list" where
  "read_events d after = opened (filter (\<lambda>r. er_sequence r > after) (event_rows d))"

definition read_recent_events :: "('p, 's, 'm) db \<Rightarrow> int \<Rightarrow> int \<Rightarrow> 'p envelope list" where
  "read_recent_events d after limit =
     (let bounded = nat (max 0 limit) in
      if bounded = 0 then []
      else rev (opened (take bounded (rev (filter (\<lambda>r. er_sequence r > after) (event_rows d))))))"

definition read_stream :: "('p, 's, 'm) db \<Rightarrow> string \<Rightarrow> 'p envelope list" where
  "read_stream d stream = opened (sort_key er_stream_version (filter (\<lambda>r. er_stream_id r = stream) (db_events d)))"

definition all_aggregates :: "('p, 's, 'm) db \<Rightarrow> (string \<times> string \<times> int) list" where
  "all_aggregates d = sort_key fst (map (\<lambda>(i, r). (i, ar_kind r, ar_version r)) (db_aggregates d))"

definition pending_outbox :: "('p, 's, 'm) db \<Rightarrow> string list" where
  "pending_outbox d = map ob_event_id (sort_key ob_sequence (filter (\<lambda>b. ob_status b = ''pending'') (db_outbox d)))"

definition idempotent_result :: "('p, 's, 'm) db \<Rightarrow> string \<Rightarrow> command_result option" where
  "idempotent_result d key = map_option ir_result (map_of (db_idempotency d) key)"

section \<open>The write path\<close>

record ('p, 's) append_request =
  rq_stream_id :: string
  rq_kind :: string
  rq_expected_version :: int
  rq_envelope :: "'p envelope"
  rq_state :: 's

text \<open>\<^verbatim>\<open>INSERT INTO events\<close>, with the two \<^verbatim>\<open>UNIQUE\<close> constraints; the envelope and chain come later.\<close>

definition insert_event :: "'p envelope \<Rightarrow> string \<Rightarrow> int \<Rightarrow> (('p, 's, 'm) db, int) stmt" where
  "insert_event env stream next_version d =
    (if list_ex (\<lambda>r. er_event_id r = ev_eventId env) (db_events d)
     then (d, Inl (SqlIntegrityError ''UNIQUE constraint failed: events.event_id''))
     else if list_ex (\<lambda>r. er_stream_id r = stream \<and> er_stream_version r = next_version) (db_events d)
     then (d, Inl (SqlIntegrityError ''UNIQUE constraint failed: events.stream_id, events.stream_version''))
     else let n = db_autoinc d + 1 in
       (d\<lparr>db_autoinc := n, db_events := db_events d @ [\<lparr>er_sequence = n, er_event_id = ev_eventId env,
          er_stream_id = stream, er_stream_version = next_version, er_event_type = ev_eventType env,
          er_schema_version = ev_schemaVersion env, er_envelope = None,
          er_payload_digest = ev_payloadDigest env, er_chain_digest = []\<rparr>]\<rparr>, Inr n))"

definition update_event :: "int \<Rightarrow> 'p envelope \<Rightarrow> string \<Rightarrow> (('p, 's, 'm) db, unit) stmt" where
  "update_event n env chain d =
    (d\<lparr>db_events := map (\<lambda>r. if er_sequence r = n then r\<lparr>er_envelope := Some env, er_chain_digest := chain\<rparr> else r) (db_events d)\<rparr>,
     Inr ())"

text \<open>\<^verbatim>\<open>INSERT ... ON CONFLICT DO UPDATE\<close>: on conflict the kind of the first insertion stays.\<close>

definition upsert_aggregate :: "string \<Rightarrow> string \<Rightarrow> int \<Rightarrow> 's \<Rightarrow> string \<Rightarrow> (('p, 's, 'm) db, unit) stmt" where
  "upsert_aggregate stream kind version state state_digest d =
    (d\<lparr>db_aggregates := AList.update stream (case map_of (db_aggregates d) stream of
         None \<Rightarrow> \<lparr>ar_kind = kind, ar_version = version, ar_state = state, ar_state_digest = state_digest\<rparr>
       | Some r \<Rightarrow> r\<lparr>ar_version := version, ar_state := state, ar_state_digest := state_digest\<rparr>) (db_aggregates d)\<rparr>, Inr ())"

definition insert_outbox :: "string \<Rightarrow> int \<Rightarrow> (('p, 's, 'm) db, unit) stmt" where
  "insert_outbox event_id n d =
    (if list_ex (\<lambda>b. ob_event_id b = event_id) (db_outbox d)
     then (d, Inl (SqlIntegrityError ''UNIQUE constraint failed: outbox.event_id''))
     else (d\<lparr>db_outbox := db_outbox d @ [\<lparr>ob_event_id = event_id, ob_sequence = n, ob_status = ''pending'', ob_attempts = 0\<rparr>]\<rparr>, Inr ()))"

text \<open>The rest of the loop body, once the row has its sequence number.\<close>

definition append_tail :: "('p, 's) hashing \<Rightarrow> ('p, 's) append_request \<Rightarrow> string \<Rightarrow> int \<Rightarrow> 'p envelope \<Rightarrow> int \<Rightarrow>
    (('p, 's, 'm) db, string \<times> 'p envelope) stmt" where
  "append_tail H a chain next_version env0 n =
    (let env = env0\<lparr>ev_globalSequence := n\<rparr>; chain' = chain_next (hs_sha H) chain (ev_payloadDigest env) (ev_eventId env) in
     if hs_validate H env \<noteq> [] then sraise (ContractViolation ''EventEnvelope'' (hs_validate H env))
     else
       sthen (update_event n env chain') (\<lambda>_.
       sthen (upsert_aggregate (rq_stream_id a) (rq_kind a) next_version (rq_state a) (hs_state H (rq_state a))) (\<lambda>_.
       sthen (insert_outbox (ev_eventId env) n) (\<lambda>_.
       sret (chain', env)))))"

definition append_one :: "('p, 's) hashing \<Rightarrow> ('p, 's) append_request \<Rightarrow> string \<Rightarrow>
    (('p, 's, 'm) db, string \<times> 'p envelope) stmt" where
  "append_one H a chain d =
    (let actual = aggregate_version d (rq_stream_id a); next_version = actual + 1;
         env0 = (rq_envelope a)\<lparr>ev_streamVersion := next_version, ev_payloadDigest := hs_payload H (ev_payload (rq_envelope a))\<rparr> in
     if actual \<noteq> rq_expected_version a
     then (d, Inl (ConcurrencyConflict (rq_stream_id a) (rq_expected_version a) actual))
     else sthen (insert_event env0 (rq_stream_id a) next_version) (append_tail H a chain next_version env0) d)"

fun append_all :: "('p, 's) hashing \<Rightarrow> ('p, 's) append_request list \<Rightarrow> string \<Rightarrow>
    (('p, 's, 'm) db, 'p envelope list) stmt" where
  "append_all H [] chain d = (d, Inr [])"
| "append_all H (a # as) chain d =
     sthen (append_one H a chain) (\<lambda>(chain', env).
     sthen (append_all H as chain') (\<lambda>written. sret (env # written))) d"

text \<open>The recorded outcome of a key, or a conflict when its fingerprint differs.\<close>

definition replayed_result :: "idem_row \<Rightarrow> string \<Rightarrow> string \<Rightarrow> command_result res" where
  "replayed_result prior key fingerprint =
    (if ir_fingerprint prior \<noteq> fingerprint
     then Inl (IdempotencyConflict (''idempotency key '' @ key @ '' reused with a different operation fingerprint''))
     else Inr ((ir_result prior)\<lparr>cr_status := ''idempotent'', cr_replayed := True\<rparr>))"

definition result_of :: "string \<Rightarrow> 'p envelope list \<Rightarrow> command_result" where
  "result_of command_id written = \<lparr>cr_commandId = command_id, cr_status = ''applied'', cr_replayed = False,
     cr_eventIds = map ev_eventId written, cr_globalSequences = map ev_globalSequence written,
     cr_streamVersions = map (\<lambda>e. (ev_streamId e, ev_streamVersion e)) written\<rparr>"

definition insert_idempotency :: "string \<Rightarrow> idem_row \<Rightarrow> (('p, 's, 'm) db, unit) stmt" where
  "insert_idempotency key row d =
    (if map_of (db_idempotency d) key \<noteq> None
     then (d, Inl (SqlIntegrityError ''UNIQUE constraint failed: idempotency.idempotency_key''))
     else (d\<lparr>db_idempotency := db_idempotency d @ [(key, row)]\<rparr>, Inr ()))"

definition commit_body :: "('p, 's) hashing \<Rightarrow> ('p, 's) append_request list \<Rightarrow> string \<Rightarrow> string \<Rightarrow> string \<Rightarrow>
    (('p, 's, 'm) db, command_result) stmt" where
  "commit_body H appends key fingerprint command_id d =
    (case map_of (db_idempotency d) key of
       Some again \<Rightarrow> (d, replayed_result again key fingerprint)
     | None \<Rightarrow>
       sthen (append_all H appends (head_chain d)) (\<lambda>written.
       let result = result_of command_id written in
       sthen (insert_idempotency key \<lparr>ir_fingerprint = fingerprint, ir_command_id = command_id, ir_result = result,
           ir_sequence = (if written = [] then None else Some (ev_globalSequence (last written)))\<rparr>) (\<lambda>_.
       sret result)) d)"

definition commit_command :: "('p, 's) hashing \<Rightarrow> ('p, 's) append_request list \<Rightarrow> string \<Rightarrow> string \<Rightarrow> string \<Rightarrow>
    (('p, 's, 'm) db, command_result) stmt" where
  "commit_command H appends key fingerprint command_id d =
    (case map_of (db_idempotency d) key of
       Some prior \<Rightarrow> (d, replayed_result prior key fingerprint)
     | None \<Rightarrow> transaction (commit_body H appends key fingerprint command_id) d)"

definition claim_command :: "string \<Rightarrow> string \<Rightarrow> string \<Rightarrow> (('p, 's, 'm) db, command_result) stmt" where
  "claim_command key fingerprint command_id = transaction (\<lambda>d.
    (case map_of (db_idempotency d) key of
       Some prior \<Rightarrow>
         (if ir_fingerprint prior \<noteq> fingerprint
          then (d, Inl (IdempotencyConflict (''idempotency key '' @ key @ '' reused with a different operation fingerprint'')))
          else (d, Inr ((ir_result prior)\<lparr>
             cr_status := (if cr_status (ir_result prior) \<noteq> ''in_progress'' then ''idempotent'' else ''in_progress''),
             cr_replayed := True\<rparr>)))
     | None \<Rightarrow>
         let result = \<lparr>cr_commandId = command_id, cr_status = ''in_progress'', cr_replayed = False,
               cr_eventIds = [], cr_globalSequences = [], cr_streamVersions = []\<rparr> in
         sthen (insert_idempotency key \<lparr>ir_fingerprint = fingerprint, ir_command_id = command_id,
             ir_result = result, ir_sequence = None\<rparr>) (\<lambda>_. sret result) d))"

definition complete_claimed_command :: "string \<Rightarrow> string \<Rightarrow> command_result \<Rightarrow> (('p, 's, 'm) db, unit) stmt" where
  "complete_claimed_command key fingerprint result = transaction (\<lambda>d.
    (case map_of (db_idempotency d) key of
       None \<Rightarrow> (d, Inl (IdempotencyConflict ''cannot complete an unowned command admission''))
     | Some prior \<Rightarrow>
         if ir_fingerprint prior \<noteq> fingerprint
         then (d, Inl (IdempotencyConflict ''cannot complete an unowned command admission''))
         else (d\<lparr>db_idempotency := AList.update key (prior\<lparr>ir_result := result\<rparr>) (db_idempotency d)\<rparr>, Inr ())))"

section \<open>Integrity\<close>

text \<open>The loop of \<^verbatim>\<open>verify_chain\<close>: the chain so far and the last version seen of each stream.\<close>

fun verify_rows :: "('p, 's) hashing \<Rightarrow> string \<Rightarrow> (string \<times> int) list \<Rightarrow> 'p event_row list \<Rightarrow> string res" where
  "verify_rows H chain seen [] = Inr chain"
| "verify_rows H chain seen (r # rs) = (case er_envelope r of
     None \<Rightarrow> Inl (ValueError ''Expecting value'')
   | Some env \<Rightarrow>
     let chain' = chain_next (hs_sha H) chain (er_payload_digest r) (er_event_id r);
         previous = (case map_of seen (er_stream_id r) of None \<Rightarrow> 0 | Some v \<Rightarrow> v) in
     raise_if (hs_payload H (ev_payload env) \<noteq> er_payload_digest r)
       (IntegrityViolation (''payload digest mismatch at event '' @ er_event_id r)) (
     raise_if (chain' \<noteq> er_chain_digest r)
       (IntegrityViolation (''ledger chain broken at global_sequence '' @ str_int (er_sequence r))) (
     raise_if (er_stream_version r \<noteq> previous + 1)
       (IntegrityViolation (''stream '' @ er_stream_id r @ '' versions not monotonic: '' @ str_int (er_stream_version r)
          @ '' follows '' @ str_int previous)) (
     verify_rows H chain' (AList.update (er_stream_id r) (er_stream_version r) seen) rs))))"

definition verify_chain :: "('p, 's) hashing \<Rightarrow> ('p, 's, 'm) db \<Rightarrow> string res" where
  "verify_chain H d = verify_rows H GENESIS_CHAIN [] (event_rows d)"

section \<open>Dispatch after commit\<close>

text \<open>A subscriber acts on the world and may fail; the next one is not called then.\<close>

type_synonym ('p, 'w) handler = "'p envelope \<Rightarrow> 'w \<Rightarrow> 'w \<times> unit res"

fun deliver :: "('p, 'w) handler list \<Rightarrow> 'p envelope \<Rightarrow> 'w \<Rightarrow> 'w \<times> unit res" where
  "deliver [] env w = (w, Inr ())"
| "deliver (h # hs) env w = (case h env w of (w', Inl e) \<Rightarrow> (w', Inl e) | (w', Inr _) \<Rightarrow> deliver hs env w')"

definition mark_dispatched :: "string \<Rightarrow> ('p, 's, 'm) db \<Rightarrow> ('p, 's, 'm) db" where
  "mark_dispatched event_id d = d\<lparr>db_outbox := map (\<lambda>b. if ob_event_id b = event_id
     then b\<lparr>ob_status := ''dispatched'', ob_attempts := ob_attempts b + 1\<rparr> else b) (db_outbox d)\<rparr>"

fun dispatch_ids :: "('p, 'w) handler list \<Rightarrow> string list \<Rightarrow> ('p, 's, 'm) db \<Rightarrow> 'w \<Rightarrow> int \<Rightarrow> ('p, 's, 'm) db \<times> 'w \<times> int res" where
  "dispatch_ids hs [] d w delivered = (d, w, Inr delivered)"
| "dispatch_ids hs (i # is) d w delivered = (case find (\<lambda>r. er_event_id r = i) (db_events d) of
     None \<Rightarrow> (d, w, Inl (IntegrityViolation (''outbox references event '' @ i @ '' with no ledger row'')))
   | Some r \<Rightarrow> (case er_envelope r of
       None \<Rightarrow> (d, w, Inl (ValueError ''Expecting value''))
     | Some env \<Rightarrow> (case deliver hs env w of
         (w', Inl e) \<Rightarrow> (d, w', Inl e)
       | (w', Inr _) \<Rightarrow> dispatch_ids hs is (mark_dispatched i d) w' (delivered + 1))))"

definition dispatch :: "('p, 'w) handler list \<Rightarrow> ('p, 's, 'm) db \<Rightarrow> 'w \<Rightarrow> ('p, 's, 'm) db \<times> 'w \<times> int res" where
  "dispatch hs d w = dispatch_ids hs (pending_outbox d) d w 0"

section \<open>Checkpoints\<close>

text \<open>\<^verbatim>\<open>INSERT OR REPLACE\<close> removes the row of the same key and adds one with a new \<^verbatim>\<open>rowid\<close>.\<close>

definition save_checkpoint :: "string \<Rightarrow> 'm \<Rightarrow> string \<Rightarrow> int \<Rightarrow> (('p, 's, 'm) db, unit) stmt" where
  "save_checkpoint i manifest integrity n = transaction (\<lambda>d.
     (d\<lparr>db_checkpoints := filter (\<lambda>(k, _). k \<noteq> i) (db_checkpoints d)
          @ [(i, \<lparr>kr_manifest = manifest, kr_integrity = integrity, kr_sequence = n\<rparr>)]\<rparr>, Inr ()))"

definition load_checkpoint :: "('p, 's, 'm) db \<Rightarrow> string \<Rightarrow> 'm res" where
  "load_checkpoint d i = (case map_of (db_checkpoints d) i of
     None \<Rightarrow> Inl (NotFound (''no checkpoint '' @ i)) | Some r \<Rightarrow> Inr (kr_manifest r))"

text \<open>\<^verbatim>\<open>ORDER BY global_sequence DESC, rowid DESC\<close>.\<close>

definition checkpoints_newest_first :: "('p, 's, 'm) db \<Rightarrow> (string \<times> 'm checkpoint_row) list" where
  "checkpoints_newest_first d = rev (sort_key (\<lambda>(_, r). kr_sequence r) (db_checkpoints d))"

definition latest_checkpoint :: "('p, 's, 'm) db \<Rightarrow> 'm option" where
  "latest_checkpoint d = (case checkpoints_newest_first d of [] \<Rightarrow> None | (_, r) # _ \<Rightarrow> Some (kr_manifest r))"

definition list_checkpoints :: "('p, 's, 'm) db \<Rightarrow> int \<Rightarrow> (string \<times> string \<times> int) list" where
  "list_checkpoints d limit =
     map (\<lambda>(i, r). (i, kr_integrity r, kr_sequence r)) (take (nat (max 0 limit)) (checkpoints_newest_first d))"

section \<open>Diagnostics and security rejections\<close>

definition store_provider_failure_diagnostic :: "string \<Rightarrow> dict \<Rightarrow> (('p, 's, 'm) db, unit) stmt" where
  "store_provider_failure_diagnostic run_id r d =
    (if \<not> starts_with run_id ''dr-'' then (d, Inl (ValueError ''INVALID_PROVIDER_DIAGNOSTIC_RUN_ID''))
     else transaction (\<lambda>d. case map_of (db_diagnostics d) run_id of
         Some existing \<Rightarrow> (d, if dict_eq existing r then Inr () else Inl (IdempotencyConflict ''PROVIDER_FAILURE_ALREADY_RECORDED''))
       | None \<Rightarrow> (d\<lparr>db_diagnostics := db_diagnostics d @ [(run_id, r)]\<rparr>, Inr ())) d)"

definition get_provider_failure_diagnostic :: "('p, 's, 'm) db \<Rightarrow> string \<Rightarrow> dict option" where
  "get_provider_failure_diagnostic d run_id = map_of (db_diagnostics d) run_id"

text \<open>The wall clock is the argument \<open>clock\<close>; it is used when no timestamp is given.\<close>

definition record_security_rejection :: "string \<Rightarrow> string \<Rightarrow> string \<Rightarrow> dict \<Rightarrow> string option \<Rightarrow> string option \<Rightarrow> string option \<Rightarrow>
    (('p, 's, 'm) db, unit) stmt" where
  "record_security_rejection clock rejection_id kind details source_ip actor_id timestamp = transaction (\<lambda>d.
     if list_ex (\<lambda>r. jr_rejection_id r = rejection_id) (db_rejections d)
     then (d, Inl (SqlIntegrityError ''UNIQUE constraint failed: security_rejections.rejection_id''))
     else (d\<lparr>db_rejections := db_rejections d @ [\<lparr>jr_rejection_id = rejection_id,
         jr_timestamp = (case timestamp of None \<Rightarrow> clock | Some t \<Rightarrow> if t = [] then clock else t),
         jr_kind = kind, jr_source_ip = source_ip, jr_actor_id = actor_id, jr_details = details\<rparr>]\<rparr>, Inr ()))"

text \<open>\<^verbatim>\<open>ORDER BY timestamp DESC, rowid DESC LIMIT ?\<close>; a negative limit is none in SQLite.\<close>

definition list_security_rejections :: "('p, 's, 'm) db \<Rightarrow> int \<Rightarrow> rejection_row list" where
  "list_security_rejections d limit =
     (let rows = rev (sort_key jr_timestamp (db_rejections d)) in
      if limit < 0 then rows else take (nat limit) rows)"

section \<open>Council receipts\<close>

definition begin_council_receipt :: "string \<Rightarrow> string \<Rightarrow> string \<Rightarrow> (string \<times> string) list \<Rightarrow> string \<Rightarrow>
    (('p, 's, 'm) db, council_receipt \<times> bool) stmt" where
  "begin_council_receipt council_id submission_digest command_id members timestamp d =
    (if council_id = [] \<or> length council_id > 128 then (d, Inl (ValueError ''INVALID_COUNCIL_ID''))
     else transaction (\<lambda>d. case map_of (db_council d) council_id of
       Some row \<Rightarrow> (d, if ur_submission_digest row \<noteq> submission_digest
           then Inl (IdempotencyConflict ''COUNCIL_ID_REUSED_DIFFERENT_SUBMISSION'')
           else Inr (ur_receipt row, False))
     | None \<Rightarrow>
         let receipt = \<lparr>un_councilId = council_id, un_submissionDigest = submission_digest, un_commandId = command_id,
               un_state = ''in_progress'', un_createdAt = timestamp, un_updatedAt = timestamp,
               un_cohorts = map (\<lambda>(c, r). [(''cohortId'', JStr c), (''driverRunId'', JStr r), (''status'', JStr ''pending'')]) members,
               un_complete = False\<rparr> in
         (d\<lparr>db_council := db_council d @ [(council_id, \<lparr>ur_submission_digest = submission_digest,
             ur_command_id = command_id, ur_receipt = receipt\<rparr>)]\<rparr>, Inr (receipt, True))) d)"

text \<open>\<^verbatim>\<open>all(x["status"] != "pending" for x in cohorts)\<close>.\<close>

fun all_done :: "dict list \<Rightarrow> bool res" where
  "all_done [] = Inr True"
| "all_done (x # xs) = bnd (dreq x ''status'') (\<lambda>v. if v = JStr ''pending'' then Inr False else all_done xs)"

definition matching_members :: "json \<Rightarrow> dict list \<Rightarrow> nat list" where
  "matching_members cid cohorts = filter (\<lambda>i. json_eq (dget (cohorts ! i) ''cohortId'') cid) [0..<length cohorts]"

definition record_council_member_receipt :: "string \<Rightarrow> dict \<Rightarrow> string \<Rightarrow> (('p, 's, 'm) db, council_receipt) stmt" where
  "record_council_member_receipt council_id member_record timestamp = transaction (\<lambda>d.
    (case map_of (db_council d) council_id of
       None \<Rightarrow> (d, Inl (NotFound ''COUNCIL_RECEIPT_NOT_FOUND''))
     | Some row \<Rightarrow>
       let receipt = ur_receipt row in
       (case (if un_cohorts receipt = [] then Inr JNull else dreq member_record ''cohortId'') of Inl e \<Rightarrow> (d, Inl e) | Inr cid \<Rightarrow>
       (case matching_members cid (un_cohorts receipt) of
          [position] \<Rightarrow>
            let previous = un_cohorts receipt ! position in
            if dget previous ''status'' \<noteq> JStr ''pending'' then
              (d, if dict_eq previous member_record then Inr receipt else Inl (IdempotencyConflict ''COUNCIL_MEMBER_RECEIPT_IMMUTABLE''))
            else let cohorts = (un_cohorts receipt)[position := member_record] in
              (case all_done cohorts of Inl e \<Rightarrow> (d, Inl e) | Inr complete \<Rightarrow>
               let nxt = receipt\<lparr>un_cohorts := cohorts, un_updatedAt := timestamp, un_complete := complete,
                     un_state := (if complete then ''terminal'' else un_state receipt)\<rparr> in
               (d\<lparr>db_council := AList.update council_id (row\<lparr>ur_receipt := nxt\<rparr>) (db_council d)\<rparr>, Inr nxt))
        | _ \<Rightarrow> (d, Inl (IntegrityViolation ''COUNCIL_MEMBER_NOT_IN_ADMITTED_MANIFEST''))))))"

definition get_council_receipt :: "('p, 's, 'm) db \<Rightarrow> string \<Rightarrow> council_receipt option" where
  "get_council_receipt d council_id = map_option ur_receipt (map_of (db_council d) council_id)"

end
