(* ===== verification/Store_Safety.thy ===== *)
theory Store_Safety
  imports Store
begin

text \<open>
  The guarantees of the event store: atomicity of a command, idempotent replay of its key,
  the ledger invariant (contiguous sequence and versions, a chain that verifies) over any
  operations, evidence of tampering by extraction of a hash collision, and dispatch.
\<close>

section \<open>What one append does\<close>

definition below_autoinc :: "('p, 's, 'm) db \<Rightarrow> bool" where
  "below_autoinc d \<longleftrightarrow> list_all (\<lambda>r. er_sequence r \<le> db_autoinc d) (db_events d)"

text \<open>The row, the aggregate row and the outbox row that an accepted append leaves.\<close>

definition final_envelope :: "('p, 's) hashing \<Rightarrow> ('p, 's) append_request \<Rightarrow> int \<Rightarrow> int \<Rightarrow> 'p envelope" where
  "final_envelope H a version n = (rq_envelope a)\<lparr>ev_streamVersion := version,
     ev_payloadDigest := hs_payload H (ev_payload (rq_envelope a)), ev_globalSequence := n\<rparr>"

definition final_row :: "('p, 's) hashing \<Rightarrow> ('p, 's) append_request \<Rightarrow> string \<Rightarrow> int \<Rightarrow> int \<Rightarrow> 'p event_row" where
  "final_row H a chain version n = (let env = final_envelope H a version n in
     \<lparr>er_sequence = n, er_event_id = ev_eventId env, er_stream_id = rq_stream_id a, er_stream_version = version,
      er_event_type = ev_eventType env, er_schema_version = ev_schemaVersion env, er_envelope = Some env,
      er_payload_digest = ev_payloadDigest env,
      er_chain_digest = chain_next (hs_sha H) chain (ev_payloadDigest env) (ev_eventId env)\<rparr>)"

definition aggregate_after :: "('p, 's) hashing \<Rightarrow> ('p, 's) append_request \<Rightarrow> int \<Rightarrow> 's agg_row option \<Rightarrow> 's agg_row" where
  "aggregate_after H a version old = \<lparr>ar_kind = (case old of None \<Rightarrow> rq_kind a | Some r \<Rightarrow> ar_kind r),
     ar_version = version, ar_state = rq_state a, ar_state_digest = hs_state H (rq_state a)\<rparr>"

lemma aggregate_after_cases:
  "(case old of None \<Rightarrow> \<lparr>ar_kind = rq_kind a, ar_version = v, ar_state = rq_state a, ar_state_digest = hs_state H (rq_state a)\<rparr>
    | Some r \<Rightarrow> r\<lparr>ar_version := v, ar_state := rq_state a, ar_state_digest := hs_state H (rq_state a)\<rparr>)
   = (aggregate_after H a v old :: 's agg_row)"
  by (cases old) (auto simp: aggregate_after_def)

lemma append_one_Inr:
  fixes H :: "('p, 's) hashing" and d :: "('p, 's, 'm) db"
  assumes step: "append_one H a chain d = (d', Inr (chain', env))" and low: "below_autoinc d"
  defines "v \<equiv> aggregate_version d (rq_stream_id a) + 1" and "n \<equiv> db_autoinc d + 1"
  shows "aggregate_version d (rq_stream_id a) = rq_expected_version a
    \<and> env = final_envelope H a v n \<and> hs_validate H env = []
    \<and> chain' = chain_next (hs_sha H) chain (ev_payloadDigest env) (ev_eventId env)
    \<and> (\<forall>r\<in>set (db_events d). er_event_id r \<noteq> ev_eventId (rq_envelope a))
    \<and> d' = d\<lparr>db_autoinc := n, db_events := db_events d @ [final_row H a chain v n],
             db_aggregates := AList.update (rq_stream_id a) (aggregate_after H a v (map_of (db_aggregates d) (rq_stream_id a))) (db_aggregates d),
             db_outbox := db_outbox d @ [\<lparr>ob_event_id = ev_eventId env, ob_sequence = n, ob_status = ''pending'', ob_attempts = 0\<rparr>]\<rparr>"
proof -
  define e0 where "e0 = (rq_envelope a)\<lparr>ev_streamVersion := v, ev_payloadDigest := hs_payload H (ev_payload (rq_envelope a))\<rparr>"
  define e where "e = e0\<lparr>ev_globalSequence := n\<rparr>"
  have e_final: "e = final_envelope H a v n" by (simp add: e_def e0_def final_envelope_def)
  from step have g1: "aggregate_version d (rq_stream_id a) = rq_expected_version a"
    by (auto simp: append_one_def Let_def split: if_splits)
  have st: "sthen (insert_event e0 (rq_stream_id a) v) (append_tail H a chain v e0) d = (d', Inr (chain', env))"
    using step g1 unfolding append_one_def Let_def v_def[symmetric] e0_def[symmetric] by simp
  then have g2: "\<not> list_ex (\<lambda>r. er_event_id r = ev_eventId e0) (db_events d)"
      "\<not> list_ex (\<lambda>r. er_stream_id r = rq_stream_id a \<and> er_stream_version r = v) (db_events d)"
    by (auto simp: insert_event_def sthen_def split: if_splits)
  define row :: "'p event_row" where "row = \<lparr>er_sequence = n, er_event_id = ev_eventId e0, er_stream_id = rq_stream_id a,
      er_stream_version = v, er_event_type = ev_eventType e0, er_schema_version = ev_schemaVersion e0,
      er_envelope = None, er_payload_digest = ev_payloadDigest e0, er_chain_digest = []\<rparr>"
  define d1 where "d1 = d\<lparr>db_autoinc := n, db_events := db_events d @ [row]\<rparr>"
  have ins: "insert_event e0 (rq_stream_id a) v d = (d1, Inr n)"
    using g2 unfolding insert_event_def Let_def by (simp add: d1_def row_def n_def)
  define c where "c = chain_next (hs_sha H) chain (ev_payloadDigest e) (ev_eventId e)"
  from st ins have tl: "append_tail H a chain v e0 n d1 = (d', Inr (chain', env))" by simp
  then have g3: "hs_validate H e = []"
    unfolding append_tail_def Let_def e_def[symmetric] by (auto simp: sraise_def split: if_splits)
  have same: "map (\<lambda>r. if er_sequence r = n then f r else r) (db_events d) = db_events d" for f
    using low by (auto simp: below_autoinc_def list_all_iff n_def intro!: map_idI)
  define d2 where "d2 = d1\<lparr>db_events := db_events d @ [row\<lparr>er_envelope := Some e, er_chain_digest := c\<rparr>]\<rparr>"
  have upd: "update_event n e c d1 = (d2, Inr ())"
    unfolding update_event_def d2_def d1_def by (simp add: same row_def)
  define d3 where "d3 = d2\<lparr>db_aggregates := AList.update (rq_stream_id a)
      (aggregate_after H a v (map_of (db_aggregates d) (rq_stream_id a))) (db_aggregates d)\<rparr>"
  have ups: "upsert_aggregate (rq_stream_id a) (rq_kind a) v (rq_state a) (hs_state H (rq_state a)) d2 = (d3, Inr ())"
    unfolding upsert_aggregate_def by (simp add: d3_def d2_def d1_def aggregate_after_cases)
  have fin: "sthen (insert_outbox (ev_eventId e) n) (\<lambda>_. sret (c, e)) d3 = (d', Inr (chain', env))"
    using tl g3 upd ups unfolding append_tail_def Let_def e_def[symmetric] c_def[symmetric] by simp
  then have o: "env = e" "chain' = c"
      "d' = d3\<lparr>db_outbox := db_outbox d @ [\<lparr>ob_event_id = ev_eventId e, ob_sequence = n, ob_status = ''pending'', ob_attempts = 0\<rparr>]\<rparr>"
    by (auto simp: insert_outbox_def sthen_def sret_def d3_def d2_def d1_def split: if_splits)
  have "row\<lparr>er_envelope := Some e, er_chain_digest := c\<rparr> = final_row H a chain v n"
    by (simp add: row_def final_row_def e_final[symmetric] Let_def c_def) (simp add: e_def e0_def)
  with o g1 g2 g3 e_final show ?thesis
    by (auto simp: d3_def d2_def d1_def c_def list_ex_iff e0_def)
qed

lemma append_one_low:
  assumes "append_one H a chain d = (d', Inr x)" and "below_autoinc d"
  shows "below_autoinc d'"
proof -
  obtain c e where "x = (c, e)" by force
  with append_one_Inr[of H a chain d d' c e] assms
  have d': "db_autoinc d' = db_autoinc d + 1"
      "db_events d' = db_events d @ [final_row H a chain (aggregate_version d (rq_stream_id a) + 1) (db_autoinc d + 1)]"
    by simp_all
  show ?thesis
    unfolding below_autoinc_def d' list_all_append
    using assms(2) by (auto simp: below_autoinc_def list_all_iff final_row_def Let_def)
qed

section \<open>The ledger invariant\<close>

definition stream_rows :: "('p, 's, 'm) db \<Rightarrow> string \<Rightarrow> 'p event_row list" where
  "stream_rows d s = filter (\<lambda>r. er_stream_id r = s) (db_events d)"

definition envelope_matches :: "('p, 's) hashing \<Rightarrow> 'p event_row \<Rightarrow> bool" where
  "envelope_matches H r \<longleftrightarrow> (\<exists>env. er_envelope r = Some env \<and> ev_eventId env = er_event_id r
     \<and> ev_streamVersion env = er_stream_version r \<and> ev_globalSequence env = er_sequence r
     \<and> ev_payloadDigest env = er_payload_digest r \<and> hs_payload H (ev_payload env) = er_payload_digest r
     \<and> hs_validate H env = [])"

definition ledger_inv :: "('p, 's) hashing \<Rightarrow> ('p, 's, 'm) db \<Rightarrow> bool" where
  "ledger_inv H d \<longleftrightarrow>
     map er_sequence (db_events d) = map int [1..<Suc (length (db_events d))]
     \<and> db_autoinc d = int (length (db_events d))
     \<and> (\<forall>s. aggregate_version d s = int (length (stream_rows d s)))
     \<and> verify_rows H GENESIS_CHAIN [] (db_events d) = Inr (head_chain d)
     \<and> list_all (envelope_matches H) (db_events d)
     \<and> distinct (map er_event_id (db_events d))
     \<and> map ob_event_id (db_outbox d) = map er_event_id (db_events d)
     \<and> map ob_sequence (db_outbox d) = map er_sequence (db_events d)"

lemma sorted_by_sequence:
  assumes "map er_sequence rows = map int [1..<Suc n]"
  shows "sort_key er_sequence rows = rows"
  by (rule sort_key_id_if_sorted) (simp add: assms sorted_map del: upt_Suc)

lemma event_rows_inv: "ledger_inv H d \<Longrightarrow> event_rows d = db_events d"
  unfolding ledger_inv_def event_rows_def by (blast intro: sorted_by_sequence)

lemma head_chain_inv:
  "ledger_inv H d \<Longrightarrow> head_chain d = (if db_events d = [] then GENESIS_CHAIN else er_chain_digest (last (db_events d)))"
  by (simp add: head_chain_def event_rows_inv)

lemma below_autoinc_inv: "ledger_inv H d \<Longrightarrow> below_autoinc d"
proof -
  assume L: "ledger_inv H d"
  have "er_sequence r \<le> db_autoinc d" if "r \<in> set (db_events d)" for r
  proof -
    have "er_sequence r \<in> set (map er_sequence (db_events d))" using that by simp
    then have "er_sequence r \<in> set (map int [1..<Suc (length (db_events d))])" using L by (simp only: ledger_inv_def)
    then show ?thesis using L by (auto simp: ledger_inv_def)
  qed
  then show ?thesis by (simp add: below_autoinc_def list_all_iff)
qed

text \<open>\<^verbatim>\<open>verify_chain\<close> checks that the versions of every stream are contiguous, so it can be extended.\<close>

definition seen_at :: "(string \<times> int) list \<Rightarrow> string \<Rightarrow> int" where
  "seen_at seen s = (case map_of seen s of None \<Rightarrow> 0 | Some v \<Rightarrow> v)"

lemma seen_at_update [simp]: "seen_at (AList.update s v seen) t = (if t = s then v else seen_at seen t)"
  by (simp add: seen_at_def update_conv)

lemma verify_rows_cong: "(\<And>s. seen_at a s = seen_at b s) \<Longrightarrow> verify_rows H c a rs = verify_rows H c b rs"
proof (induction rs arbitrary: c a b)
  case (Cons r rs)
  show ?case
  proof (cases "er_envelope r")
    case (Some env)
    have "verify_rows H c' (AList.update (er_stream_id r) v a) rs = verify_rows H c' (AList.update (er_stream_id r) v b) rs" for c' v
      by (rule Cons.IH) (use Cons.prems in simp)
    moreover have "seen_at a (er_stream_id r) = seen_at b (er_stream_id r)" by (rule Cons.prems)
    ultimately show ?thesis using Some by (simp add: Let_def seen_at_def)
  qed simp
qed simp

lemma verify_rows_snoc:
  assumes "verify_rows H c seen rs = Inr c'" and "er_envelope r = Some env"
    and "hs_payload H (ev_payload env) = er_payload_digest r"
    and "er_chain_digest r = chain_next (hs_sha H) c' (er_payload_digest r) (er_event_id r)"
    and "er_stream_version r = seen_at seen (er_stream_id r) + int (length (filter (\<lambda>x. er_stream_id x = er_stream_id r) rs)) + 1"
  shows "verify_rows H c seen (rs @ [r]) = Inr (er_chain_digest r)"
  using assms(1,5)
proof (induction rs arbitrary: c seen)
  case Nil
  then show ?case using assms(2-4) by (simp add: seen_at_def Let_def)
next
  case (Cons x xs)
  from Cons.prems(1) obtain e where e: "er_envelope x = Some e" by (cases "er_envelope x") auto
  let ?c = "chain_next (hs_sha H) c (er_payload_digest x) (er_event_id x)"
  let ?seen = "AList.update (er_stream_id x) (er_stream_version x) seen"
  from Cons.prems(1) e have h: "hs_payload H (ev_payload e) = er_payload_digest x" "?c = er_chain_digest x"
      "er_stream_version x = seen_at seen (er_stream_id x) + 1" "verify_rows H ?c ?seen xs = Inr c'"
    by (auto simp: Let_def seen_at_def)
  have "er_stream_version r = seen_at ?seen (er_stream_id r) + int (length (filter (\<lambda>y. er_stream_id y = er_stream_id r) xs)) + 1"
    using Cons.prems(2) h(3) by auto
  from Cons.IH[OF h(4) this] h(1-3) e show ?case by (simp add: Let_def seen_at_def)
qed

lemma ledger_inv_append:
  assumes inv: "ledger_inv H d" and step: "append_one H a (head_chain d) d = (d', Inr (chain', env))"
  shows "ledger_inv H d' \<and> chain' = head_chain d'"
proof -
  define v where "v = aggregate_version d (rq_stream_id a) + 1"
  define n where "n = db_autoinc d + 1"
  define row where "row = final_row H a (head_chain d) v n"
  note A = append_one_Inr[OF step below_autoinc_inv[OF inv], folded v_def n_def, folded row_def]
  have d': "db_events d' = db_events d @ [row]" "db_autoinc d' = n"
      "db_outbox d' = db_outbox d @ [\<lparr>ob_event_id = ev_eventId env, ob_sequence = n, ob_status = ''pending'', ob_attempts = 0\<rparr>]"
      "db_aggregates d' = AList.update (rq_stream_id a) (aggregate_after H a v (map_of (db_aggregates d) (rq_stream_id a))) (db_aggregates d)"
    using A by simp_all
  have rw: "er_sequence row = n" "er_event_id row = ev_eventId env" "er_stream_id row = rq_stream_id a"
      "er_stream_version row = v" "er_envelope row = Some env" "er_payload_digest row = ev_payloadDigest env"
      "er_chain_digest row = chain'"
    using A by (simp_all add: row_def final_row_def Let_def)
  have ev: "ev_streamVersion env = v" "ev_globalSequence env = n" "ev_eventId env = ev_eventId (rq_envelope a)"
      "hs_payload H (ev_payload env) = ev_payloadDigest env"
    using A by (simp_all add: final_envelope_def)
  have n: "n = int (Suc (length (db_events d)))" using inv by (simp add: n_def ledger_inv_def)
  have seqs: "map er_sequence (db_events d') = map int [1..<Suc (length (db_events d'))]"
    using inv n by (simp add: d'(1) rw ledger_inv_def)
  have hc: "head_chain d' = chain'"
    using sorted_by_sequence[OF seqs] by (simp add: head_chain_def event_rows_def d'(1) rw)
  have vr: "aggregate_version d' s = int (length (stream_rows d' s))" for s
    using inv by (auto simp: ledger_inv_def aggregate_version_def d' stream_rows_def rw update_conv aggregate_after_def v_def)
  have "verify_rows H GENESIS_CHAIN [] (db_events d @ [row]) = Inr (er_chain_digest row)"
  proof (rule verify_rows_snoc)
    show "verify_rows H GENESIS_CHAIN [] (db_events d) = Inr (head_chain d)" using inv by (simp add: ledger_inv_def)
    show "er_envelope row = Some env" by (rule rw)
    show "hs_payload H (ev_payload env) = er_payload_digest row" using ev rw by simp
    show "er_chain_digest row = chain_next (hs_sha H) (head_chain d) (er_payload_digest row) (er_event_id row)"
      using A rw by simp
    show "er_stream_version row = seen_at [] (er_stream_id row) + int (length (filter (\<lambda>x. er_stream_id x = er_stream_id row) (db_events d))) + 1"
      using inv by (simp add: rw v_def seen_at_def ledger_inv_def stream_rows_def)
  qed
  moreover have "hs_validate H env = []" using A by blast
  then have "envelope_matches H row" using rw ev by (simp add: envelope_matches_def)
  moreover have "ev_eventId env \<notin> er_event_id ` set (db_events d)" using A ev by auto
  ultimately have "ledger_inv H d'"
    using inv seqs n vr hc unfolding ledger_inv_def d' by (simp add: rw)
  with hc show ?thesis by simp
qed

lemma ledger_inv_append_all:
  "ledger_inv H d \<Longrightarrow> append_all H as (head_chain d) d = (d', Inr written) \<Longrightarrow> ledger_inv H d'"
proof (induction as arbitrary: d written)
  case (Cons a as)
  then obtain d1 c e where one: "append_one H a (head_chain d) d = (d1, Inr (c, e))"
    by (auto simp: sthen_def split: prod.splits sum.splits)
  with Cons.prems obtain w where rest: "append_all H as c d1 = (d', Inr w)"
    by (auto simp: sthen_def sret_def split: prod.splits sum.splits)
  from ledger_inv_append[OF Cons.prems(1) one] rest Cons.IH show ?case by auto
qed simp

section \<open>Atomic commands\<close>

lemma commit_command_cases:
  assumes "commit_command H as key fp cid d = (d', res)"
  obtains (known) prior where "map_of (db_idempotency d) key = Some prior" "d' = d" "res = replayed_result prior key fp"
  | (failed) e where "map_of (db_idempotency d) key = None" "d' = d" "res = Inl e"
  | (applied) d1 written where "map_of (db_idempotency d) key = None"
      "append_all H as (head_chain d) d = (d1, Inr written)" "res = Inr (result_of cid written)"
      "map_of (db_idempotency d1) key = None"
      "d' = d1\<lparr>db_idempotency := db_idempotency d1 @ [(key, \<lparr>ir_fingerprint = fp, ir_command_id = cid,
         ir_result = result_of cid written, ir_sequence = (if written = [] then None else Some (ev_globalSequence (last written)))\<rparr>)]\<rparr>"
proof (cases "map_of (db_idempotency d) key")
  case (Some prior)
  then have "(d, replayed_result prior key fp) = (d', res)" using assms by (simp add: commit_command_def)
  then have "d' = d" "res = replayed_result prior key fp" by auto
  from known[OF Some this] show ?thesis .
next
  case None
  then have t: "transaction (commit_body H as key fp cid) d = (d', res)" using assms by (simp add: commit_command_def)
  show ?thesis
  proof (cases res)
    case (Inl e)
    from failed[OF None _ Inl] transaction_rollback[OF t[unfolded Inl]] show ?thesis .
  next
    case (Inr r)
    with t have b: "commit_body H as key fp cid d = (d', Inr r)" by (simp add: transaction_commit)
    then obtain d1 w where a: "append_all H as (head_chain d) d = (d1, Inr w)"
      by (auto simp: commit_body_def sthen_def None split: prod.splits sum.splits)
    from b have free: "map_of (db_idempotency d1) key = None"
      by (auto simp: commit_body_def sthen_def Let_def insert_idempotency_def None a split: if_splits)
    define row where "row = \<lparr>ir_fingerprint = fp, ir_command_id = cid,
         ir_result = result_of cid w, ir_sequence = (if w = [] then None else Some (ev_globalSequence (last w)))\<rparr>"
    have "insert_idempotency key row d1 = (d1\<lparr>db_idempotency := db_idempotency d1 @ [(key, row)]\<rparr>, Inr ())"
      using free by (simp add: insert_idempotency_def)
    then have "d' = d1\<lparr>db_idempotency := db_idempotency d1 @ [(key, row)]\<rparr>" "r = result_of cid w"
      using b by (simp_all add: commit_body_def None a Let_def row_def[symmetric] sret_def)
    from applied[OF None a _ free] this Inr show ?thesis by (simp add: row_def)
  qed
qed

lemma append_one_frame:
  assumes "append_one H a c d = (d', Inr x)" and "below_autoinc d"
  shows "db_idempotency d' = db_idempotency d \<and> (\<exists>r. db_events d' = db_events d @ [r])"
proof -
  obtain c' e where "x = (c', e)" by force
  with append_one_Inr[of H a c d d' c' e] assms show ?thesis by auto
qed

lemma append_all_frame:
  "append_all H as c d = (d', Inr w) \<Longrightarrow> below_autoinc d \<Longrightarrow>
     db_idempotency d' = db_idempotency d \<and> length w = length as
     \<and> (\<exists>rs. db_events d' = db_events d @ rs \<and> length rs = length as) \<and> below_autoinc d'"
proof (induction as arbitrary: c d w)
  case (Cons a as)
  then obtain d1 c' e where one: "append_one H a c d = (d1, Inr (c', e))"
    by (auto simp: sthen_def split: prod.splits sum.splits)
  with Cons.prems obtain w' where rest: "append_all H as c' d1 = (d', Inr w')" "w = e # w'"
    by (auto simp: sthen_def sret_def split: prod.splits sum.splits)
  from append_one_frame[OF one Cons.prems(2)] obtain r where r: "db_idempotency d1 = db_idempotency d" "db_events d1 = db_events d @ [r]"
    by blast
  from Cons.IH[OF rest(1) append_one_low[OF one Cons.prems(2)]] r rest(2) show ?case by force
qed simp

section \<open>Operations of the store\<close>

datatype ('p, 's, 'm, 'w) store_op =
    Commit "('p, 's) append_request list" string string string
  | Claim string string string
  | Complete string string command_result
  | SaveCheckpoint string 'm string int
  | Diagnostic string dict
  | Rejection string string string dict "string option" "string option" "string option"
  | CouncilBegin string string string "(string \<times> string) list" string
  | CouncilMember string dict string
  | Dispatch "('p, 'w) handler list" 'w

fun store_exec :: "('p, 's) hashing \<Rightarrow> ('p, 's, 'm, 'w) store_op \<Rightarrow> ('p, 's, 'm) db \<Rightarrow> ('p, 's, 'm) db" where
  "store_exec H (Commit as key fp cid) d = fst (commit_command H as key fp cid d)"
| "store_exec H (Claim key fp cid) d = fst (claim_command key fp cid d)"
| "store_exec H (Complete key fp r) d = fst (complete_claimed_command key fp r d)"
| "store_exec H (SaveCheckpoint i m g n) d = fst (save_checkpoint i m g n d)"
| "store_exec H (Diagnostic i r) d = fst (store_provider_failure_diagnostic i r d)"
| "store_exec H (Rejection c i k x ip a t) d = fst (record_security_rejection c i k x ip a t d)"
| "store_exec H (CouncilBegin i s c ms t) d = fst (begin_council_receipt i s c ms t d)"
| "store_exec H (CouncilMember i m t) d = fst (record_council_member_receipt i m t d)"
| "store_exec H (Dispatch hs w) d = fst (dispatch hs d w)"

text \<open>Only a command writes to the ledger, the aggregates and the outbox.\<close>

definition same_ledger :: "('p, 's, 'm) db \<Rightarrow> ('p, 's, 'm) db \<Rightarrow> bool" where
  "same_ledger d d' \<longleftrightarrow> db_events d' = db_events d \<and> db_autoinc d' = db_autoinc d
     \<and> db_aggregates d' = db_aggregates d \<and> map ob_event_id (db_outbox d') = map ob_event_id (db_outbox d)
     \<and> map ob_sequence (db_outbox d') = map ob_sequence (db_outbox d)"

lemma same_ledger_refl [simp]: "same_ledger d d"
  by (simp add: same_ledger_def)

lemma fst_transaction: "fst (transaction body d) = d \<or> fst (transaction body d) = fst (body d)"
  by (auto simp: transaction_def split: prod.splits sum.splits)

lemma transaction_keeps_ledger:
  "same_ledger d (fst (body d)) \<Longrightarrow> same_ledger d (fst (transaction body d))"
  using fst_transaction[of body d] by (metis same_ledger_refl)

lemma mark_keeps_ledger: "same_ledger d (mark_dispatched i d)"
  by (simp add: same_ledger_def mark_dispatched_def comp_def if_distrib cong: if_cong)

lemma same_ledger_trans: "same_ledger a b \<Longrightarrow> same_ledger b c \<Longrightarrow> same_ledger a c"
  by (simp add: same_ledger_def)

lemma dispatch_keeps_ledger: "same_ledger d (fst (dispatch_ids hs is d w n))"
proof (induction "is" arbitrary: d w n)
  case (Cons i "is")
  show ?case
    using same_ledger_trans[OF mark_keeps_ledger Cons.IH] by (auto split: option.split prod.split sum.split)
qed simp

lemma other_ops_keep_ledger:
  assumes "\<And>as key fp cid. op \<noteq> Commit as key fp cid"
  shows "same_ledger d (store_exec H op d)"
proof (cases op)
  case (Claim key fp cid)
  show ?thesis unfolding Claim store_exec.simps claim_command_def
    by (rule transaction_keeps_ledger)
       (auto simp: Let_def sthen_def insert_idempotency_def sret_def same_ledger_def split: option.splits)
next
  case (Complete key fp r)
  show ?thesis unfolding Complete store_exec.simps complete_claimed_command_def
    by (rule transaction_keeps_ledger) (auto simp: same_ledger_def split: option.splits)
next
  case (SaveCheckpoint i m g n)
  show ?thesis unfolding SaveCheckpoint store_exec.simps save_checkpoint_def
    by (rule transaction_keeps_ledger) (simp add: same_ledger_def)
next
  case (Diagnostic i r)
  show ?thesis
  proof (cases "starts_with i ''dr-''")
    case True
    have "same_ledger d (fst (transaction (\<lambda>d. case map_of (db_diagnostics d) i of
         Some existing \<Rightarrow> (d, if dict_eq existing r then Inr () else Inl (IdempotencyConflict ''PROVIDER_FAILURE_ALREADY_RECORDED''))
       | None \<Rightarrow> (d\<lparr>db_diagnostics := db_diagnostics d @ [(i, r)]\<rparr>, Inr ())) d))"
      by (rule transaction_keeps_ledger) (simp add: same_ledger_def split: option.split)
    with True show ?thesis by (simp add: Diagnostic store_provider_failure_diagnostic_def)
  qed (simp add: Diagnostic store_provider_failure_diagnostic_def)
next
  case (Rejection c i k x ip a t)
  show ?thesis unfolding Rejection store_exec.simps record_security_rejection_def
    by (rule transaction_keeps_ledger) (simp add: same_ledger_def)
next
  case (CouncilBegin i s c ms t)
  show ?thesis
  proof (cases "i = [] \<or> length i > 128")
    case False
    then show ?thesis unfolding CouncilBegin store_exec.simps begin_council_receipt_def if_not_P[OF False]
      by (intro transaction_keeps_ledger) (simp add: same_ledger_def Let_def split: option.split)
  qed (simp add: CouncilBegin begin_council_receipt_def)
next
  case (CouncilMember i m t)
  show ?thesis unfolding CouncilMember store_exec.simps record_council_member_receipt_def
    by (rule transaction_keeps_ledger)
       (auto simp: Let_def same_ledger_def split: option.split sum.split list.split)
next
  case (Dispatch hs w)
  then show ?thesis by (simp add: dispatch_def dispatch_keeps_ledger)
qed (use assms in simp)

lemma ledger_inv_same: "same_ledger d d' \<Longrightarrow> ledger_inv H d \<Longrightarrow> ledger_inv H d'"
  by (simp add: same_ledger_def ledger_inv_def aggregate_version_def stream_rows_def head_chain_def event_rows_def)

lemma ledger_inv_commit:
  assumes "ledger_inv H d" and "commit_command H as key fp cid d = (d', res)"
  shows "ledger_inv H d'"
  using assms(2)
proof (cases rule: commit_command_cases)
  case (applied d1 written)
  have "same_ledger d1 d'" by (simp add: applied(5) same_ledger_def)
  from ledger_inv_same[OF this ledger_inv_append_all[OF assms(1) applied(2)]] show ?thesis .
qed (use assms(1) in simp_all)

lemma ledger_inv_exec: "ledger_inv H d \<Longrightarrow> ledger_inv H (store_exec H op d)"
proof (cases op)
  case (Commit as key fp cid)
  assume "ledger_inv H d"
  then show ?thesis using ledger_inv_commit by (metis Commit store_exec.simps(1) surj_pair fst_conv)
qed (metis ledger_inv_same other_ops_keep_ledger store_op.distinct)+

lemma ledger_inv_empty: "ledger_inv H empty_db"
  by (simp add: ledger_inv_def empty_db_def aggregate_version_def stream_rows_def head_chain_def)

definition after_ops :: "('p, 's) hashing \<Rightarrow> ('p, 's, 'm, 'w) store_op list \<Rightarrow> ('p, 's, 'm) db \<Rightarrow> ('p, 's, 'm) db" where
  "after_ops H ops d = fold (store_exec H) ops d"

lemma after_ops_simps [simp]:
  "after_ops H [] d = d" "after_ops H (op # ops) d = after_ops H ops (store_exec H op d)"
  "after_ops H (ops @ ops') d = after_ops H ops' (after_ops H ops d)"
  by (simp_all add: after_ops_def)

lemma ledger_inv_after: "ledger_inv H d \<Longrightarrow> ledger_inv H (after_ops H ops d)"
  by (induction ops arbitrary: d) (auto intro: ledger_inv_exec)

section \<open>Commit\<close>

definition written_for :: "('p, 's) append_request \<Rightarrow> 'p envelope \<Rightarrow> bool" where
  "written_for a e \<longleftrightarrow> ev_eventId e = ev_eventId (rq_envelope a) \<and> ev_payload e = ev_payload (rq_envelope a)
     \<and> ev_streamId e = ev_streamId (rq_envelope a) \<and> ev_streamVersion e = rq_expected_version a + 1"

definition pending_row :: "'p envelope \<Rightarrow> outbox_row" where
  "pending_row e = \<lparr>ob_event_id = ev_eventId e, ob_sequence = ev_globalSequence e, ob_status = ''pending'', ob_attempts = 0\<rparr>"

definition state_after :: "('p, 's) append_request list \<Rightarrow> string \<Rightarrow> 's option \<Rightarrow> 's option" where
  "state_after as s old = fold (\<lambda>a st. if rq_stream_id a = s then Some (rq_state a) else st) as old"

lemma append_all_effect:
  "ledger_inv H d \<Longrightarrow> append_all H as (head_chain d) d = (d', Inr w) \<Longrightarrow>
     list_all2 written_for as w
     \<and> (\<exists>rows. db_events d' = db_events d @ rows \<and> map er_envelope rows = map Some w)
     \<and> map ev_globalSequence w = map int [Suc (length (db_events d))..<Suc (length (db_events d) + length as)]
     \<and> (\<forall>s. load_state d' s = state_after as s (load_state d s))
     \<and> db_outbox d' = db_outbox d @ map pending_row w
     \<and> db_idempotency d' = db_idempotency d"
proof (induction as arbitrary: d w)
  case Nil
  then show ?case by (simp add: state_after_def)
next
  case (Cons a as)
  from Cons.prems obtain d1 c e where one: "append_one H a (head_chain d) d = (d1, Inr (c, e))"
    by (auto simp: sthen_def split: prod.splits sum.splits)
  from ledger_inv_append[OF Cons.prems(1) one] have inv: "ledger_inv H d1" and c: "c = head_chain d1" by simp_all
  from Cons.prems(2) one c obtain w1 where rest: "append_all H as (head_chain d1) d1 = (d', Inr w1)" "w = e # w1"
    by (auto simp: sthen_def sret_def split: prod.splits sum.splits)
  note IH = Cons.IH[OF inv rest(1)]
  note A = append_one_Inr[OF one below_autoinc_inv[OF Cons.prems(1)]]
  have n: "db_autoinc d = int (length (db_events d))" using Cons.prems(1) by (simp add: ledger_inv_def)
  have e: "written_for a e" "ev_globalSequence e = int (Suc (length (db_events d)))"
    using A n by (simp_all add: written_for_def final_envelope_def)
  have d1: "\<exists>r. db_events d1 = db_events d @ [r] \<and> er_envelope r = Some e"
      "db_outbox d1 = db_outbox d @ [pending_row e]" "db_idempotency d1 = db_idempotency d"
      "load_state d1 s = (if rq_stream_id a = s then Some (rq_state a) else load_state d s)" for s
    using A e n by (auto simp: pending_row_def load_state_def update_conv aggregate_after_def final_row_def Let_def)
  from d1(1) have len: "length (db_events d1) = Suc (length (db_events d))" by auto
  have "map ev_globalSequence w = map int [Suc (length (db_events d))..<Suc (length (db_events d) + length (a # as))]"
    using IH e(2) len rest(2) by (simp add: upt_conv_Cons del: upt_Suc)
  moreover have "\<exists>rows. db_events d' = db_events d @ rows \<and> map er_envelope rows = map Some w"
  proof -
    from d1(1) IH obtain r rows where "db_events d1 = db_events d @ [r]" "er_envelope r = Some e"
        "db_events d' = db_events d1 @ rows" "map er_envelope rows = map Some w1" by blast
    then have "db_events d' = db_events d @ (r # rows) \<and> map er_envelope (r # rows) = map Some w" using rest(2) by simp
    then show ?thesis by blast
  qed
  ultimately show ?case using IH d1(2-4) e(1) rest(2) by (simp add: state_after_def)
qed

lemma read_all_inv: "ledger_inv H d \<Longrightarrow> read_events d 0 = opened (db_events d)"
proof -
  assume inv: "ledger_inv H d"
  have "er_sequence r > 0" if "r \<in> set (db_events d)" for r
  proof -
    have "er_sequence r \<in> set (map er_sequence (db_events d))" using that by simp
    then have "er_sequence r \<in> set (map int [1..<Suc (length (db_events d))])" using inv by (simp only: ledger_inv_def)
    then show ?thesis by auto
  qed
  then show ?thesis by (simp add: read_events_def event_rows_inv[OF inv])
qed

text \<open>
  C6. a command is atomic. Whatever has happened to the store, an error leaves it as it was;
  success on a new key writes one event per request, each at the version its author expected
  and with the next contiguous sequence numbers, moves every aggregate to its last state,
  queues every event and records the outcome under the key; a known key changes nothing.
\<close>

theorem commit_atomic:
  assumes "commit_command H as key fp cid (after_ops H ops empty_db) = (d', res)"
  defines "d \<equiv> after_ops H ops empty_db"
  shows "case res of
      Inl e \<Rightarrow> d' = d
    | Inr r \<Rightarrow> if idempotent_result d key \<noteq> None then d' = d
        else (\<exists>written. list_all2 written_for as written \<and> r = result_of cid written
            \<and> read_events d' 0 = read_events d 0 @ written
            \<and> cr_globalSequences r = map int [Suc (length (db_events d))..<Suc (length (db_events d) + length as)]
            \<and> (\<forall>s. load_state d' s = state_after as s (load_state d s))
            \<and> db_outbox d' = db_outbox d @ map pending_row written
            \<and> idempotent_result d' key = Some r)"
  using assms(1)[folded d_def]
proof (cases rule: commit_command_cases)
  case (known prior)
  then show ?thesis by (auto simp: idempotent_result_def split: sum.split)
next
  case (failed e)
  then show ?thesis by simp
next
  case (applied d1 written)
  have inv: "ledger_inv H d" by (simp add: d_def ledger_inv_after ledger_inv_empty)
  note E = append_all_effect[OF inv applied(2)]
  have same: "same_ledger d1 d'" by (simp add: applied(5) same_ledger_def)
  then have inv': "ledger_inv H d'" using ledger_inv_same ledger_inv_append_all[OF inv applied(2)] by blast
  obtain rows where rows: "db_events d' = db_events d @ rows" "map er_envelope rows = map Some written"
    using E same by (auto simp: same_ledger_def)
  have "opened rows = map the (map er_envelope rows)" by (simp add: opened_def)
  then have "opened rows = written" by (simp add: rows(2))
  then have "read_events d' 0 = read_events d 0 @ written"
    by (simp add: read_all_inv[OF inv] read_all_inv[OF inv'] rows(1) opened_def)
  moreover have "load_state d' s = load_state d1 s" for s using same by (simp add: same_ledger_def load_state_def)
  moreover have "db_outbox d' = db_outbox d1" by (simp add: applied(5))
  moreover have "idempotent_result d' key = Some (result_of cid written)"
    using applied(4) by (simp add: applied(5) idempotent_result_def map_add_def)
  moreover have "idempotent_result d key = None" using applied(1) by (simp add: idempotent_result_def)
  moreover have "map ev_globalSequence written = map int [Suc (length (db_events d))..<Suc (length (db_events d) + length as)]"
    using E by blast
  moreover have "list_all2 written_for as written" "\<And>s. load_state d1 s = state_after as s (load_state d s)"
      "db_outbox d1 = db_outbox d @ map pending_row written" using E by blast+
  ultimately show ?thesis unfolding applied(3) sum.case by (simp add: result_of_def)
qed

definition w_hashing :: "(int, int) hashing" where
  "w_hashing = \<lparr>hs_sha = (\<lambda>x. ''ab''), hs_payload = (\<lambda>p. str_int p), hs_state = (\<lambda>s. str_int s), hs_validate = (\<lambda>e. [])\<rparr>"

definition w_request :: "string \<Rightarrow> string \<Rightarrow> int \<Rightarrow> int \<Rightarrow> (int, int) append_request" where
  "w_request event_id stream expected p = \<lparr>rq_stream_id = stream, rq_kind = ''Counter'', rq_expected_version = expected,
     rq_envelope = \<lparr>ev_eventId = event_id, ev_streamId = stream, ev_streamVersion = 0, ev_globalSequence = 0,
       ev_eventType = ''Added'', ev_schemaVersion = ''1'', ev_payload = p, ev_payloadDigest = [], ev_occurredAt = [], ev_rest = []\<rparr>,
     rq_state = p\<rparr>"

definition w_commit :: "(int, int, unit, unit) store_op" where
  "w_commit = Commit [w_request ''e1'' ''s'' 0 5, w_request ''e2'' ''t'' 0 6] ''k'' ''f'' ''c''"

definition w_next :: "(int, int, unit) db \<times> command_result res" where
  "w_next = commit_command w_hashing [w_request ''e3'' ''s'' 1 7] ''k2'' ''f2'' ''c2'' (after_ops w_hashing [w_commit] empty_db)"

lemma commit_atomic_witness:
  "\<exists>written. list_all2 written_for [w_request ''e3'' ''s'' 1 7] written
     \<and> cr_globalSequences (projr (snd w_next)) = [3] \<and> load_state (fst w_next) ''s'' = Some 7"
proof -
  have eq: "commit_command w_hashing [w_request ''e3'' ''s'' 1 7] ''k2'' ''f2'' ''c2'' (after_ops w_hashing [w_commit] empty_db)
      = (fst w_next, snd w_next)" by (simp add: w_next_def)
  have "isl (snd w_next) = False" by code_simp
  then obtain r where ok: "snd w_next = Inr r" by (cases "snd w_next") auto
  have new: "idempotent_result (after_ops w_hashing [w_commit] empty_db) ''k2'' = None" by code_simp
  have len: "length (db_events (after_ops w_hashing [w_commit] empty_db)) = 2" by code_simp
  from commit_atomic[OF eq, unfolded ok sum.case new] len
  obtain written where "list_all2 written_for [w_request ''e3'' ''s'' 1 7] written"
      "cr_globalSequences r = map int [Suc 2..<Suc (2 + length [w_request ''e3'' ''s'' 1 7])]"
      "load_state (fst w_next) ''s'' = state_after [w_request ''e3'' ''s'' 1 7] ''s'' (load_state (after_ops w_hashing [w_commit] empty_db) ''s'')"
    by auto
  then show ?thesis by (intro exI[of _ written]) (simp add: ok state_after_def w_request_def upt_conv_Cons)
qed

section \<open>The ledger always verifies\<close>

lemma verify_rows_versions:
  "verify_rows H c seen rs = Inr c' \<Longrightarrow>
     map er_stream_version (filter (\<lambda>r. er_stream_id r = s) rs)
       = map (\<lambda>i. seen_at seen s + 1 + int i) [0..<length (filter (\<lambda>r. er_stream_id r = s) rs)]"
proof (induction rs arbitrary: c seen)
  case (Cons r rs)
  from Cons.prems obtain e where e: "er_envelope r = Some e" by (cases "er_envelope r") auto
  from Cons.prems e have v: "er_stream_version r = seen_at seen (er_stream_id r) + 1"
    and rest: "\<exists>c. verify_rows H c (AList.update (er_stream_id r) (er_stream_version r) seen) rs = Inr c'"
    by (auto simp: Let_def seen_at_def)
  from rest Cons.IH have IH: "map er_stream_version (filter (\<lambda>r. er_stream_id r = s) rs)
      = map (\<lambda>i. (if s = er_stream_id r then er_stream_version r else seen_at seen s) + 1 + int i)
          [0..<length (filter (\<lambda>r. er_stream_id r = s) rs)]"
    by fastforce
  show ?case
  proof (cases "er_stream_id r = s")
    case True
    then show ?thesis using IH v by (simp add: upt_conv_Cons map_Suc_upt[symmetric] comp_def add.assoc del: upt_Suc)
  qed (use IH in simp)
qed simp

lemma stream_versions_inv:
  assumes "ledger_inv H d"
  shows "map ev_streamVersion (read_stream d s) = map int [1..<Suc (nat (aggregate_version d s))]"
proof -
  let ?rs = "stream_rows d s"
  have v: "map er_stream_version ?rs = map int [1..<Suc (length ?rs)]"
  proof -
    have "verify_rows H GENESIS_CHAIN [] (db_events d) = Inr (head_chain d)" using assms by (simp add: ledger_inv_def)
    from verify_rows_versions[OF this, of s] have "map er_stream_version ?rs = map (\<lambda>i. 1 + int i) [0..<length ?rs]"
      by (simp add: stream_rows_def seen_at_def)
    also have "\<dots> = map int (map Suc [0..<length ?rs])" by simp
    finally show ?thesis by (simp only: map_Suc_upt One_nat_def)
  qed
  have "sort_key er_stream_version ?rs = ?rs"
    by (rule sort_key_id_if_sorted) (simp add: v sorted_map del: upt_Suc)
  moreover have "ev_streamVersion (the (er_envelope r)) = er_stream_version r" if "r \<in> set ?rs" for r
  proof -
    have "envelope_matches H r" using that assms by (simp add: ledger_inv_def list_all_iff stream_rows_def)
    then show ?thesis by (auto simp: envelope_matches_def)
  qed
  moreover have "aggregate_version d s = int (length ?rs)" using assms by (simp add: ledger_inv_def)
  ultimately show ?thesis using v
    by (simp add: read_stream_def opened_def stream_rows_def[symmetric] comp_def cong: map_cong)
qed

lemma global_sequences_inv:
  assumes "ledger_inv H d"
  shows "map ev_globalSequence (read_events d 0) = map int [1..<Suc (length (db_events d))]"
proof -
  have "ev_globalSequence (the (er_envelope r)) = er_sequence r" if "r \<in> set (db_events d)" for r
  proof -
    have "envelope_matches H r" using that assms by (simp add: ledger_inv_def list_all_iff)
    then show ?thesis by (auto simp: envelope_matches_def)
  qed
  then have "map ev_globalSequence (read_events d 0) = map er_sequence (db_events d)"
    by (simp add: read_all_inv[OF assms] opened_def)
  then show ?thesis using assms by (simp add: ledger_inv_def)
qed

text \<open>
  C11. from the empty store, after any operations, accepted or refused: the integrity check of
  the ledger passes and computes the head digest; the global sequence is 1, 2, 3, ... up to the
  head; and the versions of every stream are 1, 2, 3, ... up to the version of its aggregate.
\<close>

theorem ledger_always_verifies:
  "let d = after_ops H ops empty_db in
     verify_chain H d = Inr (head_chain d)
     \<and> map ev_globalSequence (read_events d 0) = map int [1..<Suc (nat (head_sequence d))]
     \<and> (\<forall>s. map ev_streamVersion (read_stream d s) = map int [1..<Suc (nat (aggregate_version d s))])"
proof -
  define d where "d = after_ops H ops empty_db"
  have inv: "ledger_inv H d" by (simp add: d_def ledger_inv_after ledger_inv_empty)
  have "verify_chain H d = Inr (head_chain d)"
    unfolding verify_chain_def event_rows_inv[OF inv] using inv by (simp add: ledger_inv_def)
  moreover have "head_sequence d = int (length (db_events d))"
  proof (cases "db_events d")
    case (Cons r rs)
    have "er_sequence ` set (db_events d) = set (map int [1..<Suc (length (db_events d))])"
      using inv unfolding ledger_inv_def by (metis set_map)
    also have "\<dots> = int ` {1..length (db_events d)}" by (simp add: atLeastLessThanSuc_atLeastAtMost del: upt_Suc)
    finally have "Max (er_sequence ` set (db_events d)) = Max (int ` {1..length (db_events d)})" by simp
    also have "\<dots> = int (length (db_events d))"
    proof (rule Max_eqI)
      show "int (length (db_events d)) \<in> int ` {1..length (db_events d)}" using Cons by (intro imageI) simp
    qed auto
    finally show ?thesis using Cons by (simp add: head_sequence_def)
  qed (simp add: head_sequence_def)
  ultimately show ?thesis
    using stream_versions_inv[OF inv] global_sequences_inv[OF inv] by (simp add: d_def[symmetric] Let_def)
qed

section \<open>A key is executed once\<close>

definition keeps_row :: "string \<Rightarrow> idem_row \<Rightarrow> ('p, 's, 'm) db \<Rightarrow> bool" where
  "keeps_row key row d \<longleftrightarrow> map_of (db_idempotency d) key = Some row"

lemma keeps_row_transaction:
  "keeps_row key row d \<Longrightarrow> keeps_row key row (fst (body d)) \<Longrightarrow> keeps_row key row (fst (transaction body d))"
  using fst_transaction[of body d] by metis

lemma keeps_row_insert: "keeps_row key row d \<Longrightarrow> keeps_row key row (fst (insert_idempotency k r d))"
  by (auto simp: keeps_row_def insert_idempotency_def map_add_Some_iff)

lemma keeps_row_frame: "keeps_row key row d \<Longrightarrow> db_idempotency d' = db_idempotency d \<Longrightarrow> keeps_row key row d'"
  by (simp add: keeps_row_def)

definition same_keys :: "('p, 's, 'm) db \<Rightarrow> ('p, 's, 'm) db \<Rightarrow> bool" where
  "same_keys d d' \<longleftrightarrow> db_idempotency d' = db_idempotency d"

lemma same_keys_transaction: "same_keys d (fst (body d)) \<Longrightarrow> same_keys d (fst (transaction body d))"
  using fst_transaction[of body d] by (metis same_keys_def)

lemma same_keys_dispatch: "same_keys d (fst (dispatch_ids hs is d w n))"
proof (induction "is" arbitrary: d w n)
  case (Cons i "is")
  have "same_keys d d'" if "same_keys (mark_dispatched i d) d'" for d'
    using that by (simp add: same_keys_def mark_dispatched_def)
  with Cons.IH show ?case by (auto simp: same_keys_def split: option.split prod.split sum.split)
qed (simp add: same_keys_def)

lemma other_ops_keep_keys:
  assumes "\<And>as k fp cid. op \<noteq> Commit as k fp cid" "\<And>k fp cid. op \<noteq> Claim k fp cid" "\<And>k fp r. op \<noteq> Complete k fp r"
  shows "same_keys d (store_exec H op d)"
proof (cases op)
  case (SaveCheckpoint i m g n)
  show ?thesis unfolding SaveCheckpoint store_exec.simps save_checkpoint_def
    by (rule same_keys_transaction) (simp add: same_keys_def)
next
  case (Diagnostic i r)
  show ?thesis
  proof (cases "starts_with i ''dr-''")
    case True
    show ?thesis unfolding Diagnostic store_exec.simps store_provider_failure_diagnostic_def
      using True by (simp, intro same_keys_transaction) (simp add: same_keys_def split: option.split)
  qed (simp add: Diagnostic store_provider_failure_diagnostic_def same_keys_def)
next
  case (Rejection c i k x ip a t)
  show ?thesis unfolding Rejection store_exec.simps record_security_rejection_def
    by (rule same_keys_transaction) (simp add: same_keys_def)
next
  case (CouncilBegin i s c ms t)
  show ?thesis
  proof (cases "i = [] \<or> length i > 128")
    case False
    then show ?thesis unfolding CouncilBegin store_exec.simps begin_council_receipt_def if_not_P[OF False]
      by (intro same_keys_transaction) (simp add: same_keys_def Let_def split: option.split)
  qed (simp add: CouncilBegin begin_council_receipt_def same_keys_def)
next
  case (CouncilMember i m t)
  show ?thesis unfolding CouncilMember store_exec.simps record_council_member_receipt_def
    by (rule same_keys_transaction)
       (auto simp: Let_def same_keys_def split: option.split sum.split list.split)
next
  case (Dispatch hs w)
  then show ?thesis by (simp add: dispatch_def same_keys_dispatch)
qed (use assms in simp_all)

lemma recorded_stays:
  assumes inv: "ledger_inv H d" and row: "keeps_row key row d" and other: "\<And>fp r. op \<noteq> Complete key fp r"
  shows "keeps_row key row (store_exec H op d)"
proof (cases op)
  case (Commit as k fp cid)
  obtain d' res where c: "commit_command H as k fp cid d = (d', res)" by force
  from c have "keeps_row key row d'"
  proof (cases rule: commit_command_cases)
    case (applied d1 written)
    have "db_idempotency d1 = db_idempotency d" using append_all_effect[OF inv applied(2)] by blast
    then show ?thesis using row applied(1) by (auto simp: applied(5) keeps_row_def map_add_Some_iff)
  qed (use row in simp_all)
  with c show ?thesis by (simp add: Commit)
next
  case (Claim k fp cid)
  have kept: "keeps_row key row d1" if "insert_idempotency k x d = (d1, y)" for x d1 y
    using keeps_row_insert[OF row, of k x] that by simp
  show ?thesis unfolding Claim store_exec.simps claim_command_def
    by (rule keeps_row_transaction[OF row])
       (use row in \<open>auto simp: Let_def sthen_def sret_def dest: kept split: option.split prod.splits sum.splits\<close>)
next
  case (Complete k fp r)
  with other have "k \<noteq> key" by auto
  show ?thesis unfolding Complete store_exec.simps complete_claimed_command_def
    by (rule keeps_row_transaction[OF row])
       (use row \<open>k \<noteq> key\<close> in \<open>auto simp: keeps_row_def update_conv split: option.split\<close>)
qed (use other_ops_keep_keys[of op d H] keeps_row_frame[OF row] in \<open>simp_all add: same_keys_def\<close>)

lemma recorded_stays_after:
  "ledger_inv H d \<Longrightarrow> keeps_row key row d \<Longrightarrow> (\<And>fp r. Complete key fp r \<notin> set ops) \<Longrightarrow>
     keeps_row key row (after_ops H ops d)"
proof (induction ops arbitrary: d)
  case (Cons op ops)
  have op: "op \<noteq> Complete key fp r" and ops: "Complete key fp r \<notin> set ops" for fp r using Cons.prems(3) by auto
  from Cons.IH[OF ledger_inv_exec[OF Cons.prems(1)] recorded_stays[OF Cons.prems(1,2) op] ops] show ?case by simp
qed simp

text \<open>
  C10. an idempotency key is executed once. After a command succeeds under a key, whatever else is
  done to the store except completing a claim on that key, repeating the key with the
  fingerprint changes nothing and returns the recorded outcome marked as a replay, whatever the
  new requests say; another fingerprint is refused and changes nothing.
\<close>

theorem key_executed_once:
  assumes "commit_command H as key fp cid (after_ops H before empty_db) = (d, Inr r)"
    and "\<And>f x. Complete key f x \<notin> set between"
  defines "later \<equiv> after_ops H between d"
  shows "commit_command H as' key fp cid' later = (later, Inr (r\<lparr>cr_status := ''idempotent'', cr_replayed := True\<rparr>))
    \<and> (fp' \<noteq> fp \<longrightarrow> (\<exists>m. commit_command H as' key fp' cid' later = (later, Inl (IdempotencyConflict m))))"
proof -
  let ?start = "after_ops H before empty_db"
  have start: "ledger_inv H ?start" by (simp add: ledger_inv_after ledger_inv_empty)
  have inv: "ledger_inv H d" by (rule ledger_inv_commit[OF start assms(1)])
  from assms(1) obtain row where row: "keeps_row key row d" "ir_fingerprint row = fp"
      "(ir_result row)\<lparr>cr_status := ''idempotent'', cr_replayed := True\<rparr> = r\<lparr>cr_status := ''idempotent'', cr_replayed := True\<rparr>"
  proof (cases rule: commit_command_cases)
    case (known prior)
    then have "ir_fingerprint prior = fp" "r = (ir_result prior)\<lparr>cr_status := ''idempotent'', cr_replayed := True\<rparr>"
      by (auto simp: replayed_result_def split: if_splits)
    with known that[of prior] show ?thesis by (simp add: keeps_row_def)
  next
    case (applied d1 written)
    show ?thesis
      by (rule that[of "\<lparr>ir_fingerprint = fp, ir_command_id = cid, ir_result = result_of cid written,
            ir_sequence = (if written = [] then None else Some (ev_globalSequence (last written)))\<rparr>"])
         (use applied(3,4) in \<open>simp_all add: applied(5) keeps_row_def map_add_def\<close>)
  qed simp
  have "keeps_row key row later"
    unfolding later_def by (rule recorded_stays_after[OF inv row(1) assms(2)])
  then show ?thesis using row(2,3) by (simp add: commit_command_def keeps_row_def replayed_result_def)
qed

lemma key_executed_once_witness:
  "\<exists>r later. commit_command w_hashing [w_request ''e9'' ''u'' 0 1] ''k2'' ''f2'' ''c9'' (later :: (int, int, unit) db)
     = (later, Inr (r\<lparr>cr_status := ''idempotent'', cr_replayed := True\<rparr>)) \<and> cr_globalSequences r = [3]"
proof -
  have "isl (snd w_next) = False" by code_simp
  then obtain r where ok: "snd w_next = Inr r" by (cases "snd w_next") auto
  have "cr_globalSequences (projr (snd w_next)) = [3]" by code_simp
  with ok have g: "cr_globalSequences r = [3]" by simp
  have "commit_command w_hashing [w_request ''e3'' ''s'' 1 7] ''k2'' ''f2'' ''c2'' (after_ops w_hashing [w_commit] empty_db)
      = (fst w_next, Inr r)" using ok by (simp add: w_next_def prod_eq_iff)
  from key_executed_once[OF this, of "[Claim ''k3'' ''f3'' ''c3'' :: (int, int, unit, unit) store_op]"
      "[w_request ''e9'' ''u'' 0 1]" "''c9''"] g
  show ?thesis by auto
qed

section \<open>Tampering\<close>

type_synonym link = "string \<times> string"

definition link_of :: "'p event_row \<Rightarrow> link" where
  "link_of r = (er_payload_digest r, er_event_id r)"

definition chain_input :: "string \<Rightarrow> link \<Rightarrow> string" where
  "chain_input c l = c @ ''|'' @ fst l @ ''|'' @ snd l"

definition chain_over :: "(string \<Rightarrow> string) \<Rightarrow> link list \<Rightarrow> string" where
  "chain_over sha ls = fold (\<lambda>l c. chain_next sha c (fst l) (snd l)) ls GENESIS_CHAIN"

text \<open>Every string hashed while the chain over the links is computed.\<close>

definition hashed_inputs :: "(string \<Rightarrow> string) \<Rightarrow> link list \<Rightarrow> string list" where
  "hashed_inputs sha ls = map (\<lambda>k. chain_input (chain_over sha (take k ls)) (ls ! k)) [0..<length ls]"

lemma chain_over_simps [simp]:
  "chain_over sha [] = GENESIS_CHAIN"
  "chain_over sha (ls @ [l]) = ''sha256:'' @ sha (chain_input (chain_over sha ls) l)"
  by (simp_all add: chain_over_def chain_next_def chain_input_def)

lemma hashed_inputs_simps [simp]:
  "hashed_inputs sha [] = []"
  "hashed_inputs sha (ls @ [l]) = hashed_inputs sha ls @ [chain_input (chain_over sha ls) l]"
  by (auto simp: hashed_inputs_def nth_append)

lemma split_at_bar:
  "a @ CHR ''|'' # x = b @ CHR ''|'' # y \<Longrightarrow> CHR ''|'' \<notin> set a \<Longrightarrow> CHR ''|'' \<notin> set b \<Longrightarrow> a = b \<and> x = y"
proof (induction a arbitrary: b)
  case Nil
  then show ?case by (cases b) auto
next
  case (Cons c a)
  then show ?case by (cases b) auto
qed

definition no_bar :: "string \<Rightarrow> bool" where
  "no_bar s \<longleftrightarrow> CHR ''|'' \<notin> set s"

lemma chain_input_inj:
  assumes "chain_input c l = chain_input c' l'" and "no_bar c" "no_bar c'" "no_bar (fst l)" "no_bar (fst l')"
  shows "c = c' \<and> l = l'"
proof -
  from assms(1) have "c @ CHR ''|'' # fst l @ CHR ''|'' # snd l = c' @ CHR ''|'' # fst l' @ CHR ''|'' # snd l'"
    by (simp add: chain_input_def)
  from split_at_bar[OF this] assms(2,3) have 1: "c = c'" "fst l @ CHR ''|'' # snd l = fst l' @ CHR ''|'' # snd l'"
    by (simp_all add: no_bar_def)
  from split_at_bar[OF 1(2)] assms(4,5) have "fst l = fst l'" "snd l = snd l'" by (simp_all add: no_bar_def)
  with 1(1) show ?thesis by (simp add: prod_eq_iff)
qed

lemma no_bar_chain:
  assumes "\<And>x. no_bar (sha x)" shows "no_bar (chain_over sha ls)"
  using assms by (cases ls rule: rev_cases) (auto simp: no_bar_def GENESIS_CHAIN_def)

lemma chain_collision:
  assumes clean: "\<And>x. no_bar (sha x)"
  shows "chain_over sha ls = chain_over sha ms \<Longrightarrow> list_all (\<lambda>l. no_bar (fst l)) ls \<Longrightarrow> list_all (\<lambda>l. no_bar (fst l)) ms \<Longrightarrow>
     ls = ms
     \<or> (\<exists>x\<in>set (hashed_inputs sha ls). \<exists>y\<in>set (hashed_inputs sha ms). x \<noteq> y \<and> sha x = sha y)
     \<or> (\<exists>x\<in>set (hashed_inputs sha ls @ hashed_inputs sha ms). ''sha256:'' @ sha x = GENESIS_CHAIN)"
proof (induction ls arbitrary: ms rule: rev_induct)
  case Nil
  show ?case
  proof (cases ms rule: rev_cases)
    case (snoc ms' m)
    with Nil(1) show ?thesis by (intro disjI2) (simp add: eq_commute)
  qed simp
next
  case (snoc l ls)
  show ?case
  proof (cases ms rule: rev_cases)
    case Nil
    with snoc(2) show ?thesis by (intro disjI2) simp
  next
    case (snoc ms' m)
    let ?x = "chain_input (chain_over sha ls) l" and ?y = "chain_input (chain_over sha ms') m"
    from snoc.prems(1) snoc have eq: "sha ?x = sha ?y" by simp
    show ?thesis
    proof (cases "?x = ?y")
      case False
      with eq snoc show ?thesis by simp
    next
      case True
      from snoc.prems(2,3) snoc have bars: "no_bar (fst l)" "no_bar (fst m)"
          "list_all (\<lambda>l. no_bar (fst l)) ls" "list_all (\<lambda>l. no_bar (fst l)) ms'" by simp_all
      from chain_input_inj[OF True no_bar_chain[OF clean] no_bar_chain[OF clean] bars(1,2)]
      have "chain_over sha ls = chain_over sha ms'" "l = m" by simp_all
      with snoc.IH[OF this(1) bars(3,4)] snoc show ?thesis by auto
    qed
  qed
qed

lemma verify_rows_chain:
  "verify_rows H c seen rs = Inr h \<Longrightarrow>
     h = fold (\<lambda>l c. chain_next (hs_sha H) c (fst l) (snd l)) (map link_of rs) c
     \<and> map (\<lambda>e. hs_payload H (ev_payload e)) (opened rs) = map er_payload_digest rs"
proof (induction rs arbitrary: c seen)
  case (Cons r rs)
  then obtain e where "er_envelope r = Some e" by (cases "er_envelope r") auto
  with Cons show ?case by (auto simp: Let_def opened_def link_of_def)
qed (simp add: opened_def)


text \<open>An injective stand-in for the digests: every ledger with the head of this one is this one.\<close>

definition w_sha :: "string \<Rightarrow> string" where
  "w_sha s = concat (map (\<lambda>c. if c = CHR ''|'' then ''!!'' else [c, CHR ''?'']) s)"

definition w_unary :: "int \<Rightarrow> string" where
  "w_unary p = (if p < 0 then CHR ''-'' else CHR ''+'') # replicate (nat \<bar>p\<bar>) (CHR ''1'')"

definition w_exact :: "(int, int) hashing" where
  "w_exact = w_hashing\<lparr>hs_sha := w_sha, hs_payload := w_unary\<rparr>"

lemma w_sha_inj: "w_sha x = w_sha y \<Longrightarrow> x = y"
proof (induction x arbitrary: y)
  case Nil
  then show ?case by (cases y) (auto simp: w_sha_def split: if_splits)
next
  case (Cons c x)
  then obtain b y' where y: "y = b # y'" by (cases y) (auto simp: w_sha_def split: if_splits)
  with Cons.prems have "w_sha x = w_sha y'" "c = b" by (auto simp: w_sha_def split: if_splits)
  with Cons.IH y show ?case by simp
qed

lemma w_sha_second: "w_sha x = c # b # s \<Longrightarrow> b = CHR ''?'' \<or> b = CHR ''!''"
  by (cases x) (auto simp: w_sha_def split: if_splits)

lemma w_unary_inj: "w_unary p = w_unary q \<Longrightarrow> p = q"
  by (auto simp: w_unary_def replicate_eq_replicate split: if_splits)


section \<open>What the chain does not cover\<close>

definition rewrite_metadata :: "string \<Rightarrow> string \<Rightarrow> dict \<Rightarrow> 'p event_row \<Rightarrow> 'p event_row" where
  "rewrite_metadata event_type occurred_at rest r = r\<lparr>er_event_type := event_type,
     er_envelope := map_option (\<lambda>e. e\<lparr>ev_eventType := event_type, ev_occurredAt := occurred_at, ev_rest := rest\<rparr>) (er_envelope r)\<rparr>"

lemma verify_rows_metadata:
  "verify_rows H c seen (map (rewrite_metadata t w x) rs) = verify_rows H c seen rs"
  by (induction rs arbitrary: c seen) (auto simp: rewrite_metadata_def Let_def split: option.split)

lemma bnd_raise_if: "bnd (raise_if c e k) f = raise_if c e (bnd k f)"
  by (simp add: raise_if_def)

lemma verify_rows_append:
  "\<exists>seen'. verify_rows H c seen (rs @ ts) = bnd (verify_rows H c seen rs) (\<lambda>c'. verify_rows H c' seen' ts)"
proof (induction rs arbitrary: c seen)
  case (Cons r rs)
  show ?case
  proof (cases "er_envelope r")
    case (Some e)
    let ?c = "chain_next (hs_sha H) c (er_payload_digest r) (er_event_id r)"
    from Cons.IH[of ?c "AList.update (er_stream_id r) (er_stream_version r) seen"] obtain seen' where
      "verify_rows H ?c (AList.update (er_stream_id r) (er_stream_version r) seen) (rs @ ts)
        = bnd (verify_rows H ?c (AList.update (er_stream_id r) (er_stream_version r) seen) rs) (\<lambda>c'. verify_rows H c' seen' ts)"
      by blast
    then show ?thesis
      by (intro exI[of _ seen']) (simp only: append_Cons verify_rows.simps Some option.case Let_def bnd_raise_if)
  qed simp
qed auto

text \<open>
  The limits of the integrity check. Only the payload digest and the event id enter the
  chain, so the type, the time, the actor and every other envelope field of all events can be
  rewritten without changing what the check computes; and the check of a ledger is the check of
  any prefix followed by that of the rest, so a ledger whose last events were cut off verifies
  as well, with another head: only a recorded head tells of a truncation.
\<close>

theorem chain_limits:
  "verify_rows H c seen (map (rewrite_metadata t w x) rs) = verify_rows H c seen rs
   \<and> (\<exists>seen'. verify_rows H c seen (rs @ ts) = bnd (verify_rows H c seen rs) (\<lambda>c'. verify_rows H c' seen' ts))"
  by (intro conjI verify_rows_metadata verify_rows_append)

section \<open>Dispatch\<close>

text \<open>What delivering a list of events, one after the other, does to the world.\<close>

fun deliver_all :: "('p, 'w) handler list \<Rightarrow> 'p envelope list \<Rightarrow> 'w \<Rightarrow> 'w \<times> unit res" where
  "deliver_all hs [] w = (w, Inr ())"
| "deliver_all hs (e # es) w = (case deliver hs e w of (w', Inl x) \<Rightarrow> (w', Inl x) | (w', Inr _) \<Rightarrow> deliver_all hs es w')"

definition pending_events :: "('p, 's, 'm) db \<Rightarrow> 'p envelope list" where
  "pending_events d = filter (\<lambda>e. ev_eventId e \<in> set (pending_outbox d)) (read_events d 0)"

definition mark_all :: "string list \<Rightarrow> ('p, 's, 'm) db \<Rightarrow> ('p, 's, 'm) db" where
  "mark_all is d = fold mark_dispatched is d"

definition row_of :: "('p, 's, 'm) db \<Rightarrow> string \<Rightarrow> 'p envelope \<Rightarrow> bool" where
  "row_of d i e \<longleftrightarrow> (\<exists>r. find (\<lambda>r. er_event_id r = i) (db_events d) = Some r \<and> er_envelope r = Some e)"

lemma mark_events [simp]: "db_events (mark_dispatched i d) = db_events d"
  by (simp add: mark_dispatched_def)

lemma dispatch_ids_spec:
  assumes "list_all2 (row_of d) is es"
    and "dispatch_ids hs is d w n = (d', w', res)"
  shows "\<exists>k\<le>length is. d' = mark_all (take k is) d \<and> (case res of
       Inr m \<Rightarrow> k = length is \<and> m = n + int k \<and> deliver_all hs es w = (w', Inr ())
     | Inl x \<Rightarrow> k < length is \<and> (\<exists>w1. deliver_all hs (take k es) w = (w1, Inr ()) \<and> deliver hs (es ! k) w1 = (w', Inl x)))"
  using assms
proof (induction "is" arbitrary: es d w n)
  case Nil
  then show ?case by (auto simp: mark_all_def)
next
  case (Cons i "is")
  from Cons.prems(1) obtain e es' r where es: "es = e # es'" and r: "find (\<lambda>r. er_event_id r = i) (db_events d) = Some r" "er_envelope r = Some e"
    and rest: "list_all2 (row_of (mark_dispatched i d)) is es'"
    by (cases es) (auto simp: row_of_def[abs_def])
  obtain w1 y where del: "deliver hs e w = (w1, y)" by force
  show ?case
  proof (cases y)
    case (Inl x)
    with Cons.prems(2) r del have "d' = d" "w' = w1" "res = Inl x" by auto
    then show ?thesis using es del Inl by (intro exI[of _ 0]) (simp add: mark_all_def)
  next
    case (Inr u)
    with Cons.prems(2) r del have "dispatch_ids hs is (mark_dispatched i d) w1 (n + 1) = (d', w', res)" by simp
    note next_run = this
    note IH = Cons.IH[OF rest]
    from IH[OF next_run] obtain k where k: "k \<le> length is" "d' = mark_all (take k is) (mark_dispatched i d)"
      and out: "case res of Inr m \<Rightarrow> k = length is \<and> m = n + 1 + int k \<and> deliver_all hs es' w1 = (w', Inr ())
        | Inl x \<Rightarrow> k < length is \<and> (\<exists>w2. deliver_all hs (take k es') w1 = (w2, Inr ()) \<and> deliver hs (es' ! k) w2 = (w', Inl x))"
      by blast
    show ?thesis
    proof (intro exI[of _ "Suc k"] conjI)
      show "d' = mark_all (take (Suc k) (i # is)) d" using k(2) by (simp add: mark_all_def)
      show "case res of Inr m \<Rightarrow> Suc k = length (i # is) \<and> m = n + int (Suc k) \<and> deliver_all hs es w = (w', Inr ())
        | Inl x \<Rightarrow> Suc k < length (i # is) \<and> (\<exists>w1. deliver_all hs (take (Suc k) es) w = (w1, Inr ()) \<and> deliver hs (es ! Suc k) w1 = (w', Inl x))"
        using out es del Inr by (cases res) auto
    qed (use k(1) in simp)
  qed
qed

lemma filter_image:
  "distinct (map f xs) \<Longrightarrow> filter (\<lambda>y. y \<in> f ` set (filter p xs)) (map f xs) = map f (filter p xs)"
  unfolding filter_map comp_def
  by (rule arg_cong[where f = "map f"], rule filter_cong) (auto simp: distinct_map dest: inj_onD)

lemma pending_outbox_inv:
  assumes "ledger_inv H d"
  shows "pending_outbox d = map ob_event_id (filter (\<lambda>b. ob_status b = ''pending'') (db_outbox d))"
proof -
  have "map ob_sequence (db_outbox d) = map int [1..<Suc (length (db_events d))]"
    using assms unfolding ledger_inv_def by metis
  then have "sorted (map ob_sequence (db_outbox d))" by (simp add: sorted_map del: upt_Suc)
  then have "sorted (map ob_sequence (filter (\<lambda>b. ob_status b = ''pending'') (db_outbox d)))" by (rule sorted_filter)
  then show ?thesis by (simp add: pending_outbox_def sort_key_id_if_sorted)
qed

lemma pending_mark:
  assumes "ledger_inv H d"
  shows "pending_outbox (mark_dispatched i d) = filter (\<lambda>j. j \<noteq> i) (pending_outbox d)"
proof -
  have "map ob_event_id (filter (\<lambda>b. ob_status b = ''pending'') (map (\<lambda>b. if ob_event_id b = i
      then b\<lparr>ob_status := ''dispatched'', ob_attempts := ob_attempts b + 1\<rparr> else b) bs))
    = filter (\<lambda>j. j \<noteq> i) (map ob_event_id (filter (\<lambda>b. ob_status b = ''pending'') bs))" for bs
    by (induction bs) auto
  then show ?thesis
    unfolding pending_outbox_inv[OF assms] pending_outbox_inv[OF ledger_inv_same[OF mark_keeps_ledger assms]]
    by (simp add: mark_dispatched_def)
qed

lemma pending_mark_all:
  "ledger_inv H d \<Longrightarrow> pending_outbox d = is @ js \<Longrightarrow> distinct (is @ js) \<Longrightarrow> pending_outbox (mark_all is d) = js"
proof (induction "is" arbitrary: d)
  case (Cons i "is")
  have "pending_outbox (mark_dispatched i d) = is @ js"
    unfolding pending_mark[OF Cons.prems(1)] Cons.prems(2) using Cons.prems(3)
    by (simp del: filter_append) (rule filter_True, auto)
  from Cons.IH[OF ledger_inv_same[OF mark_keeps_ledger Cons.prems(1)] this] Cons.prems(3) show ?case
    by (simp add: mark_all_def)
qed (simp add: mark_all_def)

lemma find_by_key: "distinct (map f xs) \<Longrightarrow> x \<in> set xs \<Longrightarrow> find (\<lambda>y. f y = f x) xs = Some x"
  by (induction xs) (auto simp: rev_image_eqI)

lemma pending_events_inv:
  assumes "ledger_inv H d"
  shows "map ev_eventId (pending_events d) = pending_outbox d"
    and "list_all2 (row_of d)
      (pending_outbox d) (pending_events d)"
    and "distinct (pending_outbox d)"
proof -
  define P where "P = (\<lambda>b :: outbox_row. ob_status b = ''pending'')"
  have ids: "map ob_event_id (db_outbox d) = map er_event_id (db_events d)" and dist: "distinct (map er_event_id (db_events d))"
    using assms by (simp_all add: ledger_inv_def)
  have row: "\<exists>e. er_envelope r = Some e \<and> ev_eventId e = er_event_id r" if "r \<in> set (db_events d)" for r
    using assms that by (auto simp: ledger_inv_def list_all_iff envelope_matches_def)
  have pend: "pending_outbox d = filter (\<lambda>y. y \<in> set (pending_outbox d)) (map er_event_id (db_events d))"
    using filter_image[of ob_event_id "db_outbox d" P] ids dist by (simp add: pending_outbox_inv[OF assms] P_def)
  define rs where "rs = filter (\<lambda>r. er_event_id r \<in> set (pending_outbox d)) (db_events d)"
  have evs: "pending_events d = map (\<lambda>r. the (er_envelope r)) rs"
  proof -
    have "filter (\<lambda>r. ev_eventId (the (er_envelope r)) \<in> set (pending_outbox d)) (db_events d) = rs"
      unfolding rs_def by (rule filter_cong) (use row in force)+
    then show ?thesis by (simp add: pending_events_def read_all_inv[OF assms] opened_def filter_map comp_def)
  qed
  have out: "pending_outbox d = map er_event_id rs"
    using pend unfolding rs_def filter_map comp_def .
  have rs: "set rs \<subseteq> set (db_events d)" by (auto simp: rs_def)
  show "map ev_eventId (pending_events d) = pending_outbox d"
    unfolding evs out map_map by (rule map_cong) (use row rs in force)+
  have found: "find (\<lambda>x. er_event_id x = er_event_id r) (db_events d) = Some r" if "r \<in> set rs" for r
  proof -
    from that rs have "r \<in> set (db_events d)" by blast
    with dist show ?thesis by (rule find_by_key)
  qed
  show "list_all2 (row_of d)
      (pending_outbox d) (pending_events d)"
    unfolding evs out list_all2_map1 list_all2_map2
    by (rule list.rel_refl_strong) (use found row rs in \<open>fastforce simp: row_of_def\<close>)
  have "distinct (map er_event_id rs)" unfolding rs_def by (rule distinct_map_filter[OF dist])
  then show "distinct (pending_outbox d)" by (simp only: out)
qed

text \<open>
  C35. dispatch delivers in order and at least once. Whatever has happened to the store, the
  pending entries name recorded events, in ledger order; a dispatch delivers exactly the first
  \<open>k\<close> of them, marks those and leaves the rest pending. It succeeds only when all are delivered
  (and reports how many); it fails only when a subscriber fails, and the event it failed on stays
  pending, to be delivered again.
\<close>

theorem dispatch_in_order:
  "let d = after_ops H ops empty_db; (d', w', res) = dispatch hs d w; es = pending_events d in
     map ev_eventId es = pending_outbox d
     \<and> (\<exists>k\<le>length es. pending_outbox d' = drop k (pending_outbox d) \<and> read_events d' 0 = read_events d 0
         \<and> (case res of
              Inr n \<Rightarrow> k = length es \<and> n = int k \<and> deliver_all hs es w = (w', Inr ())
            | Inl x \<Rightarrow> k < length es \<and> (\<exists>w1. deliver_all hs (take k es) w = (w1, Inr ()) \<and> deliver hs (es ! k) w1 = (w', Inl x))))"
proof -
  define d where "d = after_ops H ops empty_db"
  have inv: "ledger_inv H d" by (simp add: d_def ledger_inv_after ledger_inv_empty)
  obtain d' w' res where run: "dispatch hs d w = (d', w', res)" by (metis surj_pair)
  note P = pending_events_inv[OF inv]
  have len: "length (pending_events d) = length (pending_outbox d)" using P(1) by (metis length_map)
  from dispatch_ids_spec[OF P(2) run[unfolded dispatch_def]] obtain k where k: "k \<le> length (pending_outbox d)"
      "d' = mark_all (take k (pending_outbox d)) d"
    and out: "case res of
       Inr m \<Rightarrow> k = length (pending_outbox d) \<and> m = 0 + int k \<and> deliver_all hs (pending_events d) w = (w', Inr ())
     | Inl x \<Rightarrow> k < length (pending_outbox d) \<and> (\<exists>w1. deliver_all hs (take k (pending_events d)) w = (w1, Inr ())
         \<and> deliver hs (pending_events d ! k) w1 = (w', Inl x))"
    by blast
  have "pending_outbox d' = drop k (pending_outbox d)"
    unfolding k(2) by (rule pending_mark_all[OF inv]) (use P(3) in simp_all)
  moreover have "read_events d' 0 = read_events d 0"
  proof -
    have "db_events (mark_all is x) = db_events x" for "is" and x :: "('a, 'b, 'c) db"
      by (induction "is" arbitrary: x) (simp_all add: mark_all_def)
    then show ?thesis by (simp add: k(2) read_events_def event_rows_def)
  qed
  ultimately have "\<exists>k\<le>length (pending_events d). pending_outbox d' = drop k (pending_outbox d) \<and> read_events d' 0 = read_events d 0
         \<and> (case res of
              Inr n \<Rightarrow> k = length (pending_events d) \<and> n = int k \<and> deliver_all hs (pending_events d) w = (w', Inr ())
            | Inl x \<Rightarrow> k < length (pending_events d) \<and> (\<exists>w1. deliver_all hs (take k (pending_events d)) w = (w1, Inr ())
                \<and> deliver hs (pending_events d ! k) w1 = (w', Inl x)))"
    using k(1) out unfolding len[symmetric] by (intro exI[of _ k]) (simp split: sum.splits)
  with P(1) run show ?thesis by (simp add: d_def[symmetric] Let_def)
qed

end
