(* ===== verification/Council.thy ===== *)
theory Council
  imports Complex_Main Json
begin

text \<open>
  \<^verbatim>\<open>capt_runtime/council.py\<close> and \<^verbatim>\<open>aggregates/council_state.py\<close>: the topology of a Model
  Council (tiers, cohorts, logical vessels), its launch interlocks, the analysis of claims and
  the durable aggregate. \<^verbatim>\<open>CouncilValidationError\<close> is a \<^verbatim>\<open>ValueError\<close>; a \<^verbatim>\<open>float\<close> confidence
  and the \<^verbatim>\<open>Decimal\<close> spending limit are rationals. The timing class (\<^verbatim>\<open>VesselTiming\<close>) and the
  projection \<^verbatim>\<open>council_analysis_to_record\<close> are not modelled.
\<close>

definition MAX_DISTINCT_COHORTS :: int where "MAX_DISTINCT_COHORTS = 24"
definition MAX_VESSELS_PER_COHORT :: int where "MAX_VESSELS_PER_COHORT = 1000"
definition MAX_LOGICAL_VESSELS :: int where "MAX_LOGICAL_VESSELS = MAX_DISTINCT_COHORTS * MAX_VESSELS_PER_COHORT"
definition EXTREME_DEFAULT_VESSELS_PER_COHORT :: int where "EXTREME_DEFAULT_VESSELS_PER_COHORT = 18"
definition DEFAULT_SYNTHESIS_POLICY :: string where
  "DEFAULT_SYNTHESIS_POLICY = ''independent_convergence_adversarial_adjudication''"
definition DEFAULT_CHALLENGE_POLICY :: string where "DEFAULT_CHALLENGE_POLICY = ''material_disagreement''"

lemmas council_bounds = MAX_DISTINCT_COHORTS_def MAX_VESSELS_PER_COHORT_def MAX_LOGICAL_VESSELS_def
  EXTREME_DEFAULT_VESSELS_PER_COHORT_def

section \<open>Tiers\<close>

datatype council_tier = TierSmall | TierMedium | TierLarge | TierExtreme | TierCustom

fun tier_value :: "council_tier \<Rightarrow> string" where
  "tier_value TierSmall = ''small''"
| "tier_value TierMedium = ''medium''"
| "tier_value TierLarge = ''large''"
| "tier_value TierExtreme = ''extreme''"
| "tier_value TierCustom = ''custom''"

text \<open>\<^verbatim>\<open>CouncilTier(value)\<close>.\<close>

definition council_tier_of :: "string \<Rightarrow> council_tier res" where
  "council_tier_of v = (case map_of (map (\<lambda>t. (tier_value t, t)) [TierSmall, TierMedium, TierLarge, TierExtreme, TierCustom]) v of
     None \<Rightarrow> Inl (ValueError (v @ '' is not a valid CouncilTier'')) | Some t \<Rightarrow> Inr t)"

record tier_plan =
  tp_tier :: council_tier
  tp_cohort_count :: int
  tp_vessels_per_cohort :: int

definition tp_logical_vessels :: "tier_plan \<Rightarrow> int" where
  "tp_logical_vessels p = tp_cohort_count p * tp_vessels_per_cohort p"

definition fixed_tier :: "council_tier \<Rightarrow> (int \<times> int) option" where
  "fixed_tier t = (case t of TierSmall \<Rightarrow> Some (2, 3) | TierMedium \<Rightarrow> Some (4, 6) | TierLarge \<Rightarrow> Some (12, 9) | _ \<Rightarrow> None)"

definition tier_preset :: "council_tier \<Rightarrow> int option \<Rightarrow> tier_plan res" where
  "tier_preset t vessels_per_cohort = (case fixed_tier t of
     Some (cohorts, vessels) \<Rightarrow>
       raise_if (case vessels_per_cohort of None \<Rightarrow> False | Some v \<Rightarrow> v \<noteq> vessels) (ValueError ''FIXED_TIER_VESSEL_COUNT_MISMATCH'')
         (Inr \<lparr>tp_tier = t, tp_cohort_count = cohorts, tp_vessels_per_cohort = vessels\<rparr>)
   | None \<Rightarrow>
       let vessels = (case vessels_per_cohort of None \<Rightarrow> EXTREME_DEFAULT_VESSELS_PER_COHORT | Some v \<Rightarrow> v) in
       raise_if (\<not> (EXTREME_DEFAULT_VESSELS_PER_COHORT \<le> vessels \<and> vessels \<le> MAX_VESSELS_PER_COHORT)) (ValueError ''EXTREME_VESSEL_COUNT_RANGE'')
         (Inr \<lparr>tp_tier = t, tp_cohort_count = MAX_DISTINCT_COHORTS, tp_vessels_per_cohort = vessels\<rparr>))"

section \<open>Definitions\<close>

record cohort_definition =
  cd_cohort_id :: string
  cd_provider_id :: string
  cd_model_id :: string
  cd_configuration_id :: string

record council_definition =
  kd_council_id :: string
  kd_tier :: council_tier
  kd_cohorts :: "cohort_definition list"
  kd_vessels_per_cohort :: int
  kd_synthesis_policy :: string
  kd_challenge_policy :: string

definition logical_vessel_count :: "council_definition \<Rightarrow> int" where
  "logical_vessel_count k = int (length (kd_cohorts k)) * kd_vessels_per_cohort k"

definition blank :: "string \<Rightarrow> bool" where
  "blank s \<longleftrightarrow> py_strip s = []"

definition identity_blank :: "cohort_definition \<Rightarrow> bool" where
  "identity_blank c \<longleftrightarrow> list_ex blank [cd_cohort_id c, cd_provider_id c, cd_model_id c, cd_configuration_id c]"

fun check_cohorts :: "string list \<Rightarrow> cohort_definition list \<Rightarrow> unit res" where
  "check_cohorts ids [] = Inr ()"
| "check_cohorts ids (c # cs) =
     raise_if (identity_blank c) (ValueError ''COHORT_IDENTITY_REQUIRED'') (
     raise_if (cd_cohort_id c \<in> set ids) (ValueError ''DUPLICATE_COHORT_ID'') (
     check_cohorts (cd_cohort_id c # ids) cs))"

definition check_size :: "council_definition \<Rightarrow> unit res" where
  "check_size k = (if kd_tier k = TierCustom then
       raise_if (\<not> (1 \<le> int (length (kd_cohorts k)) \<and> int (length (kd_cohorts k)) \<le> MAX_DISTINCT_COHORTS)) (ValueError ''CUSTOM_COHORT_COUNT_RANGE'') (
       raise_if (\<not> (1 \<le> kd_vessels_per_cohort k \<and> kd_vessels_per_cohort k \<le> MAX_VESSELS_PER_COHORT)) (ValueError ''CUSTOM_VESSEL_COUNT_RANGE'') (
       Inr ()))
     else bnd (tier_preset (kd_tier k) (Some (kd_vessels_per_cohort k))) (\<lambda>p.
       raise_if (int (length (kd_cohorts k)) \<noteq> tp_cohort_count p) (ValueError ''COHORT_COUNT_MISMATCH'') (Inr ())))"

definition validate_council :: "council_definition \<Rightarrow> unit res" where
  "validate_council k =
     raise_if (blank (kd_council_id k)) (ValueError ''COUNCIL_ID_REQUIRED'') (
     bnd (check_size k) (\<lambda>_.
     raise_if (logical_vessel_count k > MAX_LOGICAL_VESSELS) (ValueError ''MAX_LOGICAL_VESSELS'') (
     raise_if (blank (kd_synthesis_policy k)) (ValueError ''SYNTHESIS_POLICY_REQUIRED'') (
     raise_if (blank (kd_challenge_policy k)) (ValueError ''CHALLENGE_POLICY_REQUIRED'') (
     check_cohorts [] (kd_cohorts k))))))"

definition sorted_cohorts :: "council_definition \<Rightarrow> cohort_definition list" where
  "sorted_cohorts k = sort_key cd_cohort_id (kd_cohorts k)"

text \<open>The durable record of a definition (its keys; \<open>None\<close> for one that is missing or null).\<close>

record cohort_record =
  hr_cohortId :: string
  hr_providerId :: string
  hr_modelId :: string
  hr_configurationId :: "string option"

record council_record =
  qr_councilId :: string
  qr_tier :: string
  qr_vesselsPerCohort :: int
  qr_synthesisPolicy :: "string option"
  qr_challengePolicy :: "string option"
  qr_cohorts :: "cohort_record list"

definition canonical_material :: "council_definition \<Rightarrow> council_record res" where
  "canonical_material k = bnd (validate_council k) (\<lambda>_. Inr \<lparr>
     qr_councilId = kd_council_id k, qr_tier = tier_value (kd_tier k), qr_vesselsPerCohort = kd_vessels_per_cohort k,
     qr_synthesisPolicy = Some (kd_synthesis_policy k), qr_challengePolicy = Some (kd_challenge_policy k),
     qr_cohorts = map (\<lambda>c. \<lparr>hr_cohortId = cd_cohort_id c, hr_providerId = cd_provider_id c, hr_modelId = cd_model_id c,
        hr_configurationId = Some (cd_configuration_id c)\<rparr>) (sorted_cohorts k)\<rparr>)"

definition opt_text :: "string option \<Rightarrow> json" where
  "opt_text x = (case x of None \<Rightarrow> JNull | Some s \<Rightarrow> JStr s)"

definition material_json :: "council_record \<Rightarrow> json" where
  "material_json r = JObj [
     (''schemaVersion'', JStr ''council-alpha-1''),
     (''councilId'', JStr (qr_councilId r)),
     (''tier'', JStr (qr_tier r)),
     (''vesselsPerCohort'', JInt (qr_vesselsPerCohort r)),
     (''synthesisPolicy'', opt_text (qr_synthesisPolicy r)),
     (''challengePolicy'', opt_text (qr_challengePolicy r)),
     (''cohorts'', JList (map (\<lambda>c. JObj [(''cohortId'', JStr (hr_cohortId c)), (''providerId'', JStr (hr_providerId c)),
        (''modelId'', JStr (hr_modelId c)), (''configurationId'', opt_text (hr_configurationId c))]) (qr_cohorts r)))]"

definition council_digest :: "(string \<Rightarrow> string) \<Rightarrow> council_definition \<Rightarrow> string res" where
  "council_digest sha k = bnd (canonical_material k) (\<lambda>m. Inr (digest sha (material_json m)))"

definition council_definition_to_record :: "council_definition \<Rightarrow> council_record res" where
  "council_definition_to_record k = canonical_material k"

text \<open>\<^verbatim>\<open>record.get(key) or default\<close>.\<close>

definition text_or :: "string \<Rightarrow> string option \<Rightarrow> string" where
  "text_or fallback x = (case x of None \<Rightarrow> fallback | Some s \<Rightarrow> if s = [] then fallback else s)"

definition council_definition_from_record :: "council_record \<Rightarrow> council_definition res" where
  "council_definition_from_record r =
     bnd (council_tier_of (qr_tier r)) (\<lambda>tier.
     let k = \<lparr>kd_council_id = qr_councilId r, kd_tier = tier,
           kd_cohorts = map (\<lambda>c. \<lparr>cd_cohort_id = hr_cohortId c, cd_provider_id = hr_providerId c, cd_model_id = hr_modelId c,
              cd_configuration_id = text_or ''default'' (hr_configurationId c)\<rparr>) (qr_cohorts r),
           kd_vessels_per_cohort = qr_vesselsPerCohort r,
           kd_synthesis_policy = text_or DEFAULT_SYNTHESIS_POLICY (qr_synthesisPolicy r),
           kd_challenge_policy = text_or DEFAULT_CHALLENGE_POLICY (qr_challengePolicy r)\<rparr> in
     bnd (validate_council k) (\<lambda>_. Inr k))"

section \<open>Logical dispatch\<close>

record vessel_intent =
  vi_vessel_id :: string
  vi_cohort_id :: string
  vi_provider_id :: string
  vi_model_id :: string
  vi_configuration_id :: string
  vi_ordinal :: int

text \<open>\<^verbatim>\<open>f"{n:04d}"\<close> of a non-negative number.\<close>

definition pad4 :: "int \<Rightarrow> string" where
  "pad4 n = replicate (4 - length (str_int n)) (CHR ''0'') @ str_int n"

definition vessel_of :: "cohort_definition \<Rightarrow> int \<Rightarrow> vessel_intent" where
  "vessel_of c n = \<lparr>vi_vessel_id = cd_cohort_id c @ ''-v'' @ pad4 n, vi_cohort_id = cd_cohort_id c,
     vi_provider_id = cd_provider_id c, vi_model_id = cd_model_id c,
     vi_configuration_id = cd_configuration_id c, vi_ordinal = n\<rparr>"

definition build_logical_blast :: "council_definition \<Rightarrow> vessel_intent list res" where
  "build_logical_blast k = bnd (validate_council k) (\<lambda>_.
     Inr (concat (map (\<lambda>c. map (vessel_of c) [1..kd_vessels_per_cohort k]) (sorted_cohorts k))))"

section \<open>Launch interlocks\<close>

record launch_authorization =
  la_council_digest :: string
  la_extreme_ack :: bool
  la_custom_scale_ack :: bool
  la_maximum_spend_usd :: "rat option"

record launch_plan =
  lp_council_digest :: string
  lp_tier :: council_tier
  lp_cohort_count :: int
  lp_vessels_per_cohort :: int
  lp_logical_vessels :: int
  lp_requires_extreme_ack :: bool
  lp_requires_custom_scale_ack :: bool
  lp_maximum_spend_usd :: "rat option"

definition launch_preview :: "(string \<Rightarrow> string) \<Rightarrow> council_definition \<Rightarrow> launch_authorization option \<Rightarrow> launch_plan res" where
  "launch_preview sha k authorization =
     bnd (validate_council k) (\<lambda>_.
     bnd (council_digest sha k) (\<lambda>digest_value.
     let is_extreme = (kd_tier k = TierExtreme);
         custom_scale = (is_extreme \<and> kd_vessels_per_cohort k \<noteq> EXTREME_DEFAULT_VESSELS_PER_COHORT) in
     Inr \<lparr>lp_council_digest = digest_value, lp_tier = kd_tier k, lp_cohort_count = int (length (kd_cohorts k)),
        lp_vessels_per_cohort = kd_vessels_per_cohort k, lp_logical_vessels = logical_vessel_count k,
        lp_requires_extreme_ack = is_extreme, lp_requires_custom_scale_ack = custom_scale,
        lp_maximum_spend_usd = (case authorization of None \<Rightarrow> None | Some a \<Rightarrow> la_maximum_spend_usd a)\<rparr>))"

definition authorize_launch :: "(string \<Rightarrow> string) \<Rightarrow> council_definition \<Rightarrow> launch_authorization \<Rightarrow> launch_plan res" where
  "authorize_launch sha k a =
     bnd (launch_preview sha k (Some a)) (\<lambda>p.
     if la_council_digest a \<noteq> lp_council_digest p then
       raise_if (lp_requires_extreme_ack p \<and> \<not> la_extreme_ack a) (ValueError ''EXTREME_ACK_REQUIRED'')
         (Inl (ValueError ''COUNCIL_DIGEST_MISMATCH''))
     else
     raise_if (lp_requires_extreme_ack p \<and> \<not> la_extreme_ack a) (ValueError ''EXTREME_ACK_REQUIRED'') (
     raise_if (lp_requires_custom_scale_ack p \<and> \<not> la_custom_scale_ack a) (ValueError ''CUSTOM_SCALE_ACK_REQUIRED'') (
     raise_if (case la_maximum_spend_usd a of None \<Rightarrow> False | Some m \<Rightarrow> m < 0) (ValueError ''MAXIMUM_SPEND_NEGATIVE'') (
     Inr p))))"

section \<open>Analysis of claims\<close>

datatype claim_stance = Support | Dissent | Insufficient | Abstain

datatype claim_status = Converged | Disputed | Minority | InsufficientEvidence | Unresolved

record claim_observation =
  ob_claim_id :: string
  ob_claim_text :: string
  ob_cohort_id :: string
  ob_vessel_id :: string
  ob_stance :: claim_stance
  ob_confidence :: rat
  ob_evidence_ids :: "string list"
  ob_assumptions :: "string list"
  ob_uncertainty_reason :: "string option"

text \<open>\<^verbatim>\<open>ClaimObservation.__post_init__\<close>.\<close>

definition observation_check :: "claim_observation \<Rightarrow> claim_observation res" where
  "observation_check b =
     raise_if (blank (ob_claim_id b) \<or> blank (ob_claim_text b)) (ValueError ''CLAIM_ID_AND_TEXT_REQUIRED'') (
     raise_if (blank (ob_cohort_id b) \<or> blank (ob_vessel_id b)) (ValueError ''OBSERVATION_SOURCE_REQUIRED'') (
     raise_if (\<not> (0 \<le> ob_confidence b \<and> ob_confidence b \<le> 1)) (ValueError ''CLAIM_CONFIDENCE_RANGE'') (
     Inr b)))"

record council_claim =
  qc_claim_id :: string
  qc_claim_text :: string
  qc_status :: claim_status
  qc_support_cohorts :: "string list"
  qc_dissent_cohorts :: "string list"
  qc_insufficient_cohorts :: "string list"
  qc_abstain_cohorts :: "string list"
  qc_support_vessels :: "string list"
  qc_dissent_vessels :: "string list"
  qc_evidence_ids :: "string list"
  qc_assumptions :: "string list"
  qc_max_support_confidence :: rat
  qc_max_dissent_confidence :: rat
  qc_verification_state :: string

record council_dispute =
  qd_claim_id :: string
  qd_support_cohorts :: "string list"
  qd_dissent_cohorts :: "string list"

record council_analysis =
  an_council_digest :: string
  an_cohort_count :: int
  an_distinct_model_sources :: int
  an_claims :: "council_claim list"
  an_disputes :: "council_dispute list"
  an_raw_observations :: "claim_observation list"

record council_challenge =
  ch_claim_id :: string
  ch_reason :: string
  ch_support_cohorts :: "string list"
  ch_dissent_cohorts :: "string list"
  ch_evidence_ids :: "string list"

definition claim_status_of :: "string list \<Rightarrow> string list \<Rightarrow> string list \<Rightarrow> string list \<Rightarrow> claim_status" where
  "claim_status_of support dissent insufficient abstain =
    (if support \<noteq> [] \<and> dissent \<noteq> [] then Disputed
     else if support \<noteq> [] then
       (if length insufficient + length abstain > length support then Minority else Converged)
     else if insufficient \<noteq> [] \<and> dissent = [] then InsufficientEvidence
     else Unresolved)"

fun check_observations :: "vessel_intent list \<Rightarrow> claim_observation list \<Rightarrow> unit res" where
  "check_observations blast [] = Inr ()"
| "check_observations blast (b # bs) = (case map_of (rev (map (\<lambda>v. (vi_vessel_id v, v)) blast)) (ob_vessel_id b) of
     None \<Rightarrow> Inl (ValueError ''UNKNOWN_VESSEL'')
   | Some intent \<Rightarrow> raise_if (vi_cohort_id intent \<noteq> ob_cohort_id b) (ValueError ''VESSEL_COHORT_MISMATCH'')
       (check_observations blast bs))"

definition with_stance :: "claim_stance \<Rightarrow> claim_observation list \<Rightarrow> claim_observation list" where
  "with_stance t values = filter (\<lambda>b. ob_stance b = t) values"

text \<open>\<^verbatim>\<open>max(..., default=0.0)\<close>.\<close>

definition max_or_zero :: "rat list \<Rightarrow> rat" where
  "max_or_zero xs = (case xs of [] \<Rightarrow> 0 | x # ys \<Rightarrow> fold max ys x)"

definition analyze_claim :: "string \<Rightarrow> claim_observation list \<Rightarrow> council_claim res" where
  "analyze_claim claim_id values =
    (let cohorts = (\<lambda>t. sorted_set (map ob_cohort_id (with_stance t values)));
         vessels = (\<lambda>t. sorted_set (map ob_vessel_id (with_stance t values)));
         confidence = (\<lambda>t. max_or_zero (map ob_confidence (with_stance t values))) in
     raise_if (card (set (map ob_claim_text values)) \<noteq> 1) (ValueError ''CLAIM_TEXT_MISMATCH'') (
     Inr \<lparr>qc_claim_id = claim_id, qc_claim_text = ob_claim_text (hd values),
        qc_status = claim_status_of (cohorts Support) (cohorts Dissent) (cohorts Insufficient) (cohorts Abstain),
        qc_support_cohorts = cohorts Support, qc_dissent_cohorts = cohorts Dissent,
        qc_insufficient_cohorts = cohorts Insufficient, qc_abstain_cohorts = cohorts Abstain,
        qc_support_vessels = vessels Support, qc_dissent_vessels = vessels Dissent,
        qc_evidence_ids = sorted_set (concat (map ob_evidence_ids values)),
        qc_assumptions = sorted_set (concat (map ob_assumptions values)),
        qc_max_support_confidence = confidence Support, qc_max_dissent_confidence = confidence Dissent,
        qc_verification_state = ''unverified''\<rparr>))"

fun collect :: "('a \<Rightarrow> 'b res) \<Rightarrow> 'a list \<Rightarrow> 'b list res" where
  "collect f [] = Inr []"
| "collect f (x # xs) = bnd (f x) (\<lambda>y. bnd (collect f xs) (\<lambda>ys. Inr (y # ys)))"

definition analyze_claims :: "(string \<Rightarrow> string) \<Rightarrow> council_definition \<Rightarrow> claim_observation list \<Rightarrow> council_analysis res" where
  "analyze_claims sha k raw =
     bnd (validate_council k) (\<lambda>_.
     bnd (build_logical_blast k) (\<lambda>blast.
     bnd (check_observations blast raw) (\<lambda>_.
     bnd (collect (\<lambda>i. analyze_claim i (filter (\<lambda>b. ob_claim_id b = i) raw)) (sorted_set (map ob_claim_id raw))) (\<lambda>claims.
     bnd (council_digest sha k) (\<lambda>digest_value.
     Inr \<lparr>an_council_digest = digest_value, an_cohort_count = int (length (kd_cohorts k)),
        an_distinct_model_sources = int (card (set (map (\<lambda>c. (cd_provider_id c, cd_model_id c, cd_configuration_id c)) (kd_cohorts k)))),
        an_claims = claims,
        an_disputes = map (\<lambda>c. \<lparr>qd_claim_id = qc_claim_id c, qd_support_cohorts = qc_support_cohorts c, qd_dissent_cohorts = qc_dissent_cohorts c\<rparr>)
          (filter (\<lambda>c. qc_support_cohorts c \<noteq> [] \<and> qc_dissent_cohorts c \<noteq> []) claims),
        an_raw_observations = raw\<rparr>)))))"

definition challenge_reason :: "council_claim \<Rightarrow> string option" where
  "challenge_reason c =
    (if qc_status c = Disputed then Some ''material_dispute''
     else if qc_status c = Minority \<and> max (qc_max_support_confidence c) (qc_max_dissent_confidence c) \<ge> 9 / 10
     then Some ''high_confidence_minority''
     else if qc_status c = Converged \<and> qc_support_cohorts c \<noteq> [] \<and> qc_dissent_cohorts c = []
       \<and> qc_insufficient_cohorts c = [] \<and> qc_abstain_cohorts c = [] \<and> qc_evidence_ids c = []
     then Some ''unsupported_unanimity''
     else None)"

definition select_challenges :: "council_analysis \<Rightarrow> council_challenge list" where
  "select_challenges a = List.map_filter (\<lambda>c. map_option (\<lambda>reason.
     \<lparr>ch_claim_id = qc_claim_id c, ch_reason = reason, ch_support_cohorts = qc_support_cohorts c,
      ch_dissent_cohorts = qc_dissent_cohorts c, ch_evidence_ids = qc_evidence_ids c\<rparr>) (challenge_reason c)) (an_claims a)"

section \<open>The durable aggregate\<close>

record council_plan =
  pl_definition :: council_record
  pl_councilDigest :: string
  pl_launchAuthorization :: "dict option"
  pl_admittedAt :: string
  pl_councilId :: "string option"

record analysis_record =
  ay_councilDigest :: "string option"
  ay_verificationState :: "string option"
  ay_body :: dict

record council =
  co_councilId :: string
  co_councilDigest :: string
  co_definition :: council_record
  co_tier :: string
  co_cohortCount :: int
  co_vesselsPerCohort :: int
  co_logicalVesselCount :: int
  co_launchAuthorization :: dict
  co_admittedAt :: string
  co_verificationState :: string
  co_analysisHistory :: "analysis_record list"

definition COUNCIL_OWNED :: "string list" where
  "COUNCIL_OWNED = [''council.councilDigest'', ''council.definition'', ''council.tier'', ''council.cohortCount'',
    ''council.vesselsPerCohort'', ''council.logicalVesselCount'', ''council.launchAuthorization'', ''council.admittedAt'',
    ''council.verificationState'', ''council.analysisHistory'']"

definition council_stream_id :: "string \<Rightarrow> string res" where
  "council_stream_id i = (let i = py_strip i in
     raise_if (i = []) (ValueError ''COUNCIL_ID_REQUIRED'') (Inr (''council-'' @ i)))"

definition council_create :: "(string \<Rightarrow> string) \<Rightarrow> council_plan \<Rightarrow> council res" where
  "council_create sha p =
     bnd (council_definition_from_record (pl_definition p)) (\<lambda>k.
     bnd (council_digest sha k) (\<lambda>expected.
     raise_if (pl_councilDigest p \<noteq> expected) (IntegrityViolation ''COUNCIL_PLAN_DIGEST_MISMATCH'') (
     let state = \<lparr>co_councilId = kd_council_id k, co_councilDigest = expected, co_definition = pl_definition p,
           co_tier = tier_value (kd_tier k), co_cohortCount = int (length (kd_cohorts k)),
           co_vesselsPerCohort = kd_vessels_per_cohort k, co_logicalVesselCount = logical_vessel_count k,
           co_launchAuthorization = (case pl_launchAuthorization p of None \<Rightarrow> [] | Some d \<Rightarrow> d),
           co_admittedAt = pl_admittedAt p, co_verificationState = ''unverified'', co_analysisHistory = []\<rparr> in
     raise_if (text_or (kd_council_id k) (pl_councilId p) \<noteq> kd_council_id k) (IntegrityViolation ''COUNCIL_PLAN_IDENTITY_MISMATCH'') (
     Inr state))))"

definition council_record_analysis :: "council \<Rightarrow> analysis_record \<Rightarrow> council res" where
  "council_record_analysis s a =
     raise_if (text_or [] (ay_councilDigest a) \<noteq> co_councilDigest s) (AuthorityViolation ''COUNCIL_ANALYSIS_DIGEST_MISMATCH'') (
     raise_if (text_or ''unverified'' (ay_verificationState a) \<noteq> ''unverified'') (AuthorityViolation ''COUNCIL_ANALYSIS_CANNOT_SELF_VERIFY'') (
     Inr (s\<lparr>co_analysisHistory := co_analysisHistory s @ [a], co_verificationState := ''unverified''\<rparr>)))"

end
