(* ===== verification/Council_Safety.thy ===== *)
theory Council_Safety
  imports Council Lifecycle
begin

text \<open>
  The guarantees of a Model Council: the logical dispatch names every vessel once, the digest binds
  the topology whatever the order of its cohorts, a launch is authorised for one topology
  only, the analysis of claims is a function of the observations, and no analysis verifies itself.
\<close>

section \<open>Decimal text\<close>

definition decimal :: "string \<Rightarrow> nat" where
  "decimal s = foldl (\<lambda>v c. 10 * v + (of_char c - 48)) 0 s"

lemma decimal_snoc [simp]: "decimal (s @ [c]) = 10 * decimal s + (of_char c - 48)"
  by (simp add: decimal_def)

lemma of_char_digit: "d < 10 \<Longrightarrow> (of_char (char_of (48 + d) :: char) :: nat) = 48 + d"
  by simp

lemma decimal_digits [simp]: "decimal (digits_of n) = n"
proof (induction n rule: digits_of.induct)
  case (1 n)
  show ?case
  proof (cases "n < 10")
    case True
    then show ?thesis using decimal_snoc[of "[]"] by (simp add: digits_of.simps[of n]) (simp add: decimal_def)
  next
    case False
    with 1 show ?thesis by (simp add: digits_of.simps[of n])
  qed
qed

lemma decimal_zeros [simp]: "decimal (replicate k (CHR ''0'') @ s) = decimal s"
  by (induction k) (simp_all add: decimal_def)

lemma length_digits: "n < 10 ^ Suc k \<Longrightarrow> length (digits_of n) \<le> Suc k"
proof (induction k arbitrary: n)
  case (Suc k)
  then have "length (digits_of (n div 10)) \<le> Suc k" by (intro Suc.IH) auto
  then show ?case by (simp add: digits_of.simps[of n])
qed (simp add: digits_of.simps)

lemma pad4_inj: "0 \<le> m \<Longrightarrow> 0 \<le> n \<Longrightarrow> pad4 m = pad4 n \<Longrightarrow> m = n"
proof -
  assume "0 \<le> m" "0 \<le> n" and eq: "pad4 m = pad4 n"
  from arg_cong[OF eq, of decimal] have "nat m = nat n" using \<open>0 \<le> m\<close> \<open>0 \<le> n\<close> by (simp add: pad4_def str_int_def)
  then show "m = n" using \<open>0 \<le> m\<close> \<open>0 \<le> n\<close> by simp
qed

lemma length_pad4: "0 \<le> n \<Longrightarrow> n \<le> 9999 \<Longrightarrow> length (pad4 n) = 4"
  using length_digits[of "nat n" 3] by (simp add: pad4_def str_int_def)

section \<open>What validation guarantees\<close>

lemma check_cohorts_Inr:
  "check_cohorts ids cs = Inr () \<longleftrightarrow> list_all (\<lambda>c. \<not> identity_blank c) cs
     \<and> distinct (map cd_cohort_id cs) \<and> set ids \<inter> set (map cd_cohort_id cs) = {}"
  by (induction cs arbitrary: ids) auto

lemma validate_council_Inr:
  assumes "validate_council k = Inr ()"
  shows "distinct (map cd_cohort_id (kd_cohorts k))" and "1 \<le> kd_vessels_per_cohort k" and "kd_vessels_per_cohort k \<le> 1000"
    and "1 \<le> length (kd_cohorts k)" and "length (kd_cohorts k) \<le> 24" and "logical_vessel_count k \<le> 24000"
proof -
  from assms have size: "check_size k = Inr ()" and cohorts: "check_cohorts [] (kd_cohorts k) = Inr ()"
    and cap: "\<not> logical_vessel_count k > MAX_LOGICAL_VESSELS"
    by (auto simp: validate_council_def)
  show "distinct (map cd_cohort_id (kd_cohorts k))" using cohorts by (simp add: check_cohorts_Inr)
  show "logical_vessel_count k \<le> 24000" using cap by (simp add: council_bounds)
  have "1 \<le> kd_vessels_per_cohort k \<and> kd_vessels_per_cohort k \<le> 1000 \<and> 1 \<le> length (kd_cohorts k) \<and> length (kd_cohorts k) \<le> 24"
    using size by (cases "kd_tier k") (auto simp: check_size_def tier_preset_def fixed_tier_def council_bounds Let_def)
  then show "1 \<le> kd_vessels_per_cohort k" "kd_vessels_per_cohort k \<le> 1000" "1 \<le> length (kd_cohorts k)" "length (kd_cohorts k) \<le> 24"
    by simp_all
qed

lemma mset_sorted_cohorts [simp]: "mset (sorted_cohorts k) = mset (kd_cohorts k)"
  by (simp add: sorted_cohorts_def)

lemma set_sorted_cohorts [simp]: "set (sorted_cohorts k) = set (kd_cohorts k)"
  by (simp add: sorted_cohorts_def)

lemma length_sorted_cohorts [simp]: "length (sorted_cohorts k) = length (kd_cohorts k)"
  by (simp add: sorted_cohorts_def)

lemma distinct_sorted_cohorts:
  "distinct (map cd_cohort_id (kd_cohorts k)) \<Longrightarrow> distinct (map cd_cohort_id (sorted_cohorts k))"
  by (metis mset_sorted_cohorts mset_map mset_eq_imp_distinct_iff)

section \<open>The logical dispatch\<close>

lemma vessel_ids_split:
  assumes "1 \<le> m" "m \<le> 1000" "1 \<le> n" "n \<le> 1000" and eq: "vi_vessel_id (vessel_of c m) = vi_vessel_id (vessel_of c' n)"
  shows "cd_cohort_id c = cd_cohort_id c' \<and> m = n"
proof -
  have len: "length (''-v'' @ pad4 m) = length (''-v'' @ pad4 n)" using assms(1-4) by (simp add: length_pad4)
  from eq have "cd_cohort_id c @ (''-v'' @ pad4 m) = cd_cohort_id c' @ (''-v'' @ pad4 n)" by (simp add: vessel_of_def)
  from iffD1[OF append_eq_append_conv[OF disjI2[OF len]] this]
  have "cd_cohort_id c = cd_cohort_id c' \<and> ''-v'' @ pad4 m = ''-v'' @ pad4 n" .
  then show ?thesis using pad4_inj[of m n] assms(1-4) by simp
qed

lemma distinct_vessels:
  assumes "distinct (map cd_cohort_id cs)" and "v \<le> 1000"
  shows "distinct (map vi_vessel_id (concat (map (\<lambda>c. map (vessel_of c) [1..v]) cs)))"
  using assms(1)
proof (induction cs)
  case (Cons c cs)
  have "inj_on (\<lambda>n. vi_vessel_id (vessel_of c n)) {1..v}"
    using vessel_ids_split[of _ _ c c] assms(2) by (intro inj_onI) auto
  then have "distinct (map vi_vessel_id (map (vessel_of c) [1..v]))" by (simp add: distinct_map comp_def)
  moreover have "vi_vessel_id ` vessel_of c ` {1..v} \<inter> vi_vessel_id ` (\<Union>x\<in>set cs. vessel_of x ` {1..v}) = {}"
  proof -
    have "False" if "vi_vessel_id (vessel_of c m) = vi_vessel_id (vessel_of x n)" "x \<in> set cs" "1 \<le> m" "m \<le> v" "1 \<le> n" "n \<le> v" for m n x
      using vessel_ids_split[OF _ _ _ _ that(1)] that assms(2) Cons.prems by force
    then show ?thesis by (auto simp: image_iff)
  qed
  ultimately show ?case using Cons by (simp add: image_image comp_def)
qed simp

lemma sorted_const: "sorted (map (\<lambda>x. a) ys)"
  by (induction ys) auto

lemma sum_list_const: "length (concat (map (\<lambda>c. map (f c) ys) cs)) = length cs * length ys"
  by (induction cs) simp_all

text \<open>
  C36. The logical dispatch of a council names every vessel of every cohort exactly once, under ids
  that are all different (the four digits hold the at most 1000 vessels of a cohort, so one cohort
  id cannot run into another), grouped by cohort in the order of the cohort ids, and there
  are exactly as many as the logical vessel count, between 1 and 24000.
\<close>

theorem blast_names_every_vessel_once:
  assumes "build_logical_blast k = Inr vs"
  shows "distinct (map vi_vessel_id vs)
    \<and> set vs = {vessel_of c n | c n. c \<in> set (kd_cohorts k) \<and> 1 \<le> n \<and> n \<le> kd_vessels_per_cohort k}
    \<and> sorted (map vi_cohort_id vs)
    \<and> int (length vs) = logical_vessel_count k \<and> 1 \<le> length vs \<and> length vs \<le> 24000"
proof -
  from assms have ok: "validate_council k = Inr ()"
    and vs: "vs = concat (map (\<lambda>c. map (vessel_of c) [1..kd_vessels_per_cohort k]) (sorted_cohorts k))"
    by (auto simp: build_logical_blast_def)
  note V = validate_council_Inr[OF ok]
  have "distinct (map vi_vessel_id vs)"
    unfolding vs by (rule distinct_vessels[OF distinct_sorted_cohorts[OF V(1)] V(3)])
  moreover have "set vs = {vessel_of c n | c n. c \<in> set (kd_cohorts k) \<and> 1 \<le> n \<and> n \<le> kd_vessels_per_cohort k}"
    unfolding vs by (auto; blast)
  moreover have "sorted (map vi_cohort_id vs)"
  proof -
    have "sorted (map vi_cohort_id (concat (map (\<lambda>c. map (vessel_of c) ys) cs)))" if "sorted (map cd_cohort_id cs)" for cs ys
      using that by (induction cs) (auto simp: sorted_append vessel_of_def comp_def sorted_const)
    then show ?thesis unfolding vs by (simp add: sorted_cohorts_def)
  qed
  moreover have "int (length vs) = logical_vessel_count k"
    using V(2) by (simp add: vs sum_list_const logical_vessel_count_def)
  moreover have "0 < int (length (kd_cohorts k)) * kd_vessels_per_cohort k" using V(2,4) by (intro mult_pos_pos) linarith+
  then have "0 < logical_vessel_count k" by (simp add: logical_vessel_count_def)
  ultimately show ?thesis using V(6) by linarith
qed

definition sample_council :: council_definition where
  "sample_council = \<lparr>kd_council_id = ''c1'', kd_tier = TierCustom,
     kd_cohorts = [\<lparr>cd_cohort_id = ''b'', cd_provider_id = ''p'', cd_model_id = ''m'', cd_configuration_id = ''default''\<rparr>,
       \<lparr>cd_cohort_id = ''a'', cd_provider_id = ''p'', cd_model_id = ''n'', cd_configuration_id = ''default''\<rparr>],
     kd_vessels_per_cohort = 2, kd_synthesis_policy = ''s'', kd_challenge_policy = ''c''\<rparr>"

lemma blast_names_every_vessel_once_witness:
  "\<exists>vs. build_logical_blast sample_council = Inr vs \<and> length vs = 4 \<and> distinct (map vi_vessel_id vs)
     \<and> hd (map vi_vessel_id vs) = ''a-v0001''"
proof -
  have "isl (build_logical_blast sample_council) = False" by code_simp
  then obtain vs where vs: "build_logical_blast sample_council = Inr vs" by (cases "build_logical_blast sample_council") auto
  have "hd (map vi_vessel_id (projr (build_logical_blast sample_council))) = ''a-v0001''" by code_simp
  moreover have "logical_vessel_count sample_council = 4" by code_simp
  moreover have "distinct (map vi_vessel_id vs)" "int (length vs) = logical_vessel_count sample_council"
    using blast_names_every_vessel_once[OF vs] by blast+
  ultimately show ?thesis using vs by (intro exI[of _ vs]) simp
qed

section \<open>The durable record and the digest\<close>

lemma check_size_cong: "kd_tier k' = kd_tier k \<Longrightarrow> kd_vessels_per_cohort k' = kd_vessels_per_cohort k \<Longrightarrow>
    length (kd_cohorts k') = length (kd_cohorts k) \<Longrightarrow> check_size k' = check_size k"
  by (simp add: check_size_def)

lemma validate_permuted:
  assumes "validate_council k = Inr ()" and "mset cs = mset (kd_cohorts k)"
  shows "validate_council (k\<lparr>kd_cohorts := cs\<rparr>) = Inr ()"
proof -
  have len: "length cs = length (kd_cohorts k)" by (rule mset_eq_length[OF assms(2)])
  have "check_cohorts [] (kd_cohorts k) = Inr ()" using assms(1) by (auto simp: validate_council_def)
  then have "list_all (\<lambda>c. \<not> identity_blank c) (kd_cohorts k)" "distinct (map cd_cohort_id (kd_cohorts k))"
    by (simp_all add: check_cohorts_Inr)
  then have "list_all (\<lambda>c. \<not> identity_blank c) cs" "distinct (map cd_cohort_id cs)"
    using assms(2) by (simp add: list_all_iff mset_eq_setD[OF assms(2)], metis mset_map mset_eq_imp_distinct_iff)
  then have "check_cohorts [] cs = Inr ()" by (simp add: check_cohorts_Inr)
  moreover have "check_size (k\<lparr>kd_cohorts := cs\<rparr>) = check_size k" by (rule check_size_cong) (simp_all add: len)
  ultimately show ?thesis using assms(1) by (auto simp: validate_council_def logical_vessel_count_def len)
qed

lemma sorted_cohorts_permuted:
  assumes "distinct (map cd_cohort_id (kd_cohorts k))" and "mset cs = mset (kd_cohorts k)"
  shows "sorted_cohorts (k\<lparr>kd_cohorts := cs\<rparr>) = sorted_cohorts k"
  unfolding sorted_cohorts_def
proof (rule sort_key_inj_key_eq)
  show "mset (kd_cohorts (k\<lparr>kd_cohorts := cs\<rparr>)) = mset (sort_key cd_cohort_id (kd_cohorts k))" using assms(2) by simp
  show "inj_on cd_cohort_id (set (kd_cohorts (k\<lparr>kd_cohorts := cs\<rparr>)))"
    using assms(1) by (simp add: distinct_map mset_eq_setD[OF assms(2)])
qed simp

lemma tier_of_value [simp]: "council_tier_of (tier_value t) = Inr t"
  by (cases t) (simp_all add: council_tier_of_def)

lemma text_or_full [simp]: "x \<noteq> [] \<Longrightarrow> text_or y (Some x) = x"
  by (simp add: text_or_def)

lemma not_blank: "\<not> blank x \<Longrightarrow> x \<noteq> []"
  by (auto simp: blank_def py_strip_def)

lemma material_permuted:
  assumes "canonical_material k = Inr r" and "mset cs = mset (kd_cohorts k)"
  shows "canonical_material (k\<lparr>kd_cohorts := cs\<rparr>) = Inr r"
proof -
  from assms(1) have ok: "validate_council k = Inr ()" by (auto simp: canonical_material_def)
  have "sorted_cohorts (k\<lparr>kd_cohorts := cs\<rparr>) = sorted_cohorts k"
    by (rule sorted_cohorts_permuted[OF validate_council_Inr(1)[OF ok] assms(2)])
  with validate_permuted[OF ok assms(2)] ok assms(1) show ?thesis by (simp add: canonical_material_def)
qed

text \<open>
  C37. The durable record of a council gives the council back, with its cohorts in the order of
  their ids, and its digest is that of the council it was made from; and a council whose cohorts
  are listed in another order has the same record and the same digest.
\<close>

theorem council_record_roundtrip:
  assumes "council_definition_to_record k = Inr r"
  shows "council_definition_from_record r = Inr (k\<lparr>kd_cohorts := sorted_cohorts k\<rparr>)
    \<and> bnd (council_definition_from_record r) (council_digest sha) = council_digest sha k
    \<and> (\<forall>cs. mset cs = mset (kd_cohorts k) \<longrightarrow>
         council_definition_to_record (k\<lparr>kd_cohorts := cs\<rparr>) = Inr r
         \<and> council_digest sha (k\<lparr>kd_cohorts := cs\<rparr>) = council_digest sha k)"
proof -
  from assms have m: "canonical_material k = Inr r" by (simp add: council_definition_to_record_def)
  then have ok: "validate_council k = Inr ()" by (auto simp: canonical_material_def)
  have full: "kd_synthesis_policy k \<noteq> []" "kd_challenge_policy k \<noteq> []"
    using ok not_blank by (auto simp: validate_council_def)
  have cfg: "cd_configuration_id c \<noteq> []" if "c \<in> set (kd_cohorts k)" for c
  proof -
    have "check_cohorts [] (kd_cohorts k) = Inr ()" using ok by (auto simp: validate_council_def)
    then have "\<not> identity_blank c" using that by (simp add: check_cohorts_Inr list_all_iff)
    then show ?thesis using not_blank by (simp add: identity_blank_def)
  qed
  have cohorts_again: "map (\<lambda>c. \<lparr>cd_cohort_id = hr_cohortId c, cd_provider_id = hr_providerId c, cd_model_id = hr_modelId c,
              cd_configuration_id = text_or ''default'' (hr_configurationId c)\<rparr>) (qr_cohorts r) = sorted_cohorts k"
    using m cfg by (auto simp: canonical_material_def comp_def intro!: map_idI)
  have r: "qr_councilId r = kd_council_id k" "qr_tier r = tier_value (kd_tier k)" "qr_vesselsPerCohort r = kd_vessels_per_cohort k"
      "qr_synthesisPolicy r = Some (kd_synthesis_policy k)" "qr_challengePolicy r = Some (kd_challenge_policy k)"
    using m by (auto simp: canonical_material_def)
  have k': "\<lparr>kd_council_id = kd_council_id k, kd_tier = kd_tier k, kd_cohorts = sorted_cohorts k,
       kd_vessels_per_cohort = kd_vessels_per_cohort k, kd_synthesis_policy = kd_synthesis_policy k,
       kd_challenge_policy = kd_challenge_policy k\<rparr> = k\<lparr>kd_cohorts := sorted_cohorts k\<rparr>"
    by simp
  have rebuilt: "council_definition_from_record r = Inr (k\<lparr>kd_cohorts := sorted_cohorts k\<rparr>)"
    unfolding council_definition_from_record_def cohorts_again r using full validate_permuted[OF ok mset_sorted_cohorts]
    by (simp add: k')
  have perm: "canonical_material (k\<lparr>kd_cohorts := cs\<rparr>) = canonical_material k" if "mset cs = mset (kd_cohorts k)" for cs
    using material_permuted[OF m that] m by simp
  show ?thesis
    using rebuilt perm assms by (simp add: council_digest_def council_definition_to_record_def)
qed

lemma council_record_roundtrip_witness:
  "\<exists>r. council_definition_to_record sample_council = Inr r
     \<and> council_definition_from_record r = Inr (sample_council\<lparr>kd_cohorts := rev (kd_cohorts sample_council)\<rparr>)
     \<and> council_digest id (sample_council\<lparr>kd_cohorts := rev (kd_cohorts sample_council)\<rparr>) = council_digest id sample_council"
proof -
  have "isl (council_definition_to_record sample_council) = False" by code_simp
  then obtain r where r: "council_definition_to_record sample_council = Inr r"
    by (cases "council_definition_to_record sample_council") auto
  have "sorted_cohorts sample_council = rev (kd_cohorts sample_council)" by code_simp
  with council_record_roundtrip[OF r, of id] r show ?thesis by (intro exI[of _ r]) simp
qed

section \<open>The durable aggregate\<close>

definition analysis_fits :: "council \<Rightarrow> analysis_record \<Rightarrow> bool" where
  "analysis_fits s a \<longleftrightarrow> text_or [] (ay_councilDigest a) = co_councilDigest s \<and> text_or ''unverified'' (ay_verificationState a) = ''unverified''"

lemma council_analysis_Inr:
  "council_record_analysis s a = Inr s' \<longleftrightarrow> analysis_fits s a
     \<and> s' = s\<lparr>co_analysisHistory := co_analysisHistory s @ [a], co_verificationState := ''unverified''\<rparr>"
  by (auto simp: council_record_analysis_def analysis_fits_def)

text \<open>
  C38. A council never verifies itself. Its digest is the digest of the topology it was admitted with;
  whatever analyses are submitted, its history is the list of those accepted, in order, each of them
  citing that digest and not claiming to be verified; it stays unverified, and nothing else of it changes.
\<close>

theorem council_never_verifies_itself:
  fixes xs :: "analysis_record list"
  assumes "council_create sha p = Inr s0"
  defines "s \<equiv> attempt council_record_analysis s0 xs"
  shows "bnd (council_definition_from_record (pl_definition p)) (council_digest sha) = Inr (pl_councilDigest p)
    \<and> co_councilDigest s = pl_councilDigest p
    \<and> co_analysisHistory s = accepted council_record_analysis s0 xs
    \<and> list_all (analysis_fits s) (co_analysisHistory s)
    \<and> co_verificationState s = ''unverified''
    \<and> s\<lparr>co_analysisHistory := []\<rparr> = s0"
proof -
  from assms(1) have start: "bnd (council_definition_from_record (pl_definition p)) (council_digest sha) = Inr (pl_councilDigest p)"
      "co_councilDigest s0 = pl_councilDigest p" "co_verificationState s0 = ''unverified''" "co_analysisHistory s0 = []"
    by (auto simp: council_create_def Let_def)
  define Q where "Q = (\<lambda>acc (t :: council). co_analysisHistory t = acc \<and> t\<lparr>co_analysisHistory := []\<rparr> = s0 \<and> list_all (analysis_fits s0) acc)"
  have "Q (accepted council_record_analysis s0 xs) s"
    unfolding s_def
  proof (rule accepted_invariant)
    show "Q [] s0" using start(4) by (simp add: Q_def)
    show "Q (acc @ [x]) t'" if q: "Q acc t" and step: "council_record_analysis t x = Inr t'" for acc t x t'
    proof -
      from q have t: "co_analysisHistory t = acc" "t\<lparr>co_analysisHistory := []\<rparr> = s0" by (simp_all add: Q_def)
      then have "co_councilDigest t = co_councilDigest s0" "co_verificationState t = ''unverified''"
        using start(3) by (metis council.select_convs council.surjective council.update_convs(11), metis council.select_convs council.surjective council.update_convs(11))
      with q step show ?thesis by (auto simp: Q_def council_analysis_Inr analysis_fits_def)
    qed
  qed
  then have q: "co_analysisHistory s = accepted council_record_analysis s0 xs" "s\<lparr>co_analysisHistory := []\<rparr> = s0"
      "list_all (analysis_fits s0) (accepted council_record_analysis s0 xs)" by (simp_all add: Q_def)
  have "co_councilDigest s = co_councilDigest s0" "co_verificationState s = co_verificationState s0"
    unfolding q(2)[symmetric] by simp_all
  moreover from this have "analysis_fits s = analysis_fits s0" by (simp add: analysis_fits_def fun_eq_iff)
  ultimately show ?thesis using q start by simp
qed

definition sample_sha :: "string \<Rightarrow> string" where "sample_sha x = ''d''"

definition sample_plan :: council_plan where
  "sample_plan = \<lparr>pl_definition = projr (council_definition_to_record sample_council), pl_councilDigest = ''sha256:d'',
     pl_launchAuthorization = None, pl_admittedAt = ''2026-01-01T00:00:00Z'', pl_councilId = None\<rparr>"

definition sample_analyses :: "analysis_record list" where
  "sample_analyses = [\<lparr>ay_councilDigest = Some ''sha256:d'', ay_verificationState = Some ''verified'', ay_body = []\<rparr>,
     \<lparr>ay_councilDigest = Some ''sha256:d'', ay_verificationState = None, ay_body = []\<rparr>]"

lemma council_never_verifies_itself_witness:
  "\<exists>s0. council_create sample_sha sample_plan = Inr s0
     \<and> co_analysisHistory (attempt council_record_analysis s0 sample_analyses) = [sample_analyses ! 1]
     \<and> co_verificationState (attempt council_record_analysis s0 sample_analyses) = ''unverified''"
proof -
  have "isl (council_create sample_sha sample_plan) = False" by code_simp
  then obtain s0 where s0: "council_create sample_sha sample_plan = Inr s0" by (cases "council_create sample_sha sample_plan") auto
  have "co_councilDigest s0 = ''sha256:d''" using council_never_verifies_itself[OF s0, of "[]"] by (simp add: sample_plan_def)
  then have "accepted council_record_analysis s0 sample_analyses = [sample_analyses ! 1]"
    by (simp add: sample_analyses_def council_record_analysis_def text_or_def)
  with council_never_verifies_itself[OF s0, of sample_analyses] s0 show ?thesis by simp
qed

end
