(* ===== verification/Replay.thy ===== *)
theory Replay
  imports Store_Safety Mission_Task Capability Claims Driver_Runs Approvals Artifacts_Prompts Tool_Execution Cohorts
    Coordination Council
begin

text \<open>
  \<^verbatim>\<open>capt_runtime/replay.py\<close>: the state of the runtime rebuilt from the event ledger. An
  aggregate state is a case of \<open>agg\<close>, a payload a case of \<open>event\<close>; an event type without a
  reducer is \<open>OtherEvent\<close>. The reducers of the code work on plain dictionaries, so an event that
  reaches a stream of another kind of aggregate would run them on the wrong dictionary: what
  they do then is the parameter \<open>rt_confused\<close>. Path resolution, SHA-256 and the contract
  validator are parameters as in the components.
\<close>

section \<open>Aggregates and events\<close>

datatype (plugins only: code) agg =
    AMission mission
  | ATask task
  | ACapability capability
  | ADriverRun driver_run
  | AClaim claim
  | AApproval approval
  | APromotion promotion
  | AProposal proposal
  | AToolExecution dict
  | ASandboxLease dict
  | ACohort cohort
  | ACouncil council
  | ABot bot
  | ACognitive cognitive_candidate
  | ADelegate delegate
  | ASkill skill
  | ALab lab_item
  | AFork replay_fork
  | ABinding dict

record policy_decision =
  pd_policyDecisionId :: string
  pd_missionId :: string
  pd_taskId :: "string option"
  pd_effect :: string
  pd_decidedBy :: actor
  pd_subject :: "actor option"
  pd_requestedOperations :: "string list"
  pd_requestedScope :: json
  pd_conditions :: "json list option"
  pd_policyBundleDigest :: string
  pd_externalCommitments :: "json list option"

record boundary_event =
  be_driverRunId :: string
  be_previousDispatchBoundary :: string
  be_dispatchBoundary :: string
  be_recordedAt :: string

record approval_use =
  au_useId :: string
  au_consumedAt :: string

record steer_event =
  se_directive :: string
  se_reason :: "string option"
  se_steeredBy :: string
  se_steeredAt :: string

datatype tool_event = ToolAdmitted | ToolDispatching | ToolEffectObserved | ToolSettling | ToolTerminated

datatype (plugins only: code) event =
    MissionCreated mission_spec
  | PolicyEvaluated policy_decision
  | MissionStateChanged string
  | TaskCreated task_node
  | ToolExecutionPrepared dict
  | ToolExecutionChanged tool_event dict
  | TaskTransitioned string
  | TaskResultSubmitted string string
  | CapabilityGranted grant
  | CapabilityLeaseActivated lease_req
  | CapabilityUseReserved reservation_req
  | CapabilityUseFinalized consumption
  | CapabilityGrantRevoked revocation_req
  | CapabilityLeaseRevoked revocation_req
  | DriverRunCreated driver_run_req
  | DriverRunStateChanged string
  | DriverRunDispatchBoundaryRecorded boundary_event
  | ClaimCreated claim_req
  | EvidenceRecorded string
  | ClaimVerified verification
  | ClaimGuardDecided decision
  | HumanApprovalRequested approval_req
  | HumanApprovalDecided approval_decision
  | HumanApprovalRevoked approval_revocation
  | HumanApprovalConsumed approval_use
  | CloudflareResourceAdoptionApprovalConsumed approval_use
  | CloudflareResourceBindingCreated dict
  | ArtifactPromotionPrepared promotion_spec
  | ArtifactPromotionAuthorized string string
  | ArtifactPromotionAdopted receipt string
  | ArtifactPromotionDiscarded string string
  | BotRegistered bot_spec
  | CognitiveCandidateProposed cognitive_spec
  | CognitiveCandidateDecided string actor string "string option"
  | DelegateAssigned delegate_spec
  | DelegateAssignmentTransitioned string actor "string option" string
  | SkillCandidateCreated skill_spec
  | SkillCandidateTransitioned string actor "string option"
  | LabBoardItemCreated lab_spec
  | LabBoardItemTransitioned string actor "string option"
  | CohortCreated cohort_snapshot
  | CohortSnapshotPersisted cohort_snapshot
  | CohortSteered steer_event
  | CouncilAdmitted council_plan
  | CouncilAnalysisRecorded analysis_record
  | ReplayForkCreated fork_spec
  | PromptProposalCreated proposal
  | PromptProposalRevised proposal_revision
  | PromptProposalCancelled string string
  | CheckpointCreated dict
  | MissionResumed dict
  | OtherEvent string dict

text \<open>\<^verbatim>\<open>_CREATION_EVENTS\<close>.\<close>

fun creation_event :: "event \<Rightarrow> bool" where
  "creation_event (MissionCreated _) = True"
| "creation_event (TaskCreated _) = True"
| "creation_event (CapabilityGranted _) = True"
| "creation_event (DriverRunCreated _) = True"
| "creation_event (ClaimCreated _) = True"
| "creation_event (HumanApprovalRequested _) = True"
| "creation_event (PromptProposalCreated _) = True"
| "creation_event (ArtifactPromotionPrepared _) = True"
| "creation_event (BotRegistered _) = True"
| "creation_event (CognitiveCandidateProposed _) = True"
| "creation_event (DelegateAssigned _) = True"
| "creation_event (SkillCandidateCreated _) = True"
| "creation_event (LabBoardItemCreated _) = True"
| "creation_event (CohortCreated _) = True"
| "creation_event (CouncilAdmitted _) = True"
| "creation_event (ReplayForkCreated _) = True"
| "creation_event (CloudflareResourceBindingCreated _) = True"
| "creation_event (ToolExecutionPrepared _) = True"
| "creation_event _ = False"

fun expected_states :: "tool_event \<Rightarrow> string list" where
  "expected_states ToolAdmitted = [''admitted'']"
| "expected_states ToolDispatching = [''dispatching'']"
| "expected_states ToolEffectObserved = [''effect_observed'']"
| "expected_states ToolSettling = [''settling'']"
| "expected_states ToolTerminated = [''completed'', ''failed'', ''cancelled'', ''indeterminate'']"

record runtime =
  rt_validate :: validator
  rt_sha :: "string \<Rightarrow> string"
  rt_resolve :: "string \<Rightarrow> string"
  rt_confused :: "agg \<Rightarrow> event \<Rightarrow> agg res"

section \<open>Reducers\<close>

definition wrap :: "('a \<Rightarrow> agg) \<Rightarrow> 'a res \<Rightarrow> agg res" where
  "wrap c m = bnd m (\<lambda>x. Inr (c x))"

text \<open>A reducer of one kind of aggregate; \<open>pick\<close> recognises its states.\<close>

definition on :: "runtime \<Rightarrow> agg \<Rightarrow> event \<Rightarrow> (agg \<Rightarrow> 'a option) \<Rightarrow> ('a \<Rightarrow> agg) \<Rightarrow> ('a \<Rightarrow> 'a res) \<Rightarrow> agg res" where
  "on R current p pick c f = (case pick current of None \<Rightarrow> rt_confused R current p | Some x \<Rightarrow> wrap c (f x))"

fun the_mission where "the_mission (AMission x) = Some x" | "the_mission _ = None"
fun the_task where "the_task (ATask x) = Some x" | "the_task _ = None"
fun the_capability where "the_capability (ACapability x) = Some x" | "the_capability _ = None"
fun the_driver_run where "the_driver_run (ADriverRun x) = Some x" | "the_driver_run _ = None"
fun the_claim where "the_claim (AClaim x) = Some x" | "the_claim _ = None"
fun the_approval where "the_approval (AApproval x) = Some x" | "the_approval _ = None"
fun the_promotion where "the_promotion (APromotion x) = Some x" | "the_promotion _ = None"
fun the_proposal where "the_proposal (AProposal x) = Some x" | "the_proposal _ = None"
fun the_tool where "the_tool (AToolExecution x) = Some x" | "the_tool _ = None"
fun the_cohort where "the_cohort (ACohort x) = Some x" | "the_cohort _ = None"
fun the_council where "the_council (ACouncil x) = Some x" | "the_council _ = None"
fun the_cognitive where "the_cognitive (ACognitive x) = Some x" | "the_cognitive _ = None"
fun the_delegate where "the_delegate (ADelegate x) = Some x" | "the_delegate _ = None"
fun the_skill where "the_skill (ASkill x) = Some x" | "the_skill _ = None"
fun the_lab where "the_lab (ALab x) = Some x" | "the_lab _ = None"

text \<open>The creation events, which do not look at the current state.\<close>

fun reduce_creation :: "runtime \<Rightarrow> event \<Rightarrow> agg res" where
  "reduce_creation R (MissionCreated s) = Inr (AMission (mission_create s))"
| "reduce_creation R (TaskCreated t) = Inr (ATask (task_create t))"
| "reduce_creation R (ToolExecutionPrepared x) = wrap AToolExecution (tool_create (rt_validate R) x)"
| "reduce_creation R (CapabilityGranted g) = Inr (ACapability (cap_grant g))"
| "reduce_creation R (DriverRunCreated r) = wrap ADriverRun (driver_create r)"
| "reduce_creation R (ClaimCreated c) = Inr (AClaim (claim_propose c))"
| "reduce_creation R (HumanApprovalRequested q) = Inr (AApproval (approval_create q))"
| "reduce_creation R (CloudflareResourceBindingCreated b) = wrap ABinding (binding_create b)"
| "reduce_creation R (ArtifactPromotionPrepared s) = wrap APromotion (promotion_prepare (rt_resolve R) s)"
| "reduce_creation R (BotRegistered s) = wrap ABot (bot_create s)"
| "reduce_creation R (CognitiveCandidateProposed s) = wrap ACognitive (cognitive_create s)"
| "reduce_creation R (DelegateAssigned s) = wrap ADelegate (delegate_create s)"
| "reduce_creation R (SkillCandidateCreated s) = wrap ASkill (skill_create s)"
| "reduce_creation R (LabBoardItemCreated s) = wrap ALab (lab_create s)"
| "reduce_creation R (CohortCreated s) = wrap ACohort (cohort_replay_create s)"
| "reduce_creation R (CouncilAdmitted p) = wrap ACouncil (council_create (rt_sha R) p)"
| "reduce_creation R (ReplayForkCreated s) = wrap AFork (fork_create s)"
| "reduce_creation R (PromptProposalCreated s) = wrap AProposal (proposal_replay_create (rt_sha R) s)"
| "reduce_creation R _ = Inl (AssertionError [])"

text \<open>The events that change an existing state; \<open>occurred\<close> is the \<^verbatim>\<open>occurredAt\<close> of the envelope.\<close>

fun reduce_change :: "runtime \<Rightarrow> agg \<Rightarrow> event \<Rightarrow> string \<Rightarrow> agg res" where
  "reduce_change R current (PolicyEvaluated d) occurred =
     on R current (PolicyEvaluated d) the_mission AMission (\<lambda>m.
       let nxt = mission_record_policy_decision m (pd_policyDecisionId d) in
       if ms_state nxt = ''draft'' \<and> pd_effect d \<in> {''allow'', ''allow_with_conditions''}
       then mission_transition nxt ''authorized'' else Inr nxt)"
| "reduce_change R current (MissionStateChanged to_state) occurred =
     on R current (MissionStateChanged to_state) the_mission AMission (\<lambda>m. mission_transition m to_state)"
| "reduce_change R current (ToolExecutionChanged k snapshot) occurred =
     bnd (state_label snapshot) (\<lambda>label.
     raise_if (label \<notin> set (expected_states k)) (IntegrityViolation ''ToolExecution replay event type does not match state'') (
     on R current (ToolExecutionChanged k snapshot) the_tool AToolExecution (\<lambda>x. tool_replay_transition (rt_validate R) x snapshot)))"
| "reduce_change R current (TaskTransitioned to_state) occurred =
     on R current (TaskTransitioned to_state) the_task ATask (\<lambda>t. task_transition t to_state None)"
| "reduce_change R current (TaskResultSubmitted result_ref to_state) occurred =
     on R current (TaskResultSubmitted result_ref to_state) the_task ATask (\<lambda>t. task_transition (task_record_result t result_ref) to_state None)"
| "reduce_change R current (CapabilityLeaseActivated l) occurred =
     on R current (CapabilityLeaseActivated l) the_capability ACapability (\<lambda>c. cap_activate_lease c l)"
| "reduce_change R current (CapabilityUseReserved r) occurred =
     on R current (CapabilityUseReserved r) the_capability ACapability (\<lambda>c. cap_reserve c r (rq_reservedAt r))"
| "reduce_change R current (CapabilityUseFinalized x) occurred =
     on R current (CapabilityUseFinalized x) the_capability ACapability (\<lambda>c. cap_finalize c x)"
| "reduce_change R current (CapabilityGrantRevoked v) occurred =
     on R current (CapabilityGrantRevoked v) the_capability ACapability (\<lambda>c. cap_revoke c v)"
| "reduce_change R current (CapabilityLeaseRevoked v) occurred =
     on R current (CapabilityLeaseRevoked v) the_capability ACapability (\<lambda>c. cap_revoke c v)"
| "reduce_change R current (DriverRunStateChanged to_state) occurred =
     on R current (DriverRunStateChanged to_state) the_driver_run ADriverRun (\<lambda>d. driver_transition d to_state None)"
| "reduce_change R current (DriverRunDispatchBoundaryRecorded b) occurred =
     on R current (DriverRunDispatchBoundaryRecorded b) the_driver_run ADriverRun (\<lambda>d.
       raise_if (be_driverRunId b \<noteq> dr_driverRunId d) (IntegrityViolation ''DriverRun dispatch event identity mismatch'') (
       raise_if (be_previousDispatchBoundary b \<noteq> boundary_of d) (IntegrityViolation ''DriverRun dispatch predecessor mismatch'') (
       record_dispatch_boundary d (be_dispatchBoundary b) (be_recordedAt b))))"
| "reduce_change R current (EvidenceRecorded i) occurred = on R current (EvidenceRecorded i) the_claim AClaim (\<lambda>c. claim_attach_evidence c i)"
| "reduce_change R current (ClaimVerified v) occurred = on R current (ClaimVerified v) the_claim AClaim (\<lambda>c. claim_record_verification c v)"
| "reduce_change R current (ClaimGuardDecided d) occurred = on R current (ClaimGuardDecided d) the_claim AClaim (\<lambda>c. claim_decide c d)"
| "reduce_change R current (HumanApprovalDecided d) occurred =
     on R current (HumanApprovalDecided d) the_approval AApproval (\<lambda>a.
       approval_decide a d (if ad_decidedAt d = [] then occurred else ad_decidedAt d))"
| "reduce_change R current (HumanApprovalRevoked v) occurred =
     on R current (HumanApprovalRevoked v) the_approval AApproval (\<lambda>a. approval_revoke a v)"
| "reduce_change R current (HumanApprovalConsumed u) occurred =
     on R current (HumanApprovalConsumed u) the_approval AApproval (\<lambda>a. approval_consume a (au_useId u) (au_consumedAt u))"
| "reduce_change R current (CloudflareResourceAdoptionApprovalConsumed u) occurred =
     on R current (CloudflareResourceAdoptionApprovalConsumed u) the_approval AApproval (\<lambda>a. approval_consume a (au_useId u) (au_consumedAt u))"
| "reduce_change R current (ArtifactPromotionAuthorized who t) occurred =
     on R current (ArtifactPromotionAuthorized who t) the_promotion APromotion (\<lambda>p. promotion_authorize p who t)"
| "reduce_change R current (ArtifactPromotionAdopted r t) occurred =
     on R current (ArtifactPromotionAdopted r t) the_promotion APromotion (\<lambda>p. promotion_adopt p r t)"
| "reduce_change R current (ArtifactPromotionDiscarded reason t) occurred =
     on R current (ArtifactPromotionDiscarded reason t) the_promotion APromotion (\<lambda>p. promotion_discard p reason t)"
| "reduce_change R current (CognitiveCandidateDecided d who t reason) occurred =
     on R current (CognitiveCandidateDecided d who t reason) the_cognitive ACognitive (\<lambda>c. cognitive_decide c d who t reason)"
| "reduce_change R current (DelegateAssignmentTransitioned to_state who reason t) occurred =
     on R current (DelegateAssignmentTransitioned to_state who reason t) the_delegate ADelegate (\<lambda>d. delegate_transition d to_state who reason t)"
| "reduce_change R current (SkillCandidateTransitioned to_state who reason) occurred =
     on R current (SkillCandidateTransitioned to_state who reason) the_skill ASkill (\<lambda>s. skill_transition s to_state who reason)"
| "reduce_change R current (LabBoardItemTransitioned to_state who reason) occurred =
     on R current (LabBoardItemTransitioned to_state who reason) the_lab ALab (\<lambda>i. lab_transition i to_state who reason occurred)"
| "reduce_change R current (CohortSnapshotPersisted s) occurred =
     on R current (CohortSnapshotPersisted s) the_cohort ACohort (\<lambda>c. cohort_replay_replace c s)"
| "reduce_change R current (CohortSteered s) occurred =
     on R current (CohortSteered s) the_cohort ACohort (\<lambda>c. cohort_steer c (se_directive s)
       (case se_reason s of None \<Rightarrow> ''operator steering'' | Some r \<Rightarrow> r) (se_steeredBy s) (se_steeredAt s))"
| "reduce_change R current (CouncilAnalysisRecorded a) occurred =
     on R current (CouncilAnalysisRecorded a) the_council ACouncil (\<lambda>c. council_record_analysis c a)"
| "reduce_change R current (PromptProposalRevised v) occurred =
     on R current (PromptProposalRevised v) the_proposal AProposal (\<lambda>p. proposal_revise (rt_sha R) p v)"
| "reduce_change R current (PromptProposalCancelled i reason) occurred =
     on R current (PromptProposalCancelled i reason) the_proposal AProposal (\<lambda>p.
       raise_if (i \<noteq> pp_proposalId p) (IntegrityViolation ''prompt proposal cancellation identity mismatch'') (proposal_cancel p reason))"
| "reduce_change R current (CheckpointCreated x) occurred = Inr current"
| "reduce_change R current (MissionResumed x) occurred = Inr current"
| "reduce_change R current (OtherEvent t x) occurred = Inl (IntegrityViolation (''no reducer for event type '' @ t))"
| "reduce_change R current p occurred = reduce_creation R p"

text \<open>The body of \<^verbatim>\<open>_apply\<close> between the version checks and the update.\<close>

definition reduce_event :: "runtime \<Rightarrow> agg option \<Rightarrow> event envelope \<Rightarrow> agg res" where
  "reduce_event R current e = (let p = ev_payload e in
     if creation_event p then reduce_creation R p
     else case current of
       None \<Rightarrow> Inl (IntegrityViolation (''event '' @ ev_eventId e @ '' mutates stream '' @ ev_streamId e @ '' which has no prior state''))
     | Some s \<Rightarrow> reduce_change R s p (ev_occurredAt e))"

section \<open>Folding the ledger\<close>

record 's replay_state =
  rs_aggregates :: "(string \<times> 's) list"
  rs_versions :: "(string \<times> int) list"
  rs_applied :: int
  rs_skipped :: int

definition empty_replay :: "'s replay_state" where
  "empty_replay = \<lparr>rs_aggregates = [], rs_versions = [], rs_applied = 0, rs_skipped = 0\<rparr>"

definition apply_event :: "('s option \<Rightarrow> 'p envelope \<Rightarrow> 's res) \<Rightarrow> 's replay_state \<Rightarrow> 'p envelope \<Rightarrow> 's replay_state res" where
  "apply_event reduce st e =
    (let stream = ev_streamId e; version = ev_streamVersion e; current_version = seen_at (rs_versions st) stream in
     if version \<le> current_version then Inr (st\<lparr>rs_skipped := rs_skipped st + 1\<rparr>)
     else
     raise_if (version \<noteq> current_version + 1)
       (IntegrityViolation (''gap in stream '' @ stream @ '': have version '' @ str_int current_version @ '', next event is '' @ str_int version)) (
     bnd (reduce (map_of (rs_aggregates st) stream) e) (\<lambda>nxt.
     Inr (st\<lparr>rs_aggregates := AList.update stream nxt (rs_aggregates st),
            rs_versions := AList.update stream version (rs_versions st), rs_applied := rs_applied st + 1\<rparr>))))"

definition apply_events :: "('s option \<Rightarrow> 'p envelope \<Rightarrow> 's res) \<Rightarrow> 's replay_state \<Rightarrow> 'p envelope list \<Rightarrow> 's replay_state res" where
  "apply_events reduce = run (apply_event reduce)"

text \<open>The checks the two prefix functions start with.\<close>

definition check_target :: "('p, 's) hashing \<Rightarrow> ('p, 's, 'm) db \<Rightarrow> int \<Rightarrow> unit res" where
  "check_target H d target =
     bnd (verify_chain H d) (\<lambda>_.
     raise_if (target < 0) (ValueError ''target_sequence must be >= 0'') (
     raise_if (target > head_sequence d)
       (ValueError (''target_sequence '' @ str_int target @ '' exceeds ledger head '' @ str_int (head_sequence d))) (
     Inr ())))"

definition events_up_to :: "('p, 's, 'm) db \<Rightarrow> int \<Rightarrow> 'p envelope list" where
  "events_up_to d target = takeWhile (\<lambda>e. ev_globalSequence e \<le> target) (read_events d 0)"

record ledger_identity =
  lg_globalSequence :: int
  lg_eventId :: "string option"
  lg_chainDigest :: string

definition ledger_identity_to_sequence :: "('p, 's) hashing \<Rightarrow> ('p, 's, 'm) db \<Rightarrow> int \<Rightarrow> ledger_identity res" where
  "ledger_identity_to_sequence H d target =
     bnd (check_target H d target) (\<lambda>_.
     let es = events_up_to d target in
     Inr \<lparr>lg_globalSequence = target,
        lg_eventId = (if es = [] then None else Some (ev_eventId (last es))),
        lg_chainDigest = fold (\<lambda>e chain. chain_next (hs_sha H) chain (ev_payloadDigest e) (ev_eventId e)) es GENESIS_CHAIN\<rparr>)"

definition replay_to_sequence :: "('p, 's) hashing \<Rightarrow> ('s option \<Rightarrow> 'p envelope \<Rightarrow> 's res) \<Rightarrow> ('p, 's, 'm) db \<Rightarrow> int \<Rightarrow> 's replay_state res" where
  "replay_to_sequence H reduce d target =
     bnd (check_target H d target) (\<lambda>_. apply_events reduce empty_replay (events_up_to d target))"

definition full_replay :: "('p, 's) hashing \<Rightarrow> ('s option \<Rightarrow> 'p envelope \<Rightarrow> 's res) \<Rightarrow> ('p, 's, 'm) db \<Rightarrow> 's replay_state res" where
  "full_replay H reduce d = replay_to_sequence H reduce d (head_sequence d)"

text \<open>\<^verbatim>\<open>ReplayState.digest\<close>; \<open>show_state\<close> is the JSON form of an aggregate state.\<close>

definition replay_digest :: "(string \<Rightarrow> string) \<Rightarrow> ('s \<Rightarrow> json) \<Rightarrow> 's replay_state \<Rightarrow> string" where
  "replay_digest sha show_state st = digest sha (JObj
     [(''aggregates'', JObj (map (\<lambda>(i, s). (i, show_state s)) (rs_aggregates st))),
      (''versions'', JObj (map (\<lambda>(i, v). (i, JInt v)) (rs_versions st)))])"

definition replay_equivalent :: "(string \<Rightarrow> string) \<Rightarrow> ('s \<Rightarrow> json) \<Rightarrow> 's replay_state \<Rightarrow> 's replay_state \<Rightarrow> bool" where
  "replay_equivalent sha show_state l r \<longleftrightarrow> replay_digest sha show_state l = replay_digest sha show_state r"

end
