(* ===== verification/Replay_Safety.thy ===== *)
theory Replay_Safety
  imports Replay
begin

text \<open>
  The guarantees of replay: duplicates are skipped and gaps refused, the fold of the ledger
  rebuilds exactly the aggregates the store holds when every append records what its reducer
  computes, and the replay of a prefix is the replay as it was when the prefix was the ledger.
  What replay needs of the reducers is the locale \<open>event_reducer\<close>, interpreted on those of
  \<^verbatim>\<open>_apply\<close>.
\<close>

section \<open>The contract of the reducers\<close>

locale event_reducer =
  fixes creation :: "'p \<Rightarrow> bool" and reduce :: "'s option \<Rightarrow> 'p envelope \<Rightarrow> 's res"
  assumes needs_state: "\<not> creation (ev_payload e) \<Longrightarrow> \<exists>m. reduce None e = Inl (IntegrityViolation m)"
    and creation_fresh: "creation (ev_payload e) \<Longrightarrow> reduce s e = reduce s' e"
    and placement_blind: "reduce s (e\<lparr>ev_streamVersion := v, ev_payloadDigest := p, ev_globalSequence := n\<rparr>) = reduce s e"

interpretation rp: event_reducer creation_event "reduce_event R" for R
  by unfold_locales (auto simp: reduce_event_def Let_def split: option.split)

section \<open>One event\<close>

lemma seen_at_Nil [simp]: "seen_at [] s = 0"
  by (simp add: seen_at_def)

lemma apply_event_seen:
  "ev_streamVersion e \<le> seen_at (rs_versions st) (ev_streamId e) \<Longrightarrow>
     apply_event reduce st e = Inr (st\<lparr>rs_skipped := rs_skipped st + 1\<rparr>)"
  by (simp add: apply_event_def)

lemma apply_event_next:
  assumes "ev_streamVersion e = seen_at (rs_versions st) (ev_streamId e) + 1"
    and "reduce (map_of (rs_aggregates st) (ev_streamId e)) e = Inr s"
  shows "apply_event reduce st e = Inr (st\<lparr>rs_aggregates := AList.update (ev_streamId e) s (rs_aggregates st),
     rs_versions := AList.update (ev_streamId e) (ev_streamVersion e) (rs_versions st), rs_applied := rs_applied st + 1\<rparr>)"
  using assms by (simp add: apply_event_def Let_def)

lemma apply_event_Inr:
  assumes "apply_event reduce st e = Inr st'"
  obtains (seen) "ev_streamVersion e \<le> seen_at (rs_versions st) (ev_streamId e)" "st' = st\<lparr>rs_skipped := rs_skipped st + 1\<rparr>"
  | (applied) s where "ev_streamVersion e = seen_at (rs_versions st) (ev_streamId e) + 1"
      "reduce (map_of (rs_aggregates st) (ev_streamId e)) e = Inr s"
      "st' = st\<lparr>rs_aggregates := AList.update (ev_streamId e) s (rs_aggregates st),
         rs_versions := AList.update (ev_streamId e) (ev_streamVersion e) (rs_versions st), rs_applied := rs_applied st + 1\<rparr>"
proof (cases "ev_streamVersion e \<le> seen_at (rs_versions st) (ev_streamId e)")
  case True
  with assms seen show ?thesis by (simp add: apply_event_seen)
next
  case False
  with assms applied show ?thesis by (auto simp: apply_event_def Let_def)
qed

lemma versions_grow:
  "apply_event reduce st e = Inr st' \<Longrightarrow> seen_at (rs_versions st) s \<le> seen_at (rs_versions st') s
     \<and> ev_streamVersion e \<le> seen_at (rs_versions st') (ev_streamId e)"
  by (erule apply_event_Inr) auto

lemma versions_grow_all:
  "apply_events reduce st es = Inr st' \<Longrightarrow> seen_at (rs_versions st) s \<le> seen_at (rs_versions st') s"
  unfolding apply_events_def
proof (induction es arbitrary: st)
  case (Cons e es)
  then obtain st1 where "apply_event reduce st e = Inr st1" "run (apply_event reduce) st1 es = Inr st'" by auto
  with Cons.IH versions_grow[of reduce st e st1 s] show ?case by force
qed simp

lemma applied_are_seen:
  "apply_events reduce st es = Inr st' \<Longrightarrow> e \<in> set es \<Longrightarrow> ev_streamVersion e \<le> seen_at (rs_versions st') (ev_streamId e)"
  unfolding apply_events_def
proof (induction es arbitrary: st)
  case (Cons x es)
  then obtain st1 where st1: "apply_event reduce st x = Inr st1" "run (apply_event reduce) st1 es = Inr st'" by auto
  show ?case
  proof (cases "e = x")
    case True
    with versions_grow[OF st1(1)] versions_grow_all[of reduce st1 es st', unfolded apply_events_def, OF st1(2)] show ?thesis
      by (meson order_trans)
  qed (use Cons st1(2) in auto)
qed simp

lemma replay_seen_again:
  assumes "\<And>e. e \<in> set es \<Longrightarrow> ev_streamVersion e \<le> seen_at (rs_versions st) (ev_streamId e)"
  shows "apply_events reduce st es = Inr (st\<lparr>rs_skipped := rs_skipped st + int (length es)\<rparr>)"
  using assms unfolding apply_events_def
proof (induction es arbitrary: st)
  case (Cons e es)
  let ?st1 = "st\<lparr>rs_skipped := rs_skipped st + 1\<rparr>"
  have "run (apply_event reduce) ?st1 es = Inr (?st1\<lparr>rs_skipped := rs_skipped ?st1 + int (length es)\<rparr>)"
    by (rule Cons.IH) (use Cons.prems in simp)
  moreover have "apply_event reduce st e = Inr ?st1" using Cons.prems by (simp add: apply_event_seen)
  ultimately show ?case by (simp add: algebra_simps)
qed simp

text \<open>
  C39. Replay does not count an event twice and does not skip one: after any events have been
  folded, folding any of them again, in any order and number, changes nothing but the count of
  skipped events; an event that is further than one version ahead of its stream is refused,
  and so is a change of a stream that has no state.
\<close>

theorem replay_exactly_once:
  assumes "apply_events (reduce_event R) empty_replay es = Inr st"
  shows "(set again \<subseteq> set es \<longrightarrow>
        apply_events (reduce_event R) st again = Inr (st\<lparr>rs_skipped := rs_skipped st + int (length again)\<rparr>))
    \<and> (ev_streamVersion e > seen_at (rs_versions st) (ev_streamId e) + 1 \<longrightarrow>
        (\<exists>m. apply_event (reduce_event R) st e = Inl (IntegrityViolation m)))
    \<and> (ev_streamVersion e > seen_at (rs_versions st) (ev_streamId e) \<and> map_of (rs_aggregates st) (ev_streamId e) = None
        \<and> \<not> creation_event (ev_payload e) \<longrightarrow>
        (\<exists>m. apply_event (reduce_event R) st e = Inl (IntegrityViolation m)))"
proof (intro conjI impI)
  assume "set again \<subseteq> set es"
  then show "apply_events (reduce_event R) st again = Inr (st\<lparr>rs_skipped := rs_skipped st + int (length again)\<rparr>)"
    by (intro replay_seen_again applied_are_seen[OF assms]) blast
next
  assume "ev_streamVersion e > seen_at (rs_versions st) (ev_streamId e) + 1"
  then show "\<exists>m. apply_event (reduce_event R) st e = Inl (IntegrityViolation m)"
    by (simp add: apply_event_def Let_def)
next
  assume a: "ev_streamVersion e > seen_at (rs_versions st) (ev_streamId e) \<and> map_of (rs_aggregates st) (ev_streamId e) = None
        \<and> \<not> creation_event (ev_payload e)"
  then obtain m where "reduce_event R None e = Inl (IntegrityViolation m)" using rp.needs_state by blast
  then show "\<exists>m. apply_event (reduce_event R) st e = Inl (IntegrityViolation m)"
    using a by (auto simp: apply_event_def Let_def raise_if_def)
qed

section \<open>The ledger as the store leaves it\<close>

definition opened_ledger :: "('p, 's, 'm) db \<Rightarrow> 'p envelope list" where
  "opened_ledger d = opened (db_events d)"

lemma read_opened: "ledger_inv H d \<Longrightarrow> read_events d 0 = opened_ledger d"
  by (simp add: read_all_inv opened_ledger_def)

lemma length_opened_ledger [simp]: "length (opened_ledger d) = length (db_events d)"
  by (simp add: opened_ledger_def opened_def)

lemma ledger_sequence: "ledger_inv H d \<Longrightarrow> map ev_globalSequence (opened_ledger d) = map int [1..<Suc (length (db_events d))]"
  using global_sequences_inv[of H d] by (simp only: read_opened)

lemma head_sequence_inv: "ledger_inv H d \<Longrightarrow> head_sequence d = int (length (db_events d))"
proof -
  assume inv: "ledger_inv H d"
  have "er_sequence ` set (db_events d) = int ` {1..length (db_events d)}"
    using inv unfolding ledger_inv_def by (metis set_map set_upt atLeastLessThanSuc_atLeastAtMost)
  then have "db_events d \<noteq> [] \<Longrightarrow> Max (er_sequence ` set (db_events d)) = int (length (db_events d))"
    by (simp only:, intro Max_eqI) (auto simp: Suc_le_eq)
  then show ?thesis by (simp add: head_sequence_def)
qed

lemma verify_chain_inv: "ledger_inv H d \<Longrightarrow> verify_chain H d = Inr (head_chain d)"
  by (simp add: verify_chain_def event_rows_inv) (simp add: ledger_inv_def)

lemma takeWhile_sequence:
  assumes "map f es = map int [1..<Suc (length es)]" and "0 \<le> t"
  shows "takeWhile (\<lambda>e. f e \<le> t) es = take (nat t) es"
proof -
  have nth: "f (es ! i) = int i + 1" if "i < length es" for i
  proof -
    have "map f es ! i = map int [1..<Suc (length es)] ! i" by (simp only: assms(1))
    with that show ?thesis by (simp del: upt_Suc)
  qed
  show ?thesis
  proof (cases "nat t < length es")
    case True
    show ?thesis by (rule takeWhile_eq_take_P_nth) (use True nth in auto)
  next
    case False
    have "takeWhile (\<lambda>e. f e \<le> t) es = es"
    proof (rule takeWhile_eq_all_conv[THEN iffD2], rule ballI)
      fix e assume "e \<in> set es"
      then obtain i where "i < length es" "e = es ! i" by (auto simp: in_set_conv_nth)
      with nth[of i] False show "f e \<le> t" by simp
    qed
    with False show ?thesis by simp
  qed
qed

lemma events_up_to_inv:
  "ledger_inv H d \<Longrightarrow> 0 \<le> t \<Longrightarrow> events_up_to d t = take (nat t) (opened_ledger d)"
  using takeWhile_sequence[of ev_globalSequence "opened_ledger d" t] ledger_sequence[of H d]
  by (simp add: events_up_to_def read_opened)

lemma check_target_inv: "ledger_inv H d \<Longrightarrow> 0 \<le> t \<Longrightarrow> t \<le> int (length (db_events d)) \<Longrightarrow> check_target H d t = Inr ()"
  by (simp add: check_target_def verify_chain_inv head_sequence_inv)

lemma replay_to_inv:
  assumes "ledger_inv H d" and "0 \<le> t" and "t \<le> int (length (db_events d))"
  shows "replay_to_sequence H reduce d t = apply_events reduce empty_replay (take (nat t) (opened_ledger d))"
  by (simp add: replay_to_sequence_def check_target_inv[OF assms] events_up_to_inv[OF assms(1,2)])

lemma full_replay_inv: "ledger_inv H d \<Longrightarrow> full_replay H reduce d = apply_events reduce empty_replay (opened_ledger d)"
  by (simp add: full_replay_def head_sequence_inv replay_to_inv)

text \<open>The ledger only grows.\<close>

definition extends :: "('p, 's, 'm) db \<Rightarrow> ('p, 's, 'm) db \<Rightarrow> bool" where
  "extends d d' \<longleftrightarrow> (\<exists>rows. db_events d' = db_events d @ rows)"

lemma extends_trans: "extends a b \<Longrightarrow> extends b c \<Longrightarrow> extends a c"
  by (auto simp: extends_def)

lemma extends_exec: "ledger_inv H d \<Longrightarrow> extends d (store_exec H op d)"
proof (cases op)
  case (Commit as key fp cid)
  assume inv: "ledger_inv H d"
  obtain d' res where c: "commit_command H as key fp cid d = (d', res)" by force
  from c have "extends d d'"
  proof (cases rule: commit_command_cases)
    case (applied d1 written)
    obtain rows where "db_events d1 = db_events d @ rows" using append_all_effect[OF inv applied(2)] by blast
    then show ?thesis by (simp add: applied(5) extends_def)
  qed (simp_all add: extends_def)
  with c show ?thesis by (simp add: Commit)
qed (use other_ops_keep_ledger[of op d H] in \<open>simp_all add: extends_def same_ledger_def\<close>)

lemma extends_after: "ledger_inv H d \<Longrightarrow> extends d (after_ops H ops d)"
proof (induction ops arbitrary: d)
  case Nil
  show ?case by (simp add: extends_def)
next
  case (Cons op ops)
  from extends_trans[OF extends_exec[OF Cons.prems] Cons.IH[OF ledger_inv_exec[OF Cons.prems]]] show ?case by simp
qed

lemma extends_ledger: "extends d d' \<Longrightarrow> \<exists>es. opened_ledger d' = opened_ledger d @ es"
  by (auto simp: extends_def opened_ledger_def opened_def)

section \<open>Replay rebuilds what the store holds\<close>

text \<open>
  An append is faithful when its envelope is on its stream and the reducer of its event computes
  from the state of the stream the state the command stores.
\<close>

fun faithful_appends :: "('s option \<Rightarrow> 'p envelope \<Rightarrow> 's res) \<Rightarrow> (string \<Rightarrow> 's option) \<Rightarrow> ('p, 's) append_request list \<Rightarrow> bool" where
  "faithful_appends reduce st [] = True"
| "faithful_appends reduce st (a # as) =
     (ev_streamId (rq_envelope a) = rq_stream_id a
      \<and> reduce (st (rq_stream_id a)) (rq_envelope a) = Inr (rq_state a)
      \<and> faithful_appends reduce (st(rq_stream_id a \<mapsto> rq_state a)) as)"

definition faithful_op :: "('s option \<Rightarrow> 'p envelope \<Rightarrow> 's res) \<Rightarrow> ('p, 's, 'm) db \<Rightarrow> ('p, 's, 'm, 'w) store_op \<Rightarrow> bool" where
  "faithful_op reduce d op = (case op of
     Commit as key fp cid \<Rightarrow> idempotent_result d key = None \<longrightarrow> faithful_appends reduce (load_state d) as | _ \<Rightarrow> True)"

fun faithful_ops :: "('p, 's) hashing \<Rightarrow> ('s option \<Rightarrow> 'p envelope \<Rightarrow> 's res) \<Rightarrow> ('p, 's, 'm) db \<Rightarrow> ('p, 's, 'm, 'w) store_op list \<Rightarrow> bool" where
  "faithful_ops H reduce d [] = True"
| "faithful_ops H reduce d (op # ops) = (faithful_op reduce d op \<and> faithful_ops H reduce (store_exec H op d) ops)"

definition rebuilds :: "('p, 's, 'm) db \<Rightarrow> 's replay_state \<Rightarrow> bool" where
  "rebuilds d st \<longleftrightarrow> map_of (rs_aggregates st) = load_state d \<and> (\<forall>s. seen_at (rs_versions st) s = aggregate_version d s)
     \<and> rs_applied st = int (length (db_events d)) \<and> rs_skipped st = 0"

definition rebuilt :: "('s option \<Rightarrow> 'p envelope \<Rightarrow> 's res) \<Rightarrow> ('p, 's, 'm) db \<Rightarrow> 's replay_state \<Rightarrow> bool" where
  "rebuilt reduce d st \<longleftrightarrow> apply_events reduce empty_replay (opened_ledger d) = Inr st \<and> rebuilds d st"

lemma rebuilt_same: "same_ledger d d' \<Longrightarrow> rebuilt reduce d st \<Longrightarrow> rebuilt reduce d' st"
  by (simp add: rebuilt_def rebuilds_def same_ledger_def opened_ledger_def load_state_def aggregate_version_def fun_eq_iff)

context event_reducer
begin

lemma rebuilt_append:
  assumes inv: "ledger_inv H d" and ok: "rebuilt reduce d st" and step: "append_one H a c d = (d', Inr (c', env))"
    and same: "ev_streamId (rq_envelope a) = rq_stream_id a"
    and red: "reduce (load_state d (rq_stream_id a)) (rq_envelope a) = Inr (rq_state a)"
  shows "\<exists>st'. rebuilt reduce d' st'" and "load_state d' = (load_state d)(rq_stream_id a \<mapsto> rq_state a)"
proof -
  let ?s = "rq_stream_id a"
  note A = append_one_Inr[OF step below_autoinc_inv[OF inv]]
  define v where "v = aggregate_version d ?s + 1"
  have env: "env = (rq_envelope a)\<lparr>ev_streamVersion := v, ev_payloadDigest := hs_payload H (ev_payload (rq_envelope a)),
      ev_globalSequence := db_autoinc d + 1\<rparr>"
    using A by (simp add: final_envelope_def v_def)
  have d': "opened_ledger d' = opened_ledger d @ [env]" "db_events d' = db_events d @ [final_row H a c v (db_autoinc d + 1)]"
      "db_aggregates d' = AList.update ?s (aggregate_after H a v (map_of (db_aggregates d) ?s)) (db_aggregates d)"
    using A by (simp_all add: opened_ledger_def opened_def final_row_def Let_def v_def)
  show load: "load_state d' = (load_state d)(?s \<mapsto> rq_state a)"
    by (auto simp: d'(3) load_state_def update_conv aggregate_after_def fun_eq_iff)
  have ver: "aggregate_version d' s = (if s = ?s then v else aggregate_version d s)" for s
    by (simp add: d'(3) aggregate_version_def update_conv aggregate_after_def)
  from ok have st: "apply_events reduce empty_replay (opened_ledger d) = Inr st" "map_of (rs_aggregates st) = load_state d"
      "\<And>s. seen_at (rs_versions st) s = aggregate_version d s" "rs_applied st = int (length (db_events d))" "rs_skipped st = 0"
    by (simp_all add: rebuilt_def rebuilds_def)
  have "reduce (map_of (rs_aggregates st) (ev_streamId env)) env = Inr (rq_state a)"
    unfolding st(2) env placement_blind using red same by simp
  moreover have "ev_streamVersion env = seen_at (rs_versions st) (ev_streamId env) + 1" "ev_streamId env = ?s" "ev_streamVersion env = v"
    unfolding st(3) by (simp_all add: env same v_def)
  ultimately have "apply_event reduce st env = Inr (st\<lparr>rs_aggregates := AList.update ?s (rq_state a) (rs_aggregates st),
     rs_versions := AList.update ?s v (rs_versions st), rs_applied := rs_applied st + 1\<rparr>)" (is "_ = Inr ?st'")
    by (subst apply_event_next) simp_all
  then have "apply_events reduce empty_replay (opened_ledger d') = Inr ?st'"
    using st(1) by (simp add: d'(1) apply_events_def run_append)
  moreover have "rebuilds d' ?st'"
    using st by (simp add: rebuilds_def update_conv' load ver d'(2))
  ultimately show "\<exists>st'. rebuilt reduce d' st'" by (auto simp: rebuilt_def)
qed

lemma rebuilt_append_all:
  "ledger_inv H d \<Longrightarrow> \<exists>st. rebuilt reduce d st \<Longrightarrow> append_all H as (head_chain d) d = (d', Inr w) \<Longrightarrow>
     faithful_appends reduce (load_state d) as \<Longrightarrow> \<exists>st. rebuilt reduce d' st"
proof (induction as arbitrary: d w)
  case (Cons a as)
  from Cons.prems(3) obtain d1 c e where one: "append_one H a (head_chain d) d = (d1, Inr (c, e))"
    by (auto simp: sthen_def split: prod.splits sum.splits)
  from ledger_inv_append[OF Cons.prems(1) one] have inv: "ledger_inv H d1" and c: "c = head_chain d1" by simp_all
  from Cons.prems(3) one c obtain w1 where rest: "append_all H as (head_chain d1) d1 = (d', Inr w1)"
    by (auto simp: sthen_def sret_def split: prod.splits sum.splits)
  from Cons.prems(2) obtain st where st: "rebuilt reduce d st" by blast
  from Cons.prems(4) have f: "ev_streamId (rq_envelope a) = rq_stream_id a"
      "reduce (load_state d (rq_stream_id a)) (rq_envelope a) = Inr (rq_state a)"
      "faithful_appends reduce ((load_state d)(rq_stream_id a \<mapsto> rq_state a)) as" by simp_all
  note R = rebuilt_append[OF Cons.prems(1) st one f(1,2)]
  have "faithful_appends reduce (load_state d1) as" unfolding R(2) by (rule f(3))
  from Cons.IH[OF inv R(1) rest this] show ?case .
qed simp

lemma rebuilt_exec:
  assumes inv: "ledger_inv H d" and ok: "\<exists>st. rebuilt reduce d st" and faithful: "faithful_op reduce d op"
  shows "\<exists>st. rebuilt reduce (store_exec H op d) st"
proof (cases op)
  case (Commit as key fp cid)
  obtain d' res where c: "commit_command H as key fp cid d = (d', res)" by force
  from c have "\<exists>st. rebuilt reduce d' st"
  proof (cases rule: commit_command_cases)
    case (applied d1 written)
    have "faithful_appends reduce (load_state d) as"
      using faithful applied(1) by (simp add: Commit faithful_op_def idempotent_result_def)
    from rebuilt_append_all[OF inv ok applied(2) this] obtain st where "rebuilt reduce d1 st" by blast
    moreover have "same_ledger d1 d'" by (simp add: applied(5) same_ledger_def)
    ultimately show ?thesis using rebuilt_same by blast
  qed (use ok in simp_all)
  with c show ?thesis by (simp add: Commit)
qed (use other_ops_keep_ledger[of op d H] ok rebuilt_same in \<open>blast+\<close>)

lemma rebuilt_after:
  "ledger_inv H d \<Longrightarrow> \<exists>st. rebuilt reduce d st \<Longrightarrow> faithful_ops H reduce d ops \<Longrightarrow> \<exists>st. rebuilt reduce (after_ops H ops d) st"
proof (induction ops arbitrary: d)
  case (Cons op ops)
  from Cons.prems(3) have f: "faithful_op reduce d op" "faithful_ops H reduce (store_exec H op d) ops" by simp_all
  from Cons.IH[OF ledger_inv_exec[OF Cons.prems(1)] rebuilt_exec[OF Cons.prems(1,2) f(1)] f(2)] show ?case by simp
qed simp

lemma rebuilt_empty: "rebuilt reduce empty_db empty_replay"
  by (simp add: rebuilt_def rebuilds_def empty_db_def empty_replay_def opened_ledger_def opened_def apply_events_def
      load_state_def aggregate_version_def fun_eq_iff)

lemma full_replay_rebuilds:
  assumes "faithful_ops H reduce empty_db ops"
  shows "\<exists>st. full_replay H reduce (after_ops H ops empty_db) = Inr st \<and> rebuilds (after_ops H ops empty_db) st"
proof -
  have inv: "ledger_inv H (after_ops H ops empty_db)" by (simp add: ledger_inv_after ledger_inv_empty)
  from rebuilt_after[OF ledger_inv_empty _ assms] rebuilt_empty obtain st where "rebuilt reduce (after_ops H ops empty_db) st" by blast
  then show ?thesis by (auto simp: full_replay_inv[OF inv] rebuilt_def)
qed

end


section \<open>A concrete ledger\<close>

definition sample_digest :: "string \<Rightarrow> string" where "sample_digest x = ''d''"

definition sample_runtime :: runtime where
  "sample_runtime = \<lparr>rt_validate = (\<lambda>_ _. []), rt_sha = sample_digest, rt_resolve = id,
     rt_confused = (\<lambda>_ _. Inl (KeyError []))\<rparr>"

definition sample_hashing :: "(event, agg) hashing" where
  "sample_hashing = \<lparr>hs_sha = sample_digest, hs_payload = (\<lambda>_. ''p''), hs_state = (\<lambda>_. ''s''), hs_validate = (\<lambda>_. [])\<rparr>"

definition sample_envelope :: "string \<Rightarrow> int \<Rightarrow> event \<Rightarrow> event envelope" where
  "sample_envelope i v p = \<lparr>ev_eventId = i, ev_streamId = ''mission-m1'', ev_streamVersion = v, ev_globalSequence = 0,
     ev_eventType = [], ev_schemaVersion = ''1.0.0'', ev_payload = p, ev_payloadDigest = [], ev_occurredAt = ''2026-01-01T00:00:00Z'',
     ev_rest = []\<rparr>"

definition sample_ledger :: "event envelope list" where
  "sample_ledger = [sample_envelope ''e1'' 1 (MissionCreated sample_spec), sample_envelope ''e2'' 2 (MissionStateChanged ''authorized'')]"

lemma replay_exactly_once_witness:
  "\<exists>st. apply_events (reduce_event sample_runtime) empty_replay sample_ledger = Inr st
     \<and> apply_events (reduce_event sample_runtime) st (rev sample_ledger) = Inr (st\<lparr>rs_skipped := rs_skipped st + 2\<rparr>)
     \<and> (\<exists>m. apply_event (reduce_event sample_runtime) st (sample_envelope ''e4'' 4 (MissionStateChanged ''executing'')) = Inl (IntegrityViolation m))"
proof -
  have ok: "isl (apply_events (reduce_event sample_runtime) empty_replay sample_ledger) = False" by code_simp
  have v: "seen_at (rs_versions (projr (apply_events (reduce_event sample_runtime) empty_replay sample_ledger))) ''mission-m1'' = 2" by code_simp
  from ok obtain st where st: "apply_events (reduce_event sample_runtime) empty_replay sample_ledger = Inr st"
    by (cases "apply_events (reduce_event sample_runtime) empty_replay sample_ledger") auto
  note T = replay_exactly_once[OF st, of "rev sample_ledger" "sample_envelope ''e4'' 4 (MissionStateChanged ''executing'')"]
  have "ev_streamVersion (sample_envelope ''e4'' 4 (MissionStateChanged ''executing''))
      > seen_at (rs_versions st) (ev_streamId (sample_envelope ''e4'' 4 (MissionStateChanged ''executing''))) + 1"
    using v by (simp add: st sample_envelope_def)
  with T have a: "\<exists>m. apply_event (reduce_event sample_runtime) st (sample_envelope ''e4'' 4 (MissionStateChanged ''executing'')) = Inl (IntegrityViolation m)"
    by blast
  have "length (rev sample_ledger) = 2" by (simp add: sample_ledger_def)
  with T have "apply_events (reduce_event sample_runtime) st (rev sample_ledger) = Inr (st\<lparr>rs_skipped := rs_skipped st + 2\<rparr>)"
    by (simp only: set_rev subset_refl of_nat_numeral)
  with st a show ?thesis by blast
qed

definition sample_commits :: "(event, agg, 'm, unit) store_op list" where
  "sample_commits = [Commit [\<lparr>rq_stream_id = ''mission-m1'', rq_kind = ''mission'', rq_expected_version = 0,
       rq_envelope = sample_envelope ''e1'' 1 (MissionCreated sample_spec), rq_state = AMission (mission_create sample_spec)\<rparr>,
     \<lparr>rq_stream_id = ''mission-m1'', rq_kind = ''mission'', rq_expected_version = 1,
       rq_envelope = sample_envelope ''e2'' 2 (MissionStateChanged ''authorized''),
       rq_state = AMission (projr (mission_transition (mission_create sample_spec) ''authorized''))\<rparr>] ''k'' ''f'' ''c'']"

lemma sample_commits_faithful: "faithful_ops sample_hashing (reduce_event sample_runtime) (empty_db :: (event, agg, 'm) db) sample_commits"
  by (simp add: sample_commits_def sample_envelope_def faithful_op_def idempotent_result_def empty_db_def
    reduce_event_def Let_def wrap_def on_def load_state_def mission_transition_def mission_create_def sample_spec_def allowed_def MISSION_TRANSITIONS_def
        MISSION_TERMINAL_def)


end
