(* ===== verification/Checkpoint.thy ===== *)
theory Checkpoint
  imports Replay_Safety
begin

text \<open>
  \<^verbatim>\<open>capt_runtime/checkpoint.py\<close> and \<^verbatim>\<open>replay.checkpoint_replay\<close>: the checkpoint manifest, its
  creation from the store, its verification, and the replay that starts from it. The digest of
  an artifact file is a parameter (\<open>None\<close> for a path that is no file).
\<close>

section \<open>Manifests\<close>

definition CONTRACT_SCHEMA_VERSION :: string where "CONTRACT_SCHEMA_VERSION = ''1.0.0''"
definition RUNTIME_VERSION :: string where "RUNTIME_VERSION = ''0.1.0''"

definition KIND_TO_FIELD :: "(string \<times> string) list" where
  "KIND_TO_FIELD = [(''mission'', ''missionVersions''), (''task'', ''taskVersions''), (''capability'', ''capabilityVersions''),
    (''driverrun'', ''driverRunVersions''), (''claim'', ''claimVersions''), (''human_approval'', ''humanApprovalVersions''),
    (''prompt_proposal'', ''promptProposalVersions''), (''artifact_promotion'', ''artifactPromotionVersions''),
    (''cohort'', ''cohortVersions''), (''council'', ''councilVersions''), (''replay_fork'', ''replayForkVersions''),
    (''tool_execution'', ''toolExecutionVersions''), (''bot'', ''botVersions''), (''cognitive_candidate'', ''cognitiveCandidateVersions''),
    (''delegate_assignment'', ''delegateAssignmentVersions''), (''skill_candidate'', ''skillCandidateVersions''),
    (''lab_board'', ''labBoardVersions''), (''sandbox_lease'', ''sandboxLeaseVersions''),
    (''cloudflare_resource_binding'', ''cloudflareResourceBindingVersions'')]"

datatype recovery_state = RecoveryClean | AwaitingReconciliation "string list"

record manifest =
  mf_schemaVersion :: string
  mf_runtimeVersion :: string
  mf_checkpointId :: string
  mf_createdAt :: string
  mf_globalSequence :: int
  mf_eventId :: "string option"
  mf_ledgerDigest :: string
  mf_versions :: "(string \<times> (string \<times> int) list) list"
  mf_activeLeaseIds :: "string list"
  mf_activeReservationIds :: "string list"
  mf_pendingOutboxEventIds :: "string list"
  mf_artifactHashes :: "(string \<times> string) list"
  mf_policyBundleDigest :: string
  mf_recoveryState :: recovery_state
  mf_integrityDigest :: string

text \<open>The manifest as JSON, without its integrity digest.\<close>

definition manifest_material :: "manifest \<Rightarrow> dict" where
  "manifest_material m = [
     (''schemaVersion'', JStr (mf_schemaVersion m)), (''runtimeVersion'', JStr (mf_runtimeVersion m)),
     (''checkpointId'', JStr (mf_checkpointId m)), (''createdAt'', JStr (mf_createdAt m)),
     (''ledgerPosition'', JObj [(''globalSequence'', JInt (mf_globalSequence m)), (''eventId'', opt_text (mf_eventId m))]),
     (''ledgerDigest'', JStr (mf_ledgerDigest m))]
     @ map (\<lambda>(field, entries). (field, JList (map (\<lambda>(i, v). JObj [(''streamId'', JStr i), (''version'', JInt v)]) entries))) (mf_versions m)
     @ [(''activeLeaseIds'', JList (map JStr (mf_activeLeaseIds m))),
     (''activeReservationIds'', JList (map JStr (mf_activeReservationIds m))),
     (''pendingOutboxEventIds'', JList (map JStr (mf_pendingOutboxEventIds m))),
     (''artifactHashes'', JList (map (\<lambda>(p, h). JObj [(''path'', JStr p), (''digest'', JStr h)]) (mf_artifactHashes m))),
     (''policyBundleDigest'', JStr (mf_policyBundleDigest m)),
     (''recoveryState'', case mf_recoveryState m of
        RecoveryClean \<Rightarrow> JObj [(''kind'', JStr ''clean'')]
      | AwaitingReconciliation ids \<Rightarrow> JObj [(''kind'', JStr ''awaiting_reconciliation''), (''openReservationIds'', JList (map JStr ids))])]"

definition manifest_integrity_digest :: "(string \<Rightarrow> string) \<Rightarrow> manifest \<Rightarrow> string" where
  "manifest_integrity_digest sha m = digest sha (JObj (manifest_material m))"

section \<open>Creation\<close>

record scan_state =
  sc_versions :: "(string \<times> string \<times> int) list"
  sc_leases :: "string list"
  sc_reservations :: "string list"

text \<open>The loop over \<^verbatim>\<open>all_aggregates()\<close>; an entry of \<open>sc_versions\<close> carries the field it goes to.\<close>

fun scan_aggregates :: "('p, agg, 'm) db \<Rightarrow> (string \<times> string \<times> int) list \<Rightarrow> scan_state \<Rightarrow> scan_state res" where
  "scan_aggregates d [] sc = Inr sc"
| "scan_aggregates d ((stream, kind, version) # rest) sc = (case map_of KIND_TO_FIELD kind of
     None \<Rightarrow> Inl (IntegrityViolation (''unknown aggregate kind '' @ kind @ '' in store''))
   | Some field \<Rightarrow>
     let sc = sc\<lparr>sc_versions := sc_versions sc @ [(field, stream, version)]\<rparr> in
     if kind = ''capability'' then
       bnd (require_state d stream) (\<lambda>state. case the_capability state of
         None \<Rightarrow> Inl (KeyError ''reservations'')
       | Some c \<Rightarrow> scan_aggregates d rest (sc\<lparr>
           sc_leases := (case cs_lease c of Some l \<Rightarrow> if cl_state l = ''active'' then sc_leases sc @ [cl_leaseId l] else sc_leases sc
             | None \<Rightarrow> sc_leases sc),
           sc_reservations := sc_reservations sc @ cap_unresolved_reservations c\<rparr>))
     else scan_aggregates d rest sc)"

definition entries_of :: "scan_state \<Rightarrow> string \<Rightarrow> (string \<times> int) list" where
  "entries_of sc field = sort_key fst (map snd (filter (\<lambda>(f, _). f = field) (sc_versions sc)))"

definition head_event_id :: "('p, 's, 'm) db \<Rightarrow> int \<Rightarrow> string option" where
  "head_event_id d head = (if head = 0 then None
     else (case read_events d (head - 1) of [] \<Rightarrow> None | e # _ \<Rightarrow> Some (ev_eventId e)))"

definition artifact_hashes :: "(string \<Rightarrow> string option) \<Rightarrow> string list \<Rightarrow> (string \<times> string) list" where
  "artifact_hashes file_digest paths =
     List.map_filter (\<lambda>p. map_option (\<lambda>h. (p, h)) (file_digest p)) (sort paths)"

definition build_manifest :: "('p, agg) hashing \<Rightarrow> (string \<Rightarrow> string option) \<Rightarrow> ('p, agg, 'm) db \<Rightarrow> string \<Rightarrow> string \<Rightarrow> string \<Rightarrow> string list \<Rightarrow> manifest res" where
  "build_manifest H file_digest d checkpoint_id created_at policy_bundle_digest artifact_paths =
     bnd (scan_aggregates d (all_aggregates d) \<lparr>sc_versions = [], sc_leases = [], sc_reservations = []\<rparr>) (\<lambda>sc.
     let head = head_sequence d in
     bnd (verify_chain H d) (\<lambda>chain.
     let m = \<lparr>mf_schemaVersion = CONTRACT_SCHEMA_VERSION, mf_runtimeVersion = RUNTIME_VERSION,
           mf_checkpointId = checkpoint_id, mf_createdAt = created_at,
           mf_globalSequence = head, mf_eventId = head_event_id d head, mf_ledgerDigest = chain,
           mf_versions = map (\<lambda>(_, field). (field, entries_of sc field)) KIND_TO_FIELD,
           mf_activeLeaseIds = sort (sc_leases sc), mf_activeReservationIds = sort (sc_reservations sc),
           mf_pendingOutboxEventIds = pending_outbox d, mf_artifactHashes = artifact_hashes file_digest artifact_paths,
           mf_policyBundleDigest = policy_bundle_digest,
           mf_recoveryState = (if sc_reservations sc \<noteq> [] then AwaitingReconciliation (sort (sc_reservations sc)) else RecoveryClean),
           mf_integrityDigest = ''sha256:'' @ replicate 64 (CHR ''0'')\<rparr> in
     Inr (m\<lparr>mf_integrityDigest := manifest_integrity_digest (hs_sha H) m\<rparr>)))"

definition create_checkpoint :: "('p, agg) hashing \<Rightarrow> (manifest \<Rightarrow> string list) \<Rightarrow> (string \<Rightarrow> string option) \<Rightarrow>
    string \<Rightarrow> string \<Rightarrow> string \<Rightarrow> string list \<Rightarrow> (('p, agg, manifest) db, manifest) stmt" where
  "create_checkpoint H validate file_digest checkpoint_id created_at policy_bundle_digest artifact_paths d =
    (case bnd (build_manifest H file_digest d checkpoint_id created_at policy_bundle_digest artifact_paths)
       (require (\<lambda>_. validate) ''CheckpointManifest'') of
       Inl e \<Rightarrow> (d, Inl e)
     | Inr m \<Rightarrow> sthen (save_checkpoint (mf_checkpointId m) m (mf_integrityDigest m) (mf_globalSequence m)) (\<lambda>_. sret m) d)"

section \<open>Verification and replay\<close>

definition verify_checkpoint :: "(string \<Rightarrow> string) \<Rightarrow> (manifest \<Rightarrow> string list) \<Rightarrow> manifest \<Rightarrow> unit res" where
  "verify_checkpoint sha validate m =
     raise_if (mf_schemaVersion m \<noteq> CONTRACT_SCHEMA_VERSION)
       (IntegrityViolation (''checkpoint schemaVersion '' @ mf_schemaVersion m @ '' is not compatible with runtime contract version '' @ CONTRACT_SCHEMA_VERSION)) (
     raise_if (mf_runtimeVersion m \<noteq> RUNTIME_VERSION)
       (IntegrityViolation (''checkpoint runtimeVersion '' @ mf_runtimeVersion m @ '' != '' @ RUNTIME_VERSION)) (
     bnd (require (\<lambda>_. validate) ''CheckpointManifest'' m) (\<lambda>_.
     raise_if (manifest_integrity_digest sha m \<noteq> mf_integrityDigest m)
       (IntegrityViolation (''checkpoint '' @ mf_checkpointId m @ '' integrity digest mismatch'')) (
     Inr ()))))"

definition can_dispatch_consequential :: "manifest \<Rightarrow> bool" where
  "can_dispatch_consequential m \<longleftrightarrow> mf_recoveryState m = RecoveryClean"

text \<open>The fields of \<^verbatim>\<open>checkpoint_replay\<close>, in its order.\<close>

definition CHECKED_FIELDS :: "string list" where
  "CHECKED_FIELDS = [''missionVersions'', ''taskVersions'', ''capabilityVersions'', ''driverRunVersions'', ''claimVersions'',
    ''humanApprovalVersions'', ''promptProposalVersions'', ''artifactPromotionVersions'', ''cohortVersions'', ''councilVersions'',
    ''replayForkVersions'', ''toolExecutionVersions'', ''botVersions'', ''cognitiveCandidateVersions'', ''delegateAssignmentVersions'',
    ''skillCandidateVersions'', ''labBoardVersions'', ''sandboxLeaseVersions'', ''cloudflareResourceBindingVersions'']"

definition manifest_entries :: "manifest \<Rightarrow> (string \<times> int) list" where
  "manifest_entries m = concat (map (\<lambda>field. case map_of (mf_versions m) field of None \<Rightarrow> [] | Some es \<Rightarrow> es) CHECKED_FIELDS)"

fun check_versions :: "(string \<times> int) list \<Rightarrow> (string \<times> int) list \<Rightarrow> unit res" where
  "check_versions versions [] = Inr ()"
| "check_versions versions ((stream, version) # rest) =
     raise_if (map_of versions stream \<noteq> Some version)
       (IntegrityViolation (''checkpoint stream '' @ stream @ '' version mismatch: manifest '' @ str_int version))
       (check_versions versions rest)"

definition checkpoint_replay :: "('p, 's) hashing \<Rightarrow> (manifest \<Rightarrow> string list) \<Rightarrow> ('s option \<Rightarrow> 'p envelope \<Rightarrow> 's res) \<Rightarrow>
    ('p, 's, 'm) db \<Rightarrow> manifest \<Rightarrow> 's replay_state res" where
  "checkpoint_replay H validate reduce d m =
     bnd (verify_checkpoint (hs_sha H) validate m) (\<lambda>_.
     let position = mf_globalSequence m in
     bnd (replay_to_sequence H reduce d position) (\<lambda>st.
     bnd (ledger_identity_to_sequence H d position) (\<lambda>identity.
     raise_if (lg_chainDigest identity \<noteq> mf_ledgerDigest m)
       (IntegrityViolation (''checkpoint ledger digest mismatch at globalSequence '' @ str_int position)) (
     raise_if (lg_eventId identity \<noteq> mf_eventId m)
       (IntegrityViolation (''checkpoint ledgerPosition.eventId mismatch at globalSequence '' @ str_int position)) (
     bnd (check_versions (rs_versions st) (manifest_entries m)) (\<lambda>_.
     apply_events reduce st (read_events d position)))))))"

end
