(* ===== verification/Checkpoint_Safety.thy ===== *)
theory Checkpoint_Safety
  imports Checkpoint
begin

text \<open>
  The guarantees of checkpoints: what is created verifies and can be loaded, it is clean exactly
  when no capability has an unresolved reservation, and the replay from a checkpoint of an
  earlier store equals the full replay of the later one.
\<close>

section \<open>The scan of the aggregates\<close>

lemma scan_aggregates_Inr:
  "scan_aggregates d rows sc = Inr sc' \<Longrightarrow>
     sc_versions sc' = sc_versions sc @ map (\<lambda>(i, k, v). (the (map_of KIND_TO_FIELD k), i, v)) rows
     \<and> set (sc_reservations sc') = set (sc_reservations sc)
         \<union> {r. \<exists>i v c. (i, ''capability'', v) \<in> set rows \<and> load_state d i = Some (ACapability c) \<and> r \<in> set (cap_unresolved_reservations c)}"
proof (induction rows arbitrary: sc)
  case (Cons row rows)
  obtain i k v where row: "row = (i, k, v)" by (cases row)
  from Cons.prems row obtain field where field: "map_of KIND_TO_FIELD k = Some field"
    by (cases "map_of KIND_TO_FIELD k") auto
  let ?sc = "sc\<lparr>sc_versions := sc_versions sc @ [(field, i, v)]\<rparr>"
  show ?case
  proof (cases "k = ''capability''")
    case True
    with Cons.prems row field obtain s where s: "require_state d i = Inr s" by (auto simp: Let_def)
    with True Cons.prems row field obtain c where c: "the_capability s = Some c"
      by (cases "the_capability s") (auto simp: Let_def)
    then have sc: "s = ACapability c" by (cases s) auto
    let ?sc1 = "?sc\<lparr>sc_leases := (case cs_lease c of Some l \<Rightarrow> if cl_state l = ''active'' then sc_leases ?sc @ [cl_leaseId l] else sc_leases ?sc
             | None \<Rightarrow> sc_leases ?sc), sc_reservations := sc_reservations ?sc @ cap_unresolved_reservations c\<rparr>"
    from Cons.prems row field True s c have rest: "scan_aggregates d rows ?sc1 = Inr sc'" by (simp add: Let_def)
    have ld: "load_state d i = Some (ACapability c)" using s sc by (auto simp: require_state_def split: option.splits)
    from Cons.IH[OF rest] show ?thesis using True ld field by (auto simp: row)
  next
    case False
    with Cons.prems row field have rest: "scan_aggregates d rows ?sc = Inr sc'" by (simp add: Let_def)
    from Cons.IH[OF rest] show ?thesis using False by (auto simp: row field)
  qed
qed simp

lemma create_checkpoint_Inr:
  assumes "create_checkpoint H validate fd cid created policy paths d = (d', Inr m)"
  obtains sc where "build_manifest H fd d cid created policy paths = Inr m" "validate m = []"
    "scan_aggregates d (all_aggregates d) \<lparr>sc_versions = [], sc_leases = [], sc_reservations = []\<rparr> = Inr sc"
    "verify_chain H d = Inr (mf_ledgerDigest m)" "mf_globalSequence m = head_sequence d" "mf_eventId m = head_event_id d (head_sequence d)"
    "mf_schemaVersion m = CONTRACT_SCHEMA_VERSION" "mf_runtimeVersion m = RUNTIME_VERSION" "mf_checkpointId m = cid"
    "mf_versions m = map (\<lambda>(_, field). (field, entries_of sc field)) KIND_TO_FIELD"
    "mf_recoveryState m = (if sc_reservations sc \<noteq> [] then AwaitingReconciliation (sort (sc_reservations sc)) else RecoveryClean)"
    "mf_activeReservationIds m = sort (sc_reservations sc)"
    "manifest_integrity_digest (hs_sha H) m = mf_integrityDigest m"
    "same_ledger d d'" "load_checkpoint d' cid = Inr m"
proof -
  from assms obtain m0 where bm: "build_manifest H fd d cid created policy paths = Inr m0" and val: "validate m0 = []"
    and sv: "sthen (save_checkpoint (mf_checkpointId m0) m0 (mf_integrityDigest m0) (mf_globalSequence m0)) (\<lambda>_. sret m0) d = (d', Inr m)"
    by (auto simp: create_checkpoint_def require_def Let_def split: sum.splits if_splits)
  from sv have m: "m0 = m" and d': "d' = d\<lparr>db_checkpoints := filter (\<lambda>(k, _). k \<noteq> mf_checkpointId m) (db_checkpoints d)
      @ [(mf_checkpointId m, \<lparr>kr_manifest = m, kr_integrity = mf_integrityDigest m, kr_sequence = mf_globalSequence m\<rparr>)]\<rparr>"
    by (auto simp: save_checkpoint_def transaction_def sthen_def sret_def)
  from bm m obtain sc where sc: "scan_aggregates d (all_aggregates d) \<lparr>sc_versions = [], sc_leases = [], sc_reservations = []\<rparr> = Inr sc"
    by (auto simp: build_manifest_def)
  from bm m sc obtain chain where chain: "verify_chain H d = Inr chain" by (auto simp: build_manifest_def Let_def)
  have integ: "manifest_integrity_digest (hs_sha H) m = mf_integrityDigest m"
    using bm m by (auto simp: build_manifest_def Let_def manifest_integrity_digest_def manifest_material_def)
  have fields: "mf_ledgerDigest m = chain" "mf_globalSequence m = head_sequence d" "mf_eventId m = head_event_id d (head_sequence d)"
    "mf_schemaVersion m = CONTRACT_SCHEMA_VERSION" "mf_runtimeVersion m = RUNTIME_VERSION" "mf_checkpointId m = cid"
    "mf_versions m = map (\<lambda>(_, field). (field, entries_of sc field)) KIND_TO_FIELD"
    "mf_recoveryState m = (if sc_reservations sc \<noteq> [] then AwaitingReconciliation (sort (sc_reservations sc)) else RecoveryClean)"
    "mf_activeReservationIds m = sort (sc_reservations sc)"
    using bm m sc chain by (auto simp: build_manifest_def Let_def)
  have "map_of (filter (\<lambda>(k, _). k \<noteq> cid) xs @ [(cid, y)]) cid = Some y" for xs and y :: "manifest checkpoint_row"
    by (induction xs) auto
  then have "load_checkpoint d' cid = Inr m" by (simp add: load_checkpoint_def d' fields(6))
  moreover have "same_ledger d d'" by (simp add: d' same_ledger_def)
  ultimately show ?thesis using that bm m val sc chain fields integ by blast
qed

text \<open>
  C40. A checkpoint that is created verifies and is what its id loads; it records the head of a ledger
  that verifies, and it allows consequential work exactly when no capability of the store has
  a reservation that is open or awaits reconciliation.
\<close>

theorem created_checkpoint_verifies:
  assumes "create_checkpoint H validate fd cid created policy paths d = (d', Inr m)"
  shows "verify_checkpoint (hs_sha H) validate m = Inr () \<and> load_checkpoint d' cid = Inr m
    \<and> verify_chain H d = Inr (mf_ledgerDigest m) \<and> mf_globalSequence m = head_sequence d
    \<and> (can_dispatch_consequential m \<longleftrightarrow> (\<forall>i v c. (i, ''capability'', v) \<in> set (all_aggregates d)
         \<and> load_state d i = Some (ACapability c) \<longrightarrow> cap_unresolved_reservations c = []))"
proof (rule create_checkpoint_Inr[OF assms])
  fix sc
  assume sc: "scan_aggregates d (all_aggregates d) \<lparr>sc_versions = [], sc_leases = [], sc_reservations = []\<rparr> = Inr sc"
    and val: "validate m = []" and m: "mf_schemaVersion m = CONTRACT_SCHEMA_VERSION" "mf_runtimeVersion m = RUNTIME_VERSION"
      "manifest_integrity_digest (hs_sha H) m = mf_integrityDigest m"
    and rec: "mf_recoveryState m = (if sc_reservations sc \<noteq> [] then AwaitingReconciliation (sort (sc_reservations sc)) else RecoveryClean)"
    and rest: "verify_chain H d = Inr (mf_ledgerDigest m)" "mf_globalSequence m = head_sequence d" "load_checkpoint d' cid = Inr m"
  have "verify_checkpoint (hs_sha H) validate m = Inr ()"
    using m val by (simp add: verify_checkpoint_def require_def Let_def)
  moreover have "can_dispatch_consequential m \<longleftrightarrow> (\<forall>i v c. (i, ''capability'', v) \<in> set (all_aggregates d)
         \<and> load_state d i = Some (ACapability c) \<longrightarrow> cap_unresolved_reservations c = [])"
  proof -
    have no_elements: "xs = [] \<longleftrightarrow> (\<forall>r. r \<notin> set xs)" for xs :: "string list" by (cases xs) auto
    have "can_dispatch_consequential m \<longleftrightarrow> sc_reservations sc = []"
      using rec by (simp add: can_dispatch_consequential_def)
    then have "can_dispatch_consequential m \<longleftrightarrow> (\<forall>r. r \<notin> set (sc_reservations sc))" by (simp only: no_elements)
    moreover have "set (sc_reservations sc) = {r. \<exists>i v c. (i, ''capability'', v) \<in> set (all_aggregates d)
         \<and> load_state d i = Some (ACapability c) \<and> r \<in> set (cap_unresolved_reservations c)}"
      using scan_aggregates_Inr[OF sc] by simp
    ultimately show ?thesis unfolding no_elements by (simp only:) blast
  qed
  ultimately show ?thesis using rest by (intro conjI)
qed

section \<open>What else holds of every store\<close>

definition keyed :: "('p, 's, 'm) db \<Rightarrow> bool" where
  "keyed d \<longleftrightarrow> distinct (map fst (db_aggregates d))"

lemma keyed_append_all: "ledger_inv H d \<Longrightarrow> append_all H as (head_chain d) d = (d', Inr w) \<Longrightarrow> keyed d \<Longrightarrow> keyed d'"
proof (induction as arbitrary: d w)
  case (Cons a as)
  then obtain d1 c e where one: "append_one H a (head_chain d) d = (d1, Inr (c, e))"
    by (auto simp: sthen_def split: prod.splits sum.splits)
  from ledger_inv_append[OF Cons.prems(1) one] have inv: "ledger_inv H d1" and c: "c = head_chain d1" by simp_all
  from Cons.prems(2) one c obtain w1 where rest: "append_all H as (head_chain d1) d1 = (d', Inr w1)"
    by (auto simp: sthen_def sret_def split: prod.splits sum.splits)
  have "keyed d1"
    using append_one_Inr[OF one below_autoinc_inv[OF Cons.prems(1)]] Cons.prems(3) by (simp add: keyed_def distinct_update)
  from Cons.IH[OF inv rest this] show ?case .
qed simp

lemma keyed_exec: "ledger_inv H d \<Longrightarrow> keyed d \<Longrightarrow> keyed (store_exec H op d)"
proof (cases op)
  case (Commit as key fp cid)
  assume inv: "ledger_inv H d" and k: "keyed d"
  obtain d' res where c: "commit_command H as key fp cid d = (d', res)" by force
  from c have "keyed d'"
  proof (cases rule: commit_command_cases)
    case (applied d1 written)
    from keyed_append_all[OF inv applied(2) k] show ?thesis by (simp add: applied(5) keyed_def)
  qed (use k in simp_all)
  with c show ?thesis by (simp add: Commit)
qed (use other_ops_keep_ledger[of op d H] in \<open>simp_all add: keyed_def same_ledger_def\<close>)

lemma keyed_after: "ledger_inv H d \<Longrightarrow> keyed d \<Longrightarrow> keyed (after_ops H ops d)"
proof (induction ops arbitrary: d)
  case (Cons op ops)
  from Cons.IH[OF ledger_inv_exec[OF Cons.prems(1)] keyed_exec[OF Cons.prems]] show ?case by simp
qed simp

lemma keyed_entry: "keyed d \<Longrightarrow> (i, k, v) \<in> set (all_aggregates d) \<Longrightarrow> aggregate_version d i = v \<and> load_state d i \<noteq> None"
  by (auto simp: keyed_def all_aggregates_def aggregate_version_def load_state_def)

lemma versions_of_states:
  "apply_events reduce st es = Inr st' \<Longrightarrow> dom (map_of (rs_aggregates st)) = dom (map_of (rs_versions st)) \<Longrightarrow>
     dom (map_of (rs_aggregates st')) = dom (map_of (rs_versions st'))"
  unfolding apply_events_def
proof (induction es arbitrary: st)
  case (Cons e es)
  then obtain st1 where st1: "apply_event reduce st e = Inr st1" "run (apply_event reduce) st1 es = Inr st'" by auto
  from st1(1) Cons.prems(2) have "dom (map_of (rs_aggregates st1)) = dom (map_of (rs_versions st1))"
    by (cases rule: apply_event_Inr) (simp_all add: update_conv')
  from Cons.IH[OF st1(2) this] show ?case .
qed simp

text \<open>The chain digest of the ledger, folded over the envelopes.\<close>

lemma chain_of_envelopes:
  assumes "ledger_inv H d"
  shows "fold (\<lambda>e chain. chain_next (hs_sha H) chain (ev_payloadDigest e) (ev_eventId e)) (opened_ledger d) GENESIS_CHAIN = head_chain d"
proof -
  have m: "\<exists>e. er_envelope r = Some e \<and> ev_payloadDigest e = er_payload_digest r \<and> ev_eventId e = er_event_id r" if "r \<in> set (db_events d)" for r
    using assms that by (auto simp: ledger_inv_def list_all_iff envelope_matches_def)
  have "fold (\<lambda>e chain. chain_next (hs_sha H) chain (ev_payloadDigest e) (ev_eventId e)) (opened_ledger d) GENESIS_CHAIN
    = fold (\<lambda>l c. chain_next (hs_sha H) c (fst l) (snd l)) (map link_of (db_events d)) GENESIS_CHAIN"
    unfolding opened_ledger_def opened_def fold_map comp_def
    by (rule fold_cong) (use m in \<open>force simp: link_of_def\<close>)+
  also have "\<dots> = head_chain d"
    using verify_rows_chain[of H GENESIS_CHAIN "[]" "db_events d" "head_chain d"] assms by (simp add: ledger_inv_def)
  finally show ?thesis .
qed

lemma read_after_inv:
  assumes "ledger_inv H d" and "k \<le> length (db_events d)"
  shows "read_events d (int k) = drop k (opened_ledger d)"
proof -
  have seq: "map er_sequence (db_events d) = map int [1..<Suc (length (db_events d))]" using assms(1) by (simp only: ledger_inv_def)
  have tail: "filter (\<lambda>r. er_sequence r > int k) rs = drop (k - n) rs"
    if "map er_sequence rs = map int [Suc n..<Suc (n + length rs)]" for rs :: "'a event_row list" and n
    using that
  proof (induction rs arbitrary: n)
    case (Cons r rs)
    have "map er_sequence (r # rs) = int (Suc n) # map int [Suc (Suc n)..<Suc (Suc n + length rs)]"
      using Cons.prems by (simp add: upt_conv_Cons del: upt_Suc)
    then have r: "er_sequence r = int (Suc n)" and rs: "map er_sequence rs = map int [Suc (Suc n)..<Suc (Suc n + length rs)]"
      by simp_all
    from Cons.IH[OF rs] r show ?case by (cases "k - n") (auto simp: Suc_diff_Suc diff_Suc split: nat.splits)
  qed simp
  from tail[of "db_events d" 0] seq show ?thesis
    by (simp add: read_events_def event_rows_inv[OF assms(1)] opened_ledger_def opened_def drop_map)
qed

section \<open>Replay from a checkpoint\<close>

lemma check_versions_Inr: "check_versions vs es = Inr () \<longleftrightarrow> (\<forall>(i, v)\<in>set es. map_of vs i = Some v)"
  by (induction es) auto

lemma manifest_entries_scanned:
  assumes "mf_versions m = map (\<lambda>(_, field). (field, entries_of sc field)) KIND_TO_FIELD"
    and "sc_versions sc = map (\<lambda>(i, k, v). (the (map_of KIND_TO_FIELD k), i, v)) rows"
  shows "set (manifest_entries m) \<subseteq> {(i, v). \<exists>k. (i, k, v) \<in> set rows}"
proof -
  have "set (entries_of sc field) \<subseteq> {(i, v). \<exists>k. (i, k, v) \<in> set rows}" for field
    by (auto simp: entries_of_def assms(2))
  moreover have "map_of (mf_versions m) field = Some es \<Longrightarrow> es = entries_of sc field" for field es
    unfolding assms(1) by (drule map_of_SomeD) auto
  ultimately have fields: "map_of (mf_versions m) field = Some es \<Longrightarrow> x \<in> set es \<Longrightarrow> x \<in> {(i, v). \<exists>k. (i, k, v) \<in> set rows}" for field es x
    by blast
  show ?thesis
  proof
    fix x assume "x \<in> set (manifest_entries m)"
    then obtain field where "x \<in> set (case map_of (mf_versions m) field of None \<Rightarrow> [] | Some es \<Rightarrow> es)"
      by (auto simp: manifest_entries_def)
    then show "x \<in> {(i, v). \<exists>k. (i, k, v) \<in> set rows}"
      by (cases "map_of (mf_versions m) field") (use fields in simp_all)
  qed
qed

lemma head_event_inv:
  assumes "ledger_inv H d"
  shows "head_event_id d (head_sequence d) = (if opened_ledger d = [] then None else Some (ev_eventId (last (opened_ledger d))))"
proof (cases "db_events d" rule: rev_cases)
  case Nil
  then show ?thesis by (simp add: head_event_id_def head_sequence_inv[OF assms] opened_ledger_def opened_def)
next
  case (snoc rs r)
  then have "read_events d (int (length rs)) = drop (length rs) (opened_ledger d)" by (intro read_after_inv[OF assms]) simp
  then show ?thesis using snoc by (simp add: head_event_id_def head_sequence_inv[OF assms] opened_ledger_def opened_def)
qed

context event_reducer
begin

lemma checkpoint_replay_later:
  fixes d1 :: "('p, 's, 'm) db" and d2 :: "('p, 's, 'k) db"
  assumes inv1: "ledger_inv H d1" and inv2: "ledger_inv H d2" and st1: "rebuilt reduce d1 st1"
    and longer: "opened_ledger d2 = opened_ledger d1 @ es"
    and ok: "verify_checkpoint (hs_sha H) validate m = Inr ()" and pos: "mf_globalSequence m = head_sequence d1"
    and dig: "mf_ledgerDigest m = head_chain d1" and hid: "mf_eventId m = head_event_id d1 (head_sequence d1)"
    and vers: "\<forall>(i, v)\<in>set (manifest_entries m). aggregate_version d1 i = v \<and> load_state d1 i \<noteq> None"
  shows "checkpoint_replay H validate reduce d2 m = full_replay H reduce d2"
proof -
  let ?n = "length (db_events d1)"
  have len: "?n \<le> length (db_events d2)" using arg_cong[OF longer, of length] by simp
  have n: "mf_globalSequence m = int ?n" by (simp add: pos head_sequence_inv[OF inv1])
  have run1: "apply_events reduce empty_replay (opened_ledger d1) = Inr st1" and r1: "rebuilds d1 st1"
    using st1 by (simp_all add: rebuilt_def)
  have prefix_replay: "replay_to_sequence H reduce d2 (int ?n) = Inr st1"
    using run1 len by (simp add: replay_to_inv[OF inv2] longer)
  have identity: "ledger_identity_to_sequence H d2 (int ?n) = Inr \<lparr>lg_globalSequence = int ?n,
      lg_eventId = (if opened_ledger d1 = [] then None else Some (ev_eventId (last (opened_ledger d1)))), lg_chainDigest = head_chain d1\<rparr>"
    using len by (simp add: ledger_identity_to_sequence_def check_target_inv[OF inv2] events_up_to_inv[OF inv2] longer Let_def
        chain_of_envelopes[OF inv1])
  have "map_of (rs_versions st1) i = Some v" if "(i, v) \<in> set (manifest_entries m)" for i v
  proof -
    from vers that have v: "aggregate_version d1 i = v" "load_state d1 i \<noteq> None" by auto
    have "dom (map_of (rs_aggregates st1)) = dom (map_of (rs_versions st1))"
      by (rule versions_of_states[OF run1]) (simp add: empty_replay_def)
    then have "map_of (rs_versions st1) i \<noteq> None" using v(2) r1 by (auto simp: rebuilds_def)
    moreover have "seen_at (rs_versions st1) i = v" using r1 v(1) by (simp add: rebuilds_def)
    ultimately show ?thesis by (auto simp: seen_at_def)
  qed
  then have "check_versions (rs_versions st1) (manifest_entries m) = Inr ()" by (auto simp: check_versions_Inr)
  moreover have "read_events d2 (int ?n) = es" using read_after_inv[OF inv2 len] by (simp add: longer)
  moreover have "full_replay H reduce d2 = apply_events reduce st1 es"
    using run1 by (simp add: full_replay_inv[OF inv2] longer apply_events_def run_append)
  ultimately show ?thesis
    by (simp add: checkpoint_replay_def ok n prefix_replay identity dig hid head_event_inv[OF inv1])
qed

end


section \<open>A concrete checkpoint\<close>

definition sample_authorized :: mission where
  "sample_authorized = projr (mission_transition (mission_create sample_spec) ''authorized'')"

definition sample_later :: "(event, agg, manifest, unit) store_op list" where
  "sample_later = [Commit [\<lparr>rq_stream_id = ''mission-m1'', rq_kind = ''mission'', rq_expected_version = 2,
     rq_envelope = sample_envelope ''e3'' 3 (MissionStateChanged ''executing''),
     rq_state = AMission (projr (mission_transition sample_authorized ''executing''))\<rparr>] ''k2'' ''f2'' ''c2'']"

lemma sample_later_faithful:
  assumes "load_state d ''mission-m1'' = Some (AMission sample_authorized)"
  shows "faithful_ops sample_hashing (reduce_event sample_runtime) d sample_later"
proof -
  have "isl (mission_transition sample_authorized ''executing'') = False" by code_simp
  then have "mission_transition sample_authorized ''executing'' = Inr (projr (mission_transition sample_authorized ''executing''))"
    by (cases "mission_transition sample_authorized ''executing''") auto
  with assms show ?thesis
    by (simp add: sample_later_def sample_envelope_def faithful_op_def reduce_event_def wrap_def on_def)
qed

lemma sample_checkpoint_created:
  "\<exists>d m. create_checkpoint sample_hashing (\<lambda>_. []) (\<lambda>_. None) ''k1'' ''2026-01-01T00:00:00Z'' ''p'' [] (after_ops sample_hashing sample_commits empty_db) = (d, Inr m)
     \<and> faithful_ops sample_hashing (reduce_event sample_runtime) d sample_later"
proof -
  have start: "load_state (after_ops sample_hashing sample_commits empty_db :: (event, agg, manifest) db) ''mission-m1'' = Some (AMission sample_authorized)" by code_simp
  have ok: "isl (snd (create_checkpoint sample_hashing (\<lambda>_. []) (\<lambda>_. None) ''k1'' ''2026-01-01T00:00:00Z'' ''p'' [] (after_ops sample_hashing sample_commits empty_db))) = False" by code_simp
  obtain d x where c: "create_checkpoint sample_hashing (\<lambda>_. []) (\<lambda>_. None) ''k1'' ''2026-01-01T00:00:00Z'' ''p'' [] (after_ops sample_hashing sample_commits empty_db) = (d, x)"
    by force
  with ok obtain m where m: "x = Inr m" by (cases x) auto
  from c[unfolded m] have "same_ledger (after_ops sample_hashing sample_commits empty_db) d" by (rule create_checkpoint_Inr)
  then have "load_state d ''mission-m1'' = Some (AMission sample_authorized)" using start by (simp add: load_state_def same_ledger_def)
  with sample_later_faithful c m show ?thesis by blast
qed

lemma created_checkpoint_verifies_witness:
  "\<exists>d m. create_checkpoint sample_hashing (\<lambda>_. []) (\<lambda>_. None) ''k1'' ''2026-01-01T00:00:00Z'' ''p'' [] (after_ops sample_hashing sample_commits empty_db) = (d, Inr m)
     \<and> verify_checkpoint sample_digest (\<lambda>_. []) m = Inr ()"
proof -
  obtain d m where c: "create_checkpoint sample_hashing (\<lambda>_. []) (\<lambda>_. None) ''k1'' ''2026-01-01T00:00:00Z'' ''p'' [] (after_ops sample_hashing sample_commits empty_db) = (d, Inr m)"
    using sample_checkpoint_created by blast
  have "hs_sha sample_hashing = sample_digest" by (simp add: sample_hashing_def)
  with created_checkpoint_verifies[OF c] c show ?thesis by auto
qed


end
