(* ===== verification/Services.thy ===== *)
theory Services
  imports Checkpoint
begin

text \<open>
  \<^verbatim>\<open>capt_runtime/commands.py\<close> and \<^verbatim>\<open>capt_runtime/services.py\<close>, the commands that touch one
  aggregate: mission, task, capability, driver run, approval and claim. A handler is a function
  from the database to a \<open>plan\<close>: the appends to commit (none when the key of the command is
  known, so that the store answers with the recorded outcome) or an answer without a commit; the
  exceptions it raises before the commit are values. \<open>perform\<close> commits a plan and dispatches.

  The generated contract validators are parameters, one for each contract; so is the wall clock
  (\<open>tick n\<close> is its \<open>n\<close>-th reading in a call). A handler that finds an aggregate of another kind
  in a stream would work on the wrong dictionary; here it raises, and \<^verbatim>\<open>Services_Safety\<close> proves
  that no stream ever holds one.
\<close>

section \<open>Commands\<close>

record metadata =
  md_commandId :: string
  md_idempotencyKey :: string
  md_operationFingerprint :: string
  md_correlationId :: string
  md_causationId :: "string option"
  md_actor :: actor
  md_issuedAt :: string
  md_replayPolicy :: string
  md_attempt :: int

definition fingerprint :: "(string \<Rightarrow> string) \<Rightarrow> string \<Rightarrow> dict \<Rightarrow> string" where
  "fingerprint sha operation subject = digest sha (JObj [(''operation'', JStr operation), (''subject'', JObj subject)])"

definition command :: "(metadata \<Rightarrow> string list) \<Rightarrow> string \<Rightarrow> string \<Rightarrow> string \<Rightarrow> string \<Rightarrow> actor \<Rightarrow> string \<Rightarrow> metadata res" where
  "command validate command_id idempotency_key operation_fingerprint correlation_id actor issued_at =
     require (\<lambda>_. validate) ''CommandMetadata''
       \<lparr>md_commandId = command_id, md_idempotencyKey = idempotency_key, md_operationFingerprint = operation_fingerprint,
        md_correlationId = correlation_id, md_causationId = None, md_actor = actor, md_issuedAt = issued_at,
        md_replayPolicy = ''never'', md_attempt = 1\<rparr>"

text \<open>The \<^verbatim>\<open>eventType\<close> every payload carries.\<close>

fun event_type :: "event \<Rightarrow> string" where
  "event_type (MissionCreated _) = ''MissionCreated''"
| "event_type (PolicyEvaluated _) = ''PolicyEvaluated''"
| "event_type (MissionStateChanged _) = ''MissionStateChanged''"
| "event_type (TaskCreated _) = ''TaskCreated''"
| "event_type (ToolExecutionPrepared _) = ''ToolExecutionPrepared''"
| "event_type (ToolExecutionChanged ToolAdmitted _) = ''ToolExecutionAdmitted''"
| "event_type (ToolExecutionChanged ToolDispatching _) = ''ToolExecutionDispatching''"
| "event_type (ToolExecutionChanged ToolEffectObserved _) = ''ToolExecutionEffectObserved''"
| "event_type (ToolExecutionChanged ToolSettling _) = ''ToolExecutionSettling''"
| "event_type (ToolExecutionChanged ToolTerminated _) = ''ToolExecutionTerminated''"
| "event_type (TaskTransitioned _) = ''TaskTransitioned''"
| "event_type (TaskResultSubmitted _ _) = ''TaskResultSubmitted''"
| "event_type (CapabilityGranted _) = ''CapabilityGranted''"
| "event_type (CapabilityLeaseActivated _) = ''CapabilityLeaseActivated''"
| "event_type (CapabilityUseReserved _) = ''CapabilityUseReserved''"
| "event_type (CapabilityUseFinalized _) = ''CapabilityUseFinalized''"
| "event_type (CapabilityGrantRevoked _) = ''CapabilityGrantRevoked''"
| "event_type (CapabilityLeaseRevoked _) = ''CapabilityLeaseRevoked''"
| "event_type (DriverRunCreated _) = ''DriverRunCreated''"
| "event_type (DriverRunStateChanged _) = ''DriverRunStateChanged''"
| "event_type (DriverRunDispatchBoundaryRecorded _) = ''DriverRunDispatchBoundaryRecorded''"
| "event_type (ClaimCreated _) = ''ClaimCreated''"
| "event_type (EvidenceRecorded _) = ''EvidenceRecorded''"
| "event_type (ClaimVerified _) = ''ClaimVerified''"
| "event_type (ClaimGuardDecided _) = ''ClaimGuardDecided''"
| "event_type (HumanApprovalRequested _) = ''HumanApprovalRequested''"
| "event_type (HumanApprovalDecided _) = ''HumanApprovalDecided''"
| "event_type (HumanApprovalRevoked _) = ''HumanApprovalRevoked''"
| "event_type (HumanApprovalConsumed _) = ''HumanApprovalConsumed''"
| "event_type (CloudflareResourceAdoptionApprovalConsumed _) = ''CloudflareResourceAdoptionApprovalConsumed''"
| "event_type (CloudflareResourceBindingCreated _) = ''CloudflareResourceBindingCreated''"
| "event_type (ArtifactPromotionPrepared _) = ''ArtifactPromotionPrepared''"
| "event_type (ArtifactPromotionAuthorized _ _) = ''ArtifactPromotionAuthorized''"
| "event_type (ArtifactPromotionAdopted _ _) = ''ArtifactPromotionAdopted''"
| "event_type (ArtifactPromotionDiscarded _ _) = ''ArtifactPromotionDiscarded''"
| "event_type (BotRegistered _) = ''BotRegistered''"
| "event_type (CognitiveCandidateProposed _) = ''CognitiveCandidateProposed''"
| "event_type (CognitiveCandidateDecided _ _ _ _) = ''CognitiveCandidateDecided''"
| "event_type (DelegateAssigned _) = ''DelegateAssigned''"
| "event_type (DelegateAssignmentTransitioned _ _ _ _) = ''DelegateAssignmentTransitioned''"
| "event_type (SkillCandidateCreated _) = ''SkillCandidateCreated''"
| "event_type (SkillCandidateTransitioned _ _ _) = ''SkillCandidateTransitioned''"
| "event_type (LabBoardItemCreated _) = ''LabBoardItemCreated''"
| "event_type (LabBoardItemTransitioned _ _ _) = ''LabBoardItemTransitioned''"
| "event_type (CohortCreated _) = ''CohortCreated''"
| "event_type (CohortSnapshotPersisted _) = ''CohortSnapshotPersisted''"
| "event_type (CohortSteered _) = ''CohortSteered''"
| "event_type (CouncilAdmitted _) = ''CouncilAdmitted''"
| "event_type (CouncilAnalysisRecorded _) = ''CouncilAnalysisRecorded''"
| "event_type (ReplayForkCreated _) = ''ReplayForkCreated''"
| "event_type (PromptProposalCreated _) = ''PromptProposalCreated''"
| "event_type (PromptProposalRevised _) = ''PromptProposalRevised''"
| "event_type (PromptProposalCancelled _ _) = ''PromptProposalCancelled''"
| "event_type (CheckpointCreated _) = ''CheckpointCreated''"
| "event_type (MissionResumed _) = ''MissionResumed''"
| "event_type (OtherEvent t _) = t"

text \<open>
  \<^verbatim>\<open>envelope\<close>: the placeholders of the position and of the digest are the store's to fill. The
  identities a caller passes are the optional mission, task and claim.
\<close>

record about =
  ab_mission :: "string option"
  ab_task :: "string option"
  ab_claim :: "string option"

definition about_none :: about where "about_none = \<lparr>ab_mission = None, ab_task = None, ab_claim = None\<rparr>"

definition envelope :: "string \<Rightarrow> string \<Rightarrow> event \<Rightarrow> metadata \<Rightarrow> about \<Rightarrow> event envelope" where
  "envelope event_id stream p md ab = \<lparr>ev_eventId = event_id, ev_streamId = stream, ev_streamVersion = 1, ev_globalSequence = 1,
     ev_eventType = event_type p, ev_schemaVersion = CONTRACT_SCHEMA_VERSION, ev_payload = p,
     ev_payloadDigest = ''sha256:'' @ replicate 64 (CHR ''0''), ev_occurredAt = md_issuedAt md,
     ev_rest = [(''actor'', JObj [(''actorId'', JStr (ac_actorId (md_actor md))), (''kind'', JStr (ac_kind (md_actor md)))]),
       (''missionId'', opt_text (ab_mission ab)), (''taskId'', opt_text (ab_task ab)), (''claimId'', opt_text (ab_claim ab)),
       (''correlationId'', JStr (md_correlationId md)), (''causationId'', JStr (md_commandId md))]\<rparr>"

section \<open>The environment\<close>

type_synonym rt_db = "(event, agg, manifest) db"

record evidence =
  evd_evidenceId :: string
  evd_missionId :: string
  evd_taskId :: "string option"

record verification_req =
  vr_body :: verification
  vr_verifiedBy :: actor
  vr_supportingEvidenceIds :: "string list"

record claim_decision_req =
  cd_body :: decision
  cd_claimId :: string
  cd_decidedBy :: actor

record contracts =
  ct_metadata :: "metadata \<Rightarrow> string list"
  ct_missionSpec :: "mission_spec \<Rightarrow> string list"
  ct_taskNode :: "task_node \<Rightarrow> string list"
  ct_policyDecision :: "policy_decision \<Rightarrow> string list"
  ct_grant :: "grant \<Rightarrow> string list"
  ct_lease :: "lease_req \<Rightarrow> string list"
  ct_reservation :: "reservation_req \<Rightarrow> string list"
  ct_consumption :: "consumption \<Rightarrow> string list"
  ct_revocation :: "revocation_req \<Rightarrow> string list"
  ct_driverRun :: "driver_run_req \<Rightarrow> string list"
  ct_approvalRequest :: "approval_req \<Rightarrow> string list"
  ct_approvalDecision :: "approval_decision \<Rightarrow> string list"
  ct_claim :: "claim_req \<Rightarrow> string list"
  ct_evidence :: "evidence \<Rightarrow> string list"
  ct_verification :: "verification_req \<Rightarrow> string list"
  ct_claimDecision :: "claim_decision_req \<Rightarrow> string list"
  ct_dict :: validator

record env =
  en_hashing :: "(event, agg) hashing"
  en_contracts :: contracts

definition contract :: "('v \<Rightarrow> string list) \<Rightarrow> string \<Rightarrow> 'v \<Rightarrow> 'b res \<Rightarrow> 'b res" where
  "contract validate name v k = bnd (require (\<lambda>_. validate) name v) (\<lambda>_. k)"

definition contract_dict :: "env \<Rightarrow> string \<Rightarrow> dict \<Rightarrow> 'b res \<Rightarrow> 'b res" where
  "contract_dict E name x k = contract (\<lambda>x. ct_dict (en_contracts E) name (JObj x)) name x k"

text \<open>\<^verbatim>\<open>require("CommandMetadata", metadata)\<close> and \<^verbatim>\<open>require_authority(act, kind)\<close>.\<close>

definition permit :: "string \<Rightarrow> metadata \<Rightarrow> 'b res \<Rightarrow> 'b res" where
  "permit act md k = bnd (require_authority act (ac_kind (md_actor md))) (\<lambda>_. k)"

definition admit :: "env \<Rightarrow> string \<Rightarrow> metadata \<Rightarrow> 'b res \<Rightarrow> 'b res" where
  "admit E act md k = contract (ct_metadata (en_contracts E)) ''CommandMetadata'' md (permit act md k)"

section \<open>Plans and their commit\<close>

datatype plan = Append "(event, agg) append_request list" dict | Answer dict

datatype reply = Committed command_result dict | Answered dict

definition perform :: "env \<Rightarrow> (event, 'w) handler list \<Rightarrow> metadata \<Rightarrow> plan res \<Rightarrow> rt_db \<Rightarrow> 'w \<Rightarrow> rt_db \<times> 'w \<times> reply res" where
  "perform E hs md m d w = (case m of
     Inl e \<Rightarrow> (d, w, Inl e)
   | Inr (Answer r) \<Rightarrow> (d, w, Inr (Answered r))
   | Inr (Append as extra) \<Rightarrow>
      (case commit_command (en_hashing E) as (md_idempotencyKey md) (md_operationFingerprint md) (md_commandId md) d of
         (d', Inl e) \<Rightarrow> (d', w, Inl e)
       | (d', Inr result) \<Rightarrow> (case dispatch hs d' w of
           (d'', w', Inl e) \<Rightarrow> (d'', w', Inl e)
         | (d'', w', Inr _) \<Rightarrow> (d'', w', Inr (Committed result extra)))))"

definition find_idempotent :: "rt_db \<Rightarrow> string \<Rightarrow> idem_row option" where
  "find_idempotent d key = map_of (db_idempotency d) key"

text \<open>\<^verbatim>\<open>if find_idempotent(key) is not None: return self._commit([], metadata)\<close>.\<close>

definition once :: "metadata \<Rightarrow> rt_db \<Rightarrow> plan res \<Rightarrow> plan res" where
  "once md d k = (if find_idempotent d (md_idempotencyKey md) \<noteq> None then Inr (Append [] []) else k)"

definition WRONG_KIND :: py_error where "WRONG_KIND = AssertionError ''aggregate of another kind''"

definition fetch :: "(agg \<Rightarrow> 'a option) \<Rightarrow> rt_db \<Rightarrow> string \<Rightarrow> 'a res" where
  "fetch pick d stream = bnd (require_state d stream) (\<lambda>s. case pick s of None \<Rightarrow> Inl WRONG_KIND | Some x \<Rightarrow> Inr x)"

definition append_to :: "string \<Rightarrow> string \<Rightarrow> int \<Rightarrow> event envelope \<Rightarrow> agg \<Rightarrow> (event, agg) append_request" where
  "append_to stream kind expected env state = \<lparr>rq_stream_id = stream, rq_kind = kind, rq_expected_version = expected,
     rq_envelope = env, rq_state = state\<rparr>"

definition ev1 :: "metadata \<Rightarrow> string" where "ev1 md = md_commandId md @ ''-ev1''"

text \<open>The commands that load one aggregate, apply an operation and append its event.\<close>

definition amend :: "metadata \<Rightarrow> string \<Rightarrow> string \<Rightarrow> (agg \<Rightarrow> 'a option) \<Rightarrow> ('a \<Rightarrow> agg) \<Rightarrow> ('a \<Rightarrow> 'a res) \<Rightarrow> ('a \<Rightarrow> 'a \<Rightarrow> event) \<Rightarrow>
    ('a \<Rightarrow> about) \<Rightarrow> rt_db \<Rightarrow> plan res" where
  "amend md stream kind pick con op ev ab d =
     bnd (fetch pick d stream) (\<lambda>current.
     bnd (op current) (\<lambda>state.
     Inr (Append [append_to stream kind (aggregate_version d stream)
       (envelope (ev1 md) stream (ev current state) md (ab current)) (con state)] [])))"

section \<open>Missions\<close>

definition append_create_mission :: "env \<Rightarrow> mission_spec \<Rightarrow> metadata \<Rightarrow> rt_db \<Rightarrow> (event, agg) append_request res" where
  "append_create_mission E spec md d =
     contract (ct_missionSpec (en_contracts E)) ''MissionSpec'' spec (
     permit ''create_mission'' md (
     let stream = mission_stream_id (sp_missionId spec) in
     Inr (append_to stream ''mission'' (aggregate_version d stream)
       (envelope (ev1 md) stream (MissionCreated spec) md (about_none\<lparr>ab_mission := Some (sp_missionId spec)\<rparr>))
       (AMission (mission_create spec)))))"

definition service_create_mission :: "env \<Rightarrow> mission_spec \<Rightarrow> metadata \<Rightarrow> rt_db \<Rightarrow> plan res" where
  "service_create_mission E spec md d =
     contract (ct_missionSpec (en_contracts E)) ''MissionSpec'' spec (
     admit E ''create_mission'' md (
     bnd (append_create_mission E spec md d) (\<lambda>a. Inr (Append [a] []))))"

text \<open>A recorded decision authorises a draft mission when it allows.\<close>

definition policy_step :: "policy_decision \<Rightarrow> mission \<Rightarrow> mission res" where
  "policy_step p m = (let state = mission_record_policy_decision m (pd_policyDecisionId p) in
     if ms_state state = ''draft'' \<and> pd_effect p \<in> {''allow'', ''allow_with_conditions''}
     then mission_transition state ''authorized'' else Inr state)"

definition service_evaluate_policy :: "env \<Rightarrow> policy_decision \<Rightarrow> metadata \<Rightarrow> rt_db \<Rightarrow> plan res" where
  "service_evaluate_policy E p md d =
     contract (ct_policyDecision (en_contracts E)) ''PolicyDecision'' p (
     admit E ''evaluate_policy'' md (
     raise_if (ac_kind (pd_decidedBy p) \<noteq> ''governance_kernel'')
       (AuthorityViolation ''PolicyDecision.decidedBy must be a governance_kernel actor'') (
     once md d (
     amend md (mission_stream_id (pd_missionId p)) ''mission'' the_mission AMission
       (policy_step p)
       (\<lambda>_ _. PolicyEvaluated p) (\<lambda>_. about_none\<lparr>ab_mission := Some (pd_missionId p)\<rparr>) d))))"

definition service_transition_mission :: "env \<Rightarrow> string \<Rightarrow> string \<Rightarrow> int option \<Rightarrow> metadata \<Rightarrow> rt_db \<Rightarrow> plan res" where
  "service_transition_mission E mission_id to_state expected_version md d =
     admit E ''transition_mission'' md (
     let stream = mission_stream_id mission_id; actual = aggregate_version d stream in
     raise_if (default_to actual expected_version \<noteq> actual)
       (ConcurrencyError (''mission '' @ mission_id @ '' expected version '' @ str_int (default_to actual expected_version)
          @ '' but actual is '' @ str_int actual)) (
     amend md stream ''mission'' the_mission AMission (\<lambda>m. mission_transition m to_state)
       (\<lambda>_ _. MissionStateChanged to_state) (\<lambda>_. about_none\<lparr>ab_mission := Some mission_id\<rparr>) d))"

section \<open>Tasks\<close>

definition append_create_task :: "env \<Rightarrow> task_node \<Rightarrow> metadata \<Rightarrow> rt_db \<Rightarrow> (event, agg) append_request res" where
  "append_create_task E node md d =
     contract (ct_taskNode (en_contracts E)) ''TaskNode'' node (
     permit ''plan_tasks'' md (
     let stream = task_stream_id (tn_taskId node) in
     Inr (append_to stream ''task'' (aggregate_version d stream)
       (envelope (ev1 md) stream (TaskCreated node) md
          (about_none\<lparr>ab_mission := Some (tn_missionId node), ab_task := Some (tn_taskId node)\<rparr>))
       (ATask (task_create node)))))"

definition service_create_task :: "env \<Rightarrow> task_node \<Rightarrow> metadata \<Rightarrow> rt_db \<Rightarrow> plan res" where
  "service_create_task E node md d =
     contract (ct_taskNode (en_contracts E)) ''TaskNode'' node (
     admit E ''plan_tasks'' md (
     bnd (append_create_task E node md d) (\<lambda>a. Inr (Append [a] []))))"

definition about_task :: "task \<Rightarrow> string \<Rightarrow> about" where
  "about_task t task_id = about_none\<lparr>ab_mission := Some (tk_missionId t), ab_task := Some task_id\<rparr>"

text \<open>Unlike a mission's, the expected version of a task is left to the store to compare.\<close>

definition service_transition_task :: "env \<Rightarrow> string \<Rightarrow> string \<Rightarrow> string option \<Rightarrow> int option \<Rightarrow> metadata \<Rightarrow> rt_db \<Rightarrow> plan res" where
  "service_transition_task E task_id to_state driver_id expected_version md d =
     admit E ''transition_task'' md (
     let stream = task_stream_id task_id in
     bnd (fetch the_task d stream) (\<lambda>current.
     bnd (task_transition current to_state driver_id) (\<lambda>state.
     Inr (Append [append_to stream ''task'' (default_to (aggregate_version d stream) expected_version)
       (envelope (ev1 md) stream (TaskTransitioned to_state) md (about_task current task_id)) (ATask state)] []))))"

definition state_answer :: "string \<Rightarrow> string \<Rightarrow> string option \<Rightarrow> plan" where
  "state_answer key i state = Answer [(''status'', JStr ''idempotent''), (key, JStr i), (''state'', opt_text state)]"

text \<open>The state of the aggregate in a stream, when there is one: \<^verbatim>\<open>current["state"] if current else None\<close>.\<close>

definition held_state :: "(agg \<Rightarrow> 'a option) \<Rightarrow> ('a \<Rightarrow> string) \<Rightarrow> rt_db \<Rightarrow> string \<Rightarrow> string option" where
  "held_state pick sel d stream = (case load_state d stream of None \<Rightarrow> None | Some s \<Rightarrow> map_option sel (pick s))"

definition service_cancel_task :: "env \<Rightarrow> string \<Rightarrow> metadata \<Rightarrow> rt_db \<Rightarrow> plan res" where
  "service_cancel_task E task_id md d =
     admit E ''cancel_task'' md (
     let stream = task_stream_id task_id in
     if find_idempotent d (md_idempotencyKey md) \<noteq> None
     then Inr (state_answer ''targetId'' task_id (held_state the_task tk_state d stream))
     else amend md stream ''task'' the_task ATask (\<lambda>t. task_transition t ''cancelled'' None)
       (\<lambda>_ _. TaskTransitioned ''cancelled'') (\<lambda>t. about_task t task_id) d)"

definition service_submit_result :: "env \<Rightarrow> string \<Rightarrow> string \<Rightarrow> string \<Rightarrow> metadata \<Rightarrow> rt_db \<Rightarrow> plan res" where
  "service_submit_result E task_id status result_ref md d =
     admit E ''submit_result'' md (
     raise_if (status \<notin> {''succeeded'', ''failed'', ''cancelled''}) (ValueError ''result status must be succeeded, failed, or cancelled'') (
     raise_if (result_ref = []) (ValueError ''resultRef must be a non-empty reference string'') (
     once md d (
     let stream = task_stream_id task_id; to_state = (if status = ''succeeded'' then ''awaiting_verification'' else status) in
     bnd (fetch the_task d stream) (\<lambda>current.
     bnd (task_transition (task_record_result current result_ref) to_state None) (\<lambda>state.
     Inr (Append [append_to stream ''task'' (aggregate_version d stream)
       (envelope (md_commandId md @ ''-result'') stream (TaskResultSubmitted result_ref to_state) md (about_task current task_id))
       (ATask state)] [])))))))"

text \<open>\<^verbatim>\<open>get_next_work_packet\<close>: the first ready task of the mission with an attempt left, in the order of the streams.\<close>

definition runnable :: "string \<Rightarrow> task \<Rightarrow> bool" where
  "runnable mission_id t \<longleftrightarrow> tk_missionId t = mission_id \<and> tk_state t = ''ready'' \<and> tk_attempt t < tk_maxAttempts t"

definition next_runnable :: "rt_db \<Rightarrow> string \<Rightarrow> task option" where
  "next_runnable d mission_id = find (runnable mission_id) (List.map_filter (\<lambda>(i, _, _).
     if starts_with i ''task-'' then Option.bind (load_state d i) the_task else None) (all_aggregates d))"

definition get_next_work_packet :: "env \<Rightarrow> string \<Rightarrow> string \<Rightarrow> metadata \<Rightarrow> rt_db \<Rightarrow> plan res" where
  "get_next_work_packet E mission_id session_id md d =
     contract (ct_metadata (en_contracts E)) ''CommandMetadata'' md (Inr (Answer (case next_runnable d mission_id of
       None \<Rightarrow> [(''hasWork'', JBool False), (''missionId'', JStr mission_id), (''sessionId'', JStr session_id),
         (''reason'', JStr ''no_runnable_tasks'')]
     | Some t \<Rightarrow> [(''hasWork'', JBool True), (''packetId'', JStr (tk_taskId t)), (''missionId'', JStr mission_id),
         (''sessionId'', JStr session_id), (''taskId'', JStr (tk_taskId t)), (''title'', JStr (tk_title t)), (''state'', JStr (tk_state t)),
         (''capabilityRequirements'', JList (tk_capabilityRequirements t)), (''exactNextAction'', JStr ''execute_task''),
         (''createdAt'', JNull)])))"

end
