(* ===== verification/Service_Capability.thy ===== *)
theory Service_Capability
  imports Services
begin

text \<open>
  \<^verbatim>\<open>capt_runtime/services.py\<close>, the commands on capabilities and driver runs, with the one that
  issues a grant from a human approval: it consumes the approval and creates the grant in one commit.
\<close>

section \<open>Grants\<close>

fun the_policy :: "event \<Rightarrow> policy_decision option" where
  "the_policy (PolicyEvaluated p) = Some p"
| "the_policy _ = None"

definition find_policy_decision :: "rt_db \<Rightarrow> string \<Rightarrow> policy_decision option" where
  "find_policy_decision d i =
     find (\<lambda>p. pd_policyDecisionId p = i) (List.map_filter (\<lambda>e. the_policy (ev_payload e)) (read_events d 0))"

definition requires_approval :: "json \<Rightarrow> bool" where
  "requires_approval c = (case c of JObj x \<Rightarrow> dget x ''kind'' = JStr ''requires_approval'' | _ \<Rightarrow> False)"

definition service_issue_grant :: "env \<Rightarrow> grant \<Rightarrow> metadata \<Rightarrow> rt_db \<Rightarrow> plan res" where
  "service_issue_grant E g md d =
     contract (ct_grant (en_contracts E)) ''CapabilityGrant'' g (
     admit E ''issue_grant'' md (
     raise_if (ac_kind (gr_issuedBy g) \<noteq> ''governance_kernel'')
       (AuthorityViolation ''CapabilityGrant.issuedBy must be a governance_kernel actor'') (
     raise_if (list_ex requires_approval (gr_conditions g) \<or> given (gr_approvalRequestId g))
       (AuthorityViolation ''HUMAN_APPROVAL_GRANT_MUST_USE_ATOMIC_APPROVAL_TRANSFER'') (
     raise_if (find_policy_decision d (gr_policyDecisionId g) = None)
       (AuthorityViolation (''grant '' @ gr_grantId g @ '' cites unknown policy decision '' @ gr_policyDecisionId g)) (
     let stream = capability_stream_id (gr_grantId g) in
     Inr (Append [append_to stream ''capability'' (aggregate_version d stream)
       (envelope (ev1 md) stream (CapabilityGranted g) md about_none) (ACapability (cap_grant g))] []))))))"

text \<open>The JSON form of a scope and of an actor, as an approval and a policy decision hold them.\<close>

fun scope_json :: "scope \<Rightarrow> json" where
  "scope_json NoneScope = JObj [(''kind'', JStr ''none'')]"
| "scope_json (FilesystemScope r b) = JObj [(''kind'', JStr ''filesystem''), (''rootPath'', JStr r), (''recursive'', JBool b)]"
| "scope_json (RepositoryScope i r) = JObj [(''kind'', JStr ''repository''), (''repositoryId'', JStr i), (''refPattern'', JStr r)]"
| "scope_json (NetworkScope hs) = JObj [(''kind'', JStr ''network''), (''hosts'', JList (map JStr hs))]"
| "scope_json (ToolScope ts) = JObj [(''kind'', JStr ''tool''), (''toolIds'', JList (map JStr ts))]"
| "scope_json (OtherScope k) = JObj [(''kind'', JStr k)]"

definition same_conditions :: "json list \<Rightarrow> json list \<Rightarrow> bool" where
  "same_conditions a b \<longleftrightarrow> json_eq (JList a) (JList b)"

text \<open>A guard: the condition that must not hold, and the code of the \<^verbatim>\<open>AuthorityViolation\<close>.\<close>

fun refuse :: "(bool \<times> string) list \<Rightarrow> 'b res \<Rightarrow> 'b res" where
  "refuse [] k = k"
| "refuse ((c, code) # gs) k = raise_if c (AuthorityViolation code) (refuse gs k)"

text \<open>The agreement of approval, policy decision and grant, in the order of the code.\<close>

definition approval_state_guards :: "approval \<Rightarrow> string \<Rightarrow> (bool \<times> string) list" where
  "approval_state_guards a consumed_at =
    [(ap_state a \<noteq> ''approved'', ''HUMAN_APPROVAL_NOT_APPROVED''),
     (consumed_at > ap_expiresAt a, ''HUMAN_APPROVAL_EXPIRED''),
     (ap_remainingUses a \<noteq> Some 1, ''HUMAN_APPROVAL_ONE_USE_REQUIRED'')]"

definition agreement_guards :: "approval \<Rightarrow> policy_decision \<Rightarrow> grant \<Rightarrow> (bool \<times> string) list" where
  "agreement_guards a p g =
    [(ap_operations a = [], ''HUMAN_APPROVAL_OPERATIONS_REQUIRED_FOR_CAPABILITY''),
     (ap_capabilitySubject a = None, ''HUMAN_APPROVAL_SUBJECT_REQUIRED_FOR_CAPABILITY''),
     (ap_capabilityMaxUses a = None, ''HUMAN_APPROVAL_MAX_USES_REQUIRED_FOR_CAPABILITY''),
     (\<not> distinct (ap_operations a), ''HUMAN_APPROVAL_DUPLICATE_OPERATIONS''),
     (\<not> distinct (pd_requestedOperations p), ''HUMAN_APPROVAL_POLICY_DUPLICATE_OPERATIONS''),
     (\<not> distinct (gr_operations g), ''HUMAN_APPROVAL_GRANT_DUPLICATE_OPERATIONS''),
     (set (ap_operations a) \<noteq> set (pd_requestedOperations p) \<or> set (ap_operations a) \<noteq> set (gr_operations g),
       ''HUMAN_APPROVAL_GRANT_OPERATIONS_MISMATCH''),
     (ap_requestedCapability a \<noteq> gr_capabilityId g, ''HUMAN_APPROVAL_GRANT_CAPABILITY_MISMATCH''),
     (ap_missionId a \<noteq> pd_missionId p, ''HUMAN_APPROVAL_POLICY_MISSION_MISMATCH''),
     (Some (ap_taskId a) \<noteq> pd_taskId p, ''HUMAN_APPROVAL_POLICY_TASK_MISMATCH''),
     (\<not> json_eq (ap_scope a) (pd_requestedScope p), ''HUMAN_APPROVAL_POLICY_SCOPE_MISMATCH''),
     (\<not> json_eq (ap_scope a) (scope_json (gr_scope g)), ''HUMAN_APPROVAL_GRANT_SCOPE_MISMATCH''),
     (ap_capabilitySubject a \<noteq> pd_subject p \<or> ap_capabilitySubject a \<noteq> Some (gr_subject g), ''HUMAN_APPROVAL_GRANT_SUBJECT_MISMATCH''),
     (\<not> same_conditions (ap_capabilityConditions a) (or_empty (pd_conditions p)), ''HUMAN_APPROVAL_POLICY_CONDITIONS_MISMATCH''),
     (\<not> same_conditions (ap_capabilityConditions a) (gr_conditions g), ''HUMAN_APPROVAL_GRANT_CONDITIONS_MISMATCH''),
     (ap_capabilityMaxUses a \<noteq> gr_maxUses g, ''HUMAN_APPROVAL_GRANT_MAX_USES_MISMATCH''),
     (pd_policyBundleDigest p \<noteq> gr_policyBundleDigest g, ''HUMAN_APPROVAL_GRANT_POLICY_DIGEST_MISMATCH''),
     (gr_issuedAt g < text_or [] (ap_decidedAt a), ''HUMAN_APPROVAL_GRANT_ISSUED_BEFORE_DECISION''),
     (gr_validUntil g > ap_expiresAt a, ''HUMAN_APPROVAL_GRANT_OUTLIVES_APPROVAL''),
     (\<not> same_conditions (ap_externalCommitments a) (or_empty (pd_externalCommitments p)), ''HUMAN_APPROVAL_POLICY_COMMITMENT_MISMATCH''),
     (\<not> same_conditions (ap_externalCommitments a) (or_empty (gr_externalCommitments g)), ''HUMAN_APPROVAL_GRANT_COMMITMENT_MISMATCH'')]"

definition actor_json :: "actor \<Rightarrow> json" where
  "actor_json a = JObj [(''actorId'', JStr (ac_actorId a)), (''kind'', JStr (ac_kind a))]"

definition opt_int :: "int option \<Rightarrow> json" where
  "opt_int n = (case n of None \<Rightarrow> JNull | Some i \<Rightarrow> JInt i)"

definition grant_consumption :: "string \<Rightarrow> string \<Rightarrow> string \<Rightarrow> approval \<Rightarrow> grant \<Rightarrow> dict" where
  "grant_consumption request_id use_id consumed_at a g =
    [(''schemaVersion'', JStr ''1.0.0''), (''requestId'', JStr request_id), (''useId'', JStr use_id), (''consumedAt'', JStr consumed_at),
     (''missionId'', JStr (ap_missionId a)), (''taskId'', JStr (ap_taskId a)), (''grantId'', JStr (gr_grantId g)),
     (''capabilityId'', JStr (gr_capabilityId g)), (''operations'', JList (map JStr (gr_operations g))),
     (''scope'', scope_json (gr_scope g)), (''subject'', actor_json (gr_subject g)), (''conditions'', JList (gr_conditions g)),
     (''maxUses'', opt_int (gr_maxUses g)), (''externalCommitments'', JList (or_empty (gr_externalCommitments g)))]"

text \<open>The answer to a repeated command: what the two aggregates hold now.\<close>

definition grant_answer :: "string \<Rightarrow> grant \<Rightarrow> rt_db \<Rightarrow> plan" where
  "grant_answer request_id g d = Answer [(''status'', JStr ''idempotent''), (''requestId'', JStr request_id),
     (''approvalState'', opt_text (held_state the_approval ap_state d (approval_stream_id request_id))), (''grantId'', JStr (gr_grantId g)),
     (''grantState'', opt_text (held_state the_capability cs_grantState d (capability_stream_id (gr_grantId g))))]"

text \<open>\<open>show_grant\<close> is the JSON form of a grant, which the operation fingerprint covers.\<close>

definition service_issue_grant_from_human_approval ::
    "env \<Rightarrow> (grant \<Rightarrow> json) \<Rightarrow> string \<Rightarrow> grant \<Rightarrow> string \<Rightarrow> string option \<Rightarrow> metadata \<Rightarrow> rt_db \<Rightarrow> plan res" where
  "service_issue_grant_from_human_approval E show_grant request_id g use_id now md d =
     contract (ct_grant (en_contracts E)) ''CapabilityGrant'' g (
     admit E ''issue_grant'' md (
     let expected_fingerprint = fingerprint (hs_sha (en_hashing E)) ''issue_grant_from_human_approval''
           [(''requestId'', JStr request_id), (''grant'', show_grant g), (''useId'', JStr use_id)] in
     raise_if (md_operationFingerprint md \<noteq> expected_fingerprint)
       (IdempotencyConflict ''issue_grant_from_human_approval operation fingerprint does not match semantic request'') (
     refuse [(ac_kind (gr_issuedBy g) \<noteq> ''governance_kernel'', ''CapabilityGrant.issuedBy must be a governance_kernel actor''),
       (gr_approvalRequestId g \<noteq> Some request_id, ''HUMAN_APPROVAL_GRANT_REQUEST_ID_MISMATCH'')] (
     case find_idempotent d (md_idempotencyKey md) of
       Some prior \<Rightarrow>
         raise_if (ir_fingerprint prior \<noteq> expected_fingerprint)
           (IdempotencyConflict (''idempotency key '' @ md_idempotencyKey md @ '' reused with a different approval-to-grant request''))
           (Inr (grant_answer request_id g d))
     | None \<Rightarrow> (case find_policy_decision d (gr_policyDecisionId g) of
         None \<Rightarrow> Inl (AuthorityViolation (''grant '' @ gr_grantId g @ '' cites unknown policy decision '' @ gr_policyDecisionId g))
       | Some p \<Rightarrow>
         refuse [(pd_effect p \<notin> {''allow'', ''allow_with_conditions''}, ''HUMAN_APPROVAL_GRANT_POLICY_NOT_ALLOW'')] (
         let approval_stream = approval_stream_id request_id; grant_stream = capability_stream_id (gr_grantId g);
             consumed_at = text_or (md_issuedAt md) now in
         bnd (fetch the_approval d approval_stream) (\<lambda>a.
         refuse (approval_state_guards a consumed_at @ agreement_guards a p g) (
         bnd (approval_consume a use_id consumed_at) (\<lambda>a'.
         contract_dict E ''HumanApprovalCapabilityConsumption'' (grant_consumption request_id use_id consumed_at a g) (
         raise_if (aggregate_version d grant_stream \<noteq> 0) (AuthorityViolation ''HUMAN_APPROVAL_GRANT_ALREADY_EXISTS'') (
         let ab = about_none\<lparr>ab_mission := Some (ap_missionId a), ab_task := Some (ap_taskId a)\<rparr> in
         Inr (Append
           [append_to approval_stream ''human_approval'' (aggregate_version d approval_stream)
              (envelope (ev1 md) approval_stream
                 (OtherEvent ''HumanApprovalConsumedForCapability'' (grant_consumption request_id use_id consumed_at a g)) md ab)
              (AApproval a'),
            append_to grant_stream ''capability'' 0
              (envelope (md_commandId md @ ''-ev2'') grant_stream (CapabilityGranted g) md ab) (ACapability (cap_grant g))]
           [(''requestId'', JStr request_id), (''approvalState'', JStr (ap_state a')), (''grantId'', JStr (gr_grantId g)),
            (''grantState'', JStr (cs_grantState (cap_grant g)))]))))))))))))"

section \<open>Leases, uses, revocations\<close>

definition service_activate_lease :: "env \<Rightarrow> lease_req \<Rightarrow> metadata \<Rightarrow> rt_db \<Rightarrow> plan res" where
  "service_activate_lease E l md d =
     contract (ct_lease (en_contracts E)) ''CapabilityLease'' l (
     admit E ''activate_lease'' md (
     once md d (
     amend md (capability_stream_id (lq_grantId l)) ''capability'' the_capability ACapability (\<lambda>c. cap_activate_lease c l)
       (\<lambda>_ _. CapabilityLeaseActivated l) (\<lambda>_. about_none\<lparr>ab_mission := Some (lq_missionId l), ab_task := Some (lq_taskId l)\<rparr>) d)))"

definition service_reserve_use :: "env \<Rightarrow> string \<Rightarrow> reservation_req \<Rightarrow> metadata \<Rightarrow> rt_db \<Rightarrow> plan res" where
  "service_reserve_use E grant_id r md d =
     contract (ct_reservation (en_contracts E)) ''CapabilityReservation'' r (
     admit E ''reserve_use'' md (
     once md d (
     amend md (capability_stream_id grant_id) ''capability'' the_capability ACapability (\<lambda>c. cap_reserve c r (md_issuedAt md))
       (\<lambda>_ _. CapabilityUseReserved r) (\<lambda>_. about_none) d)))"

definition service_finalize_use :: "env \<Rightarrow> string \<Rightarrow> consumption \<Rightarrow> metadata \<Rightarrow> rt_db \<Rightarrow> plan res" where
  "service_finalize_use E grant_id x md d =
     contract (ct_consumption (en_contracts E)) ''CapabilityConsumptionRecord'' x (
     admit E ''finalize_use'' md (
     once md d (
     amend md (capability_stream_id grant_id) ''capability'' the_capability ACapability (\<lambda>c. cap_finalize c x)
       (\<lambda>_ _. CapabilityUseFinalized x) (\<lambda>_. about_none) d)))"

text \<open>The target of a revocation must be this grant, or the lease the grant has.\<close>

definition check_revocation :: "string \<Rightarrow> capability \<Rightarrow> revocation_req \<Rightarrow> unit res" where
  "check_revocation grant_id c v =
     (if vq_targetKind v = ''grant''
      then raise_if (vq_targetId v \<noteq> grant_id) (AuthorityViolation (''revocation targetId does not match grant '' @ grant_id)) (Inr ())
      else case cs_lease c of
        None \<Rightarrow> Inl (AuthorityViolation ''cannot revoke lease: grant has no active lease record'')
      | Some l \<Rightarrow> raise_if (vq_targetId v \<noteq> cl_leaseId l)
          (AuthorityViolation (''revocation targetId does not match active lease '' @ cl_leaseId l)) (Inr ()))"

definition service_revoke :: "env \<Rightarrow> string \<Rightarrow> revocation_req \<Rightarrow> metadata \<Rightarrow> rt_db \<Rightarrow> plan res" where
  "service_revoke E grant_id v md d =
     contract (ct_revocation (en_contracts E)) ''CapabilityRevocation'' v (
     admit E ''revoke'' md (
     amend md (capability_stream_id grant_id) ''capability'' the_capability ACapability
       (\<lambda>c. bnd (check_revocation grant_id c v) (\<lambda>_. cap_revoke c v))
       (\<lambda>_ _. if vq_targetKind v = ''grant'' then CapabilityGrantRevoked v else CapabilityLeaseRevoked v) (\<lambda>_. about_none) d))"

text \<open>\<^verbatim>\<open>check_lease\<close> only reads.\<close>

definition service_check_lease :: "string \<Rightarrow> string \<Rightarrow> string \<Rightarrow> scope \<Rightarrow> string \<Rightarrow> rt_db \<Rightarrow> unit res" where
  "service_check_lease grant_id lease_id operation sc now d =
     bnd (fetch the_capability d (capability_stream_id grant_id)) (\<lambda>c. cap_check_lease c lease_id operation sc now)"

section \<open>Driver runs\<close>

definition service_create_driver_run :: "env \<Rightarrow> driver_run_req \<Rightarrow> metadata \<Rightarrow> rt_db \<Rightarrow> plan res" where
  "service_create_driver_run E r md d =
     contract (ct_driverRun (en_contracts E)) ''DriverRun'' r (
     admit E ''create_driver_run'' md (
     let stream = driver_stream_id (dq_driverRunId r) in
     bnd (driver_create r) (\<lambda>state.
     Inr (Append [append_to stream ''driverrun'' (aggregate_version d stream)
       (envelope (ev1 md) stream (DriverRunCreated r) md (about_none\<lparr>ab_mission := Some (dq_missionId r), ab_task := Some (dq_taskId r)\<rparr>))
       (ADriverRun state)] []))))"

definition service_transition_driver_run :: "env \<Rightarrow> string \<Rightarrow> string \<Rightarrow> metadata \<Rightarrow> rt_db \<Rightarrow> plan res" where
  "service_transition_driver_run E run_id to_state md d =
     admit E ''transition_driver_run'' md (
     amend md (driver_stream_id run_id) ''driverrun'' the_driver_run ADriverRun (\<lambda>r. driver_transition r to_state None)
       (\<lambda>_ _. DriverRunStateChanged to_state) (\<lambda>_. about_none) d)"

definition service_record_driver_dispatch_boundary :: "env \<Rightarrow> string \<Rightarrow> string \<Rightarrow> (nat \<Rightarrow> string) \<Rightarrow> metadata \<Rightarrow> rt_db \<Rightarrow> plan res" where
  "service_record_driver_dispatch_boundary E run_id boundary tick md d =
     admit E ''record_driver_dispatch_boundary'' md (
     amend md (driver_stream_id run_id) ''driverrun'' the_driver_run ADriverRun (\<lambda>r. record_dispatch_boundary r boundary (tick 0))
       (\<lambda>r _. DriverRunDispatchBoundaryRecorded \<lparr>be_driverRunId = run_id, be_previousDispatchBoundary = boundary_of r,
          be_dispatchBoundary = boundary, be_recordedAt = tick 0\<rparr>)
       (\<lambda>r. about_none\<lparr>ab_mission := Some (dr_missionId r), ab_task := Some (dr_taskId r)\<rparr>) d)"

definition service_cancel_driver_run :: "env \<Rightarrow> string \<Rightarrow> metadata \<Rightarrow> rt_db \<Rightarrow> plan res" where
  "service_cancel_driver_run E run_id md d =
     admit E ''cancel_driver_run'' md (
     if find_idempotent d (md_idempotencyKey md) \<noteq> None
     then Inr (state_answer ''targetId'' run_id (held_state the_driver_run dr_state d (driver_stream_id run_id)))
     else service_transition_driver_run E run_id ''cancelled'' md d)"

end
