(* ===== verification/Service_Approvals.thy ===== *)
theory Service_Approvals
  imports Service_Capability
begin

text \<open>
  \<^verbatim>\<open>capt_runtime/services.py\<close>, human approvals: the request, the decision of the operator, the
  check of an approved prompt, and the admission of a model execution, which consumes an approval
  and creates the driver run in one commit. The lock held meanwhile has no counterpart, a plan is
  computed and committed on one database. The specification of a cohort in an approval binding is
  normalised by \<^verbatim>\<open>cohort_contract.py\<close>, of which the command uses only the request ceiling: the
  function that computes it is the argument \<open>cohort_ceiling\<close>.
\<close>

section \<open>Requests and decisions\<close>

definition append_request_human_approval :: "env \<Rightarrow> approval_req \<Rightarrow> metadata \<Rightarrow> (event, agg) append_request res" where
  "append_request_human_approval E q md =
     contract (ct_approvalRequest (en_contracts E)) ''HumanApprovalRequest'' q (
     permit ''request_human_approval'' md (
     let stream = approval_stream_id (aq_requestId q) in
     Inr (append_to stream ''human_approval'' 0
       (envelope (ev1 md) stream (HumanApprovalRequested q) md
          (about_none\<lparr>ab_mission := Some (aq_missionId q), ab_task := Some (aq_taskId q)\<rparr>))
       (AApproval (approval_create q)))))"

definition service_request_human_approval :: "env \<Rightarrow> approval_req \<Rightarrow> metadata \<Rightarrow> rt_db \<Rightarrow> plan res" where
  "service_request_human_approval E q md d =
     contract (ct_approvalRequest (en_contracts E)) ''HumanApprovalRequest'' q (
     admit E ''request_human_approval'' md (
     once md d (
     raise_if (aggregate_version d (approval_stream_id (aq_requestId q)) \<noteq> 0) (AuthorityViolation ''HUMAN_APPROVAL_REQUEST_ALREADY_EXISTS'') (
     bnd (append_request_human_approval E q md) (\<lambda>a. Inr (Append [a] []))))))"

definition about_approval :: "approval \<Rightarrow> about" where
  "about_approval a = about_none\<lparr>ab_mission := Some (ap_missionId a), ab_task := Some (ap_taskId a)\<rparr>"

definition service_submit_human_approval_decision :: "env \<Rightarrow> string \<Rightarrow> approval_decision \<Rightarrow> string option \<Rightarrow> metadata \<Rightarrow> rt_db \<Rightarrow> plan res" where
  "service_submit_human_approval_decision E request_id x now md d =
     contract (ct_approvalDecision (en_contracts E)) ''HumanApprovalDecision'' x (
     admit E ''submit_human_approval_decision'' md (
     let stream = approval_stream_id request_id in
     if find_idempotent d (md_idempotencyKey md) \<noteq> None
     then Inr (state_answer ''requestId'' request_id (held_state the_approval ap_state d stream))
     else
       let decided_at = (if ad_decidedAt x = [] then md_issuedAt md else ad_decidedAt x) in
       amend md stream ''human_approval'' the_approval AApproval (\<lambda>a. approval_decide a x (text_or decided_at now))
         (\<lambda>_ _. HumanApprovalDecided x) about_approval d))"

section \<open>The approval of a prompt\<close>

text \<open>\<^verbatim>\<open>(state.get("scope") or {}).get("approvalBinding") or {}\<close>.\<close>

definition members :: "json \<Rightarrow> dict" where
  "members j = (case j of JObj x \<Rightarrow> x | _ \<Rightarrow> [])"

definition approval_binding :: "approval \<Rightarrow> dict" where
  "approval_binding a = members (dget (members (ap_scope a)) ''approvalBinding'')"

definition require_approved_prompt_assembly :: "string \<Rightarrow> string \<Rightarrow> string \<Rightarrow> rt_db \<Rightarrow> approval res" where
  "require_approved_prompt_assembly request_id prompt_digest operation d =
     bnd (fetch the_approval d (approval_stream_id request_id)) (\<lambda>a.
     refuse [(ap_state a \<notin> {''approved'', ''consumed''}, ''MODEL_PROMPT_APPROVAL_NOT_APPROVED''),
       (ap_operation a \<noteq> operation, ''MODEL_PROMPT_APPROVAL_OPERATION_MISMATCH''),
       (ap_promptAssemblyDigest a \<noteq> Some prompt_digest
          \<and> dget (approval_binding a) ''basePromptAssemblyDigest'' \<noteq> JStr prompt_digest, ''MODEL_PROMPT_APPROVAL_DIGEST_MISMATCH'')]
     (Inr a))"

section \<open>The admission of a model execution\<close>

record admission =
  am_requestId :: string
  am_promptAssemblyDigest :: string
  am_operation :: string
  am_missionId :: string
  am_taskId :: string
  am_driverRunId :: string
  am_resource :: string
  am_useId :: string
  am_now :: string
  am_driverId :: string
  am_preparedExecutionDigest :: string

text \<open>\<^verbatim>\<open>str(x.get(key, ""))\<close>.\<close>

definition text_at :: "dict \<Rightarrow> string \<Rightarrow> string" where
  "text_at x key = (case dlook x key of None \<Rightarrow> [] | Some v \<Rightarrow> str_of v)"

definition binding_guards :: "admission \<Rightarrow> approval \<Rightarrow> (bool \<times> string) list" where
  "binding_guards m a = (let b = approval_binding a in
    [(ap_operation a \<noteq> am_operation m, ''MODEL_PROMPT_APPROVAL_OPERATION_MISMATCH''),
     (ap_promptAssemblyDigest a \<noteq> Some (am_promptAssemblyDigest m), ''MODEL_PROMPT_APPROVAL_DIGEST_MISMATCH''),
     (text_at b ''missionId'' \<noteq> am_missionId m, ''MODEL_PROMPT_APPROVAL_MISSION_MISMATCH''),
     (text_at b ''taskId'' \<noteq> am_taskId m, ''MODEL_PROMPT_APPROVAL_TASK_MISMATCH''),
     (text_at b ''driverRunId'' \<noteq> am_driverRunId m, ''MODEL_PROMPT_APPROVAL_DRIVER_RUN_MISMATCH''),
     (text_at b ''targetRoot'' \<noteq> am_resource m, ''MODEL_PROMPT_APPROVAL_RESOURCE_MISMATCH''),
     (str_of (ap_resource a) \<noteq> am_resource m, ''MODEL_PROMPT_APPROVAL_RESOURCE_MISMATCH'')])"

definition admission_state_guards :: "admission \<Rightarrow> approval \<Rightarrow> string \<Rightarrow> (bool \<times> string) list" where
  "admission_state_guards m a consumed_at =
    [(ap_state a = ''consumed'', ''MODEL_PROMPT_APPROVAL_CONSUMED''),
     (ap_state a \<noteq> ''approved'', ''MODEL_PROMPT_APPROVAL_NOT_APPROVED''),
     (am_now m > ap_expiresAt a, ''MODEL_PROMPT_APPROVAL_EXPIRED''),
     (consumed_at > ap_expiresAt a, ''MODEL_PROMPT_APPROVAL_EXPIRED''),
     (ap_remainingUses a \<noteq> Some 1, ''MODEL_PROMPT_APPROVAL_ONE_USE_REQUIRED'')]"

definition model_consumption :: "admission \<Rightarrow> string \<Rightarrow> dict" where
  "model_consumption m consumed_at =
    [(''schemaVersion'', JStr ''1.0.0''), (''requestId'', JStr (am_requestId m)), (''useId'', JStr (am_useId m)),
     (''consumedAt'', JStr consumed_at), (''commandIssuedAt'', JStr (am_now m)), (''missionId'', JStr (am_missionId m)),
     (''taskId'', JStr (am_taskId m)), (''driverRunId'', JStr (am_driverRunId m)), (''resource'', JStr (am_resource m)),
     (''operation'', JStr (am_operation m)), (''promptAssemblyDigest'', JStr (am_promptAssemblyDigest m))]"

text \<open>The ceiling and the approval a provider run is bound to; other drivers have neither.\<close>

definition provider_binding :: "(json \<Rightarrow> json res) \<Rightarrow> admission \<Rightarrow> approval \<Rightarrow> (json option \<times> json option) res" where
  "provider_binding cohort_ceiling m a =
    (if am_driverId m \<noteq> ''provider'' then Inr (None, None)
     else let raw = dget (approval_binding a) ''cohortSpec'' in
       raise_if (case raw of JNull \<Rightarrow> False | JObj _ \<Rightarrow> False | _ \<Rightarrow> True) (AuthorityViolation ''MODEL_APPROVED_COHORT_SPEC_INVALID'') (
       bnd (cohort_ceiling raw) (\<lambda>ceiling.
       raise_if (case ceiling of JInt n \<Rightarrow> \<not> (1 \<le> n \<and> n \<le> 24) | _ \<Rightarrow> True) (AuthorityViolation ''MODEL_APPROVED_PROVIDER_CEILING_INVALID'')
       (Inr (Some ceiling, Some (JStr (am_requestId m)))))))"

definition admitted_run :: "admission \<Rightarrow> json option \<times> json option \<Rightarrow> driver_run_req" where
  "admitted_run m b = \<lparr>dq_driverRunId = am_driverRunId m, dq_driverId = am_driverId m, dq_missionId = am_missionId m,
     dq_taskId = am_taskId m, dq_workOrderVersion = Some 1, dq_externalRunId = None,
     dq_providerHttpRequestLimit = fst b, dq_providerRequestApprovalId = snd b\<rparr>"

definition admission_answer :: "admission \<Rightarrow> dict" where
  "admission_answer m = [(''driverRunId'', JStr (am_driverRunId m)), (''preparedExecutionDigest'', JStr (am_preparedExecutionDigest m))]"

definition service_admit_approved_model_execution ::
    "env \<Rightarrow> (json \<Rightarrow> json res) \<Rightarrow> admission \<Rightarrow> (nat \<Rightarrow> string) \<Rightarrow> metadata \<Rightarrow> rt_db \<Rightarrow> plan res" where
  "service_admit_approved_model_execution E cohort_ceiling m tick md d =
     admit E ''consume_human_approval'' md (
     refuse [(\<not> starts_with (am_preparedExecutionDigest m) ''sha256:'', ''PREPARED_EXECUTION_DIGEST_REQUIRED'')] (
     if find_idempotent d (md_idempotencyKey md) \<noteq> None
     then Inr (Answer ((''status'', JStr ''idempotent'') # admission_answer m))
     else
       let stream = approval_stream_id (am_requestId m); run_stream = driver_stream_id (am_driverRunId m) in
       bnd (fetch the_approval d stream) (\<lambda>a.
       refuse (binding_guards m a) (
       if ap_state a = ''consumed'' \<and> ap_consumedBy a = Some (am_useId m) then Inr (Answer [(''status'', JStr ''idempotent'')])
       else
         let consumed_at = tick 0; ab = about_none\<lparr>ab_mission := Some (am_missionId m), ab_task := Some (am_taskId m)\<rparr> in
         refuse (admission_state_guards m a consumed_at) (
         bnd (approval_consume a (am_useId m) consumed_at) (\<lambda>a'.
         contract_dict E ''HumanApprovalConsumption'' (model_consumption m consumed_at) (
         bnd (provider_binding cohort_ceiling m a) (\<lambda>b.
         let run = admitted_run m b in
         contract (ct_driverRun (en_contracts E)) ''DriverRun'' run (
         raise_if (aggregate_version d run_stream \<noteq> 0) (AuthorityViolation ''MODEL_DRIVER_RUN_ALREADY_EXISTS'') (
         bnd (driver_create run) (\<lambda>r.
         Inr (Append
           [append_to stream ''human_approval'' (aggregate_version d stream)
              (envelope (ev1 md) stream (HumanApprovalConsumed \<lparr>au_useId = am_useId m, au_consumedAt = consumed_at\<rparr>) md ab) (AApproval a'),
            append_to run_stream ''driverrun'' 0
              (envelope (md_commandId md @ ''-ev2'') run_stream (DriverRunCreated run) md ab) (ADriverRun r)]
           (admission_answer m)))))))))))))"

end
