(* ===== verification/Service_Claims.thy ===== *)
theory Service_Claims
  imports Service_Approvals
begin

text \<open>
  \<^verbatim>\<open>capt_runtime/services.py\<close>, claims: proposal, evidence, verification, the decision of ClaimGuard,
  and the review by a human, which records the attestation, the verification, the decision and the
  transition of the task in one commit.
\<close>

definition about_claim :: "string option \<Rightarrow> string option \<Rightarrow> string \<Rightarrow> about" where
  "about_claim mission task claim_id = \<lparr>ab_mission = mission, ab_task = task, ab_claim = Some claim_id\<rparr>"

text \<open>The appends that create a claim; \<open>promotion\<close> is the \<^verbatim>\<open>promotionState\<close> of the record.\<close>

definition claim_creation :: "claim_req \<Rightarrow> metadata \<Rightarrow> rt_db \<Rightarrow> (event, agg) append_request" where
  "claim_creation c md d = (let stream = claim_stream_id (cp_claimId c) in
     append_to stream ''claim'' (aggregate_version d stream)
       (envelope (ev1 md) stream (ClaimCreated c) md (about_claim (Some (cp_missionId c)) None (cp_claimId c))) (AClaim (claim_propose c)))"

definition service_propose_claim :: "env \<Rightarrow> claim_req \<Rightarrow> string \<Rightarrow> metadata \<Rightarrow> rt_db \<Rightarrow> plan res" where
  "service_propose_claim E c promotion md d =
     contract (ct_claim (en_contracts E)) ''ClaimRecord'' c (
     admit E ''propose_claim'' md (
     raise_if (promotion \<noteq> ''proposed'') (AuthorityViolation ''a new claim must enter as proposed'') (
     Inr (Append [claim_creation c md d] []))))"

text \<open>The loop over the evidence records, from a claim state and a version.\<close>

fun evidence_appends :: "env \<Rightarrow> claim_req \<Rightarrow> claim \<Rightarrow> int \<Rightarrow> (evidence \<times> metadata) list \<Rightarrow> (event, agg) append_request list res" where
  "evidence_appends E c state version [] = Inr []"
| "evidence_appends E c state version ((x, emd) # rest) =
     contract (ct_evidence (en_contracts E)) ''EvidenceRecord'' x (
     admit E ''record_evidence'' emd (
     raise_if (evd_missionId x \<noteq> cp_missionId c) (AuthorityViolation ''evidence references a different mission'') (
     bnd (claim_attach_evidence state (evd_evidenceId x)) (\<lambda>nxt.
     bnd (evidence_appends E c nxt (version + 1) rest) (\<lambda>as.
     let stream = claim_stream_id (cp_claimId c) in
     Inr (append_to stream ''claim'' version
       (envelope (ev1 emd) stream (EvidenceRecorded (evd_evidenceId x)) emd
          (about_claim (Some (evd_missionId x)) (evd_taskId x) (cp_claimId c))) (AClaim nxt) # as))))))"

definition service_propose_claim_with_evidence :: "env \<Rightarrow> claim_req \<Rightarrow> string \<Rightarrow> (evidence \<times> metadata) list \<Rightarrow> metadata \<Rightarrow> rt_db \<Rightarrow> plan res" where
  "service_propose_claim_with_evidence E c promotion records md d =
     contract (ct_claim (en_contracts E)) ''ClaimRecord'' c (
     admit E ''propose_claim'' md (
     raise_if (promotion \<noteq> ''proposed'') (AuthorityViolation ''a new claim must enter as proposed'') (
     raise_if (or_empty (cp_evidenceIds c) \<noteq> map (evd_evidenceId \<circ> fst) records)
       (AuthorityViolation ''atomic claim evidenceIds must exactly match persisted evidence records'') (
     bnd (evidence_appends E c (claim_propose c) (aggregate_version d (claim_stream_id (cp_claimId c)) + 1) records) (\<lambda>as.
     Inr (Append (claim_creation c md d # as) []))))))"

definition service_record_evidence :: "env \<Rightarrow> string \<Rightarrow> evidence \<Rightarrow> metadata \<Rightarrow> rt_db \<Rightarrow> plan res" where
  "service_record_evidence E claim_id x md d =
     contract (ct_evidence (en_contracts E)) ''EvidenceRecord'' x (
     admit E ''record_evidence'' md (
     amend md (claim_stream_id claim_id) ''claim'' the_claim AClaim (\<lambda>c. claim_attach_evidence c (evd_evidenceId x))
       (\<lambda>_ _. EvidenceRecorded (evd_evidenceId x)) (\<lambda>_. about_claim (Some (evd_missionId x)) None claim_id) d))"

text \<open>A \<^verbatim>\<open>verified\<close> status cites only evidence the claim already has.\<close>

definition missing_evidence :: "claim \<Rightarrow> verification_req \<Rightarrow> string list" where
  "missing_evidence c v = (if vf_status_kind (vr_body v) = ''verified''
     then filter (\<lambda>e. e \<notin> set (cm_evidenceIds c)) (vr_supportingEvidenceIds v) else [])"

definition service_record_verification :: "env \<Rightarrow> verification_req \<Rightarrow> metadata \<Rightarrow> rt_db \<Rightarrow> plan res" where
  "service_record_verification E v md d =
     contract (ct_verification (en_contracts E)) ''VerificationResult'' v (
     admit E ''produce_verification'' md (
     raise_if (ac_kind (vr_verifiedBy v) \<noteq> ''verification_plane'')
       (AuthorityViolation ''VerificationResult.verifiedBy must be a verification_plane actor'') (
     let claim_id = vf_claimId (vr_body v) in
     amend md (claim_stream_id claim_id) ''claim'' the_claim AClaim
       (\<lambda>c. raise_if (missing_evidence c v \<noteq> [])
          (AuthorityViolation (''verification cites evidence not recorded on claim '' @ claim_id @ '': ''
             @ join_with '', '' (sort (missing_evidence c v)))) (
          claim_record_verification c (vr_body v)))
       (\<lambda>_ _. ClaimVerified (vr_body v)) (\<lambda>_. about_claim None None claim_id) d)))"

definition service_decide_claim :: "env \<Rightarrow> claim_decision_req \<Rightarrow> metadata \<Rightarrow> rt_db \<Rightarrow> plan res" where
  "service_decide_claim E x md d =
     contract (ct_claimDecision (en_contracts E)) ''ClaimGuardDecision'' x (
     admit E ''decide_claim'' md (
     raise_if (ac_kind (cd_decidedBy x) \<noteq> ''claim_authority'')
       (AuthorityViolation ''ClaimGuardDecision.decidedBy must be a claim_authority actor'') (
     amend md (claim_stream_id (cd_claimId x)) ''claim'' the_claim AClaim (\<lambda>c. claim_decide c (cd_body x))
       (\<lambda>_ _. ClaimGuardDecided (cd_body x)) (\<lambda>_. about_claim None None (cd_claimId x)) d)))"

section \<open>Review by a human\<close>

definition review_statement :: "string \<Rightarrow> string option \<Rightarrow> string" where
  "review_statement disposition note = text_or
     (if disposition = ''accept'' then ''Operator confirmed the provider result satisfies the requested acceptance criteria.''
      else ''Operator rejected the provider result against the requested acceptance criteria.'')
     (map_option py_strip note)"

definition review_evidence_id :: "(string \<Rightarrow> string) \<Rightarrow> string \<Rightarrow> string \<Rightarrow> string \<Rightarrow> string \<Rightarrow> string" where
  "review_evidence_id sha claim_id operator_id disposition statement = ''ev-human-'' @ digest sha (JObj
     [(''claimId'', JStr claim_id), (''operatorId'', JStr operator_id), (''disposition'', JStr disposition), (''statement'', JStr statement)])"

definition review_verification :: "(string \<Rightarrow> string) \<Rightarrow> string \<Rightarrow> string \<Rightarrow> string \<Rightarrow> verification_req" where
  "review_verification sha claim_id evidence_id disposition =
     \<lparr>vr_body = \<lparr>vf_verificationId = ''vr-human-'' @ digest sha (JObj [(''claimId'', JStr claim_id), (''evidenceId'', JStr evidence_id),
          (''disposition'', JStr disposition)]), vf_claimId = claim_id,
        vf_status_kind = (if disposition = ''accept'' then ''verified'' else ''observed_unverified'')\<rparr>,
      vr_verifiedBy = \<lparr>ac_actorId = ''verification_pipeline'', ac_kind = ''verification_plane''\<rparr>,
      vr_supportingEvidenceIds = (if disposition = ''accept'' then [evidence_id] else [])\<rparr>"

text \<open>The verdict is the disposition: \<^verbatim>\<open>accept\<close> or \<^verbatim>\<open>reject\<close>.\<close>

definition review_decision :: "string \<Rightarrow> string \<Rightarrow> string \<Rightarrow> claim_decision_req" where
  "review_decision claim_id verification_id disposition =
     \<lparr>cd_body = \<lparr>gd_verdict = (if disposition = ''accept'' then ''accept'' else ''reject''), gd_verificationId = Some verification_id,
        gd_qualification = None\<rparr>,
      cd_claimId = claim_id, cd_decidedBy = \<lparr>ac_actorId = ''claim_guard'', ac_kind = ''claim_authority''\<rparr>\<rparr>"

definition review_decision_id :: "(string \<Rightarrow> string) \<Rightarrow> string \<Rightarrow> string \<Rightarrow> string \<Rightarrow> string" where
  "review_decision_id sha claim_id verification_id verdict = ''dec-human-'' @ digest sha (JObj
     [(''claimId'', JStr claim_id), (''verificationId'', JStr verification_id), (''verdict'', JStr verdict)])"

definition phase_meta :: "env \<Rightarrow> metadata \<Rightarrow> string \<Rightarrow> string \<Rightarrow> string \<Rightarrow> string \<Rightarrow> dict \<Rightarrow> metadata res" where
  "phase_meta E md phase actor_id kind operation payload =
     command (ct_metadata (en_contracts E)) (md_commandId md @ '':'' @ phase) (md_idempotencyKey md @ '':'' @ phase)
       (fingerprint (hs_sha (en_hashing E)) operation payload) (md_correlationId md) \<lparr>ac_actorId = actor_id, ac_kind = kind\<rparr> (md_issuedAt md)"

definition review_guards :: "claim \<Rightarrow> task \<Rightarrow> (bool \<times> string) list" where
  "review_guards c t =
    [(tk_missionId t \<noteq> cm_missionId c, ''claim and task mission identity mismatch''),
     (tk_state t \<noteq> ''awaiting_verification'', ''human claim review requires task awaiting_verification'')]"

definition service_review_claim :: "env \<Rightarrow> string \<Rightarrow> string \<Rightarrow> string \<Rightarrow> string option \<Rightarrow> metadata \<Rightarrow> rt_db \<Rightarrow> plan res" where
  "service_review_claim E claim_id disposition operator_id note md d =
     admit E ''submit_human_claim_review'' md (
     refuse [(ac_actorId (md_actor md) \<noteq> operator_id, ''human claim review operator identity mismatch''),
       (disposition \<notin> {''accept'', ''reject''}, ''human claim review disposition must be accept or reject'')] (
     let cs = claim_stream_id claim_id; cv = aggregate_version d cs; sha = hs_sha (en_hashing E); C = en_contracts E in
     bnd (fetch the_claim d cs) (\<lambda>c.
     refuse [(cm_kind c \<noteq> ''completion'', ''human claim review requires a completion claim''),
       (cm_promotionState c \<noteq> ''proposed'', ''human claim review requires a proposed claim''),
       (\<not> given (cm_taskId c), ''human claim review requires a task-bound claim'')] (
     let task_id = the (cm_taskId c); ts = task_stream_id task_id in
     bnd (fetch the_task d ts) (\<lambda>t.
     refuse (review_guards c t) (
     let evidence_id = review_evidence_id sha claim_id operator_id disposition (review_statement disposition note);
         v = review_verification sha claim_id evidence_id disposition; vid = vf_verificationId (vr_body v);
         x = review_decision claim_id vid disposition; to_state = (if disposition = ''accept'' then ''succeeded'' else ''failed'');
         ab = about_claim (Some (cm_missionId c)) (Some task_id) claim_id in
     contract (ct_evidence C) ''EvidenceRecord'' \<lparr>evd_evidenceId = evidence_id, evd_missionId = cm_missionId c, evd_taskId = Some task_id\<rparr> (
     contract (ct_verification C) ''VerificationResult'' v (
     contract (ct_claimDecision C) ''ClaimGuardDecision'' x (
     bnd (phase_meta E md ''evidence'' ''verification_pipeline'' ''verification_plane'' ''record_evidence'' [(''evidenceId'', JStr evidence_id)]) (\<lambda>emd.
     bnd (phase_meta E md ''verification'' ''verification_pipeline'' ''verification_plane'' ''produce_verification'' [(''verificationId'', JStr vid)]) (\<lambda>vmd.
     bnd (phase_meta E md ''claim-guard'' ''claim_guard'' ''claim_authority'' ''decide_claim''
       [(''decisionId'', JStr (review_decision_id sha claim_id vid (gd_verdict (cd_body x))))]) (\<lambda>dmd.
     bnd (phase_meta E md ''task'' ''runtime'' ''system'' ''transition_task'' [(''taskId'', JStr task_id), (''disposition'', JStr disposition)]) (\<lambda>tmd.
     permit ''record_evidence'' emd (permit ''produce_verification'' vmd (permit ''decide_claim'' dmd (permit ''transition_task'' tmd (
     bnd (claim_attach_evidence c evidence_id) (\<lambda>c1.
     bnd (claim_record_verification c1 (vr_body v)) (\<lambda>c2.
     bnd (claim_decide c2 (cd_body x)) (\<lambda>c3.
     bnd (task_transition t to_state None) (\<lambda>t'.
     Inr (Append
       [append_to cs ''claim'' cv (envelope (ev1 emd) cs (EvidenceRecorded evidence_id) emd ab) (AClaim c1),
        append_to cs ''claim'' (cv + 1) (envelope (ev1 vmd) cs (ClaimVerified (vr_body v)) vmd (about_claim None None claim_id)) (AClaim c2),
        append_to cs ''claim'' (cv + 2) (envelope (ev1 dmd) cs (ClaimGuardDecided (cd_body x)) dmd (about_claim None None claim_id)) (AClaim c3),
        append_to ts ''task'' (aggregate_version d ts) (envelope (ev1 tmd) ts (TaskTransitioned to_state) tmd
          (about_none\<lparr>ab_mission := Some (cm_missionId c), ab_task := Some task_id\<rparr>)) (ATask t')]
       [(''claimId'', JStr claim_id), (''taskId'', JStr task_id), (''evidenceId'', JStr evidence_id), (''verificationId'', JStr vid),
        (''verdict'', JStr (gd_verdict (cd_body x))), (''claimState'', JStr (cm_promotionState c3)), (''taskState'', JStr to_state)]))))))))))))))))))))))"

end
