(* ===== verification/Service_Tools.thy ===== *)
theory Service_Tools
  imports Service_Claims Sandbox_Lease
begin

text \<open>
  \<^verbatim>\<open>capt_runtime/services.py\<close>, tool executions and the persistent sandbox: the transitions of one
  aggregate, and the settlements that close the capability use, the tool execution and the sandbox
  lease in one commit. These aggregates are the JSON objects of the contracts, so a guard reads
  keys, and a missing key raises where the code subscripts.
\<close>

section \<open>Reading the objects\<close>

definition refusing :: "bool res \<Rightarrow> string \<Rightarrow> 'b res \<Rightarrow> 'b res" where
  "refusing c code k = bnd c (\<lambda>b. raise_if b (AuthorityViolation code) k)"

definition or_else :: "bool res \<Rightarrow> bool res \<Rightarrow> bool res" where
  "or_else a b = bnd a (\<lambda>x. if x then Inr True else b)"

definition and_also :: "bool res \<Rightarrow> bool res \<Rightarrow> bool res" where
  "and_also a b = bnd a (\<lambda>x. if x then b else Inr False)"

definition item_in :: "dict \<Rightarrow> string \<Rightarrow> string list \<Rightarrow> bool res" where
  "item_in x k vs = bnd (dreq x k) (\<lambda>v. Inr (v \<in> JStr ` set vs))"

definition item_not_in :: "dict \<Rightarrow> string \<Rightarrow> string list \<Rightarrow> bool res" where
  "item_not_in x k vs = bnd (item_in x k vs) (\<lambda>b. Inr (\<not> b))"

text \<open>A key that is concatenated to a string: a value that is no string raises.\<close>

definition text_item :: "dict \<Rightarrow> string \<Rightarrow> string res" where
  "text_item x k = bnd (dreq x k) (\<lambda>v. case v of JStr s \<Rightarrow> Inr s | _ \<Rightarrow> Inl (TypeError ''can only concatenate str to str''))"

definition items_differ :: "dict \<Rightarrow> dict \<Rightarrow> string \<Rightarrow> bool res" where
  "items_differ x y k = bnd (dreq x k) (\<lambda>u. bnd (dreq y k) (\<lambda>v. Inr (\<not> json_eq u v)))"

definition reason_or :: "string \<Rightarrow> dict \<Rightarrow> string" where
  "reason_or fallback patch = (let v = dget patch ''reconciliationReason'' in if truthy v then str_of v else fallback)"

fun the_sandbox where "the_sandbox (ASandboxLease x) = Some x" | "the_sandbox _ = None"

section \<open>Tool executions\<close>

definition tool_event_of :: "string \<Rightarrow> tool_event" where
  "tool_event_of to_state =
     (if to_state = ''admitted'' then ToolAdmitted else if to_state = ''dispatching'' then ToolDispatching
      else if to_state = ''effect_observed'' then ToolEffectObserved else if to_state = ''settling'' then ToolSettling
      else ToolTerminated)"

definition service_prepare_tool_execution :: "env \<Rightarrow> dict \<Rightarrow> metadata \<Rightarrow> rt_db \<Rightarrow> plan res" where
  "service_prepare_tool_execution E x md d =
     contract_dict E ''ToolExecution'' x (
     admit E ''prepare_tool_execution'' md (
     bnd (text_item x ''toolExecutionId'') (\<lambda>i.
     let stream = tool_stream_id i in
     bnd (tool_create (ct_dict (en_contracts E)) x) (\<lambda>state.
     Inr (Append [append_to stream ''tool_execution'' (aggregate_version d stream)
       (envelope (ev1 md) stream (ToolExecutionPrepared state) md about_none) (AToolExecution state)] [])))))"

definition service_transition_tool_execution :: "env \<Rightarrow> string \<Rightarrow> string \<Rightarrow> dict \<Rightarrow> metadata \<Rightarrow> rt_db \<Rightarrow> plan res" where
  "service_transition_tool_execution E i to_state patch md d =
     admit E ''transition_tool_execution'' md (
     amend md (tool_stream_id i) ''tool_execution'' the_tool AToolExecution
       (\<lambda>x. tool_transition (ct_dict (en_contracts E)) x to_state (dsetdefault patch ''updatedAt'' (JStr (md_issuedAt md))))
       (\<lambda>_ state. ToolExecutionChanged (tool_event_of to_state) state) (\<lambda>_. about_none) d)"

section \<open>The appends of a settlement\<close>

definition capability_append :: "string \<Rightarrow> consumption \<Rightarrow> capability \<Rightarrow> metadata \<Rightarrow> rt_db \<Rightarrow> (event, agg) append_request" where
  "capability_append grant_id x state md d = (let stream = capability_stream_id grant_id in
     append_to stream ''capability'' (aggregate_version d stream)
       (envelope (md_commandId md @ ''-capability'') stream (CapabilityUseFinalized x) md about_none) (ACapability state))"

definition tool_append :: "string \<Rightarrow> tool_event \<Rightarrow> dict \<Rightarrow> metadata \<Rightarrow> rt_db \<Rightarrow> (event, agg) append_request" where
  "tool_append i k state md d = (let stream = tool_stream_id i in
     append_to stream ''tool_execution'' (aggregate_version d stream)
       (envelope (md_commandId md @ ''-tool'') stream (ToolExecutionChanged k state) md about_none) (AToolExecution state))"

definition sandbox_transition_event :: "env \<Rightarrow> dict \<Rightarrow> dict \<Rightarrow> metadata \<Rightarrow> event envelope res" where
  "sandbox_transition_event E current state md =
     bnd (text_item state ''sandboxLeaseId'') (\<lambda>i.
     bnd (sandbox_stream_id (ct_dict (en_contracts E)) i) (\<lambda>stream.
     bnd (dreq current ''state'') (\<lambda>from_state.
     bnd (dreq state ''state'') (\<lambda>to_state.
     Inr (envelope (md_commandId md @ ''-sandbox'') stream (OtherEvent ''SandboxLeaseTransitioned''
       [(''sandboxLeaseId'', JStr i), (''fromState'', from_state), (''toState'', to_state), (''lease'', JObj state)]) md about_none)))))"

definition sandbox_append :: "env \<Rightarrow> string \<Rightarrow> dict \<Rightarrow> dict \<Rightarrow> metadata \<Rightarrow> rt_db \<Rightarrow> (event, agg) append_request res" where
  "sandbox_append E stream current state md d =
     bnd (sandbox_transition_event E current state md) (\<lambda>env.
     Inr (append_to stream ''sandbox_lease'' (aggregate_version d stream) env (ASandboxLease state)))"

definition predispatch_guards :: "string \<Rightarrow> consumption \<Rightarrow> dict \<Rightarrow> 'b res \<Rightarrow> 'b res" where
  "predispatch_guards grant_id x t k =
     refusing (or_else (item_not_in t ''state'' [''prepared'', ''admitted'']) (item_not_in t ''dispatchBoundary'' [''not_started'']))
       ''PREDISPATCH_SETTLEMENT_AFTER_DISPATCH_FORBIDDEN'' (
     refuse [(dget t ''grantId'' \<noteq> JStr grant_id \<or> dget t ''leaseId'' \<noteq> JStr (cn_leaseId x), ''PREDISPATCH_SETTLEMENT_AUTHORITY_MISMATCH''),
       (dget t ''reservationId'' \<notin> {JNull, JStr (cn_reservationId x)}, ''PREDISPATCH_SETTLEMENT_RESERVATION_MISMATCH'')] k)"

definition service_settle_predispatch_tool_execution ::
    "env \<Rightarrow> string \<Rightarrow> consumption \<Rightarrow> string \<Rightarrow> dict \<Rightarrow> metadata \<Rightarrow> rt_db \<Rightarrow> plan res" where
  "service_settle_predispatch_tool_execution E grant_id x i result md d =
     contract (ct_consumption (en_contracts E)) ''CapabilityConsumptionRecord'' x (
     contract_dict E ''ToolResult'' result (
     admit E ''finalize_use'' md (
     permit ''transition_tool_execution'' md (
     refuse [(cn_outcome x \<noteq> ''failed'' \<or> cn_sideEffectIdentity x \<noteq> None, ''PREDISPATCH_SETTLEMENT_MUST_BE_FAILED_WITHOUT_EFFECT'')] (
     refusing (or_else (item_not_in result ''status'' [''denied'', ''failed'']) (Inr (dget result ''sideEffectIdentity'' \<noteq> JNull)))
       ''PREDISPATCH_RESULT_MUST_PROVE_NO_EFFECT'' (
     once md d (
     bnd (fetch the_capability d (capability_stream_id grant_id)) (\<lambda>c.
     bnd (fetch the_tool d (tool_stream_id i)) (\<lambda>t.
     predispatch_guards grant_id x t (
     bnd (cap_finalize c x) (\<lambda>c'.
     bnd (tool_transition (ct_dict (en_contracts E)) t ''failed''
       [(''reservationId'', JStr (cn_reservationId x)), (''result'', JObj result),
        (''resultDigest'', JStr (digest (hs_sha (en_hashing E)) (JObj result))), (''sideEffectIdentity'', JNull), (''worldReceipt'', JNull),
        (''settlementStatus'', JStr ''settled''), (''reconciliationReason'', JNull), (''dispatchBoundary'', JStr ''not_started''),
        (''updatedAt'', JStr (md_issuedAt md))]) (\<lambda>t'.
     Inr (Append [capability_append grant_id x c' md d, tool_append i ToolTerminated t' md d] [])))))))))))))"

section \<open>Sandbox leases\<close>

definition service_reserve_sandbox_lease :: "env \<Rightarrow> dict \<Rightarrow> metadata \<Rightarrow> rt_db \<Rightarrow> plan res" where
  "service_reserve_sandbox_lease E lease md d =
     contract_dict E ''SandboxLease'' lease (
     admit E ''reserve_sandbox_lease'' md (
     once md d (
     bnd (text_item lease ''sandboxLeaseId'') (\<lambda>i.
     bnd (sandbox_stream_id (ct_dict (en_contracts E)) i) (\<lambda>stream.
     raise_if (aggregate_version d stream \<noteq> 0) (AuthorityViolation ''SANDBOX_LEASE_ID_ALREADY_EXISTS'') (
     bnd (sandbox_reserve (ct_dict (en_contracts E)) lease) (\<lambda>state.
     Inr (Append [append_to stream ''sandbox_lease'' 0
       (envelope (md_commandId md @ ''-sandbox'') stream (OtherEvent ''SandboxLeaseReserved'' [(''lease'', JObj state)]) md about_none)
       (ASandboxLease state)] []))))))))"

definition transition_sandbox_lease :: "env \<Rightarrow> string \<Rightarrow> (validator \<Rightarrow> dict \<Rightarrow> dict \<Rightarrow> dict res) \<Rightarrow> dict \<Rightarrow> metadata \<Rightarrow> rt_db \<Rightarrow> plan res" where
  "transition_sandbox_lease E i transition patch md d =
     admit E ''transition_sandbox_lease'' md (
     once md d (
     bnd (sandbox_stream_id (ct_dict (en_contracts E)) i) (\<lambda>stream.
     bnd (fetch the_sandbox d stream) (\<lambda>current.
     bnd (transition (ct_dict (en_contracts E)) current (dsetdefault patch ''updatedAt'' (JStr (md_issuedAt md)))) (\<lambda>state.
     bnd (sandbox_append E stream current state md d) (\<lambda>a. Inr (Append [a] [])))))))"

datatype sandbox_move = MoveRecovered | MoveRunning | MoveClosing | MoveClosed | MoveIndeterminate | MoveReconciled string

fun sandbox_mover :: "sandbox_move \<Rightarrow> validator \<Rightarrow> dict \<Rightarrow> dict \<Rightarrow> dict res" where
  "sandbox_mover MoveRecovered V x p = record_created V x p"
| "sandbox_mover MoveRunning V x p = record_running V x p"
| "sandbox_mover MoveClosing V x p = bnd (dreq x ''state'') (\<lambda>s.
     if s = JStr ''indeterminate'' then sandbox_reconcile V x ''closing'' p else begin_close V x p)"
| "sandbox_mover MoveClosed V x p = record_closed V x p"
| "sandbox_mover MoveIndeterminate V x p = mark_indeterminate V x p"
| "sandbox_mover (MoveReconciled target) V x p = sandbox_reconcile V x target p"

definition service_observe_sandbox_create_effect ::
    "env \<Rightarrow> string \<Rightarrow> string \<Rightarrow> string \<Rightarrow> dict \<Rightarrow> metadata \<Rightarrow> rt_db \<Rightarrow> plan res" where
  "service_observe_sandbox_create_effect E i lease_id side_effect created_patch md d =
     (let V = ct_dict (en_contracts E); issued = JStr (md_issuedAt md) in
     admit E ''transition_tool_execution'' md (
     permit ''transition_sandbox_lease'' md (
     once md d (
     bnd (sandbox_stream_id V lease_id) (\<lambda>stream.
     bnd (fetch the_tool d (tool_stream_id i)) (\<lambda>t.
     bnd (fetch the_sandbox d stream) (\<lambda>s.
     refusing (or_else (item_not_in t ''state'' [''dispatching'']) (item_not_in t ''dispatchBoundary'' [''started'']))
       ''SANDBOX_CREATE_EFFECT_REQUIRES_DISPATCHING_TOOL'' (
     refusing (item_not_in s ''state'' [''reserved'']) ''SANDBOX_CREATE_EFFECT_REQUIRES_RESERVED_LEASE'' (
     refusing (item_not_in s ''creationToolExecutionId'' [i]) ''SANDBOX_CREATE_TOOL_IDENTITY_MISMATCH'' (
     refusing (or_else (items_differ s t ''operatorId'') (or_else (items_differ s t ''sessionId'') (item_in s ''executionContextId'' [''''])))
       ''SANDBOX_CREATE_OWNER_IDENTITY_MISMATCH'' (
     refuse [(dget created_patch ''sideEffectIdentity'' \<notin> {JNull, JStr side_effect}, ''SANDBOX_CREATE_SIDE_EFFECT_IDENTITY_MISMATCH'')] (
     bnd (record_created V s (dsetdefault (dput created_patch ''sideEffectIdentity'' (JStr side_effect)) ''updatedAt'' issued)) (\<lambda>s'.
     bnd (tool_transition V t ''effect_observed''
       [(''sideEffectIdentity'', JStr side_effect), (''dispatchBoundary'', JStr ''effect_observed''), (''updatedAt'', issued)]) (\<lambda>t'.
     bnd (sandbox_append E stream s s' md d) (\<lambda>a.
     Inr (Append [tool_append i ToolEffectObserved t' md d, a] []))))))))))))))))"

end
