(* ===== verification/Service_Settlement.thy ===== *)
theory Service_Settlement
  imports Service_Tools
begin

text \<open>
  \<^verbatim>\<open>capt_runtime/services.py\<close>, the settlements of a persistent sandbox: its creation, an execution in it
  of unknown outcome, and its closing. Each closes a capability use, terminates the tool execution and
  moves the lease in one commit.
\<close>

section \<open>What the settlements share\<close>

text \<open>\<^verbatim>\<open>next((item for item in reservations if ...), None)\<close> and its lease.\<close>

definition reservation_mismatch :: "capability \<Rightarrow> consumption \<Rightarrow> bool" where
  "reservation_mismatch c x = (case find (\<lambda>r. rv_reservationId r = cn_reservationId x) (cs_reservations c) of
     None \<Rightarrow> True | Some r \<Rightarrow> rv_leaseId r \<noteq> cn_leaseId x)"

definition effect_of :: "consumption \<Rightarrow> json" where
  "effect_of x = opt_text (cn_sideEffectIdentity x)"

definition owners_differ :: "dict \<Rightarrow> dict \<Rightarrow> bool res" where
  "owners_differ s t = or_else (items_differ s t ''operatorId'') (items_differ s t ''sessionId'')"

definition expected_outcome :: "json \<Rightarrow> string" where
  "expected_outcome status = (if status = JStr ''succeeded'' then ''succeeded'' else ''indeterminate'')"

definition settle_patch :: "string \<Rightarrow> dict \<Rightarrow> json \<Rightarrow> string \<Rightarrow> dict \<Rightarrow> string \<Rightarrow> dict" where
  "settle_patch result_digest result observed status reason issued =
     [(''result'', JObj result), (''resultDigest'', JStr result_digest), (''sideEffectIdentity'', observed),
      (''settlementStatus'', JStr status)] @ reason @ [(''dispatchBoundary'', JStr ''response_completed''), (''updatedAt'', JStr issued)]"

text \<open>The tool execution is settled and completed, or left indeterminate with a reason.\<close>

definition complete_tool :: "validator \<Rightarrow> dict \<Rightarrow> string \<Rightarrow> dict \<Rightarrow> json \<Rightarrow> string \<Rightarrow> dict res" where
  "complete_tool V t result_digest result observed issued =
     bnd (tool_transition V t ''settling'' (settle_patch result_digest result observed ''settling'' [] issued)) (\<lambda>settling.
     tool_transition V settling ''completed''
       (settle_patch result_digest result observed ''settled'' [(''reconciliationReason'', JNull)] issued))"

definition indeterminate_tool :: "validator \<Rightarrow> dict \<Rightarrow> string \<Rightarrow> dict \<Rightarrow> json \<Rightarrow> string \<Rightarrow> string \<Rightarrow> dict res" where
  "indeterminate_tool V t result_digest result observed reason issued =
     tool_transition V t ''indeterminate''
       (settle_patch result_digest result observed ''reconciliation_required'' [(''reconciliationReason'', JStr reason)] issued)"

definition quarantine_lease :: "validator \<Rightarrow> dict \<Rightarrow> dict \<Rightarrow> string \<Rightarrow> string \<Rightarrow> dict res" where
  "quarantine_lease V s patch reason issued =
     mark_indeterminate V s (dsetdefault (dput patch ''reconciliationReason'' (JStr reason)) ''updatedAt'' (JStr issued))"

definition settlement_entry :: "env \<Rightarrow> consumption \<Rightarrow> dict \<Rightarrow> metadata \<Rightarrow> rt_db \<Rightarrow> plan res \<Rightarrow> plan res" where
  "settlement_entry E x result md d k =
     contract (ct_consumption (en_contracts E)) ''CapabilityConsumptionRecord'' x (
     contract_dict E ''ToolResult'' result (
     admit E ''finalize_use'' md (
     permit ''transition_tool_execution'' md (
     permit ''transition_sandbox_lease'' md (
     once md d k)))))"

section \<open>The creation of a sandbox\<close>

text \<open>Whether the effect was observed; neither path is a mismatch.\<close>

definition creation_observed :: "dict \<Rightarrow> dict \<Rightarrow> bool res" where
  "creation_observed t s = and_also (item_in t ''state'' [''effect_observed'']) (item_in s ''state'' [''created''])"

definition creation_unobserved :: "dict \<Rightarrow> dict \<Rightarrow> bool res" where
  "creation_unobserved t s = and_also (item_in t ''state'' [''dispatching''])
     (and_also (item_in t ''dispatchBoundary'' [''started'']) (item_in s ''state'' [''reserved'']))"

text \<open>The identity of the effect that the settlement records.\<close>

definition created_effect :: "bool \<Rightarrow> dict \<Rightarrow> dict \<Rightarrow> dict \<Rightarrow> consumption \<Rightarrow> json res" where
  "created_effect observed_path t s result x =
     (let observed = dget s ''sideEffectIdentity'' in
      if observed_path then
        refuse [(\<not> truthy observed \<or> \<not> json_eq (dget t ''sideEffectIdentity'') observed \<or> \<not> json_eq (dget result ''sideEffectIdentity'') observed
            \<or> \<not> json_eq (effect_of x) observed, ''SANDBOX_CREATE_SIDE_EFFECT_IDENTITY_MISMATCH'')] (
        refusing (item_not_in result ''status'' [''succeeded'', ''indeterminate'']) ''SANDBOX_CREATE_OBSERVED_EFFECT_CANNOT_SETTLE_AS_FAILED''
        (Inr observed))
      else
        refusing (or_else (item_not_in result ''status'' [''indeterminate''])
            (Inr (dget t ''sideEffectIdentity'' \<noteq> JNull \<or> dget result ''sideEffectIdentity'' \<noteq> JNull \<or> cn_sideEffectIdentity x \<noteq> None)))
          ''SANDBOX_CREATE_UNOBSERVED_EFFECT_MUST_BE_INDETERMINATE''
        (Inr JNull))"

definition service_settle_sandbox_create ::
    "env \<Rightarrow> string \<Rightarrow> consumption \<Rightarrow> string \<Rightarrow> string \<Rightarrow> dict \<Rightarrow> dict \<Rightarrow> metadata \<Rightarrow> rt_db \<Rightarrow> plan res" where
  "service_settle_sandbox_create E grant_id x i lease_id result running_patch md d =
     (let V = ct_dict (en_contracts E); issued = md_issuedAt md; result_digest = digest (hs_sha (en_hashing E)) (JObj result) in
     settlement_entry E x result md d (
     bnd (sandbox_stream_id V lease_id) (\<lambda>stream.
     bnd (fetch the_capability d (capability_stream_id grant_id)) (\<lambda>c.
     bnd (fetch the_tool d (tool_stream_id i)) (\<lambda>t.
     refuse [(load_state d stream = None, ''SANDBOX_CREATE_LEASE_NOT_FOUND'')] (
     bnd (fetch the_sandbox d stream) (\<lambda>s.
     bnd (creation_observed t s) (\<lambda>observed_path.
     bnd (creation_unobserved t s) (\<lambda>unobserved_path.
     refuse [(\<not> observed_path \<and> \<not> unobserved_path, ''SANDBOX_CREATE_SETTLEMENT_STATE_MISMATCH''),
       (dget t ''grantId'' \<noteq> JStr grant_id, ''SANDBOX_CREATE_GRANT_MISMATCH''),
       (dget t ''leaseId'' \<noteq> JStr (cn_leaseId x), ''SANDBOX_CREATE_CAPABILITY_LEASE_MISMATCH'')] (
     refusing (item_not_in s ''creationToolExecutionId'' [i]) ''SANDBOX_CREATE_TOOL_IDENTITY_MISMATCH'' (
     refusing (owners_differ s t) ''SANDBOX_CREATE_OWNER_IDENTITY_MISMATCH'' (
     refuse [(reservation_mismatch c x, ''SANDBOX_CREATE_RESERVATION_MISMATCH'')] (
     bnd (created_effect observed_path t s result x) (\<lambda>observed.
     bnd (dreq result ''status'') (\<lambda>status.
     refuse [(cn_outcome x \<noteq> expected_outcome status, ''SANDBOX_CREATE_RESULT_CONSUMPTION_MISMATCH'')] (
     bnd (cap_finalize c x) (\<lambda>c'.
     bnd (if status = JStr ''succeeded''
          then bnd (record_running V s (dsetdefault running_patch ''updatedAt'' (JStr issued))) (\<lambda>s'.
               bnd (complete_tool V t result_digest result observed issued) (\<lambda>t'. Inr (s', t')))
          else let reason = reason_or ''sandbox create outcome indeterminate'' running_patch in
               bnd (quarantine_lease V s running_patch reason issued) (\<lambda>s'.
               bnd (indeterminate_tool V t result_digest result observed reason issued) (\<lambda>t'. Inr (s', t')))) (\<lambda>(s', t').
     bnd (sandbox_append E stream s s' md d) (\<lambda>a.
     Inr (Append [capability_append grant_id x c' md d, tool_append i ToolTerminated t' md d, a] []))))))))))))))))))))"

section \<open>An execution of unknown outcome\<close>

definition service_settle_sandbox_exec_indeterminate ::
    "env \<Rightarrow> string \<Rightarrow> consumption \<Rightarrow> string \<Rightarrow> string \<Rightarrow> dict \<Rightarrow> dict \<Rightarrow> metadata \<Rightarrow> rt_db \<Rightarrow> plan res" where
  "service_settle_sandbox_exec_indeterminate E grant_id x i lease_id result terminal_patch md d =
     (let V = ct_dict (en_contracts E); issued = md_issuedAt md; result_digest = digest (hs_sha (en_hashing E)) (JObj result) in
     settlement_entry E x result md d (
     bnd (sandbox_stream_id V lease_id) (\<lambda>stream.
     bnd (fetch the_capability d (capability_stream_id grant_id)) (\<lambda>c.
     bnd (fetch the_tool d (tool_stream_id i)) (\<lambda>t.
     bnd (fetch the_sandbox d stream) (\<lambda>s.
     refusing (item_not_in t ''state'' [''effect_observed'']) ''SANDBOX_EXEC_QUARANTINE_REQUIRES_OBSERVED_EFFECT'' (
     refusing (item_not_in s ''state'' [''running'']) ''SANDBOX_EXEC_QUARANTINE_REQUIRES_RUNNING_LEASE'' (
     refuse [(dget t ''grantId'' \<noteq> JStr grant_id \<or> dget t ''leaseId'' \<noteq> JStr (cn_leaseId x), ''SANDBOX_EXEC_CAPABILITY_MISMATCH'')] (
     refusing (owners_differ s t) ''SANDBOX_EXEC_OWNER_IDENTITY_MISMATCH'' (
     refuse [(reservation_mismatch c x, ''SANDBOX_EXEC_RESERVATION_MISMATCH'')] (
     let observed = dget t ''sideEffectIdentity'' in
     refuse [(\<not> truthy observed \<or> \<not> json_eq (dget result ''sideEffectIdentity'') observed \<or> \<not> json_eq (effect_of x) observed,
         ''SANDBOX_EXEC_SIDE_EFFECT_IDENTITY_MISMATCH'')] (
     refusing (or_else (item_not_in result ''status'' [''indeterminate'']) (Inr (cn_outcome x \<noteq> ''indeterminate'')))
       ''SANDBOX_EXEC_QUARANTINE_REQUIRES_INDETERMINATE_OUTCOME'' (
     let reason = reason_or ''persistent_exec_indeterminate'' terminal_patch in
     bnd (cap_finalize c x) (\<lambda>c'.
     bnd (quarantine_lease V s terminal_patch reason issued) (\<lambda>s'.
     bnd (indeterminate_tool V t result_digest result observed reason issued) (\<lambda>t'.
     bnd (sandbox_append E stream s s' md d) (\<lambda>a.
     Inr (Append [capability_append grant_id x c' md d, tool_append i ToolTerminated t' md d, a] []))))))))))))))))))"

section \<open>The closing of a sandbox\<close>

definition closing_effect_guard :: "dict \<Rightarrow> dict \<Rightarrow> consumption \<Rightarrow> unit res" where
  "closing_effect_guard t result x =
     bnd (item_in t ''state'' [''effect_observed'']) (\<lambda>was_observed.
     let observed = dget t ''sideEffectIdentity'' in
     if was_observed
     then refuse [(\<not> truthy observed \<or> \<not> json_eq (dget result ''sideEffectIdentity'') observed \<or> \<not> json_eq (effect_of x) observed,
            ''SANDBOX_CLOSE_SIDE_EFFECT_IDENTITY_MISMATCH'')] (Inr ())
     else refuse [(dget result ''sideEffectIdentity'' \<noteq> JNull \<or> cn_sideEffectIdentity x \<noteq> None,
            ''SANDBOX_CLOSE_UNOBSERVED_EFFECT_IDENTITY_FORBIDDEN'')] (Inr ()))"

text \<open>\<open>None\<close> for a lease that was closed already: it is not appended again.\<close>

definition close_lease :: "validator \<Rightarrow> dict \<Rightarrow> dict \<Rightarrow> string \<Rightarrow> dict option res" where
  "close_lease V s patch issued =
     bnd (item_in s ''state'' [''closed'']) (\<lambda>closed.
     if closed then Inr None
     else bnd (record_closed V s (dsetdefault (dsetdefault patch ''closedAt'' (JStr issued)) ''updatedAt'' (JStr issued))) (\<lambda>s'. Inr (Some s')))"

definition lease_append :: "env \<Rightarrow> string \<Rightarrow> dict \<Rightarrow> dict option \<Rightarrow> metadata \<Rightarrow> rt_db \<Rightarrow> (event, agg) append_request list res" where
  "lease_append E stream s s' md d = (case s' of None \<Rightarrow> Inr []
     | Some x \<Rightarrow> bnd (sandbox_append E stream s x md d) (\<lambda>a. Inr [a]))"

definition service_settle_sandbox_close ::
    "env \<Rightarrow> string \<Rightarrow> consumption \<Rightarrow> string \<Rightarrow> string \<Rightarrow> dict \<Rightarrow> dict \<Rightarrow> metadata \<Rightarrow> rt_db \<Rightarrow> plan res" where
  "service_settle_sandbox_close E grant_id x i lease_id result terminal_patch md d =
     (let V = ct_dict (en_contracts E); issued = md_issuedAt md; result_digest = digest (hs_sha (en_hashing E)) (JObj result) in
     settlement_entry E x result md d (
     bnd (sandbox_stream_id V lease_id) (\<lambda>stream.
     bnd (fetch the_capability d (capability_stream_id grant_id)) (\<lambda>c.
     bnd (fetch the_tool d (tool_stream_id i)) (\<lambda>t.
     refuse [(load_state d stream = None, ''SANDBOX_CLOSE_LEASE_NOT_FOUND'')] (
     bnd (fetch the_sandbox d stream) (\<lambda>s.
     refusing (item_not_in t ''state'' [''dispatching'', ''effect_observed'']) ''SANDBOX_CLOSE_SETTLEMENT_STATE_MISMATCH'' (
     refusing (item_not_in s ''state'' [''closing'', ''closed'']) ''SANDBOX_CLOSE_RESOURCE_STATE_MISMATCH'' (
     refuse [(dget t ''grantId'' \<noteq> JStr grant_id \<or> dget t ''leaseId'' \<noteq> JStr (cn_leaseId x), ''SANDBOX_CLOSE_CAPABILITY_MISMATCH'')] (
     refusing (owners_differ s t) ''SANDBOX_CLOSE_OWNER_IDENTITY_MISMATCH'' (
     refuse [(reservation_mismatch c x, ''SANDBOX_CLOSE_RESERVATION_MISMATCH'')] (
     bnd (closing_effect_guard t result x) (\<lambda>_.
     refusing (item_not_in result ''status'' [''succeeded'', ''indeterminate'']) ''SANDBOX_CLOSE_RESULT_STATUS_INVALID'' (
     bnd (dreq result ''status'') (\<lambda>status.
     refuse [(cn_outcome x \<noteq> expected_outcome status, ''SANDBOX_CLOSE_RESULT_CONSUMPTION_MISMATCH'')] (
     refusing (and_also (item_in s ''state'' [''closed'']) (Inr (status \<noteq> JStr ''succeeded''))) ''SANDBOX_CLOSE_ALREADY_CLOSED_MUST_SUCCEED'' (
     let observed = dget t ''sideEffectIdentity'' in
     bnd (cap_finalize c x) (\<lambda>c'.
     bnd (if status = JStr ''indeterminate''
          then let reason = reason_or ''sandbox close outcome indeterminate'' terminal_patch in
               bnd (quarantine_lease V s terminal_patch reason issued) (\<lambda>s'.
               bnd (indeterminate_tool V t result_digest result observed reason issued) (\<lambda>t'. Inr (Some s', t')))
          else bnd (close_lease V s terminal_patch issued) (\<lambda>s'.
               bnd (complete_tool V t result_digest result observed issued) (\<lambda>t'. Inr (s', t')))) (\<lambda>(s', t').
     bnd (lease_append E stream s s' md d) (\<lambda>as.
     Inr (Append ([capability_append grant_id x c' md d, tool_append i ToolTerminated t' md d] @ as) [])))))))))))))))))))))"

end
