(* ===== verification/Service_Missions.thy ===== *)
theory Service_Missions
  imports Service_Settlement "HOL-Library.Product_Lexorder"
begin

text \<open>
  \<^verbatim>\<open>capt_runtime/services.py\<close>, the commands that plan and settle whole missions: the mission, task and
  approval request built from one operator intent, a further task of a mission, the replay fork, and
  the reviewed disposition of a mission with its tasks and approvals. \<open>tick n\<close> is the \<open>n\<close>-th reading of
  the wall clock.
\<close>

section \<open>Operator intents\<close>

record intent =
  in_missionId :: string
  in_taskId :: "string option"
  in_requestId :: "string option"
  in_requiresApproval :: bool
  in_objective :: "string option"
  in_objectives :: "objective list option"
  in_constraints :: "json list option"
  in_successCriteria :: "criterion list option"
  in_terminationCriteria :: "criterion list option"
  in_rawRequest :: "string option"
  in_normalizedRequest :: "string option"
  in_unresolvedAmbiguities :: "json list option"
  in_externalCommitments :: "json list option"
  in_scope :: "dict option"
  in_consequential :: "bool option"
  in_requestedCapability :: "string option"
  in_operations :: "string list option"
  in_maxAttempts :: "int option"
  in_resource :: "json option"
  in_target :: "json option"
  in_operation :: "string option"
  in_capabilitySubject :: "actor option"
  in_capabilityConditions :: "json list option"
  in_capabilityMaxUses :: "int option"
  in_riskClassification :: "string option"
  in_policyReason :: "string option"
  in_expiresAt :: "string option"
  in_remainingUses :: "int option"
  in_correlationId :: "string option"

text \<open>\<^verbatim>\<open>x.get(k) or fallback\<close> for a list.\<close>

definition list_or :: "'a list \<Rightarrow> 'a list option \<Rightarrow> 'a list" where
  "list_or fallback x = (case x of None \<Rightarrow> fallback | Some xs \<Rightarrow> if xs = [] then fallback else xs)"

definition build_mission_spec :: "intent \<Rightarrow> (nat \<Rightarrow> string) \<Rightarrow> mission_spec" where
  "build_mission_spec x tick = \<lparr>
    sp_missionId = in_missionId x,
    sp_rawRequest = default_to (default_to [] (in_objective x)) (in_rawRequest x),
    sp_normalizedRequest = default_to (default_to [] (in_objective x)) (in_normalizedRequest x),
    sp_objectives = list_or [\<lparr>ob_objectiveId = ''obj-1'', ob_statement = default_to ''Operator mission'' (in_objective x), ob_priority = 1\<rparr>]
      (in_objectives x),
    sp_constraints = default_to [] (in_constraints x),
    sp_successCriteria = list_or [\<lparr>cr_criterionId = ''sc-1'', cr_statement = ''Mission objective achieved'',
      cr_requiresVerification = Some True, cr_terminalState = None\<rparr>] (in_successCriteria x),
    sp_terminationCriteria = list_or [\<lparr>cr_criterionId = ''tc-1'', cr_statement = ''Invariant violation terminates mission'',
      cr_requiresVerification = None, cr_terminalState = Some ''failed''\<rparr>] (in_terminationCriteria x),
    sp_unresolvedAmbiguities = default_to [] (in_unresolvedAmbiguities x),
    sp_externalCommitments = Some (or_empty (in_externalCommitments x)),
    sp_taskGraphId = None,
    sp_createdAt = tick 0\<rparr>"

definition intent_scope :: "intent \<Rightarrow> dict" where
  "intent_scope x = (let sc = list_or [(''kind'', JStr ''filesystem''), (''rootPath'', JStr ''/tmp''), (''recursive'', JBool False)] (in_scope x) in
     dsetdefault sc ''recursive'' (JBool False))"

definition build_task :: "intent \<Rightarrow> string \<Rightarrow> task_node" where
  "build_task x task_id = \<lparr>
    tn_taskId = task_id, tn_missionId = in_missionId x, tn_title = default_to ''Operator task'' (in_objective x),
    tn_state = Some ''pending'',
    tn_capabilityRequirements = [JObj [(''requirementId'', JStr ''req-1''),
      (''capabilityId'', JStr (default_to ''cap.fs.read'' (in_requestedCapability x))),
      (''operations'', JList (map JStr (default_to [''repository.read''] (in_operations x)))), (''scope'', JObj (intent_scope x))]],
    tn_attempt = Some 0, tn_maxAttempts = Some (default_to 1 (in_maxAttempts x)), tn_assignedDriverId = None,
    tn_recoveryState = Some ''none'', tn_dependencies = None, tn_consequential = Some (default_to True (in_consequential x))\<rparr>"

definition build_approval_request :: "intent \<Rightarrow> string \<Rightarrow> string \<Rightarrow> (nat \<Rightarrow> string) \<Rightarrow> approval_req" where
  "build_approval_request x task_id request_id tick = \<lparr>
    aq_requestId = request_id, aq_missionId = in_missionId x, aq_taskId = task_id,
    aq_requestedCapability = default_to ''cap.fs.read'' (in_requestedCapability x),
    aq_resource = default_to (default_to (JStr ''/tmp'') (in_target x)) (in_resource x),
    aq_operation = default_to ''RepositoryRead'' (in_operation x),
    aq_operations = Some (list_or [''repository.read''] (in_operations x)),
    aq_capabilitySubject = in_capabilitySubject x,
    aq_capabilityConditions = Some (or_empty (in_capabilityConditions x)),
    aq_capabilityMaxUses = in_capabilityMaxUses x,
    aq_scope = Some (JObj (intent_scope x)),
    aq_riskClassification = default_to ''low'' (in_riskClassification x),
    aq_policyReason = default_to ''Operator-initiated consequential action requires approval.'' (in_policyReason x),
    aq_requestedBy = \<lparr>ac_actorId = ''exec-1'', ac_kind = ''execution_plane''\<rparr>,
    aq_expiresAt = default_to ''2030-01-01T00:00:00Z'' (in_expiresAt x),
    aq_remainingUses = in_remainingUses x,
    aq_correlationId = default_to ''corr-m1'' (in_correlationId x),
    aq_createdAt = tick 1,
    aq_promptAssemblyDigest = None,
    aq_externalCommitments = Some (or_empty (in_externalCommitments x))\<rparr>"

definition inner_metadata :: "env \<Rightarrow> metadata \<Rightarrow> string \<Rightarrow> dict \<Rightarrow> actor \<Rightarrow> string \<Rightarrow> (nat \<Rightarrow> string) \<Rightarrow> metadata res" where
  "inner_metadata E outer operation subject actor idem tick =
     (let tail = (if idem = [] then [] else '':'' @ idem) in
      command (ct_metadata (en_contracts E)) (md_commandId outer @ tail) (md_idempotencyKey outer @ tail)
        (fingerprint (hs_sha (en_hashing E)) operation subject) (md_correlationId outer) actor (text_or (tick 2) (Some (md_issuedAt outer))))"

definition fingerprint_conflict :: "metadata \<Rightarrow> idem_row \<Rightarrow> bool" where
  "fingerprint_conflict md prior \<longleftrightarrow> md_operationFingerprint md \<noteq> [] \<and> ir_fingerprint prior \<noteq> md_operationFingerprint md"

text \<open>\<^verbatim>\<open>_reconstruct_mission_result\<close>: the last task and the last request of the mission, in the order of the streams.\<close>

definition last_of :: "'a list \<Rightarrow> 'a option" where
  "last_of xs = (if xs = [] then None else Some (last xs))"

definition mission_result_answer :: "rt_db \<Rightarrow> string \<Rightarrow> plan" where
  "mission_result_answer d mission_id =
     (let states = List.map_filter (\<lambda>(i, _, _). map_option (Pair i) (load_state d i)) (all_aggregates d);
          tasks = List.map_filter (\<lambda>(i, s). if starts_with i ''task-'' then the_task s else None) states;
          asked = List.map_filter (\<lambda>(i, s). if starts_with i ''human_approval-'' then the_approval s else None) states in
      Answer [(''status'', JStr ''idempotent''), (''missionId'', JStr mission_id),
        (''taskId'', opt_text (map_option tk_taskId (last_of (filter (\<lambda>t. tk_missionId t = mission_id) tasks)))),
        (''requestId'', opt_text (map_option ap_requestId (last_of (filter (\<lambda>a. ap_missionId a = mission_id) asked))))])"

definition service_create_mission_with_approval :: "env \<Rightarrow> (intent \<Rightarrow> string list) \<Rightarrow> intent \<Rightarrow> (nat \<Rightarrow> string) \<Rightarrow> metadata \<Rightarrow> rt_db \<Rightarrow> plan res" where
  "service_create_mission_with_approval E validate x tick md d =
     contract validate ''OperatorMissionIntent'' x (
     admit E ''create_mission'' md (
     refuse [(ac_kind (md_actor md) \<noteq> ''human'', ''operator mission commands must be human-authored'')] (
     case find_idempotent d (md_idempotencyKey md) of
       Some prior \<Rightarrow> raise_if (fingerprint_conflict md prior)
           (IdempotencyConflict (''idempotency key '' @ md_idempotencyKey md @ '' reused with a different operation fingerprint''))
           (Inr (mission_result_answer d (in_missionId x)))
     | None \<Rightarrow>
       let task_id = text_or (in_missionId x @ ''-task-1'') (in_taskId x);
           request_id = text_or (in_missionId x @ ''-approval-1'') (in_requestId x);
           reply = [(''missionId'', JStr (in_missionId x)), (''taskId'', JStr task_id)] in
       bnd (append_create_mission E (build_mission_spec x tick) md d) (\<lambda>a1.
       bnd (inner_metadata E md ''create_task'' [(''taskId'', JStr task_id)] \<lparr>ac_actorId = ''cog-1'', ac_kind = ''cognitive_plane''\<rparr> ''task'' tick) (\<lambda>tmd.
       bnd (append_create_task E (build_task x task_id) tmd d) (\<lambda>a2.
       if \<not> in_requiresApproval x then Inr (Append [a1, a2] (reply @ [(''requestId'', JNull)]))
       else
         bnd (inner_metadata E md ''request_human_approval'' [(''requestId'', JStr request_id)]
           \<lparr>ac_actorId = ''exec-1'', ac_kind = ''execution_plane''\<rparr> ''approval'' tick) (\<lambda>amd.
         bnd (append_request_human_approval E (build_approval_request x task_id request_id tick) amd) (\<lambda>a3.
         Inr (Append [a1, a2, a3] (reply @ [(''requestId'', JStr request_id)]))))))))))"

definition service_plan_task :: "env \<Rightarrow> (intent \<Rightarrow> string list) \<Rightarrow> intent \<Rightarrow> (nat \<Rightarrow> string) \<Rightarrow> metadata \<Rightarrow> rt_db \<Rightarrow> plan res" where
  "service_plan_task E validate x tick md d =
     contract validate ''OperatorMissionIntent'' x (
     contract (ct_metadata (en_contracts E)) ''CommandMetadata'' md (
     let mission_id = py_strip (in_missionId x); task_id = py_strip (text_or [] (in_taskId x)) in
     refuse [(ac_kind (md_actor md) \<noteq> ''human'', ''EXISTING_MISSION_TASK_REQUEST_MUST_BE_HUMAN_AUTHORED''),
       (mission_id = [] \<or> task_id = [], ''EXISTING_MISSION_OR_SUCCESSOR_TASK_ID_MISSING''),
       (load_state d (mission_stream_id mission_id) = None, ''EXISTING_MISSION_NOT_FOUND'')] (
     bnd (fetch the_mission d (mission_stream_id mission_id)) (\<lambda>m.
     refuse [(ms_state m \<in> {''completed'', ''failed'', ''cancelled''}, ''EXISTING_MISSION_IS_TERMINAL'')] (
     case find_idempotent d (md_idempotencyKey md) of
       Some prior \<Rightarrow> raise_if (fingerprint_conflict md prior)
           (IdempotencyConflict (''idempotency key '' @ md_idempotencyKey md @ '' reused with a different operation fingerprint''))
           (Inr (Answer [(''status'', JStr ''idempotent''), (''missionId'', JStr mission_id), (''taskId'', JStr task_id)]))
     | None \<Rightarrow>
       refuse [(aggregate_version d (task_stream_id task_id) \<noteq> 0, ''SUCCESSOR_TASK_ID_ALREADY_EXISTS'')] (
       bnd (inner_metadata E md ''create_task'' [(''taskId'', JStr task_id), (''missionId'', JStr mission_id)]
         \<lparr>ac_actorId = ''cog-1'', ac_kind = ''cognitive_plane''\<rparr> ''task'' tick) (\<lambda>tmd.
       bnd (append_create_task E (build_task x task_id) tmd d) (\<lambda>a.
       Inr (Append [a] [(''missionId'', JStr mission_id), (''taskId'', JStr task_id)])))))))))"

section \<open>Replay forks\<close>

text \<open>The record of the fork is the payload of its event, and what the reducer creates it from.\<close>

definition fork_record :: "string \<Rightarrow> int \<Rightarrow> ledger_identity \<Rightarrow> string \<Rightarrow> string \<Rightarrow> string \<Rightarrow> metadata \<Rightarrow> fork_spec" where
  "fork_record fork_id n identity state_digest mission_id reason md = \<lparr>fs_forkId = Some fork_id, fs_sourceSequence = Some n,
     fs_sourceEventId = lg_eventId identity, fs_sourceStateDigest = state_digest, fs_sourceChainDigest = lg_chainDigest identity,
     fs_newMissionId = Some mission_id, fs_reason = Some reason, fs_createdBy = md_actor md, fs_createdAt = md_issuedAt md,
     fs_historicalAuthorityReactivated = Some (JBool False)\<rparr>"

definition service_create_replay_fork ::
    "env \<Rightarrow> runtime \<Rightarrow> (agg \<Rightarrow> json) \<Rightarrow> string \<Rightarrow> int \<Rightarrow> mission_spec \<Rightarrow> string \<Rightarrow> metadata \<Rightarrow> rt_db \<Rightarrow> plan res" where
  "service_create_replay_fork E R show_state fork_id n spec reason md d =
     (let fork_stream = fork_stream_id fork_id; H = en_hashing E in
     contract (ct_missionSpec (en_contracts E)) ''MissionSpec'' spec (
     admit E ''create_replay_fork'' md (
     case find_idempotent d (md_idempotencyKey md) of
       Some prior \<Rightarrow> raise_if (fingerprint_conflict md prior) (IdempotencyConflict ''replay fork idempotency conflict'')
           (bnd (require_state d fork_stream) (\<lambda>_. Inr (Answer [(''status'', JStr ''idempotent''), (''replayed'', JBool True)])))
     | None \<Rightarrow>
       refuse [(aggregate_version d fork_stream \<noteq> 0, ''replay fork identity already exists''),
         (aggregate_version d (mission_stream_id (sp_missionId spec)) \<noteq> 0, ''replay fork requires a new mission identity''),
         (n < 0, ''replay fork sourceSequence must be >= 0''),
         (n > head_sequence d, ''replay fork sourceSequence '' @ str_int n @ '' exceeds ledger head '' @ str_int (head_sequence d))] (
       bnd (replay_to_sequence H (reduce_event R) d n) (\<lambda>historical.
       bnd (ledger_identity_to_sequence H d n) (\<lambda>identity.
       let f = fork_record fork_id n identity (replay_digest (hs_sha H) show_state historical) (sp_missionId spec) reason md in
       bnd (fork_create f) (\<lambda>fork.
       bnd (append_create_mission E spec md d) (\<lambda>a.
       Inr (Append [append_to fork_stream ''replay_fork'' 0
           (envelope (md_commandId md @ ''-fork'') fork_stream (ReplayForkCreated f) md (about_none\<lparr>ab_mission := Some (sp_missionId spec)\<rparr>))
           (AFork fork), a] [])))))))))"

definition service_create_replay_fork_from_intent ::
    "env \<Rightarrow> runtime \<Rightarrow> (agg \<Rightarrow> json) \<Rightarrow> (intent \<Rightarrow> string list) \<Rightarrow> string \<Rightarrow> int \<Rightarrow> string \<Rightarrow> intent \<Rightarrow> (nat \<Rightarrow> string) \<Rightarrow> metadata \<Rightarrow> rt_db \<Rightarrow> plan res" where
  "service_create_replay_fork_from_intent E R show_state validate fork_id n reason x tick md d =
     contract validate ''ReplayForkIntent'' x (
     admit E ''create_replay_fork'' md (
     refuse [(in_requiresApproval x, ''replay fork creation cannot auto-create approval authority'')] (
     service_create_replay_fork E R show_state fork_id n (build_mission_spec x tick) reason md d)))"

end
