(* ===== verification/Service_Disposition.thy ===== *)
theory Service_Disposition
  imports Service_Missions
begin

text \<open>
  \<^verbatim>\<open>capt_runtime/services.py\<close>, the reviewed disposition of a mission: the read-only preview with its
  blockers and digest, and the command that settles the mission with its tasks and approvals, bound to
  the preview a human reviewed.
\<close>

section \<open>Preview\<close>

record preview =
  pv_currentState :: string
  pv_version :: int
  pv_tasks :: "(string \<times> string \<times> int) list"
  pv_approvals :: "(string \<times> string \<times> int) list"
  pv_runs :: "(string \<times> string \<times> int \<times> string) list"
  pv_accepted :: "(string \<times> string \<times> int) list"
  pv_blocked :: "string list"
  pv_digest :: string

definition DISPOSITION_TARGETS :: "string list" where
  "DISPOSITION_TARGETS = [''authorize'', ''cancel'', ''cancel_revoke'', ''complete'', ''reconcile_complete'']"

text \<open>What the scan of the aggregates takes from one of them.\<close>

definition rows_of :: "rt_db \<Rightarrow> string \<Rightarrow> (agg \<Rightarrow> 'a option) \<Rightarrow> ('a \<Rightarrow> int \<Rightarrow> 'r option) \<Rightarrow> 'r list" where
  "rows_of d kind pick row = List.map_filter (\<lambda>(i, k, v).
     if k = kind then Option.bind (Option.bind (load_state d i) pick) (\<lambda>x. row x v) else None) (all_aggregates d)"

definition mission_tasks :: "rt_db \<Rightarrow> string \<Rightarrow> (string \<times> string \<times> int) list" where
  "mission_tasks d m = sort (rows_of d ''task'' the_task (\<lambda>t v. if tk_missionId t = m then Some (tk_taskId t, tk_state t, v) else None))"

definition mission_approvals :: "rt_db \<Rightarrow> string \<Rightarrow> (string \<times> string \<times> int) list" where
  "mission_approvals d m = sort (rows_of d ''human_approval'' the_approval (\<lambda>a v. if ap_missionId a = m then Some (ap_requestId a, ap_state a, v) else None))"

definition mission_runs :: "rt_db \<Rightarrow> string \<Rightarrow> (string \<times> string \<times> int \<times> string) list" where
  "mission_runs d m = sort (rows_of d ''driverrun'' the_driver_run (\<lambda>r v.
     if dr_missionId r = m then Some (dr_driverRunId r, dr_state r, v, dr_reconciliationStatus r) else None))"

definition accepted_claims :: "rt_db \<Rightarrow> string \<Rightarrow> (string \<times> string \<times> int) list" where
  "accepted_claims d m = sort (rows_of d ''claim'' the_claim (\<lambda>c v.
     if cm_missionId c = m \<and> cm_promotionState c = ''accepted'' then Some (cm_claimId c, default_to ''None'' (cm_taskId c), v) else None))"

text \<open>\<open>blocker c code\<close>: the list of the code when the condition holds.\<close>

definition blocker :: "bool \<Rightarrow> string \<Rightarrow> string list" where
  "blocker c code = (if c then [code] else [])"

definition completion_blockers :: "string \<Rightarrow> string \<Rightarrow> (string \<times> string \<times> int) list \<Rightarrow> (string \<times> string \<times> int) list \<Rightarrow> (string \<times> string \<times> int) list \<Rightarrow> string list" where
  "completion_blockers target state tasks approvals accepted_rows =
     blocker (target = ''complete'' \<and> state \<noteq> ''executing'') ''MISSION_NOT_EXECUTING''
     @ blocker (target = ''reconcile_complete'' \<and> state \<noteq> ''authorized'') ''MISSION_NOT_AUTHORIZED_FOR_RECONCILIATION''
     @ blocker (tasks = [] \<or> list_ex (\<lambda>(_, s, _). s \<notin> {''succeeded'', ''failed'', ''cancelled''}) tasks) ''MISSION_TASKS_NOT_ALL_TERMINAL''
     @ blocker (\<not> list_ex (\<lambda>(_, t, _). list_ex (\<lambda>(i, s, _). i = t \<and> s = ''succeeded'') tasks) accepted_rows) ''CLAIMGUARD_ACCEPTED_SUCCESSOR_REQUIRED''
     @ blocker (list_ex (\<lambda>(_, s, _). s \<in> {''requested'', ''approved''}) approvals) ''UNSETTLED_APPROVALS''"

definition ending_blockers :: "string \<Rightarrow> (string \<times> string \<times> int) list \<Rightarrow> (string \<times> string \<times> int \<times> string) list \<Rightarrow> string list" where
  "ending_blockers target approvals runs =
     blocker (list_ex (\<lambda>(_, s, _, _). s \<in> {''created'', ''submitted'', ''running''}) runs) ''ACTIVE_DRIVER_RUN''
     @ blocker (target \<in> {''cancel'', ''cancel_revoke''} \<and> list_ex (\<lambda>(_, _, _, r). r = ''reconciliation_required'') runs)
         ''INDETERMINATE_RUN_RECONCILIATION_REQUIRED''
     @ blocker (target = ''cancel'' \<and> list_ex (\<lambda>(_, s, _). s = ''approved'') approvals) ''APPROVED_AUTHORITY_REQUIRES_REVOCATION''"

fun commitment_blockers :: "rt_db \<Rightarrow> (string \<times> string \<times> int) list \<Rightarrow> string list res" where
  "commitment_blockers d [] = Inr []"
| "commitment_blockers d ((i, s, _) # rest) =
     (if s \<noteq> ''approved'' then commitment_blockers d rest
      else bnd (fetch the_approval d (approval_stream_id i)) (\<lambda>a.
        bnd (commitment_blockers d rest) (\<lambda>bs.
        Inr (blocker (ap_externalCommitments a \<noteq> []) ''EXTERNAL_COMMITMENTS_RECONCILIATION_REQUIRED'' @ bs))))"

definition triple_json :: "string \<times> string \<times> int \<Rightarrow> json" where
  "triple_json t = (case t of (a, b, v) \<Rightarrow> JList [JStr a, JStr b, JInt v])"

definition preview_subject :: "string \<Rightarrow> string \<Rightarrow> preview \<Rightarrow> json" where
  "preview_subject mission_id target p = JObj
     [(''missionId'', JStr mission_id), (''version'', JInt (pv_version p)), (''state'', JStr (pv_currentState p)), (''target'', JStr target),
      (''tasks'', JList (map triple_json (pv_tasks p))), (''approvals'', JList (map triple_json (pv_approvals p))),
      (''runs'', JList (map (\<lambda>(a, b, v, r). JList [JStr a, JStr b, JInt v, JStr r]) (pv_runs p))),
      (''acceptedClaims'', JList (map triple_json (pv_accepted p)))]"

definition blockers :: "string \<Rightarrow> string \<Rightarrow> (string \<times> string \<times> int) list \<Rightarrow> (string \<times> string \<times> int) list \<Rightarrow>
    (string \<times> string \<times> int \<times> string) list \<Rightarrow> (string \<times> string \<times> int) list \<Rightarrow> string list" where
  "blockers target state tasks approvals runs accepted_rows =
     blocker (state \<in> {''completed'', ''failed'', ''cancelled''}) ''MISSION_ALREADY_TERMINAL''
     @ blocker (target = ''authorize'' \<and> state \<noteq> ''draft'') ''MISSION_NOT_DRAFT''
     @ blocker (target \<in> {''cancel'', ''cancel_revoke''} \<and> state \<notin> {''draft'', ''authorized'', ''executing'', ''suspended''})
         ''MISSION_CANCEL_STATE_INVALID''
     @ (if target \<in> {''complete'', ''reconcile_complete''} then completion_blockers target state tasks approvals accepted_rows else [])
     @ (if target \<noteq> ''authorize'' then ending_blockers target approvals runs else [])"

definition mission_disposition_preview :: "(string \<Rightarrow> string) \<Rightarrow> string \<Rightarrow> string \<Rightarrow> rt_db \<Rightarrow> preview res" where
  "mission_disposition_preview sha mission_id target d =
     refuse [(target \<notin> set DISPOSITION_TARGETS, ''MISSION_DISPOSITION_INVALID'')] (
     let stream = mission_stream_id mission_id in
     bnd (fetch the_mission d stream) (\<lambda>m.
     let state = ms_state m; tasks = mission_tasks d mission_id; approvals = mission_approvals d mission_id;
         runs = mission_runs d mission_id; accepted_rows = accepted_claims d mission_id in
     bnd (if target = ''cancel_revoke'' then commitment_blockers d approvals else Inr []) (\<lambda>commitments.
     let blocked = blockers target state tasks approvals runs accepted_rows @ commitments;
         p = \<lparr>pv_currentState = state, pv_version = aggregate_version d stream, pv_tasks = tasks, pv_approvals = approvals,
           pv_runs = runs, pv_accepted = accepted_rows, pv_blocked = blocked, pv_digest = []\<rparr> in
     Inr (p\<lparr>pv_digest := digest sha (preview_subject mission_id target p)\<rparr>))))"

section \<open>Disposition\<close>

record settled =
  st_stream :: string
  st_kind :: string
  st_version :: int
  st_state :: agg
  st_event :: event
  st_task :: "string option"

text \<open>\<^verbatim>\<open>add_event\<close>: the events are numbered in the order they are added.\<close>

definition number_events :: "metadata \<Rightarrow> string \<Rightarrow> settled list \<Rightarrow> (event, agg) append_request list" where
  "number_events md mission_id xs = map (\<lambda>(n, x). append_to (st_stream x) (st_kind x) (st_version x)
     (envelope (md_commandId md @ ''-ev'' @ str_int (int n)) (st_stream x) (st_event x) md
        (about_none\<lparr>ab_mission := Some mission_id, ab_task := st_task x\<rparr>)) (st_state x)) (enumerate 1 xs)"

fun cancel_tasks :: "rt_db \<Rightarrow> (string \<times> string \<times> int) list \<Rightarrow> settled list res" where
  "cancel_tasks d [] = Inr []"
| "cancel_tasks d ((i, s, _) # rest) =
     (if s \<in> {''succeeded'', ''failed'', ''cancelled''} then cancel_tasks d rest
      else let stream = task_stream_id i in
        bnd (fetch the_task d stream) (\<lambda>t.
        bnd (task_transition t ''cancelled'' None) (\<lambda>t'.
        bnd (cancel_tasks d rest) (\<lambda>xs.
        Inr (\<lparr>st_stream = stream, st_kind = ''task'', st_version = aggregate_version d stream, st_state = ATask t',
              st_event = TaskTransitioned ''cancelled'', st_task = Some i\<rparr> # xs)))))"

definition denial :: "string \<Rightarrow> metadata \<Rightarrow> approval_decision" where
  "denial reason md = \<lparr>ad_idempotencyKey = md_idempotencyKey md, ad_decision = ''deny'',
     ad_operatorId = Some (ac_actorId (md_actor md)), ad_decidedAt = md_issuedAt md, ad_note = Some reason\<rparr>"

definition withdrawal :: "string \<Rightarrow> string \<Rightarrow> metadata \<Rightarrow> approval_revocation" where
  "withdrawal i reason md = \<lparr>av_requestId = Some i, av_operatorId = Some (ac_actorId (md_actor md)),
     av_reason = Some reason, av_revokedAt = Some (md_issuedAt md)\<rparr>"

text \<open>An approved request is revoked when the target says so, an undecided one is denied.\<close>

fun settle_approvals :: "env \<Rightarrow> string \<Rightarrow> string \<Rightarrow> metadata \<Rightarrow> rt_db \<Rightarrow> (string \<times> string \<times> int) list \<Rightarrow> settled list res" where
  "settle_approvals E target reason md d [] = Inr []"
| "settle_approvals E target reason md d ((i, s, _) # rest) =
     (let stream = approval_stream_id i;
          settle = (\<lambda>a a' ev. bnd (settle_approvals E target reason md d rest) (\<lambda>xs.
            Inr (\<lparr>st_stream = stream, st_kind = ''human_approval'', st_version = aggregate_version d stream, st_state = AApproval a',
                  st_event = ev, st_task = Some (ap_taskId a)\<rparr> # xs))) in
      if s = ''approved'' \<and> target = ''cancel_revoke'' then
        bnd (fetch the_approval d stream) (\<lambda>a.
        bnd (approval_revoke a (withdrawal i reason md)) (\<lambda>a'.
        settle a a' (HumanApprovalRevoked (withdrawal i reason md))))
      else if s \<noteq> ''requested'' then settle_approvals E target reason md d rest
      else
        bnd (fetch the_approval d stream) (\<lambda>a.
        contract (ct_approvalDecision (en_contracts E)) ''HumanApprovalDecision'' (denial reason md) (
        bnd (approval_decide a (denial reason md) (md_issuedAt md)) (\<lambda>a'.
        settle a a' (HumanApprovalDecided (denial reason md))))))"

definition target_state :: "string \<Rightarrow> string" where
  "target_state target = (if target = ''authorize'' then ''authorized''
     else if target \<in> {''cancel'', ''cancel_revoke''} then ''cancelled'' else ''completed'')"

text \<open>The mission's own events; a reconciled completion passes through \<open>executing\<close>.\<close>

definition dispose_states :: "string \<Rightarrow> mission \<Rightarrow> mission list res" where
  "dispose_states target m =
     (if target = ''reconcile_complete''
      then bnd (mission_transition m ''executing'') (\<lambda>m1. bnd (mission_transition m1 ''completed'') (\<lambda>m2. Inr [m1, m2]))
      else bnd (mission_transition m (target_state target)) (\<lambda>m2. Inr [m2]))"

definition mission_events :: "string \<Rightarrow> int \<Rightarrow> mission list \<Rightarrow> settled list" where
  "mission_events stream version ms = map (\<lambda>(n, m). \<lparr>st_stream = stream, st_kind = ''mission'', st_version = version + int n,
     st_state = AMission m, st_event = MissionStateChanged (ms_state m), st_task = None\<rparr>) (enumerate 0 ms)"

definition service_dispose_mission :: "env \<Rightarrow> string \<Rightarrow> string \<Rightarrow> int \<Rightarrow> string \<Rightarrow> string \<Rightarrow> metadata \<Rightarrow> rt_db \<Rightarrow> plan res" where
  "service_dispose_mission E mission_id target expected_version preview_digest reason md d =
     admit E ''transition_mission'' md (
     refuse [(ac_kind (md_actor md) \<noteq> ''human'', ''MISSION_DISPOSITION_HUMAN_REQUIRED'')] (
     once md d (
     refuse [(reason = [] \<or> length reason > 1024, ''MISSION_DISPOSITION_REASON_REQUIRED'')] (
     bnd (mission_disposition_preview (hs_sha (en_hashing E)) mission_id target d) (\<lambda>p.
     raise_if (pv_version p \<noteq> expected_version \<or> pv_digest p \<noteq> preview_digest) (ConcurrencyError ''MISSION_DISPOSITION_REVIEW_STALE'') (
     refuse [(pv_blocked p \<noteq> [], ''MISSION_DISPOSITION_BLOCKED:'' @ join_with '','' (pv_blocked p))] (
     let stream = mission_stream_id mission_id in
     bnd (fetch the_mission d stream) (\<lambda>m.
     bnd (dispose_states target m) (\<lambda>ms.
     bnd (if target \<in> {''cancel'', ''cancel_revoke''} then cancel_tasks d (pv_tasks p) else Inr []) (\<lambda>tasks.
     bnd (if target \<in> {''cancel'', ''cancel_revoke''} then settle_approvals E target reason md d (pv_approvals p) else Inr []) (\<lambda>approvals.
     let settled = tasks @ approvals @ mission_events stream expected_version ms in
     Inr (Append (number_events md mission_id settled)
       [(''missionId'', JStr mission_id), (''missionState'', JStr (target_state target)),
        (''settledEvents'', JInt (int (length settled)))]))))))))))))"

end
