(* ===== verification/Service_Runtime.thy ===== *)
theory Service_Runtime
  imports Service_Disposition
begin

text \<open>
  The command surface of \<^verbatim>\<open>RuntimeService\<close> as one function: a command with its metadata and its
  readings of the clock is planned on the database and performed. \<open>run_governed_discovery\<close> commits
  nothing and works on the file system; it is not modelled.
\<close>

record services =
  sv_env :: env
  sv_runtime :: runtime
  sv_showGrant :: "grant \<Rightarrow> json"
  sv_showState :: "agg \<Rightarrow> json"
  sv_ceiling :: "json \<Rightarrow> json res"
  sv_intent :: "intent \<Rightarrow> string list"
  sv_forkIntent :: "intent \<Rightarrow> string list"

datatype (plugins only: code) service_command =
    CreateMission mission_spec
  | CreateMissionWithApproval intent
  | PlanTask intent
  | EvaluatePolicy policy_decision
  | TransitionMission string string "int option"
  | DisposeMission string string int string string
  | CreateTask task_node
  | TransitionTask string string "string option" "int option"
  | CancelTask string
  | SubmitResult string string string
  | NextWorkPacket string string
  | IssueGrant grant
  | IssueGrantFromApproval string grant string "string option"
  | ActivateTheLease lease_req
  | ReserveUse string reservation_req
  | FinalizeUse string consumption
  | RevokeCapability string revocation_req
  | CreateDriverRun driver_run_req
  | TransitionDriverRun string string
  | RecordBoundary string string
  | CancelDriverRun string
  | RequestApproval approval_req
  | SubmitDecision string approval_decision "string option"
  | AdmitExecution admission
  | ProposeClaim claim_req string
  | ProposeClaimWithEvidence claim_req string "(evidence \<times> metadata) list"
  | RecordEvidence string evidence
  | RecordTheVerification verification_req
  | DecideClaim claim_decision_req
  | ReviewClaim string string string "string option"
  | PrepareTool dict
  | TransitionTool string string dict
  | SettlePredispatch string consumption string dict
  | ReserveSandbox dict
  | ObserveSandboxEffect string string string dict
  | SettleSandboxCreate string consumption string string dict dict
  | SettleSandboxExec string consumption string string dict dict
  | SettleSandboxClose string consumption string string dict dict
  | MoveSandbox string sandbox_move dict
  | CreateFork string int mission_spec string
  | CreateForkFromIntent string int string intent

fun plan_of :: "services \<Rightarrow> service_command \<Rightarrow> (nat \<Rightarrow> string) \<Rightarrow> metadata \<Rightarrow> rt_db \<Rightarrow> plan res" where
  "plan_of S (CreateMission x) tick = service_create_mission (sv_env S) x"
| "plan_of S (CreateMissionWithApproval x) tick = service_create_mission_with_approval (sv_env S) (sv_intent S) x tick"
| "plan_of S (PlanTask x) tick = service_plan_task (sv_env S) (sv_intent S) x tick"
| "plan_of S (EvaluatePolicy p) tick = service_evaluate_policy (sv_env S) p"
| "plan_of S (TransitionMission i t v) tick = service_transition_mission (sv_env S) i t v"
| "plan_of S (DisposeMission i t v p r) tick = service_dispose_mission (sv_env S) i t v p r"
| "plan_of S (CreateTask n) tick = service_create_task (sv_env S) n"
| "plan_of S (TransitionTask i t r v) tick = service_transition_task (sv_env S) i t r v"
| "plan_of S (CancelTask i) tick = service_cancel_task (sv_env S) i"
| "plan_of S (SubmitResult i s r) tick = service_submit_result (sv_env S) i s r"
| "plan_of S (NextWorkPacket m s) tick = get_next_work_packet (sv_env S) m s"
| "plan_of S (IssueGrant g) tick = service_issue_grant (sv_env S) g"
| "plan_of S (IssueGrantFromApproval q g u n) tick = service_issue_grant_from_human_approval (sv_env S) (sv_showGrant S) q g u n"
| "plan_of S (ActivateTheLease l) tick = service_activate_lease (sv_env S) l"
| "plan_of S (ReserveUse i r) tick = service_reserve_use (sv_env S) i r"
| "plan_of S (FinalizeUse i x) tick = service_finalize_use (sv_env S) i x"
| "plan_of S (RevokeCapability i v) tick = service_revoke (sv_env S) i v"
| "plan_of S (CreateDriverRun r) tick = service_create_driver_run (sv_env S) r"
| "plan_of S (TransitionDriverRun i t) tick = service_transition_driver_run (sv_env S) i t"
| "plan_of S (RecordBoundary i b) tick = service_record_driver_dispatch_boundary (sv_env S) i b tick"
| "plan_of S (CancelDriverRun i) tick = service_cancel_driver_run (sv_env S) i"
| "plan_of S (RequestApproval q) tick = service_request_human_approval (sv_env S) q"
| "plan_of S (SubmitDecision i x n) tick = service_submit_human_approval_decision (sv_env S) i x n"
| "plan_of S (AdmitExecution m) tick = service_admit_approved_model_execution (sv_env S) (sv_ceiling S) m tick"
| "plan_of S (ProposeClaim c p) tick = service_propose_claim (sv_env S) c p"
| "plan_of S (ProposeClaimWithEvidence c p xs) tick = service_propose_claim_with_evidence (sv_env S) c p xs"
| "plan_of S (RecordEvidence i x) tick = service_record_evidence (sv_env S) i x"
| "plan_of S (RecordTheVerification v) tick = service_record_verification (sv_env S) v"
| "plan_of S (DecideClaim x) tick = service_decide_claim (sv_env S) x"
| "plan_of S (ReviewClaim i p u n) tick = service_review_claim (sv_env S) i p u n"
| "plan_of S (PrepareTool x) tick = service_prepare_tool_execution (sv_env S) x"
| "plan_of S (TransitionTool i t p) tick = service_transition_tool_execution (sv_env S) i t p"
| "plan_of S (SettlePredispatch g x i r) tick = service_settle_predispatch_tool_execution (sv_env S) g x i r"
| "plan_of S (ReserveSandbox x) tick = service_reserve_sandbox_lease (sv_env S) x"
| "plan_of S (ObserveSandboxEffect i l e p) tick = service_observe_sandbox_create_effect (sv_env S) i l e p"
| "plan_of S (SettleSandboxCreate g x i l r p) tick = service_settle_sandbox_create (sv_env S) g x i l r p"
| "plan_of S (SettleSandboxExec g x i l r p) tick = service_settle_sandbox_exec_indeterminate (sv_env S) g x i l r p"
| "plan_of S (SettleSandboxClose g x i l r p) tick = service_settle_sandbox_close (sv_env S) g x i l r p"
| "plan_of S (MoveSandbox l m p) tick = transition_sandbox_lease (sv_env S) l (sandbox_mover m) p"
| "plan_of S (CreateFork f n s r) tick = service_create_replay_fork (sv_env S) (sv_runtime S) (sv_showState S) f n s r"
| "plan_of S (CreateForkFromIntent f n r x) tick =
     service_create_replay_fork_from_intent (sv_env S) (sv_runtime S) (sv_showState S) (sv_forkIntent S) f n r x tick"

text \<open>A call, what it leaves, and the database after a list of calls, whatever became of each.\<close>

type_synonym call = "service_command \<times> (nat \<Rightarrow> string) \<times> metadata"

definition serve :: "services \<Rightarrow> (event, 'w) handler list \<Rightarrow> call \<Rightarrow> rt_db \<Rightarrow> 'w \<Rightarrow> rt_db \<times> 'w \<times> reply res" where
  "serve S hs c d w = (case c of (cmd, tick, md) \<Rightarrow> perform (sv_env S) hs md (plan_of S cmd tick md d) d w)"

fun serve_all :: "services \<Rightarrow> (event, 'w) handler list \<Rightarrow> call list \<Rightarrow> rt_db \<times> 'w \<Rightarrow> rt_db \<times> 'w" where
  "serve_all S hs [] st = st"
| "serve_all S hs (c # cs) st = (case serve S hs c (fst st) (snd st) of (d, w, _) \<Rightarrow> serve_all S hs cs (d, w))"

end
