(* ===== verification/World_Receipt.thy ===== *)
theory World_Receipt
  imports Service_Runtime
begin

text \<open>
  \<^verbatim>\<open>capt_runtime/world_receipt.py\<close>: the intent of a world effect, fixed before the effect, and the
  receipt of the target that proves it. Intents, preparations and receipts are JSON objects. Timestamps are
  read in the layout of the \<^verbatim>\<open>Timestamp\<close> contract (the other layouts \<^verbatim>\<open>fromisoformat\<close> also reads
  do not pass the contract; here they are invalid). The text of a list or a dictionary where the code
  calls \<^verbatim>\<open>str\<close> is their JSON text; what is built from it does not pass the contract either.
\<close>

section \<open>Instants\<close>

definition digit :: "char \<Rightarrow> nat option" where
  "digit c = (let n = of_char c in if 48 \<le> n \<and> n < (58 :: nat) then Some (n - 48) else None)"

fun number :: "string \<Rightarrow> nat \<Rightarrow> nat option" where
  "number [] acc = Some acc"
| "number (c # cs) acc = (case digit c of None \<Rightarrow> None | Some k \<Rightarrow> number cs (10 * acc + k))"

definition leap :: "nat \<Rightarrow> bool" where
  "leap y \<longleftrightarrow> 4 dvd y \<and> (\<not> 100 dvd y \<or> 400 dvd y)"

definition month_days :: "nat \<Rightarrow> nat list" where
  "month_days y = [31, if leap y then 29 else 28, 31, 30, 31, 30, 31, 31, 30, 31, 30, 31]"

text \<open>The proleptic ordinal of a date, as \<^verbatim>\<open>date.toordinal\<close> counts it.\<close>

definition days_before_year :: "nat \<Rightarrow> nat" where
  "days_before_year y = (let p = y - 1 in 365 * p + p div 4 - p div 100 + p div 400)"

definition ordinal :: "nat \<Rightarrow> nat \<Rightarrow> nat \<Rightarrow> nat" where
  "ordinal y mo dy = days_before_year y + sum_list (take (mo - 1) (month_days y)) + dy"

definition valid_time :: "nat \<Rightarrow> nat \<Rightarrow> nat \<Rightarrow> nat \<Rightarrow> nat \<Rightarrow> nat \<Rightarrow> bool" where
  "valid_time y mo dy h mi s \<longleftrightarrow> 1 \<le> y \<and> 1 \<le> mo \<and> mo \<le> 12 \<and> 1 \<le> dy \<and> dy \<le> month_days y ! (mo - 1) \<and> h < 24 \<and> mi < 60 \<and> s < 60"

text \<open>A fraction of a second keeps six digits; an empty one is no fraction.\<close>

definition micros :: "string \<Rightarrow> nat option" where
  "micros f = (case f of [] \<Rightarrow> Some 0
     | c # ds \<Rightarrow> if c = CHR ''.'' \<and> ds \<noteq> [] \<and> number ds 0 \<noteq> None then number (take 6 (ds @ ''000000'')) 0 else None)"

definition field :: "string \<Rightarrow> nat \<Rightarrow> nat \<Rightarrow> nat option" where
  "field s i n = number (take n (drop i s)) 0"

definition separated :: "string \<Rightarrow> bool" where
  "separated s \<longleftrightarrow> 20 \<le> length s \<and> s ! 4 = CHR ''-'' \<and> s ! 7 = CHR ''-'' \<and> s ! 10 = CHR ''T'' \<and> s ! 13 = CHR '':'' \<and> s ! 16 = CHR '':''
     \<and> last s = CHR ''Z''"

definition instant_of :: "nat \<Rightarrow> nat \<Rightarrow> nat \<Rightarrow> nat \<Rightarrow> nat \<Rightarrow> nat \<Rightarrow> nat \<Rightarrow> nat" where
  "instant_of y mo dy h mi s u = ((((ordinal y mo dy * 24 + h) * 60 + mi) * 60) + s) * 1000000 + u"

definition instant :: "string \<Rightarrow> nat option" where
  "instant s = (if \<not> separated s then None else
     case (field s 0 4, field s 5 2, field s 8 2, field s 11 2, field s 14 2, field s 17 2, micros (butlast (drop 19 s))) of
       (Some y, Some mo, Some dy, Some h, Some mi, Some sec, Some u) \<Rightarrow>
         (if valid_time y mo dy h mi sec then Some (instant_of y mo dy h mi sec u) else None)
     | _ \<Rightarrow> None)"

definition timestamp :: "string \<Rightarrow> nat res" where
  "timestamp value = (case instant value of None \<Rightarrow> Inl (AuthorityViolation ''WORLD_RECEIPT_TIMESTAMP_INVALID'') | Some t \<Rightarrow> Inr t)"

definition timestamp_before :: "string \<Rightarrow> string \<Rightarrow> bool res" where
  "timestamp_before left right = bnd (timestamp left) (\<lambda>l. bnd (timestamp right) (\<lambda>r. Inr (l < r)))"

definition timestamp_at_or_before :: "string \<Rightarrow> string \<Rightarrow> bool res" where
  "timestamp_at_or_before left right = bnd (timestamp left) (\<lambda>l. bnd (timestamp right) (\<lambda>r. Inr (l \<le> r)))"

section \<open>Requests\<close>

text \<open>
  The contract record of a tool request; an optional key that is absent is \<^verbatim>\<open>None\<close>, as
  \<^verbatim>\<open>get\<close> reads it.
\<close>

record tool_request =
  tr_toolRequestId :: string
  tr_toolId :: string
  tr_operation :: string
  tr_arguments :: "json list"
  tr_consequential :: bool
  tr_idempotencyKey :: string
  tr_operationFingerprint :: string
  tr_replayPolicy :: string
  tr_requestedAt :: string
  tr_leaseId :: "string option"
  tr_reservationId :: "string option"
  tr_grantId :: "string option"
  tr_backendId :: "string option"
  tr_targetIdentity :: "string option"
  tr_filesystemScope :: "string option"

definition stable_id :: "(string \<Rightarrow> string) \<Rightarrow> string \<Rightarrow> string \<Rightarrow> string" where
  "stable_id sha p material = p @ take 24 (sha material)"

definition effect_intent_id :: "(string \<Rightarrow> string) \<Rightarrow> string \<Rightarrow> string" where
  "effect_intent_id sha key = stable_id sha ''effect-intent-'' key"

definition world_receipt_id :: "(string \<Rightarrow> string) \<Rightarrow> string \<Rightarrow> string \<Rightarrow> string" where
  "world_receipt_id sha intent_digest observed = stable_id sha ''world-receipt-'' (intent_digest @ observed)"

section \<open>Effect intents\<close>

text \<open>\<^verbatim>\<open>str(v)\<close>, \<^verbatim>\<open>str(v or default)\<close> and the items \<^verbatim>\<open>list(v)\<close> iterates.\<close>

fun py_str :: "json \<Rightarrow> string" where
  "py_str JNull = ''None''"
| "py_str (JBool b) = (if b then ''True'' else ''False'')"
| "py_str (JStr s) = s"
| "py_str v = canonical_json v"

definition str_or :: "string \<Rightarrow> json \<Rightarrow> string" where
  "str_or fallback v = (if truthy v then py_str v else fallback)"

fun items_of :: "json \<Rightarrow> json list res" where
  "items_of (JList xs) = Inr xs"
| "items_of (JStr s) = Inr (map (\<lambda>c. JStr [c]) s)"
| "items_of (JObj kvs) = Inr (map (JStr \<circ> fst) kvs)"
| "items_of _ = Inl (TypeError ''object is not iterable'')"

definition items_or :: "json list \<Rightarrow> json \<Rightarrow> json list res" where
  "items_or fallback v = (if truthy v then items_of v else Inr fallback)"

definition ZERO_DIGEST :: string where
  "ZERO_DIGEST = ''sha256:'' @ replicate 64 (CHR ''0'')"

definition coordination_guards :: "string \<Rightarrow> json \<Rightarrow> string \<Rightarrow> 'b res \<Rightarrow> 'b res" where
  "coordination_guards target targets coordination k =
     bnd (if coordination = ''atomic'' then items_or [JStr target] targets else Inr [JNull]) (\<lambda>xs.
     refuse [(card (set (map py_str xs)) \<noteq> 1, ''WORLD_RECEIPT_FAKE_DISTRIBUTED_ATOMICITY''),
       (coordination \<notin> {''atomic'', ''staged'', ''compensating'', ''escrow''}, ''WORLD_RECEIPT_COORDINATION_MODE_REQUIRED'')] k)"

definition intent_fields :: "(string \<Rightarrow> string) \<Rightarrow> tool_request \<Rightarrow> string \<Rightarrow> dict \<Rightarrow> json list \<Rightarrow> string \<Rightarrow> dict" where
  "intent_fields sha r principal_id p refs expires_at =
     [(''schemaVersion'', JStr ''1.0.0''), (''effectIntentId'', JStr (effect_intent_id sha (tr_idempotencyKey r))),
      (''principalId'', JStr principal_id), (''operation'', JStr (tr_operation r)),
      (''payloadDigest'', JStr (digest sha (JList (tr_arguments r)))), (''basisVersion'', JStr (str_or [] (dget p ''basisVersion''))),
      (''grantId'', opt_text (tr_grantId r)), (''leaseId'', opt_text (tr_leaseId r)), (''approvalRefs'', JList refs),
      (''targetIdentity'', JStr (str_or [] (dget p ''targetIdentity''))), (''expiresAt'', JStr expires_at),
      (''idempotencyKey'', JStr (tr_idempotencyKey r)), (''atomicDomain'', JStr (str_or [] (dget p ''atomicDomain''))),
      (''coordinationMode'', JStr (str_or [] (dget p ''coordinationMode''))),
      (''rollbackStrategy'', JStr (str_or ''none'' (dget p ''rollbackStrategy''))),
      (''reconciliationStrategy'', JStr (str_or ''target_receipt'' (dget p ''reconciliationStrategy''))),
      (''reversalHandle'', dget p ''reversalHandle''),
      (''receiptSpec'', if truthy (dget p ''receiptSpec'') then dget p ''receiptSpec'' else JObj [])]"

definition build_effect_intent :: "(string \<Rightarrow> string) \<Rightarrow> validator \<Rightarrow> tool_request \<Rightarrow> string \<Rightarrow> dict \<Rightarrow> string \<Rightarrow> dict res" where
  "build_effect_intent sha V r principal_id p expires_at =
     (let target = str_or [] (dget p ''targetIdentity''); coordination = str_or [] (dget p ''coordinationMode'') in
      refuse [(tr_targetIdentity r \<noteq> None \<and> tr_targetIdentity r \<noteq> Some target, ''WORLD_RECEIPT_TARGET_IDENTITY_MISMATCH''),
        (target = [] \<or> str_or [] (dget p ''basisVersion'') = [] \<or> str_or [] (dget p ''atomicDomain'') = [], ''WORLD_RECEIPT_PREPARATION_INCOMPLETE'')] (
      coordination_guards target (dget p ''targetIdentities'') coordination (
      bnd (items_or [] (dget p ''approvalRefs'')) (\<lambda>refs.
      let material = intent_fields sha r principal_id p refs expires_at in
      bnd (timestamp_at_or_before expires_at (tr_requestedAt r)) (\<lambda>expired.
      refuse [(expired, ''WORLD_RECEIPT_INTENT_EXPIRED_AT_PREPARE'')] (
      let intent = material @ [(''intentDigest'', JStr (digest sha (JObj material)))] in
      bnd (require V ''EffectIntent'' (JObj intent)) (\<lambda>_. Inr intent)))))))"

section \<open>Receipts\<close>

text \<open>\<^verbatim>\<open>d[k]\<close> for a nested dictionary.\<close>

definition member_of :: "dict \<Rightarrow> string \<Rightarrow> string \<Rightarrow> json res" where
  "member_of x k k' = bnd (dreq x k) (\<lambda>v. case v of JObj y \<Rightarrow> dreq y k' | _ \<Rightarrow> Inl (TypeError ''object is not subscriptable''))"

definition receipt_checks :: "(string \<Rightarrow> string) \<Rightarrow> dict \<Rightarrow> (string \<times> json) list res" where
  "receipt_checks sha intent =
     bnd (text_item intent ''intentDigest'') (\<lambda>intent_digest.
     bnd (member_of intent ''receiptSpec'' ''expectedPostStateDigest'') (\<lambda>post.
     bnd (case post of JStr s \<Rightarrow> Inr s | _ \<Rightarrow> Inl (TypeError ''can only concatenate str to str'')) (\<lambda>post_text.
     bnd (dreq intent ''effectIntentId'') (\<lambda>intent_id.
     bnd (dreq intent ''targetIdentity'') (\<lambda>target.
     bnd (member_of intent ''receiptSpec'' ''receiptKind'') (\<lambda>kind.
     bnd (member_of intent ''receiptSpec'' ''locator'') (\<lambda>locator.
     Inr [(''receiptId'', JStr (world_receipt_id sha intent_digest post_text)), (''effectIntentId'', intent_id),
       (''intentDigest'', JStr intent_digest), (''targetIdentity'', target), (''receiptKind'', kind), (''receiptLocator'', locator),
       (''observedStateDigest'', post), (''commitState'', JStr ''committed''), (''reversalHandle'', dget intent ''reversalHandle'')])))))))"

definition upper :: "string \<Rightarrow> string" where
  "upper s = map (\<lambda>c. let n = of_char c in if 97 \<le> n \<and> n \<le> (122 :: nat) then char_of (n - 32) else c) s"

fun check_receipt :: "dict \<Rightarrow> (string \<times> json) list \<Rightarrow> unit res" where
  "check_receipt receipt [] = Inr ()"
| "check_receipt receipt ((k, expected) # rest) =
     raise_if (\<not> json_eq (dget receipt k) expected) (IntegrityViolation (''WORLD_RECEIPT_'' @ upper k @ ''_MISMATCH'')) (check_receipt receipt rest)"

definition verify_world_receipt :: "(string \<Rightarrow> string) \<Rightarrow> validator \<Rightarrow> dict \<Rightarrow> dict \<Rightarrow> unit res" where
  "verify_world_receipt sha V intent receipt =
     bnd (require V ''EffectIntent'' (JObj intent)) (\<lambda>_.
     bnd (require V ''WorldReceipt'' (JObj receipt)) (\<lambda>_.
     bnd (receipt_checks sha intent) (\<lambda>checks. check_receipt receipt checks)))"

definition receipt_side_effect_identity :: "validator \<Rightarrow> dict \<Rightarrow> string res" where
  "receipt_side_effect_identity V receipt =
     bnd (require V ''WorldReceipt'' (JObj receipt)) (\<lambda>_.
     bnd (dreq receipt ''receiptId'') (\<lambda>i.
     bnd (dreq receipt ''intentDigest'') (\<lambda>n.
     bnd (dreq receipt ''observedStateDigest'') (\<lambda>s.
     bnd (dreq receipt ''commitState'') (\<lambda>c.
     Inr (canonical_json (JObj [(''receiptId'', i), (''intentDigest'', n), (''observedStateDigest'', s), (''commitState'', c)])))))))"

end
