(* ===== verification/Tool_Registry.thy ===== *)
theory Tool_Registry
  imports World_Receipt
begin

text \<open>
  \<^verbatim>\<open>capt_runtime/tools/registry.py\<close> and the typed hooks of \<^verbatim>\<open>sandbox_broker_hooks.py\<close>. An adapter is
  code that is plugged in: a record of functions over a world \<open>'x\<close> of its own, each of which may raise;
  \<^verbatim>\<open>None\<close> for an attribute the adapter does not have. Its execution is a \<open>script\<close>: it ends, or it
  first publishes the identity of an effect and goes on with what the broker answers.
\<close>

section \<open>Adapters\<close>

type_synonym ('x, 'a) hook = "'x \<Rightarrow> 'x \<times> 'a res"

datatype 'x script = Finish 'x "dict res" | Publish 'x string "unit res \<Rightarrow> 'x script"

record boundary =
  cb_leaseId :: string
  cb_executionContextId :: string
  cb_validUntil :: string

text \<open>A sandbox lease id with a record or patch: \<^verbatim>\<open>SandboxLeaseReservation\<close>, \<^verbatim>\<open>SandboxTerminalPatch\<close>.\<close>

type_synonym lease_patch = "string \<times> dict"

record 'x sandbox_hooks =
  sh_validate :: "tool_request \<Rightarrow> string \<Rightarrow> string \<Rightarrow> ('x, unit) hook"
  sh_reserve :: "tool_request \<Rightarrow> string \<Rightarrow> string \<Rightarrow> string \<Rightarrow> boundary \<Rightarrow> string \<Rightarrow> ('x, lease_patch option) hook"
  sh_begin_close :: "tool_request \<Rightarrow> string \<Rightarrow> string \<Rightarrow> ('x, (lease_patch \<times> bool) option) hook"
  sh_created :: "tool_request \<Rightarrow> string \<Rightarrow> ('x, lease_patch option) hook"
  sh_terminal :: "tool_request \<Rightarrow> dict \<Rightarrow> string \<Rightarrow> ('x, lease_patch option) hook"

record 'x exec_hooks =
  xh_validate :: "tool_request \<Rightarrow> string \<Rightarrow> string \<Rightarrow> ('x, unit) hook"
  xh_terminal :: "tool_request \<Rightarrow> dict \<Rightarrow> string \<Rightarrow> ('x, lease_patch option) hook"

record 'x adapter =
  ad_adapterId :: "string option"
  ad_execute :: "tool_request \<Rightarrow> ('x, dict) hook"
  ad_execute_observed :: "(tool_request \<Rightarrow> 'x \<Rightarrow> 'x script) option"
  ad_execute_world_effect :: "(tool_request \<Rightarrow> dict \<Rightarrow> 'x \<Rightarrow> 'x script) option"
  ad_prepare_effect :: "(tool_request \<Rightarrow> ('x, dict) hook) option"
  ad_preflight :: "(tool_request \<Rightarrow> ('x, unit) hook) option"
  ad_verify_receipt :: "(dict \<Rightarrow> dict \<Rightarrow> ('x, bool) hook) option"
  ad_supports_reconciliation :: bool
  ad_reconcile :: "(dict \<Rightarrow> ('x, dict option) hook) option"
  ad_verify_reversal_handle :: "(dict \<Rightarrow> ('x, bool) hook) option"
  ad_sandbox :: "'x sandbox_hooks option"
  ad_persistent_exec :: "'x exec_hooks option"

text \<open>The check that the constructor of a sandbox reservation makes.\<close>

definition sandbox_reservation :: "validator \<Rightarrow> lease_patch \<Rightarrow> lease_patch res" where
  "sandbox_reservation V x = (case x of (i, lease) \<Rightarrow>
     bnd (require V ''SandboxLease'' (JObj lease)) (\<lambda>_.
     bnd (dreq lease ''sandboxLeaseId'') (\<lambda>j.
     raise_if (j \<noteq> JStr i) (ValueError ''sandbox reservation id disagrees with lease record'') (Inr x))))"

section \<open>The registry\<close>

record descriptor =
  dc_toolId :: string
  dc_operations :: "string list"
  dc_requiredCapabilities :: "string list"
  dc_operationEffects :: "(string \<times> string) list"
  dc_terminalBackends :: "string list"
  dc_worldReceiptOperations :: "string list"
  dc_rest :: dict

definition descriptor_json :: "descriptor \<Rightarrow> json" where
  "descriptor_json x = JObj ([(''toolId'', JStr (dc_toolId x)), (''operations'', JList (map JStr (dc_operations x))),
     (''requiredCapabilities'', JList (map JStr (dc_requiredCapabilities x))),
     (''operationEffects'', JList (map (\<lambda>(p, e). JObj [(''operation'', JStr p), (''effectClass'', JStr e)]) (dc_operationEffects x))),
     (''terminalBackends'', JList (map JStr (dc_terminalBackends x))),
     (''worldReceiptOperations'', JList (map JStr (dc_worldReceiptOperations x)))] @ dc_rest x)"

definition receipt_required :: "descriptor \<Rightarrow> string \<Rightarrow> bool" where
  "receipt_required x operation \<longleftrightarrow> operation \<in> set (dc_worldReceiptOperations x)"

record 'x registration =
  rg_descriptor :: descriptor
  rg_descriptorDigest :: string
  rg_adapter :: "'x adapter"
  rg_probe :: "('x, dict) hook option"

type_synonym 'x registry = "(string \<times> 'x registration) list"

definition validate_operation_effects :: "descriptor \<Rightarrow> unit res" where
  "validate_operation_effects x = (let effect_ops = map fst (dc_operationEffects x) in
     raise_if (\<not> distinct effect_ops) (OtherError ''InvalidToolDescriptor'' ''operationEffects contains duplicate operations'') (
     raise_if (set effect_ops \<noteq> set (dc_operations x))
       (OtherError ''InvalidToolDescriptor'' ''operationEffects must cover descriptor operations exactly'') (Inr ())))"

definition registry_require :: "'x registry \<Rightarrow> string \<Rightarrow> 'x registration res" where
  "registry_require R tool_id = (case map_of R tool_id of
     None \<Rightarrow> Inl (OtherError ''UnknownToolId'' (''tool is not registered: '' @ tool_id)) | Some g \<Rightarrow> Inr g)"

definition register :: "(string \<Rightarrow> string) \<Rightarrow> validator \<Rightarrow> descriptor \<Rightarrow> 'x adapter \<Rightarrow> ('x, dict) hook option \<Rightarrow> 'x registry \<Rightarrow>
    ('x registry \<times> 'x registration) res" where
  "register sha V x adapter probe R =
     bnd (require V ''ToolDescriptor'' (descriptor_json x)) (\<lambda>_.
     bnd (validate_operation_effects x) (\<lambda>_.
     raise_if (map_of R (dc_toolId x) \<noteq> None) (OtherError ''DuplicateToolId'' (''tool id already registered: '' @ dc_toolId x)) (
     let R' = AList.update (dc_toolId x) \<lparr>rg_descriptor = x, rg_descriptorDigest = digest sha (descriptor_json x),
       rg_adapter = adapter, rg_probe = probe\<rparr> R in
     bnd (registry_require R' (dc_toolId x)) (\<lambda>g. Inr (R', g)))))"

definition effect_class :: "'x registry \<Rightarrow> string \<Rightarrow> string \<Rightarrow> string res" where
  "effect_class R tool_id operation =
     bnd (registry_require R tool_id) (\<lambda>g.
     case map_of (dc_operationEffects (rg_descriptor g)) operation of
       None \<Rightarrow> Inl (OtherError ''InvalidToolDescriptor'' (''operation is not declared for '' @ tool_id @ '': '' @ operation))
     | Some e \<Rightarrow> Inr e)"

text \<open>The text of an exception, as \<^verbatim>\<open>type(exc).__name__\<close> and \<^verbatim>\<open>str(exc)\<close> give it.\<close>

fun error_class :: "py_error \<Rightarrow> string" where
  "error_class (ContractViolation _ _) = ''ContractViolation''"
| "error_class (AuthorityViolation _) = ''AuthorityViolation''"
| "error_class (ConcurrencyConflict _ _ _) = ''ConcurrencyConflict''"
| "error_class (IdempotencyConflict _) = ''IdempotencyConflict''"
| "error_class (IntegrityViolation _) = ''IntegrityViolation''"
| "error_class (NotFound _) = ''NotFound''"
| "error_class (IllegalTransition _ _ _) = ''IllegalTransition''"
| "error_class (CapabilityDenied _ _) = ''CapabilityDenied''"
| "error_class (CapabilityViolation _) = ''CapabilityViolation''"
| "error_class (ReconciliationRequired _) = ''ReconciliationRequired''"
| "error_class (ConcurrencyError _) = ''ConcurrencyError''"
| "error_class (ValueError _) = ''ValueError''"
| "error_class (KeyError _) = ''KeyError''"
| "error_class (TypeError _) = ''TypeError''"
| "error_class (AssertionError _) = ''AssertionError''"
| "error_class (ClaimRejected _) = ''ClaimRejected''"
| "error_class (SqlIntegrityError _) = ''IntegrityError''"
| "error_class (HandlerError _) = ''Exception''"
| "error_class (OtherError c _) = c"

fun error_text :: "py_error \<Rightarrow> string" where
  "error_text (ContractViolation t errors) = t @ '': '' @ join_with ''; '' errors"
| "error_text (AuthorityViolation s) = s"
| "error_text (ConcurrencyConflict s i j) = ''stale write to '' @ s @ '': expected version '' @ str_int i @ '', actual '' @ str_int j"
| "error_text (IdempotencyConflict s) = s"
| "error_text (IntegrityViolation s) = s"
| "error_text (NotFound s) = s"
| "error_text (IllegalTransition s a b) = s @ '' cannot transition '' @ a @ '' -> '' @ b"
| "error_text (CapabilityDenied s _) = s"
| "error_text (CapabilityViolation s) = s"
| "error_text (ReconciliationRequired s) = s"
| "error_text (ConcurrencyError s) = s"
| "error_text (ValueError s) = s"
| "error_text (KeyError s) = char_of (39 :: nat) # s @ [char_of (39 :: nat)]"
| "error_text (TypeError s) = s"
| "error_text (AssertionError s) = s"
| "error_text (ClaimRejected s) = s"
| "error_text (SqlIntegrityError s) = s"
| "error_text (HandlerError s) = s"
| "error_text (OtherError _ s) = s"

definition error_line :: "py_error \<Rightarrow> string" where
  "error_line e = error_class e @ '': '' @ error_text e"

definition readiness_record :: "string \<Rightarrow> string \<Rightarrow> string \<Rightarrow> string \<Rightarrow> dict" where
  "readiness_record tool_id status reason now = [(''schemaVersion'', JStr ''1.0.0''), (''toolId'', JStr tool_id),
     (''status'', JStr status), (''reason'', JStr reason), (''checkedAt'', JStr now)]"

text \<open>What the probe projects, or why it is unavailable; \<open>now\<close> is read when a record is made.\<close>

definition readiness :: "validator \<Rightarrow> 'x registry \<Rightarrow> string \<Rightarrow> string \<Rightarrow> ('x, dict) hook" where
  "readiness V R tool_id now x = (case map_of R tool_id of
     None \<Rightarrow> (x, Inl (OtherError ''UnknownToolId'' (''tool is not registered: '' @ tool_id)))
   | Some g \<Rightarrow>
      let made = (\<lambda>status reason. let y = readiness_record tool_id status reason now in
            bnd (require V ''ToolReadiness'' (JObj y)) (\<lambda>_. Inr y)) in
      (case rg_probe g of
         None \<Rightarrow> (x, made ''unverified'' ''no readiness probe registered'')
       | Some probe \<Rightarrow> (case probe x of (x', r) \<Rightarrow>
           (x', case bnd r (\<lambda>y. bnd (require V ''ToolReadiness'' (JObj y)) (\<lambda>_. bnd (dreq y ''toolId'') (\<lambda>i.
                  raise_if (i \<noteq> JStr tool_id)
                    (OtherError ''InvalidToolDescriptor'' (''readiness probe toolId mismatch: expected '' @ tool_id @ '', got '' @ py_str i)) (Inr y)))) of
                Inl e \<Rightarrow> made ''unavailable'' (take 2048 (error_line e))
              | Inr y \<Rightarrow> Inr y))))"

definition list_descriptors :: "'x registry \<Rightarrow> descriptor list" where
  "list_descriptors R = map (\<lambda>i. rg_descriptor (the (map_of R i))) (sort (map fst R))"

end
