(* ===== verification/Tool_Broker.thy ===== *)
theory Tool_Broker
  imports Tool_Registry
begin

text \<open>
  \<^verbatim>\<open>capt_runtime/tool_broker.py\<close>: the broker between tool requests and adapters. A method is a program on
  a machine: the database and its subscribers, the world of the adapters, the readings of the clock, and
  the number of commands the process lives to complete. A program returns \<open>Inr\<close>, raises \<open>Inl\<close>, or is
  cut off (\<open>None\<close>) when the process dies: at any command, before it is committed. What was committed
  stays. The machine keeps a record of the effects: for every execution by an adapter its request, the
  execution's id and the database at that moment.
\<close>

section \<open>Programs\<close>

record effect =
  ef_execution :: string
  ef_request :: tool_request
  ef_database :: rt_db

record ('x, 'w) machine =
  mc_db :: rt_db
  mc_subscribers :: 'w
  mc_world :: 'x
  mc_ticks :: nat
  mc_power :: nat
  mc_observed :: "string option"
  mc_effects :: "effect list"

type_synonym ('x, 'w, 'a) prog = "('x, 'w) machine \<Rightarrow> ('x, 'w) machine \<times> 'a res option"

record ('x, 'w) broker =
  bk_services :: services
  bk_handlers :: "(event, 'w) handler list"
  bk_registry :: "'x registry"
  bk_now :: "nat \<Rightarrow> string"
  bk_requestContract :: "tool_request \<Rightarrow> string list"

definition give :: "'a res \<Rightarrow> ('x, 'w, 'a) prog" where
  "give r m = (m, Some r)"

definition seq :: "('x, 'w, 'a) prog \<Rightarrow> ('a \<Rightarrow> ('x, 'w, 'b) prog) \<Rightarrow> ('x, 'w, 'b) prog" where
  "seq p f m = (case p m of
     (m', None) \<Rightarrow> (m', None)
   | (m', Some (Inl e)) \<Rightarrow> (m', Some (Inl e))
   | (m', Some (Inr x)) \<Rightarrow> f x m')"

text \<open>\<^verbatim>\<open>try: p except Exception as e: h(e)\<close>; the death of the process is not an exception.\<close>

definition catch :: "('x, 'w, 'a) prog \<Rightarrow> (py_error \<Rightarrow> ('x, 'w, 'a) prog) \<Rightarrow> ('x, 'w, 'a) prog" where
  "catch p h m = (case p m of (m', Some (Inl e)) \<Rightarrow> h e m' | r \<Rightarrow> r)"

definition check :: "bool \<Rightarrow> py_error \<Rightarrow> ('x, 'w, 'a) prog \<Rightarrow> ('x, 'w, 'a) prog" where
  "check c e p = (if c then give (Inl e) else p)"

definition look :: "(rt_db \<Rightarrow> 'a res) \<Rightarrow> ('x, 'w, 'a) prog" where
  "look f m = (m, Some (f (mc_db m)))"

definition ask_now :: "('x, 'w) broker \<Rightarrow> ('x, 'w, string) prog" where
  "ask_now B m = (m\<lparr>mc_ticks := Suc (mc_ticks m)\<rparr>, Some (Inr (bk_now B (mc_ticks m))))"

definition adapt :: "('x, 'a) hook \<Rightarrow> ('x, 'w, 'a) prog" where
  "adapt h m = (case h (mc_world m) of (x, r) \<Rightarrow> (m\<lparr>mc_world := x\<rparr>, Some r))"

text \<open>A hook that the adapter may not have, and that may answer \<^verbatim>\<open>None\<close>.\<close>

definition adapt_opt :: "('x, 'a option) hook option \<Rightarrow> ('x, 'w, 'a option) prog" where
  "adapt_opt h = (case h of None \<Rightarrow> give (Inr None) | Some f \<Rightarrow> adapt f)"

text \<open>A command of the runtime: the last one of a dying process is not committed.\<close>

definition invoke :: "('x, 'w) broker \<Rightarrow> service_command \<Rightarrow> metadata \<Rightarrow> ('x, 'w, unit) prog" where
  "invoke B cmd md m = (if mc_power m = 0 then (m, None) else
     case serve (bk_services B) (bk_handlers B) (cmd, bk_now B, md) (mc_db m) (mc_subscribers m) of
       (d, w, r) \<Rightarrow> (m\<lparr>mc_db := d, mc_subscribers := w, mc_power := mc_power m - 1\<rparr>, Some (bnd r (\<lambda>_. Inr ()))))"

section \<open>Identities and records\<close>

abbreviation broker_sha :: "('x, 'w) broker \<Rightarrow> string \<Rightarrow> string" where
  "broker_sha B \<equiv> hs_sha (en_hashing (sv_env (bk_services B)))"

abbreviation broker_contracts :: "('x, 'w) broker \<Rightarrow> contracts" where
  "broker_contracts B \<equiv> en_contracts (sv_env (bk_services B))"

abbreviation broker_validator :: "('x, 'w) broker \<Rightarrow> validator" where
  "broker_validator B \<equiv> ct_dict (broker_contracts B)"

definition TOOL_REQUEST_COMMITMENT_KIND :: string where
  "TOOL_REQUEST_COMMITMENT_KIND = ''capt.tool-request.v1''"

definition tool_request_fingerprint :: "(string \<Rightarrow> string) \<Rightarrow> tool_request \<Rightarrow> string" where
  "tool_request_fingerprint sha r = fingerprint sha ''run_tool''
     [(''toolId'', JStr (tr_toolId r)), (''operation'', JStr (tr_operation r)), (''arguments'', JList (tr_arguments r)),
      (''consequential'', JBool (tr_consequential r)), (''grantId'', opt_text (tr_grantId r)), (''leaseId'', opt_text (tr_leaseId r)),
      (''backendId'', opt_text (tr_backendId r)), (''targetIdentity'', opt_text (tr_targetIdentity r)),
      (''filesystemScope'', opt_text (tr_filesystemScope r)), (''replayPolicy'', JStr (tr_replayPolicy r))]"

definition execution_id :: "('x, 'w) broker \<Rightarrow> string \<Rightarrow> string" where
  "execution_id B key = stable_id (broker_sha B) ''tool-exec-'' key"

definition stage_fingerprint :: "(string \<Rightarrow> string) \<Rightarrow> string \<Rightarrow> string \<Rightarrow> string" where
  "stage_fingerprint sha e stage = fingerprint sha (''tool_execution_'' @ stage) [(''toolExecutionId'', JStr e)]"

definition stage_metadata :: "('x, 'w) broker \<Rightarrow> string \<Rightarrow> string \<Rightarrow> ('x, 'w, metadata) prog" where
  "stage_metadata B e stage = seq (ask_now B) (\<lambda>now.
     give (command (ct_metadata (broker_contracts B))
       (stable_id (broker_sha B) ''toolcmd-'' (e @ '':'' @ stage)) (stable_id (broker_sha B) ''toolidem-'' (e @ '':'' @ stage))
       (stage_fingerprint (broker_sha B) e stage) (stable_id (broker_sha B) ''toolcorr-'' e)
       \<lparr>ac_actorId = ''tool-broker'', ac_kind = ''execution_plane''\<rparr> now))"

text \<open>\<^verbatim>\<open>self.runtime.<command>(..., self.metadata(execution_id, stage))\<close>.\<close>

definition stage :: "('x, 'w) broker \<Rightarrow> string \<Rightarrow> string \<Rightarrow> service_command \<Rightarrow> ('x, 'w, unit) prog" where
  "stage B e s cmd = seq (stage_metadata B e s) (\<lambda>md. invoke B cmd md)"

definition tool_state :: "string \<Rightarrow> ('x, 'w, dict) prog" where
  "tool_state e = look (\<lambda>d. fetch the_tool d (tool_stream_id e))"

definition capability_at :: "string \<Rightarrow> rt_db \<Rightarrow> capability option" where
  "capability_at g d = Option.bind (load_state d (capability_stream_id g)) the_capability"

definition truthy_text :: "json \<Rightarrow> string option" where
  "truthy_text v = (case v of JStr s \<Rightarrow> if s = [] then None else Some s | _ \<Rightarrow> None)"

definition text_value :: "json \<Rightarrow> string option" where
  "text_value v = (case v of JStr s \<Rightarrow> Some s | _ \<Rightarrow> None)"

definition filled :: "string option \<Rightarrow> bool" where
  "filled x \<longleftrightarrow> x \<noteq> None \<and> x \<noteq> Some []"

definition remark :: "string \<Rightarrow> string \<Rightarrow> json" where
  "remark name v = JObj [(''kind'', JStr ''string''), (''name'', JStr name), (''value'', JStr v)]"

definition tool_result :: "('x, 'w) broker \<Rightarrow> string \<Rightarrow> string \<Rightarrow> string \<Rightarrow> json list \<Rightarrow> json \<Rightarrow> json \<Rightarrow> json \<Rightarrow> ('x, 'w, dict) prog" where
  "tool_result B material request_id status out exit_code effect err = seq (ask_now B) (\<lambda>now.
     let result = [(''schemaVersion'', JStr ''1.0.0''), (''toolResultId'', JStr (stable_id (broker_sha B) ''tool-result-'' material)),
       (''toolRequestId'', JStr request_id), (''status'', JStr status), (''output'', JList out), (''exitCode'', exit_code),
       (''outputDigest'', JStr (digest (broker_sha B) (JList out))), (''sideEffectIdentity'', effect), (''error'', err),
       (''completedAt'', JStr now)] in
     give (bnd (require (broker_validator B) ''ToolResult'' (JObj result)) (\<lambda>_. Inr result)))"

fun checked_items :: "validator \<Rightarrow> json list \<Rightarrow> unit res" where
  "checked_items V [] = Inr ()"
| "checked_items V (x # xs) = bnd (require V ''ToolArgument'' x) (\<lambda>_. checked_items V xs)"

definition result_from_adapter :: "('x, 'w) broker \<Rightarrow> tool_request \<Rightarrow> dict \<Rightarrow> ('x, 'w, dict) prog" where
  "result_from_adapter B r y =
     (let status = dget y ''status'' in
      check (status \<notin> JStr ` {''succeeded'', ''failed'', ''indeterminate'', ''denied''}) (ValueError ''adapter returned invalid status'') (
      seq (give (bnd (case dlook y ''output'' of None \<Rightarrow> Inr [] | Some v \<Rightarrow> items_of v) (\<lambda>out.
             bnd (checked_items (broker_validator B) out) (\<lambda>_. Inr out)))) (\<lambda>out.
      tool_result B (tr_idempotencyKey r) (tr_toolRequestId r) (py_str status) out (dget y ''exitCode'') (dget y ''sideEffectIdentity'') (dget y ''error''))))"

definition indeterminate_result :: "('x, 'w) broker \<Rightarrow> string \<Rightarrow> string \<Rightarrow> string \<Rightarrow> json \<Rightarrow> ('x, 'w, dict) prog" where
  "indeterminate_result B request_id material reason effect =
     tool_result B material request_id ''indeterminate'' [remark ''reconciliation'' (take 16384 reason)] JNull effect JNull"

definition denied_result :: "('x, 'w) broker \<Rightarrow> tool_request \<Rightarrow> string \<Rightarrow> ('x, 'w, dict) prog" where
  "denied_result B r reason =
     tool_result B (tr_idempotencyKey r) (tr_toolRequestId r) ''denied'' [remark ''denial'' (take 16384 reason)] JNull JNull JNull"

definition failed_result :: "('x, 'w) broker \<Rightarrow> tool_request \<Rightarrow> string \<Rightarrow> string \<Rightarrow> ('x, 'w, dict) prog" where
  "failed_result B r name reason = result_from_adapter B r [(''status'', JStr ''failed''), (''exitCode'', JNull),
     (''output'', JList [remark name (take 16384 reason)]), (''sideEffectIdentity'', JNull), (''error'', JNull)]"

definition reservation_id :: "('x, 'w) broker \<Rightarrow> string \<Rightarrow> string" where
  "reservation_id B e = stable_id (broker_sha B) ''tool-res-'' e"

definition reservation_of :: "('x, 'w) broker \<Rightarrow> tool_request \<Rightarrow> string \<Rightarrow> string \<Rightarrow> ('x, 'w, reservation_req) prog" where
  "reservation_of B r lease_id e = seq (ask_now B) (\<lambda>now. give (Inr
     \<lparr>rq_reservationId = reservation_id B e, rq_leaseId = lease_id, rq_operation = tr_operation r,
      rq_operationFingerprint = tr_operationFingerprint r, rq_idempotencyKey = stable_id (broker_sha B) ''tool-use-'' e,
      rq_reservedAt = now\<rparr>))"

text \<open>The time of a consumption is not kept.\<close>

definition consumption_of :: "('x, 'w) broker \<Rightarrow> string \<Rightarrow> string \<Rightarrow> string \<Rightarrow> string \<Rightarrow> json \<Rightarrow> ('x, 'w, consumption) prog" where
  "consumption_of B e reservation lease_id outcome effect = seq (ask_now B) (\<lambda>_. give (Inr
     \<lparr>cn_consumptionId = stable_id (broker_sha B) ''tool-consume-'' e, cn_reservationId = reservation, cn_leaseId = lease_id,
      cn_outcome = outcome, cn_sideEffectIdentity = (if effect = JNull then None else Some (take 1024 (py_str effect)))\<rparr>))"

definition answer_of :: "string \<Rightarrow> dict \<Rightarrow> json \<Rightarrow> bool \<Rightarrow> dict res" where
  "answer_of e result state replayed =
     bnd (dreq result ''status'') (\<lambda>status. Inr [(''toolExecutionId'', JStr e), (''status'', status), (''result'', JObj result),
       (''state'', state), (''replayed'', JBool replayed)])"

section \<open>Admission\<close>

definition entry_checks :: "('x, 'w) broker \<Rightarrow> tool_request \<Rightarrow> unit res" where
  "entry_checks B r =
     contract (bk_requestContract B) ''ToolRequest'' r (
     raise_if (tr_operationFingerprint r \<noteq> tool_request_fingerprint (broker_sha B) r)
       (IntegrityViolation ''ToolRequest operationFingerprint does not match semantic request'') (
     raise_if (tr_reservationId r \<noteq> None) (AuthorityViolation ''caller may not supply a capability reservationId'') (Inr ())))"

definition descriptor_checks :: "tool_request \<Rightarrow> descriptor \<Rightarrow> unit res" where
  "descriptor_checks r x = refuse
     [(tr_operation r \<notin> set (dc_operations x), ''operation is not declared by tool''),
      (tr_backendId r \<notin> Some ` set (dc_terminalBackends x), ''backend is not admitted for tool'')] (Inr ())"

definition effect_checks :: "tool_request \<Rightarrow> descriptor \<Rightarrow> string \<Rightarrow> unit res" where
  "effect_checks r x class =
     raise_if (tr_consequential r \<noteq> (class \<noteq> ''pure_read_only''))
       (AuthorityViolation (''consequential flag disagrees with effect class '' @ class)) (
     raise_if (tr_operation r \<in> set (dc_requiredCapabilities x) \<and> \<not> (filled (tr_grantId r) \<and> filled (tr_leaseId r)))
       (CapabilityDenied ''tool operation requires a bound grant and live lease'' (tr_leaseId r)) (Inr ()))"

definition validate_request :: "('x, 'w) broker \<Rightarrow> tool_request \<Rightarrow> ('x, 'w, 'x registration) prog" where
  "validate_request B r =
     seq (give (entry_checks B r)) (\<lambda>_.
     seq (give (registry_require (bk_registry B) (tr_toolId r))) (\<lambda>g.
     seq (give (descriptor_checks r (rg_descriptor g))) (\<lambda>_.
     seq (ask_now B) (\<lambda>now.
     seq (adapt (readiness (broker_validator B) (bk_registry B) (tr_toolId r) now)) (\<lambda>ready.
     check (dget ready ''status'' \<noteq> JStr ''available'')
       (OtherError ''ToolUnavailable'' (''tool '' @ tr_toolId r @ '' readiness='' @ py_str (dget ready ''status'') @ '': '' @ py_str (dget ready ''reason''))) (
     seq (give (effect_class (bk_registry B) (tr_toolId r) (tr_operation r))) (\<lambda>class.
     seq (give (effect_checks r (rg_descriptor g) class)) (\<lambda>_. give (Inr g)))))))))"

text \<open>The active lease of the grant a request cites, for an effect and for a sandbox.\<close>

definition active_lease :: "rt_db \<Rightarrow> tool_request \<Rightarrow> string \<Rightarrow> string \<Rightarrow> cap_lease res" where
  "active_lease d r unbound inactive =
     (case (tr_grantId r, tr_leaseId r) of
       (Some g, Some l) \<Rightarrow>
         raise_if (g = [] \<or> l = []) (CapabilityDenied unbound (Some l)) (
         case Option.bind (capability_at g d) cs_lease of
           None \<Rightarrow> Inl (CapabilityDenied inactive (Some l))
         | Some lease \<Rightarrow> raise_if (cl_leaseId lease \<noteq> l) (CapabilityDenied inactive (Some l)) (Inr lease))
     | (_, l) \<Rightarrow> Inl (CapabilityDenied unbound l))"

definition effect_expiry :: "rt_db \<Rightarrow> tool_request \<Rightarrow> string res" where
  "effect_expiry d r =
     bnd (active_lease d r ''WORLD_RECEIPT_EFFECT_LEASE_REQUIRED'' ''WORLD_RECEIPT_EFFECT_LEASE_NOT_ACTIVE'') (\<lambda>lease.
     raise_if (cl_validUntil lease = []) (CapabilityDenied ''WORLD_RECEIPT_EFFECT_LEASE_EXPIRY_REQUIRED'' (tr_leaseId r)) (Inr (cl_validUntil lease)))"

definition capability_boundary :: "rt_db \<Rightarrow> tool_request \<Rightarrow> boundary res" where
  "capability_boundary d r =
     bnd (active_lease d r ''sandbox lifecycle requires a bound capability lease'' ''sandbox lifecycle capability lease is not active'') (\<lambda>lease.
     raise_if (cl_executionContextId lease = [] \<or> cl_validUntil lease = [])
       (CapabilityDenied ''sandbox lifecycle capability lease boundary is incomplete'' (tr_leaseId r))
       (Inr \<lparr>cb_leaseId = cl_leaseId lease, cb_executionContextId = cl_executionContextId lease, cb_validUntil = cl_validUntil lease\<rparr>))"

definition adapter_name :: "'x adapter \<Rightarrow> string \<Rightarrow> string" where
  "adapter_name a tool_id = default_to (''adapter-'' @ tool_id) (ad_adapterId a)"

definition prepare_intent :: "('x, 'w) broker \<Rightarrow> tool_request \<Rightarrow> string \<Rightarrow> 'x registration \<Rightarrow> ('x, 'w, json) prog" where
  "prepare_intent B r operator_id g =
     (if \<not> receipt_required (rg_descriptor g) (tr_operation r) then give (Inr JNull) else
      case ad_prepare_effect (rg_adapter g) of
        None \<Rightarrow> give (Inl (AuthorityViolation ''WORLD_RECEIPT_PREPARE_UNSUPPORTED''))
      | Some prepare \<Rightarrow>
          seq (adapt (prepare r)) (\<lambda>p.
          seq (look (\<lambda>d. effect_expiry d r)) (\<lambda>expires.
          give (bnd (build_effect_intent (broker_sha B) (broker_validator B) r operator_id p expires) (\<lambda>x. Inr (JObj x))))))"

definition execution_fields :: "('x, 'w) broker \<Rightarrow> tool_request \<Rightarrow> string \<Rightarrow> string \<Rightarrow> 'x registration \<Rightarrow> string \<Rightarrow> json \<Rightarrow> string \<Rightarrow> string \<Rightarrow> dict" where
  "execution_fields B r operator_id session_id g class intent prepared updated =
     [(''schemaVersion'', JStr ''1.0.0''), (''toolExecutionId'', JStr (execution_id B (tr_idempotencyKey r))),
      (''toolRequestId'', JStr (tr_toolRequestId r)), (''operatorId'', JStr operator_id), (''sessionId'', JStr session_id),
      (''toolId'', JStr (tr_toolId r)), (''operation'', JStr (tr_operation r)), (''operationFingerprint'', JStr (tr_operationFingerprint r)),
      (''descriptorDigest'', JStr (rg_descriptorDigest g)), (''adapterId'', JStr (adapter_name (rg_adapter g) (tr_toolId r))),
      (''backendId'', opt_text (tr_backendId r)), (''effectClass'', JStr class), (''consequential'', JBool (tr_consequential r)),
      (''grantId'', opt_text (tr_grantId r)), (''leaseId'', opt_text (tr_leaseId r)), (''reservationId'', JNull),
      (''state'', JStr ''prepared''), (''dispatchBoundary'', JStr ''not_started''), (''result'', JNull), (''resultDigest'', JNull),
      (''sideEffectIdentity'', JNull), (''effectIntent'', intent), (''worldReceipt'', JNull), (''settlementStatus'', JStr ''not_settled''),
      (''reconciliationReason'', JNull), (''preparedAt'', JStr prepared), (''updatedAt'', JStr updated)]"

definition build_execution :: "('x, 'w) broker \<Rightarrow> tool_request \<Rightarrow> string \<Rightarrow> string \<Rightarrow> ('x, 'w, dict) prog" where
  "build_execution B r operator_id session_id =
     seq (validate_request B r) (\<lambda>g.
     seq (prepare_intent B r operator_id g) (\<lambda>intent.
     seq (give (effect_class (bk_registry B) (tr_toolId r) (tr_operation r))) (\<lambda>class.
     seq (ask_now B) (\<lambda>prepared.
     seq (ask_now B) (\<lambda>updated.
     let execution = execution_fields B r operator_id session_id g class intent prepared updated in
     give (bnd (require (broker_validator B) ''ToolExecution'' (JObj execution)) (\<lambda>_. Inr execution)))))))"

definition scope_for :: "tool_request \<Rightarrow> scope" where
  "scope_for r = (if tr_toolId r = ''sandbox.inversion'' then ToolScope [''sandbox.inversion'']
     else case tr_filesystemScope r of
       Some p \<Rightarrow> (if p = [] then ToolScope [tr_toolId r] else FilesystemScope p True)
     | None \<Rightarrow> ToolScope [tr_toolId r])"

section \<open>Terminal states\<close>

definition indeterminate_patch :: "string \<Rightarrow> dict \<Rightarrow> string option \<Rightarrow> json \<Rightarrow> dict" where
  "indeterminate_patch result_digest result reason receipt =
     [(''result'', JObj result), (''resultDigest'', JStr result_digest), (''sideEffectIdentity'', dget result ''sideEffectIdentity''),
      (''settlementStatus'', JStr ''reconciliation_required''),
      (''reconciliationReason'', JStr (if filled reason then the reason else ''external effect is indeterminate'')), (''worldReceipt'', receipt)]"

definition settling_patch :: "string \<Rightarrow> dict \<Rightarrow> json \<Rightarrow> dict" where
  "settling_patch result_digest result receipt =
     [(''result'', JObj result), (''resultDigest'', JStr result_digest), (''sideEffectIdentity'', dget result ''sideEffectIdentity''),
      (''settlementStatus'', JStr ''settling''), (''dispatchBoundary'', JStr ''response_completed''), (''worldReceipt'', receipt)]"

definition settled_patch :: "string \<Rightarrow> string \<Rightarrow> dict \<Rightarrow> json \<Rightarrow> dict" where
  "settled_patch from_state result_digest result receipt =
     [(''result'', JObj result), (''resultDigest'', JStr result_digest), (''sideEffectIdentity'', dget result ''sideEffectIdentity''),
      (''settlementStatus'', JStr ''settled''), (''worldReceipt'', receipt),
      (''dispatchBoundary'', JStr (if from_state \<in> {''dispatching'', ''effect_observed'', ''settling''} then ''response_completed'' else ''not_started''))]"

text \<open>\<^verbatim>\<open>_transition_terminal\<close>; the code never passes it a reservation.\<close>

definition transition_terminal :: "('x, 'w) broker \<Rightarrow> string \<Rightarrow> string \<Rightarrow> dict \<Rightarrow> string option \<Rightarrow> json \<Rightarrow> ('x, 'w, dict) prog" where
  "transition_terminal B e from_state result reason receipt =
     (let result_digest = digest (broker_sha B) (JObj result) in
      seq (give (dreq result ''status'')) (\<lambda>status.
      if status = JStr ''indeterminate'' then
        seq (stage B e ''indeterminate'' (TransitionTool e ''indeterminate'' (indeterminate_patch result_digest result reason receipt))) (\<lambda>_.
        tool_state e)
      else let terminal_state = (if status = JStr ''succeeded'' then ''completed'' else ''failed'') in
        seq (if from_state \<in> {''dispatching'', ''effect_observed''}
             then stage B e ''settling'' (TransitionTool e ''settling'' (settling_patch result_digest result receipt)) else give (Inr ())) (\<lambda>_.
        seq (stage B e terminal_state (TransitionTool e terminal_state (settled_patch from_state result_digest result receipt))) (\<lambda>_.
        tool_state e))))"

text \<open>The reservation a crash left open before the execution was admitted.\<close>

definition open_predispatch_reservation :: "('x, 'w) broker \<Rightarrow> rt_db \<Rightarrow> dict \<Rightarrow> string option res" where
  "open_predispatch_reservation B d state = (case truthy_text (dget state ''grantId'') of
     None \<Rightarrow> Inr None
   | Some g \<Rightarrow> bnd (text_item state ''toolExecutionId'') (\<lambda>e.
       Inr (case capability_at g d of None \<Rightarrow> None
        | Some c \<Rightarrow> map_option rv_reservationId
            (find (\<lambda>v. rv_reservationId v = reservation_id B e \<and> rv_state v = ''open'') (cs_reservations c)))))"

definition settle_predispatch_terminal :: "('x, 'w) broker \<Rightarrow> dict \<Rightarrow> tool_request \<Rightarrow> dict \<Rightarrow> string \<Rightarrow> ('x, 'w, dict) prog" where
  "settle_predispatch_terminal B execution r result s =
     seq (give (text_item execution ''toolExecutionId'')) (\<lambda>e.
     seq (if dget execution ''reservationId'' = JNull \<and> dget execution ''state'' = JStr ''prepared''
          then look (\<lambda>d. open_predispatch_reservation B d execution) else give (Inr (truthy_text (dget execution ''reservationId'')))) (\<lambda>reservation.
     case (reservation, tr_grantId r, tr_leaseId r) of
       (Some i, Some (g # gs), Some (l # ls)) \<Rightarrow>
         seq (consumption_of B e i (l # ls) ''failed'' JNull) (\<lambda>x.
         seq (stage B e s (SettlePredispatch (g # gs) x e result)) (\<lambda>_. tool_state e))
     | _ \<Rightarrow> seq (give (text_item execution ''state'')) (\<lambda>from_state. transition_terminal B e from_state result None JNull)))"

text \<open>A grant committed to exact requests serves no other one.\<close>

definition request_commitments :: "capability \<Rightarrow> json list" where
  "request_commitments c = List.map_filter (\<lambda>x. case x of
     JObj y \<Rightarrow> if dget y ''kind'' = JStr TOOL_REQUEST_COMMITMENT_KIND then Some (dget y ''digest'') else None | _ \<Rightarrow> None) (cs_externalCommitments c)"

definition commitment_denied :: "rt_db \<Rightarrow> tool_request \<Rightarrow> string \<Rightarrow> bool res" where
  "commitment_denied d r fp = (case tr_grantId r of
     None \<Rightarrow> Inl (TypeError ''can only concatenate str to str'')
   | Some g \<Rightarrow> Inr (case capability_at g d of None \<Rightarrow> False
       | Some c \<Rightarrow> request_commitments c \<noteq> [] \<and> JStr fp \<notin> set (request_commitments c)))"

text \<open>\<^verbatim>\<open>check_lease\<close> of the runtime, for a request that may lack a lease.\<close>

definition lease_checked :: "tool_request \<Rightarrow> string \<Rightarrow> rt_db \<Rightarrow> unit res" where
  "lease_checked r now d = (case tr_grantId r of
     None \<Rightarrow> Inl (TypeError ''can only concatenate str to str'')
   | Some g \<Rightarrow> (case tr_leaseId r of
       Some l \<Rightarrow> service_check_lease g l (tr_operation r) (scope_for r) now d
     | None \<Rightarrow> bnd (fetch the_capability d (capability_stream_id g)) (\<lambda>c.
         Inl (CapabilityDenied (case cs_revocation c of
             Some v \<Rightarrow> ''grant '' @ cs_grantId c @ '' was revoked: '' @ rk_reason v
           | None \<Rightarrow> if cs_lease c = None then ''no active lease on grant '' @ cs_grantId c
               else ''lease None is not active on this grant'') None))))"

section \<open>Before the dispatch\<close>

datatype ('a, 'b) phase = Answered_early 'a | Going_on 'b

definition then_on :: "('x, 'w, ('a, 'b) phase) prog \<Rightarrow> ('b \<Rightarrow> ('x, 'w, 'a) prog) \<Rightarrow> ('x, 'w, 'a) prog" where
  "then_on p f = seq p (\<lambda>x. case x of Answered_early y \<Rightarrow> give (Inr y) | Going_on y \<Rightarrow> f y)"

definition replay_projection :: "dict \<Rightarrow> dict res" where
  "replay_projection state = (case dget state ''result'' of
     JNull \<Rightarrow> Inl (IntegrityViolation ''terminal ToolExecution is missing durable ToolResult'')
   | JObj result \<Rightarrow> bnd (dreq state ''toolExecutionId'') (\<lambda>e. bnd (dreq result ''status'') (\<lambda>status. bnd (dreq state ''state'') (\<lambda>st.
       Inr [(''toolExecutionId'', e), (''status'', status), (''result'', JObj result), (''state'', st), (''replayed'', JBool True)])))
   | _ \<Rightarrow> Inl (TypeError ''object is not subscriptable''))"

definition resume :: "('x, 'w) broker \<Rightarrow> tool_request \<Rightarrow> string \<Rightarrow> string \<Rightarrow> dict \<Rightarrow> ('x, 'w, (dict, 'x registration \<times> dict) phase) prog" where
  "resume B r operator_id session_id state =
     seq (give (dreq state ''operationFingerprint'')) (\<lambda>fp.
     check (fp \<noteq> JStr (tool_request_fingerprint (broker_sha B) r)) (IdempotencyConflict ''idempotency key reused with different tool request'') (
     seq (give (dreq state ''operatorId'')) (\<lambda>op.
     seq (give (dreq state ''sessionId'')) (\<lambda>se.
     check (op \<noteq> JStr operator_id \<or> se \<noteq> JStr session_id) (AuthorityViolation ''tool idempotency replay identity mismatch'') (
     seq (give (dreq state ''state'')) (\<lambda>st.
     if st \<in> JStr ` set TOOL_TERMINAL then seq (give (replay_projection state)) (\<lambda>y. give (Inr (Answered_early y)))
     else check (st \<notin> JStr ` {''prepared'', ''admitted''})
       (OtherError ''ToolBrokerError'' (''tool execution '' @ execution_id B (tr_idempotencyKey r) @ '' requires reconciliation at state '' @ py_str st)) (
     seq (validate_request B r) (\<lambda>g.
     seq (give (dreq state ''descriptorDigest'')) (\<lambda>dd.
     seq (give (dreq state ''adapterId'')) (\<lambda>ai.
     check (dd \<noteq> JStr (rg_descriptorDigest g) \<or> ai \<noteq> JStr (adapter_name (rg_adapter g) (tr_toolId r)))
       (AuthorityViolation ''WORLD_RECEIPT_RESUME_ADAPTER_OR_DESCRIPTOR_DRIFT'') (
     give (Inr (Going_on (g, state))))))))))))))"

definition admit_execution :: "('x, 'w) broker \<Rightarrow> tool_request \<Rightarrow> string \<Rightarrow> string \<Rightarrow> ('x, 'w, (dict, 'x registration \<times> dict) phase) prog" where
  "admit_execution B r operator_id session_id = (let e = execution_id B (tr_idempotencyKey r) in
     seq (give (entry_checks B r)) (\<lambda>_.
     seq (look (\<lambda>d. case load_state d (tool_stream_id e) of None \<Rightarrow> Inr None
          | Some a \<Rightarrow> (case the_tool a of None \<Rightarrow> Inl WRONG_KIND | Some x \<Rightarrow> Inr (Some x)))) (\<lambda>found.
     case found of
       Some state \<Rightarrow> resume B r operator_id session_id state
     | None \<Rightarrow>
         seq (validate_request B r) (\<lambda>g.
         seq (build_execution B r operator_id session_id) (\<lambda>execution.
         seq (stage B e ''prepared'' (PrepareTool execution)) (\<lambda>_.
         give (Inr (Going_on (g, execution)))))))))"

definition deny :: "('x, 'w) broker \<Rightarrow> dict \<Rightarrow> tool_request \<Rightarrow> string \<Rightarrow> string \<Rightarrow> ('x, 'w, (dict, 'b) phase) prog" where
  "deny B execution r reason s =
     seq (denied_result B r reason) (\<lambda>denied.
     seq (settle_predispatch_terminal B execution r denied s) (\<lambda>state.
     give (bnd (dreq state ''state'') (\<lambda>st. bnd (answer_of (execution_id B (tr_idempotencyKey r)) denied st False) (\<lambda>y. Inr (Answered_early y))))))"

definition intent_expired :: "('x, 'w) broker \<Rightarrow> dict \<Rightarrow> ('x, 'w, bool) prog" where
  "intent_expired B execution = (case dget execution ''effectIntent'' of
     JNull \<Rightarrow> give (Inr False)
   | JObj intent \<Rightarrow> seq (give (text_item intent ''expiresAt'')) (\<lambda>t. seq (ask_now B) (\<lambda>now. give (timestamp_at_or_before t now)))
   | _ \<Rightarrow> give (Inl (TypeError ''object is not subscriptable'')))"

text \<open>\<open>try: check_lease except CapabilityDenied\<close>: the reason of the denial, if there is one.\<close>

definition lease_denial :: "tool_request \<Rightarrow> string \<Rightarrow> rt_db \<Rightarrow> string option res" where
  "lease_denial r now d = (case lease_checked r now d of
     Inl (CapabilityDenied reason l) \<Rightarrow> Inr (Some reason) | Inl x \<Rightarrow> Inl x | Inr _ \<Rightarrow> Inr None)"

definition authority_checks :: "('x, 'w) broker \<Rightarrow> tool_request \<Rightarrow> dict \<Rightarrow> ('x, 'w, (dict, unit) phase) prog" where
  "authority_checks B r execution =
     seq (intent_expired B execution) (\<lambda>expired.
     if expired then deny B execution r ''WORLD_RECEIPT_EFFECT_INTENT_EXPIRED'' ''expiry-predispatch-settle'' else
     seq (look (\<lambda>d. commitment_denied d r (tool_request_fingerprint (broker_sha B) r))) (\<lambda>committed.
     if committed then deny B execution r ''TOOL_REQUEST_COMMITMENT_MISMATCH'' ''commitment-predispatch-settle'' else
     seq (ask_now B) (\<lambda>now.
     seq (look (lease_denial r now)) (\<lambda>denial.
     case denial of Some reason \<Rightarrow> deny B execution r reason ''deny-predispatch-settle'' | None \<Rightarrow> give (Inr (Going_on ()))))))"

definition hooks_validated :: "('x, 'w) broker \<Rightarrow> tool_request \<Rightarrow> string \<Rightarrow> string \<Rightarrow> 'x adapter \<Rightarrow> ('x, 'w, unit) prog" where
  "hooks_validated B r operator_id session_id a =
     seq (case ad_sandbox a of None \<Rightarrow> give (Inr ()) | Some h \<Rightarrow> adapt (sh_validate h r operator_id session_id)) (\<lambda>_.
     case ad_persistent_exec a of None \<Rightarrow> give (Inr ()) | Some h \<Rightarrow> adapt (xh_validate h r operator_id session_id))"

definition denies :: "py_error \<Rightarrow> bool" where
  "denies e \<longleftrightarrow> error_class e \<in> {''AuthorityViolation'', ''CapabilityDenied'', ''ValueError''}"

definition preflight_refused :: "('x, 'w) broker \<Rightarrow> tool_request \<Rightarrow> dict \<Rightarrow> py_error \<Rightarrow> ('x, 'w, (dict, unit) phase) prog" where
  "preflight_refused B r execution x = (let e = execution_id B (tr_idempotencyKey r) in
     seq (if denies x then denied_result B r (''request-specific tool preflight denied: '' @ error_line x)
          else failed_result B r ''preflight_error'' (error_line x)) (\<lambda>result.
     seq (transition_terminal B e ''prepared'' result None JNull) (\<lambda>state.
     give (bnd (dreq state ''state'') (\<lambda>st. bnd (answer_of e result st False) (\<lambda>y. Inr (Answered_early y)))))))"

definition preflight :: "('x, 'w) broker \<Rightarrow> tool_request \<Rightarrow> dict \<Rightarrow> 'x adapter \<Rightarrow> ('x, 'w, (dict, unit) phase) prog" where
  "preflight B r execution a =
     seq (give (dreq execution ''state'')) (\<lambda>st.
     case ad_preflight a of
       None \<Rightarrow> give (Inr (Going_on ()))
     | Some f \<Rightarrow> if st \<noteq> JStr ''prepared'' then give (Inr (Going_on ())) else
         seq (catch (seq (adapt (f r)) (\<lambda>_. give (Inr None))) (\<lambda>x. give (Inr (Some x)))) (\<lambda>refused.
         case refused of None \<Rightarrow> give (Inr (Going_on ())) | Some x \<Rightarrow> preflight_refused B r execution x))"

definition text_of :: "string option \<Rightarrow> string res" where
  "text_of x = (case x of None \<Rightarrow> Inl (TypeError ''can only concatenate str to str'') | Some s \<Rightarrow> Inr s)"

text \<open>The use is reserved, unless an earlier admission of this execution did.\<close>

definition reserve :: "('x, 'w) broker \<Rightarrow> tool_request \<Rightarrow> dict \<Rightarrow> ('x, 'w, string option) prog" where
  "reserve B r execution = (let e = execution_id B (tr_idempotencyKey r); held = dget execution ''reservationId'' in
     if tr_consequential r \<and> held = JNull then
       seq (give (text_of (tr_leaseId r))) (\<lambda>l.
       seq (reservation_of B r l e) (\<lambda>v.
       seq (give (text_of (tr_grantId r))) (\<lambda>g.
       seq (stage B e ''reserve-capability'' (ReserveUse g v)) (\<lambda>_. give (Inr (Some (rq_reservationId v)))))))
     else give (Inr (text_value held)))"

definition sandbox_admission :: "('x, 'w) broker \<Rightarrow> tool_request \<Rightarrow> string \<Rightarrow> string \<Rightarrow> 'x sandbox_hooks \<Rightarrow> ('x, 'w, unit) prog" where
  "sandbox_admission B r operator_id session_id h = (let e = execution_id B (tr_idempotencyKey r) in
     seq (look (\<lambda>d. capability_boundary d r)) (\<lambda>cb.
     seq (ask_now B) (\<lambda>now.
     seq (adapt (sh_reserve h r e operator_id session_id cb now)) (\<lambda>reservation.
     seq (case reservation of None \<Rightarrow> give (Inr ()) | Some x \<Rightarrow>
            seq (give (sandbox_reservation (broker_validator B) x)) (\<lambda>y. stage B e ''reserve-sandbox-lease'' (ReserveSandbox (snd y)))) (\<lambda>_.
     seq (adapt (sh_begin_close h r operator_id session_id)) (\<lambda>closing.
     case closing of
       Some ((i, patch), False) \<Rightarrow> stage B e ''begin-sandbox-close'' (MoveSandbox i MoveClosing patch)
     | _ \<Rightarrow> give (Inr ())))))))"

section \<open>The dispatch\<close>

definition dispatching :: "('x, 'w) broker \<Rightarrow> string \<Rightarrow> dict \<Rightarrow> string option \<Rightarrow> ('x, 'w, unit) prog" where
  "dispatching B e execution reservation =
     seq (give (dreq execution ''state'')) (\<lambda>st.
     seq (if st = JStr ''prepared'' then stage B e ''admitted'' (TransitionTool e ''admitted'' [(''reservationId'', opt_text reservation)])
          else give (Inr ())) (\<lambda>_.
     stage B e ''dispatching'' (TransitionTool e ''dispatching'' [(''dispatchBoundary'', JStr ''started'')])))"

definition set_observed :: "string option \<Rightarrow> ('x, 'w, unit) prog" where
  "set_observed i m = (m\<lparr>mc_observed := i\<rparr>, Some (Inr ()))"

definition observed :: "('x, 'w, string option) prog" where
  "observed m = (m, Some (Inr (mc_observed m)))"

text \<open>\<^verbatim>\<open>observe_effect\<close>, the callback of the adapter.\<close>

definition observe_effect :: "('x, 'w) broker \<Rightarrow> tool_request \<Rightarrow> 'x adapter \<Rightarrow> string \<Rightarrow> ('x, 'w, unit) prog" where
  "observe_effect B r a i = (let e = execution_id B (tr_idempotencyKey r) in
     check (\<not> tr_consequential r) (AuthorityViolation ''pure read-only tool may not publish side-effect identity'') (
     check (i = []) (ValueError ''observed side-effect identity must be a non-empty string'') (
     check (2048 < length i) (ValueError ''observed side-effect identity exceeds ToolExecution bound'') (
     seq observed (\<lambda>before.
     case before of
       Some j \<Rightarrow> check (i \<noteq> j) (IntegrityViolation ''adapter attempted to replace observed side-effect identity'') (give (Inr ()))
     | None \<Rightarrow>
         seq (adapt_opt (map_option (\<lambda>h. sh_created h r i) (ad_sandbox a))) (\<lambda>created.
         seq (case created of
                Some (l, patch) \<Rightarrow> stage B e ''effect-observed'' (ObserveSandboxEffect e l i patch)
              | None \<Rightarrow> stage B e ''effect-observed'' (TransitionTool e ''effect_observed''
                  [(''sideEffectIdentity'', JStr i), (''dispatchBoundary'', JStr ''effect_observed'')])) (\<lambda>_.
         set_observed (Some i))))))))"

text \<open>The interpretation of a script, each published identity answered by the callback.\<close>

primrec play :: "(string \<Rightarrow> ('x, 'w, unit) prog) \<Rightarrow> 'x script \<Rightarrow> ('x, 'w, dict) prog" where
  "play publish (Finish x r) = (\<lambda>m. (m\<lparr>mc_world := x\<rparr>, Some r))"
| "play publish (Publish x i k) = (\<lambda>m. case publish i (m\<lparr>mc_world := x\<rparr>) of
     (m', None) \<Rightarrow> (m', None) | (m', Some r) \<Rightarrow> play publish (k r) m')"

definition play_on :: "(string \<Rightarrow> ('x, 'w, unit) prog) \<Rightarrow> ('x \<Rightarrow> 'x script) \<Rightarrow> ('x, 'w, dict) prog" where
  "play_on publish f m = play publish (f (mc_world m)) m"

definition log_effect :: "string \<Rightarrow> tool_request \<Rightarrow> ('x, 'w, unit) prog" where
  "log_effect e r m = (m\<lparr>mc_effects := mc_effects m @ [\<lparr>ef_execution = e, ef_request = r, ef_database = mc_db m\<rparr>]\<rparr>, Some (Inr ()))"

definition run_adapter :: "('x, 'w) broker \<Rightarrow> tool_request \<Rightarrow> 'x adapter \<Rightarrow> json \<Rightarrow> ('x, 'w, dict) prog" where
  "run_adapter B r a intent = (let log = log_effect (execution_id B (tr_idempotencyKey r)) r in case intent of
     JNull \<Rightarrow> seq log (\<lambda>_. case ad_execute_observed a of
         Some f \<Rightarrow> play_on (observe_effect B r a) (f r)
       | None \<Rightarrow> adapt (ad_execute a r))
   | JObj y \<Rightarrow> (case ad_execute_world_effect a of
         None \<Rightarrow> give (Inl (AuthorityViolation ''WORLD_RECEIPT_EFFECT_UNSUPPORTED''))
       | Some f \<Rightarrow> seq log (\<lambda>_. play_on (observe_effect B r a) (f r y)))
   | _ \<Rightarrow> give (Inl (TypeError ''object is not subscriptable'')))"

definition with_identity :: "string option \<Rightarrow> dict \<Rightarrow> dict res" where
  "with_identity published y = (case published of
     None \<Rightarrow> Inr y
   | Some i \<Rightarrow> (let returned = dget y ''sideEffectIdentity'' in
       if returned = JNull then Inr (dput y ''sideEffectIdentity'' (JStr i))
       else raise_if (returned \<noteq> JStr i) (IntegrityViolation ''adapter result side-effect identity disagrees with observed identity'') (Inr y)))"

text \<open>A receipt the target gave is verified against the intent and with the target.\<close>

definition verified_receipt :: "('x, 'w) broker \<Rightarrow> 'x adapter \<Rightarrow> dict \<Rightarrow> dict \<Rightarrow> ('x, 'w, unit) prog" where
  "verified_receipt B a intent receipt =
     seq (give (verify_world_receipt (broker_sha B) (broker_validator B) intent receipt)) (\<lambda>_.
     seq (case ad_verify_receipt a of None \<Rightarrow> give (Inr False) | Some f \<Rightarrow> adapt (f intent receipt)) (\<lambda>ok.
     check (\<not> ok) (IntegrityViolation ''WORLD_RECEIPT_TARGET_VERIFICATION_FAILED'') (give (Inr ()))))"

definition receipt_of :: "('x, 'w) broker \<Rightarrow> 'x adapter \<Rightarrow> json \<Rightarrow> dict \<Rightarrow> ('x, 'w, json) prog" where
  "receipt_of B a intent y = (case intent of
     JObj n \<Rightarrow> (case dget y ''worldReceipt'' of
         JObj receipt \<Rightarrow>
           seq (verified_receipt B a n receipt) (\<lambda>_.
           seq (give (receipt_side_effect_identity (broker_validator B) receipt)) (\<lambda>i.
           seq observed (\<lambda>published.
           check (published \<noteq> Some i) (IntegrityViolation ''WORLD_RECEIPT_OBSERVED_IDENTITY_MISMATCH'') (give (Inr (JObj receipt))))))
       | _ \<Rightarrow> give (Inl (IntegrityViolation ''WORLD_RECEIPT_MISSING_AFTER_EFFECT'')))
   | _ \<Rightarrow> give (Inr JNull))"

text \<open>What a failure after the dispatch leaves: unknown if there may be an effect, failed if not.\<close>

definition effect_failed :: "('x, 'w) broker \<Rightarrow> tool_request \<Rightarrow> py_error \<Rightarrow> ('x, 'w, dict) prog" where
  "effect_failed B r x =
     (if tr_consequential r then seq observed (\<lambda>published.
        indeterminate_result B (tr_toolRequestId r) (execution_id B (tr_idempotencyKey r))
          (''adapter failed after dispatch boundary: '' @ error_line x) (opt_text published))
      else failed_result B r ''error'' (error_line x))"

definition run_effect :: "('x, 'w) broker \<Rightarrow> tool_request \<Rightarrow> 'x adapter \<Rightarrow> json \<Rightarrow> ('x, 'w, dict \<times> json) prog" where
  "run_effect B r a intent =
     seq (catch
       (seq (run_adapter B r a intent) (\<lambda>y.
        seq observed (\<lambda>published.
        seq (give (with_identity published y)) (\<lambda>y'.
        seq (receipt_of B a intent y') (\<lambda>receipt. give (Inr (Inr (y', receipt))))))))
       (\<lambda>x. give (Inr (Inl x)))) (\<lambda>ended.
     case ended of
       Inl x \<Rightarrow> seq (effect_failed B r x) (\<lambda>result. give (Inr (result, JNull)))
     | Inr (y, receipt) \<Rightarrow>
         seq (catch (result_from_adapter B r y) (effect_failed B r)) (\<lambda>result. give (Inr (result, receipt))))"

section \<open>The settlement\<close>

definition outcome_of :: "json \<Rightarrow> string" where
  "outcome_of status = (if status = JStr ''succeeded'' then ''succeeded'' else if status = JStr ''indeterminate'' then ''indeterminate'' else ''failed'')"

definition finalize_capability :: "('x, 'w) broker \<Rightarrow> tool_request \<Rightarrow> string \<Rightarrow> string \<Rightarrow> consumption \<Rightarrow> dict \<Rightarrow> ('x, 'w, dict) prog" where
  "finalize_capability B r e g x result =
     catch (seq (stage B e ''finalize-capability'' (FinalizeUse g x)) (\<lambda>_. give (Inr result)))
       (\<lambda>err. indeterminate_result B (tr_toolRequestId r) e (''capability settlement failed after tool dispatch: '' @ error_line err)
          (dget result ''sideEffectIdentity''))"

text \<open>The result, and whether a settlement of the runtime has closed the execution already.\<close>

definition settle_capability :: "('x, 'w) broker \<Rightarrow> tool_request \<Rightarrow> string option \<Rightarrow> dict \<Rightarrow> lease_patch option \<Rightarrow> lease_patch option \<Rightarrow>
    ('x, 'w, dict \<times> bool) prog" where
  "settle_capability B r reservation result sandbox exec = (let e = execution_id B (tr_idempotencyKey r) in
     case reservation of
       None \<Rightarrow> give (Inr (result, False))
     | Some i \<Rightarrow> if \<not> tr_consequential r then give (Inr (result, False)) else
         seq (give (text_of (tr_leaseId r))) (\<lambda>l.
         seq (consumption_of B e i l (outcome_of (dget result ''status'')) (dget result ''sideEffectIdentity'')) (\<lambda>x.
         seq (give (text_of (tr_grantId r))) (\<lambda>g.
         case (exec, sandbox) of
           (Some (sl, patch), _) \<Rightarrow>
             seq (stage B e ''settle-persistent-sandbox-exec'' (SettleSandboxExec g x e sl result patch)) (\<lambda>_. give (Inr (result, True)))
         | (None, Some (sl, patch)) \<Rightarrow>
             if tr_operation r = ''sandbox.create'' then
               seq (stage B e ''settle-sandbox-create'' (SettleSandboxCreate g x e sl result patch)) (\<lambda>_. give (Inr (result, True)))
             else if tr_operation r = ''sandbox.close'' then
               seq (stage B e ''settle-sandbox-close'' (SettleSandboxClose g x e sl result patch)) (\<lambda>_. give (Inr (result, True)))
             else seq (finalize_capability B r e g x result) (\<lambda>y. give (Inr (y, False)))
         | (None, None) \<Rightarrow> seq (finalize_capability B r e g x result) (\<lambda>y. give (Inr (y, False)))))))"

definition reconciliation_note :: "dict \<Rightarrow> string option" where
  "reconciliation_note result =
     (if dget result ''status'' \<noteq> JStr ''indeterminate'' then None else
      Some (case dget result ''output'' of
        JList xs \<Rightarrow> (case List.map_filter (\<lambda>x. case x of JObj y \<Rightarrow> if dget y ''name'' = JStr ''reconciliation'' then Some (py_str (dget y ''value'')) else None
            | _ \<Rightarrow> None) xs of [] \<Rightarrow> ''external effect is indeterminate'' | v # _ \<Rightarrow> v)
      | _ \<Rightarrow> ''external effect is indeterminate''))"

definition settle :: "('x, 'w) broker \<Rightarrow> tool_request \<Rightarrow> 'x adapter \<Rightarrow> string option \<Rightarrow> dict \<times> json \<Rightarrow> ('x, 'w, dict) prog" where
  "settle B r a reservation effect = (let e = execution_id B (tr_idempotencyKey r) in
     seq (case ad_sandbox a of None \<Rightarrow> give (Inr None) | Some h \<Rightarrow> seq (ask_now B) (\<lambda>now. adapt (sh_terminal h r (fst effect) now))) (\<lambda>sandbox.
     seq (case ad_persistent_exec a of None \<Rightarrow> give (Inr None) | Some h \<Rightarrow> seq (ask_now B) (\<lambda>now. adapt (xh_terminal h r (fst effect) now))) (\<lambda>exec.
     seq (settle_capability B r reservation (fst effect) sandbox exec) (\<lambda>(result, closed).
     seq observed (\<lambda>published.
     seq (if closed then tool_state e
          else transition_terminal B e (if published \<noteq> None then ''effect_observed'' else ''dispatching'') result
            (reconciliation_note result) (snd effect)) (\<lambda>state.
     give (bnd (dreq state ''state'') (\<lambda>st. answer_of e result st False))))))))"

section \<open>execute\<close>

definition dispatch_effect :: "('x, 'w) broker \<Rightarrow> tool_request \<Rightarrow> string \<Rightarrow> string \<Rightarrow> dict \<Rightarrow> 'x adapter \<Rightarrow> ('x, 'w, dict) prog" where
  "dispatch_effect B r operator_id session_id execution a = (let e = execution_id B (tr_idempotencyKey r) in
     seq (reserve B r execution) (\<lambda>reservation.
     seq (case ad_sandbox a of
            Some h \<Rightarrow> if tr_consequential r then sandbox_admission B r operator_id session_id h else give (Inr ())
          | None \<Rightarrow> give (Inr ())) (\<lambda>_.
     seq (dispatching B e execution reservation) (\<lambda>_.
     seq (set_observed None) (\<lambda>_.
     seq (run_effect B r a (dget execution ''effectIntent'')) (\<lambda>effect.
     settle B r a reservation effect))))))"

definition execute :: "('x, 'w) broker \<Rightarrow> tool_request \<Rightarrow> string \<Rightarrow> string \<Rightarrow> ('x, 'w, dict) prog" where
  "execute B r operator_id session_id =
     then_on (admit_execution B r operator_id session_id) (\<lambda>(g, execution).
     then_on (authority_checks B r execution) (\<lambda>_.
     seq (hooks_validated B r operator_id session_id (rg_adapter g)) (\<lambda>_.
     then_on (preflight B r execution (rg_adapter g)) (\<lambda>_.
     dispatch_effect B r operator_id session_id execution (rg_adapter g)))))"

section \<open>Recovery\<close>

definition reconciled_success_result :: "('x, 'w) broker \<Rightarrow> dict \<Rightarrow> dict \<Rightarrow> ('x, 'w, dict) prog" where
  "reconciled_success_result B state receipt =
     seq (give (bnd (member_of state ''effectIntent'' ''basisVersion'') (\<lambda>b. bnd (dreq receipt ''observedStateDigest'') (\<lambda>z.
       bnd (text_item state ''toolExecutionId'') (\<lambda>e. bnd (text_item state ''toolRequestId'') (\<lambda>q.
       bnd (receipt_side_effect_identity (broker_validator B) receipt) (\<lambda>i. Inr (b, z, e, q, i)))))))) (\<lambda>(b, z, e, q, i).
     tool_result B (e @ '':reconciled'') q ''succeeded''
       [remark ''reconciliation'' ''target-local WorldReceipt verified after restart'',
        JObj [(''kind'', JStr ''string''), (''name'', JStr ''beforeDigest''), (''value'', b)],
        JObj [(''kind'', JStr ''string''), (''name'', JStr ''afterDigest''), (''value'', z)]] JNull (JStr i) JNull)"

definition recovery_failure_result :: "('x, 'w) broker \<Rightarrow> string \<Rightarrow> string \<Rightarrow> string \<Rightarrow> ('x, 'w, dict) prog" where
  "recovery_failure_result B e request_id reason =
     tool_result B (e @ '':recovery-failed'') request_id ''failed'' [remark ''reconciliation'' (take 16384 reason)] JNull JNull JNull"

text \<open>An admission that died after its reservation: nothing was dispatched, the use is given back.\<close>

definition recover_prepared :: "('x, 'w) broker \<Rightarrow> dict \<Rightarrow> ('x, 'w, dict option) prog" where
  "recover_prepared B state =
     seq (look (\<lambda>d. open_predispatch_reservation B d state)) (\<lambda>orphan.
     case orphan of
       None \<Rightarrow> give (Inr None)
     | Some i \<Rightarrow>
         seq (give (bnd (text_item state ''toolExecutionId'') (\<lambda>e. bnd (text_item state ''leaseId'') (\<lambda>l. bnd (text_item state ''grantId'') (\<lambda>g.
           bnd (text_item state ''toolRequestId'') (\<lambda>q. Inr (e, l, g, q))))))) (\<lambda>(e, l, g, q).
         seq (consumption_of B e i l ''failed'' JNull) (\<lambda>x.
         seq (recovery_failure_result B e q (''runtime recovered ToolExecution '' @ e
            @ '' with an open pre-dispatch capability reservation; no external dispatch occurred'')) (\<lambda>result.
         seq (stage B e ''recover-predispatch-settle'' (SettlePredispatch g x e result)) (\<lambda>_.
         seq (tool_state e) (\<lambda>t. give (Inr (Some t))))))))"

text \<open>The use of an execution is settled when it has one; \<open>reserved_use\<close> is what it names.\<close>

definition reserved_use :: "dict \<Rightarrow> (string \<times> string \<times> string) option" where
  "reserved_use state = (case (truthy_text (dget state ''reservationId''), truthy_text (dget state ''grantId''), truthy_text (dget state ''leaseId'')) of
     (Some i, Some g, Some l) \<Rightarrow> Some (i, g, l) | _ \<Rightarrow> None)"

definition settle_use :: "('x, 'w) broker \<Rightarrow> dict \<Rightarrow> string \<Rightarrow> string \<Rightarrow> string \<Rightarrow> json \<Rightarrow> ('x, 'w, unit) prog" where
  "settle_use B state e s outcome effect = (case reserved_use state of
     None \<Rightarrow> give (Inr ())
   | Some (i, g, l) \<Rightarrow> seq (consumption_of B e i l outcome effect) (\<lambda>x. stage B e s (FinalizeUse g x)))"

definition leave_indeterminate :: "('x, 'w) broker \<Rightarrow> dict \<Rightarrow> string \<Rightarrow> string \<Rightarrow> string \<Rightarrow> string \<Rightarrow> ('x, 'w, dict) prog" where
  "leave_indeterminate B state e from_state s reason =
     seq (give (text_item state ''toolRequestId'')) (\<lambda>q.
     seq (indeterminate_result B q e reason (dget state ''sideEffectIdentity'')) (\<lambda>result.
     seq (case reserved_use state of
            None \<Rightarrow> give (Inr ())
          | Some (i, g, l) \<Rightarrow> seq (consumption_of B e i l ''indeterminate'' (dget state ''sideEffectIdentity'')) (\<lambda>x.
              catch (stage B e s (FinalizeUse g x)) (\<lambda>_. give (Inr ())))) (\<lambda>_.
     transition_terminal B e from_state result (Some reason) JNull)))"

text \<open>
  What the target proves about an effect that was under way: \<open>Inr (Some t)\<close> settled as succeeded,
  \<open>Inr None\<close> no receipt, \<open>Inl\<close> why the proof was rejected.
\<close>

definition prove_effect :: "('x, 'w) broker \<Rightarrow> dict \<Rightarrow> string \<Rightarrow> string \<Rightarrow> 'x adapter \<Rightarrow> dict \<Rightarrow> dict \<Rightarrow> ('x, 'w, dict) prog" where
  "prove_effect B state e from_state a intent receipt =
     seq (verified_receipt B a intent receipt) (\<lambda>_.
     seq (reconciled_success_result B state receipt) (\<lambda>result.
     seq (settle_use B state e ''reconcile-capability'' ''succeeded'' (dget result ''sideEffectIdentity'')) (\<lambda>_.
     transition_terminal B e from_state result None (JObj receipt))))"

definition reconcile_with_target :: "('x, 'w) broker \<Rightarrow> dict \<Rightarrow> string \<Rightarrow> string \<Rightarrow> 'x adapter \<Rightarrow> ('x, 'w, string + dict option) prog" where
  "reconcile_with_target B state e from_state a = (case (dget state ''effectIntent'', ad_reconcile a) of
     (JObj intent, Some f) \<Rightarrow> if \<not> ad_supports_reconciliation a \<or> intent = [] then give (Inr (Inr None)) else
       catch (seq (adapt (f state)) (\<lambda>seen. case seen of
           None \<Rightarrow> give (Inr (Inr None))
         | Some receipt \<Rightarrow> seq (prove_effect B state e from_state a intent receipt) (\<lambda>t. give (Inr (Inr (Some t))))))
         (\<lambda>x. give (Inr (Inl (error_line x))))
   | _ \<Rightarrow> give (Inr (Inr None)))"

text \<open>Whether an effect in escrow can still be reversed.\<close>

definition reversible :: "'x adapter \<Rightarrow> json \<Rightarrow> ('x, 'w, string + bool) prog" where
  "reversible a intent = (case (intent, ad_verify_reversal_handle a) of
     (JObj n, Some f) \<Rightarrow>
       if dget n ''rollbackStrategy'' = JStr ''escrow'' \<and> truthy (dget n ''reversalHandle'')
       then catch (seq (adapt (f n)) (\<lambda>b. give (Inr (Inr b)))) (\<lambda>x. give (Inr (Inl (error_line x))))
       else give (Inr (Inr False))
   | _ \<Rightarrow> give (Inr (Inr False)))"

definition recovery_reason :: "string \<Rightarrow> string \<Rightarrow> json \<Rightarrow> string + bool \<Rightarrow> string" where
  "recovery_reason e from_state intent staged =
     ''runtime recovered ToolExecution '' @ e @ '' from '' @ from_state
     @ '' after dispatch boundary; no proven adapter reconciliation result or committed target receipt is available''
     @ (case staged of
          Inl err \<Rightarrow> ''; reconciliation proof rejected: '' @ err
        | Inr b \<Rightarrow> if b then ''; staged effect remains reversible via verified target-local handle ''
            @ (case intent of JObj n \<Rightarrow> py_str (dget n ''reversalHandle'') | _ \<Rightarrow> []) else [])"

definition recover_dispatched :: "('x, 'w) broker \<Rightarrow> dict \<Rightarrow> string \<Rightarrow> ('x, 'w, dict) prog" where
  "recover_dispatched B state from_state =
     seq (give (text_item state ''toolExecutionId'')) (\<lambda>e.
     case bnd (text_item state ''toolId'') (registry_require (bk_registry B)) of
       Inl x \<Rightarrow> leave_indeterminate B state e from_state ''missing-tool-capability''
         (''runtime recovered ToolExecution '' @ e @ '' from '' @ from_state @ '' but tool is not available for reconciliation: '' @ error_line x)
     | Inr g \<Rightarrow>
         seq (reconcile_with_target B state e from_state (rg_adapter g)) (\<lambda>proved.
         case proved of
           Inr (Some t) \<Rightarrow> give (Inr t)
         | _ \<Rightarrow>
           seq (case proved of Inl err \<Rightarrow> give (Inr (Inl err)) | Inr _ \<Rightarrow> reversible (rg_adapter g) (dget state ''effectIntent'')) (\<lambda>staged.
           leave_indeterminate B state e from_state ''reconcile-capability''
             (recovery_reason e from_state (dget state ''effectIntent'') staged))))"

definition recover_one :: "('x, 'w) broker \<Rightarrow> string \<Rightarrow> ('x, 'w, dict option) prog" where
  "recover_one B stream =
     seq (look (\<lambda>d. fetch the_tool d stream)) (\<lambda>state.
     seq (give (dreq state ''state'')) (\<lambda>st.
     case st of JStr s \<Rightarrow>
         if s = ''prepared'' then recover_prepared B state
         else if s \<in> {''dispatching'', ''effect_observed'', ''settling''}
         then seq (recover_dispatched B state s) (\<lambda>t. give (Inr (Some t)))
         else give (Inr None)
     | _ \<Rightarrow> give (Inr None)))"

fun recover_all :: "('x, 'w) broker \<Rightarrow> string list \<Rightarrow> ('x, 'w, dict list) prog" where
  "recover_all B [] = give (Inr [])"
| "recover_all B (s # rest) = seq (recover_one B s) (\<lambda>t. seq (recover_all B rest) (\<lambda>ts.
     give (Inr (case t of None \<Rightarrow> ts | Some x \<Rightarrow> x # ts))))"

definition reconcile_stranded :: "('x, 'w) broker \<Rightarrow> ('x, 'w, dict list) prog" where
  "reconcile_stranded B =
     seq (look (\<lambda>d. Inr (map fst (filter (\<lambda>(_, kind, _). kind = ''tool_execution'') (all_aggregates d))))) (recover_all B)"

end
