(* ===== verification/Service_Records.thy ===== *)
theory Service_Records
  imports Service_Runtime Checkpoint_Safety Capability_Safety
begin

text \<open>
  What the commands of the runtime may write. \<open>records\<close> is the step relation of the ledger: which event
  may be appended by whom to which stream, and which state it leaves there, given the states the
  streams hold and the facts recorded so far. Every append of every command is such a step
  (\<open>plan_sound\<close>), so what the relation keeps holds of every database the runtime can reach; the
  locale \<open>ledger_invariant\<close> is that argument, once.
\<close>

section \<open>Facts\<close>

text \<open>A fact is an event with its stream and the kind of its author.\<close>

type_synonym fact = "string \<times> event \<times> json"

definition author :: "event envelope \<Rightarrow> json" where
  "author e = (case map_of (ev_rest e) ''actor'' of None \<Rightarrow> JNull | Some a \<Rightarrow> dget (members a) ''kind'')"

definition fact_of :: "event envelope \<Rightarrow> fact" where
  "fact_of e = (ev_streamId e, ev_payload e, author e)"

definition facts :: "rt_db \<Rightarrow> fact set" where
  "facts d = fact_of ` set (opened_ledger d)"

lemma author_envelope [simp]: "author (envelope i s p md ab) = JStr (ac_kind (md_actor md))"
  by (simp add: author_def envelope_def members_def dget_def)

lemma envelope_simps [simp]:
  "ev_streamId (envelope i s p md ab) = s" "ev_payload (envelope i s p md ab) = p" "ev_eventId (envelope i s p md ab) = i"
  by (simp_all add: envelope_def)

lemma append_to_simps [simp]:
  "rq_stream_id (append_to s k v e a) = s" "rq_envelope (append_to s k v e a) = e" "rq_state (append_to s k v e a) = a"
  "rq_expected_version (append_to s k v e a) = v" "rq_kind (append_to s k v e a) = k"
  by (simp_all add: append_to_def)

section \<open>The step relation\<close>

fun cap_event :: "cap_op \<Rightarrow> event \<Rightarrow> bool" where
  "cap_event (ActivateLease l) ev = (ev = CapabilityLeaseActivated l)"
| "cap_event (Reserve r now) ev = (ev = CapabilityUseReserved r)"
| "cap_event (Finalize x) ev = (ev = CapabilityUseFinalized x)"
| "cap_event (Revoke v) ev = (ev = (if vq_targetKind v = ''grant'' then CapabilityGrantRevoked v else CapabilityLeaseRevoked v))"
| "cap_event (Expire t) ev = False"

text \<open>Only a human decides on an approval.\<close>

fun approval_event :: "approval_op \<Rightarrow> json \<Rightarrow> event \<Rightarrow> bool" where
  "approval_event (ApprovalDecide x now) who ev = (ev = HumanApprovalDecided x \<and> who = JStr ''human'')"
| "approval_event (ApprovalRevoke v) who ev = (ev = HumanApprovalRevoked v)"
| "approval_event (ApprovalConsume u t) who ev = (ev = HumanApprovalConsumed \<lparr>au_useId = u, au_consumedAt = t\<rparr>)"
| "approval_event ApprovalExpire who ev = False"

fun claim_event :: "claim_op \<Rightarrow> event \<Rightarrow> bool" where
  "claim_event (AttachEvidence i) ev = (ev = EvidenceRecorded i)"
| "claim_event (RecordVerification v) ev = (ev = ClaimVerified v)"
| "claim_event (Decide x) ev = (ev = ClaimGuardDecided x)"

definition decided :: "fact set \<Rightarrow> string \<Rightarrow> policy_decision \<Rightarrow> bool" where
  "decided F i p \<longleftrightarrow> (\<exists>s who. (s, PolicyEvaluated p, who) \<in> F) \<and> pd_policyDecisionId p = i"

text \<open>The consumption of an approval for a grant.\<close>

definition consumed_for :: "fact set \<Rightarrow> string \<Rightarrow> string \<Rightarrow> bool" where
  "consumed_for F q g \<longleftrightarrow> (\<exists>x who. (approval_stream_id q, OtherEvent ''HumanApprovalConsumedForCapability'' x, who) \<in> F
     \<and> dget x ''grantId'' = JStr g)"

text \<open>
  What an approval lets a capability do: the operations, scope, subject, uses, conditions and commitments
  the human saw, and no longer than the approval lasts.
\<close>

definition approves :: "approval \<Rightarrow> capability \<Rightarrow> bool" where
  "approves a c \<longleftrightarrow> set (cs_operations c) = set (ap_operations a) \<and> cs_capabilityId c = ap_requestedCapability a
     \<and> json_eq (ap_scope a) (scope_json (cs_scope c)) \<and> map_option ac_actorId (ap_capabilitySubject a) = Some (cs_subjectActorId c)
     \<and> cs_maxUses c = ap_capabilityMaxUses a \<and> cs_maxUses c \<noteq> None \<and> cs_validUntil c \<le> ap_expiresAt a
     \<and> same_conditions (ap_capabilityConditions a) (cs_conditions c) \<and> same_conditions (ap_externalCommitments a) (cs_externalCommitments c)"

definition backed :: "(string \<Rightarrow> agg option) \<Rightarrow> fact set \<Rightarrow> string \<Rightarrow> policy_decision \<Rightarrow> capability \<Rightarrow> bool" where
  "backed ld F q p c \<longleftrightarrow> pd_effect p \<in> {''allow'', ''allow_with_conditions''} \<and> consumed_for F q (cs_grantId c)
     \<and> (\<exists>a. ld (approval_stream_id q) = Some (AApproval a) \<and> approves a c)"

lemma approves_step:
  assumes step: "approval_step a op = Inr a'"
  shows "approves a' c = approves a c"
proof (cases op)
  case (ApprovalDecide d now)
  with step show ?thesis
    by (cases "ad_idempotencyKey d \<in> set (ap_decidedIdempotencyKeys a)") (simp_all add: approval_decide_Inr approves_def)
next
  case (ApprovalRevoke v)
  with step have "a' = a\<lparr>ap_state := ''revoked'', ap_revocation := Some v\<rparr>" by (simp add: approval_revoke_Inr)
  then show ?thesis by (simp add: approves_def)
next
  case ApprovalExpire
  with step have "a' = a \<or> a' = a\<lparr>ap_state := ''expired''\<rparr>" by (simp add: approval_mark_expired_def split: if_splits)
  then show ?thesis by (elim disjE) (simp_all add: approves_def)
next
  case (ApprovalConsume u now)
  with step obtain n where "a' = a\<lparr>ap_remainingUses := Some (n - 1),
      ap_consumedAt := Some now, ap_consumedBy := Some u, ap_state := (if n = 1 then ''consumed'' else ap_state a)\<rparr>"
    by (auto simp: approval_consume_Inr)
  then show ?thesis by (simp add: approves_def)
qed

definition sandbox_stream :: "string \<Rightarrow> string" where "sandbox_stream i = ''sandbox_lease-'' @ i"

inductive records :: "services \<Rightarrow> (string \<Rightarrow> agg option) \<Rightarrow> fact set \<Rightarrow> json \<Rightarrow> int \<Rightarrow> string \<Rightarrow> event \<Rightarrow> agg \<Rightarrow> bool"
  for S :: services and ld :: "string \<Rightarrow> agg option" and F :: "fact set" and who :: json and v :: int where
  mission_created: "records S ld F who v (mission_stream_id (sp_missionId x)) (MissionCreated x) (AMission (mission_create x))"
| policy: "ld s = Some (AMission m) \<Longrightarrow> policy_step p m = Inr m' \<Longrightarrow> ac_kind (pd_decidedBy p) = ''governance_kernel'' \<Longrightarrow>
    who = JStr ''governance_kernel'' \<Longrightarrow> records S ld F who v s (PolicyEvaluated p) (AMission m')"
| mission_moved: "ld s = Some (AMission m) \<Longrightarrow> mission_transition m t = Inr m' \<Longrightarrow>
    records S ld F who v s (MissionStateChanged t) (AMission m')"
| task_created: "records S ld F who v (task_stream_id (tn_taskId n)) (TaskCreated n) (ATask (task_create n))"
| task_moved: "ld s = Some (ATask x) \<Longrightarrow> task_transition x t r = Inr x' \<Longrightarrow> records S ld F who v s (TaskTransitioned t) (ATask x')"
| task_result: "ld s = Some (ATask x) \<Longrightarrow> task_transition (task_record_result x r) t None = Inr x' \<Longrightarrow>
    records S ld F who v s (TaskResultSubmitted r t) (ATask x')"
| granted: "decided F (gr_policyDecisionId g) p \<Longrightarrow> ac_kind (gr_issuedBy g) = ''governance_kernel'' \<Longrightarrow> who = JStr ''governance_kernel'' \<Longrightarrow>
    (\<And>q. gr_approvalRequestId g = Some q \<Longrightarrow> q \<noteq> [] \<Longrightarrow> backed ld F q p (cap_grant g)) \<Longrightarrow>
    records S ld F who v (capability_stream_id (gr_grantId g)) (CapabilityGranted g) (ACapability (cap_grant g))"
| capability_moved: "ld s = Some (ACapability c) \<Longrightarrow> cap_step c op = Inr c' \<Longrightarrow> cap_event op ev \<Longrightarrow> records S ld F who v s ev (ACapability c')"
| run_created: "driver_create r = Inr x \<Longrightarrow> records S ld F who v (driver_stream_id (dq_driverRunId r)) (DriverRunCreated r) (ADriverRun x)"
| run_moved: "ld s = Some (ADriverRun x) \<Longrightarrow> driver_transition x t None = Inr x' \<Longrightarrow> records S ld F who v s (DriverRunStateChanged t) (ADriverRun x')"
| boundary: "ld s = Some (ADriverRun x) \<Longrightarrow> record_dispatch_boundary x (be_dispatchBoundary b) (be_recordedAt b) = Inr x' \<Longrightarrow>
    records S ld F who v s (DriverRunDispatchBoundaryRecorded b) (ADriverRun x')"
| approval_requested: "v = 0 \<Longrightarrow> records S ld F who v (approval_stream_id (aq_requestId q)) (HumanApprovalRequested q) (AApproval (approval_create q))"
| approval_moved: "ld s = Some (AApproval a) \<Longrightarrow> approval_step a op = Inr a' \<Longrightarrow> approval_event op who ev \<Longrightarrow> records S ld F who v s ev (AApproval a')"
| approval_used: "ld s = Some (AApproval a) \<Longrightarrow> approval_consume a u t = Inr a' \<Longrightarrow> s = approval_stream_id q \<Longrightarrow>
    dget x ''requestId'' = JStr q \<Longrightarrow> records S ld F who v s (OtherEvent ''HumanApprovalConsumedForCapability'' x) (AApproval a')"
| claim_created: "records S ld F who v (claim_stream_id (cp_claimId c)) (ClaimCreated c) (AClaim (claim_propose c))"
| claim_moved: "ld s = Some (AClaim c) \<Longrightarrow> claim_step c op = Inr c' \<Longrightarrow> claim_event op ev \<Longrightarrow> records S ld F who v s ev (AClaim c')"
| tool_prepared: "tool_create (ct_dict (en_contracts (sv_env S))) x = Inr x \<Longrightarrow> dlook x ''toolExecutionId'' = Some (JStr i) \<Longrightarrow>
    records S ld F who v (tool_stream_id i) (ToolExecutionPrepared x) (AToolExecution x)"
| tool_moved: "ld s = Some (AToolExecution x) \<Longrightarrow> run (tool_step (ct_dict (en_contracts (sv_env S)))) x ops = Inr x' \<Longrightarrow>
    records S ld F who v s (ToolExecutionChanged k x') (AToolExecution x')"
| sandbox_reserved: "sandbox_reserve (ct_dict (en_contracts (sv_env S))) x = Inr x \<Longrightarrow> dlook x ''sandboxLeaseId'' = Some (JStr i) \<Longrightarrow>
    records S ld F who v (sandbox_stream i) (OtherEvent ''SandboxLeaseReserved'' [(''lease'', JObj x)]) (ASandboxLease x)"
| sandbox_moved: "ld s = Some (ASandboxLease x) \<Longrightarrow> sandbox_step (ct_dict (en_contracts (sv_env S))) x op = Inr x' \<Longrightarrow>
    records S ld F who v s (OtherEvent ''SandboxLeaseTransitioned'' y) (ASandboxLease x')"
| forked: "fork_create f = Inr x \<Longrightarrow> fs_forkId f = Some i \<Longrightarrow> records S ld F who v (fork_stream_id i) (ReplayForkCreated f) (AFork x)"

text \<open>
  The appends of one command, each on the states the ones before it left, under the kind of the
  aggregate it stores.
\<close>

fun kind_of :: "agg \<Rightarrow> string" where
  "kind_of (AMission _) = ''mission''"
| "kind_of (ATask _) = ''task''"
| "kind_of (ACapability _) = ''capability''"
| "kind_of (ADriverRun _) = ''driverrun''"
| "kind_of (AClaim _) = ''claim''"
| "kind_of (AApproval _) = ''human_approval''"
| "kind_of (AToolExecution _) = ''tool_execution''"
| "kind_of (ASandboxLease _) = ''sandbox_lease''"
| "kind_of (AFork _) = ''replay_fork''"
| "kind_of _ = []"

fun all_recorded :: "services \<Rightarrow> (string \<Rightarrow> agg option) \<Rightarrow> fact set \<Rightarrow> (event, agg) append_request list \<Rightarrow> bool" where
  "all_recorded S ld F [] = True"
| "all_recorded S ld F (a # as) =
     (ev_streamId (rq_envelope a) = rq_stream_id a \<and> rq_kind a = kind_of (rq_state a)
      \<and> records S ld F (author (rq_envelope a)) (rq_expected_version a) (rq_stream_id a) (ev_payload (rq_envelope a)) (rq_state a)
      \<and> all_recorded S (ld(rq_stream_id a \<mapsto> rq_state a)) (insert (fact_of (rq_envelope a)) F) as)"

section \<open>Each aggregate in its own stream\<close>

fun placed :: "string \<Rightarrow> agg \<Rightarrow> bool" where
  "placed s (AMission x) = (s = mission_stream_id (ms_missionId x))"
| "placed s (ATask x) = (s = task_stream_id (tk_taskId x))"
| "placed s (ACapability x) = (s = capability_stream_id (cs_grantId x))"
| "placed s (ADriverRun x) = (s = driver_stream_id (dr_driverRunId x))"
| "placed s (AClaim x) = (s = claim_stream_id (cm_claimId x))"
| "placed s (AApproval x) = (s = approval_stream_id (ap_requestId x))"
| "placed s (AToolExecution x) = (\<exists>i. dlook x ''toolExecutionId'' = Some (JStr i) \<and> s = tool_stream_id i)"
| "placed s (ASandboxLease x) = (\<exists>i. dlook x ''sandboxLeaseId'' = Some (JStr i) \<and> s = sandbox_stream i)"
| "placed s (AFork x) = (s = fork_stream_id (rf_forkId x))"
| "placed s _ = False"

definition typed :: "(string \<Rightarrow> agg option) \<Rightarrow> bool" where
  "typed ld \<longleftrightarrow> (\<forall>s a. ld s = Some a \<longrightarrow> placed s a)"

lemmas stream_ids = mission_stream_id_def task_stream_id_def capability_stream_id_def driver_stream_id_def claim_stream_id_def
  approval_stream_id_def tool_stream_id_def fork_stream_id_def sandbox_stream_def

lemma typed_at: "typed ld \<Longrightarrow> ld s = Some a \<Longrightarrow> placed s a"
  by (simp add: typed_def)

lemma driver_create_id: "driver_create r = Inr x \<Longrightarrow> dr_driverRunId x = dq_driverRunId r"
  by (auto simp: driver_create_def split: option.splits)

lemma fork_create_id: "fork_create f = Inr x \<Longrightarrow> fs_forkId f = Some (rf_forkId x)"
  by (auto simp: fork_create_def given_def)

lemma mission_ids: "mission_transition m t = Inr m' \<Longrightarrow> ms_missionId m' = ms_missionId m"
  "policy_step p m = Inr m' \<Longrightarrow> ms_missionId m' = ms_missionId m"
  by (auto simp: policy_step_def mission_transition_Inr mission_record_policy_decision_def Let_def split: if_splits)

lemma task_ids: "task_transition x t r = Inr x' \<Longrightarrow> tk_taskId x' = tk_taskId x"
  "task_transition (task_record_result x i) t r = Inr x' \<Longrightarrow> tk_taskId x' = tk_taskId x"
  by (auto simp: task_transition_Inr task_record_result_def)

lemma tool_run_id:
  "run (tool_step V) x ops = Inr x' \<Longrightarrow> dlook x' ''toolExecutionId'' = dlook x ''toolExecutionId''"
proof (induction ops arbitrary: x)
  case (Cons a ops)
  then obtain y where y: "tool_step V x a = Inr y" "run (tool_step V) y ops = Inr x'" by auto
  have "dlook y ''toolExecutionId'' = dlook x ''toolExecutionId''"
    using tool_step_facts[OF y(1)] by (simp add: TOOL_MUTABLE_FIELDS_def)
  with Cons.IH[OF y(2)] show ?case by simp
qed simp

lemma sandbox_step_id:
  assumes "sandbox_step V x op = Inr x'" and "dlook x ''sandboxLeaseId'' = Some (JStr i)"
  shows "dlook x' ''sandboxLeaseId'' = Some (JStr i)"
proof -
  have "json_eq (dget x' ''sandboxLeaseId'') (dget x ''sandboxLeaseId'') \<and> dhas x' ''sandboxLeaseId'' = dhas x ''sandboxLeaseId''"
    using sandbox_step_facts[OF assms(1), of "''sandboxLeaseId''"]
    by (simp add: SANDBOX_MUTABLE_FIELDS_def BIND_ONCE_FIELDS_def)
  then have "dhas x' ''sandboxLeaseId''" "json_eq (dget x' ''sandboxLeaseId'') (JStr i)"
    using assms(2) by (simp_all add: dhas_def dget_def)
  then show ?thesis by (cases "dget x' ''sandboxLeaseId''") (auto simp: dhas_def dget_def json_eq_def split: option.splits)
qed

lemma records_placed:
  assumes "records S ld F who v s ev a" and t: "typed ld"
  shows "placed s a"
  using assms(1)
proof cases
  case (capability_moved c op c')
  then show ?thesis using same_grant_step[of c op c'] typed_at[OF t capability_moved(2)] by (simp add: same_grant_def)
next
  case (tool_moved x ops x' k)
  then show ?thesis using tool_run_id[of _ x ops x'] typed_at[OF t tool_moved(3)] by simp
next
  case (sandbox_moved x op x' y)
  then show ?thesis using sandbox_step_id[of _ x op x'] typed_at[OF t sandbox_moved(3)] by auto
next
  case (approval_moved a op a')
  then show ?thesis using approval_ids[of a op a'] typed_at[OF t approval_moved(2)] by simp
next
  case (approval_used a u t' a' q x)
  then show ?thesis using typed_at[OF t approval_used(3)] by (auto simp: approval_consume_Inr)
next
  case (claim_moved c op c')
  then show ?thesis using claim_step_frame[of c op c'] typed_at[OF t claim_moved(2)] by simp
next
  case (boundary x b x')
  then show ?thesis using record_dispatch_boundary_Inr[of x] typed_at[OF t boundary(3)] by auto
next
  case (run_moved x t' x')
  then show ?thesis using typed_at[OF t run_moved(3)] by (auto simp: driver_transition_Inr)
next
  case (policy m p m')
  then show ?thesis using typed_at[OF t policy(3)] mission_ids(2) by simp
next
  case (mission_moved m t' m')
  then show ?thesis using typed_at[OF t mission_moved(3)] mission_ids(1) by simp
next
  case (task_moved x t' r x')
  then show ?thesis using typed_at[OF t task_moved(3)] task_ids(1) by simp
next
  case (task_result x r t' x')
  then show ?thesis using typed_at[OF t task_result(3)] task_ids(2) by simp
qed (auto simp: mission_create_def task_create_def cap_grant_def approval_create_def claim_propose_def
    driver_create_id fork_create_id)

end
