(* ===== verification/Service_Plans.thy ===== *)
theory Service_Plans
  imports Service_Records
begin

text \<open>
  Every command of the runtime writes only what the step relation allows: one lemma for each handler,
  put together in \<open>plan_sound\<close>.
\<close>

section \<open>Reading a plan\<close>

named_theorems plans "what the guards of an accepted plan say"

lemma contract_Inr [plans]: "contract v n x k = Inr y \<longleftrightarrow> v x = [] \<and> k = Inr y"
  by (auto simp: contract_def require_def Let_def)

lemma contract_dict_Inr [plans]: "contract_dict E n x k = Inr y \<longleftrightarrow> ct_dict (en_contracts E) n (JObj x) = [] \<and> k = Inr y"
  by (simp add: contract_dict_def contract_Inr)

lemma permit_Inr [plans]: "permit act md k = Inr y \<longleftrightarrow> require_authority act (ac_kind (md_actor md)) = Inr () \<and> k = Inr y"
  by (auto simp: permit_def)

lemma admit_Inr [plans]: "admit E act md k = Inr y \<longleftrightarrow>
    ct_metadata (en_contracts E) md = [] \<and> require_authority act (ac_kind (md_actor md)) = Inr () \<and> k = Inr y"
  by (simp add: admit_def contract_Inr permit_Inr)

lemma once_Inr [plans]: "once md d k = Inr y \<longleftrightarrow>
    (if find_idempotent d (md_idempotencyKey md) \<noteq> None then y = Append [] [] else k = Inr y)"
  by (auto simp: once_def)

lemma refuse_Inr [plans]: "refuse gs k = Inr y \<longleftrightarrow> list_all (\<lambda>(c, m). \<not> c) gs \<and> k = Inr y"
  by (induction gs) auto

lemma refusing_Inr [plans]: "refusing c code k = Inr y \<longleftrightarrow> c = Inr False \<and> k = Inr y"
  by (auto simp: refusing_def)

lemma fetch_Inr [plans]: "fetch pick d s = Inr x \<longleftrightarrow> (\<exists>a. load_state d s = Some a \<and> pick a = Some x)"
  by (auto simp: fetch_def require_state_def split: option.splits)

lemma pick_Some [simp]:
  "the_mission a = Some m \<longleftrightarrow> a = AMission m" "the_task a = Some t \<longleftrightarrow> a = ATask t"
  "the_capability a = Some c \<longleftrightarrow> a = ACapability c" "the_driver_run a = Some r \<longleftrightarrow> a = ADriverRun r"
  "the_claim a = Some k \<longleftrightarrow> a = AClaim k" "the_approval a = Some q \<longleftrightarrow> a = AApproval q"
  "the_tool a = Some x \<longleftrightarrow> a = AToolExecution x" "the_sandbox a = Some x \<longleftrightarrow> a = ASandboxLease x"
  by (cases a; auto)+

lemma amend_Inr [plans]: "amend md s k pick con op ev ab d = Inr (Append as ex) \<longleftrightarrow>
    (\<exists>a x x'. load_state d s = Some a \<and> pick a = Some x \<and> op x = Inr x'
      \<and> as = [append_to s k (aggregate_version d s) (envelope (ev1 md) s (ev x x') md (ab x)) (con x')] \<and> ex = [])"
  by (auto simp: amend_def fetch_Inr)

lemma only_by:
  "require_authority ''evaluate_policy'' k = Inr () \<Longrightarrow> k = ''governance_kernel''"
  "require_authority ''issue_grant'' k = Inr () \<Longrightarrow> k = ''governance_kernel''"
  "require_authority ''submit_human_approval_decision'' k = Inr () \<Longrightarrow> k = ''human''"
  by (auto simp: require_authority_def permitted_actors_def PERMITTED_def planes split: if_splits)

lemma decision_found: "ledger_inv H d \<Longrightarrow> find_policy_decision d i = Some p \<Longrightarrow> decided (facts d) i p"
proof -
  assume inv: "ledger_inv H d" and f: "find_policy_decision d i = Some p"
  from f have p: "p \<in> set (List.map_filter (\<lambda>e. the_policy (ev_payload e)) (read_events d 0))" "pd_policyDecisionId p = i"
    by (auto simp: find_policy_decision_def find_Some_iff in_set_conv_nth)
  then obtain e where "e \<in> set (opened_ledger d)" "the_policy (ev_payload e) = Some p"
    by (auto simp: map_filter_def read_opened[OF inv])
  moreover from this(2) have "ev_payload e = PolicyEvaluated p" by (cases "ev_payload e") auto
  ultimately show ?thesis using p(2) by (force simp: decided_def facts_def fact_of_def)
qed

section \<open>Missions and tasks\<close>

lemma sound_append_mission: "append_create_mission E x md d = Inr a \<Longrightarrow> all_recorded S ld F [a]"
  by (auto simp: append_create_mission_def plans Let_def intro: records.mission_created)

lemma sound_create_mission: "service_create_mission E x md d = Inr (Append as ex) \<Longrightarrow> all_recorded S ld F as"
  by (auto simp: service_create_mission_def plans simp del: all_recorded.simps(2) intro: sound_append_mission)

lemma sound_evaluate_policy: "service_evaluate_policy E p md d = Inr (Append as ex) \<Longrightarrow> all_recorded S (load_state d) F as"
  by (auto simp: service_evaluate_policy_def plans only_by(1) split: if_splits intro!: records.policy)

lemma sound_transition_mission: "service_transition_mission E i t v md d = Inr (Append as ex) \<Longrightarrow> all_recorded S (load_state d) F as"
  by (auto simp: service_transition_mission_def plans Let_def intro: records.mission_moved)

lemma sound_append_task: "append_create_task E n md d = Inr a \<Longrightarrow> all_recorded S ld F [a]"
  by (auto simp: append_create_task_def plans Let_def intro: records.task_created)

lemma sound_create_task: "service_create_task E n md d = Inr (Append as ex) \<Longrightarrow> all_recorded S ld F as"
  by (auto simp: service_create_task_def plans simp del: all_recorded.simps(2) intro: sound_append_task)

lemma sound_transition_task: "service_transition_task E i t r v md d = Inr (Append as ex) \<Longrightarrow> all_recorded S (load_state d) F as"
  by (auto simp: service_transition_task_def plans Let_def intro: records.task_moved)

lemma sound_cancel_task: "service_cancel_task E i md d = Inr (Append as ex) \<Longrightarrow> all_recorded S (load_state d) F as"
  by (auto simp: service_cancel_task_def plans Let_def state_answer_def split: if_splits intro: records.task_moved)

lemma sound_submit_result: "service_submit_result E i s r md d = Inr (Append as ex) \<Longrightarrow> all_recorded S (load_state d) F as"
  by (auto simp: service_submit_result_def plans Let_def split: if_splits intro: records.task_result)

section \<open>Capabilities and driver runs\<close>

lemma sound_issue_grant:
  assumes "ledger_inv H d" and "service_issue_grant E g md d = Inr (Append as ex)"
  shows "all_recorded S ld (facts d) as"
proof -
  from assms(2) obtain p where p: "find_policy_decision d (gr_policyDecisionId g) = Some p"
    by (auto simp: service_issue_grant_def plans)
  from decision_found[OF assms(1) p] assms(2) show ?thesis
    by (auto simp: service_issue_grant_def plans Let_def given_def only_by(2) intro!: records.granted)
qed

lemma sound_capability:
  "service_activate_lease E l md d = Inr (Append as ex) \<Longrightarrow> all_recorded S (load_state d) F as"
  "service_reserve_use E i r md d = Inr (Append as ex) \<Longrightarrow> all_recorded S (load_state d) F as"
  "service_finalize_use E i x md d = Inr (Append as ex) \<Longrightarrow> all_recorded S (load_state d) F as"
  "service_revoke E i v md d = Inr (Append as ex) \<Longrightarrow> all_recorded S (load_state d) F as"
  by (auto simp: service_activate_lease_def plans split: if_splits intro!: records.capability_moved[where op = "ActivateLease l"])
    (auto simp: service_reserve_use_def plans split: if_splits intro!: records.capability_moved[where op = "Reserve r (md_issuedAt md)"],
     auto simp: service_finalize_use_def plans split: if_splits intro!: records.capability_moved[where op = "Finalize x"],
     auto simp: service_revoke_def plans intro!: records.capability_moved[where op = "Revoke v"])

lemma sound_driver_run:
  "service_create_driver_run E q md d = Inr (Append as ex) \<Longrightarrow> all_recorded S (load_state d) F as"
  "service_transition_driver_run E i t md d = Inr (Append as ex) \<Longrightarrow> all_recorded S (load_state d) F as"
  "service_record_driver_dispatch_boundary E i b tick md d = Inr (Append as ex) \<Longrightarrow> all_recorded S (load_state d) F as"
  by (auto simp: service_create_driver_run_def plans Let_def intro: records.run_created)
    (auto simp: service_transition_driver_run_def plans intro: records.run_moved,
     auto simp: service_record_driver_dispatch_boundary_def plans intro!: records.boundary)

lemma sound_cancel_driver_run: "service_cancel_driver_run E i md d = Inr (Append as ex) \<Longrightarrow> all_recorded S (load_state d) F as"
  by (auto simp: service_cancel_driver_run_def plans state_answer_def simp del: all_recorded.simps(2) split: if_splits intro: sound_driver_run(2))

section \<open>Grants from approvals\<close>

lemma streams_differ [simp]:
  "approval_stream_id a \<noteq> capability_stream_id b" "capability_stream_id b \<noteq> approval_stream_id a"
  "approval_stream_id a \<noteq> driver_stream_id b" "driver_stream_id b \<noteq> approval_stream_id a"
  "capability_stream_id a \<noteq> tool_stream_id b" "tool_stream_id b \<noteq> capability_stream_id a"
  "claim_stream_id a \<noteq> task_stream_id b" "task_stream_id b \<noteq> claim_stream_id a"
  "mission_stream_id a \<noteq> task_stream_id b" "task_stream_id b \<noteq> mission_stream_id a"
  "mission_stream_id a \<noteq> approval_stream_id b" "approval_stream_id b \<noteq> mission_stream_id a"
  "task_stream_id a \<noteq> approval_stream_id b" "approval_stream_id b \<noteq> task_stream_id a"
  "fork_stream_id a \<noteq> mission_stream_id b" "mission_stream_id b \<noteq> fork_stream_id a"
  "sandbox_stream x \<noteq> capability_stream_id b" "capability_stream_id b \<noteq> sandbox_stream x"
  "sandbox_stream x \<noteq> tool_stream_id b" "tool_stream_id b \<noteq> sandbox_stream x"
  by (simp_all add: stream_ids)

lemma grant_consumption_keys [simp]:
  "dget (grant_consumption q u t a g) ''requestId'' = JStr q" "dget (grant_consumption q u t a g) ''grantId'' = JStr (gr_grantId g)"
  by (simp_all add: grant_consumption_def dget_def)

lemma agreement_approves: "list_all (\<lambda>(c, m). \<not> c) (agreement_guards a p g) \<Longrightarrow> approves a (cap_grant g)"
  by (auto simp: agreement_guards_def approves_def cap_grant_def)

lemma sound_issue_grant_from_human_approval:
  assumes inv: "ledger_inv H d"
    and plan: "service_issue_grant_from_human_approval E show q g u now md d = Inr (Append as ex)"
  shows "all_recorded S (load_state d) (facts d) as"
proof (cases "find_idempotent d (md_idempotencyKey md)")
  case (Some prior)
  with plan show ?thesis by (simp add: service_issue_grant_from_human_approval_def plans Let_def grant_answer_def)
next
  case None
  with plan obtain p where p: "find_policy_decision d (gr_policyDecisionId g) = Some p"
    by (auto simp: service_issue_grant_from_human_approval_def plans Let_def split: option.splits)
  let ?x = "grant_consumption q u (text_or (md_issuedAt md) now)"
  from plan None p have who: "ac_kind (md_actor md) = ''governance_kernel''" "ac_kind (gr_issuedBy g) = ''governance_kernel''"
      "gr_approvalRequestId g = Some q" "pd_effect p \<in> {''allow'', ''allow_with_conditions''}"
    using only_by(2) by (auto simp: service_issue_grant_from_human_approval_def plans Let_def)
  from plan None p obtain a a' ab v where a: "load_state d (approval_stream_id q) = Some (AApproval a)"
      "list_all (\<lambda>(c, m). \<not> c) (agreement_guards a p g)" "approval_consume a u (text_or (md_issuedAt md) now) = Inr a'"
      and as: "as = [append_to (approval_stream_id q) ''human_approval'' v
              (envelope (ev1 md) (approval_stream_id q) (OtherEvent ''HumanApprovalConsumedForCapability'' (?x a g)) md ab) (AApproval a'),
            append_to (capability_stream_id (gr_grantId g)) ''capability'' 0
              (envelope (md_commandId md @ ''-ev2'') (capability_stream_id (gr_grantId g)) (CapabilityGranted g) md ab) (ACapability (cap_grant g))]"
    by (simp add: service_issue_grant_from_human_approval_def plans Let_def) blast
  have "approves a' (cap_grant g)"
    using agreement_approves[OF a(2)] approves_step[of a "ApprovalConsume u (text_or (md_issuedAt md) now)" a'] a(3) by simp
  then have "records S ((load_state d)(approval_stream_id q \<mapsto> AApproval a'))
      (insert (approval_stream_id q, OtherEvent ''HumanApprovalConsumedForCapability'' (?x a g), JStr (ac_kind (md_actor md))) (facts d))
      (JStr (ac_kind (md_actor md))) 0 (capability_stream_id (gr_grantId g)) (CapabilityGranted g) (ACapability (cap_grant g))"
    using decision_found[OF inv p] who
    by (intro records.granted[of _ _ p]) (auto simp: decided_def consumed_for_def backed_def cap_grant_def intro!: exI[of _ "?x a g"])
  moreover have "records S (load_state d) (facts d) (JStr (ac_kind (md_actor md))) v (approval_stream_id q)
      (OtherEvent ''HumanApprovalConsumedForCapability'' (?x a g)) (AApproval a')"
    using a by (intro records.approval_used) simp_all
  ultimately show ?thesis by (simp add: as fact_of_def)
qed

section \<open>Approvals\<close>

lemma sound_append_approval: "append_request_human_approval E q md = Inr a \<Longrightarrow> all_recorded S ld F [a]"
  by (auto simp: append_request_human_approval_def plans Let_def intro: records.approval_requested)

lemma sound_request_approval: "service_request_human_approval E q md d = Inr (Append as ex) \<Longrightarrow> all_recorded S ld F as"
  by (auto simp: service_request_human_approval_def plans simp del: all_recorded.simps(2) split: if_splits intro: sound_append_approval)

lemma sound_submit_decision:
  "service_submit_human_approval_decision E i x now md d = Inr (Append as ex) \<Longrightarrow> all_recorded S (load_state d) F as"
  by (auto simp: service_submit_human_approval_decision_def plans Let_def state_answer_def only_by(3) split: if_splits
      intro!: records.approval_moved[where op = "ApprovalDecide x (text_or (if ad_decidedAt x = [] then md_issuedAt md else ad_decidedAt x) now)"])

lemma sound_admission:
  assumes "service_admit_approved_model_execution E cc m tick md d = Inr (Append as ex)"
  shows "all_recorded S (load_state d) F as"
proof -
  let ?s = "approval_stream_id (am_requestId m)" and ?r = "driver_stream_id (am_driverRunId m)"
  from assms obtain a a' b x ab v where a: "load_state d ?s = Some (AApproval a)" "approval_consume a (am_useId m) (tick 0) = Inr a'"
      and b: "driver_create (admitted_run m b) = Inr x"
      and as: "as = [append_to ?s ''human_approval'' v
              (envelope (ev1 md) ?s (HumanApprovalConsumed \<lparr>au_useId = am_useId m, au_consumedAt = tick 0\<rparr>) md ab) (AApproval a'),
            append_to ?r ''driverrun'' 0 (envelope (md_commandId md @ ''-ev2'') ?r (DriverRunCreated (admitted_run m b)) md ab) (ADriverRun x)]"
    by (auto simp: service_admit_approved_model_execution_def plans Let_def split: if_splits)
  have "dq_driverRunId (admitted_run m b) = am_driverRunId m" by (simp add: admitted_run_def)
  then show ?thesis
    using a records.run_created[OF b] unfolding as
    by (auto simp: fact_of_def intro!: records.approval_moved[where op = "ApprovalConsume (am_useId m) (tick 0)"])
qed

section \<open>Claims\<close>

lemma sound_claim_creation: "all_recorded S ld F [claim_creation c md d]"
  by (auto simp: claim_creation_def Let_def intro: records.claim_created)

lemma sound_propose_claim: "service_propose_claim E c p md d = Inr (Append as ex) \<Longrightarrow> all_recorded S ld F as"
  using sound_claim_creation[of S ld F c md d] by (auto simp: service_propose_claim_def plans simp del: all_recorded.simps(2))

lemma sound_evidence_appends:
  "evidence_appends E c x v rs = Inr as \<Longrightarrow> ld (claim_stream_id (cp_claimId c)) = Some (AClaim x) \<Longrightarrow> all_recorded S ld F as"
proof (induction rs arbitrary: x v as ld F)
  case (Cons r rs)
  obtain e emd where r: "r = (e, emd)" by force
  let ?s = "claim_stream_id (cp_claimId c)"
  from Cons.prems(1) obtain y ts ab where y: "claim_attach_evidence x (evd_evidenceId e) = Inr y"
      and ts: "evidence_appends E c y (v + 1) rs = Inr ts"
      and as: "as = append_to ?s ''claim'' v (envelope (ev1 emd) ?s (EvidenceRecorded (evd_evidenceId e)) emd ab) (AClaim y) # ts"
    by (auto simp: r plans Let_def)
  have "all_recorded S (ld(?s \<mapsto> AClaim y)) G ts" for G by (rule Cons.IH[OF ts]) simp
  with Cons.prems(2) y show ?case
    by (auto simp: as intro!: records.claim_moved[where op = "AttachEvidence (evd_evidenceId e)"])
qed simp

lemma sound_propose_claim_with_evidence:
  assumes "service_propose_claim_with_evidence E c p rs md d = Inr (Append as ex)"
  shows "all_recorded S ld F as"
proof -
  let ?s = "claim_stream_id (cp_claimId c)"
  from assms obtain v ts where ts: "evidence_appends E c (claim_propose c) v rs = Inr ts" and as: "as = claim_creation c md d # ts"
    by (auto simp: service_propose_claim_with_evidence_def plans)
  have "all_recorded S (ld(?s \<mapsto> AClaim (claim_propose c))) G ts" for G by (rule sound_evidence_appends[OF ts]) simp
  then show ?thesis by (auto simp: as claim_creation_def Let_def intro: records.claim_created)
qed

lemma sound_record_evidence: "service_record_evidence E i x md d = Inr (Append as ex) \<Longrightarrow> all_recorded S (load_state d) F as"
  by (auto simp: service_record_evidence_def plans intro!: records.claim_moved[where op = "AttachEvidence (evd_evidenceId x)"])

lemma sound_record_verification: "service_record_verification E v md d = Inr (Append as ex) \<Longrightarrow> all_recorded S (load_state d) F as"
  by (auto simp: service_record_verification_def plans Let_def intro!: records.claim_moved[where op = "RecordVerification (vr_body v)"])

lemma sound_decide_claim: "service_decide_claim E x md d = Inr (Append as ex) \<Longrightarrow> all_recorded S (load_state d) F as"
  by (auto simp: service_decide_claim_def plans intro!: records.claim_moved[where op = "Decide (cd_body x)"])

lemma recorded_claim_step:
  "ld s = Some (AClaim c) \<Longrightarrow> claim_attach_evidence c i = Inr c' \<Longrightarrow> records S ld F who n s (EvidenceRecorded i) (AClaim c')"
  "ld s = Some (AClaim c) \<Longrightarrow> claim_record_verification c v = Inr c' \<Longrightarrow> records S ld F who n s (ClaimVerified v) (AClaim c')"
  "ld s = Some (AClaim c) \<Longrightarrow> claim_decide c x = Inr c' \<Longrightarrow> records S ld F who n s (ClaimGuardDecided x) (AClaim c')"
  using records.claim_moved[of ld s c "AttachEvidence i" c'] records.claim_moved[of ld s c "RecordVerification v" c']
    records.claim_moved[of ld s c "Decide x" c'] by simp_all

text \<open>The four appends of a review are three steps of the claim and one of the task.\<close>

lemma recorded_review:
  assumes "ld cs = Some (AClaim c)" and "claim_attach_evidence c i = Inr c1" and "claim_record_verification c1 v = Inr c2"
    and "claim_decide c2 x = Inr c3" and "ld ts = Some (ATask t)" and "task_transition t to_state None = Inr t'" and "cs \<noteq> ts"
  shows "all_recorded S ld F
     [append_to cs ''claim'' n1 (envelope i1 cs (EvidenceRecorded i) m1 a1) (AClaim c1),
      append_to cs ''claim'' n2 (envelope i2 cs (ClaimVerified v) m2 a2) (AClaim c2),
      append_to cs ''claim'' n3 (envelope i3 cs (ClaimGuardDecided x) m3 a3) (AClaim c3),
      append_to ts ''task'' n4 (envelope i4 ts (TaskTransitioned to_state) m4 a4) (ATask t')]"
  using assms
  by (auto intro!: recorded_claim_step records.task_moved)

lemma sound_review_claim: "service_review_claim E i p u n md d = Inr (Append as ex) \<Longrightarrow> all_recorded S (load_state d) F as"
  by (auto simp: service_review_claim_def plans Let_def simp del: all_recorded.simps intro!: recorded_review)

end
