(* ===== verification/Service_Tool_Plans.thy ===== *)
theory Service_Tool_Plans
  imports Service_Plans
begin

text \<open>
  The commands on tool executions and persistent sandboxes write only what the step relation allows.
\<close>

section \<open>Tools and sandboxes\<close>

lemma text_item_Inr [plans]: "text_item x k = Inr s \<longleftrightarrow> dlook x k = Some (JStr s)"
  by (auto simp: text_item_def dreq_def split: option.splits json.splits)

lemma sandbox_stream_Inr [plans]: "sandbox_stream_id V i = Inr s \<longleftrightarrow> V ''StreamId'' (JStr s) = [] \<and> s = sandbox_stream i"
  by (auto simp: sandbox_stream_def sandbox_stream_id_def require_def Let_def)

lemma tool_step_run: "tool_transition V x t p = Inr x' \<Longrightarrow> run (tool_step V) x [(t, p)] = Inr x'"
  by simp

lemma complete_tool_run: "complete_tool V x dg r o' t = Inr x' \<Longrightarrow> \<exists>ops. run (tool_step V) x ops = Inr x'"
  by (rule exI[of _ "[(''settling'', settle_patch dg r o' ''settling'' [] t),
      (''completed'', settle_patch dg r o' ''settled'' [(''reconciliationReason'', JNull)] t)]"]) (simp add: complete_tool_def)

lemma sound_prepare_tool: "sv_env S = E \<Longrightarrow> service_prepare_tool_execution E x md d = Inr (Append as ex) \<Longrightarrow> all_recorded S ld F as"
  by (auto simp: service_prepare_tool_execution_def plans Let_def tool_create_Inr intro!: records.tool_prepared)

lemma sound_transition_tool:
  assumes "sv_env S = E" and "service_transition_tool_execution E i t p md d = Inr (Append as ex)"
  shows "all_recorded S (load_state d) F as"
  using assms by (auto simp: service_transition_tool_execution_def plans simp del: run.simps intro!: records.tool_moved tool_step_run)

text \<open>A settlement appends a finalised use, a terminated tool execution and a moved lease, in this order.\<close>

lemma sound_capability_append:
  assumes "ld (capability_stream_id g) = Some (ACapability c)" and "cap_finalize c x = Inr c'"
    and "\<And>G. all_recorded S (ld(capability_stream_id g \<mapsto> ACapability c')) G as"
  shows "all_recorded S ld F (capability_append g x c' md d # as)"
  using assms by (auto simp: capability_append_def Let_def intro!: records.capability_moved[where op = "Finalize x"])

lemma sound_tool_append:
  assumes "ld (tool_stream_id i) = Some (AToolExecution t)" and "run (tool_step (ct_dict (en_contracts (sv_env S)))) t ops = Inr t'"
    and "\<And>G. all_recorded S (ld(tool_stream_id i \<mapsto> AToolExecution t')) G as"
  shows "all_recorded S ld F (tool_append i k t' md d # as)"
  using assms by (auto simp: tool_append_def Let_def intro!: records.tool_moved)

lemma sound_sandbox_append:
  assumes S: "sv_env S = E" and t: "placed stream (ASandboxLease x)"
    and now: "ld stream = Some (ASandboxLease x)" and step: "sandbox_step (ct_dict (en_contracts E)) x op = Inr x'"
    and a: "sandbox_append E stream x x' md d = Inr a"
  shows "all_recorded S ld F [a]"
proof -
  from t obtain i where i: "dlook x ''sandboxLeaseId'' = Some (JStr i)" "stream = sandbox_stream i" by auto
  have "dlook x' ''sandboxLeaseId'' = Some (JStr i)" by (rule sandbox_step_id[OF step i(1)])
  with a i obtain y where "a = append_to stream ''sandbox_lease'' (aggregate_version d stream)
      (envelope (md_commandId md @ ''-sandbox'') stream (OtherEvent ''SandboxLeaseTransitioned'' y) md about_none) (ASandboxLease x')"
    by (auto simp: sandbox_append_def sandbox_transition_event_def plans)
  then show ?thesis using now step S by (auto intro: records.sandbox_moved)
qed

lemma sound_reserve_sandbox:
  assumes "sv_env S = E" and "service_reserve_sandbox_lease E x md d = Inr (Append as ex)"
  shows "all_recorded S ld F as"
  using assms
  by (auto simp: service_reserve_sandbox_lease_def sandbox_reserve_def plans Let_def split: if_splits intro!: records.sandbox_reserved)

lemma sandbox_mover_step: "sandbox_mover mv V x p = Inr x' \<Longrightarrow> \<exists>op. sandbox_step V x op = Inr x'"
proof (cases mv)
  case MoveClosing
  assume m: "sandbox_mover mv V x p = Inr x'"
  show ?thesis
  proof (cases "dlook x ''state'' = Some (JStr ''indeterminate'')")
    case True
    with m MoveClosing have "sandbox_step V x (Reconcile ''closing'' p) = Inr x'" by auto
    then show ?thesis ..
  next
    case False
    with m MoveClosing have "sandbox_step V x (BeginClose p) = Inr x'" by (auto split: if_splits)
    then show ?thesis ..
  qed
qed (simp_all, (metis sandbox_step.simps)+)

lemma sound_move_sandbox:
  assumes S: "sv_env S = E" and t: "typed (load_state d)" and plan: "transition_sandbox_lease E i (sandbox_mover mv) p md d = Inr (Append as ex)"
  shows "all_recorded S (load_state d) F as"
proof (cases "find_idempotent d (md_idempotencyKey md)")
  case None
  with plan obtain x x' a where x: "load_state d (sandbox_stream i) = Some (ASandboxLease x)"
      and x': "sandbox_mover mv (ct_dict (en_contracts E)) x (dsetdefault p ''updatedAt'' (JStr (md_issuedAt md))) = Inr x'"
      and a: "sandbox_append E (sandbox_stream i) x x' md d = Inr a" and as: "as = [a]"
    by (auto simp: transition_sandbox_lease_def plans)
  from sandbox_mover_step[OF x'] obtain op where "sandbox_step (ct_dict (en_contracts E)) x op = Inr x'" ..
  then show ?thesis unfolding as using x a typed_at[OF t x] by (intro sound_sandbox_append[OF S])
qed (use plan in \<open>simp add: transition_sandbox_lease_def plans\<close>)

lemma sound_predispatch:
  assumes S: "sv_env S = E" and plan: "service_settle_predispatch_tool_execution E g x i r md d = Inr (Append as ex)"
  shows "all_recorded S (load_state d) F as"
proof (cases "find_idempotent d (md_idempotencyKey md)")
  case None
  with plan obtain c c' t t' p where c: "load_state d (capability_stream_id g) = Some (ACapability c)" "cap_finalize c x = Inr c'"
      and t: "load_state d (tool_stream_id i) = Some (AToolExecution t)" "tool_transition (ct_dict (en_contracts E)) t ''failed'' p = Inr t'"
      and as: "as = [capability_append g x c' md d, tool_append i ToolTerminated t' md d]"
    by (auto simp: service_settle_predispatch_tool_execution_def predispatch_guards_def plans)
  show ?thesis unfolding as
    using c t(1) tool_step_run[OF t(2)] by (intro sound_capability_append[where c = c] sound_tool_append[where ops = "[(''failed'', p)]" and t = t]) (simp_all add: S)
qed (use plan in \<open>simp add: service_settle_predispatch_tool_execution_def plans\<close>)

lemma sound_observe_effect:
  assumes S: "sv_env S = E" and ty: "typed (load_state d)" and plan: "service_observe_sandbox_create_effect E i l e p md d = Inr (Append as ex)"
  shows "all_recorded S (load_state d) F as"
proof (cases "find_idempotent d (md_idempotencyKey md)")
  case None
  let ?V = "ct_dict (en_contracts E)"
  from plan None obtain t t' q x x' y a where t: "load_state d (tool_stream_id i) = Some (AToolExecution t)"
        "tool_transition ?V t ''effect_observed'' q = Inr t'"
      and x: "load_state d (sandbox_stream l) = Some (ASandboxLease x)" and x': "record_created ?V x y = Inr x'"
      and a: "sandbox_append E (sandbox_stream l) x x' md d = Inr a" and as: "as = [tool_append i ToolEffectObserved t' md d, a]"
    by (auto simp: service_observe_sandbox_create_effect_def plans Let_def)
  have step: "sandbox_step ?V x (RecordCreated y) = Inr x'" using x' by simp
  have "all_recorded S ((load_state d)(tool_stream_id i \<mapsto> AToolExecution t')) G [a]" for G
    using x step a typed_at[OF ty x] by (intro sound_sandbox_append[where op = "RecordCreated y", OF S]) simp_all
  with t(1) tool_step_run[OF t(2)] show ?thesis unfolding as by (intro sound_tool_append[where ops = "[(''effect_observed'', q)]" and t = t]) (simp_all add: S)
qed (use plan in \<open>simp add: service_observe_sandbox_create_effect_def plans Let_def\<close>)

text \<open>The three settlements of a sandbox.\<close>

lemma sound_settlement:
  assumes S: "sv_env S = E" and ty: "typed (load_state d)"
    and c: "load_state d (capability_stream_id g) = Some (ACapability c)" "cap_finalize c x = Inr c'"
    and t: "load_state d (tool_stream_id i) = Some (AToolExecution t)" "run (tool_step (ct_dict (en_contracts E))) t ops = Inr t'"
    and l: "load_state d (sandbox_stream l) = Some (ASandboxLease s)"
    and a: "case s' of None \<Rightarrow> as = [] | Some y \<Rightarrow> (\<exists>op a. sandbox_step (ct_dict (en_contracts E)) s op = Inr y
      \<and> sandbox_append E (sandbox_stream l) s y md d = Inr a \<and> as = [a])"
  shows "all_recorded S (load_state d) F (capability_append g x c' md d # tool_append i ToolTerminated t' md d # as)"
proof (rule sound_capability_append[where ld = "load_state d" and c = c and c' = c'], fact c(1), fact c(2), rule sound_tool_append)
  let ?ld = "(load_state d)(capability_stream_id g \<mapsto> ACapability c')"
  show "?ld (tool_stream_id i) = Some (AToolExecution t)" using t(1) by simp
  show "run (tool_step (ct_dict (en_contracts (sv_env S)))) t ops = Inr t'" using t(2) by (simp add: S)
  show "all_recorded S (?ld(tool_stream_id i \<mapsto> AToolExecution t')) G as" for G
  proof (cases s')
    case (Some y)
    with a obtain op b where b: "sandbox_step (ct_dict (en_contracts E)) s op = Inr y"
        "sandbox_append E (sandbox_stream l) s y md d = Inr b" and as: "as = [b]" by auto
    show ?thesis unfolding as using l b typed_at[OF ty l] by (intro sound_sandbox_append[OF S]) simp_all
  qed (use a in simp)
qed

lemma quarantine_step: "quarantine_lease V s p r t = Inr s' \<Longrightarrow> \<exists>op. sandbox_step V s op = Inr s'"
  using sandbox_step.simps(5) by (metis quarantine_lease_def)

lemma running_step: "record_running V s q = Inr s' \<Longrightarrow> \<exists>op. sandbox_step V s op = Inr s'"
  using sandbox_step.simps(2) by metis

lemma settled_tool:
  "complete_tool V t dg r o' w = Inr t' \<Longrightarrow> \<exists>ops. run (tool_step V) t ops = Inr t'"
  "indeterminate_tool V t dg r o' why w = Inr t' \<Longrightarrow> \<exists>ops. run (tool_step V) t ops = Inr t'"
  by (rule complete_tool_run) (auto simp: indeterminate_tool_def simp del: run.simps dest!: tool_step_run)

lemma sound_settle_create:
  assumes S: "sv_env S = E" and ty: "typed (load_state d)" and plan: "service_settle_sandbox_create E g x i l r p md d = Inr (Append as ex)"
  shows "all_recorded S (load_state d) F as"
proof (cases "find_idempotent d (md_idempotencyKey md)")
  case None
  let ?V = "ct_dict (en_contracts E)" and ?w = "md_issuedAt md"
  from plan None obtain c c' t t' s s' a dg eff ok why q where c: "load_state d (capability_stream_id g) = Some (ACapability c)" "cap_finalize c x = Inr c'"
      and t: "load_state d (tool_stream_id i) = Some (AToolExecution t)"
      and s: "load_state d (sandbox_stream l) = Some (ASandboxLease s)"
      and step: "(if ok then bnd (record_running ?V s q) (\<lambda>s'. bnd (complete_tool ?V t dg r eff ?w) (\<lambda>t'. Inr (s', t')))
         else bnd (quarantine_lease ?V s p why ?w) (\<lambda>s'. bnd (indeterminate_tool ?V t dg r eff why ?w) (\<lambda>t'. Inr (s', t')))) = Inr (s', t')"
      and a: "sandbox_append E (sandbox_stream l) s s' md d = Inr a"
      and as: "as = [capability_append g x c' md d, tool_append i ToolTerminated t' md d, a]"
    by (simp add: service_settle_sandbox_create_def settlement_entry_def plans Let_def split_paired_Ex cong: if_cong) blast
  have "\<exists>ops. run (tool_step ?V) t ops = Inr t'" using step by (auto split: if_splits dest!: settled_tool)
  moreover have "\<exists>op. sandbox_step ?V s op = Inr s'" using step by (auto split: if_splits dest!: quarantine_step running_step)
  ultimately obtain ops op where "run (tool_step ?V) t ops = Inr t'" "sandbox_step ?V s op = Inr s'" by blast
  then show ?thesis unfolding as using a by (intro sound_settlement[where c = c and t = t and s = s and s' = "Some s'", OF S ty c t _ s]) auto
qed (use plan in \<open>simp add: service_settle_sandbox_create_def settlement_entry_def plans Let_def\<close>)

lemma sound_settle_exec:
  assumes S: "sv_env S = E" and ty: "typed (load_state d)"
    and plan: "service_settle_sandbox_exec_indeterminate E g x i l r p md d = Inr (Append as ex)"
  shows "all_recorded S (load_state d) F as"
proof (cases "find_idempotent d (md_idempotencyKey md)")
  case None
  let ?V = "ct_dict (en_contracts E)"
  from plan None obtain c c' t t' s s' a dg eff why where c: "load_state d (capability_stream_id g) = Some (ACapability c)" "cap_finalize c x = Inr c'"
      and t: "load_state d (tool_stream_id i) = Some (AToolExecution t)"
      and s: "load_state d (sandbox_stream l) = Some (ASandboxLease s)"
      and step: "quarantine_lease ?V s p why (md_issuedAt md) = Inr s'" "indeterminate_tool ?V t dg r eff why (md_issuedAt md) = Inr t'"
      and a: "sandbox_append E (sandbox_stream l) s s' md d = Inr a"
      and as: "[capability_append g x c' md d, tool_append i ToolTerminated t' md d, a] = as"
    apply (simp add: service_settle_sandbox_exec_indeterminate_def settlement_entry_def plans Let_def)
    apply (elim exE conjE)
    subgoal premises q by (rule q(1); rule q)
    done
  from settled_tool(2)[OF step(2)] quarantine_step[OF step(1)]
  obtain ops op where "run (tool_step ?V) t ops = Inr t'" "sandbox_step ?V s op = Inr s'" by blast
  with a show ?thesis unfolding as[symmetric] by (intro sound_settlement[OF S ty c t _ s, where s' = "Some s'"]) auto
qed (use plan in \<open>simp add: service_settle_sandbox_exec_indeterminate_def settlement_entry_def plans Let_def\<close>)

lemma close_lease_step: "close_lease V s p w = Inr (Some s') \<Longrightarrow> \<exists>op. sandbox_step V s op = Inr s'"
  by (auto simp: close_lease_def split: if_splits simp flip: sandbox_step.simps(4))

lemma sound_settle_close:
  assumes S: "sv_env S = E" and ty: "typed (load_state d)" and plan: "service_settle_sandbox_close E g x i l r p md d = Inr (Append as ex)"
  shows "all_recorded S (load_state d) F as"
proof (cases "find_idempotent d (md_idempotencyKey md)")
  case None
  let ?V = "ct_dict (en_contracts E)" and ?w = "md_issuedAt md"
  from plan None obtain c c' t t' s s' bs dg eff ok why where c: "load_state d (capability_stream_id g) = Some (ACapability c)" "cap_finalize c x = Inr c'"
      and t: "load_state d (tool_stream_id i) = Some (AToolExecution t)"
      and s: "load_state d (sandbox_stream l) = Some (ASandboxLease s)"
      and step: "(if ok then bnd (quarantine_lease ?V s p why ?w) (\<lambda>s'. bnd (indeterminate_tool ?V t dg r eff why ?w) (\<lambda>t'. Inr (Some s', t')))
         else bnd (close_lease ?V s p ?w) (\<lambda>s'. bnd (complete_tool ?V t dg r eff ?w) (\<lambda>t'. Inr (s', t')))) = Inr (s', t')"
      and bs: "lease_append E (sandbox_stream l) s s' md d = Inr bs"
      and as: "as = capability_append g x c' md d # tool_append i ToolTerminated t' md d # bs"
    by (simp add: service_settle_sandbox_close_def settlement_entry_def plans Let_def split_paired_Ex cong: if_cong) blast
  have "\<exists>ops. run (tool_step ?V) t ops = Inr t'" using step by (auto split: if_splits dest!: settled_tool)
  then obtain ops where "run (tool_step ?V) t ops = Inr t'" by blast
  moreover have "case s' of None \<Rightarrow> bs = [] | Some y \<Rightarrow> (\<exists>op a. sandbox_step ?V s op = Inr y
      \<and> sandbox_append E (sandbox_stream l) s y md d = Inr a \<and> bs = [a])"
  proof (cases s')
    case (Some y)
    with step have "\<exists>op. sandbox_step ?V s op = Inr y" by (auto split: if_splits dest!: quarantine_step close_lease_step)
    with bs Some show ?thesis by (auto simp: lease_append_def)
  qed (use bs in \<open>simp add: lease_append_def\<close>)
  ultimately show ?thesis unfolding as by (rule sound_settlement[OF S ty c t _ s])
qed (use plan in \<open>simp add: service_settle_sandbox_close_def settlement_entry_def plans Let_def\<close>)

end
