(* ===== verification/Service_Mission_Plans.thy ===== *)
theory Service_Mission_Plans
  imports Service_Tool_Plans
begin

text \<open>
  The commands on whole missions write only what the step relation allows, and so, in \<open>plan_sound\<close>,
  does every command of the runtime.
\<close>

section \<open>Creations\<close>

text \<open>A creation is allowed whatever the streams hold, so creations may stand in any order.\<close>

lemma recorded_creation:
  "(\<And>G ld'. all_recorded S ld' G [a]) \<Longrightarrow> (\<And>G ld'. all_recorded S ld' G as) \<Longrightarrow> all_recorded S ld F (a # as)"
  by simp

lemma sound_create_mission_with_approval:
  assumes plan: "service_create_mission_with_approval E V x tick md d = Inr (Append as ex)"
  shows "all_recorded S ld F as"
proof (cases "in_requiresApproval x")
  case False
  with plan obtain a1 a2 n y ab where a: "append_create_mission E n md d = Inr a1" "append_create_task E y ab d = Inr a2" and as: "as = [a1, a2]"
    by (auto simp: service_create_mission_with_approval_def plans Let_def mission_result_answer_def split: option.splits)
  show ?thesis unfolding as by (rule recorded_creation) (rule sound_append_mission[OF a(1)], rule sound_append_task[OF a(2)])
next
  case True
  with plan obtain a1 a2 a3 n y ab q bb where a: "append_create_mission E n md d = Inr a1" "append_create_task E y ab d = Inr a2"
      "append_request_human_approval E q bb = Inr a3" and as: "as = [a1, a2, a3]"
    by (auto simp: service_create_mission_with_approval_def plans Let_def mission_result_answer_def split: option.splits)
  show ?thesis unfolding as
    by (rule recorded_creation, rule sound_append_mission[OF a(1)], rule recorded_creation)
      (rule sound_append_task[OF a(2)], rule sound_append_approval[OF a(3)])
qed

lemma sound_plan_task: "service_plan_task E V x tick md d = Inr (Append as ex) \<Longrightarrow> all_recorded S ld F as"
  by (auto simp: service_plan_task_def plans Let_def simp del: all_recorded.simps(2) split: option.splits if_splits intro: sound_append_task)

lemma sound_create_fork:
  assumes plan: "service_create_replay_fork E R sh i n x r md d = Inr (Append as ex)"
  shows "all_recorded S ld F as"
proof (cases "find_idempotent d (md_idempotencyKey md)")
  case None
  from plan None obtain st id y a where f: "fork_create (fork_record i n id st (sp_missionId x) r md) = Inr y"
      and a: "append_create_mission E x md d = Inr a"
      and as: "as = [append_to (fork_stream_id i) ''replay_fork'' 0 (envelope (md_commandId md @ ''-fork'') (fork_stream_id i)
        (ReplayForkCreated (fork_record i n id st (sp_missionId x) r md)) md (about_none\<lparr>ab_mission := Some (sp_missionId x)\<rparr>)) (AFork y), a]"
    by (simp add: service_create_replay_fork_def plans Let_def) blast
  have "fs_forkId (fork_record i n id st (sp_missionId x) r md) = Some i" by (simp add: fork_record_def)
  note forked = records.forked[OF f this]
  show ?thesis unfolding as by (rule recorded_creation) (simp add: forked, rule sound_append_mission[OF a])
qed (use plan in \<open>auto simp: service_create_replay_fork_def plans Let_def\<close>)

lemma sound_create_fork_from_intent:
  "service_create_replay_fork_from_intent E R sh V i n r x tick md d = Inr (Append as ex) \<Longrightarrow> all_recorded S ld F as"
  by (auto simp: service_create_replay_fork_from_intent_def plans simp del: all_recorded.simps(2) intro: sound_create_fork)

section \<open>The disposition of a mission\<close>

text \<open>What a human settles, stream by stream.\<close>

fun settles :: "services \<Rightarrow> (string \<Rightarrow> agg option) \<Rightarrow> settled list \<Rightarrow> bool" where
  "settles S ld [] = True"
| "settles S ld (x # xs) = (st_kind x = kind_of (st_state x) \<and> (\<forall>F. records S ld F (JStr ''human'') (st_version x) (st_stream x) (st_event x) (st_state x))
     \<and> settles S (ld(st_stream x \<mapsto> st_state x)) xs)"

definition after_settled :: "(string \<Rightarrow> agg option) \<Rightarrow> settled list \<Rightarrow> string \<Rightarrow> agg option" where
  "after_settled ld xs = foldl (\<lambda>l x. l(st_stream x \<mapsto> st_state x)) ld xs"

lemma settles_append: "settles S ld (xs @ ys) \<longleftrightarrow> settles S ld xs \<and> settles S (after_settled ld xs) ys"
  by (induction xs arbitrary: ld) (simp_all add: after_settled_def)

lemma after_settled_other: "s \<notin> st_stream ` set xs \<Longrightarrow> after_settled ld xs s = ld s"
  by (induction xs arbitrary: ld) (simp_all add: after_settled_def)

lemma settled_recorded:
  assumes "ac_kind (md_actor md) = ''human''"
  shows "settles S ld xs \<Longrightarrow> all_recorded S ld F (map (\<lambda>(n, x). append_to (st_stream x) (st_kind x) (st_version x)
     (envelope (md_commandId md @ ''-ev'' @ str_int (int n)) (st_stream x) (st_event x) md (ab x)) (st_state x)) (enumerate k xs))"
  using assms by (induction xs arbitrary: ld F k) auto

lemma cancel_tasks_settles:
  "cancel_tasks d rows = Inr xs \<Longrightarrow> distinct (map fst rows) \<Longrightarrow>
     (\<And>r. r \<in> set rows \<Longrightarrow> ld (task_stream_id (fst r)) = load_state d (task_stream_id (fst r))) \<Longrightarrow>
     settles S ld xs \<and> st_stream ` set xs \<subseteq> range task_stream_id"
proof (induction rows arbitrary: xs ld)
  case (Cons r rows)
  obtain i s v where r: "r = (i, s, v)" by (cases r)
  show ?case
  proof (cases "s \<in> {''succeeded'', ''failed'', ''cancelled''}")
    case True
    with Cons r show ?thesis by (auto split: if_splits)
  next
    case False
    with Cons.prems(1) r obtain t t' ys where t: "load_state d (task_stream_id i) = Some (ATask t)" "task_transition t ''cancelled'' None = Inr t'"
        and ys: "cancel_tasks d rows = Inr ys"
        and xs: "xs = \<lparr>st_stream = task_stream_id i, st_kind = ''task'', st_version = aggregate_version d (task_stream_id i), st_state = ATask t',
              st_event = TaskTransitioned ''cancelled'', st_task = Some i\<rparr> # ys"
      by (auto simp: plans Let_def split: if_splits)
    have "i \<notin> fst ` set rows" using Cons.prems(2) r by simp
    then have "settles S (ld(task_stream_id i \<mapsto> ATask t')) ys \<and> st_stream ` set ys \<subseteq> range task_stream_id"
      using Cons.prems(2,3) r by (intro Cons.IH[OF ys]) (auto simp: task_stream_id_def)
    moreover have "ld (task_stream_id i) = Some (ATask t)" using Cons.prems(3)[of r] t(1) r by simp
    ultimately show ?thesis using t(2) by (auto simp: xs intro: records.task_moved)
  qed
qed simp

lemma settled_approval:
  assumes "load_state d s = Some (AApproval a)" and "ld s = load_state d s"
  shows "approval_revoke a v = Inr a' \<Longrightarrow> records S ld F (JStr ''human'') n s (HumanApprovalRevoked v) (AApproval a')"
    and "approval_decide a x now = Inr a' \<Longrightarrow> records S ld F (JStr ''human'') n s (HumanApprovalDecided x) (AApproval a')"
  using assms records.approval_moved[of ld s a "ApprovalRevoke v"] records.approval_moved[of ld s a "ApprovalDecide x now"] by simp_all

lemma settle_approvals_settles:
  "settle_approvals E target reason md d rows = Inr xs \<Longrightarrow> distinct (map fst rows) \<Longrightarrow>
     (\<And>r. r \<in> set rows \<Longrightarrow> ld (approval_stream_id (fst r)) = load_state d (approval_stream_id (fst r))) \<Longrightarrow>
     settles S ld xs \<and> st_stream ` set xs \<subseteq> range approval_stream_id"
proof (induction rows arbitrary: xs ld)
  case (Cons r rows)
  obtain i s v where r: "r = (i, s, v)" by (cases r)
  let ?s = "approval_stream_id i"
  show ?case
  proof (cases "s = ''approved'' \<and> target = ''cancel_revoke'' \<or> s = ''requested''")
    case False
    with Cons.prems(1) r have "settle_approvals E target reason md d rows = Inr xs" by (auto simp: Let_def)
    then show ?thesis by (rule Cons.IH) (use Cons.prems(2,3) in auto)
  next
    case True
    with Cons.prems(1) r obtain a a' ys ev where a: "load_state d ?s = Some (AApproval a)"
        and step: "\<exists>w. approval_revoke a w = Inr a' \<and> ev = HumanApprovalRevoked w \<or> approval_decide a (denial reason md) (md_issuedAt md) = Inr a' \<and> ev = HumanApprovalDecided (denial reason md)"
        and ys: "settle_approvals E target reason md d rows = Inr ys"
        and xs: "xs = \<lparr>st_stream = ?s, st_kind = ''human_approval'', st_version = aggregate_version d ?s, st_state = AApproval a',
              st_event = ev, st_task = Some (ap_taskId a)\<rparr> # ys"
      by (auto simp: plans Let_def split: if_splits)
    have "i \<notin> fst ` set rows" using Cons.prems(2) r by simp
    then have "settles S (ld(?s \<mapsto> AApproval a')) ys \<and> st_stream ` set ys \<subseteq> range approval_stream_id"
      using Cons.prems(2,3) r by (intro Cons.IH[OF ys]) (auto simp: approval_stream_id_def)
    moreover have "ld ?s = load_state d ?s" using Cons.prems(3)[of r] r by simp
    ultimately show ?thesis using step settled_approval[OF a, of ld] by (auto simp: xs)
  qed
qed simp

lemma dispose_states_settles:
  assumes "dispose_states target m = Inr ms" and "ld s = Some (AMission m)"
  shows "settles S ld (mission_events s v ms)"
  using assms by (auto simp: dispose_states_def mission_events_def mission_transition_Inr enumerate_Suc_eq split: if_splits
      intro!: records.mission_moved)

text \<open>No stream is listed twice, and each row names its own stream.\<close>

lemma distinct_filtered:
  assumes "\<And>x r. x \<in> set xs \<Longrightarrow> f x = Some r \<Longrightarrow> fst x = stream (fst r)"
  shows "distinct (map fst xs) \<Longrightarrow> distinct (map fst (List.map_filter f xs)) \<and> stream ` fst ` set (List.map_filter f xs) \<subseteq> fst ` set xs"
  using assms
proof (induction xs)
  case (Cons x xs)
  then have IH: "distinct (map fst (List.map_filter f xs))" "stream ` fst ` set (List.map_filter f xs) \<subseteq> fst ` set xs" by auto
  show ?case
  proof (cases "f x")
    case (Some r)
    have "fst x = stream (fst r)" using Cons.prems(2)[of x r] Some by simp
    moreover have "fst x \<notin> fst ` set xs" using Cons.prems(1) by simp
    ultimately have "fst r \<notin> fst ` set (List.map_filter f xs)" using IH(2) by (metis image_eqI subsetD)
    with IH Some Cons.prems(2)[of x r] show ?thesis by (auto simp: map_filter_simps)
  qed (use IH in \<open>auto simp: map_filter_simps\<close>)
qed (simp add: map_filter_simps)

lemma distinct_sort: "distinct (map f (sort_key g xs)) \<longleftrightarrow> distinct (map f xs)"
  by (metis mset_map mset_sort mset_eq_imp_distinct_iff)

lemma distinct_rows:
  assumes "keyed d" and "\<And>i a x v r. load_state d i = Some a \<Longrightarrow> pick a = Some x \<Longrightarrow> row x v = Some r \<Longrightarrow> i = stream (fst r)"
  shows "distinct (map fst (rows_of d kind pick row))"
proof -
  have "distinct (map fst (all_aggregates d))"
    using assms(1) by (simp add: keyed_def all_aggregates_def distinct_sort comp_def case_prod_unfold)
  then show ?thesis
    unfolding rows_of_def using assms(2)
    by (intro distinct_filtered[where stream = stream, THEN conjunct1]) (auto split: if_splits simp: Option.bind_eq_Some_conv)
qed

lemma distinct_mission_rows:
  assumes "keyed d" and "typed (load_state d)"
  shows "distinct (map fst (mission_tasks d m))" "distinct (map fst (mission_approvals d m))"
proof -
  show "distinct (map fst (mission_tasks d m))" unfolding mission_tasks_def distinct_sort
    by (rule distinct_rows[where stream = task_stream_id, OF assms(1)]) (auto split: if_splits dest: typed_at[OF assms(2)])
  show "distinct (map fst (mission_approvals d m))" unfolding mission_approvals_def distinct_sort
    by (rule distinct_rows[where stream = approval_stream_id, OF assms(1)]) (auto split: if_splits dest: typed_at[OF assms(2)])
qed

lemma preview_rows: "mission_disposition_preview sha m target d = Inr p \<Longrightarrow>
    pv_tasks p = mission_tasks d m \<and> pv_approvals p = mission_approvals d m"
  by (auto simp: mission_disposition_preview_def plans Let_def)

text \<open>What an accepted disposition settles, and what it required.\<close>

lemma dispose_plan:
  assumes "service_dispose_mission E i target v pd r md d = Inr (Append as ex)" and "find_idempotent d (md_idempotencyKey md) = None"
  obtains p m ms ts qs where "ac_kind (md_actor md) = ''human''"
    "mission_disposition_preview (hs_sha (en_hashing E)) i target d = Inr p" "pv_version p = v" "pv_digest p = pd" "pv_blocked p = []"
    "load_state d (mission_stream_id i) = Some (AMission m)" "dispose_states target m = Inr ms"
    "(if target \<in> {''cancel'', ''cancel_revoke''} then cancel_tasks d (pv_tasks p) else Inr []) = Inr ts"
    "(if target \<in> {''cancel'', ''cancel_revoke''} then settle_approvals E target r md d (pv_approvals p) else Inr []) = Inr qs"
    "as = number_events md i (ts @ qs @ mission_events (mission_stream_id i) v ms)"
  using assms by (simp add: service_dispose_mission_def plans Let_def) blast

lemma sound_dispose_mission:
  assumes k: "keyed d" and ty: "typed (load_state d)" and plan: "service_dispose_mission E i target v pd r md d = Inr (Append as ex)"
  shows "all_recorded S (load_state d) F as"
proof (cases "find_idempotent d (md_idempotencyKey md)")
  case None
  let ?s = "mission_stream_id i"
  from plan None obtain p m ms ts qs where human: "ac_kind (md_actor md) = ''human''"
      and p: "mission_disposition_preview (hs_sha (en_hashing E)) i target d = Inr p"
      and m: "load_state d ?s = Some (AMission m)" and ms: "dispose_states target m = Inr ms"
      and ts: "(if target \<in> {''cancel'', ''cancel_revoke''} then cancel_tasks d (pv_tasks p) else Inr []) = Inr ts"
      and qs: "(if target \<in> {''cancel'', ''cancel_revoke''} then settle_approvals E target r md d (pv_approvals p) else Inr []) = Inr qs"
      and as: "as = number_events md i (ts @ qs @ mission_events ?s v ms)"
    by (rule dispose_plan)
  note rows = preview_rows[OF p] distinct_mission_rows[OF k ty]
  have ts': "settles S (load_state d) ts \<and> st_stream ` set ts \<subseteq> range task_stream_id"
    using ts rows cancel_tasks_settles[of d "pv_tasks p" ts] by (auto split: if_splits)
  then have after_tasks: "after_settled (load_state d) ts (approval_stream_id x) = load_state d (approval_stream_id x)"
      "after_settled (load_state d) ts ?s = load_state d ?s" for x
    by (auto intro!: after_settled_other simp: image_subset_iff)
  have qs': "settles S (after_settled (load_state d) ts) qs \<and> st_stream ` set qs \<subseteq> range approval_stream_id"
    using qs rows settle_approvals_settles[of E target r md d "pv_approvals p" qs] by (auto split: if_splits simp: after_tasks)
  then have "after_settled (after_settled (load_state d) ts) qs ?s = after_settled (load_state d) ts ?s"
    by (auto intro!: after_settled_other simp: image_subset_iff)
  then have "settles S (load_state d) (ts @ qs @ mission_events ?s v ms)"
    using ts' qs' dispose_states_settles[OF ms] m after_tasks(2) by (simp add: settles_append)
  then show ?thesis unfolding as number_events_def by (rule settled_recorded[OF human])
qed (use plan in \<open>simp add: service_dispose_mission_def plans\<close>)

section \<open>Every command\<close>

lemma next_work_answers: "get_next_work_packet E m s md d \<noteq> Inr (Append as ex)"
  by (simp add: get_next_work_packet_def plans)

theorem plan_sound:
  assumes inv: "ledger_inv H d" and k: "keyed d" and ty: "typed (load_state d)"
    and plan: "plan_of S cmd tick md d = Inr (Append as ex)"
  shows "all_recorded S (load_state d) (facts d) as"
proof -
  note single = sound_create_mission sound_evaluate_policy sound_transition_mission sound_create_task sound_transition_task
    sound_cancel_task sound_submit_result sound_issue_grant[OF inv] sound_capability sound_driver_run sound_cancel_driver_run
    sound_request_approval sound_submit_decision sound_propose_claim sound_record_evidence sound_record_verification
    sound_decide_claim sound_prepare_tool[OF refl] sound_transition_tool[OF refl] sound_reserve_sandbox[OF refl] sound_move_sandbox[OF refl ty]
  note several = sound_create_mission_with_approval sound_plan_task sound_dispose_mission[OF k ty]
    sound_issue_grant_from_human_approval[OF inv] sound_admission sound_propose_claim_with_evidence sound_review_claim
    sound_predispatch[OF refl] sound_observe_effect[OF refl ty] sound_settle_create[OF refl ty] sound_settle_exec[OF refl ty]
    sound_settle_close[OF refl ty] sound_create_fork sound_create_fork_from_intent
  show ?thesis
    using plan by (cases cmd) (simp_all only: plan_of.simps next_work_answers, (erule single | erule several)+)
qed

end
