(* ===== verification/Services_Safety.thy ===== *)
theory Services_Safety
  imports Service_Mission_Plans
begin

text \<open>
  What holds of every database the runtime reaches by its commands: the locale \<open>ledger_invariant\<close>
  carries a predicate of states and facts from the step relation \<open>records\<close> to any history of calls.
  Its interpretations are the typing of the streams, the custody of capabilities and the refinement
  of the stored states by the histories of their aggregates.
\<close>

section \<open>What a call does to states and facts\<close>

definition states_after :: "(event, agg) append_request list \<Rightarrow> (string \<Rightarrow> agg option) \<Rightarrow> string \<Rightarrow> agg option" where
  "states_after as ld = fold (\<lambda>a l. l(rq_stream_id a \<mapsto> rq_state a)) as ld"

lemma states_after_simps [simp]:
  "states_after [] ld = ld" "states_after (a # as) ld = states_after as (ld(rq_stream_id a \<mapsto> rq_state a))"
  by (simp_all add: states_after_def)

text \<open>An append at version 0 opens a new stream.\<close>

fun opens :: "(string \<Rightarrow> agg option) \<Rightarrow> (event, agg) append_request list \<Rightarrow> bool" where
  "opens ld [] = True"
| "opens ld (a # as) = ((rq_expected_version a = 0 \<longrightarrow> ld (rq_stream_id a) = None) \<and> opens (ld(rq_stream_id a \<mapsto> rq_state a)) as)"

definition wired :: "services \<Rightarrow> rt_db \<Rightarrow> bool" where
  "wired S d \<longleftrightarrow> ledger_inv (en_hashing (sv_env S)) d \<and> keyed d \<and> (\<forall>s. load_state d s \<noteq> None \<longrightarrow> 0 < aggregate_version d s)"

text \<open>The kind column of a stream is the kind of the aggregate it holds.\<close>

definition kinded :: "rt_db \<Rightarrow> bool" where
  "kinded d \<longleftrightarrow> (\<forall>s r. map_of (db_aggregates d) s = Some r \<longrightarrow> ar_kind r = kind_of (ar_state r))"

lemma wired_empty: "wired S empty_db"
  by (simp add: wired_def ledger_inv_empty) (simp add: keyed_def empty_db_def load_state_def)

lemma same_ledger_view: "same_ledger d d' \<Longrightarrow> load_state d' = load_state d \<and> facts d' = facts d \<and> (wired S d \<longrightarrow> wired S d') \<and> (kinded d \<longrightarrow> kinded d')"
  using ledger_inv_same[of d d' "en_hashing (sv_env S)"]
  by (auto simp: same_ledger_def load_state_def facts_def opened_ledger_def wired_def keyed_def aggregate_version_def kinded_def fun_eq_iff)

lemma fact_of_final [simp]: "fact_of (final_envelope H a v n) = fact_of (rq_envelope a)"
  by (simp add: fact_of_def author_def final_envelope_def)

lemma append_one_view:
  assumes w: "wired S d" and one: "append_one (en_hashing (sv_env S)) a (head_chain d) d = (d', Inr (c, e))"
  shows "wired S d'" "load_state d' = (load_state d)(rq_stream_id a \<mapsto> rq_state a)" "facts d' = insert (fact_of (rq_envelope a)) (facts d)"
    "c = head_chain d'" "rq_expected_version a = 0 \<longrightarrow> load_state d (rq_stream_id a) = None"
proof -
  let ?H = "en_hashing (sv_env S)"
  from w have inv: "ledger_inv ?H d" and k: "keyed d" and pos: "\<And>s. load_state d s \<noteq> None \<Longrightarrow> 0 < aggregate_version d s"
    by (simp_all add: wired_def)
  note A = append_one_Inr[OF one below_autoinc_inv[OF inv]] and L = ledger_inv_append[OF inv one]
  show "c = head_chain d'" using L by simp
  show "rq_expected_version a = 0 \<longrightarrow> load_state d (rq_stream_id a) = None" using A pos[of "rq_stream_id a"] by (metis less_irrefl)
  have "0 \<le> aggregate_version d s" for s using inv by (simp add: ledger_inv_def)
  then have "0 < aggregate_version d' s" if "load_state d' s \<noteq> None" for s
    using A that pos[of s] by (auto simp: load_state_def aggregate_version_def update_conv aggregate_after_def split: if_splits option.splits)
  then show "wired S d'" using L A k by (simp add: wired_def keyed_def distinct_update)
  show "load_state d' = (load_state d)(rq_stream_id a \<mapsto> rq_state a)"
    using A by (auto simp: load_state_def update_conv aggregate_after_def fun_eq_iff)
  show "facts d' = insert (fact_of (rq_envelope a)) (facts d)"
    using A by (simp add: facts_def opened_ledger_def opened_def final_row_def Let_def)
qed

lemma append_all_view:
  "wired S d \<Longrightarrow> append_all (en_hashing (sv_env S)) as (head_chain d) d = (d', Inr w) \<Longrightarrow>
     wired S d' \<and> load_state d' = states_after as (load_state d) \<and> facts d' = facts d \<union> fact_of ` rq_envelope ` set as
     \<and> opens (load_state d) as"
proof (induction as arbitrary: d w)
  case (Cons a as)
  from Cons.prems obtain d1 c e where one: "append_one (en_hashing (sv_env S)) a (head_chain d) d = (d1, Inr (c, e))"
    by (auto simp: sthen_def split: prod.splits sum.splits)
  note V = append_one_view[OF Cons.prems(1) one]
  from Cons.prems(2) one V(4) obtain w1 where rest: "append_all (en_hashing (sv_env S)) as (head_chain d1) d1 = (d', Inr w1)"
    by (auto simp: sthen_def sret_def split: prod.splits sum.splits)
  from Cons.IH[OF V(1) rest] show ?case by (simp add: V(2,3,5) del: fun_upd_apply)
qed simp

lemma placed_kind: "placed s a \<Longrightarrow> kind_of a = takeWhile (\<lambda>c. c \<noteq> CHR ''-'') s"
  by (cases a) (auto simp: stream_ids)

lemma append_one_kinded:
  assumes w: "wired S d" and one: "append_one (en_hashing (sv_env S)) a (head_chain d) d = (d', Inr (c, e))"
    and k: "kinded d" and t: "typed (load_state d)" and a: "rq_kind a = kind_of (rq_state a)" "placed (rq_stream_id a) (rq_state a)"
  shows "kinded d'"
proof -
  let ?s = "rq_stream_id a" and ?H = "en_hashing (sv_env S)"
  from w have "below_autoinc d" unfolding wired_def by (blast intro: below_autoinc_inv)
  from append_one_Inr[OF one this] obtain v
    where d': "db_aggregates d' = AList.update ?s (aggregate_after ?H a v (map_of (db_aggregates d) ?s)) (db_aggregates d)" by auto
  have "ar_kind r = kind_of (rq_state a)" if "map_of (db_aggregates d) ?s = Some r" for r
  proof -
    from that t have "placed ?s (ar_state r)" by (auto simp: typed_def load_state_def)
    with k that a(2) show ?thesis unfolding kinded_def by (metis placed_kind)
  qed
  then show ?thesis using k a(1) by (auto simp: kinded_def d' update_conv aggregate_after_def split: if_splits option.splits)
qed

lemma append_all_kinded:
  "wired S d \<Longrightarrow> append_all (en_hashing (sv_env S)) as (head_chain d) d = (d', Inr w) \<Longrightarrow> kinded d \<Longrightarrow> typed (load_state d) \<Longrightarrow>
     all_recorded S (load_state d) F as \<Longrightarrow> kinded d'"
proof (induction as arbitrary: d w F)
  case (Cons a as)
  from Cons.prems obtain d1 c e where one: "append_one (en_hashing (sv_env S)) a (head_chain d) d = (d1, Inr (c, e))"
    by (auto simp: sthen_def split: prod.splits sum.splits)
  note V = append_one_view[OF Cons.prems(1) one]
  from Cons.prems(2) one V(4) obtain w1 where rest: "append_all (en_hashing (sv_env S)) as (head_chain d1) d1 = (d', Inr w1)"
    by (auto simp: sthen_def sret_def split: prod.splits sum.splits)
  from Cons.prems(5) have r: "records S (load_state d) F (author (rq_envelope a)) (rq_expected_version a) (rq_stream_id a)
        (ev_payload (rq_envelope a)) (rq_state a)" "rq_kind a = kind_of (rq_state a)"
      and as: "all_recorded S (load_state d1) (insert (fact_of (rq_envelope a)) F) as" by (simp_all add: V(2) del: fun_upd_apply)
  note p = records_placed[OF r(1) Cons.prems(4)]
  have "typed (load_state d1)" using Cons.prems(4) p by (simp add: V(2) typed_def)
  from Cons.IH[OF V(1) rest append_one_kinded[OF Cons.prems(1) one Cons.prems(3,4) r(2) p] this as] show ?case .
qed simp

text \<open>A call leaves states and facts as they were, or makes those its plan says.\<close>

lemma serve_view:
  assumes w: "wired S d" and s: "serve S hs (cmd, tick, md) d x = (d', x', r)"
  obtains (quiet) "wired S d'" "load_state d' = load_state d" "facts d' = facts d" "kinded d \<Longrightarrow> kinded d'"
  | (wrote) as ex where "plan_of S cmd tick md d = Inr (Append as ex)" "wired S d'" "load_state d' = states_after as (load_state d)"
      "facts d' = facts d \<union> fact_of ` rq_envelope ` set as" "opens (load_state d) as"
      "all_recorded S (load_state d) (facts d) as \<Longrightarrow> typed (load_state d) \<Longrightarrow> kinded d \<Longrightarrow> kinded d'"
proof -
  let ?H = "en_hashing (sv_env S)" and ?p = "plan_of S cmd tick md d"
  have dispatched: "same_ledger d1 (fst (dispatch hs d1 y))" for d1 :: rt_db and y
    unfolding dispatch_def by (rule dispatch_keeps_ledger)
  consider "d' = d" | as ex where "?p = Inr (Append as ex)" by (use s in \<open>auto simp: serve_def perform_def split: sum.splits plan.splits\<close>)
  then show ?thesis
  proof cases
    case 1
    with w quiet show ?thesis by simp
  next
    case (2 as ex)
    obtain d1 res where c: "commit_command ?H as (md_idempotencyKey md) (md_operationFingerprint md) (md_commandId md) d = (d1, res)" by force
    have d': "same_ledger d1 d'"
      using s c dispatched[of d1 x] by (auto simp: serve_def perform_def 2 split: sum.splits prod.splits)
    from c show ?thesis
    proof (cases rule: commit_command_cases)
      case (applied d2 written)
      have "same_ledger d2 d1" by (simp add: applied(5) same_ledger_def)
      with d' have "same_ledger d2 d'" by (rule same_ledger_trans[rotated])
      from wrote[OF 2] append_all_view[OF w applied(2)] append_all_kinded[OF w applied(2)] same_ledger_view[OF this] show ?thesis by simp
    qed (use quiet same_ledger_view[OF d'] w in auto)
  qed
qed

section \<open>Ledger invariants\<close>

locale ledger_invariant =
  fixes S :: services
    and I :: "(string \<Rightarrow> agg option) \<Rightarrow> fact set \<Rightarrow> bool"
  assumes start: "I Map.empty {}"
    and step: "I ld F \<Longrightarrow> typed ld \<Longrightarrow> records S ld F who v s ev a \<Longrightarrow> (v = 0 \<longrightarrow> ld s = None) \<Longrightarrow> I (ld(s \<mapsto> a)) (insert (s, ev, who) F)"
begin

lemma kept_by_appends:
  "all_recorded S ld F as \<Longrightarrow> opens ld as \<Longrightarrow> typed ld \<Longrightarrow> I ld F \<Longrightarrow>
     typed (states_after as ld) \<and> I (states_after as ld) (F \<union> fact_of ` rq_envelope ` set as)"
proof (induction as arbitrary: ld F)
  case (Cons a as)
  from Cons.prems(1) have a: "records S ld F (author (rq_envelope a)) (rq_expected_version a) (rq_stream_id a) (ev_payload (rq_envelope a)) (rq_state a)"
      "ev_streamId (rq_envelope a) = rq_stream_id a"
      and as: "all_recorded S (ld(rq_stream_id a \<mapsto> rq_state a)) (insert (fact_of (rq_envelope a)) F) as" by simp_all
  have "typed (ld(rq_stream_id a \<mapsto> rq_state a))" using Cons.prems(3) records_placed[OF a(1) Cons.prems(3)] by (simp add: typed_def)
  moreover have "I (ld(rq_stream_id a \<mapsto> rq_state a)) (insert (fact_of (rq_envelope a)) F)"
    using step[OF Cons.prems(4,3) a(1)] Cons.prems(2) by (simp add: fact_of_def a(2))
  moreover have "opens (ld(rq_stream_id a \<mapsto> rq_state a)) as" using Cons.prems(2) by simp
  ultimately show ?case using Cons.IH[OF as] by (simp del: fun_upd_apply)
qed simp

lemma kept_by_call:
  assumes "wired S d" "typed (load_state d)" "I (load_state d) (facts d)" and s: "serve S hs c d x = (d', x', r)"
  shows "wired S d' \<and> typed (load_state d') \<and> I (load_state d') (facts d') \<and> (kinded d \<longrightarrow> kinded d')"
proof -
  obtain cmd tick md where c: "c = (cmd, tick, md)" by (cases c)
  from assms(1) s[unfolded c] show ?thesis
  proof (cases rule: serve_view)
    case (wrote as ex)
    have "all_recorded S (load_state d) (facts d) as"
      using assms(1) plan_sound[OF _ _ assms(2) wrote(1)] unfolding wired_def by blast
    from kept_by_appends[OF this wrote(5) assms(2,3)] wrote(2-4) wrote(6)[OF this assms(2)] show ?thesis by simp
  qed (use assms in simp)
qed

lemma kept_by_calls:
  "wired S d \<Longrightarrow> typed (load_state d) \<Longrightarrow> I (load_state d) (facts d) \<Longrightarrow>
     (let d' = fst (serve_all S hs cs (d, x)) in wired S d' \<and> typed (load_state d') \<and> I (load_state d') (facts d') \<and> (kinded d \<longrightarrow> kinded d'))"
proof (induction cs arbitrary: d x)
  case (Cons c cs)
  obtain d1 x1 r where s: "serve S hs c d x = (d1, x1, r)" by (metis prod_cases3)
  from kept_by_call[OF Cons.prems s] Cons.IH[of d1 x1] s show ?case by (auto simp: Let_def)
qed simp

lemma reachable: "I (load_state (fst (serve_all S hs cs (empty_db, x)))) (facts (fst (serve_all S hs cs (empty_db, x))))"
proof -
  have "load_state (empty_db :: rt_db) = Map.empty" "facts empty_db = {}"
    by (simp_all add: load_state_def empty_db_def facts_def opened_ledger_def opened_def fun_eq_iff)
  then show ?thesis using kept_by_calls[OF wired_empty, of hs cs x] start by (simp add: Let_def typed_def)
qed

end

section \<open>Typed streams\<close>

interpretation streams: ledger_invariant S "\<lambda>ld F. typed ld" for S
proof
  fix ld F who v s ev a assume "typed ld" and "records S ld F who v s ev a"
  then show "typed (ld(s \<mapsto> a))" using records_placed[of S ld F who v s ev a] by (simp add: typed_def)
qed (simp add: typed_def)

text \<open>No handler finds an aggregate of another kind under the id it loads.\<close>

definition right_kinds :: "rt_db \<Rightarrow> bool" where
  "right_kinds d \<longleftrightarrow> (\<forall>i. fetch the_mission d (mission_stream_id i) \<noteq> Inl WRONG_KIND \<and> fetch the_task d (task_stream_id i) \<noteq> Inl WRONG_KIND
     \<and> fetch the_capability d (capability_stream_id i) \<noteq> Inl WRONG_KIND \<and> fetch the_driver_run d (driver_stream_id i) \<noteq> Inl WRONG_KIND
     \<and> fetch the_claim d (claim_stream_id i) \<noteq> Inl WRONG_KIND \<and> fetch the_approval d (approval_stream_id i) \<noteq> Inl WRONG_KIND
     \<and> fetch the_tool d (tool_stream_id i) \<noteq> Inl WRONG_KIND \<and> fetch the_sandbox d (sandbox_stream i) \<noteq> Inl WRONG_KIND)"

lemma placed_kinds:
  "placed (mission_stream_id i) a \<Longrightarrow> the_mission a \<noteq> None" "placed (task_stream_id i) a \<Longrightarrow> the_task a \<noteq> None"
  "placed (capability_stream_id i) a \<Longrightarrow> the_capability a \<noteq> None" "placed (driver_stream_id i) a \<Longrightarrow> the_driver_run a \<noteq> None"
  "placed (claim_stream_id i) a \<Longrightarrow> the_claim a \<noteq> None" "placed (approval_stream_id i) a \<Longrightarrow> the_approval a \<noteq> None"
  "placed (tool_stream_id i) a \<Longrightarrow> the_tool a \<noteq> None" "placed (sandbox_stream i) a \<Longrightarrow> the_sandbox a \<noteq> None"
  by (cases a; auto simp: stream_ids)+

lemma fetch_right:
  assumes "typed (load_state d)" and "\<And>a. placed s a \<Longrightarrow> pick a \<noteq> None"
  shows "fetch pick d s \<noteq> Inl WRONG_KIND"
proof (cases "load_state d s")
  case (Some a)
  with typed_at[OF assms(1)] assms(2) obtain x where "pick a = Some x" by blast
  with Some show ?thesis by (simp add: fetch_def require_state_def)
qed (simp add: fetch_def require_state_def WRONG_KIND_def)

lemma typed_right_kinds: "typed (load_state d) \<Longrightarrow> right_kinds d"
  unfolding right_kinds_def by (intro allI conjI; erule fetch_right; erule placed_kinds)

section \<open>Custody of capabilities\<close>

text \<open>Whose facts the ledger records, and what a recorded consumption presupposes.\<close>

definition human_approved :: "fact set \<Rightarrow> string \<Rightarrow> bool" where
  "human_approved F s \<longleftrightarrow> (\<exists>x. (s, HumanApprovalDecided x, JStr ''human'') \<in> F \<and> ad_decision x = ''approve'')"

definition authored :: "fact set \<Rightarrow> bool" where
  "authored F \<longleftrightarrow> (\<forall>s p who. (s, PolicyEvaluated p, who) \<in> F \<longrightarrow> who = JStr ''governance_kernel'' \<and> ac_kind (pd_decidedBy p) = ''governance_kernel'')
     \<and> (\<forall>s x who. (s, HumanApprovalDecided x, who) \<in> F \<longrightarrow> who = JStr ''human'')
     \<and> (\<forall>s g who. (s, CapabilityGranted g, who) \<in> F \<longrightarrow> who = JStr ''governance_kernel'' \<and> ac_kind (gr_issuedBy g) = ''governance_kernel'')
     \<and> (\<forall>s x who. (s, OtherEvent ''HumanApprovalConsumedForCapability'' x, who) \<in> F \<longrightarrow> human_approved F s)"

definition approved_by_human :: "(string \<Rightarrow> agg option) \<Rightarrow> fact set \<Rightarrow> bool" where
  "approved_by_human ld F \<longleftrightarrow> (\<forall>s a. ld s = Some (AApproval a) \<and> ap_state a = ''approved'' \<longrightarrow> human_approved F s)"

definition vouched :: "(string \<Rightarrow> agg option) \<Rightarrow> fact set \<Rightarrow> capability \<Rightarrow> bool" where
  "vouched ld F c \<longleftrightarrow> (\<exists>p. decided F (cs_policyDecisionId c) p \<and>
     (\<forall>q. cs_approvalRequestId c = Some q \<longrightarrow> q \<noteq> [] \<longrightarrow> backed ld F q p c))"

definition custody :: "(string \<Rightarrow> agg option) \<Rightarrow> fact set \<Rightarrow> bool" where
  "custody ld F \<longleftrightarrow> authored F \<and> approved_by_human ld F \<and> (\<forall>s c. ld s = Some (ACapability c) \<longrightarrow> vouched ld F c)"

inductive_cases recordsE:
  "records S ld F who v s (PolicyEvaluated p) a"
  "records S ld F who v s (HumanApprovalDecided x) a"
  "records S ld F who v s (CapabilityGranted g) a"
  "records S ld F who v s (OtherEvent ''HumanApprovalConsumedForCapability'' x) a"

lemma no_cap_event [simp]: "\<not> cap_event op (PolicyEvaluated p)" "\<not> cap_event op (HumanApprovalDecided x)" "\<not> cap_event op (CapabilityGranted g)"
    "\<not> cap_event op (OtherEvent k y)"
  by (cases op; simp)+

lemma no_approval_event [simp]: "\<not> approval_event op who (PolicyEvaluated p)" "\<not> approval_event op who (CapabilityGranted g)"
    "\<not> approval_event op who (OtherEvent k y)"
  by (cases op; simp)+

lemma no_claim_event [simp]: "\<not> claim_event op (PolicyEvaluated p)" "\<not> claim_event op (HumanApprovalDecided x)" "\<not> claim_event op (CapabilityGranted g)"
    "\<not> claim_event op (OtherEvent k y)"
  by (cases op; simp)+

lemma decision_by_human: "approval_event op who (HumanApprovalDecided x) \<Longrightarrow> who = JStr ''human''"
  by (cases op) auto

lemma more_approved: "human_approved F t \<Longrightarrow> human_approved (insert x F) t"
  by (auto simp: human_approved_def)

lemma authored_step:
  assumes F: "authored F" "approved_by_human ld F" and r: "records S ld F who v s ev a"
  shows "authored (insert (s, ev, who) F)"
proof -
  have "ev = PolicyEvaluated p \<Longrightarrow> who = JStr ''governance_kernel'' \<and> ac_kind (pd_decidedBy p) = ''governance_kernel''" for p
    using r by (auto elim!: recordsE(1))
  moreover have "ev = HumanApprovalDecided x \<Longrightarrow> who = JStr ''human''" for x
    using r by (auto elim!: recordsE(2) dest: decision_by_human)
  moreover have "ev = CapabilityGranted g \<Longrightarrow> who = JStr ''governance_kernel'' \<and> ac_kind (gr_issuedBy g) = ''governance_kernel''" for g
    using r by (auto elim!: recordsE(3))
  moreover have "ev = OtherEvent ''HumanApprovalConsumedForCapability'' x \<Longrightarrow> human_approved F s" for x
    using r F(2) by (auto elim!: recordsE(4) simp: approved_by_human_def approval_consume_Inr)
  ultimately show ?thesis using F(1) unfolding authored_def by (auto intro!: more_approved) blast
qed

lemma approved_step:
  assumes F: "approved_by_human ld F" and t: "typed ld" and r: "records S ld F who v s ev a"
  shows "approved_by_human (ld(s \<mapsto> a)) (insert (s, ev, who) F)"
proof -
  have "human_approved (insert (s, ev, who) F) s" if a: "a = AApproval b" "ap_state b = ''approved''" for b
    using r
  proof cases
    case (approval_moved c op c')
    show ?thesis
    proof (cases "ap_state c = ''approved''")
      case True
      with F approval_moved(2) show ?thesis by (intro more_approved) (auto simp: approved_by_human_def)
    next
      case False
      with approval_moved a obtain x now where "op = ApprovalDecide x now" "ad_decision x = ''approve''" "ap_state c = ''requested''"
        by (cases op) (auto simp: approval_step_Inr approval_mark_expired_def split: if_splits)
      with approval_moved(4) show ?thesis by (auto simp: human_approved_def)
    qed
  next
    case (approval_used c u w c' q x)
    then have "ap_state c = ''approved''" by (auto simp: approval_consume_Inr)
    with F approval_used(3) show ?thesis by (intro more_approved) (auto simp: approved_by_human_def)
  qed (use a in \<open>auto simp: approval_create_def\<close>)
  with F more_approved show ?thesis unfolding approved_by_human_def by auto
qed

text \<open>An approval keeps what it approves; only its own stream's first append could replace it.\<close>

lemma approval_kept:
  assumes r: "records S ld F who v s ev a" and t: "typed ld" and first: "v = 0 \<longrightarrow> ld s = None" and b: "ld s = Some (AApproval b)"
  shows "\<exists>b'. a = AApproval b' \<and> (\<forall>c. approves b' c = approves b c)"
  using r
proof cases
  case (approval_moved x op x')
  with b show ?thesis using approves_step[of b op] by auto
next
  case (approval_used x u w x' q y)
  with b show ?thesis using approves_step[of b "ApprovalConsume u w" x'] by auto
next
  case (approval_requested q)
  with first b show ?thesis by simp
qed (use b typed_at[OF t b] in \<open>auto simp: stream_ids\<close>)

lemma cap_step_commitments: "cap_step c op = Inr c' \<Longrightarrow> cs_externalCommitments c' = cs_externalCommitments c"
  by (cases op) (auto simp: cap_activate_Inr cap_reserve_Inr cap_revoke_def cap_expire_def cap_finalize_def Let_def
      split: option.splits if_splits)

lemma cap_step_citations: "cap_step c op = Inr c' \<Longrightarrow> cs_policyDecisionId c' = cs_policyDecisionId c \<and> cs_approvalRequestId c' = cs_approvalRequestId c
    \<and> cs_grantId c' = cs_grantId c \<and> (\<forall>a. approves a c' = approves a c)"
  using same_grant_step[of c op c'] cap_step_commitments[of c op c'] by (simp add: same_grant_def approves_def)

lemma backed_kept:
  assumes r: "records S ld F who v s ev a" and t: "typed ld" and first: "v = 0 \<longrightarrow> ld s = None" and b: "backed ld F q p c"
  shows "backed (ld(s \<mapsto> a)) (insert x F) q p c"
proof -
  from b obtain y where y: "ld (approval_stream_id q) = Some (AApproval y)" "approves y c" and eff: "pd_effect p \<in> {''allow'', ''allow_with_conditions''}"
      "consumed_for F q (cs_grantId c)"
    by (auto simp: backed_def)
  have "\<exists>y'. (ld(s \<mapsto> a)) (approval_stream_id q) = Some (AApproval y') \<and> approves y' c"
    using approval_kept[OF r t first, of y] y by (cases "s = approval_stream_id q") auto
  with eff show ?thesis by (auto simp: backed_def consumed_for_def)
qed

lemma vouched_kept:
  assumes "records S ld F who v s ev a" and "typed ld" and "v = 0 \<longrightarrow> ld s = None" and "vouched ld F c"
  shows "vouched (ld(s \<mapsto> a)) (insert x F) c"
  using assms(4) backed_kept[OF assms(1-3)] unfolding vouched_def decided_def by blast

lemma custody_step:
  assumes c: "custody ld F" and t: "typed ld" and r: "records S ld F who v s ev a" and first: "v = 0 \<longrightarrow> ld s = None"
  shows "custody (ld(s \<mapsto> a)) (insert (s, ev, who) F)"
proof -
  let ?ld = "ld(s \<mapsto> a)" and ?F = "insert (s, ev, who) F"
  from c have F: "authored F" "approved_by_human ld F" and old: "\<And>s c. ld s = Some (ACapability c) \<Longrightarrow> vouched ld F c"
    by (auto simp: custody_def)
  have "vouched ?ld ?F c" if a: "a = ACapability c" for c
    using r
  proof cases
    case (granted g p)
    have "backed ld F q p c" if "gr_approvalRequestId g = Some q" "q \<noteq> []" for q using granted(7)[OF that] granted(3) a by simp
    then have "backed ?ld ?F q p c" if "gr_approvalRequestId g = Some q" "q \<noteq> []" for q using backed_kept[OF r t first] that by blast
    moreover have "decided ?F (gr_policyDecisionId g) p" using granted(4) by (auto simp: decided_def)
    moreover have "cs_policyDecisionId c = gr_policyDecisionId g" "cs_approvalRequestId c = gr_approvalRequestId g"
      using granted(3) a by (simp_all add: cap_grant_def)
    ultimately show ?thesis unfolding vouched_def by auto
  next
    case (capability_moved b op b')
    with old have "vouched ld F b" by blast
    then have "vouched ld F c" using cap_step_citations[OF capability_moved(3)] capability_moved(1) a by (simp add: vouched_def backed_def)
    then show ?thesis by (rule vouched_kept[OF r t first])
  qed (use a in auto)
  then have "vouched ?ld ?F c" if "?ld u = Some (ACapability c)" for u c
    using that old vouched_kept[OF r t first] by (cases "u = s") auto
  with authored_step[OF F r] approved_step[OF F(2) t r] show ?thesis by (simp add: custody_def)
qed

interpretation custodian: ledger_invariant S custody for S
  by unfold_locales (simp add: custody_def authored_def approved_by_human_def, rule custody_step)

section \<open>Stored states are the histories of their aggregates\<close>

text \<open>\<open>y\<close> grew from \<open>x\<close> by operations each of which an event of the stream records.\<close>

definition grows :: "('s \<Rightarrow> 'o \<Rightarrow> 's res) \<Rightarrow> ('o \<Rightarrow> json \<Rightarrow> event \<Rightarrow> bool) \<Rightarrow> fact set \<Rightarrow> string \<Rightarrow> 's \<Rightarrow> 's \<Rightarrow> bool" where
  "grows f says F s x y \<longleftrightarrow> (\<exists>ops. run f x ops = Inr y \<and> (\<forall>op\<in>set ops. \<exists>ev who. (s, ev, who) \<in> F \<and> says op who ev))"

fun mission_event :: "mission_op \<Rightarrow> json \<Rightarrow> event \<Rightarrow> bool" where
  "mission_event (MissionTransition t) who ev = (ev = MissionStateChanged t
     \<or> (t = ''authorized'' \<and> (\<exists>p. ev = PolicyEvaluated p \<and> pd_effect p \<in> {''allow'', ''allow_with_conditions''})))"
| "mission_event (MissionPolicyDecision i) who ev = (\<exists>p. ev = PolicyEvaluated p \<and> pd_policyDecisionId p = i)"

fun task_event :: "task_op \<Rightarrow> json \<Rightarrow> event \<Rightarrow> bool" where
  "task_event (TaskTransition t r) who ev = (ev = TaskTransitioned t \<or> (\<exists>x. ev = TaskResultSubmitted x t))"
| "task_event (TaskRecordResult x) who ev = (\<exists>t. ev = TaskResultSubmitted x t)"

fun driver_event :: "driver_op \<Rightarrow> json \<Rightarrow> event \<Rightarrow> bool" where
  "driver_event (DriverMove t x) who ev = (ev = DriverRunStateChanged t)"
| "driver_event (DriverBoundary b t) who ev = (\<exists>e. ev = DriverRunDispatchBoundaryRecorded e \<and> be_dispatchBoundary e = b \<and> be_recordedAt e = t)"

definition use_event :: "approval_op \<Rightarrow> json \<Rightarrow> event \<Rightarrow> bool" where
  "use_event op who ev \<longleftrightarrow> approval_event op who ev
     \<or> (\<exists>u t x. op = ApprovalConsume u t \<and> ev = OtherEvent ''HumanApprovalConsumedForCapability'' x)"

definition tool_change :: "string \<times> dict \<Rightarrow> json \<Rightarrow> event \<Rightarrow> bool" where
  "tool_change op who ev \<longleftrightarrow> (\<exists>k x. ev = ToolExecutionChanged k x)"

definition lease_change :: "sandbox_op \<Rightarrow> json \<Rightarrow> event \<Rightarrow> bool" where
  "lease_change op who ev \<longleftrightarrow> (\<exists>y. ev = OtherEvent ''SandboxLeaseTransitioned'' y)"

fun grown :: "validator \<Rightarrow> fact set \<Rightarrow> string \<Rightarrow> agg \<Rightarrow> bool" where
  "grown V F s (AMission y) = (\<exists>x who. (s, MissionCreated x, who) \<in> F \<and> grows mission_step mission_event F s (mission_create x) y)"
| "grown V F s (ATask y) = (\<exists>n who. (s, TaskCreated n, who) \<in> F \<and> grows task_step task_event F s (task_create n) y)"
| "grown V F s (ACapability y) = (\<exists>g who. (s, CapabilityGranted g, who) \<in> F \<and> grows cap_step (\<lambda>op _. cap_event op) F s (cap_grant g) y)"
| "grown V F s (ADriverRun y) = (\<exists>q x who. (s, DriverRunCreated q, who) \<in> F \<and> driver_create q = Inr x \<and> grows driver_step driver_event F s x y)"
| "grown V F s (AApproval y) = (\<exists>q who. (s, HumanApprovalRequested q, who) \<in> F \<and> grows approval_step use_event F s (approval_create q) y)"
| "grown V F s (AClaim y) = (\<exists>c who. (s, ClaimCreated c, who) \<in> F \<and> grows claim_step (\<lambda>op _. claim_event op) F s (claim_propose c) y)"
| "grown V F s (AToolExecution y) = (\<exists>x who. (s, ToolExecutionPrepared x, who) \<in> F \<and> tool_create V x = Inr x \<and> grows (tool_step V) tool_change F s x y)"
| "grown V F s (ASandboxLease y) = (\<exists>x who. (s, OtherEvent ''SandboxLeaseReserved'' [(''lease'', JObj x)], who) \<in> F \<and> sandbox_reserve V x = Inr x
     \<and> grows (sandbox_step V) lease_change F s x y)"
| "grown V F s (AFork y) = (\<exists>f who. (s, ReplayForkCreated f, who) \<in> F \<and> fork_create f = Inr y)"
| "grown V F s _ = False"

lemma grows_here: "grows f says F s x x"
  by (auto simp: grows_def intro!: exI[of _ "[]"])

lemma grows_more: "grows f says F s x y \<Longrightarrow> grows f says (insert a F) s x y"
  unfolding grows_def by (meson insertI2)

lemma grows_on:
  assumes "grows f says F s x y" and "run f y ops = Inr z" and "\<And>op. op \<in> set ops \<Longrightarrow> says op who ev"
  shows "grows f says (insert (s, ev, who) F) s x z"
proof -
  from assms(1) obtain pre where pre: "run f x pre = Inr y" "\<forall>op\<in>set pre. \<exists>ev who. (s, ev, who) \<in> F \<and> says op who ev"
    by (auto simp: grows_def)
  have "run f x (pre @ ops) = Inr z" using pre(1) assms(2) by (simp add: run_append)
  moreover have "\<exists>e w. (s, e, w) \<in> insert (s, ev, who) F \<and> says op w e" if "op \<in> set (pre @ ops)" for op
    using that pre(2) assms(3) by (cases "op \<in> set pre") (simp, meson, auto)
  ultimately show ?thesis unfolding grows_def by blast
qed

lemma grows_one: "grows f says F s x y \<Longrightarrow> f y op = Inr z \<Longrightarrow> says op who ev \<Longrightarrow> grows f says (insert (s, ev, who) F) s x z"
  by (rule grows_on[where ops = "[op]"]) simp_all

lemma grown_more: "grown V F s a \<Longrightarrow> grown V (insert x F) s a"
  by (cases a) (auto dest: grows_more)

text \<open>One step, from the growth of the state before it.\<close>

lemma grown_moves:
  assumes g: "\<And>b. ld s = Some b \<Longrightarrow> grown V F s b" and r: "records S ld F who v s ev a" and V: "V = ct_dict (en_contracts (sv_env S))"
  shows "grown V (insert (s, ev, who) F) s a"
  using r
proof cases
  case (policy m p m')
  let ?ops = "MissionPolicyDecision (pd_policyDecisionId p)
    # (if ms_state m = ''draft'' \<and> pd_effect p \<in> {''allow'', ''allow_with_conditions''} then [MissionTransition ''authorized''] else [])"
  have "run mission_step m ?ops = Inr m'"
    using policy(4) by (auto simp: policy_step_def Let_def mission_record_policy_decision_def split: if_splits)
  moreover have "mission_event op who (PolicyEvaluated p)" if "op \<in> set ?ops" for op using that by (auto split: if_splits)
  moreover from g[OF policy(3)] obtain x w where "(s, MissionCreated x, w) \<in> F" "grows mission_step mission_event F s (mission_create x) m" by auto
  ultimately show ?thesis using grows_on[of mission_step mission_event F s "mission_create x" m ?ops m' who "PolicyEvaluated p"] policy(1,2) by auto
next
  case (task_result x r t x')
  have "run task_step x [TaskRecordResult r, TaskTransition t None] = Inr x'" using task_result(4) by simp
  moreover from g[OF task_result(3)] obtain n w where "(s, TaskCreated n, w) \<in> F" "grows task_step task_event F s (task_create n) x" by auto
  moreover have "task_event op who (TaskResultSubmitted r t)" if "op \<in> set [TaskRecordResult r, TaskTransition t None]" for op
    using that by auto
  ultimately show ?thesis
    using grows_on[of task_step task_event F s "task_create n" x "[TaskRecordResult r, TaskTransition t None]" x' who "TaskResultSubmitted r t"] task_result(1,2) by auto
next
  case (tool_moved x ops x' k)
  have "tool_change op who (ToolExecutionChanged k x')" for op by (simp add: tool_change_def)
  moreover from g[OF tool_moved(3)] obtain z w where "(s, ToolExecutionPrepared z, w) \<in> F" "tool_create V z = Inr z"
      "grows (tool_step V) tool_change F s z x" by auto
  ultimately show ?thesis
    using grows_on[of "tool_step V" tool_change F s z x ops x' who "ToolExecutionChanged k x'"] tool_moved(1,2,4)
    unfolding V[symmetric] by auto
next
  case (mission_moved m t m')
  then show ?thesis using g[OF mission_moved(3)] grows_one[of mission_step mission_event F s _ m "MissionTransition t" m' who ev] by auto
next
  case (task_moved x t r x')
  then show ?thesis using g[OF task_moved(3)] grows_one[of task_step task_event F s _ x "TaskTransition t r" x' who ev] by auto
next
  case (capability_moved c op c')
  then show ?thesis using g[OF capability_moved(2)] grows_one[of cap_step "\<lambda>op _. cap_event op" F s _ c op c' who ev] by auto
next
  case (run_moved x t x')
  then show ?thesis using g[OF run_moved(3)] grows_one[of driver_step driver_event F s _ x "DriverMove t None" x' who ev] by auto
next
  case (boundary x b x')
  then show ?thesis
    using g[OF boundary(3)] grows_one[of driver_step driver_event F s _ x "DriverBoundary (be_dispatchBoundary b) (be_recordedAt b)" x' who ev]
    by auto
next
  case (approval_moved c op c')
  then show ?thesis using g[OF approval_moved(2)] grows_one[of approval_step use_event F s _ c op c' who ev] by (auto simp: use_event_def)
next
  case (approval_used c u t c' q x)
  then show ?thesis using g[OF approval_used(3)] grows_one[of approval_step use_event F s _ c "ApprovalConsume u t" c' who ev]
    by (auto simp: use_event_def)
next
  case (claim_moved c op c')
  then show ?thesis using g[OF claim_moved(2)] grows_one[of claim_step "\<lambda>op _. claim_event op" F s _ c op c' who ev] by auto
next
  case (sandbox_moved x op x' y)
  have "lease_change op who ev" using sandbox_moved(1) by (simp add: lease_change_def)
  moreover from g[OF sandbox_moved(3)] obtain z w where "(s, OtherEvent ''SandboxLeaseReserved'' [(''lease'', JObj z)], w) \<in> F"
      "sandbox_reserve V z = Inr z" "grows (sandbox_step V) lease_change F s z x" by auto
  ultimately show ?thesis using grows_one[of "sandbox_step V" lease_change F s z x op x' who ev] sandbox_moved(2,4) unfolding V[symmetric] by auto
qed (use V in \<open>auto intro: grows_here\<close>)

definition refined :: "services \<Rightarrow> (string \<Rightarrow> agg option) \<Rightarrow> fact set \<Rightarrow> bool" where
  "refined S ld F \<longleftrightarrow> (\<forall>s a. ld s = Some a \<longrightarrow> grown (ct_dict (en_contracts (sv_env S))) F s a)"

interpretation histories: ledger_invariant S "refined S" for S
proof
  fix ld F who v s ev a
  assume ok: "refined S ld F" and r: "records S ld F who v s ev a"
  have "grown (ct_dict (en_contracts (sv_env S))) (insert (s, ev, who) F) s a"
    by (rule grown_moves[OF _ r refl]) (use ok in \<open>simp add: refined_def\<close>)
  with ok show "refined S (ld(s \<mapsto> a)) (insert (s, ev, who) F)"
    by (auto simp: refined_def intro: grown_more)
qed (simp add: refined_def)

section \<open>The properties of the runtime\<close>

text \<open>The database after any calls from an empty one, whatever became of each of them.\<close>

definition reached :: "services \<Rightarrow> (event, 'w) handler list \<Rightarrow> call list \<Rightarrow> 'w \<Rightarrow> rt_db" where
  "reached S hs cs w = fst (serve_all S hs cs (empty_db, w))"

lemma typed_empty: "typed (load_state (empty_db :: rt_db))" "kinded empty_db"
  by (simp_all add: typed_def kinded_def load_state_def empty_db_def)

lemma wired_reached: "wired S (reached S hs cs w)" and typed_reached: "typed (load_state (reached S hs cs w))"
    and kinded_reached: "kinded (reached S hs cs w)"
  using streams.kept_by_calls[where S = S and hs = hs and cs = cs and x = w, OF wired_empty typed_empty(1) typed_empty(1)]
  by (simp_all add: reached_def Let_def typed_empty)

text \<open>
  C13. the streams are typed. Whatever calls are served, accepted or refused, every stream of the
  database holds an aggregate of the kind its name and its kind column say, under the identity its name
  says, so that no handler ever loads an aggregate of another kind; and the ledger, its versions and its
  keys are consistent.
\<close>

theorem streams_stay_typed:
  "let d = reached S hs cs w in typed (load_state d) \<and> kinded d \<and> right_kinds d \<and> wired S d"
  using wired_reached[of S hs cs w] typed_reached[of S hs cs w] kinded_reached[of S hs cs w] typed_right_kinds by (simp add: Let_def)

text \<open>
  C3. chain of custody. Whatever calls are served, a capability in the database cites a policy
  decision that the ledger records and that the governance kernel took and wrote. If it cites a human
  approval, the decision allows it, a human decided to approve that very request, the approval was
  consumed for this grant, and it approves what the capability holds: its operations, scope, subject, uses,
  conditions and commitments, no longer than the approval lasts.
\<close>

theorem capability_chain_of_custody:
  assumes "load_state (reached S hs cs w) s = Some (ACapability c)"
  shows "let F = facts (reached S hs cs w) in
    \<exists>p t. (t, PolicyEvaluated p, JStr ''governance_kernel'') \<in> F \<and> pd_policyDecisionId p = cs_policyDecisionId c
      \<and> ac_kind (pd_decidedBy p) = ''governance_kernel''
      \<and> (\<forall>q. cs_approvalRequestId c = Some q \<and> q \<noteq> [] \<longrightarrow>
           pd_effect p \<in> {''allow'', ''allow_with_conditions''}
           \<and> (\<exists>x. (approval_stream_id q, HumanApprovalDecided x, JStr ''human'') \<in> F \<and> ad_decision x = ''approve'')
           \<and> (\<exists>x who. (approval_stream_id q, OtherEvent ''HumanApprovalConsumedForCapability'' x, who) \<in> F \<and> dget x ''grantId'' = JStr (cs_grantId c))
           \<and> (\<exists>a. load_state (reached S hs cs w) (approval_stream_id q) = Some (AApproval a) \<and> approves a c))"
proof -
  let ?d = "reached S hs cs w"
  have c: "custody (load_state ?d) (facts ?d)" unfolding reached_def by (rule custodian.reachable)
  then have a: "authored (facts ?d)" and v: "vouched (load_state ?d) (facts ?d) c" using assms by (simp_all add: custody_def)
  from v obtain p t who where p: "(t, PolicyEvaluated p, who) \<in> facts ?d" "pd_policyDecisionId p = cs_policyDecisionId c"
      and b: "\<And>q. cs_approvalRequestId c = Some q \<Longrightarrow> q \<noteq> [] \<Longrightarrow> backed (load_state ?d) (facts ?d) q p c"
    by (auto simp: vouched_def decided_def)
  from a p(1) have "who = JStr ''governance_kernel''" "ac_kind (pd_decidedBy p) = ''governance_kernel''" by (simp_all add: authored_def)
  moreover have "human_approved (facts ?d) (approval_stream_id q)" if "backed (load_state ?d) (facts ?d) q p c" for q
    using a that unfolding authored_def backed_def consumed_for_def by meson
  ultimately show ?thesis using p b unfolding Let_def human_approved_def backed_def consumed_for_def by blast
qed

text \<open>
  C4. the database refines the aggregates. Whatever calls are served, the state in every stream is what the
  operations of its aggregate make of its creation, and the creation and each of the operations are
  events that the ledger records in this stream; the histories proved of the aggregates are those of the runtime.
\<close>

theorem states_are_histories:
  "\<forall>s a. load_state (reached S hs cs w) s = Some a \<longrightarrow>
     grown (ct_dict (en_contracts (sv_env S))) (facts (reached S hs cs w)) s a"
  using histories.reachable[where S = S and hs = hs and cs = cs and x = w] by (simp add: reached_def refined_def)

end
