(* ===== verification/Broker_Plans.thy ===== *)
theory Broker_Plans
  imports Tool_Broker Services_Safety
begin

text \<open>
  What the commands of the broker append, and a small program logic for the machine: a triple keeps an
  invariant through every outcome of a program, and gives a postcondition when it returns.
\<close>

section \<open>The commands of the broker\<close>

definition unprepared :: "(event, agg) append_request list \<Rightarrow> bool" where
  "unprepared as \<longleftrightarrow> (\<forall>a \<in> set as. \<forall>x. ev_payload (rq_envelope a) \<noteq> ToolExecutionPrepared x)"

fun follows_up :: "service_command \<Rightarrow> bool" where
  "follows_up (TransitionTool _ _ _) = True"
| "follows_up (SettlePredispatch _ _ _ _) = True"
| "follows_up (ReserveUse _ _) = True"
| "follows_up (FinalizeUse _ _) = True"
| "follows_up (ReserveSandbox _) = True"
| "follows_up (MoveSandbox _ _ _) = True"
| "follows_up (ObserveSandboxEffect _ _ _ _) = True"
| "follows_up (SettleSandboxCreate _ _ _ _ _ _) = True"
| "follows_up (SettleSandboxExec _ _ _ _ _ _) = True"
| "follows_up (SettleSandboxClose _ _ _ _ _ _) = True"
| "follows_up _ = False"

lemma unprepared_append:
  "sandbox_append E s x y md d = Inr a \<Longrightarrow> \<exists>k v. ev_payload (rq_envelope a) = OtherEvent k v"
  "ev_payload (rq_envelope (capability_append g u c md d)) \<noteq> ToolExecutionPrepared z"
  "ev_payload (rq_envelope (tool_append i k t md d)) \<noteq> ToolExecutionPrepared z"
  by (auto simp: sandbox_append_def sandbox_transition_event_def capability_append_def tool_append_def Let_def)

lemma unprepared_settle_create: "service_settle_sandbox_create E g x i l r p md d = Inr (Append as ex) \<Longrightarrow> unprepared as"
  by (cases "find_idempotent d (md_idempotencyKey md)")
    (auto simp: service_settle_sandbox_create_def settlement_entry_def plans Let_def unprepared_def
      dest!: unprepared_append(1) simp: unprepared_append(2,3) cong: if_cong)

lemma unprepared_settle_exec: "service_settle_sandbox_exec_indeterminate E g x i l r p md d = Inr (Append as ex) \<Longrightarrow> unprepared as"
  by (cases "find_idempotent d (md_idempotencyKey md)")
    (auto simp: service_settle_sandbox_exec_indeterminate_def settlement_entry_def plans Let_def unprepared_def
      dest!: unprepared_append(1) simp: unprepared_append(2,3))

lemma unprepared_settle_close: "service_settle_sandbox_close E g x i l r p md d = Inr (Append as ex) \<Longrightarrow> unprepared as"
  by (cases "find_idempotent d (md_idempotencyKey md)")
    (auto simp: service_settle_sandbox_close_def settlement_entry_def lease_append_def plans Let_def unprepared_def
      dest!: unprepared_append(1) simp: unprepared_append(2,3) split: option.splits cong: if_cong)

lemma unprepared_follow_up:
  assumes "plan_of S cmd tick md d = Inr (Append as ex)" and "follows_up cmd"
  shows "unprepared as"
  using assms
  by (cases cmd; cases "find_idempotent d (md_idempotencyKey md)")
    (auto simp: service_transition_tool_execution_def service_settle_predispatch_tool_execution_def predispatch_guards_def
        service_reserve_use_def service_finalize_use_def service_reserve_sandbox_lease_def transition_sandbox_lease_def
        service_observe_sandbox_create_effect_def plans Let_def unprepared_def
        dest!: unprepared_append(1) simp: unprepared_append(2,3)
        dest!: unprepared_settle_create unprepared_settle_exec unprepared_settle_close split: if_splits)

text \<open>No follow-up but the admission itself leaves an execution admitted.\<close>

definition unadmitted :: "(event, agg) append_request list \<Rightarrow> bool" where
  "unadmitted as \<longleftrightarrow> (\<forall>a \<in> set as. \<forall>t. rq_state a = AToolExecution t \<longrightarrow> label_of t \<noteq> ''admitted'')"

lemma unadmitted_append:
  "sandbox_append E s x y md d = Inr a \<Longrightarrow> rq_state a = ASandboxLease y"
  "rq_state (capability_append g u c md d) = ACapability c"
  "rq_state (tool_append i k t md d) = AToolExecution t"
  by (auto simp: sandbox_append_def capability_append_def tool_append_def Let_def)

lemma label_after: "tool_transition V t x p = Inr t' \<Longrightarrow> label_of t' = x"
  by (auto simp: tool_transition_Inr)

lemma label_settled:
  "complete_tool V t dg r ob w = Inr t' \<Longrightarrow> label_of t' = ''completed''"
  "indeterminate_tool V t dg r ob why w = Inr t' \<Longrightarrow> label_of t' = ''indeterminate''"
  by (auto simp: complete_tool_def indeterminate_tool_def dest: label_after)

lemma unadmitted_settle_create: "service_settle_sandbox_create E g x i l r p md d = Inr (Append as ex) \<Longrightarrow> unadmitted as"
  by (cases "find_idempotent d (md_idempotencyKey md)")
    (auto simp: service_settle_sandbox_create_def settlement_entry_def plans Let_def unadmitted_def unadmitted_append(2,3)
      dest!: unadmitted_append(1) label_settled split: if_splits)

lemma unadmitted_settle_exec: "service_settle_sandbox_exec_indeterminate E g x i l r p md d = Inr (Append as ex) \<Longrightarrow> unadmitted as"
  by (cases "find_idempotent d (md_idempotencyKey md)")
    (auto simp: service_settle_sandbox_exec_indeterminate_def settlement_entry_def plans Let_def unadmitted_def unadmitted_append(2,3)
      dest!: unadmitted_append(1) label_settled split: if_splits)

lemma unadmitted_settle_close:
  assumes plan: "service_settle_sandbox_close E g x i l r p md d = Inr (Append as ex)"
  shows "unadmitted as"
proof (cases "find_idempotent d (md_idempotencyKey md)")
  case None
  let ?V = "ct_dict (en_contracts E)" and ?w = "md_issuedAt md"
  from plan None obtain c' t t' s s' bs dg eff ok why where
      step: "(if ok then bnd (quarantine_lease ?V s p why ?w) (\<lambda>s'. bnd (indeterminate_tool ?V t dg r eff why ?w) (\<lambda>t'. Inr (Some s', t')))
         else bnd (close_lease ?V s p ?w) (\<lambda>s'. bnd (complete_tool ?V t dg r eff ?w) (\<lambda>t'. Inr (s', t')))) = Inr (s', t')"
      and bs: "lease_append E (sandbox_stream l) s s' md d = Inr bs"
      and as: "as = capability_append g x c' md d # tool_append i ToolTerminated t' md d # bs"
    by (simp add: service_settle_sandbox_close_def settlement_entry_def plans Let_def split_paired_Ex cong: if_cong) blast
  have "label_of t' \<noteq> ''admitted''" using step by (auto split: if_splits dest!: label_settled)
  moreover have "rq_state a \<noteq> AToolExecution u" if "a \<in> set bs" for a u
    using that bs by (auto simp: lease_append_def split: option.splits dest: unadmitted_append(1))
  ultimately show ?thesis by (auto simp: as unadmitted_def unadmitted_append(2,3))
qed (use plan in \<open>simp add: service_settle_sandbox_close_def settlement_entry_def plans Let_def unadmitted_def\<close>)

fun admission :: "service_command \<Rightarrow> bool" where
  "admission (TransitionTool _ t _) \<longleftrightarrow> t = ''admitted''"
| "admission _ \<longleftrightarrow> False"

lemma unadmitted_follow_up:
  assumes "plan_of S cmd tick md d = Inr (Append as ex)" and "follows_up cmd" and "\<not> admission cmd"
  shows "unadmitted as"
  using assms
  by (cases cmd; cases "find_idempotent d (md_idempotencyKey md)")
    (auto simp: service_transition_tool_execution_def service_settle_predispatch_tool_execution_def predispatch_guards_def
      service_reserve_use_def service_finalize_use_def service_reserve_sandbox_lease_def transition_sandbox_lease_def
      service_observe_sandbox_create_effect_def plans Let_def unadmitted_def unadmitted_append(2,3)
      dest!: unadmitted_append(1) label_after unadmitted_settle_create unadmitted_settle_exec unadmitted_settle_close split: if_splits)

text \<open>Those that come between the check of the lease and the effect touch no capability but by a reservation.\<close>

fun admits :: "service_command \<Rightarrow> bool" where
  "admits (TransitionTool _ _ _) = True"
| "admits (ReserveSandbox _) = True"
| "admits (MoveSandbox _ _ _) = True"
| "admits _ = False"

lemma admits_spares:
  assumes "plan_of S cmd tick md d = Inr (Append as ex)" and "admits cmd" and "a \<in> set as"
  shows "rq_state a \<noteq> ACapability c"
  using assms
  by (cases cmd; cases "find_idempotent d (md_idempotencyKey md)")
    (auto simp: service_transition_tool_execution_def service_reserve_sandbox_lease_def transition_sandbox_lease_def plans Let_def
      dest!: unadmitted_append(1) split: if_splits)

end
