(* ===== verification/Broker_Logic.thy ===== *)
theory Broker_Logic
  imports Broker_Plans
begin

text \<open>
  What a call of the runtime does to states, facts and keys, what a follow-up of the broker does to the
  tool executions, and a program logic for the machine: a triple keeps an invariant of database and
  effects through every outcome of a program, the death of the process included, and gives a
  postcondition when the program returns.
\<close>

section \<open>Calls and keys\<close>

lemma same_keys_of_dispatch: "db_idempotency (fst (dispatch hs d w)) = db_idempotency d"
  using same_keys_dispatch[of d hs "pending_outbox d" w 0] by (simp add: dispatch_def same_keys_def)

text \<open>A call that changes nothing and still returns was answered, or its key was known with its fingerprint.\<close>

lemma serve_cases:
  assumes w: "wired S d" and s: "serve S hs (cmd, tick, md) d x = (d', x', r)"
  obtains (still) "load_state d' = load_state d" "facts d' = facts d" "db_idempotency d' = db_idempotency d"
      "\<And>y. r = Inr y \<Longrightarrow> (\<exists>z. plan_of S cmd tick md d = Inr (Answer z)) \<or> (\<exists>as ex row. plan_of S cmd tick md d = Inr (Append as ex)
        \<and> map_of (db_idempotency d) (md_idempotencyKey md) = Some row \<and> ir_fingerprint row = md_operationFingerprint md)"
  | (wrote) as ex row where "plan_of S cmd tick md d = Inr (Append as ex)" "map_of (db_idempotency d) (md_idempotencyKey md) = None"
      "load_state d' = states_after as (load_state d)" "facts d' = facts d \<union> fact_of ` rq_envelope ` set as"
      "db_idempotency d' = db_idempotency d @ [(md_idempotencyKey md, row)]" "ir_fingerprint row = md_operationFingerprint md"
proof -
  let ?H = "en_hashing (sv_env S)" and ?p = "plan_of S cmd tick md d"
  show ?thesis
  proof (cases "\<exists>as ex. ?p = Inr (Append as ex)")
    case False
    then show ?thesis using s by (intro still) (auto simp: serve_def perform_def split: sum.splits plan.splits)
  next
    case True
    then obtain as ex where p: "?p = Inr (Append as ex)" by blast
    obtain d1 res where c: "commit_command ?H as (md_idempotencyKey md) (md_operationFingerprint md) (md_commandId md) d = (d1, res)" by force
    have d': "same_ledger d1 d' \<and> db_idempotency d' = db_idempotency d1"
    proof (cases res)
      case (Inr y)
      then have "d' = fst (dispatch hs d1 x)" using s c by (auto simp: serve_def perform_def p split: sum.splits prod.splits)
      then show ?thesis using dispatch_keeps_ledger[of d1 hs "pending_outbox d1" x 0] same_keys_of_dispatch[of hs d1 x] by (simp add: dispatch_def)
    qed (use s c in \<open>simp add: serve_def perform_def p same_ledger_def\<close>)
    have ret: "\<exists>y. res = Inr y" if "r = Inr z" for z
      using s c that by (auto simp: serve_def perform_def p split: sum.splits prod.splits)
    from c show ?thesis
    proof (cases rule: commit_command_cases)
      case (applied d2 written)
      have "same_ledger d2 d1" by (simp add: applied(5) same_ledger_def)
      with d' have "same_ledger d2 d'" using same_ledger_trans by blast
      moreover have "db_idempotency d2 = db_idempotency d"
        using append_all_frame[OF applied(2)] w below_autoinc_inv unfolding wired_def by blast
      ultimately show ?thesis
        using append_all_view[OF w applied(2)] same_ledger_view[of d2 d'] d' applied(5) by (intro wrote[OF p applied(1)]) auto
    next
      case (known prior)
      then show ?thesis using d' ret same_ledger_view[of d d'] p
        by (intro still) (auto simp: replayed_result_def split: if_splits)
    next
      case failed
      then show ?thesis using d' ret same_ledger_view[of d d'] by (intro still) fastforce+
    qed
  qed
qed

section \<open>Tool executions under follow-ups\<close>

text \<open>How the aggregate of a stream moves when no execution is prepared in it.\<close>

fun tool_moves :: "validator \<Rightarrow> agg option \<Rightarrow> agg option \<Rightarrow> bool" where
  "tool_moves V (Some (AToolExecution t)) y = (\<exists>ops t'. y = Some (AToolExecution t') \<and> run (tool_step V) t ops = Inr t')"
| "tool_moves V x y = (\<forall>t. y \<noteq> Some (AToolExecution t))"

lemma tool_moves_refl [simp]: "tool_moves V x x"
  by (cases "(V, x, x)" rule: tool_moves.cases) (auto intro: exI[of _ "[]"])

lemma tool_moves_trans: "tool_moves V x y \<Longrightarrow> tool_moves V y z \<Longrightarrow> tool_moves V x z"
proof (cases "(V, x, y)" rule: tool_moves.cases)
  case (1 V' t y')
  assume "tool_moves V x y" "tool_moves V y z"
  with 1 obtain ops t' ops' t'' where "y = Some (AToolExecution t')" "run (tool_step V) t ops = Inr t'"
      "z = Some (AToolExecution t'')" "run (tool_step V) t' ops' = Inr t''" by auto
  then have "run (tool_step V) t (ops @ ops') = Inr t''" "z = Some (AToolExecution t'')" by (simp_all add: run_append)
  with 1 show ?thesis by auto
qed (cases "(V, y, z)" rule: tool_moves.cases; auto)+

lemma records_tool_moves:
  assumes r: "records S ld F who v s ev a" and ty: "typed ld" and ev: "\<And>x. ev \<noteq> ToolExecutionPrepared x" and V: "V = ct_dict (en_contracts (sv_env S))"
  shows "tool_moves V (ld s) (Some a)"
  using r
proof cases
  case (tool_moved x ops x' k)
  then show ?thesis by (auto simp: V)
next
  case (tool_prepared x i)
  then show ?thesis using ev by blast
qed (use records_placed[OF r ty] ty in \<open>cases "(V, ld s, Some a)" rule: tool_moves.cases;
      force simp: typed_def stream_ids\<close>)+

lemma all_recorded_tool_moves:
  "all_recorded S ld F as \<Longrightarrow> unprepared as \<Longrightarrow> typed ld \<Longrightarrow> tool_moves (ct_dict (en_contracts (sv_env S))) (ld s) (states_after as ld s)"
proof (induction as arbitrary: ld F)
  case (Cons a as)
  let ?V = "ct_dict (en_contracts (sv_env S))" and ?l = "ld(rq_stream_id a \<mapsto> rq_state a)"
  from Cons.prems have r: "records S ld F (author (rq_envelope a)) (rq_expected_version a) (rq_stream_id a) (ev_payload (rq_envelope a)) (rq_state a)"
    and as: "all_recorded S ?l (insert (fact_of (rq_envelope a)) F) as" by simp_all
  have "tool_moves ?V (ld s) (?l s)"
    using records_tool_moves[OF r Cons.prems(3) _ refl] Cons.prems(2) by (auto simp: unprepared_def)
  moreover have ty: "typed ?l" using records_placed[OF r Cons.prems(3)] Cons.prems(3) by (simp add: typed_def)
  have u: "unprepared as" using Cons.prems(2) by (simp add: unprepared_def)
  note Cons.IH[OF as u ty]
  ultimately show ?case by (simp del: fun_upd_apply) (rule tool_moves_trans)
qed simp

text \<open>What a follow-up leaves of a tool execution: its identity; the states before the dispatch are not returned to.\<close>

definition before_dispatch :: "dict \<Rightarrow> bool" where
  "before_dispatch t \<longleftrightarrow> label_of t = ''prepared'' \<or> label_of t = ''admitted''"

lemma tool_table:
  assumes "allowed TOOL_TRANSITIONS l l'"
  shows "l' \<noteq> ''prepared''" "l' = ''admitted'' \<longrightarrow> l = ''prepared''" "l' = ''dispatching'' \<longrightarrow> l = ''admitted''"
  using assms by (auto simp: allowed_def TOOL_TRANSITIONS_def split: if_splits)

lemma tool_step_on:
  assumes "tool_step V t a = Inr t'"
  shows "label_of t' \<noteq> ''prepared''" "\<not> before_dispatch t \<Longrightarrow> \<not> before_dispatch t'"
    "dlook t' ''operationFingerprint'' = dlook t ''operationFingerprint''" "label_of t' = ''dispatching'' \<Longrightarrow> label_of t = ''admitted''"
proof -
  note F = tool_step_facts[OF assms]
  then have "allowed TOOL_TRANSITIONS (label_of t) (label_of t')" by blast
  note T = tool_table[OF this]
  show "label_of t' \<noteq> ''prepared''" "\<not> before_dispatch t \<Longrightarrow> \<not> before_dispatch t'"
    "label_of t' = ''dispatching'' \<Longrightarrow> label_of t = ''admitted''" using T by (auto simp: before_dispatch_def)
  have "''operationFingerprint'' \<notin> set TOOL_MUTABLE_FIELDS" by (simp add: TOOL_MUTABLE_FIELDS_def)
  with F show "dlook t' ''operationFingerprint'' = dlook t ''operationFingerprint''" by simp
qed

lemma tool_run_on:
  "run (tool_step V) t ops = Inr t' \<Longrightarrow> (label_of t' = ''prepared'' \<longrightarrow> t' = t) \<and> (\<not> before_dispatch t \<longrightarrow> \<not> before_dispatch t')
     \<and> dlook t' ''operationFingerprint'' = dlook t ''operationFingerprint''"
proof (induction ops arbitrary: t)
  case (Cons a ops)
  then obtain u where u: "tool_step V t a = Inr u" "run (tool_step V) u ops = Inr t'" by auto
  from Cons.IH[OF u(2)] tool_step_on[OF u(1)] show ?case by auto
qed simp

section \<open>Triples\<close>

text \<open>Assertions are about the database and the effects; hooks and clock readings do not touch them.\<close>

type_synonym assertion = "rt_db \<Rightarrow> effect list \<Rightarrow> bool"

definition holds :: "assertion \<Rightarrow> ('x, 'w) machine \<Rightarrow> bool" where
  "holds P m = P (mc_db m) (mc_effects m)"

definition triple :: "assertion \<Rightarrow> assertion \<Rightarrow> ('x, 'w, 'a) prog \<Rightarrow> ('a \<Rightarrow> assertion) \<Rightarrow> bool" where
  "triple J P p Q \<longleftrightarrow> (\<forall>m. holds J m \<longrightarrow> holds P m \<longrightarrow>
     holds J (fst (p m)) \<and> (\<forall>x. snd (p m) = Some (Inr x) \<longrightarrow> holds (Q x) (fst (p m))))"

abbreviation any :: assertion where "any \<equiv> (\<lambda>_ _. True)"

lemma triple_seq:
  assumes p: "triple J P (p :: ('x, 'w, 'a) prog) Q" and f: "\<And>x. triple J (Q x) (f x) R"
  shows "triple J P (seq p f) R"
  unfolding triple_def
proof (intro allI impI)
  fix m :: "('x, 'w) machine"
  assume m: "holds J m" "holds P m"
  obtain m' r where e: "p m = (m', r)" by force
  note q = p[unfolded triple_def, rule_format, OF m]
  show "holds J (fst (seq p f m)) \<and> (\<forall>x. snd (seq p f m) = Some (Inr x) \<longrightarrow> holds (R x) (fst (seq p f m)))"
  proof (cases "\<exists>x. r = Some (Inr x)")
    case True
    then obtain x where r: "r = Some (Inr x)" ..
    from q e r have "holds J m'" "holds (Q x) m'" by simp_all
    from f[of x, unfolded triple_def, rule_format, OF this] show ?thesis by (simp add: seq_def e r)
  next
    case False
    with q e show ?thesis by (auto simp: seq_def split: option.splits sum.splits)
  qed
qed

lemma triple_catch:
  assumes p: "triple J P (p :: ('x, 'w, 'a) prog) Q" and h: "\<And>x. triple J any (h x) Q"
  shows "triple J P (catch p h) Q"
  unfolding triple_def
proof (intro allI impI)
  fix m :: "('x, 'w) machine"
  assume m: "holds J m" "holds P m"
  obtain m' r where e: "p m = (m', r)" by force
  note q = p[unfolded triple_def, rule_format, OF m]
  show "holds J (fst (catch p h m)) \<and> (\<forall>x. snd (catch p h m) = Some (Inr x) \<longrightarrow> holds (Q x) (fst (catch p h m)))"
  proof (cases "\<exists>x. r = Some (Inl x)")
    case True
    then obtain x where r: "r = Some (Inl x)" ..
    from q e have "holds J m'" by simp
    with h[of x, unfolded triple_def, rule_format, of m'] show ?thesis by (simp add: catch_def e r holds_def)
  next
    case False
    with q e show ?thesis by (auto simp: catch_def split: option.splits sum.splits)
  qed
qed

lemma triple_pre: "triple J P p Q \<Longrightarrow> (\<And>d fx. J d fx \<Longrightarrow> P' d fx \<Longrightarrow> P d fx) \<Longrightarrow> triple J P' p Q"
  by (simp add: triple_def holds_def)

lemma triple_post: "triple J P p Q \<Longrightarrow> (\<And>x d fx. J d fx \<Longrightarrow> Q x d fx \<Longrightarrow> Q' x d fx) \<Longrightarrow> triple J P p Q'"
  by (simp add: triple_def holds_def)

lemma triple_give: "(\<And>x d fx. r = Inr x \<Longrightarrow> J d fx \<Longrightarrow> P d fx \<Longrightarrow> Q x d fx) \<Longrightarrow> triple J P (give r) Q"
  by (simp add: triple_def holds_def give_def)

lemma triple_look: "(\<And>x d fx. f d = Inr x \<Longrightarrow> J d fx \<Longrightarrow> P d fx \<Longrightarrow> Q x d fx) \<Longrightarrow> triple J P (look f) Q"
  by (simp add: triple_def holds_def look_def)

lemma triple_check: "(\<not> c \<Longrightarrow> triple J P p Q) \<Longrightarrow> triple J P (check c e p) Q"
  by (simp add: triple_def check_def give_def)

lemma triple_if: "(c \<Longrightarrow> triple J P p Q) \<Longrightarrow> (\<not> c \<Longrightarrow> triple J P q Q) \<Longrightarrow> triple J P (if c then p else q) Q"
  by simp

text \<open>A quiet program leaves database and effects alone.\<close>

definition quiet :: "('x, 'w, 'a) prog \<Rightarrow> bool" where
  "quiet p \<longleftrightarrow> (\<forall>m. mc_db (fst (p m)) = mc_db m \<and> mc_effects (fst (p m)) = mc_effects m)"

lemma triple_quiet: "quiet p \<Longrightarrow> (\<And>x d fx. J d fx \<Longrightarrow> P d fx \<Longrightarrow> Q x d fx) \<Longrightarrow> triple J P p Q"
  by (simp add: triple_def holds_def quiet_def)

named_theorems quiets "programs that leave database and effects alone"

lemma quiet_seq [quiets]:
  assumes p: "quiet (p :: ('x, 'w, 'a) prog)" and f: "\<And>x. quiet (f x)"
  shows "quiet (seq p f)"
  unfolding quiet_def
proof
  fix m :: "('x, 'w) machine"
  obtain m' r where e: "p m = (m', r)" by force
  have "mc_db m' = mc_db m \<and> mc_effects m' = mc_effects m" using p e by (metis fst_conv quiet_def)
  moreover have "mc_db (fst (f x m')) = mc_db m' \<and> mc_effects (fst (f x m')) = mc_effects m'" for x using f by (simp add: quiet_def)
  ultimately show "mc_db (fst (seq p f m)) = mc_db m \<and> mc_effects (fst (seq p f m)) = mc_effects m"
    by (simp add: seq_def e split: option.split sum.split)
qed

lemma quiet_catch [quiets]:
  assumes p: "quiet (p :: ('x, 'w, 'a) prog)" and h: "\<And>x. quiet (h x)"
  shows "quiet (catch p h)"
  unfolding quiet_def
proof
  fix m :: "('x, 'w) machine"
  obtain m' r where e: "p m = (m', r)" by force
  have "mc_db m' = mc_db m \<and> mc_effects m' = mc_effects m" using p e by (metis fst_conv quiet_def)
  moreover have "mc_db (fst (h x m')) = mc_db m' \<and> mc_effects (fst (h x m')) = mc_effects m'" for x using h by (simp add: quiet_def)
  ultimately show "mc_db (fst (catch p h m)) = mc_db m \<and> mc_effects (fst (catch p h m)) = mc_effects m"
    by (simp add: catch_def e split: option.split sum.split)
qed

lemma quiet_give [quiets]: "quiet (give r)"
  by (simp add: quiet_def give_def)

lemma quiet_look [quiets]: "quiet (look f)"
  by (simp add: quiet_def look_def)

lemma quiet_ask [quiets]: "quiet (ask_now B)"
  by (simp add: quiet_def ask_now_def)

lemma quiet_adapt [quiets]: "quiet (adapt h)"
  by (simp add: quiet_def adapt_def split: prod.splits)

lemma quiet_adapt_opt [quiets]: "quiet (adapt_opt h)"
  by (simp add: adapt_opt_def quiet_give quiet_adapt split: option.splits)

lemma quiet_check [quiets]: "quiet p \<Longrightarrow> quiet (check c e p)"
  by (simp add: check_def quiet_give)

lemma quiet_observed [quiets]: "quiet observed" "quiet (set_observed i)"
  by (simp_all add: quiet_def observed_def set_observed_def)

lemma quiet_if [quiets]: "quiet p \<Longrightarrow> quiet q \<Longrightarrow> quiet (if c then p else q)"
  by simp

end
