(* ===== verification/Json_Text.thy ===== *)
theory Json_Text
  imports Json
begin

text \<open>
  The text of a JSON string can be read back: two strings whose texts begin a common text are the same.
  A fingerprint of strings therefore identifies them as far as the hash identifies texts.
\<close>

section \<open>Escaping, on character codes\<close>

definition hex_code :: "nat \<Rightarrow> nat" where
  "hex_code k = (if k < 10 then 48 + k else 87 + k)"

definition special :: "nat \<Rightarrow> nat option" where
  "special = map_of [(34, 34), (92, 92), (8, 98), (9, 116), (10, 110), (12, 102), (13, 114)]"

definition escape_code :: "nat \<Rightarrow> nat list" where
  "escape_code n = (case special n of Some k \<Rightarrow> [92, k]
     | None \<Rightarrow> if n < 32 then [92, 117, 48, 48, hex_code (n div 16), hex_code (n mod 16)] else [n])"

lemma hex_code_inj: "hex_code m = hex_code n \<Longrightarrow> m < 16 \<Longrightarrow> n < 16 \<Longrightarrow> m = n"
  by (auto simp: hex_code_def split: if_splits)

lemma hex_pair_inj: "hex_code (m div 16) = hex_code (n div 16) \<Longrightarrow> hex_code (m mod 16) = hex_code (n mod 16) \<Longrightarrow> m < 32 \<Longrightarrow> n < 32 \<Longrightarrow> m = n"
  by (drule hex_code_inj, simp, simp, drule hex_code_inj, simp, simp) (metis div_mult_mod_eq)

lemma special_facts: "special n = Some k \<Longrightarrow> k \<noteq> 117" "special 92 \<noteq> None" "special 34 \<noteq> None"
  by (auto simp: special_def split: if_splits)

lemma special_inj: "special m = Some k \<Longrightarrow> special n = Some k \<Longrightarrow> m = n"
  by (simp add: special_def split: if_splits)

lemma escape_code_read: "escape_code m @ u = escape_code n @ v \<Longrightarrow> m = n \<and> u = v"
  by (cases "special m"; cases "special n"; cases "m < 32"; cases "n < 32")
    (auto simp: escape_code_def special_facts dest: hex_pair_inj special_inj special_facts(1))

lemma escape_code_no_quote: "escape_code n \<noteq> 34 # u" "escape_code n @ w \<noteq> 34 # u" "escape_code n \<noteq> []"
  by (auto simp: escape_code_def special_facts split: option.splits)

lemma codes_escape_char: "map of_char (escape_char c) = escape_code (of_char c)"
proof -
  have "(of_char c :: nat) < 32 \<Longrightarrow> of_char c div 16 < (10 :: nat)" by simp
  then show ?thesis by (simp add: escape_char_def escape_code_def special_def Let_def hex_digit_def hex_code_def)
qed

section \<open>Reading a string back\<close>

lemma codes_read:
  "concat (map escape_code xs) @ 34 # u = concat (map escape_code ys) @ 34 # v \<Longrightarrow> xs = ys \<and> u = v"
proof (induction xs arbitrary: ys)
  case Nil
  then show ?case by (cases ys) (auto simp: escape_code_no_quote dest: sym)
next
  case (Cons x xs)
  then obtain y zs where ys: "ys = y # zs" by (cases ys) (auto simp: escape_code_no_quote)
  with Cons.prems escape_code_read[of x _ y] have "x = y \<and> concat (map escape_code xs) @ 34 # u = concat (map escape_code zs) @ 34 # v" by simp
  with Cons.IH ys show ?case by simp
qed

lemma of_char_inj: "inj (of_char :: char \<Rightarrow> nat)"
  by (rule injI) simp

lemma json_string_read: "json_string x @ u = json_string y @ v \<Longrightarrow> x = y \<and> u = v"
proof -
  have codes: "map of_char (concat (map escape_char s)) = concat (map escape_code (map of_char s))" for s
    by (induction s) (simp_all add: codes_escape_char)
  assume "json_string x @ u = json_string y @ v"
  then have "map of_char (json_string x @ u) = (map of_char (json_string y @ v) :: nat list)" by simp
  then have "map of_char x = (map of_char y :: nat list) \<and> map of_char u = (map of_char v :: nat list)"
    by (intro codes_read) (simp add: json_string_def codes)
  then show ?thesis by (simp add: inj_map_eq_map of_char_inj)
qed

end
