(* ===== verification/Broker_Safety.thy ===== *)
theory Broker_Safety
  imports Broker_Logic Json_Text
begin

text \<open>
  What holds of every machine on which the broker runs, whatever the adapters do, whenever the process dies
  and is started again, and whatever other clients ask of the runtime meanwhile: an execution has at
  most one effect, and every effect was authorised when it happened.
\<close>

section \<open>Fingerprints\<close>

lemma json_pair:
  "canonical_json (JObj [(''operation'', JStr p), (''subject'', JObj x)])
     = ''{'' @ json_string ''operation'' @ '':'' @ json_string p @ '','' @ json_string ''subject'' @ '':'' @ canonical_json (JObj x) @ ''}''"
  by simp

lemma fingerprint_read:
  assumes "inj sha" and "fingerprint sha p x = fingerprint sha q y"
  shows "p = q" "canonical_json (JObj x) = canonical_json (JObj y)"
proof -
  from assms have "canonical_json (JObj [(''operation'', JStr p), (''subject'', JObj x)]) = canonical_json (JObj [(''operation'', JStr q), (''subject'', JObj y)])"
    by (simp add: fingerprint_def digest_def inj_eq del: canonical_json.simps)
  then have "json_string p @ '','' @ json_string ''subject'' @ '':'' @ canonical_json (JObj x) @ ''}''
      = json_string q @ '','' @ json_string ''subject'' @ '':'' @ canonical_json (JObj y) @ ''}''" by (simp add: json_pair del: canonical_json.simps)
  from json_string_read[OF this] show "p = q" "canonical_json (JObj x) = canonical_json (JObj y)" by simp_all
qed

lemma stage_fingerprint_read:
  assumes "inj sha" and "stage_fingerprint sha e s = stage_fingerprint sha e' s'"
  shows "e = e' \<and> s = s'"
proof -
  note F = fingerprint_read[OF assms(1) assms(2)[unfolded stage_fingerprint_def]]
  have "json_string e @ ''}'' = json_string e' @ ''}''" using F(2) by simp
  from json_string_read[OF this] F(1) show ?thesis by simp
qed

section \<open>What a call does to the tool executions\<close>

definition tool_at :: "rt_db \<Rightarrow> string \<Rightarrow> dict option" where
  "tool_at d e = Option.bind (load_state d (tool_stream_id e)) the_tool"

text \<open>The dispatch of an execution was recorded.\<close>

definition crossed :: "rt_db \<Rightarrow> string \<Rightarrow> bool" where
  "crossed d e \<longleftrightarrow> (\<exists>t. tool_at d e = Some t \<and> \<not> before_dispatch t)"

definition named :: "rt_db \<Rightarrow> string \<Rightarrow> string \<Rightarrow> bool" where
  "named d e fp \<longleftrightarrow> (\<exists>t. tool_at d e = Some t \<and> dlook t ''operationFingerprint'' = Some (JStr fp))"

definition succeeds :: "dict \<Rightarrow> dict \<Rightarrow> bool" where
  "succeeds t t' \<longleftrightarrow> (\<not> before_dispatch t \<longrightarrow> \<not> before_dispatch t') \<and> dlook t' ''operationFingerprint'' = dlook t ''operationFingerprint''
     \<and> (label_of t \<in> set TOOL_TERMINAL \<longrightarrow> t' = t)"

definition follows :: "rt_db \<Rightarrow> rt_db \<Rightarrow> bool" where
  "follows d d' \<longleftrightarrow> facts d \<subseteq> facts d' \<and> (\<forall>e t. tool_at d e = Some t \<longrightarrow> (\<exists>t'. tool_at d' e = Some t' \<and> succeeds t t'))"

text \<open>An execution that reached its end; it stays there.\<close>

definition ended :: "rt_db \<Rightarrow> string \<Rightarrow> bool" where
  "ended d e \<longleftrightarrow> (\<exists>t. tool_at d e = Some t \<and> label_of t \<in> set TOOL_TERMINAL)"

lemma succeeds_refl [simp]: "succeeds t t"
  by (simp add: succeeds_def)

lemma follows_at:
  assumes "follows d d'" and "tool_at d e = Some t"
  obtains t' where "tool_at d' e = Some t'" "succeeds t t'"
  using assms unfolding follows_def by blast

lemma ended_on: "follows d d' \<Longrightarrow> ended d e \<Longrightarrow> ended d' e"
  unfolding ended_def by (auto elim!: follows_at simp: succeeds_def)

lemma crossed_on: "follows d d' \<Longrightarrow> crossed d e \<Longrightarrow> crossed d' e"
  unfolding crossed_def by (auto elim!: follows_at simp: succeeds_def)

lemma there_on: "follows d d' \<Longrightarrow> tool_at d e \<noteq> None \<Longrightarrow> tool_at d' e \<noteq> None"
  by (auto elim!: follows_at)

lemma named_on: "follows d d' \<Longrightarrow> named d e fp \<Longrightarrow> named d' e fp"
  unfolding named_def by (auto elim!: follows_at simp: succeeds_def)

lemma tool_at_iff: "tool_at d e = Some t \<longleftrightarrow> load_state d (tool_stream_id e) = Some (AToolExecution t)"
  by (simp add: tool_at_def bind_eq_Some_conv)

text \<open>A call that prepares no execution, and one that also admits none.\<close>

definition prepares_nothing :: "services \<Rightarrow> service_command \<Rightarrow> (nat \<Rightarrow> string) \<Rightarrow> metadata \<Rightarrow> rt_db \<Rightarrow> bool" where
  "prepares_nothing S cmd tick md d \<longleftrightarrow> (\<forall>as ex. plan_of S cmd tick md d = Inr (Append as ex) \<longrightarrow> unprepared as)"

definition admits_nothing :: "services \<Rightarrow> service_command \<Rightarrow> (nat \<Rightarrow> string) \<Rightarrow> metadata \<Rightarrow> rt_db \<Rightarrow> bool" where
  "admits_nothing S cmd tick md d \<longleftrightarrow> (\<forall>as ex. plan_of S cmd tick md d = Inr (Append as ex) \<longrightarrow> unadmitted as)"

lemma recorded_plan:
  assumes "wired S d" and "typed (load_state d)" and "plan_of S cmd tick md d = Inr (Append as ex)"
  shows "all_recorded S (load_state d) (facts d) as"
  using assms plan_sound[OF _ _ assms(2,3)] unfolding wired_def by blast

lemma tool_run_ended: "run (tool_step V) t ops = Inr t' \<Longrightarrow> label_of t \<in> set TOOL_TERMINAL \<Longrightarrow> t' = t"
  by (cases ops) (auto dest: tool_step_facts)

lemma call_follows:
  assumes w: "wired S d" and ty: "typed (load_state d)" and s: "serve S hs (cmd, tick, md) d x = (d', x', r)"
    and u: "prepares_nothing S cmd tick md d"
  shows "follows d d'"
  using w s
proof (cases rule: serve_cases)
  case still
  then show ?thesis by (auto simp: follows_def tool_at_def)
next
  case (wrote as ex row)
  let ?V = "ct_dict (en_contracts (sv_env S))"
  have moves: "tool_moves ?V (load_state d z) (load_state d' z)" for z
    using all_recorded_tool_moves[OF recorded_plan[OF w ty wrote(1)] _ ty] u wrote(1,3) by (simp add: prepares_nothing_def)
  have "\<exists>t'. tool_at d' e = Some t' \<and> succeeds t t'" if t: "tool_at d e = Some t" for e t
  proof -
    from moves[of "tool_stream_id e"] t obtain ops t' where "tool_at d' e = Some t'" and r: "run (tool_step ?V) t ops = Inr t'" by (auto simp: tool_at_iff)
    moreover have "succeeds t t'" unfolding succeeds_def using tool_run_on[OF r] tool_run_ended[OF r] by blast
    ultimately show ?thesis by blast
  qed
  with wrote(4) show ?thesis by (simp add: follows_def)
qed

text \<open>Only what was admitted or prepared before is before its dispatch afterwards.\<close>

lemma all_recorded_not_before:
  "all_recorded S ld F as \<Longrightarrow> unprepared as \<Longrightarrow> unadmitted as \<Longrightarrow> states_after as ld s = Some (AToolExecution t) \<Longrightarrow> before_dispatch t \<Longrightarrow>
     ld s = Some (AToolExecution t)"
proof (induction as arbitrary: ld F)
  case (Cons a as)
  let ?l = "ld(rq_stream_id a \<mapsto> rq_state a)"
  from Cons.prems have r: "records S ld F (author (rq_envelope a)) (rq_expected_version a) (rq_stream_id a) (ev_payload (rq_envelope a)) (rq_state a)"
    and as: "all_recorded S ?l (insert (fact_of (rq_envelope a)) F) as" and u: "unprepared as" "unadmitted as"
    and a: "\<And>x. ev_payload (rq_envelope a) \<noteq> ToolExecutionPrepared x" "rq_state a = AToolExecution t \<Longrightarrow> label_of t \<noteq> ''admitted''"
    by (auto simp: unprepared_def unadmitted_def)
  from Cons.IH[OF as u] Cons.prems(4,5) have l: "?l s = Some (AToolExecution t)" by (simp del: fun_upd_apply)
  show ?case
  proof (cases "s = rq_stream_id a")
    case True
    with l have t: "rq_state a = AToolExecution t" by simp
    with a(2) Cons.prems(5) have p: "label_of t = ''prepared''" by (auto simp: before_dispatch_def)
    from r show ?thesis
    proof cases
      case (tool_moved x ops x' k)
      with t p tool_run_on[of "ct_dict (en_contracts (sv_env S))" x ops x'] True show ?thesis by auto
    qed (use t a(1) in auto)
  qed (use l in simp)
qed simp

lemma call_not_before:
  assumes w: "wired S d" and ty: "typed (load_state d)" and s: "serve S hs (cmd, tick, md) d x = (d', x', r)"
    and u: "prepares_nothing S cmd tick md d" "admits_nothing S cmd tick md d" and t: "tool_at d' e = Some t" "before_dispatch t"
  shows "tool_at d e = Some t"
  using w s
proof (cases rule: serve_cases)
  case (wrote as ex row)
  with all_recorded_not_before[OF recorded_plan[OF w ty wrote(1)]] u t show ?thesis
    by (simp add: prepares_nothing_def admits_nothing_def tool_at_iff)
qed (use t in \<open>simp add: tool_at_def\<close>)

section \<open>The invariant of the broker\<close>

text \<open>A use was reserved for an execution, under the fingerprint of its request.\<close>

definition reserved :: "('x, 'w) broker \<Rightarrow> rt_db \<Rightarrow> string \<Rightarrow> string \<Rightarrow> bool" where
  "reserved B d e fp \<longleftrightarrow> (\<exists>g v who. (capability_stream_id g, CapabilityUseReserved v, who) \<in> facts d
     \<and> rq_reservationId v = reservation_id B e \<and> rq_operationFingerprint v = fp)"

definition charged :: "('x, 'w) broker \<Rightarrow> rt_db \<Rightarrow> string \<Rightarrow> bool" where
  "charged B d e \<longleftrightarrow> (\<exists>fp. named d e fp \<and> reserved B d e fp)"

text \<open>The request may have its effect: its grant is there, its lease admits it at some reading of the clock, and its grant is not committed to others.\<close>

definition licensed :: "('x, 'w) broker \<Rightarrow> tool_request \<Rightarrow> rt_db \<Rightarrow> bool" where
  "licensed B r d \<longleftrightarrow> (\<exists>g l c k. tr_grantId r = Some g \<and> tr_leaseId r = Some l \<and> load_state d (capability_stream_id g) = Some (ACapability c)
     \<and> cap_check_lease c l (tr_operation r) (scope_for r) (bk_now B k) = Inr ()
     \<and> (request_commitments c \<noteq> [] \<longrightarrow> JStr (tool_request_fingerprint (broker_sha B) r) \<in> set (request_commitments c)))"

definition in_order :: "('x, 'w) broker \<Rightarrow> rt_db \<Rightarrow> bool" where
  "in_order B d \<longleftrightarrow> wired (bk_services B) d \<and> kinded d \<and> typed (load_state d) \<and> custody (load_state d) (facts d)"

definition warranted :: "('x, 'w) broker \<Rightarrow> effect \<Rightarrow> bool" where
  "warranted B f \<longleftrightarrow> (let e = ef_execution f; r = ef_request f; d = ef_database f; fp = tool_request_fingerprint (broker_sha B) r in
     e = execution_id B (tr_idempotencyKey r) \<and> in_order B d \<and> crossed d e \<and> named d e fp \<and> licensed B r d
     \<and> (tr_consequential r \<longrightarrow> reserved B d e fp))"

text \<open>What a committed stage tells of its execution.\<close>

definition done_stage :: "('x, 'w) broker \<Rightarrow> rt_db \<Rightarrow> string \<Rightarrow> string \<Rightarrow> bool" where
  "done_stage B d e s \<longleftrightarrow> (s = ''prepared'' \<longrightarrow> tool_at d e \<noteq> None) \<and> (s = ''dispatching'' \<longrightarrow> crossed d e)
     \<and> (s = ''reserve-capability'' \<longrightarrow> charged B d e) \<and> (s \<in> set TOOL_TERMINAL \<longrightarrow> ended d e)"

definition telling :: "string set" where
  "telling = {''prepared'', ''dispatching'', ''reserve-capability''} \<union> set TOOL_TERMINAL"

lemma tells_nothing: "s \<notin> telling \<Longrightarrow> done_stage B d e s"
  by (simp add: done_stage_def telling_def)

lemma done_only:
  assumes "inj (broker_sha B)" and "f = stage_fingerprint (broker_sha B) e s" and "done_stage B d e s" and "f = stage_fingerprint (broker_sha B) e' s'"
  shows "done_stage B d e' s'"
  using stage_fingerprint_read[OF assms(1), of e s e' s'] assms(2-4) by simp

definition keys_kept :: "('x, 'w) broker \<Rightarrow> rt_db \<Rightarrow> bool" where
  "keys_kept B d \<longleftrightarrow> (\<forall>i row e s. (i, row) \<in> set (db_idempotency d) \<longrightarrow> ir_fingerprint row = stage_fingerprint (broker_sha B) e s \<longrightarrow> done_stage B d e s)"

definition truthful :: "('x, 'w) broker \<Rightarrow> rt_db \<Rightarrow> bool" where
  "truthful B d \<longleftrightarrow> (\<forall>e t. tool_at d e = Some t \<longrightarrow> before_dispatch t \<longrightarrow> dget t ''reservationId'' \<noteq> JNull \<longrightarrow> charged B d e)"

definition broker_inv :: "('x, 'w) broker \<Rightarrow> assertion" where
  "broker_inv B d fx \<longleftrightarrow> in_order B d \<and> keys_kept B d \<and> truthful B d \<and> (\<forall>f \<in> set fx. crossed d (ef_execution f) \<and> warranted B f)
     \<and> distinct (map ef_execution fx)"

lemma reserved_on: "facts d \<subseteq> facts d' \<Longrightarrow> reserved B d e fp \<Longrightarrow> reserved B d' e fp"
  unfolding reserved_def by blast

lemma charged_on: "follows d d' \<Longrightarrow> charged B d e \<Longrightarrow> charged B d' e"
  unfolding charged_def by (meson follows_def named_on reserved_on)

lemma known_stage:
  assumes "broker_inv B d fx" and "(i, row) \<in> set (db_idempotency d)" and "ir_fingerprint row = f" and "f = stage_fingerprint (broker_sha B) e s"
  shows "done_stage B d e s"
  using assms unfolding broker_inv_def keys_kept_def by blast

lemma done_stage_on: "follows d d' \<Longrightarrow> done_stage B d e s \<Longrightarrow> done_stage B d' e s"
  unfolding done_stage_def using there_on crossed_on charged_on ended_on by blast

lemma in_order_call:
  assumes "in_order B d" and s: "serve (bk_services B) hs c d x = (d', x', r)"
  shows "in_order B d'"
  using custodian.kept_by_call[OF _ _ _ s] assms(1) by (simp add: in_order_def)

lemma call_keys:
  assumes w: "wired S d" and s: "serve S hs (cmd, tick, md) d x = (d', x', r)"
  shows "db_idempotency d' = db_idempotency d
    \<or> (\<exists>row. db_idempotency d' = db_idempotency d @ [(md_idempotencyKey md, row)] \<and> ir_fingerprint row = md_operationFingerprint md)"
  using w s by (cases rule: serve_cases) blast+

lemma broker_inv_call:
  assumes inv: "broker_inv B d fx" and s: "serve (bk_services B) hs (cmd, tick, md) d x = (d', x', r)" and f: "follows d d'"
    and t: "\<And>e t. tool_at d' e = Some t \<Longrightarrow> before_dispatch t \<Longrightarrow> dget t ''reservationId'' \<noteq> JNull \<Longrightarrow> tool_at d e = Some t \<or> charged B d' e"
    and k: "\<And>e s. db_idempotency d' \<noteq> db_idempotency d \<Longrightarrow> md_operationFingerprint md = stage_fingerprint (broker_sha B) e s \<Longrightarrow> done_stage B d' e s"
  shows "broker_inv B d' fx"
proof -
  from inv have o: "in_order B d" and old: "keys_kept B d" "truthful B d" "\<forall>f \<in> set fx. crossed d (ef_execution f) \<and> warranted B f"
    "distinct (map ef_execution fx)" by (simp_all add: broker_inv_def)
  have "keys_kept B d'"
    using call_keys[OF _ s] o old(1) k done_stage_on[OF f, of B] unfolding keys_kept_def in_order_def by fastforce
  moreover have "truthful B d'"
    using t old(2) charged_on[OF f, of B] unfolding truthful_def by blast
  ultimately show ?thesis using in_order_call[OF o s] old(3,4) crossed_on[OF f] by (simp add: broker_inv_def)
qed

text \<open>A call that neither prepares nor admits, under a fingerprint of another operation.\<close>

lemma broker_inv_other_call:
  assumes inv: "broker_inv B d fx" and s: "serve (bk_services B) hs (cmd, tick, md) d x = (d', x', r)"
    and u: "prepares_nothing (bk_services B) cmd tick md d" "admits_nothing (bk_services B) cmd tick md d"
    and k: "\<And>e s. md_operationFingerprint md = stage_fingerprint (broker_sha B) e s \<Longrightarrow> s \<notin> telling"
  shows "broker_inv B d' fx"
proof (rule broker_inv_call[OF inv s])
  from inv have o: "wired (bk_services B) d" "typed (load_state d)" by (simp_all add: broker_inv_def in_order_def)
  show "follows d d'" by (rule call_follows[OF o s u(1)])
  show "tool_at d' e = Some t \<Longrightarrow> before_dispatch t \<Longrightarrow> dget t ''reservationId'' \<noteq> JNull \<Longrightarrow> tool_at d e = Some t \<or> charged B d' e" for e t
    using call_not_before[OF o s u] by blast
qed (blast intro: tells_nothing dest: k)

end
