(* ===== verification/Broker_Steps.thy ===== *)
theory Broker_Steps
  imports Broker_Safety
begin

text \<open>
  The programs of the broker keep its invariant: those that touch neither database nor effects, those
  that only follow up on an execution, and the four stages that matter, preparation, reservation,
  admission and dispatch.
\<close>

section \<open>Quiet programs\<close>

lemma quiet_stage_metadata [quiets]: "quiet (stage_metadata B e s)"
  by (simp add: stage_metadata_def quiets)

lemma quiet_tool_state [quiets]: "quiet (tool_state e)"
  by (simp add: tool_state_def quiets)

lemma quiet_tool_result [quiets]: "quiet (tool_result B m q s out x eff err)"
  by (simp add: tool_result_def Let_def quiets)

lemma quiet_results [quiets]: "quiet (result_from_adapter B r y)" "quiet (indeterminate_result B q m why eff)" "quiet (denied_result B r why)"
    "quiet (failed_result B r n why)"
  by (simp_all add: result_from_adapter_def indeterminate_result_def denied_result_def failed_result_def Let_def quiets)

lemma quiet_records [quiets]: "quiet (reservation_of B r l e)" "quiet (consumption_of B e i l out eff)"
  by (simp_all add: reservation_of_def consumption_of_def quiets)

lemma quiet_validate_request [quiets]: "quiet (validate_request B r)"
  by (simp add: validate_request_def quiets)

lemma quiet_prepare_intent [quiets]: "quiet (prepare_intent B r op g)"
  by (simp add: prepare_intent_def quiets split: option.split)

lemma quiet_build_execution [quiets]: "quiet (build_execution B r op se)"
  by (simp add: build_execution_def Let_def quiets)

lemma quiet_intent_expired [quiets]: "quiet (intent_expired B x)"
  by (simp add: intent_expired_def quiets split: json.split)

lemma quiet_hooks_validated [quiets]: "quiet (hooks_validated B r op se a)"
  by (simp add: hooks_validated_def quiets split: option.split)

lemma quiet_receipts [quiets]: "quiet (verified_receipt B a n y)" "quiet (receipt_of B a i z)"
  by (auto simp: verified_receipt_def receipt_of_def quiets split: option.split json.split)

lemma quiet_effect_failed [quiets]: "quiet (effect_failed B r x)"
  by (simp add: effect_failed_def quiets)

lemma quiet_recovery [quiets]: "quiet (reconciled_success_result B t y)" "quiet (recovery_failure_result B e q why)"
    "quiet (reversible a i)"
  by (auto simp: reconciled_success_result_def recovery_failure_result_def reversible_def quiets split: option.split json.split prod.split)

section \<open>Programs that keep the invariant\<close>

abbreviation keeps :: "('x, 'w) broker \<Rightarrow> ('x, 'w, 'a) prog \<Rightarrow> bool" where
  "keeps B p \<equiv> triple (broker_inv B) any p (\<lambda>_. any)"

named_theorems kept "programs that keep the invariant of the broker"

lemma keeps_quiet [kept]: "quiet p \<Longrightarrow> keeps B p"
  by (rule triple_quiet) simp_all

lemma keeps_seq [kept]: "keeps B p \<Longrightarrow> (\<And>x. keeps B (f x)) \<Longrightarrow> keeps B (seq p f)"
  by (rule triple_seq) simp_all

lemma keeps_catch [kept]: "keeps B p \<Longrightarrow> (\<And>x. keeps B (h x)) \<Longrightarrow> keeps B (catch p h)"
  by (rule triple_catch) simp_all

lemma keeps_check [kept]: "keeps B p \<Longrightarrow> keeps B (check c e p)"
  by (rule triple_check) simp

lemma triple_stage:
  fixes B :: "('x, 'w) broker"
  assumes step: "\<And>d fx w md d' w' r. J d fx \<Longrightarrow> P d fx \<Longrightarrow> md_operationFingerprint md = stage_fingerprint (broker_sha B) e s \<Longrightarrow>
    serve (bk_services B) (bk_handlers B) (cmd, bk_now B, md) d w = (d', w', r) \<Longrightarrow> J d' fx \<and> (\<forall>y. r = Inr y \<longrightarrow> Q () d' fx)"
  shows "triple J P (stage B e s cmd) Q"
  unfolding triple_def
proof (intro allI impI)
  fix m :: "('x, 'w) machine"
  assume m: "holds J m" "holds P m"
  let ?p = "stage B e s cmd"
  show "holds J (fst (?p m)) \<and> (\<forall>x. snd (?p m) = Some (Inr x) \<longrightarrow> holds (Q x) (fst (?p m)))"
  proof (cases "\<exists>md. snd (stage_metadata B e s m) = Some (Inr md) \<and> mc_power m \<noteq> 0")
    case True
    then obtain md where md: "snd (stage_metadata B e s m) = Some (Inr md)" and pw: "mc_power m \<noteq> 0" by blast
    have fp: "md_operationFingerprint md = stage_fingerprint (broker_sha B) e s"
      using md by (auto simp: stage_metadata_def seq_def ask_now_def give_def command_def)
    obtain d' w' r where s: "serve (bk_services B) (bk_handlers B) (cmd, bk_now B, md) (mc_db m) (mc_subscribers m) = (d', w', r)" by (metis prod_cases3)
    note step[OF m[unfolded holds_def] fp s]
    moreover have "?p m = (m\<lparr>mc_ticks := Suc (mc_ticks m), mc_db := d', mc_subscribers := w', mc_power := mc_power m - 1\<rparr>, Some (bnd r (\<lambda>_. Inr ())))"
      using md pw s by (auto simp: stage_def stage_metadata_def seq_def ask_now_def give_def invoke_def)
    ultimately show ?thesis by (cases r) (auto simp: holds_def)
  next
    case False
    then show ?thesis using m by (auto simp: stage_def stage_metadata_def seq_def ask_now_def give_def invoke_def holds_def split: sum.splits)
  qed
qed

lemma keeps_stage [kept]:
  assumes inj: "inj (broker_sha B)" and cmd: "follows_up cmd" "\<not> admission cmd" and s: "s \<notin> telling"
  shows "keeps B (stage B e s cmd)"
proof (rule triple_stage, intro conjI)
  fix d fx w md d' w' r
  assume inv: "broker_inv B d fx" and fp: "md_operationFingerprint md = stage_fingerprint (broker_sha B) e s"
    and c: "serve (bk_services B) (bk_handlers B) (cmd, bk_now B, md) d w = (d', w', r)"
  have "prepares_nothing (bk_services B) cmd (bk_now B) md d" "admits_nothing (bk_services B) cmd (bk_now B) md d"
    using unprepared_follow_up[OF _ cmd(1)] unadmitted_follow_up[OF _ cmd] by (auto simp: prepares_nothing_def admits_nothing_def)
  from broker_inv_other_call[OF inv c this] show "broker_inv B d' fx"
    using stage_fingerprint_read[OF inj] s unfolding fp by blast
qed simp

section \<open>Plans that touch one tool execution\<close>

lemma prepare_plan:
  assumes "plan_of S (PrepareTool x) tick md d = Inr (Append as ex)" and "dlook x ''toolExecutionId'' = Some (JStr e)"
  shows "states_after as ld = ld(tool_stream_id e \<mapsto> AToolExecution x)"
  using assms by (auto simp: service_prepare_tool_execution_def plans Let_def text_item_def dreq_Inr tool_create_Inr split: json.splits)

lemma transition_plan:
  assumes "plan_of S (TransitionTool e l p) tick md d = Inr (Append as ex)"
  obtains t t' where "tool_at d e = Some t" "states_after as ld = ld(tool_stream_id e \<mapsto> AToolExecution t')"
    "tool_transition (ct_dict (en_contracts (sv_env S))) t l (dsetdefault p ''updatedAt'' (JStr (md_issuedAt md))) = Inr t'"
  using assms by (auto simp: service_transition_tool_execution_def plans tool_at_def)

lemma reserve_plan:
  assumes "plan_of S (ReserveUse g v) tick md d = Inr (Append as ex)" and "find_idempotent d (md_idempotencyKey md) = None"
  obtains c c' a where "as = [a]" "load_state d (capability_stream_id g) = Some (ACapability c)" "cap_reserve c v (md_issuedAt md) = Inr c'"
    "rq_stream_id a = capability_stream_id g" "rq_state a = ACapability c'" "\<exists>who. fact_of (rq_envelope a) = (capability_stream_id g, CapabilityUseReserved v, who)"
  using assms by (auto simp: service_reserve_use_def plans fact_of_def envelope_def)

lemma never_answered:
  "plan_of S (PrepareTool x) tick md d \<noteq> Inr (Answer z)" "plan_of S (TransitionTool e l p) tick md d \<noteq> Inr (Answer z)"
  "plan_of S (ReserveUse g v) tick md d \<noteq> Inr (Answer z)"
  by (auto simp: service_prepare_tool_execution_def service_transition_tool_execution_def service_reserve_use_def amend_def plans Let_def split: if_splits)

section \<open>The licence of a request\<close>

lemma states_after_cases: "states_after as ld s = ld s \<or> (\<exists>a \<in> set as. states_after as ld s = Some (rq_state a))"
proof (induction as arbitrary: ld)
  case (Cons a as)
  let ?l = "ld(rq_stream_id a \<mapsto> rq_state a)"
  have "?l s = ld s \<or> ?l s = Some (rq_state a)" by simp
  with Cons.IH[of ?l] show ?case by (simp del: fun_upd_apply) metis
qed simp

lemma exhausted_reservations: "exhausted (c\<lparr>cs_reservations := v\<rparr>) = exhausted c"
  by (simp add: exhausted_def effective_max_def cong: option.case_cong)

lemma licensed_same:
  assumes "licensed B r d" and "\<And>g c. load_state d (capability_stream_id g) = Some (ACapability c) \<Longrightarrow>
    \<exists>v. load_state d' (capability_stream_id g) = Some (ACapability (c\<lparr>cs_reservations := v\<rparr>))"
  shows "licensed B r d'"
proof -
  from assms(1) obtain g l c k where c: "tr_grantId r = Some g" "tr_leaseId r = Some l" "load_state d (capability_stream_id g) = Some (ACapability c)"
      "cap_check_lease c l (tr_operation r) (scope_for r) (bk_now B k) = Inr ()"
      "request_commitments c \<noteq> [] \<longrightarrow> JStr (tool_request_fingerprint (broker_sha B) r) \<in> set (request_commitments c)"
    by (auto simp: licensed_def)
  from assms(2)[OF c(3)] obtain v where v: "load_state d' (capability_stream_id g) = Some (ACapability (c\<lparr>cs_reservations := v\<rparr>))" ..
  have "cap_check_lease (c\<lparr>cs_reservations := v\<rparr>) l (tr_operation r) (scope_for r) (bk_now B k) = Inr ()"
    using c(4) by (simp add: cap_check_Inr exhausted_reservations)
  with c v show ?thesis by (auto simp: licensed_def request_commitments_def)
qed

lemma licensed_call:
  assumes o: "in_order B d" and s: "serve (bk_services B) hs (cmd, tick, md) d x = (d', x', r)"
    and cmd: "admits cmd \<or> (\<exists>g v. cmd = ReserveUse g v)" and l: "licensed B q d"
  shows "licensed B q d'"
proof -
  from o have w: "wired (bk_services B) d" by (simp add: in_order_def)
  from w s show ?thesis
  proof (cases rule: serve_cases)
    case still
    then show ?thesis using l by (simp add: licensed_def)
  next
    case (wrote as ex row)
    from in_order_call[OF o s] have ty: "typed (load_state d')" by (simp add: in_order_def)
    show ?thesis
    proof (rule licensed_same[OF l])
      fix g c assume g: "load_state d (capability_stream_id g) = Some (ACapability c)"
      show "\<exists>v. load_state d' (capability_stream_id g) = Some (ACapability (c\<lparr>cs_reservations := v\<rparr>))"
      proof (cases "admits cmd")
        case True
        have "load_state d' (capability_stream_id g) = load_state d (capability_stream_id g)"
          using states_after_cases[of as "load_state d" "capability_stream_id g"]
        proof (elim disjE bexE)
          fix a assume a: "a \<in> set as" "states_after as (load_state d) (capability_stream_id g) = Some (rq_state a)"
          with wrote(3) typed_at[OF ty] have "the_capability (rq_state a) \<noteq> None" by (metis placed_kinds(3))
          with admits_spares[OF wrote(1) True a(1)] show ?thesis by auto
        qed (simp add: wrote(3))
        with g show ?thesis by (auto intro: exI[of _ "cs_reservations c"])
      next
        case False
        with cmd obtain g' v where v: "cmd = ReserveUse g' v" by blast
        have n: "find_idempotent d (md_idempotencyKey md) = None" using wrote(2) by (simp add: find_idempotent_def)
        obtain b b' a where "as = [a]" "load_state d (capability_stream_id g') = Some (ACapability b)" "cap_reserve b v (md_issuedAt md) = Inr b'"
            "rq_stream_id a = capability_stream_id g'" "rq_state a = ACapability b'"
            "\<exists>who. fact_of (rq_envelope a) = (capability_stream_id g', CapabilityUseReserved v, who)"
          by (rule reserve_plan[OF wrote(1)[unfolded v] n])
        then show ?thesis using g wrote(3)
          by (cases "g' = g") (auto simp: cap_reserve_Inr capability_stream_id_def intro: exI[of _ "cs_reservations c"])
      qed
    qed
  qed
qed

section \<open>The stages that matter\<close>

text \<open>What was prepared is under the name of its request.\<close>

definition fresh_execution :: "string \<Rightarrow> string \<Rightarrow> dict \<Rightarrow> bool" where
  "fresh_execution e fp x \<longleftrightarrow> dlook x ''toolExecutionId'' = Some (JStr e) \<and> dlook x ''operationFingerprint'' = Some (JStr fp)
     \<and> dget x ''reservationId'' = JNull"

lemma triple_prepared:
  assumes inj: "inj (broker_sha B)" and x: "fresh_execution e fp x"
  shows "triple (broker_inv B) (\<lambda>d _. tool_at d e = None) (stage B e ''prepared'' (PrepareTool x)) (\<lambda>_ d _. named d e fp)"
proof (rule triple_stage)
  fix d fx w md d' w' r
  assume inv: "broker_inv B d fx" and new: "tool_at d e = None" and fp: "md_operationFingerprint md = stage_fingerprint (broker_sha B) e ''prepared''"
    and s: "serve (bk_services B) (bk_handlers B) (PrepareTool x, bk_now B, md) d w = (d', w', r)"
  from inv have wd: "wired (bk_services B) d" by (simp add: broker_inv_def in_order_def)
  note sf = stage_fingerprint_read[OF inj]
  from x have i: "dlook x ''toolExecutionId'' = Some (JStr e)" by (simp add: fresh_execution_def)
  from wd s show "broker_inv B d' fx \<and> (\<forall>y. r = Inr y \<longrightarrow> named d' e fp)"
  proof (cases rule: serve_cases)
    case still
    have same: "tool_at d' z = tool_at d z" for z using still(1) by (simp add: tool_at_def)
    have "broker_inv B d' fx"
      by (rule broker_inv_call[OF inv s]) (use still(2,3) same in \<open>auto simp: follows_def\<close>)
    moreover have "r \<noteq> Inr y" for y
    proof
      assume "r = Inr y"
      from still(4)[OF this] show False
      proof (elim disjE exE conjE)
        fix as ex row assume "map_of (db_idempotency d) (md_idempotencyKey md) = Some row" "ir_fingerprint row = md_operationFingerprint md"
        from known_stage[OF inv map_of_SomeD[OF this(1)] this(2) fp] have "done_stage B d e ''prepared''" .
        with new show False by (simp add: done_stage_def)
      qed (simp add: never_answered del: plan_of.simps)
    qed
    ultimately show ?thesis by simp
  next
    case (wrote as ex row)
    have ld: "load_state d' = (load_state d)(tool_stream_id e \<mapsto> AToolExecution x)"
      using prepare_plan[OF wrote(1) i, of "load_state d"] wrote(3) by simp
    have at_e: "tool_at d' z = (if z = e then Some x else tool_at d z)" for z
      by (simp add: tool_at_def ld tool_stream_id_def)
    have f: "follows d d'" using wrote(4) new by (auto simp: follows_def at_e)
    have "broker_inv B d' fx"
      by (rule broker_inv_call[OF inv s f _ done_only[OF inj fp]])
        (use x in \<open>auto simp: at_e fresh_execution_def done_stage_def TOOL_TERMINAL_def split: if_splits\<close>)
    moreover have "named d' e fp" using x by (simp add: named_def at_e fresh_execution_def)
    ultimately show ?thesis by simp
  qed
qed

text \<open>What holds from the authority checks to the effect; the flag says whether a use was reserved.\<close>

definition ready :: "('x, 'w) broker \<Rightarrow> tool_request \<Rightarrow> string \<Rightarrow> bool \<Rightarrow> rt_db \<Rightarrow> bool" where
  "ready B r e paid d \<longleftrightarrow> (let fp = tool_request_fingerprint (broker_sha B) r in
     named d e fp \<and> licensed B r d \<and> (paid \<longrightarrow> reserved B d e fp))"

lemma ready_call:
  assumes inv: "broker_inv B d fx" and s: "serve (bk_services B) hs (cmd, tick, md) d x = (d', x', r)"
    and cmd: "admits cmd \<or> (\<exists>g v. cmd = ReserveUse g v)" and l: "ready B q e paid d"
  shows "ready B q e paid d'" "follows d d'"
proof -
  from inv have o: "in_order B d" by (simp add: broker_inv_def)
  from cmd have "follows_up cmd" by (cases cmd) auto
  then have "prepares_nothing (bk_services B) cmd tick md d" using unprepared_follow_up by (auto simp: prepares_nothing_def)
  with call_follows[OF _ _ s] o show f: "follows d d'" by (simp add: in_order_def)
  from l show "ready B q e paid d'"
    using named_on[OF f] reserved_on[of d d' B] licensed_call[OF o s cmd] f unfolding ready_def Let_def follows_def by blast
qed

lemma triple_follow_up:
  assumes inj: "inj (broker_sha B)" and cmd: "admits cmd" "\<not> admission cmd" and s: "s \<notin> telling"
  shows "triple (broker_inv B) (\<lambda>d _. ready B q e' paid d) (stage B e s cmd) (\<lambda>_ d _. ready B q e' paid d)"
proof (rule triple_stage, intro conjI allI impI)
  fix d fx w md d' w' r
  assume inv: "broker_inv B d fx" and l: "ready B q e' paid d" and fp: "md_operationFingerprint md = stage_fingerprint (broker_sha B) e s"
    and c: "serve (bk_services B) (bk_handlers B) (cmd, bk_now B, md) d w = (d', w', r)"
  from cmd(1) have u: "follows_up cmd" by (cases cmd) auto
  have "prepares_nothing (bk_services B) cmd (bk_now B) md d" "admits_nothing (bk_services B) cmd (bk_now B) md d"
    using unprepared_follow_up[OF _ u] unadmitted_follow_up[OF _ u cmd(2)] by (auto simp: prepares_nothing_def admits_nothing_def)
  from broker_inv_other_call[OF inv c this] show "broker_inv B d' fx"
    using stage_fingerprint_read[OF inj] s unfolding fp by blast
  show "ready B q e' paid d'" by (rule ready_call[OF inv c _ l]) (simp add: cmd)
qed

lemma triple_reserve:
  assumes inj: "inj (broker_sha B)"
    and v: "rq_reservationId v = reservation_id B e" "rq_operationFingerprint v = tool_request_fingerprint (broker_sha B) q"
  shows "triple (broker_inv B) (\<lambda>d _. ready B q e False d) (stage B e ''reserve-capability'' (ReserveUse g v)) (\<lambda>_ d _. ready B q e True d)"
proof (rule triple_stage)
  fix d fx w md d' w' r
  assume inv: "broker_inv B d fx" and l: "ready B q e False d" and fp: "md_operationFingerprint md = stage_fingerprint (broker_sha B) e ''reserve-capability''"
    and s: "serve (bk_services B) (bk_handlers B) (ReserveUse g v, bk_now B, md) d w = (d', w', r)"
  let ?fp = "tool_request_fingerprint (broker_sha B) q"
  from inv have o: "in_order B d" and wd: "wired (bk_services B) d" by (simp_all add: broker_inv_def in_order_def)
  note sf = stage_fingerprint_read[OF inj]
  have f: "follows d d'" and l': "ready B q e False d'" by (rule ready_call[OF inv s _ l]; simp)+
  then have n: "named d e ?fp" "named d' e ?fp" using l by (simp_all add: ready_def Let_def)
  have u: "prepares_nothing (bk_services B) (ReserveUse g v) (bk_now B) md d" "admits_nothing (bk_services B) (ReserveUse g v) (bk_now B) md d"
    using unprepared_follow_up[of _ "ReserveUse g v"] unadmitted_follow_up[of _ "ReserveUse g v"] by (auto simp: prepares_nothing_def admits_nothing_def)
  have before: "tool_at d z = Some t" if "tool_at d' z = Some t" "before_dispatch t" for z t
    using call_not_before[OF wd _ s u that] o by (simp add: in_order_def)
  from wd s show "broker_inv B d' fx \<and> (\<forall>y. r = Inr y \<longrightarrow> ready B q e True d')"
  proof (cases rule: serve_cases)
    case still
    have "broker_inv B d' fx" by (rule broker_inv_call[OF inv s f]) (use before still(3) in auto)
    moreover have "reserved B d e ?fp" if "r = Inr y" for y
      using still(4)[OF that]
    proof (elim disjE exE conjE)
      fix as ex row assume "map_of (db_idempotency d) (md_idempotencyKey md) = Some row" "ir_fingerprint row = md_operationFingerprint md"
      from known_stage[OF inv map_of_SomeD[OF this(1)] this(2) fp] have "done_stage B d e ''reserve-capability''" .
      then have "charged B d e" by (simp add: done_stage_def)
      with n(1) show ?thesis by (auto simp: charged_def named_def)
    qed (simp add: never_answered del: plan_of.simps)
    ultimately show ?thesis using l' reserved_on[of d d' B e ?fp] f by (auto simp: ready_def Let_def follows_def)
  next
    case (wrote as ex row)
    have "find_idempotent d (md_idempotencyKey md) = None" using wrote(2) by (simp add: find_idempotent_def)
    then obtain c c' a where a: "as = [a]" "load_state d (capability_stream_id g) = Some (ACapability c)" "cap_reserve c v (md_issuedAt md) = Inr c'"
        "rq_stream_id a = capability_stream_id g" "rq_state a = ACapability c'"
        "\<exists>who. fact_of (rq_envelope a) = (capability_stream_id g, CapabilityUseReserved v, who)"
      by (rule reserve_plan[OF wrote(1)])
    from a(6) obtain who where "fact_of (rq_envelope a) = (capability_stream_id g, CapabilityUseReserved v, who)" ..
    with wrote(4) a(1) have "(capability_stream_id g, CapabilityUseReserved v, who) \<in> facts d'" by simp
    with v have res: "reserved B d' e ?fp" unfolding reserved_def by blast
    have ch: "charged B d' e" using res n(2) by (auto simp: charged_def)
    have "broker_inv B d' fx"
      by (rule broker_inv_call[OF inv s f _ done_only[OF inj fp]]) (use before ch in \<open>auto simp: done_stage_def TOOL_TERMINAL_def\<close>)
    with res l' show ?thesis by (simp add: ready_def Let_def)
  qed
qed

text \<open>A recorded transition: the one execution moves, and the fingerprint of the command is kept.\<close>

lemma transition_call:
  assumes inv: "broker_inv B d fx" and s: "serve (bk_services B) hs (TransitionTool e l p, tick, md) d x = (d', x', r)"
  obtains (still) "\<And>z. tool_at d' z = tool_at d z" "db_idempotency d' = db_idempotency d"
      "\<And>y. r = Inr y \<Longrightarrow> \<exists>t t' row. tool_at d e = Some t \<and> tool_transition (broker_validator B) t l (dsetdefault p ''updatedAt'' (JStr (md_issuedAt md))) = Inr t'
        \<and> (md_idempotencyKey md, row) \<in> set (db_idempotency d) \<and> ir_fingerprint row = md_operationFingerprint md"
  | (moved) t t' where "tool_at d e = Some t" "\<And>z. tool_at d' z = (if z = e then Some t' else tool_at d z)"
      "tool_transition (broker_validator B) t l (dsetdefault p ''updatedAt'' (JStr (md_issuedAt md))) = Inr t'"
proof -
  from inv have w: "wired (bk_services B) d" by (simp add: broker_inv_def in_order_def)
  from w s show ?thesis
  proof (cases rule: serve_cases)
    case still
    show ?thesis
    proof (rule that(1))
      fix y assume "r = Inr y"
      with still(4) never_answered(2) obtain as ex row where a: "plan_of (bk_services B) (TransitionTool e l p) tick md d = Inr (Append as ex)"
          "map_of (db_idempotency d) (md_idempotencyKey md) = Some row" "ir_fingerprint row = md_operationFingerprint md" by metis
      from transition_plan[OF a(1)] a(2,3) show "\<exists>t t' row. tool_at d e = Some t
          \<and> tool_transition (broker_validator B) t l (dsetdefault p ''updatedAt'' (JStr (md_issuedAt md))) = Inr t'
          \<and> (md_idempotencyKey md, row) \<in> set (db_idempotency d) \<and> ir_fingerprint row = md_operationFingerprint md"
        by (metis map_of_SomeD)
    qed (use still in \<open>simp_all add: tool_at_def\<close>)
  next
    case (wrote as ex row)
    from wrote(1) show ?thesis
    proof (rule transition_plan[where ld = "load_state d"])
      fix t t' assume "tool_at d e = Some t" "states_after as (load_state d) = (load_state d)(tool_stream_id e \<mapsto> AToolExecution t')"
        "tool_transition (broker_validator B) t l (dsetdefault p ''updatedAt'' (JStr (md_issuedAt md))) = Inr t'"
      with wrote(3) show ?thesis by (intro that(2)) (auto simp: tool_at_def tool_stream_id_def)
    qed
  qed
qed

lemma admitted_reservation: "dget (dupdate u (dsetdefault [(''reservationId'', v)] ''updatedAt'' w)) ''reservationId'' = v"
  by (simp add: dsetdefault_def dhas_def dget_def)

lemma triple_admitted:
  assumes inj: "inj (broker_sha B)" and res: "res \<noteq> None \<Longrightarrow> paid"
  shows "triple (broker_inv B) (\<lambda>d _. ready B q e paid d) (stage B e ''admitted'' (TransitionTool e ''admitted'' [(''reservationId'', opt_text res)]))
    (\<lambda>_ d _. ready B q e paid d)"
proof (rule triple_stage, intro conjI allI impI)
  fix d fx w md d' w' r
  assume inv: "broker_inv B d fx" and l: "ready B q e paid d" and fp: "md_operationFingerprint md = stage_fingerprint (broker_sha B) e ''admitted''"
    and s: "serve (bk_services B) (bk_handlers B) (TransitionTool e ''admitted'' [(''reservationId'', opt_text res)], bk_now B, md) d w = (d', w', r)"
  have f: "follows d d'" and l': "ready B q e paid d'" by (rule ready_call[OF inv s _ l]; simp)+
  show "ready B q e paid d'" by (rule l')
  show "broker_inv B d' fx"
  proof (rule broker_inv_call[OF inv s f])
    fix z t assume t: "tool_at d' z = Some t" "dget t ''reservationId'' \<noteq> JNull"
    from inv s show "tool_at d z = Some t \<or> charged B d' z"
    proof (cases rule: transition_call)
      case (moved u u')
      show ?thesis
      proof (cases "z = e")
        case True
        with t moved have "dget u' ''reservationId'' \<noteq> JNull" by simp
        with moved(3) have "res \<noteq> None" by (cases res) (auto simp: tool_transition_Inr admitted_reservation opt_text_def)
        with res l' True show ?thesis by (auto simp: ready_def Let_def charged_def)
      qed (use t moved in simp)
    qed (use t in simp)
  qed (rule done_only[OF inj fp], auto simp: done_stage_def TOOL_TERMINAL_def)
qed

lemma dispatching_from: "allowed TOOL_TRANSITIONS c ''dispatching'' \<Longrightarrow> c = ''admitted''"
  by (auto simp: allowed_def TOOL_TRANSITIONS_def split: if_splits)

lemma triple_dispatching:
  assumes inj: "inj (broker_sha B)"
  shows "triple (broker_inv B) (\<lambda>d _. ready B q e paid d) (stage B e ''dispatching'' (TransitionTool e ''dispatching'' p))
    (\<lambda>_ d fx. ready B q e paid d \<and> crossed d e \<and> e \<notin> ef_execution ` set fx)"
proof (rule triple_stage)
  fix d fx w md d' w' r
  assume inv: "broker_inv B d fx" and l: "ready B q e paid d" and fp: "md_operationFingerprint md = stage_fingerprint (broker_sha B) e ''dispatching''"
    and s: "serve (bk_services B) (bk_handlers B) (TransitionTool e ''dispatching'' p, bk_now B, md) d w = (d', w', r)"
  have f: "follows d d'" and l': "ready B q e paid d'" by (rule ready_call[OF inv s _ l]; simp)+
  have before: "\<not> crossed d e" if t: "tool_at d e = Some t"
      "tool_transition (broker_validator B) t ''dispatching'' (dsetdefault p ''updatedAt'' (JStr (md_issuedAt md))) = Inr t'" for t t'
  proof -
    from t(2) have "label_of t = ''admitted''" by (auto simp: tool_transition_Inr dest: dispatching_from state_label_of)
    with t(1) show ?thesis by (simp add: crossed_def before_dispatch_def)
  qed
  have unseen: "e \<notin> ef_execution ` set fx" if "\<not> crossed d e" using inv that by (auto simp: broker_inv_def)
  from inv s show "broker_inv B d' fx \<and> (\<forall>y. r = Inr y \<longrightarrow> ready B q e paid d' \<and> crossed d' e \<and> e \<notin> ef_execution ` set fx)"
  proof (cases rule: transition_call)
    case still
    have "broker_inv B d' fx" by (rule broker_inv_call[OF inv s f]) (use still in auto)
    moreover have "r \<noteq> Inr y" for y
    proof
      assume "r = Inr y"
      from still(3)[OF this] obtain t t' row where t: "tool_at d e = Some t"
          "tool_transition (broker_validator B) t ''dispatching'' (dsetdefault p ''updatedAt'' (JStr (md_issuedAt md))) = Inr t'"
          "(md_idempotencyKey md, row) \<in> set (db_idempotency d)" "ir_fingerprint row = md_operationFingerprint md" by blast
      from known_stage[OF inv t(3,4) fp] have "done_stage B d e ''dispatching''" .
      then have "crossed d e" by (simp add: done_stage_def)
      with before[OF t(1,2)] show False by simp
    qed
    ultimately show ?thesis by simp
  next
    case (moved t t')
    from moved(3) have "label_of t' = ''dispatching''" by (auto simp: tool_transition_Inr)
    then have nb: "\<not> before_dispatch t'" by (simp add: before_dispatch_def)
    with moved(2) have c: "crossed d' e" by (simp add: crossed_def)
    have "broker_inv B d' fx"
      by (rule broker_inv_call[OF inv s f _ done_only[OF inj fp]])
        (use moved(2) nb c in \<open>auto simp: done_stage_def TOOL_TERMINAL_def split: if_splits\<close>)
    with l' c unseen[OF before[OF moved(1,3)]] show ?thesis by blast
  qed
qed

end
