(* ===== verification/Disposition_Safety.thy ===== *)
theory Disposition_Safety
  imports Services_Safety
begin

text \<open>
  What the reviewed disposition of a mission leaves behind: nothing of the mission stays open, and
  nothing of another mission moves.
\<close>

section \<open>Rows of the preview\<close>

lemma set_map_filter: "set (List.map_filter f xs) = {y. \<exists>x\<in>set xs. f x = Some y}"
  by (force simp: map_filter_def)

lemma all_aggregates_kinds:
  assumes "kinded d" and "load_state d s = Some a"
  shows "\<exists>v. (s, kind_of a, v) \<in> set (all_aggregates d)"
proof -
  from assms(2) obtain r where r: "map_of (db_aggregates d) s = Some r" "ar_state r = a" by (auto simp: load_state_def)
  with assms(1) have "ar_kind r = kind_of a" by (auto simp: kinded_def)
  moreover have "(s, r) \<in> set (db_aggregates d)" using r(1) by (rule map_of_SomeD)
  ultimately show ?thesis by (force simp: all_aggregates_def)
qed

lemma row_listed:
  assumes "kinded d" and "load_state d s = Some a" and "kind = kind_of a" and "pick a = Some x" and "\<And>v. row x v = Some (r v)"
  shows "\<exists>v. r v \<in> set (rows_of d kind pick row)"
proof -
  obtain v where v: "(s, kind, v) \<in> set (all_aggregates d)" using all_aggregates_kinds[OF assms(1,2)] assms(3) by blast
  have "r v \<in> set (rows_of d kind pick row)"
    unfolding rows_of_def set_map_filter using v assms(2,4,5) by (force simp: Option.bind_eq_Some_conv)
  then show ?thesis ..
qed

lemma task_listed: "kinded d \<Longrightarrow> load_state d s = Some (ATask t) \<Longrightarrow> tk_missionId t = i \<Longrightarrow> \<exists>v. (tk_taskId t, tk_state t, v) \<in> set (mission_tasks d i)"
  using row_listed[of d s "ATask t" "''task''" the_task t _ "\<lambda>v. (tk_taskId t, tk_state t, v)"] by (simp add: mission_tasks_def)

lemma approval_listed: "kinded d \<Longrightarrow> load_state d s = Some (AApproval a) \<Longrightarrow> ap_missionId a = i \<Longrightarrow>
    \<exists>v. (ap_requestId a, ap_state a, v) \<in> set (mission_approvals d i)"
  using row_listed[of d s "AApproval a" "''human_approval''" the_approval a _ "\<lambda>v. (ap_requestId a, ap_state a, v)"] by (simp add: mission_approvals_def)

lemma run_listed: "kinded d \<Longrightarrow> load_state d s = Some (ADriverRun r) \<Longrightarrow> dr_missionId r = i \<Longrightarrow>
    \<exists>v. (dr_driverRunId r, dr_state r, v, dr_reconciliationStatus r) \<in> set (mission_runs d i)"
  using row_listed[of d s "ADriverRun r" "''driverrun''" the_driver_run r _ "\<lambda>v. (dr_driverRunId r, dr_state r, v, dr_reconciliationStatus r)"]
  by (simp add: mission_runs_def)

lemma rows_listed:
  assumes "typed (load_state d)"
  shows "(j, s, v) \<in> set (mission_tasks d i) \<Longrightarrow> \<exists>t. load_state d (task_stream_id j) = Some (ATask t) \<and> tk_state t = s \<and> tk_missionId t = i"
    and "(j, s, v) \<in> set (mission_approvals d i) \<Longrightarrow> \<exists>a. load_state d (approval_stream_id j) = Some (AApproval a) \<and> ap_state a = s \<and> ap_missionId a = i"
    and "(j, s, v) \<in> set (accepted_claims d i) \<Longrightarrow> \<exists>u c. load_state d u = Some (AClaim c) \<and> cm_missionId c = i \<and> cm_promotionState c = ''accepted''
      \<and> default_to ''None'' (cm_taskId c) = s"
  by (auto simp: mission_tasks_def mission_approvals_def accepted_claims_def rows_of_def set_map_filter Option.bind_eq_Some_conv split: if_splits)
    (frule typed_at[OF assms], force)+

section \<open>What is settled\<close>

lemma after_settled_at:
  "s \<in> st_stream ` set xs \<Longrightarrow> \<exists>x\<in>set xs. st_stream x = s \<and> after_settled ld xs s = Some (st_state x)"
proof (induction xs rule: rev_induct)
  case (snoc x xs)
  show ?case
  proof (cases "st_stream x = s")
    case True
    then show ?thesis by (simp add: after_settled_def)
  next
    case False
    with snoc obtain y where "y \<in> set xs" "st_stream y = s" "after_settled ld xs s = Some (st_state y)" by auto
    with False show ?thesis by (auto simp: after_settled_def)
  qed
qed simp

definition TASK_ENDS :: "string set" where "TASK_ENDS = {''succeeded'', ''failed'', ''cancelled''}"

lemma cancel_tasks_skip: "s \<in> TASK_ENDS \<Longrightarrow> cancel_tasks d ((j, s, v) # rows) = cancel_tasks d rows"
  unfolding TASK_ENDS_def by (simp only: cancel_tasks.simps if_True)

lemma cancel_tasks_one:
  assumes "s \<notin> TASK_ENDS" and "cancel_tasks d ((j, s, v) # rows) = Inr xs"
  shows "\<exists>x t ys. xs = x # ys \<and> cancel_tasks d rows = Inr ys \<and> st_stream x = task_stream_id j \<and> st_state x = ATask t \<and> tk_state t = ''cancelled''"
proof -
  from assms obtain t t' ys where t: "task_transition t ''cancelled'' None = Inr t'" and ys: "cancel_tasks d rows = Inr ys"
      and xs: "xs = \<lparr>st_stream = task_stream_id j, st_kind = ''task'', st_version = aggregate_version d (task_stream_id j), st_state = ATask t',
            st_event = TaskTransitioned ''cancelled'', st_task = Some j\<rparr> # ys"
    unfolding TASK_ENDS_def by (auto simp: Let_def simp del: insert_iff)
  have "tk_state t' = ''cancelled''" using t by (simp add: task_transition_Inr)
  with ys show ?thesis unfolding xs by simp
qed

text \<open>A loop over rows that skips some and settles the others one by one.\<close>

lemma settling_loop:
  assumes skip: "\<And>r rows. r \<in> R \<Longrightarrow> \<not> hit r \<Longrightarrow> f (r # rows) = f rows"
    and one: "\<And>r rows xs. r \<in> R \<Longrightarrow> hit r \<Longrightarrow> f (r # rows) = Inr xs \<Longrightarrow> \<exists>x ys. xs = x # ys \<and> f rows = Inr ys \<and> good r x"
    and none: "f [] = Inr []"
  shows "f rows = Inr xs \<Longrightarrow> set rows \<subseteq> R \<Longrightarrow>
     (\<forall>x\<in>set xs. \<exists>r\<in>set rows. good r x) \<and> (\<forall>r\<in>set rows. hit r \<longrightarrow> (\<exists>x\<in>set xs. good r x))"
proof (induction rows arbitrary: xs)
  case (Cons r rows)
  then have R: "r \<in> R" "set rows \<subseteq> R" by auto
  show ?case
  proof (cases "hit r")
    case True
    from one[OF R(1) True Cons.prems(1)] obtain x ys where "xs = x # ys" "f rows = Inr ys" "good r x" by blast
    with Cons.IH[of ys] R(2) show ?thesis by auto
  next
    case False
    with Cons.IH[of xs] R(2) Cons.prems(1) skip[OF R(1) False] show ?thesis by auto
  qed
qed (use none in simp)

definition cancelled_row :: "string \<times> string \<times> int \<Rightarrow> settled \<Rightarrow> bool" where
  "cancelled_row r x \<longleftrightarrow> st_stream x = task_stream_id (fst r) \<and> (\<exists>t. st_state x = ATask t \<and> tk_state t = ''cancelled'')"

lemma cancel_tasks_effect:
  assumes "cancel_tasks d rows = Inr xs"
  shows "(\<forall>x\<in>set xs. \<exists>r\<in>set rows. cancelled_row r x) \<and> (\<forall>r\<in>set rows. fst (snd r) \<notin> TASK_ENDS \<longrightarrow> (\<exists>x\<in>set xs. cancelled_row r x))"
  using assms by (intro settling_loop[where f = "cancel_tasks d" and R = UNIV])
    (auto simp: cancelled_row_def simp del: cancel_tasks.simps(2) intro: cancel_tasks_skip dest: cancel_tasks_one)

definition withdrawn_row :: "string \<times> string \<times> int \<Rightarrow> settled \<Rightarrow> bool" where
  "withdrawn_row r x \<longleftrightarrow> st_stream x = approval_stream_id (fst r)
     \<and> (\<exists>a. st_state x = AApproval a \<and> (ap_state a = ''denied'' \<or> ap_state a = ''revoked''))"

definition open_row :: "string \<Rightarrow> string \<times> string \<times> int \<Rightarrow> bool" where
  "open_row target r \<longleftrightarrow> fst (snd r) = ''requested'' \<or> (fst (snd r) = ''approved'' \<and> target = ''cancel_revoke'')"

text \<open>The row says what the stream holds, and a request no one decided has no decision keys.\<close>

definition true_row :: "rt_db \<Rightarrow> string \<times> string \<times> int \<Rightarrow> bool" where
  "true_row d r \<longleftrightarrow> (\<exists>a. load_state d (approval_stream_id (fst r)) = Some (AApproval a) \<and> ap_state a = fst (snd r)
     \<and> (ap_state a = ''requested'' \<longrightarrow> ap_decidedIdempotencyKeys a = []))"

lemma settle_skip: "\<not> open_row target (j, s, v) \<Longrightarrow> settle_approvals E target reason md d ((j, s, v) # rows) = settle_approvals E target reason md d rows"
  by (auto simp: open_row_def Let_def)

lemma settle_one:
  assumes "true_row d (j, s, v)" and hit: "open_row target (j, s, v)" and f: "settle_approvals E target reason md d ((j, s, v) # rows) = Inr xs"
  shows "\<exists>x ys. xs = x # ys \<and> settle_approvals E target reason md d rows = Inr ys \<and> withdrawn_row (j, s, v) x"
proof -
  from assms(1) obtain a where a: "load_state d (approval_stream_id j) = Some (AApproval a)" "ap_state a = s"
      and keys: "s = ''requested'' \<longrightarrow> ap_decidedIdempotencyKeys a = []" by (auto simp: true_row_def)
  show ?thesis
  proof (cases "s = ''requested''")
    case True
    with f a obtain a' ys where a': "approval_decide a (denial reason md) (md_issuedAt md) = Inr a'"
        and ys: "settle_approvals E target reason md d rows = Inr ys" and xs: "xs = \<lparr>st_stream = approval_stream_id j, st_kind = ''human_approval'',
          st_version = aggregate_version d (approval_stream_id j), st_state = AApproval a',
          st_event = HumanApprovalDecided (denial reason md), st_task = Some (ap_taskId a)\<rparr> # ys"
      by (auto simp: plans Let_def)
    have "ap_state a' = ''denied''" using a' keys True by (simp add: approval_decide_Inr denial_def)
    with ys show ?thesis by (simp add: xs withdrawn_row_def)
  next
    case False
    with hit have hit': "s = ''approved''" "target = ''cancel_revoke''" by (simp_all add: open_row_def)
    with f a obtain a' ys where a': "approval_revoke a (withdrawal j reason md) = Inr a'"
        and ys: "settle_approvals E target reason md d rows = Inr ys" and xs: "xs = \<lparr>st_stream = approval_stream_id j, st_kind = ''human_approval'',
          st_version = aggregate_version d (approval_stream_id j), st_state = AApproval a',
          st_event = HumanApprovalRevoked (withdrawal j reason md), st_task = Some (ap_taskId a)\<rparr> # ys"
      by (auto simp: plans Let_def)
    have "ap_state a' = ''revoked''" using a' by (simp add: approval_revoke_Inr)
    with ys show ?thesis by (simp add: xs withdrawn_row_def)
  qed
qed

lemma settle_approvals_effect:
  assumes "settle_approvals E target reason md d rows = Inr xs" and "\<forall>r\<in>set rows. true_row d r"
  shows "(\<forall>x\<in>set xs. \<exists>r\<in>set rows. withdrawn_row r x) \<and> (\<forall>r\<in>set rows. open_row target r \<longrightarrow> (\<exists>x\<in>set xs. withdrawn_row r x))"
  using assms(2) settle_skip settle_one
  by (intro settling_loop[where f = "settle_approvals E target reason md d" and R = "Collect (true_row d)", OF _ _ _ assms(1)])
    (auto simp del: settle_approvals.simps(2))

text \<open>No approval that is still asked for has been decided.\<close>

definition undecided :: "(string \<Rightarrow> agg option) \<Rightarrow> fact set \<Rightarrow> bool" where
  "undecided ld F \<longleftrightarrow> (\<forall>s a. ld s = Some (AApproval a) \<and> ap_state a = ''requested'' \<longrightarrow> ap_decidedIdempotencyKeys a = [])"

lemma undecided_step:
  assumes step: "approval_step a op = Inr a'" and still: "ap_state a' = ''requested''"
  shows "a' = a"
proof (cases op)
  case (ApprovalDecide x now)
  show ?thesis
  proof (cases "ad_idempotencyKey x \<in> set (ap_decidedIdempotencyKeys a)")
    case False
    with ApprovalDecide step have "ap_state a' = (if ad_decision x = ''approve'' then ''approved'' else ''denied'')"
      by (simp add: approval_decide_Inr)
    with still show ?thesis by (simp split: if_splits)
  qed (use ApprovalDecide step in \<open>simp add: approval_decide_Inr\<close>)
next
  case ApprovalExpire
  with step have "a' = a \<or> ap_state a' = ''expired''" by (auto simp: approval_mark_expired_def split: if_splits)
  with still show ?thesis by auto
next
  case (ApprovalRevoke v)
  with step have "ap_state a' = ''revoked''" by (simp add: approval_revoke_Inr)
  with still show ?thesis by simp
next
  case (ApprovalConsume u t)
  with step obtain n where "ap_state a = ''approved''"
      "a' = a\<lparr>ap_remainingUses := Some (n - 1), ap_consumedAt := Some t, ap_consumedBy := Some u,
         ap_state := (if n = 1 then ''consumed'' else ap_state a)\<rparr>" by (auto simp: approval_consume_Inr)
  with still show ?thesis by (simp split: if_splits)
qed

interpretation asked: ledger_invariant S undecided for S
proof
  fix ld F who v s ev a
  assume I: "undecided ld F" and r: "records S ld F who v s ev a"
  have "ap_decidedIdempotencyKeys b = []" if "a = AApproval b" "ap_state b = ''requested''" for b
    using r that
  proof cases
    case (approval_moved c op c')
    with that I undecided_step[of c op c'] show ?thesis by (auto simp: undecided_def)
  next
    case (approval_used c u t c' q x)
    with that I undecided_step[of c "ApprovalConsume u t" c'] show ?thesis by (auto simp: undecided_def)
  qed (auto simp: approval_create_def)
  with I show "undecided (ld(s \<mapsto> a)) (insert (s, ev, who) F)" by (auto simp: undecided_def)
qed (simp add: undecided_def)

section \<open>What the preview cleared\<close>

lemma blocker_Nil [simp]: "blocker c code = [] \<longleftrightarrow> \<not> c"
  by (simp add: blocker_def)

lemma preview_clear:
  assumes "mission_disposition_preview sha i target d = Inr p" and "pv_blocked p = []"
  shows "\<exists>state. blockers target state (mission_tasks d i) (mission_approvals d i) (mission_runs d i) (accepted_claims d i) = []"
  using assms by (auto simp: mission_disposition_preview_def plans Let_def)

text \<open>Nothing of the mission is open.\<close>

fun closed_for :: "string \<Rightarrow> agg \<Rightarrow> bool" where
  "closed_for i (ATask t) = (tk_missionId t = i \<longrightarrow> tk_state t \<in> TASK_ENDS)"
| "closed_for i (AApproval a) = (ap_missionId a = i \<longrightarrow> ap_state a \<noteq> ''requested'' \<and> ap_state a \<noteq> ''approved'')"
| "closed_for i (ADriverRun r) = (dr_missionId r = i \<longrightarrow> dr_state r \<notin> {''created'', ''submitted'', ''running''})"
| "closed_for i _ = True"

definition nothing_open :: "rt_db \<Rightarrow> string \<Rightarrow> bool" where
  "nothing_open d i \<longleftrightarrow> (\<forall>s a. load_state d s = Some a \<longrightarrow> closed_for i a)"

text \<open>A claim of the mission was accepted for one of its tasks that succeeded.\<close>

definition accepted_work :: "rt_db \<Rightarrow> string \<Rightarrow> bool" where
  "accepted_work d i \<longleftrightarrow> (\<exists>s c j t. load_state d s = Some (AClaim c) \<and> cm_missionId c = i \<and> cm_promotionState c = ''accepted''
     \<and> default_to ''None'' (cm_taskId c) = j \<and> load_state d (task_stream_id j) = Some (ATask t) \<and> tk_missionId t = i \<and> tk_state t = ''succeeded'')"

text \<open>The streams a disposition may move: the mission, its tasks and its approvals.\<close>

definition of_mission :: "rt_db \<Rightarrow> string \<Rightarrow> string \<Rightarrow> bool" where
  "of_mission d i s \<longleftrightarrow> s = mission_stream_id i \<or> (\<exists>t. load_state d s = Some (ATask t) \<and> tk_missionId t = i)
     \<or> (\<exists>a. load_state d s = Some (AApproval a) \<and> ap_missionId a = i)"

lemma completion_clear:
  assumes "completion_blockers target state tasks approvals cs = []"
  shows "\<forall>r\<in>set tasks. fst (snd r) \<in> TASK_ENDS" "\<forall>r\<in>set approvals. fst (snd r) \<noteq> ''requested'' \<and> fst (snd r) \<noteq> ''approved''"
    "\<exists>r\<in>set cs. \<exists>x\<in>set tasks. fst x = fst (snd r) \<and> fst (snd x) = ''succeeded''"
  using assms unfolding completion_blockers_def TASK_ENDS_def append_is_Nil_conv blocker_Nil list_ex_iff case_prod_unfold by blast+

lemma blockers_clear:
  assumes "blockers target state tasks approvals runs cs = []"
  shows "target \<in> {''complete'', ''reconcile_complete''} \<Longrightarrow> completion_blockers target state tasks approvals cs = []"
    and "target \<noteq> ''authorize'' \<Longrightarrow> ending_blockers target approvals runs = []"
  using assms unfolding blockers_def by simp_all

lemma ending_clear:
  assumes "ending_blockers target approvals runs = []"
  shows "\<forall>r\<in>set runs. fst (snd r) \<notin> {''created'', ''submitted'', ''running''}" "target = ''cancel'' \<longrightarrow> (\<forall>r\<in>set approvals. fst (snd r) \<noteq> ''approved'')"
  using assms unfolding ending_blockers_def append_is_Nil_conv blocker_Nil list_ex_iff case_prod_unfold by blast+

section \<open>The state of the mission\<close>

lemma transition_target: "mission_transition m t = Inr m' \<Longrightarrow> ms_state m' = t"
  by (simp add: mission_transition_Inr)

lemma dispose_states_last:
  assumes "dispose_states target m = Inr ms"
  shows "ms \<noteq> [] \<and> ms_state (last ms) = target_state target"
proof (cases "target = ''reconcile_complete''")
  case True
  with assms obtain m1 m2 where "mission_transition m1 ''completed'' = Inr m2" "ms = [m1, m2]" by (auto simp: dispose_states_def)
  then show ?thesis using transition_target[of m1 "''completed''" m2] True by (simp add: target_state_def)
next
  case False
  with assms obtain m2 where "mission_transition m (target_state target) = Inr m2" "ms = [m2]" by (auto simp: dispose_states_def)
  then show ?thesis using transition_target by simp
qed

lemma mission_settled:
  assumes "dispose_states target m = Inr ms"
  shows "\<exists>m'. after_settled ld (mission_events s v ms) s = Some (AMission m') \<and> ms_state m' = target_state target"
proof -
  from dispose_states_last[OF assms] obtain pre m' where ms: "ms = pre @ [m']" and m': "ms_state m' = target_state target"
    by (metis append_butlast_last_id)
  show ?thesis using m' by (simp add: ms mission_events_def after_settled_def enumerate_append_eq)
qed

lemma mission_events_stream: "x \<in> set (mission_events s v ms) \<Longrightarrow> st_stream x = s"
  by (auto simp: mission_events_def)

lemma number_events_after: "states_after (number_events md i xs) ld = after_settled ld xs"
proof -
  have "states_after (map (\<lambda>(n, x). append_to (st_stream x) (st_kind x) (st_version x) (ee n x) (st_state x)) (enumerate k xs)) ld = after_settled ld xs" for ee k
    by (induction xs arbitrary: k ld) (simp_all add: after_settled_def)
  from this[of "\<lambda>n x. envelope (md_commandId md @ ''-ev'' @ str_int (int n)) (st_stream x) (st_event x) md
      (about_none\<lparr>ab_mission := Some i, ab_task := st_task x\<rparr>)"] show ?thesis unfolding number_events_def .
qed

lemma served_append:
  assumes w: "wired S d" and fresh: "find_idempotent d (md_idempotencyKey md) = None"
    and s: "serve S hs (cmd, tick, md) d x = (d', x', Inr (Committed r ex))"
  shows "\<exists>as. plan_of S cmd tick md d = Inr (Append as ex) \<and> load_state d' = states_after as (load_state d)"
proof -
  from s obtain as where plan: "plan_of S cmd tick md d = Inr (Append as ex)"
    by (auto simp: serve_def perform_def split: sum.splits plan.splits prod.splits)
  let ?H = "en_hashing (sv_env S)"
  obtain d1 res where c: "commit_command ?H as (md_idempotencyKey md) (md_operationFingerprint md) (md_commandId md) d = (d1, res)" by force
  with s plan have res: "\<exists>y. res = Inr y" and d': "d' = fst (dispatch hs d1 x)"
    by (auto simp: serve_def perform_def split: sum.splits prod.splits)
  have "same_ledger d1 d'" unfolding d' dispatch_def by (rule dispatch_keeps_ledger)
  from c show ?thesis
  proof (cases rule: commit_command_cases)
    case (applied d2 written)
    have "same_ledger d2 d1" by (simp add: applied(5) same_ledger_def)
    then have "same_ledger d2 d'" using \<open>same_ledger d1 d'\<close> by (rule same_ledger_trans)
    from append_all_view[OF w applied(2)] same_ledger_view[OF this] plan show ?thesis by auto
  qed (use res fresh in \<open>auto simp: find_idempotent_def\<close>)
qed

section \<open>A disposed mission\<close>

lemma true_rows:
  assumes "undecided (load_state d) F" and "typed (load_state d)"
  shows "\<forall>r\<in>set (mission_approvals d i). true_row d r"
  using rows_listed(2)[OF assms(2)] assms(1) unfolding true_row_def undecided_def by (metis prod.collapse)

text \<open>The streams of the tasks and approvals that were settled, and what they hold.\<close>

lemma settled_streams:
  assumes "kinded d" and ty: "typed (load_state d)" and u: "undecided (load_state d) F"
    and ts: "cancel_tasks d (mission_tasks d i) = Inr ts" and qs: "settle_approvals E target reason md d (mission_approvals d i) = Inr qs"
    and c: "target = ''cancel'' \<longrightarrow> (\<forall>r\<in>set (mission_approvals d i). fst (snd r) \<noteq> ''approved'')"
    and tg: "target = ''cancel'' \<or> target = ''cancel_revoke''"
  shows "load_state d s = Some (ATask t) \<Longrightarrow> tk_missionId t = i \<Longrightarrow> tk_state t \<notin> TASK_ENDS \<Longrightarrow> s \<in> st_stream ` set ts"
    and "load_state d s = Some (AApproval a) \<Longrightarrow> ap_missionId a = i \<Longrightarrow> ap_state a = ''requested'' \<or> ap_state a = ''approved'' \<Longrightarrow> s \<in> st_stream ` set qs"
    and "x \<in> set (ts @ qs) \<Longrightarrow> of_mission d i (st_stream x) \<and> closed_for i (st_state x)"
proof -
  note T = cancel_tasks_effect[OF ts] and Q = settle_approvals_effect[OF qs true_rows[OF u ty]]
  show "s \<in> st_stream ` set ts" if s: "load_state d s = Some (ATask t)" "tk_missionId t = i" "tk_state t \<notin> TASK_ENDS"
  proof -
    from task_listed[OF assms(1) s(1,2)] obtain v where "(tk_taskId t, tk_state t, v) \<in> set (mission_tasks d i)" ..
    with T s(3) obtain x where "x \<in> set ts" "cancelled_row (tk_taskId t, tk_state t, v) x" by fastforce
    moreover have "s = task_stream_id (tk_taskId t)" using typed_at[OF ty s(1)] by simp
    ultimately show ?thesis by (auto simp: cancelled_row_def intro: rev_image_eqI)
  qed
  show "s \<in> st_stream ` set qs"
    if s: "load_state d s = Some (AApproval a)" "ap_missionId a = i" "ap_state a = ''requested'' \<or> ap_state a = ''approved''"
  proof -
    from approval_listed[OF assms(1) s(1,2)] obtain v where r: "(ap_requestId a, ap_state a, v) \<in> set (mission_approvals d i)" ..
    with c s(3) tg have "open_row target (ap_requestId a, ap_state a, v)" by (auto simp: open_row_def)
    with Q r obtain x where "x \<in> set qs" "withdrawn_row (ap_requestId a, ap_state a, v) x" by blast
    moreover have "s = approval_stream_id (ap_requestId a)" using typed_at[OF ty s(1)] by simp
    ultimately show ?thesis by (auto simp: withdrawn_row_def intro: rev_image_eqI)
  qed
  show "of_mission d i (st_stream x) \<and> closed_for i (st_state x)" if "x \<in> set (ts @ qs)"
  proof -
    from that consider "x \<in> set ts" | "x \<in> set qs" by auto
    then show ?thesis
    proof cases
      case 1
      with T obtain j s v where r: "(j, s, v) \<in> set (mission_tasks d i)" and x: "cancelled_row (j, s, v) x" by (metis prod_cases3)
      from rows_listed(1)[OF ty r] x show ?thesis by (auto simp: cancelled_row_def of_mission_def TASK_ENDS_def)
    next
      case 2
      with Q obtain j s v where r: "(j, s, v) \<in> set (mission_approvals d i)" and x: "withdrawn_row (j, s, v) x" by (metis prod_cases3)
      from rows_listed(2)[OF ty r] x show ?thesis by (auto simp: withdrawn_row_def of_mission_def)
    qed
  qed
qed

lemma run_clear:
  assumes "kinded d" and "ending_blockers target (mission_approvals d i) (mission_runs d i) = []" and "load_state d s = Some (ADriverRun r)"
  shows "closed_for i (ADriverRun r)"
  using run_listed[OF assms(1,3), of i] ending_clear(1)[OF assms(2)] by fastforce

lemma nothing_open_clear:
  assumes "kinded d" and "completion_blockers target state (mission_tasks d i) (mission_approvals d i) cs = []"
    and "ending_blockers target (mission_approvals d i) (mission_runs d i) = []" and a: "load_state d s = Some a"
  shows "closed_for i a"
proof (cases a)
  case (ATask t)
  from task_listed[OF assms(1) a[unfolded ATask], of i] completion_clear(1)[OF assms(2)] show ?thesis by (force simp: ATask)
next
  case (AApproval q)
  from approval_listed[OF assms(1) a[unfolded AApproval], of i] completion_clear(2)[OF assms(2)] show ?thesis by (force simp: AApproval)
qed (use run_clear[OF assms(1,3)] a in auto)

lemma accepted_clear:
  assumes "typed (load_state d)" and "completion_blockers target state (mission_tasks d i) (mission_approvals d i) (accepted_claims d i) = []"
  shows "accepted_work d i"
proof -
  from completion_clear(3)[OF assms(2)] obtain k j v u w where r: "(k, j, v) \<in> set (accepted_claims d i)" "(j, ''succeeded'', w) \<in> set (mission_tasks d i)"
    by force
  from rows_listed(3)[OF assms(1) r(1)] rows_listed(1)[OF assms(1) r(2)] show ?thesis unfolding accepted_work_def by blast
qed

text \<open>The mission's own events touch no task, approval or run.\<close>

lemma mission_events_state: "x \<in> set (mission_events s v ms) \<Longrightarrow> \<exists>m. st_state x = AMission m"
  by (auto simp: mission_events_def)

lemma disposed_nothing_open:
  assumes k: "kinded d" and ty: "typed (load_state d)" and u: "undecided (load_state d) F" and nt: "target \<noteq> ''authorize''"
    and tg: "target \<in> set DISPOSITION_TARGETS"
    and b: "blockers target state (mission_tasks d i) (mission_approvals d i) (mission_runs d i) (accepted_claims d i) = []"
    and ts: "(if target \<in> {''cancel'', ''cancel_revoke''} then cancel_tasks d (mission_tasks d i) else Inr []) = Inr ts"
    and qs: "(if target \<in> {''cancel'', ''cancel_revoke''} then settle_approvals E target reason md d (mission_approvals d i) else Inr []) = Inr qs"
    and ld: "load_state d' = after_settled (load_state d) (ts @ qs @ mission_events (mission_stream_id i) v ms)"
  shows "nothing_open d' i"
proof -
  note ending = blockers_clear(2)[OF b nt]
  let ?xs = "ts @ qs @ mission_events (mission_stream_id i) v ms"
  have "closed_for i a" if s: "load_state d' s = Some a" for s a
  proof (cases "target \<in> {''cancel'', ''cancel_revoke''}")
    case False
    with nt tg have "target \<in> {''complete'', ''reconcile_complete''}" by (auto simp: DISPOSITION_TARGETS_def)
    note old = nothing_open_clear[OF k blockers_clear(1)[OF b this] ending]
    from ts qs False have xs: "?xs = mission_events (mission_stream_id i) v ms" by simp
    show ?thesis
    proof (cases "s \<in> st_stream ` set ?xs")
      case True
      from after_settled_at[OF this, of "load_state d"] s obtain x where "x \<in> set ?xs" "a = st_state x" unfolding ld by auto
      then show ?thesis using mission_events_state unfolding xs by force
    next
      case False
      from after_settled_other[OF this, of "load_state d"] s show ?thesis unfolding ld by (auto intro: old)
    qed
  next
    case True
    from True have c: "target = ''cancel'' \<or> target = ''cancel_revoke''" by simp
    from ts qs True have T: "cancel_tasks d (mission_tasks d i) = Inr ts" "settle_approvals E target reason md d (mission_approvals d i) = Inr qs" by simp_all
    note S = settled_streams[OF k ty u T ending_clear(2)[OF ending] c]
    show ?thesis
    proof (cases "s \<in> st_stream ` set ?xs")
      case True
      from after_settled_at[OF this, of "load_state d"] s obtain x where x: "x \<in> set ?xs" and a: "a = st_state x" unfolding ld by auto
      show ?thesis
      proof (cases "x \<in> set (ts @ qs)")
        case False
        with x have "x \<in> set (mission_events (mission_stream_id i) v ms)" by simp
        from mission_events_state[OF this] a show ?thesis by auto
      qed (use S(3) a in simp)
    next
      case False
      from after_settled_other[OF this, of "load_state d"] s have old: "load_state d s = Some a" unfolding ld by simp
      show ?thesis
      proof (cases a)
        case (ATask t)
        with S(1)[of s t] old False show ?thesis by auto
      next
        case (AApproval q)
        with S(2)[of s q] old False show ?thesis by auto
      qed (use run_clear[OF k ending] old in auto)
    qed
  qed
  then show ?thesis unfolding nothing_open_def by blast
qed

text \<open>
  C9. a disposed mission leaves nothing open. When the runtime, in any database it reached, accepts the
  disposition of a mission under a fresh key, a human gave the command on the preview of this very database,
  and it leaves the mission in the state the disposition names. Unless it only authorises the mission, every task
  of the mission has then ended, no approval is asked for or granted, and no driver run is active; a completed
  mission has an accepted claim for a task that succeeded. No stream of another mission moves.
\<close>

theorem disposition_leaves_nothing_open:
  assumes d: "d = reached S hs cs w" and fresh: "find_idempotent d (md_idempotencyKey md) = None"
    and s: "serve S hs (DisposeMission i target v dg reason, tick, md) d w' = (d', w'', Inr (Committed r ex))"
  shows "ac_kind (md_actor md) = ''human''
     \<and> (\<exists>p. mission_disposition_preview (hs_sha (en_hashing (sv_env S))) i target d = Inr p \<and> pv_digest p = dg \<and> pv_version p = v \<and> pv_blocked p = [])
     \<and> (\<exists>m. load_state d' (mission_stream_id i) = Some (AMission m) \<and> ms_state m = target_state target)
     \<and> (target \<noteq> ''authorize'' \<longrightarrow> nothing_open d' i)
     \<and> (target \<in> {''complete'', ''reconcile_complete''} \<longrightarrow> accepted_work d i)
     \<and> (\<forall>s. \<not> of_mission d i s \<longrightarrow> load_state d' s = load_state d s)"
proof -
  let ?E = "sv_env S" and ?ms = "mission_stream_id i"
  have w: "wired S d" and ty: "typed (load_state d)" and k: "kinded d" and u: "undecided (load_state d) (facts d)"
    using wired_reached typed_reached kinded_reached asked.reachable[where S = S and hs = hs and cs = cs and x = w] by (simp_all add: d reached_def)
  from served_append[OF w fresh s] obtain as where plan: "service_dispose_mission ?E i target v dg reason md d = Inr (Append as ex)"
      and ld: "load_state d' = states_after as (load_state d)" by auto
  from plan fresh obtain p m ms ts qs where human: "ac_kind (md_actor md) = ''human''"
      and p: "mission_disposition_preview (hs_sha (en_hashing ?E)) i target d = Inr p" "pv_version p = v" "pv_digest p = dg" "pv_blocked p = []"
      and ms: "dispose_states target m = Inr ms"
      and ts: "(if target \<in> {''cancel'', ''cancel_revoke''} then cancel_tasks d (pv_tasks p) else Inr []) = Inr ts"
      and qs: "(if target \<in> {''cancel'', ''cancel_revoke''} then settle_approvals ?E target reason md d (pv_approvals p) else Inr []) = Inr qs"
      and as: "as = number_events md i (ts @ qs @ mission_events ?ms v ms)"
    by (rule dispose_plan)
  note rows = preview_rows[OF p(1)]
  have ts': "(if target \<in> {''cancel'', ''cancel_revoke''} then cancel_tasks d (mission_tasks d i) else Inr []) = Inr ts"
      and qs': "(if target \<in> {''cancel'', ''cancel_revoke''} then settle_approvals ?E target reason md d (mission_approvals d i) else Inr []) = Inr qs"
    using ts qs unfolding rows[THEN conjunct1] rows[THEN conjunct2] by blast+
  have ld': "load_state d' = after_settled (load_state d) (ts @ qs @ mission_events ?ms v ms)"
    by (simp add: ld as number_events_after)
  have tg: "target \<in> set DISPOSITION_TARGETS" using p(1) by (auto simp: mission_disposition_preview_def plans)
  from preview_clear[OF p(1,4)] obtain state where
    b: "blockers target state (mission_tasks d i) (mission_approvals d i) (mission_runs d i) (accepted_claims d i) = []" ..
  have "\<exists>m. load_state d' ?ms = Some (AMission m) \<and> ms_state m = target_state target"
    using mission_settled[OF ms, of "after_settled (load_state d) (ts @ qs)"] by (simp add: ld' after_settled_def)
  moreover have "target \<noteq> ''authorize'' \<longrightarrow> nothing_open d' i"
    using disposed_nothing_open[OF k ty u _ tg b ts' qs' ld'] by blast
  moreover have "target \<in> {''complete'', ''reconcile_complete''} \<longrightarrow> accepted_work d i"
    using accepted_clear[OF ty] blockers_clear(1)[OF b] by blast
  moreover have "load_state d' s = load_state d s" if other: "\<not> of_mission d i s" for s
  proof -
    have "of_mission d i (st_stream x)" if "x \<in> set (ts @ qs @ mission_events ?ms v ms)" for x
    proof (cases "x \<in> set (ts @ qs)")
      case True
      then have c: "target = ''cancel'' \<or> target = ''cancel_revoke''" using ts' qs' by (auto split: if_splits)
      then have nt: "target \<noteq> ''authorize''" and T: "cancel_tasks d (mission_tasks d i) = Inr ts"
          "settle_approvals ?E target reason md d (mission_approvals d i) = Inr qs" using ts' qs' by auto
      from settled_streams(3)[OF k ty u T ending_clear(2)[OF blockers_clear(2)[OF b nt]] c True] show ?thesis ..
    next
      case False
      with that have "x \<in> set (mission_events ?ms v ms)" by simp
      then show ?thesis by (simp add: mission_events_stream of_mission_def)
    qed
    then have "s \<notin> st_stream ` set (ts @ qs @ mission_events ?ms v ms)" using other by blast
    then show ?thesis unfolding ld' by (rule after_settled_other)
  qed
  ultimately show ?thesis using human p by blast
qed

end
