(* ===== verification/Broker_Recovery.thy ===== *)
theory Broker_Recovery
  imports Broker_Steps Disposition_Safety
begin

text \<open>
  What the recovery of one execution does: it touches no other execution and runs no adapter's effect,
  whatever becomes of it, and when it returns, the execution is not left under way.
\<close>

section \<open>The commands of the recovery\<close>

fun mends :: "string \<Rightarrow> service_command \<Rightarrow> bool" where
  "mends e (TransitionTool i _ _) \<longleftrightarrow> i = e"
| "mends e (SettlePredispatch _ _ i _) \<longleftrightarrow> i = e"
| "mends e (FinalizeUse _ _) \<longleftrightarrow> True"
| "mends e _ \<longleftrightarrow> False"

text \<open>The states in which such a command can leave the execution.\<close>

fun leads_to :: "service_command \<Rightarrow> string set" where
  "leads_to (TransitionTool _ l _) = {l}"
| "leads_to (SettlePredispatch _ _ _ _) = {''failed''}"
| "leads_to _ = {}"

lemma label_of_transition: "tool_transition V t l p = Inr t' \<Longrightarrow> label_of t' = l"
  by (auto simp: tool_transition_Inr)

lemma mending_states:
  assumes "plan_of S cmd tick md d = Inr (Append as ex)" and "mends e cmd"
  shows "z \<noteq> e \<Longrightarrow> states_after as ld (tool_stream_id z) = ld (tool_stream_id z)"
    and "states_after as ld (tool_stream_id e) = ld (tool_stream_id e)
      \<or> (\<exists>t. states_after as ld (tool_stream_id e) = Some (AToolExecution t) \<and> label_of t \<in> leads_to cmd)"
  using assms
  by (cases cmd; cases "find_idempotent d (md_idempotencyKey md)";
      auto simp: service_transition_tool_execution_def service_settle_predispatch_tool_execution_def predispatch_guards_def
        service_finalize_use_def plans capability_append_def tool_append_def Let_def stream_ids dest: label_of_transition)+

lemma mending_call:
  assumes w: "wired S d" and s: "serve S hs (cmd, tick, md) d x = (d', x', r)" and m: "mends e cmd"
  shows "z \<noteq> e \<Longrightarrow> tool_at d' z = tool_at d z"
    and "tool_at d' e = tool_at d e \<or> (\<exists>t. tool_at d' e = Some t \<and> label_of t \<in> leads_to cmd)"
  using w s
proof (atomize(full), cases rule: serve_cases)
  case (wrote as ex row)
  show "(z \<noteq> e \<longrightarrow> tool_at d' z = tool_at d z) \<and> (tool_at d' e = tool_at d e \<or> (\<exists>t. tool_at d' e = Some t \<and> label_of t \<in> leads_to cmd))"
    using mending_states(1)[OF wrote(1) m, of z "load_state d"] mending_states(2)[OF wrote(1) m, of "load_state d"] wrote(3)
    by (auto simp: tool_at_def)
qed (simp_all add: tool_at_def)

section \<open>While one execution is recovered\<close>

text \<open>No effect happens, and the other executions stay as they were.\<close>

definition recovering :: "('x, 'w) broker \<Rightarrow> string \<Rightarrow> (string \<Rightarrow> dict option) \<Rightarrow> effect list \<Rightarrow> assertion" where
  "recovering B e T F d fx \<longleftrightarrow> broker_inv B d fx \<and> fx = F \<and> (\<forall>z. z \<noteq> e \<longrightarrow> tool_at d z = T z)"

definition stranded :: "rt_db \<Rightarrow> string \<Rightarrow> bool" where
  "stranded d e \<longleftrightarrow> (\<exists>t. tool_at d e = Some t \<and> dlook t ''state'' \<in> Some ` JStr ` {''dispatching'', ''effect_observed'', ''settling''})"

lemma label_at: "dlook t ''state'' = Some (JStr l) \<Longrightarrow> label_of t = l"
  by (simp add: label_of_def state_label_def dreq_def str_of_def)

lemma ended_not_stranded: "ended d e \<Longrightarrow> \<not> stranded d e"
  by (auto simp: ended_def stranded_def TOOL_TERMINAL_def dest!: label_at)

lemma recoveringD:
  assumes "recovering B e T F d fx"
  shows "broker_inv B d fx" "wired (bk_services B) d" "typed (load_state d)"
  using assms unfolding recovering_def broker_inv_def in_order_def by blast+

lemma recovering_call:
  assumes inj: "inj (broker_sha B)" and rec: "recovering B e T F d fx" and s: "serve (bk_services B) hs (cmd, tick, md) d x = (d', x', r)"
    and cmd: "mends e cmd" "\<not> admission cmd" and fp: "md_operationFingerprint md = stage_fingerprint (broker_sha B) e s"
    and k: "db_idempotency d' \<noteq> db_idempotency d \<Longrightarrow> done_stage B d' e s"
  shows "recovering B e T F d' fx"
proof -
  note inv = recoveringD(1)[OF rec] and o = recoveringD(2,3)[OF rec]
  from cmd have u: "follows_up cmd" by (cases cmd) auto
  have n: "prepares_nothing (bk_services B) cmd tick md d" "admits_nothing (bk_services B) cmd tick md d"
    using unprepared_follow_up[OF _ u] unadmitted_follow_up[OF _ u cmd(2)] by (auto simp: prepares_nothing_def admits_nothing_def)
  have "broker_inv B d' fx"
    by (rule broker_inv_call[OF inv s call_follows[OF o s n(1)] _ done_only[OF inj fp]])
      (use call_not_before[OF o s n] k in blast)+
  with rec mending_call(1)[OF o(1) s cmd(1)] show ?thesis unfolding recovering_def by simp
qed

text \<open>The commands of the recovery: any of them, one that ends the execution, one that gives a use back.\<close>

lemma triple_mend:
  assumes inj: "inj (broker_sha B)" and cmd: "mends e cmd" "\<not> admission cmd" and s: "s \<notin> telling"
  shows "triple (recovering B e T F) any (stage B e s cmd) (\<lambda>_. any)"
proof (rule triple_stage, intro conjI)
  fix d fx w md d' w' r
  assume rec: "recovering B e T F d fx" and fp: "md_operationFingerprint md = stage_fingerprint (broker_sha B) e s"
    and c: "serve (bk_services B) (bk_handlers B) (cmd, bk_now B, md) d w = (d', w', r)"
  show "recovering B e T F d' fx" by (rule recovering_call[OF inj rec c cmd fp tells_nothing[OF s]])
qed simp

lemma triple_end:
  assumes inj: "inj (broker_sha B)" and s: "s \<in> set TOOL_TERMINAL"
  shows "triple (recovering B e T F) any (stage B e s (TransitionTool e s p)) (\<lambda>_ d _. ended d e)"
proof (rule triple_stage)
  fix d fx w md d' w' r
  assume rec: "recovering B e T F d fx" and fp: "md_operationFingerprint md = stage_fingerprint (broker_sha B) e s"
    and c: "serve (bk_services B) (bk_handlers B) (TransitionTool e s p, bk_now B, md) d w = (d', w', r)"
  note inv = recoveringD(1)[OF rec]
  have na: "\<not> admission (TransitionTool e s p)" using s by (auto simp: TOOL_TERMINAL_def)
  from inv c show "recovering B e T F d' fx \<and> (\<forall>y. r = Inr y \<longrightarrow> ended d' e)"
  proof (cases rule: transition_call)
    case still
    have "recovering B e T F d' fx" by (rule recovering_call[OF inj rec c _ na fp]) (use still(2) in simp_all)
    moreover have "r \<noteq> Inr y" for y
    proof
      assume "r = Inr y"
      from still(3)[OF this] obtain t t' row where t: "tool_at d e = Some t"
          "tool_transition (broker_validator B) t s (dsetdefault p ''updatedAt'' (JStr (md_issuedAt md))) = Inr t'"
          "(md_idempotencyKey md, row) \<in> set (db_idempotency d)" "ir_fingerprint row = md_operationFingerprint md" by blast
      from known_stage[OF inv t(3,4) fp] s have "ended d e" by (simp add: done_stage_def)
      with t(1,2) show False by (auto simp: ended_def tool_transition_Inr dest: state_label_of)
    qed
    ultimately show ?thesis by simp
  next
    case (moved t t')
    from moved(2,3) s have e: "ended d' e" by (auto simp: ended_def dest: label_of_transition)
    then have "done_stage B d' e s" using s moved(2) by (auto simp: done_stage_def TOOL_TERMINAL_def)
    then have "recovering B e T F d' fx" by (intro recovering_call[OF inj rec c _ na fp]) simp_all
    with e show ?thesis by simp
  qed
qed

lemma triple_give_back:
  assumes inj: "inj (broker_sha B)" and s: "s \<notin> telling"
  shows "triple (recovering B e T F) (\<lambda>d _. \<not> stranded d e) (stage B e s (SettlePredispatch g x e result)) (\<lambda>_ d _. \<not> stranded d e)"
proof (rule triple_stage)
  fix d fx w md d' w' r
  assume rec: "recovering B e T F d fx" and not: "\<not> stranded d e" and fp: "md_operationFingerprint md = stage_fingerprint (broker_sha B) e s"
    and c: "serve (bk_services B) (bk_handlers B) (SettlePredispatch g x e result, bk_now B, md) d w = (d', w', r)"
  from mending_call(2)[OF recoveringD(2)[OF rec] c, of e, simplified] not have "\<not> stranded d' e" by (elim disjE) (auto simp: stranded_def dest: label_at)
  moreover have "recovering B e T F d' fx" by (rule recovering_call[OF inj rec c _ _ fp]) (simp_all add: tells_nothing[OF s])
  ultimately show "recovering B e T F d' fx \<and> (\<forall>y. r = Inr y \<longrightarrow> \<not> stranded d' e)" by simp
qed

section \<open>The programs of the recovery\<close>

lemma triple_stay: "quiet p \<Longrightarrow> triple J P p (\<lambda>_. P)"
  by (rule triple_quiet)

text \<open>A guard passed on the way: \<open>give\<close> of a pure check.\<close>

lemma triple_guard: "(\<And>x. r = Inr x \<Longrightarrow> triple J P (f x) Q) \<Longrightarrow> triple J P (seq (give r) f) Q"
  by (cases r) (auto simp: triple_def seq_def give_def)

lemma triple_skip: "quiet p \<Longrightarrow> (\<And>x. triple J P (f x) Q) \<Longrightarrow> triple J P (seq p f) Q"
  by (rule triple_seq[OF triple_stay])

abbreviation mending :: "('x, 'w) broker \<Rightarrow> string \<Rightarrow> (string \<Rightarrow> dict option) \<Rightarrow> effect list \<Rightarrow> ('x, 'w, 'a) prog \<Rightarrow> bool" where
  "mending B e T F p \<equiv> triple (recovering B e T F) any p (\<lambda>_. any)"

lemma triple_any: "triple J P p Q \<Longrightarrow> (\<And>d fx. P d fx) \<Longrightarrow> triple J any p (\<lambda>_. any)"
  by (simp add: triple_def holds_def)

lemma triple_calm: "quiet p \<Longrightarrow> triple J any p (\<lambda>_. any)"
  by (rule triple_quiet) simp_all

lemma triple_transition_terminal:
  assumes inj: "inj (broker_sha B)"
  shows "triple (recovering B e T F) any (transition_terminal B e from_state result why receipt) (\<lambda>_ d _. ended d e)"
proof -
  have terminal: "triple (recovering B e T F) any (seq (stage B e s (TransitionTool e s p)) (\<lambda>_. tool_state e)) (\<lambda>_ d _. ended d e)"
    if "s \<in> set TOOL_TERMINAL" for s p
    by (rule triple_seq[OF triple_end[OF inj that]]) (rule triple_quiet, auto intro: quiets)
  have settling: "mending B e T F (stage B e ''settling'' (TransitionTool e ''settling'' p))" for p
    by (rule triple_mend[OF inj]) (simp_all add: telling_def TOOL_TERMINAL_def)
  show ?thesis
    unfolding transition_terminal_def Let_def
    by (intro triple_guard triple_if terminal triple_seq[where Q = "\<lambda>_. any"] settling)
      (auto simp: TOOL_TERMINAL_def intro: triple_calm quiets)
qed

lemma mending_settle_use:
  assumes inj: "inj (broker_sha B)" and s: "s \<notin> telling"
  shows "mending B e T F (settle_use B state e s outcome effect)"
proof -
  have finalized: "mending B e T F (stage B e s (FinalizeUse g x))" for g x by (rule triple_mend[OF inj _ _ s]) simp_all
  show ?thesis
    unfolding settle_use_def
    by (auto intro!: triple_skip quiets finalized intro: triple_calm split: option.split)
qed

lemma triple_leave_indeterminate:
  assumes inj: "inj (broker_sha B)" and s: "s \<notin> telling"
  shows "triple (recovering B e T F) any (leave_indeterminate B state e from_state s why) (\<lambda>_ d _. ended d e)"
proof -
  have finalized: "mending B e T F (stage B e s (FinalizeUse g x))" for g x by (rule triple_mend[OF inj _ _ s]) simp_all
  have "mending B e T F (case reserved_use state of
            None \<Rightarrow> give (Inr ())
          | Some (i, g, l) \<Rightarrow> seq (consumption_of B e i l ''indeterminate'' (dget state ''sideEffectIdentity'')) (\<lambda>x.
              catch (stage B e s (FinalizeUse g x)) (\<lambda>_. give (Inr ()))))"
    by (auto intro!: triple_skip quiets triple_catch finalized intro: triple_calm split: option.split)
  then show ?thesis
    unfolding leave_indeterminate_def
    by (intro triple_guard triple_skip quiets triple_seq[where Q = "\<lambda>_. any"] triple_transition_terminal[OF inj])
qed

lemma triple_prove_effect:
  assumes inj: "inj (broker_sha B)"
  shows "triple (recovering B e T F) any (prove_effect B state e from_state a n y) (\<lambda>_ d _. ended d e)"
  unfolding prove_effect_def
  by (intro triple_skip quiets triple_seq[where Q = "\<lambda>_. any"] triple_transition_terminal[OF inj] mending_settle_use[OF inj])
    (simp add: telling_def TOOL_TERMINAL_def)

text \<open>What the target proved ended the execution.\<close>

definition proved_end :: "string \<Rightarrow> string + dict option \<Rightarrow> assertion" where
  "proved_end e x = (case x of Inr (Some _) \<Rightarrow> (\<lambda>d _. ended d e) | _ \<Rightarrow> any)"

lemma proved_end_simps [simp]: "proved_end e (Inl y) = any" "proved_end e (Inr None) = any" "proved_end e (Inr (Some t)) = (\<lambda>d _. ended d e)"
  by (simp_all add: proved_end_def)

lemma triple_reconcile_with_target:
  fixes B :: "('x, 'w) broker"
  assumes inj: "inj (broker_sha B)"
  shows "triple (recovering B e T F) any (reconcile_with_target B state e from_state a) (proved_end e)"
proof -
  have unproved: "triple (recovering B e T F) any (give (Inr (Inr None)) :: ('x, 'w, string + dict option) prog) (proved_end e)" by (rule triple_give) auto
  have failed: "triple (recovering B e T F) any (give (Inr (Inl y)) :: ('x, 'w, string + dict option) prog) (proved_end e)" for y by (rule triple_give) auto
  have proof_of: "triple (recovering B e T F) any (seq (prove_effect B state e from_state a n y) (\<lambda>t. give (Inr (Inr (Some t))))) (proved_end e)" for n y
    by (rule triple_seq[OF triple_prove_effect[OF inj]]) (rule triple_give, auto)
  show ?thesis
    unfolding reconcile_with_target_def
    by (auto intro!: unproved failed proof_of triple_catch triple_skip quiets split: json.split option.split)
qed

lemma triple_recover_dispatched:
  assumes inj: "inj (broker_sha B)" and e: "text_item state ''toolExecutionId'' = Inr e"
  shows "triple (recovering B e T F) any (recover_dispatched B state from_state) (\<lambda>_ d _. ended d e)"
proof -
  have left: "triple (recovering B e T F) any (leave_indeterminate B state e from_state s why) (\<lambda>_ d _. ended d e)"
    if "s \<in> {''missing-tool-capability'', ''reconcile-capability''}" for s why
    using that by (intro triple_leave_indeterminate[OF inj]) (auto simp: telling_def TOOL_TERMINAL_def)
  have rest: "triple (recovering B e T F) (proved_end e x) (case x of
           Inr (Some t) \<Rightarrow> give (Inr t)
         | _ \<Rightarrow> seq (case x of Inl err \<Rightarrow> give (Inr (Inl err)) | Inr _ \<Rightarrow> reversible (rg_adapter g) (dget state ''effectIntent'')) (\<lambda>staged.
             leave_indeterminate B state e from_state ''reconcile-capability''
               (recovery_reason e from_state (dget state ''effectIntent'') staged))) (\<lambda>_ d _. ended d e)" for x g
    by (cases x; cases "projr x") (auto intro!: triple_give triple_skip left quiets)
  show ?thesis
    unfolding recover_dispatched_def
    by (rule triple_guard)
      (auto simp: e intro!: left triple_seq[OF triple_reconcile_with_target[OF inj] rest] split: sum.split)
qed

lemma triple_recover_prepared:
  assumes inj: "inj (broker_sha B)" and e: "text_item state ''toolExecutionId'' = Inr e"
  shows "triple (recovering B e T F) (\<lambda>d _. \<not> stranded d e) (recover_prepared B state) (\<lambda>_ d _. \<not> stranded d e)"
proof -
  let ?P = "\<lambda>d (fx :: effect list). \<not> stranded d e"
  have given: "triple (recovering B e T F) ?P (stage B e ''recover-predispatch-settle'' (SettlePredispatch g x e result)) (\<lambda>_. ?P)" for g x result
    by (rule triple_give_back[OF inj]) (simp add: telling_def TOOL_TERMINAL_def)
  have settled: "triple (recovering B e T F) ?P (seq (stage B e ''recover-predispatch-settle'' (SettlePredispatch g x e result))
      (\<lambda>_. seq (tool_state e) (\<lambda>t. give (Inr (Some t))))) (\<lambda>_. ?P)" for g x result
    by (rule triple_seq[OF given]) (intro triple_skip quiets triple_give)
  show ?thesis
    unfolding recover_prepared_def
  proof (rule triple_skip[OF quiet_look])
    fix orphan :: "string option"
    show "triple (recovering B e T F) ?P (case orphan of None \<Rightarrow> give (Inr None) | Some i \<Rightarrow>
         seq (give (bnd (text_item state ''toolExecutionId'') (\<lambda>e. bnd (text_item state ''leaseId'') (\<lambda>l. bnd (text_item state ''grantId'') (\<lambda>g.
           bnd (text_item state ''toolRequestId'') (\<lambda>q. Inr (e, l, g, q))))))) (\<lambda>(e, l, g, q).
         seq (consumption_of B e i l ''failed'' JNull) (\<lambda>x.
         seq (recovery_failure_result B e q (''runtime recovered ToolExecution '' @ e
            @ '' with an open pre-dispatch capability reservation; no external dispatch occurred'')) (\<lambda>result.
         seq (stage B e ''recover-predispatch-settle'' (SettlePredispatch g x e result)) (\<lambda>_.
         seq (tool_state e) (\<lambda>t. give (Inr (Some t)))))))) (\<lambda>_. ?P)"
    proof (cases orphan)
      case (Some i)
      show ?thesis unfolding Some option.case
        by (rule triple_guard) (auto simp: e intro!: triple_skip quiets settled)
    qed (simp add: triple_give)
  qed
qed

section \<open>The whole recovery\<close>

lemma triple_recover_one:
  fixes B :: "('x, 'w) broker"
  assumes inj: "inj (broker_sha B)"
  shows "triple (recovering B e T F) any (recover_one B (tool_stream_id e)) (\<lambda>_ d _. \<not> stranded d e)"
  unfolding recover_one_def
proof (rule triple_seq[where Q = "\<lambda>state d _. tool_at d e = Some state \<and> text_item state ''toolExecutionId'' = Inr e"])
  show "triple (recovering B e T F) any (look (\<lambda>d. fetch the_tool d (tool_stream_id e)))
      (\<lambda>state d _. tool_at d e = Some state \<and> text_item state ''toolExecutionId'' = Inr e)"
  proof (rule triple_look)
    fix state d fx
    assume f: "fetch the_tool d (tool_stream_id e) = Inr state" and rec: "recovering B e T F d fx"
    from f have l: "load_state d (tool_stream_id e) = Some (AToolExecution state)" by (auto simp: fetch_Inr)
    with typed_at[OF recoveringD(3)[OF rec]] have "placed (tool_stream_id e) (AToolExecution state)" by blast
    then have "dlook state ''toolExecutionId'' = Some (JStr e)" by (auto simp: tool_stream_id_def)
    with l show "tool_at d e = Some state \<and> text_item state ''toolExecutionId'' = Inr e"
      by (simp add: tool_at_def text_item_def dreq_def)
  qed
next
  fix state
  show "triple (recovering B e T F) (\<lambda>d _. tool_at d e = Some state \<and> text_item state ''toolExecutionId'' = Inr e)
     (seq (give (dreq state ''state'')) (\<lambda>st. case st of
         JStr s \<Rightarrow> if s = ''prepared'' then recover_prepared B state
           else if s \<in> {''dispatching'', ''effect_observed'', ''settling''} then seq (recover_dispatched B state s) (\<lambda>t. give (Inr (Some t)))
           else give (Inr None)
       | _ \<Rightarrow> give (Inr None))) (\<lambda>_ d _. \<not> stranded d e)"
  proof (cases "text_item state ''toolExecutionId'' = Inr e")
    case True
    show ?thesis
    proof (rule triple_guard)
      fix st assume st: "dreq state ''state'' = Inr st"
      let ?P = "\<lambda>d (fx :: effect list). tool_at d e = Some state \<and> text_item state ''toolExecutionId'' = Inr e"
      have idle: "?P d fx \<Longrightarrow> st \<notin> JStr ` {''dispatching'', ''effect_observed'', ''settling''} \<Longrightarrow> \<not> stranded d e" for d fx
        using st by (auto simp: stranded_def)
      have unproved: "triple (recovering B e T F) ?P (give (Inr None) :: ('x, 'w, dict option) prog) (\<lambda>_ d _. \<not> stranded d e)"
        if "st \<notin> JStr ` {''dispatching'', ''effect_observed'', ''settling''}"
        by (rule triple_give, rule idle) (use that in auto)
      have under_way: "triple (recovering B e T F) ?P (seq (recover_dispatched B state s) (\<lambda>t. give (Inr (Some t)))) (\<lambda>_ d _. \<not> stranded d e)" for s
        by (rule triple_seq[OF triple_pre[OF triple_recover_dispatched[OF inj True]]], simp, rule triple_give) (simp add: ended_not_stranded)
      have orphan: "triple (recovering B e T F) ?P (recover_prepared B state) (\<lambda>_ d _. \<not> stranded d e)" if "st = JStr ''prepared''"
        by (rule triple_pre[OF triple_recover_prepared[OF inj True]], rule idle) (use that in auto)
      show "triple (recovering B e T F) ?P
        (case st of JStr s \<Rightarrow> if s = ''prepared'' then recover_prepared B state
             else if s \<in> {''dispatching'', ''effect_observed'', ''settling''} then seq (recover_dispatched B state s) (\<lambda>t. give (Inr (Some t)))
             else give (Inr None)
         | _ \<Rightarrow> give (Inr None)) (\<lambda>_ d _. \<not> stranded d e)"
        by (cases st) (auto intro!: unproved under_way orphan)
    qed
  qed (simp add: triple_def holds_def)
qed

text \<open>An invariant for one execution is one for all: what the others were, they are.\<close>

lemma triple_recover:
  fixes B :: "('x, 'w) broker"
  assumes inj: "inj (broker_sha B)"
  shows "triple (\<lambda>d fx. broker_inv B d fx \<and> fx = F) (\<lambda>d _. \<forall>z. z \<in> N \<longrightarrow> \<not> stranded d z) (recover_one B (tool_stream_id e))
    (\<lambda>_ d _. \<forall>z. z \<in> insert e N \<longrightarrow> \<not> stranded d z)"
  unfolding triple_def
proof (intro allI impI)
  fix m :: "('x, 'w) machine"
  assume m: "holds (\<lambda>d fx. broker_inv B d fx \<and> fx = F) m" "holds (\<lambda>d _. \<forall>z. z \<in> N \<longrightarrow> \<not> stranded d z) m"
  let ?m = "recover_one B (tool_stream_id e) m" and ?J = "recovering B e (tool_at (mc_db m)) F"
  from m(1) have "holds ?J m" unfolding holds_def recovering_def by blast
  with triple_recover_one[OF inj, of e "tool_at (mc_db m)" F]
  have J: "holds ?J (fst ?m)" and e: "\<And>x. snd ?m = Some (Inr x) \<Longrightarrow> holds (\<lambda>d _. \<not> stranded d e) (fst ?m)"
    by (simp_all add: triple_def holds_def)
  from J have others: "\<not> stranded (mc_db (fst ?m)) z" if "z \<noteq> e" "z \<in> N" for z
    using that m(2) by (simp add: holds_def recovering_def stranded_def)
  have "\<not> stranded (mc_db (fst ?m)) z" if "snd ?m = Some (Inr x)" "z \<in> insert e N" for x z
    using that others e[of x] by (cases "z = e") (simp_all add: holds_def)
  with J show "holds (\<lambda>d fx. broker_inv B d fx \<and> fx = F) (fst ?m)
     \<and> (\<forall>x. snd ?m = Some (Inr x) \<longrightarrow> holds (\<lambda>d _. \<forall>z. z \<in> insert e N \<longrightarrow> \<not> stranded d z) (fst ?m))"
    by (auto simp: holds_def recovering_def)
qed

lemma triple_recover_all:
  assumes inj: "inj (broker_sha B)"
  shows "(\<And>s. s \<in> set ss \<Longrightarrow> s \<in> range tool_stream_id) \<Longrightarrow>
    triple (\<lambda>d fx. broker_inv B d fx \<and> fx = F) (\<lambda>d _. \<forall>z. z \<in> N \<longrightarrow> \<not> stranded d z) (recover_all B ss)
      (\<lambda>_ d _. \<forall>z. z \<in> N \<or> tool_stream_id z \<in> set ss \<longrightarrow> \<not> stranded d z)"
proof (induction ss arbitrary: N)
  case Nil
  then show ?case by (auto intro: triple_give)
next
  case (Cons s ss)
  from Cons.prems obtain e where s: "s = tool_stream_id e" by auto
  note one = triple_recover[OF inj, of F N e, folded s]
  have rest: "triple (\<lambda>d fx. broker_inv B d fx \<and> fx = F) (\<lambda>d _. \<forall>z. z \<in> insert e N \<longrightarrow> \<not> stranded d z) (recover_all B ss)
      (\<lambda>_ d _. \<forall>z. z \<in> insert e N \<or> tool_stream_id z \<in> set ss \<longrightarrow> \<not> stranded d z)"
    by (rule Cons.IH) (simp add: Cons.prems)
  show ?case unfolding recover_all.simps
    by (rule triple_seq[OF one triple_seq[OF rest triple_give]]) (auto simp: s tool_stream_id_def)
qed

lemma listed_tools:
  assumes t: "typed (load_state d)" and k: "kinded d" and w: "wired S d"
  defines "L \<equiv> map fst (filter (\<lambda>(_, kind, _). kind = ''tool_execution'') (all_aggregates d))"
  shows "s \<in> set L \<Longrightarrow> s \<in> range tool_stream_id" and "tool_at d e \<noteq> None \<Longrightarrow> tool_stream_id e \<in> set L"
proof -
  assume "s \<in> set L"
  then obtain r where r: "(s, r) \<in> set (db_aggregates d)" "ar_kind r = ''tool_execution''" by (auto simp: L_def all_aggregates_def)
  have "map_of (db_aggregates d) s = Some r" using r(1) w by (simp add: wired_def keyed_def)
  with k r(2) have a: "kind_of (ar_state r) = ''tool_execution''" "load_state d s = Some (ar_state r)" by (auto simp: kinded_def load_state_def)
  with typed_at[OF t a(2)] show "s \<in> range tool_stream_id" by (cases "ar_state r") auto
next
  assume "tool_at d e \<noteq> None"
  then obtain x where "load_state d (tool_stream_id e) = Some (AToolExecution x)" by (auto simp: tool_at_iff)
  from all_aggregates_kinds[OF k this] show "tool_stream_id e \<in> set L" by (force simp: L_def)
qed

text \<open>The recovery runs no effect, and when it returns nothing is left under way.\<close>

lemma triple_reconcile_stranded:
  fixes B :: "('x, 'w) broker"
  assumes inj: "inj (broker_sha B)"
  shows "triple (\<lambda>d fx. broker_inv B d fx \<and> fx = F) any (reconcile_stranded B) (\<lambda>_ d _. \<forall>e. \<not> stranded d e)"
  unfolding triple_def
proof (intro allI impI)
  fix m :: "('x, 'w) machine"
  assume m: "holds (\<lambda>d fx. broker_inv B d fx \<and> fx = F) m"
  let ?d = "mc_db m" and ?J = "\<lambda>d fx. broker_inv B d fx \<and> fx = F"
  let ?L = "map fst (filter (\<lambda>(_, kind, _). kind = ''tool_execution'') (all_aggregates ?d))"
  from m have t: "typed (load_state ?d)" "kinded ?d" "wired (bk_services B) ?d" by (simp_all add: holds_def broker_inv_def in_order_def)
  have run: "reconcile_stranded B m = recover_all B ?L m" by (simp add: reconcile_stranded_def seq_def look_def)
  have "triple ?J (\<lambda>d _. \<forall>z. z \<in> {z. \<not> stranded ?d z} \<longrightarrow> \<not> stranded d z) (recover_all B ?L)
      (\<lambda>_ d _. \<forall>z. z \<in> {z. \<not> stranded ?d z} \<or> tool_stream_id z \<in> set ?L \<longrightarrow> \<not> stranded d z)"
    by (rule triple_recover_all[OF inj]) (rule listed_tools(1)[OF t])
  moreover have "\<not> stranded ?d z \<or> tool_stream_id z \<in> set ?L" for z
    using listed_tools(2)[OF t, of z] by (auto simp: stranded_def)
  ultimately show "holds ?J (fst (reconcile_stranded B m))
     \<and> (\<forall>x. snd (reconcile_stranded B m) = Some (Inr x) \<longrightarrow> holds (\<lambda>d _. \<forall>e. \<not> stranded d e) (fst (reconcile_stranded B m)))"
    using m unfolding run triple_def holds_def by blast
qed

lemma keeps_from_recovering:
  fixes B :: "('x, 'w) broker" and p :: "('x, 'w, 'a) prog"
  assumes "\<And>T F. mending B e T F p"
  shows "keeps B p"
  unfolding triple_def
proof (intro allI impI)
  fix m :: "('x, 'w) machine" assume "holds (broker_inv B) m"
  then have "holds (recovering B e (tool_at (mc_db m)) (mc_effects m)) m" by (simp add: holds_def recovering_def)
  with assms[of "tool_at (mc_db m)" "mc_effects m"] have "holds (recovering B e (tool_at (mc_db m)) (mc_effects m)) (fst (p m))"
    by (simp add: triple_def holds_def)
  then show "holds (broker_inv B) (fst (p m)) \<and> (\<forall>x. snd (p m) = Some (Inr x) \<longrightarrow> holds any (fst (p m)))"
    unfolding holds_def recovering_def by blast
qed

lemma keeps_transition_terminal [kept]:
  assumes "inj (broker_sha B)"
  shows "keeps B (transition_terminal B e from_state result why receipt)"
  by (rule keeps_from_recovering[where e = e]) (rule triple_any[OF triple_transition_terminal[OF assms]], simp)

lemma keeps_reconcile_stranded:
  assumes "inj (broker_sha B)"
  shows "keeps B (reconcile_stranded B)"
  using triple_reconcile_stranded[OF assms] unfolding triple_def holds_def by blast

end
