(* ===== verification/Broker_Execution.thy ===== *)
theory Broker_Execution
  imports Broker_Recovery
begin

text \<open>
  \<open>execute\<close> keeps the invariant of the broker: the programs after the effect follow up; the programs before
  it gather, step by step, what makes the effect warranted.
\<close>

section \<open>Programs that follow up\<close>

lemma in_telling [simp]: "s \<in> telling \<longleftrightarrow>
    s \<in> {''prepared'', ''dispatching'', ''reserve-capability'', ''completed'', ''failed'', ''cancelled'', ''indeterminate''}"
  by (auto simp: telling_def TOOL_TERMINAL_def)

lemma keeps_settle_predispatch [kept]:
  assumes "inj (broker_sha B)" and "s \<notin> telling"
  shows "keeps B (settle_predispatch_terminal B x r result s)"
  using assms by (auto simp: settle_predispatch_terminal_def kept quiets split: option.split list.split)

lemma keeps_deny [kept]:
  assumes "inj (broker_sha B)" and "s \<notin> telling"
  shows "keeps B (deny B x r why s)"
  using assms by (simp add: deny_def kept quiets)

lemma keeps_preflight_refused [kept]:
  assumes "inj (broker_sha B)"
  shows "keeps B (preflight_refused B r x why)"
  by (simp add: preflight_refused_def Let_def kept quiets assms)

lemma keeps_observe_effect [kept]:
  assumes "inj (broker_sha B)"
  shows "keeps B (observe_effect B r a i)"
  by (auto simp: observe_effect_def Let_def kept quiets assms split: option.split)

lemma keeps_play [kept]:
  fixes B :: "('x, 'w) broker"
  assumes publish: "\<And>i. keeps B (publish i)"
  shows "keeps B (play publish k)"
proof (induction k)
  case (Finish x r)
  show ?case by (rule keeps_quiet) (simp add: quiet_def)
next
  case (Publish x i k)
  show ?case
    unfolding triple_def
  proof (intro allI impI)
    fix m :: "('x, 'w) machine"
    assume m: "holds (broker_inv B) m"
    obtain m' r where p: "publish i (m\<lparr>mc_world := x\<rparr>) = (m', r)" by force
    have "holds (broker_inv B) m'"
      using publish[of i, unfolded triple_def, rule_format, of "m\<lparr>mc_world := x\<rparr>"] m p by (simp add: holds_def)
    then show "holds (broker_inv B) (fst (play publish (Publish x i k) m))
        \<and> (\<forall>y. snd (play publish (Publish x i k) m) = Some (Inr y) \<longrightarrow> holds any (fst (play publish (Publish x i k) m)))"
      using Publish.IH[OF rangeI[of k "the r"], unfolded triple_def, rule_format, of m'] by (cases r) (auto simp: p holds_def)
  qed
qed

lemma keeps_play_on [kept]:
  assumes "\<And>i. keeps B (publish i)"
  shows "keeps B (play_on publish f)"
  using keeps_play[OF assms] by (simp add: triple_def play_on_def)

lemma keeps_settle_capability [kept]:
  assumes "inj (broker_sha B)"
  shows "keeps B (settle_capability B r reservation result sandbox exec)"
  by (auto simp: settle_capability_def finalize_capability_def Let_def kept quiets assms split: option.split)

lemma keeps_settle [kept]:
  assumes "inj (broker_sha B)"
  shows "keeps B (settle B r a reservation effect)"
  by (auto simp: settle_def Let_def kept quiets assms split: option.split prod.split)

section \<open>Admission\<close>

text \<open>What holds when an execution goes on: it carries its request's fingerprint, and a use it holds was reserved.\<close>

abbreviation own_print :: "('x, 'w) broker \<Rightarrow> tool_request \<Rightarrow> bool" where
  "own_print B r \<equiv> tr_operationFingerprint r = tool_request_fingerprint (broker_sha B) r"

definition carried :: "('x, 'w) broker \<Rightarrow> tool_request \<Rightarrow> dict \<Rightarrow> assertion" where
  "carried B r execution d fx \<longleftrightarrow> (let e = execution_id B (tr_idempotencyKey r) in
     own_print B r \<and> named d e (tool_request_fingerprint (broker_sha B) r) \<and> (dget execution ''reservationId'' \<noteq> JNull \<longrightarrow> charged B d e))"

definition going_on :: "('b \<Rightarrow> assertion) \<Rightarrow> ('a, 'b) phase \<Rightarrow> assertion" where
  "going_on Q x = (case x of Answered_early _ \<Rightarrow> any | Going_on y \<Rightarrow> Q y)"

lemma going_on_simps [simp]: "going_on Q (Answered_early y) = any" "going_on Q (Going_on z) = Q z"
  by (simp_all add: going_on_def)

lemma triple_then_on:
  assumes p: "triple J P p (going_on Q)" and f: "\<And>y. triple J (Q y) (f y) (\<lambda>_. any)"
  shows "triple J P (then_on p f) (\<lambda>_. any)"
  unfolding then_on_def
proof (rule triple_seq[OF p])
  fix x show "triple J (going_on Q x) (case x of Answered_early y \<Rightarrow> give (Inr y) | Going_on y \<Rightarrow> f y) (\<lambda>_. any)"
    by (cases x) (simp_all add: f triple_give)
qed

lemma triple_resume:
  "own_print B r \<Longrightarrow> triple (broker_inv B) (\<lambda>d _. tool_at d (execution_id B (tr_idempotencyKey r)) = Some t)
     (resume B r op se t) (going_on (\<lambda>(g, x). carried B r x))"
  unfolding resume_def
proof (intro triple_guard triple_check triple_if triple_skip quiets)
  fix fp opr ses st dd ai g
  assume own: "own_print B r" and fp: "dreq t ''operationFingerprint'' = Inr fp" "\<not> fp \<noteq> JStr (tool_request_fingerprint (broker_sha B) r)"
    and st: "dreq t ''state'' = Inr st" "\<not> st \<notin> JStr ` {''prepared'', ''admitted''}"
  have b: "before_dispatch t" using st by (auto simp: before_dispatch_def label_at)
  show "triple (broker_inv B) (\<lambda>d _. tool_at d (execution_id B (tr_idempotencyKey r)) = Some t) (give (Inr (Going_on (g, t)))) (going_on (\<lambda>(g, x). carried B r x))"
    by (rule triple_give) (use own fp b in \<open>auto simp: carried_def Let_def named_def broker_inv_def truthful_def\<close>)
next
  fix y
  show "triple (broker_inv B) (\<lambda>d _. tool_at d (execution_id B (tr_idempotencyKey r)) = Some t) (give (Inr (Answered_early y))) (going_on (\<lambda>(g, x). carried B r x))"
    by (rule triple_give) auto
qed

lemma triple_build_execution:
  assumes own: "own_print B r"
  shows "triple J P (build_execution B r op se)
    (\<lambda>x d fx. P d fx \<and> fresh_execution (execution_id B (tr_idempotencyKey r)) (tool_request_fingerprint (broker_sha B) r) x)"
  unfolding build_execution_def Let_def
proof (intro triple_skip quiets)
  fix g n c w u
  show "triple J P (give (bnd (require (broker_validator B) ''ToolExecution'' (JObj (execution_fields B r op se g c n w u)))
      (\<lambda>_. Inr (execution_fields B r op se g c n w u))))
    (\<lambda>x d fx. P d fx \<and> fresh_execution (execution_id B (tr_idempotencyKey r)) (tool_request_fingerprint (broker_sha B) r) x)"
    by (rule triple_give) (auto simp: fresh_execution_def execution_fields_def own dget_def)
qed

lemma triple_admit_execution:
  assumes inj: "inj (broker_sha B)"
  shows "triple (broker_inv B) any (admit_execution B r op se) (going_on (\<lambda>(g, x). carried B r x))"
  unfolding admit_execution_def Let_def
proof (rule triple_guard)
  let ?e = "execution_id B (tr_idempotencyKey r)" and ?fp = "tool_request_fingerprint (broker_sha B) r"
  fix u assume "entry_checks B r = Inr u"
  then have own: "own_print B r" by (auto simp: entry_checks_def plans)
  let ?found = "\<lambda>x d (fx :: effect list). tool_at d ?e = x"
  show "triple (broker_inv B) any
     (seq (look (\<lambda>d. case load_state d (tool_stream_id ?e) of None \<Rightarrow> Inr None
          | Some a \<Rightarrow> (case the_tool a of None \<Rightarrow> Inl WRONG_KIND | Some x \<Rightarrow> Inr (Some x))))
       (\<lambda>found. case found of
          None \<Rightarrow> seq (validate_request B r) (\<lambda>g. seq (build_execution B r op se) (\<lambda>x. seq (stage B ?e ''prepared'' (PrepareTool x)) (\<lambda>_. give (Inr (Going_on (g, x))))))
        | Some t \<Rightarrow> resume B r op se t)) (going_on (\<lambda>(g, x). carried B r x))"
  proof (rule triple_seq[where Q = ?found])
    show "triple (broker_inv B) any (look (\<lambda>d. case load_state d (tool_stream_id ?e) of None \<Rightarrow> Inr None
          | Some a \<Rightarrow> (case the_tool a of None \<Rightarrow> Inl WRONG_KIND | Some x \<Rightarrow> Inr (Some x)))) ?found"
      by (rule triple_look) (auto simp: tool_at_def split: option.splits)
  next
    fix found
    show "triple (broker_inv B) (?found found) (case found of
          None \<Rightarrow> seq (validate_request B r) (\<lambda>g. seq (build_execution B r op se) (\<lambda>x. seq (stage B ?e ''prepared'' (PrepareTool x)) (\<lambda>_. give (Inr (Going_on (g, x))))))
        | Some t \<Rightarrow> resume B r op se t) (going_on (\<lambda>(g, x). carried B r x))"
    proof (cases found)
      case None
      have prepared: "triple (broker_inv B) (\<lambda>d _. tool_at d ?e = None \<and> fresh_execution ?e ?fp x) (stage B ?e ''prepared'' (PrepareTool x))
          (\<lambda>_ d _. named d ?e ?fp \<and> fresh_execution ?e ?fp x)" for x
        using triple_prepared[OF inj, of ?e ?fp x] by (auto simp: triple_def holds_def)
      show ?thesis unfolding None option.case
      proof (intro triple_skip[OF quiet_validate_request] triple_seq[OF triple_build_execution[OF own]])
        fix g x
        show "triple (broker_inv B) (\<lambda>d _. tool_at d ?e = None \<and> fresh_execution ?e ?fp x)
            (seq (stage B ?e ''prepared'' (PrepareTool x)) (\<lambda>_. give (Inr (Going_on (g, x))))) (going_on (\<lambda>(g, x). carried B r x))"
          by (rule triple_seq[OF prepared], rule triple_give) (auto simp: carried_def own fresh_execution_def Let_def)
      qed
    qed (use triple_resume[OF own] in simp)
  qed
qed

section \<open>Authority\<close>

text \<open>From the checks on: the request is licensed, under the flag whether the execution holds a use.\<close>

definition cleared :: "('x, 'w) broker \<Rightarrow> tool_request \<Rightarrow> dict \<Rightarrow> assertion" where
  "cleared B r execution d fx \<longleftrightarrow> own_print B r \<and> ready B r (execution_id B (tr_idempotencyKey r)) (dget execution ''reservationId'' \<noteq> JNull) d"

lemma cleared_if:
  assumes "carried B r x d fx" and "commitment_denied d r (tool_request_fingerprint (broker_sha B) r) = Inr False"
    and "lease_denial r (bk_now B k) d = Inr None"
  shows "cleared B r x d fx"
proof -
  from assms(3) have l: "lease_checked r (bk_now B k) d = Inr ()" by (auto simp: lease_denial_def split: sum.splits py_error.splits)
  then obtain g i where g: "tr_grantId r = Some g" "tr_leaseId r = Some i" by (auto simp: lease_checked_def split: option.splits)
  with l obtain c where c: "load_state d (capability_stream_id g) = Some (ACapability c)"
      "cap_check_lease c i (tr_operation r) (scope_for r) (bk_now B k) = Inr ()"
    by (auto simp: lease_checked_def service_check_lease_def fetch_Inr)
  with assms(2) g have "licensed B r d" by (auto simp: licensed_def commitment_denied_def capability_at_def)
  with assms(1) show ?thesis by (auto simp: cleared_def carried_def ready_def Let_def charged_def named_def)
qed

lemma triple_ask: "triple J P (ask_now B) (\<lambda>x d fx. P d fx \<and> (\<exists>k. x = bk_now B k))"
  by (auto simp: triple_def holds_def ask_now_def)

lemma going_early:
  fixes p :: "('x, 'w, ('a, 'b) phase) prog"
  assumes p: "keeps B p" and early: "\<And>m y. snd (p m) \<noteq> Some (Inr (Going_on y))"
  shows "triple (broker_inv B) P p (going_on Q)"
  unfolding triple_def
proof (intro allI impI)
  fix m :: "('x, 'w) machine" assume m: "holds (broker_inv B) m"
  have "holds (going_on Q x) (fst (p m))" if "snd (p m) = Some (Inr x)" for x
    using that early[of m] by (cases x) (auto simp: holds_def)
  with p m show "holds (broker_inv B) (fst (p m)) \<and> (\<forall>x. snd (p m) = Some (Inr x) \<longrightarrow> holds (going_on Q x) (fst (p m)))"
    by (simp add: triple_def holds_def)
qed

lemma seq_ends: "snd (seq p f m) = Some (Inr x) \<Longrightarrow> \<exists>y m'. snd (f y m') = Some (Inr x)"
  by (auto simp: seq_def split: prod.splits option.splits sum.splits)

lemma deny_early: "snd (deny B x r why s m) \<noteq> Some (Inr (Going_on y))"
proof
  assume "snd (deny B x r why s m) = Some (Inr (Going_on y))"
  from this[unfolded deny_def] show False
    by (auto dest!: seq_ends simp: give_def)
qed

lemma triple_deny:
  assumes "inj (broker_sha B)" and "s \<notin> telling"
  shows "triple (broker_inv B) P (deny B x r why s) (going_on Q)"
  by (rule going_early[OF keeps_deny[OF assms] deny_early])

lemma triple_authority_checks:
  assumes inj: "inj (broker_sha B)"
  shows "triple (broker_inv B) (carried B r x) (authority_checks B r x) (going_on (\<lambda>_. cleared B r x))"
  unfolding authority_checks_def
proof (intro triple_skip[OF quiet_intent_expired] triple_if)
  let ?fp = "tool_request_fingerprint (broker_sha B) r"
  let ?free = "\<lambda>c d fx. carried B r x d fx \<and> commitment_denied d r ?fp = Inr c"
  show "triple (broker_inv B) (carried B r x)
     (seq (look (\<lambda>d. commitment_denied d r ?fp)) (\<lambda>committed.
       if committed then deny B x r ''TOOL_REQUEST_COMMITMENT_MISMATCH'' ''commitment-predispatch-settle'' else
       seq (ask_now B) (\<lambda>now. seq (look (lease_denial r now)) (\<lambda>denial.
       case denial of Some reason \<Rightarrow> deny B x r reason ''deny-predispatch-settle'' | None \<Rightarrow> give (Inr (Going_on ()))))))
     (going_on (\<lambda>_. cleared B r x))"
  proof (rule triple_seq[where Q = ?free])
    show "triple (broker_inv B) (carried B r x) (look (\<lambda>d. commitment_denied d r ?fp)) ?free" by (rule triple_look) simp
  next
    fix c
    show "triple (broker_inv B) (?free c)
     (if c then deny B x r ''TOOL_REQUEST_COMMITMENT_MISMATCH'' ''commitment-predispatch-settle'' else
       seq (ask_now B) (\<lambda>now. seq (look (lease_denial r now)) (\<lambda>denial.
       case denial of Some reason \<Rightarrow> deny B x r reason ''deny-predispatch-settle'' | None \<Rightarrow> give (Inr (Going_on ())))))
     (going_on (\<lambda>_. cleared B r x))"
    proof (intro triple_if triple_seq[OF triple_ask])
      fix now assume c: "\<not> c"
      show "triple (broker_inv B) (\<lambda>d fx. ?free c d fx \<and> (\<exists>k. now = bk_now B k))
        (seq (look (lease_denial r now)) (\<lambda>denial.
           case denial of Some reason \<Rightarrow> deny B x r reason ''deny-predispatch-settle'' | None \<Rightarrow> give (Inr (Going_on ()))))
        (going_on (\<lambda>_. cleared B r x))"
      proof (rule triple_seq[where Q = "\<lambda>z d fx. z = None \<longrightarrow> cleared B r x d fx"])
        show "triple (broker_inv B) (\<lambda>d fx. ?free c d fx \<and> (\<exists>k. now = bk_now B k)) (look (lease_denial r now)) (\<lambda>z d fx. z = None \<longrightarrow> cleared B r x d fx)"
          by (rule triple_look) (use c in \<open>auto intro: cleared_if\<close>)
      next
        fix z
        show "triple (broker_inv B) (\<lambda>d fx. z = None \<longrightarrow> cleared B r x d fx)
           (case z of Some reason \<Rightarrow> deny B x r reason ''deny-predispatch-settle'' | None \<Rightarrow> give (Inr (Going_on ()))) (going_on (\<lambda>_. cleared B r x))"
          by (cases z) (auto intro: triple_give triple_deny[OF inj])
      qed
    qed (rule triple_deny[OF inj], simp)
  qed
qed (rule triple_deny[OF inj], simp)

lemma triple_preflight:
  assumes inj: "inj (broker_sha B)"
  shows "triple (broker_inv B) P (preflight B r x a) (going_on (\<lambda>_. P))"
proof -
  have refused: "triple (broker_inv B) P (preflight_refused B r x why) (going_on (\<lambda>_. P))" for why
    by (rule going_early[OF keeps_preflight_refused[OF inj]])
      (auto simp: preflight_refused_def Let_def give_def dest!: seq_ends)
  have on: "triple (broker_inv B) P (give (Inr (Going_on ()))) (going_on (\<lambda>_. P))" by (rule triple_give) auto
  show ?thesis
    unfolding preflight_def
    by (cases "ad_preflight a") (auto intro!: triple_skip quiets triple_if on refused simp: on refused split: option.split)
qed

section \<open>The dispatch\<close>

abbreviation own_execution :: "('x, 'w) broker \<Rightarrow> tool_request \<Rightarrow> string" where
  "own_execution B r \<equiv> execution_id B (tr_idempotencyKey r)"

lemma ready_weaken: "ready B r e paid d \<Longrightarrow> (paid' \<Longrightarrow> paid) \<Longrightarrow> ready B r e paid' d"
  by (auto simp: ready_def Let_def)

lemma triple_reserving:
  assumes inj: "inj (broker_sha B)"
  shows "triple (broker_inv B) (cleared B r x) (reserve B r x)
    (\<lambda>reservation d _. ready B r (own_execution B r) (tr_consequential r \<or> reservation \<noteq> None) d)"
proof (cases "tr_consequential r \<and> dget x ''reservationId'' = JNull")
  case True
  let ?e = "own_execution B r"
  let ?P = "\<lambda>v d fx. cleared B r x d fx \<and> rq_reservationId v = reservation_id B ?e \<and> rq_operationFingerprint v = tr_operationFingerprint r"
  have made: "triple (broker_inv B) (cleared B r x) (reservation_of B r l ?e) ?P" for l
    unfolding reservation_of_def by (rule triple_skip[OF quiet_ask], rule triple_give) auto
  have staged: "triple (broker_inv B) (?P v) (stage B ?e ''reserve-capability'' (ReserveUse g v)) (\<lambda>_ d _. ready B r ?e True d)" for g v
  proof (cases "rq_reservationId v = reservation_id B ?e \<and> rq_operationFingerprint v = tool_request_fingerprint (broker_sha B) r")
    case True
    then show ?thesis
      using triple_reserve[OF inj, of v ?e r g] by (auto intro: triple_pre ready_weaken simp: cleared_def)
  qed (auto simp: triple_def holds_def cleared_def)
  show ?thesis
    using True by (auto simp: reserve_def Let_def intro!: triple_guard triple_seq[OF made] triple_seq[OF staged] triple_give ready_weaken)
next
  case False
  then show ?thesis
    by (auto simp: reserve_def Let_def cleared_def text_value_def intro!: triple_give elim!: ready_weaken split: json.splits)
qed

lemma triple_sandbox_admission:
  assumes inj: "inj (broker_sha B)"
  shows "triple (broker_inv B) (\<lambda>d _. ready B r e paid d) (sandbox_admission B r op se h) (\<lambda>_ d _. ready B r e paid d)"
proof -
  have give: "triple (broker_inv B) (\<lambda>d _. ready B r e paid d) (give z) (\<lambda>_ d _. ready B r e paid d)" for z by (rule triple_give)
  have staged: "triple (broker_inv B) (\<lambda>d _. ready B r e paid d) (stage B e' s (ReserveSandbox y)) (\<lambda>_ d _. ready B r e paid d)"
    "triple (broker_inv B) (\<lambda>d _. ready B r e paid d) (stage B e' s (MoveSandbox i m y)) (\<lambda>_ d _. ready B r e paid d)"
    if "s \<notin> telling" for e' s y i m
    using that by (auto intro!: triple_follow_up[OF inj])
  show ?thesis
    unfolding sandbox_admission_def Let_def
    by (intro triple_skip quiets triple_seq[where Q = "\<lambda>_ d _. ready B r e paid d"])
      (auto intro!: triple_skip quiets give staged split: option.split prod.split bool.split)
qed

lemma triple_dispatched:
  assumes inj: "inj (broker_sha B)" and paid: "res \<noteq> None \<Longrightarrow> paid"
  shows "triple (broker_inv B) (\<lambda>d _. ready B r e paid d) (dispatching B e x res)
    (\<lambda>_ d fx. ready B r e paid d \<and> crossed d e \<and> e \<notin> ef_execution ` set fx)"
  unfolding dispatching_def
  by (intro triple_guard triple_seq[OF _ triple_dispatching[OF inj]] triple_if triple_admitted[OF inj paid])
    (auto intro: triple_give)

text \<open>The effect is warranted, and the first of its execution.\<close>

definition due :: "('x, 'w) broker \<Rightarrow> tool_request \<Rightarrow> assertion" where
  "due B r d fx \<longleftrightarrow> (let e = own_execution B r in ready B r e (tr_consequential r) d \<and> crossed d e \<and> e \<notin> ef_execution ` set fx)"

lemma triple_log_effect: "triple (broker_inv B) (due B r) (log_effect (own_execution B r) r) (\<lambda>_. any)"
  by (auto simp: triple_def holds_def log_effect_def due_def Let_def broker_inv_def warranted_def ready_def)

lemma triple_run_adapter:
  assumes inj: "inj (broker_sha B)"
  shows "triple (broker_inv B) (due B r) (run_adapter B r a intent) (\<lambda>_. any)"
  unfolding run_adapter_def Let_def
  by (auto intro!: triple_seq[OF triple_log_effect] kept quiets inj triple_give split: json.split option.split)

lemma triple_run_effect:
  assumes inj: "inj (broker_sha B)"
  shows "triple (broker_inv B) (due B r) (run_effect B r a intent) (\<lambda>_. any)"
  unfolding run_effect_def
  by (intro triple_seq[OF triple_catch[OF triple_seq[OF triple_run_adapter[OF inj]]]])
    (auto intro!: kept quiets inj split: sum.split prod.split)

lemma triple_dispatch_effect:
  assumes inj: "inj (broker_sha B)"
  shows "triple (broker_inv B) (cleared B r x) (dispatch_effect B r op se x a) (\<lambda>_. any)"
  unfolding dispatch_effect_def Let_def
proof (rule triple_seq[OF triple_reserving[OF inj]])
  fix res :: "string option"
  let ?e = "own_execution B r" and ?R = "\<lambda>d (fx :: effect list). ready B r (own_execution B r) (tr_consequential r \<or> res \<noteq> None) d"
  have sandbox: "triple (broker_inv B) ?R (case ad_sandbox a of
            Some h \<Rightarrow> if tr_consequential r then sandbox_admission B r op se h else give (Inr ())
          | None \<Rightarrow> give (Inr ())) (\<lambda>_. ?R)"
    by (auto intro: triple_sandbox_admission[OF inj] triple_give split: option.split)
  have effect: "triple (broker_inv B) (due B r) (seq (set_observed None) (\<lambda>_. seq (run_effect B r a (dget x ''effectIntent'')) (\<lambda>y. settle B r a res y))) (\<lambda>_. any)"
    by (intro triple_skip quiets triple_seq[OF triple_run_effect[OF inj]] kept inj)
  have "triple (broker_inv B) ?R (dispatching B ?e x res) (\<lambda>_. due B r)"
    by (rule triple_post[OF triple_dispatched[OF inj]]) (auto simp: due_def Let_def elim!: ready_weaken)
  from triple_seq[OF sandbox triple_seq[OF this effect]]
  show "triple (broker_inv B) ?R
     (seq (case ad_sandbox a of
            Some h \<Rightarrow> if tr_consequential r then sandbox_admission B r op se h else give (Inr ())
          | None \<Rightarrow> give (Inr ())) (\<lambda>_.
     seq (dispatching B ?e x res) (\<lambda>_. seq (set_observed None) (\<lambda>_.
     seq (run_effect B r a (dget x ''effectIntent'')) (\<lambda>y. settle B r a res y))))) (\<lambda>_. any)" .
qed

lemma keeps_execute:
  assumes inj: "inj (broker_sha B)"
  shows "keeps B (execute B r op se)"
  unfolding execute_def
proof (rule triple_then_on[OF triple_admit_execution[OF inj]], clarify)
  fix g x
  show "triple (broker_inv B) (carried B r x)
     (then_on (authority_checks B r x) (\<lambda>_. seq (hooks_validated B r op se (rg_adapter g)) (\<lambda>_.
        then_on (preflight B r x (rg_adapter g)) (\<lambda>_. dispatch_effect B r op se x (rg_adapter g))))) (\<lambda>_. any)"
    by (intro triple_then_on[OF triple_authority_checks[OF inj]] triple_skip quiets triple_then_on[OF triple_preflight[OF inj]]
        triple_dispatch_effect[OF inj])
qed

end
