(* ===== verification/Broker_Bounds.thy ===== *)
theory Broker_Bounds
  imports Broker_Recovery
begin

text \<open>
  The recovery ends: a program with a bound on its commands returns or raises before the process has
  lived through more of them.
\<close>

section \<open>Bounds on the commands of a program\<close>

text \<open>With \<open>n\<close> commands to live the program comes to an end, and uses no more than them.\<close>

definition takes :: "nat \<Rightarrow> ('x, 'w, 'a) prog \<Rightarrow> bool" where
  "takes n p \<longleftrightarrow> (\<forall>m. n \<le> mc_power m \<longrightarrow> snd (p m) \<noteq> None \<and> mc_power m \<le> mc_power (fst (p m)) + n)"

named_theorems bounds "how many commands a program takes"

lemma takesD:
  assumes "takes n p" and "n \<le> mc_power m" and "p m = (m', r)"
  shows "r \<noteq> None" and "mc_power m \<le> mc_power m' + n"
  using assms by (force simp: takes_def)+

lemma takesI:
  assumes "\<And>m m' r. n \<le> mc_power m \<Longrightarrow> p m = (m', r) \<Longrightarrow> r \<noteq> None \<and> mc_power m \<le> mc_power m' + n"
  shows "takes n p"
  unfolding takes_def using assms[OF _ surjective_pairing] by blast

lemma takes_more:
  assumes p: "takes n (p :: ('x, 'w, 'a) prog)" and k: "n \<le> k"
  shows "takes k p"
proof (rule takesI)
  fix m m' :: "('x, 'w) machine" and r
  assume m: "k \<le> mc_power m" "p m = (m', r)"
  then show "r \<noteq> None \<and> mc_power m \<le> mc_power m' + k"
    using takesD[OF p order_trans[OF k m(1)] m(2)] k by simp
qed

lemma takes_seq:
  assumes p: "takes n (p :: ('x, 'w, 'a) prog)" and f: "\<And>x. takes k (f x)"
  shows "takes (n + k) (seq p f)"
proof (rule takesI)
  fix m m' :: "('x, 'w) machine" and r
  assume m: "n + k \<le> mc_power m" "seq p f m = (m', r)"
  obtain u a where e: "p m = (u, a)" by force
  have u: "a \<noteq> None" "mc_power m \<le> mc_power u + n" using takesD[OF p _ e] m(1) by simp_all
  then consider x where "a = Some (Inl x)" | x where "a = Some (Inr x)" by (metis obj_sumE option.exhaust)
  then show "r \<noteq> None \<and> mc_power m \<le> mc_power m' + (n + k)"
  proof cases
    case 1
    then show ?thesis using m u e by (auto simp: seq_def)
  next
    case 2
    then have "f x u = (m', r)" using m e by (simp add: seq_def)
    then show ?thesis using takesD[OF f[of x], of u m' r] m(1) u by simp
  qed
qed

lemma takes_catch:
  assumes p: "takes n (p :: ('x, 'w, 'a) prog)" and h: "\<And>x. takes k (h x)"
  shows "takes (n + k) (catch p h)"
proof (rule takesI)
  fix m m' :: "('x, 'w) machine" and r
  assume m: "n + k \<le> mc_power m" "catch p h m = (m', r)"
  obtain u a where e: "p m = (u, a)" by force
  have u: "a \<noteq> None" "mc_power m \<le> mc_power u + n" using takesD[OF p _ e] m(1) by simp_all
  then consider x where "a = Some (Inl x)" | x where "a = Some (Inr x)" by (metis obj_sumE option.exhaust)
  then show "r \<noteq> None \<and> mc_power m \<le> mc_power m' + (n + k)"
  proof cases
    case 1
    then have "h x u = (m', r)" using m e by (simp add: catch_def)
    then show ?thesis using takesD[OF h[of x], of u m' r] m(1) u by simp
  next
    case 2
    then show ?thesis using m u e by (auto simp: catch_def)
  qed
qed

lemma takes_atoms [bounds]: "takes 0 (give r)" "takes 0 (look g)" "takes 0 (ask_now B)" "takes 0 (adapt h)"
  by (simp_all add: takes_def give_def look_def ask_now_def adapt_def split: prod.split)

lemma takes_give [bounds]: "takes n (give r)"
  by (rule takes_more[OF takes_atoms(1)]) simp

lemma takes_check [bounds]: "takes n p \<Longrightarrow> takes n (check c e p)"
  by (auto simp: takes_def check_def give_def)

lemma takes_stage: "takes 1 (stage B e s cmd)"
  by (auto simp: takes_def stage_def stage_metadata_def seq_def ask_now_def give_def invoke_def split: sum.split prod.split)

lemma takes_both:
  assumes "takes n p" and "\<And>x. takes k (f x)" and "n + k \<le> j"
  shows "takes j (seq p f)"
  by (rule takes_more[OF takes_seq[OF assms(1,2)] assms(3)])

lemma takes_then: "takes 0 p \<Longrightarrow> (\<And>x. takes k (f x)) \<Longrightarrow> takes k (seq p f)"
  using takes_seq[of 0 p k f] by simp

lemma takes_next: "(\<And>x. takes k (f x)) \<Longrightarrow> takes (Suc k) (seq (stage B e s cmd) f)"
  using takes_seq[OF takes_stage] by simp

lemma takes_result [bounds]: "takes 0 (tool_state e)" "takes 0 (tool_result B q i s out x eff err)"
    "takes 0 (indeterminate_result B q i why eff)" "takes 0 (recovery_failure_result B e q why)" "takes 0 (consumption_of B e i l outcome eff)"
    "takes 0 (reconciled_success_result B t y)" "takes 0 (verified_receipt B a n y)"
  by (auto simp: tool_state_def tool_result_def indeterminate_result_def recovery_failure_result_def consumption_of_def
      reconciled_success_result_def verified_receipt_def Let_def intro!: bounds takes_then split: prod.split option.split)

section \<open>The recovery\<close>

lemma takes_transition_terminal: "takes 2 (transition_terminal B e from_state result why receipt)"
proof -
  have one: "takes 1 (seq (stage B e s cmd) (\<lambda>_. tool_state e))" for s cmd
    using takes_next[OF takes_result(1)] by simp
  have settled: "takes 2 (seq (stage B e s cmd) (\<lambda>_. seq (stage B e s' cmd') (\<lambda>_. tool_state e)))" for s cmd s' cmd'
    using takes_next[OF one] by (simp add: numeral_2_eq_2)
  have unsettled: "takes 2 (seq (give (Inr ())) (\<lambda>_. seq (stage B e s' cmd') (\<lambda>_. tool_state e)))" for s' cmd'
    by (rule takes_more[OF takes_then[OF takes_atoms(1) one]]) simp
  show ?thesis
    unfolding transition_terminal_def Let_def
    by (rule takes_then[OF takes_atoms(1)]) (auto intro: settled unsettled takes_more[OF one])
qed

lemma takes_settle_use: "takes 1 (settle_use B state e s outcome effect)"
  unfolding settle_use_def
  by (auto intro!: takes_then bounds takes_stage intro: takes_more split: option.split)

lemma takes_leave_indeterminate: "takes 3 (leave_indeterminate B state e from_state s why)"
proof -
  have use: "takes 1 (seq (consumption_of B e i l out eff) (\<lambda>x. catch (stage B e s (FinalizeUse g x)) (\<lambda>_. give (Inr ()))))" for i l out eff g
    using takes_catch[OF takes_stage takes_atoms(1)] by (intro takes_then[OF takes_result(5)]) simp
  have "takes 1 (case reserved_use state of
            None \<Rightarrow> give (Inr ())
          | Some (i, g, l) \<Rightarrow> seq (consumption_of B e i l ''indeterminate'' (dget state ''sideEffectIdentity'')) (\<lambda>x.
              catch (stage B e s (FinalizeUse g x)) (\<lambda>_. give (Inr ()))))"
    using use by (simp add: takes_give split: option.split)
  then have "takes 3 (seq (case reserved_use state of
            None \<Rightarrow> give (Inr ())
          | Some (i, g, l) \<Rightarrow> seq (consumption_of B e i l ''indeterminate'' (dget state ''sideEffectIdentity'')) (\<lambda>x.
              catch (stage B e s (FinalizeUse g x)) (\<lambda>_. give (Inr ())))) (\<lambda>_.
      transition_terminal B e from_state result (Some why) JNull))" for result
    by (rule takes_both[OF _ takes_transition_terminal]) simp
  then show ?thesis
    unfolding leave_indeterminate_def by (rule takes_then[OF takes_atoms(1) takes_then[OF takes_result(3)]])
qed

lemma takes_prove_effect: "takes 3 (prove_effect B state e from_state a n y)"
proof -
  have "takes 3 (seq (settle_use B state e ''reconcile-capability'' ''succeeded'' eff) (\<lambda>_. transition_terminal B e from_state result None receipt))"
    for eff result receipt
    by (rule takes_both[OF takes_settle_use takes_transition_terminal]) simp
  then show ?thesis
    unfolding prove_effect_def by (rule takes_then[OF takes_result(7) takes_then[OF takes_result(6)]])
qed

lemma takes_reconcile_with_target: "takes 3 (reconcile_with_target B state e from_state a)"
proof -
  have proved: "takes 3 (seq (prove_effect B state e from_state a n y) (\<lambda>t. give (Inr (Inr (Some t)))))" for n y
    using takes_seq[OF takes_prove_effect takes_atoms(1)] by simp
  have idle: "takes 3 (give r)" for r by (rule takes_more[OF takes_atoms(1)]) simp
  have body: "takes 3 (seq (adapt h) (\<lambda>seen. case seen of
           None \<Rightarrow> give (Inr (Inr None))
         | Some y \<Rightarrow> seq (prove_effect B state e from_state a n y) (\<lambda>t. give (Inr (Inr (Some t))))))" for h n
    by (rule takes_then[OF takes_atoms(4)]) (simp add: proved takes_give split: option.split)
  have asked: "takes 3 (catch (seq (adapt h) (\<lambda>seen. case seen of
           None \<Rightarrow> give (Inr (Inr None))
         | Some y \<Rightarrow> seq (prove_effect B state e from_state a n y) (\<lambda>t. give (Inr (Inr (Some t))))))
         (\<lambda>x. give (Inr (Inl (error_line x)))))" for h n
    using takes_catch[OF body takes_atoms(1)] by simp
  show ?thesis
    unfolding reconcile_with_target_def by (auto intro!: idle asked split: json.split option.split)
qed

lemma takes_reversible: "takes 0 (reversible a i)"
proof -
  have "takes 0 (catch (seq (adapt h) (\<lambda>b. give (Inr (Inr b)))) (\<lambda>x. give (Inr (Inl (error_line x)))))" for h
    using takes_catch[OF takes_then[OF takes_atoms(4) takes_atoms(1)] takes_atoms(1)] by simp
  then show ?thesis unfolding reversible_def by (auto intro!: bounds split: json.split option.split)
qed

lemma takes_recover_dispatched: "takes 6 (recover_dispatched B state from_state)"
proof -
  have left: "takes 3 (seq p (\<lambda>staged. leave_indeterminate B state e from_state s (f staged)))" if "takes 0 p" for p e s f
    using that by (rule takes_then) (rule takes_leave_indeterminate)
  have rest: "takes 3 (case x of Inr (Some t) \<Rightarrow> give (Inr t)
         | _ \<Rightarrow> seq (case x of Inl err \<Rightarrow> give (Inr (Inl err)) | Inr _ \<Rightarrow> reversible (rg_adapter g) (dget state ''effectIntent'')) (\<lambda>staged.
             leave_indeterminate B state e from_state ''reconcile-capability'' (recovery_reason e from_state (dget state ''effectIntent'') staged)))" for x g e
    by (cases x; cases "projr x") (auto intro!: left takes_reversible bounds intro: takes_more[OF takes_atoms(1)])
  have target: "takes (3 + 3) (seq (reconcile_with_target B state e from_state a) (\<lambda>x. case x of Inr (Some t) \<Rightarrow> give (Inr t)
         | _ \<Rightarrow> seq (case x of Inl err \<Rightarrow> give (Inr (Inl err)) | Inr _ \<Rightarrow> reversible (rg_adapter g) (dget state ''effectIntent'')) (\<lambda>staged.
             leave_indeterminate B state e from_state ''reconcile-capability'' (recovery_reason e from_state (dget state ''effectIntent'') staged))))" for g a e
    by (rule takes_seq[OF takes_reconcile_with_target rest])
  have missing: "takes 6 (leave_indeterminate B state e from_state s why)" for e s why by (rule takes_more[OF takes_leave_indeterminate]) simp
  show ?thesis
    unfolding recover_dispatched_def
    by (rule takes_then[OF takes_atoms(1)]) (auto intro!: missing target[simplified] split: sum.split)
qed

lemma takes_recover_prepared: "takes 1 (recover_prepared B state)"
proof -
  have "takes 1 (seq (stage B e s cmd) (\<lambda>_. seq (tool_state e) (\<lambda>t. give (Inr (Some t)))))" for e s cmd
    using takes_next[OF takes_then[OF takes_result(1) takes_atoms(1)]] by simp
  then have mended: "takes 1 (seq (give z) (\<lambda>(e, l, g, q). seq (consumption_of B e i l ''failed'' JNull) (\<lambda>x.
         seq (recovery_failure_result B e q (''runtime recovered ToolExecution '' @ e
            @ '' with an open pre-dispatch capability reservation; no external dispatch occurred'')) (\<lambda>result.
         seq (stage B e ''recover-predispatch-settle'' (SettlePredispatch g x e result)) (\<lambda>_.
         seq (tool_state e) (\<lambda>t. give (Inr (Some t))))))))" for z i
    by (intro takes_then[OF takes_atoms(1)]) (auto intro: takes_then[OF takes_result(5) takes_then[OF takes_result(4)]])
  show ?thesis
    unfolding recover_prepared_def
    by (rule takes_then[OF takes_atoms(2)], split option.split) (intro conjI allI impI, rule takes_give, rule mended)
qed

lemma takes_recover_one: "takes 6 (recover_one B s)"
proof -
  have under_way: "takes 6 (seq (recover_dispatched B state l) (\<lambda>t. give (Inr (Some t))))" for state l
    using takes_seq[OF takes_recover_dispatched takes_atoms(1)] by simp
  have idle: "takes 6 (give r)" for r by (rule takes_more[OF takes_atoms(1)]) simp
  have orphan: "takes 6 (recover_prepared B state)" for state by (rule takes_more[OF takes_recover_prepared]) simp
  show ?thesis
    unfolding recover_one_def
    by (rule takes_then[OF takes_atoms(2)], rule takes_then[OF takes_atoms(1)]) (auto intro!: under_way idle orphan split: json.split)
qed

lemma takes_recover_all: "takes (6 * length ss) (recover_all B ss)"
proof (induction ss)
  case (Cons s ss)
  have "takes (6 * length ss + 0) (seq (recover_all B ss) (\<lambda>ts. give (Inr (case t of None \<Rightarrow> ts | Some x \<Rightarrow> x # ts))))" for t
    by (rule takes_seq[OF Cons.IH takes_atoms(1)])
  then show ?case by (auto intro: takes_both[OF takes_recover_one, where k = "6 * length ss"])
qed (simp add: bounds)

end
