(* ===== verification/Broker_Properties.thy ===== *)
theory Broker_Properties
  imports Broker_Execution Broker_Bounds
begin

text \<open>
  The machines the broker reaches, with any adapters, crashes, restarts and other clients, and what holds
  of their effects.
\<close>

section \<open>The machines the broker reaches\<close>

text \<open>
  Another client of the runtime: it prepares and admits no tool execution, and does not use the broker's
  fingerprints; everything else it may ask for.
\<close>

definition other_client :: "('x, 'w) broker \<Rightarrow> service_command \<Rightarrow> (nat \<Rightarrow> string) \<Rightarrow> metadata \<Rightarrow> rt_db \<Rightarrow> bool" where
  "other_client B cmd tick md d \<longleftrightarrow> prepares_nothing (bk_services B) cmd tick md d \<and> admits_nothing (bk_services B) cmd tick md d
     \<and> (\<forall>e s. md_operationFingerprint md \<noteq> stage_fingerprint (broker_sha B) e s)"

text \<open>
  Tools are registered anew at any time; a process that died is started again, with whatever became of the world,
  the clock and the subscribers.
\<close>

inductive broker_run :: "('x, 'w) broker \<Rightarrow> ('x, 'w) machine \<Rightarrow> bool" for B :: "('x, 'w) broker" where
  begun: "mc_db m = empty_db \<Longrightarrow> mc_effects m = [] \<Longrightarrow> broker_run B m"
| executed: "broker_run B m \<Longrightarrow> broker_run B (fst (execute (B\<lparr>bk_registry := R\<rparr>) r op se m))"
| recovered: "broker_run B m \<Longrightarrow> broker_run B (fst (reconcile_stranded (B\<lparr>bk_registry := R\<rparr>) m))"
| restarted: "broker_run B m \<Longrightarrow> mc_db m' = mc_db m \<Longrightarrow> mc_effects m' = mc_effects m \<Longrightarrow> broker_run B m'"
| served: "broker_run B m \<Longrightarrow> other_client B cmd tick md (mc_db m) \<Longrightarrow>
    serve (bk_services B) hs (cmd, tick, md) (mc_db m) (w :: 'w) = (d, w', res) \<Longrightarrow> broker_run B (m\<lparr>mc_db := d\<rparr>)"

lemma broker_inv_empty: "broker_inv B empty_db []"
proof -
  have l: "load_state (empty_db :: rt_db) = Map.empty" "facts empty_db = {}" "db_idempotency (empty_db :: rt_db) = []"
    by (simp_all add: load_state_def empty_db_def facts_def opened_ledger_def opened_def fun_eq_iff)
  moreover have "custody Map.empty {}" by (simp add: custody_def authored_def approved_by_human_def)
  ultimately show ?thesis
    by (simp add: broker_inv_def in_order_def wired_empty typed_empty(2) typed_def keys_kept_def truthful_def tool_at_def)
qed

lemma broker_inv_registry [simp]: "broker_inv (B\<lparr>bk_registry := R\<rparr>) = broker_inv B"
  by (simp add: fun_eq_iff broker_inv_def in_order_def keys_kept_def truthful_def warranted_def done_stage_def charged_def reserved_def reservation_id_def licensed_def
      execution_id_def)

lemma broker_run_inv: "broker_run B m \<Longrightarrow> inj (broker_sha B) \<Longrightarrow> holds (broker_inv B) m"
proof (induction rule: broker_run.induct)
  case (begun m)
  then show ?case by (simp add: holds_def broker_inv_empty)
next
  case (executed m R r op se)
  then show ?case using keeps_execute[of "B\<lparr>bk_registry := R\<rparr>" r op se] by (simp add: triple_def holds_def)
next
  case (recovered m R)
  then show ?case using keeps_reconcile_stranded[of "B\<lparr>bk_registry := R\<rparr>"] by (simp add: triple_def holds_def)
next
  case (restarted m m')
  then show ?case by (simp add: holds_def)
next
  case (served m cmd tick md hs w d w' res)
  then show ?case
    using broker_inv_other_call[of B "mc_db m" "mc_effects m" hs cmd tick md w d w' res] by (simp add: holds_def other_client_def)
qed

section \<open>Effects\<close>

text \<open>
  C1. at most one effect. Whatever the adapters do, whenever the process dies, is started again and recovers,
  and whatever other clients ask of the runtime meanwhile, adapters are run at most once for an idempotency key,
  and only after the dispatch of its execution was recorded; a retry never repeats an effect.
\<close>

theorem at_most_one_effect:
  assumes "broker_run B m" and "inj (broker_sha B)"
  shows "distinct (map ef_execution (mc_effects m)) \<and> distinct (map (\<lambda>f. tr_idempotencyKey (ef_request f)) (mc_effects m))
    \<and> (\<forall>f \<in> set (mc_effects m). ef_execution f = execution_id B (tr_idempotencyKey (ef_request f)) \<and> crossed (mc_db m) (ef_execution f))"
proof -
  have inv: "broker_inv B (mc_db m) (mc_effects m)" using broker_run_inv[OF assms] by (simp add: holds_def)
  then have f: "ef_execution f = execution_id B (tr_idempotencyKey (ef_request f)) \<and> crossed (mc_db m) (ef_execution f)" if "f \<in> set (mc_effects m)" for f
    using that by (auto simp: broker_inv_def warranted_def Let_def)
  have d: "distinct (map ef_execution (mc_effects m))" using inv by (simp add: broker_inv_def)
  moreover have "distinct (map (\<lambda>f. tr_idempotencyKey (ef_request f)) (mc_effects m))"
    using d f unfolding distinct_map by (auto simp: inj_on_def)
  ultimately show ?thesis using f by blast
qed

text \<open>
  C2. every effect is warranted. When an adapter runs, the request's grant is in the database, in the custody of a
  recorded decision of the governance kernel and, if it cites an approval, of a human; its lease admits the
  operation and scope of the request at a reading of the clock; if the grant is committed to exact requests, this
  is one of them; the execution is recorded under the request's fingerprint with its dispatch; and a
  consequential request has a use reserved, in the ledger, for this execution and fingerprint.
\<close>

theorem effects_are_warranted:
  assumes "broker_run B m" and "inj (broker_sha B)" and "f \<in> set (mc_effects m)"
  shows "let r = ef_request f; e = ef_execution f; d = ef_database f; fp = tool_request_fingerprint (broker_sha B) r in
    (\<exists>g l c k. tr_grantId r = Some g \<and> tr_leaseId r = Some l \<and> load_state d (capability_stream_id g) = Some (ACapability c)
       \<and> vouched (load_state d) (facts d) c
       \<and> cap_check_lease c l (tr_operation r) (scope_for r) (bk_now B k) = Inr ()
       \<and> (request_commitments c \<noteq> [] \<longrightarrow> JStr fp \<in> set (request_commitments c)))
    \<and> named d e fp \<and> crossed d e
    \<and> (tr_consequential r \<longrightarrow> (\<exists>v g who. (capability_stream_id g, CapabilityUseReserved v, who) \<in> facts d
       \<and> rq_reservationId v = reservation_id B e \<and> rq_operationFingerprint v = fp))"
proof -
  have "broker_inv B (mc_db m) (mc_effects m)" using broker_run_inv[OF assms(1,2)] by (simp add: holds_def)
  with assms(3) have "warranted B f" by (simp add: broker_inv_def)
  then have w: "in_order B (ef_database f)" "crossed (ef_database f) (ef_execution f)" "licensed B (ef_request f) (ef_database f)"
      "named (ef_database f) (ef_execution f) (tool_request_fingerprint (broker_sha B) (ef_request f))"
      "tr_consequential (ef_request f) \<longrightarrow> reserved B (ef_database f) (ef_execution f) (tool_request_fingerprint (broker_sha B) (ef_request f))"
    unfolding warranted_def Let_def by blast+
  then show ?thesis unfolding Let_def licensed_def reserved_def in_order_def custody_def by blast
qed

section \<open>Recovery\<close>

text \<open>The executions that the recovery of a database looks at.\<close>

definition executions :: "rt_db \<Rightarrow> string list" where
  "executions d = map fst (filter (\<lambda>(_, kind, _). kind = ''tool_execution'') (all_aggregates d))"

lemma reconcile_stranded_runs: "reconcile_stranded B m = recover_all B (executions (mc_db m)) m"
  by (simp add: reconcile_stranded_def seq_def look_def executions_def)

text \<open>
  C5. the recovery terminates and settles everything. Whatever tools are registered after a restart, the recovery runs no
  effect; when it returns, no execution is left under way; and it does end (it returns, or raises the error of a
  command) if the process lives through six commands for every execution.
\<close>

theorem recovery_settles_all:
  assumes "broker_run B m" and "inj (broker_sha B)" and "reconcile_stranded (B\<lparr>bk_registry := R\<rparr>) m = (m', r)"
  shows "mc_effects m' = mc_effects m \<and> (\<forall>ts e. r = Some (Inr ts) \<longrightarrow> \<not> stranded (mc_db m') e)
    \<and> (6 * length (executions (mc_db m)) \<le> mc_power m \<longrightarrow> r \<noteq> None)"
proof -
  let ?B = "B\<lparr>bk_registry := R\<rparr>"
  have inj: "inj (broker_sha ?B)" using assms(2) by simp
  have "holds (\<lambda>d fx. broker_inv ?B d fx \<and> fx = mc_effects m) m"
    using broker_run_inv[OF assms(1,2)] by (simp add: holds_def)
  then have "holds (\<lambda>d fx. broker_inv ?B d fx \<and> fx = mc_effects m) m' \<and> (\<forall>ts. r = Some (Inr ts) \<longrightarrow> (\<forall>e. \<not> stranded (mc_db m') e))"
    using triple_reconcile_stranded[OF inj, where F = "mc_effects m", unfolded triple_def, rule_format, of m] assms(3)
    by (auto simp: holds_def)
  moreover have "r \<noteq> None" if "6 * length (executions (mc_db m)) \<le> mc_power m"
    using takesD(1)[OF takes_recover_all that] assms(3) by (simp add: reconcile_stranded_runs)
  ultimately show ?thesis by (simp add: holds_def)
qed

end
