(* ===== verification/Runtime_Samples.thy ===== *)
theory Runtime_Samples
  imports Disposition_Safety
begin

text \<open>
  A run of the whole runtime, evaluated: a mission with a task, an approval that a human grants, the policy
  decision, the grant it backs, and the disposition of the mission. The contract validators accept
  everything and the hash is constant.
\<close>

section \<open>From a request to a capability\<close>

definition sample_services :: services where
  "sample_services = \<lparr>sv_env = \<lparr>en_hashing = sample_hashing, en_contracts = \<lparr>ct_metadata = (\<lambda>_. []), ct_missionSpec = (\<lambda>_. []),
       ct_taskNode = (\<lambda>_. []), ct_policyDecision = (\<lambda>_. []), ct_grant = (\<lambda>_. []), ct_lease = (\<lambda>_. []), ct_reservation = (\<lambda>_. []),
       ct_consumption = (\<lambda>_. []), ct_revocation = (\<lambda>_. []), ct_driverRun = (\<lambda>_. []), ct_approvalRequest = (\<lambda>_. []),
       ct_approvalDecision = (\<lambda>_. []), ct_claim = (\<lambda>_. []), ct_evidence = (\<lambda>_. []), ct_verification = (\<lambda>_. []),
       ct_claimDecision = (\<lambda>_. []), ct_dict = (\<lambda>_ _. [])\<rparr>\<rparr>,
     sv_runtime = sample_runtime, sv_showGrant = (\<lambda>_. JNull), sv_showState = (\<lambda>_. JNull), sv_ceiling = Inr,
     sv_intent = (\<lambda>_. []), sv_forkIntent = (\<lambda>_. [])\<rparr>"

definition sample_author :: "string \<Rightarrow> string \<Rightarrow> metadata" where
  "sample_author i kind = \<lparr>md_commandId = i, md_idempotencyKey = i, md_operationFingerprint = digest sample_digest JNull,
     md_correlationId = ''c'', md_causationId = None, md_actor = \<lparr>ac_actorId = ''a'', ac_kind = kind\<rparr>,
     md_issuedAt = ''2026-01-02T00:00:00Z'', md_replayPolicy = ''never'', md_attempt = 1\<rparr>"

definition sample_agent :: actor where "sample_agent = \<lparr>ac_actorId = ''agent'', ac_kind = ''execution_plane''\<rparr>"
definition sample_kernel :: actor where "sample_kernel = \<lparr>ac_actorId = ''k'', ac_kind = ''governance_kernel''\<rparr>"

definition sample_request :: approval_req where
  "sample_request = \<lparr>aq_requestId = ''q1'', aq_missionId = ''m1'', aq_taskId = ''t1'', aq_requestedCapability = ''fs.read'',
     aq_resource = JStr ''/tmp'', aq_operation = ''read'', aq_operations = Some [''read''], aq_capabilitySubject = Some sample_agent,
     aq_capabilityConditions = Some [], aq_capabilityMaxUses = Some 1, aq_scope = Some (scope_json (FilesystemScope ''/tmp'' False)),
     aq_riskClassification = ''low'', aq_policyReason = ''r'', aq_requestedBy = sample_agent, aq_expiresAt = ''2026-02-01T00:00:00Z'',
     aq_remainingUses = Some 1, aq_correlationId = ''c'', aq_createdAt = ''2026-01-01T00:00:00Z'', aq_promptAssemblyDigest = None,
     aq_externalCommitments = None\<rparr>"

definition sample_policy :: policy_decision where
  "sample_policy = \<lparr>pd_policyDecisionId = ''p1'', pd_missionId = ''m1'', pd_taskId = Some ''t1'', pd_effect = ''allow'',
     pd_decidedBy = sample_kernel, pd_subject = Some sample_agent, pd_requestedOperations = [''read''],
     pd_requestedScope = scope_json (FilesystemScope ''/tmp'' False), pd_conditions = None, pd_policyBundleDigest = ''b'',
     pd_externalCommitments = None\<rparr>"

definition sample_approve :: approval_decision where
  "sample_approve = \<lparr>ad_idempotencyKey = ''d1'', ad_decision = ''approve'', ad_operatorId = Some ''op'', ad_decidedAt = ''2026-01-02T00:00:00Z'',
     ad_note = None\<rparr>"

definition sample_approved_grant :: grant where
  "sample_approved_grant = \<lparr>gr_grantId = ''g1'', gr_capabilityId = ''fs.read'', gr_subject = sample_agent, gr_operations = [''read''],
     gr_scope = FilesystemScope ''/tmp'' False, gr_conditions = [], gr_policyDecisionId = ''p1'', gr_policyBundleDigest = ''b'',
     gr_approvalRequestId = Some ''q1'', gr_externalCommitments = None, gr_maxUses = Some 1, gr_validFrom = ''2026-01-02T00:00:00Z'',
     gr_validUntil = ''2026-01-31T00:00:00Z'', gr_issuedBy = sample_kernel, gr_issuedAt = ''2026-01-03T00:00:00Z''\<rparr>"

definition sample_calls :: "call list" where
  "sample_calls = [(CreateMission sample_spec, \<lambda>_. [], sample_author ''c1'' ''human''),
     (RequestApproval sample_request, \<lambda>_. [], sample_author ''c2'' ''execution_plane''),
     (SubmitDecision ''q1'' sample_approve None, \<lambda>_. [], sample_author ''c3'' ''human''),
     (EvaluatePolicy sample_policy, \<lambda>_. [], sample_author ''c4'' ''governance_kernel''),
     (IssueGrantFromApproval ''q1'' sample_approved_grant ''u1'' None, \<lambda>_. [], sample_author ''c5'' ''governance_kernel'')]"

abbreviation sample_reached :: rt_db where
  "sample_reached \<equiv> reached sample_services ([] :: (event, unit) handler list) sample_calls ()"

lemma sample_capability: "load_state sample_reached ''capability-g1'' = Some (ACapability (cap_grant sample_approved_grant))"
  by code_simp

lemma capability_chain_of_custody_witness:
  "(\<exists>x. (''human_approval-q1'', HumanApprovalDecided x, JStr ''human'') \<in> facts sample_reached \<and> ad_decision x = ''approve'')
   \<and> (\<exists>a. load_state sample_reached ''human_approval-q1'' = Some (AApproval a) \<and> approves a (cap_grant sample_approved_grant))"
proof -
  have q: "cs_approvalRequestId (cap_grant sample_approved_grant) = Some ''q1''" by (simp add: cap_grant_def sample_approved_grant_def)
  show ?thesis
    using capability_chain_of_custody[OF sample_capability] unfolding Let_def q approval_stream_id_def by (auto simp del: fetch_right)
qed

lemma states_are_histories_witness:
  "\<exists>g who. (''capability-g1'', CapabilityGranted g, who) \<in> facts sample_reached
     \<and> grows cap_step (\<lambda>op _. cap_event op) (facts sample_reached) ''capability-g1'' (cap_grant g) (cap_grant sample_approved_grant)"
  using states_are_histories[of sample_services "[] :: (event, unit) handler list" sample_calls "()"] sample_capability by fastforce

section \<open>The mission is disposed of\<close>

definition sample_node :: task_node where
  "sample_node = \<lparr>tn_taskId = ''t1'', tn_missionId = ''m1'', tn_title = ''t'', tn_state = Some ''pending'', tn_capabilityRequirements = [],
     tn_attempt = Some 0, tn_maxAttempts = Some 1, tn_assignedDriverId = None, tn_recoveryState = Some ''none'', tn_dependencies = None,
     tn_consequential = Some True\<rparr>"

definition sample_open_calls :: "call list" where
  "sample_open_calls = [(CreateMission sample_spec, \<lambda>_. [], sample_author ''c1'' ''human''),
     (CreateTask sample_node, \<lambda>_. [], sample_author ''c2'' ''cognitive_plane''),
     (RequestApproval sample_request, \<lambda>_. [], sample_author ''c3'' ''execution_plane''),
     (SubmitDecision ''q1'' sample_approve None, \<lambda>_. [], sample_author ''c4'' ''human'')]"

definition sample_disposal :: call where
  "sample_disposal = (DisposeMission ''m1'' ''cancel_revoke'' 1 (digest sample_digest JNull) ''done'', \<lambda>_. [], sample_author ''c5'' ''human'')"

abbreviation sample_open :: rt_db where
  "sample_open \<equiv> reached sample_services ([] :: (event, unit) handler list) sample_open_calls ()"

abbreviation sample_disposed :: "rt_db \<times> unit \<times> reply res" where
  "sample_disposed \<equiv> serve sample_services ([] :: (event, unit) handler list) sample_disposal sample_open ()"

fun committed :: "reply res \<Rightarrow> bool" where
  "committed (Inr (Committed r ex)) = True"
| "committed _ = False"

lemma disposition_leaves_nothing_open_witness:
  "(\<exists>m. load_state (fst sample_disposed) ''mission-m1'' = Some (AMission m) \<and> ms_state m = ''cancelled'')
   \<and> nothing_open (fst sample_disposed) ''m1'' \<and> \<not> nothing_open sample_open ''m1''"
proof -
  have c: "committed (snd (snd sample_disposed))" by code_simp
  then obtain r ex where ok: "sample_disposed = (fst sample_disposed, (), Inr (Committed r ex))"
    by (cases "snd (snd sample_disposed)" rule: committed.cases) (auto simp: prod_eq_iff)
  have fresh: "find_idempotent sample_open (md_idempotencyKey (sample_author ''c5'' ''human'')) = None" by code_simp
  have t: "load_state sample_open ''task-t1'' = Some (ATask (task_create sample_node))" by code_simp
  have "\<not> closed_for ''m1'' (ATask (task_create sample_node))" by code_simp
  with t have "\<not> nothing_open sample_open ''m1''" unfolding nothing_open_def by blast
  then show ?thesis
    using disposition_leaves_nothing_open[OF refl fresh ok[unfolded sample_disposal_def]]
    by (simp add: mission_stream_id_def target_state_def sample_disposal_def)
qed

end
