(* ===== verification/Store_Progress.thy ===== *)
theory Store_Progress
  imports Broker_Logic
begin

text \<open>
  A fresh command is committed: what has to hold of a database for a command with one event to be applied, and
  what the database is afterwards, in terms of its states, its event ids and its idempotency keys.
\<close>

section \<open>One append\<close>

definition event_ids :: "('p, 's, 'm) db \<Rightarrow> string set" where
  "event_ids d = er_event_id ` set (db_events d)"

definition keys_of :: "('p, 's, 'm) db \<Rightarrow> string set" where
  "keys_of d = fst ` set (db_idempotency d)"

lemma keys_of_None: "k \<notin> keys_of d \<longleftrightarrow> map_of (db_idempotency d) k = None"
  by (simp add: keys_of_def map_of_eq_None_iff)

lemma version_is_free:
  assumes inv: "ledger_inv H d"
  shows "\<not> list_ex (\<lambda>r. er_stream_id r = s \<and> er_stream_version r = aggregate_version d s + 1) (db_events d)"
proof -
  let ?rs = "stream_rows d s"
  have "verify_rows H GENESIS_CHAIN [] (db_events d) = Inr (head_chain d)" using inv by (simp add: ledger_inv_def)
  from verify_rows_versions[OF this, of s] have v: "map er_stream_version ?rs = map (\<lambda>i. 1 + int i) [0..<length ?rs]"
    by (simp add: stream_rows_def seen_at_def)
  have "er_stream_version r \<le> int (length ?rs)" if "r \<in> set ?rs" for r
  proof -
    have "er_stream_version r \<in> set (map (\<lambda>i. 1 + int i) [0..<length ?rs])" using that v by (metis image_eqI set_map)
    then show ?thesis by auto
  qed
  moreover have "aggregate_version d s = int (length ?rs)" using inv by (simp add: ledger_inv_def)
  ultimately show ?thesis by (fastforce simp: list_ex_iff stream_rows_def)
qed

lemma append_one_applies:
  assumes inv: "ledger_inv H d" and v: "rq_expected_version a = aggregate_version d (rq_stream_id a)"
    and i: "ev_eventId (rq_envelope a) \<notin> event_ids d"
    and ok: "\<And>v n. hs_validate H (final_envelope H a v n) = []"
  obtains d' c e where "append_one H a (head_chain d) d = (d', Inr (c, e))"
proof -
  let ?v = "aggregate_version d (rq_stream_id a) + 1"
  define env where "env = (rq_envelope a)\<lparr>ev_streamVersion := ?v, ev_payloadDigest := hs_payload H (ev_payload (rq_envelope a))\<rparr>"
  have id: "ev_eventId env = ev_eventId (rq_envelope a)" by (simp add: env_def)
  have free: "\<not> list_ex (\<lambda>r. er_event_id r = ev_eventId env) (db_events d)" using i by (simp add: id event_ids_def list_ex_iff image_iff) metis
  have "map ob_event_id (db_outbox d) = map er_event_id (db_events d)" using inv by (simp add: ledger_inv_def)
  then have "ev_eventId env \<notin> ob_event_id ` set (db_outbox d)" using i by (metis id event_ids_def set_map)
  then have out: "\<not> list_ex (\<lambda>b. ob_event_id b = ev_eventId env) (db_outbox d)" by (simp add: list_ex_iff image_iff) metis
  have fin: "hs_validate H (env\<lparr>ev_globalSequence := n\<rparr>) = []" for n using ok[of ?v n] by (simp add: env_def final_envelope_def)
  obtain d1 n where one: "insert_event env (rq_stream_id a) ?v d = (d1, Inr n)" and out1: "db_outbox d1 = db_outbox d"
    using free version_is_free[OF inv, of "rq_stream_id a"] by (simp add: insert_event_def Let_def)
  obtain d2 x where "append_tail H a (head_chain d) ?v env n d1 = (d2, Inr x)"
    using fin[of n] out out1
    by (simp add: append_tail_def Let_def update_event_def upsert_aggregate_def insert_outbox_def sret_def sthen_def)
  then have "append_one H a (head_chain d) d = (d2, Inr x)"
    using one v unfolding append_one_def Let_def env_def[symmetric] by simp
  then show ?thesis using that by (cases x) blast
qed

section \<open>One command\<close>

text \<open>Without subscribers nothing fails after the commit.\<close>

lemma dispatch_ids_none:
  assumes "\<And>i. i \<in> set is \<Longrightarrow> \<exists>r e. find (\<lambda>r. er_event_id r = i) (db_events d) = Some r \<and> er_envelope r = Some e"
  shows "snd (dispatch_ids [] is d w n) = (w, Inr (n + int (length is)))"
  using assms
proof (induction "is" arbitrary: d n)
  case (Cons i "is")
  obtain r e where r: "find (\<lambda>r. er_event_id r = i) (db_events d) = Some r" "er_envelope r = Some e" using Cons.prems[of i] by auto
  have "snd (dispatch_ids [] is (mark_dispatched i d) w (n + 1)) = (w, Inr (n + 1 + int (length is)))"
    by (rule Cons.IH) (use Cons.prems in \<open>auto simp: mark_dispatched_def\<close>)
  then show ?case using r by (simp add: algebra_simps)
qed simp

lemma dispatch_none:
  assumes inv: "ledger_inv H d"
  shows "\<exists>d' n. dispatch [] d w = (d', w, Inr n)"
proof -
  have "\<exists>r e. find (\<lambda>r. er_event_id r = i) (db_events d) = Some r \<and> er_envelope r = Some e" if "i \<in> set (pending_outbox d)" for i
  proof -
    have "map ob_event_id (db_outbox d) = map er_event_id (db_events d)" using inv by (simp add: ledger_inv_def)
    moreover have "i \<in> set (map ob_event_id (db_outbox d))" using that by (auto simp: pending_outbox_inv[OF inv])
    ultimately obtain r where r: "r \<in> set (db_events d)" "er_event_id r = i" by (auto simp del: set_map simp: in_set_conv_nth) (metis nth_mem nth_map length_map)
    then have "find (\<lambda>r. er_event_id r = i) (db_events d) \<noteq> None" by (auto simp: find_None_iff)
    then obtain r' where r': "find (\<lambda>r. er_event_id r = i) (db_events d) = Some r'" by blast
    then have "r' \<in> set (db_events d)" by (auto simp: find_Some_iff in_set_conv_nth)
    then show ?thesis using r' inv by (auto simp: ledger_inv_def list_all_iff envelope_matches_def)
  qed
  from dispatch_ids_none[OF this, of "pending_outbox d" w 0] show ?thesis
    unfolding dispatch_def by (metis prod.collapse snd_conv)
qed

lemma event_ids_after:
  assumes "append_one H a c d = (d', Inr x)" and "below_autoinc d"
  shows "event_ids d' = insert (ev_eventId (rq_envelope a)) (event_ids d)" "db_idempotency d' = db_idempotency d"
proof -
  obtain c' e where x: "x = (c', e)" by force
  show "event_ids d' = insert (ev_eventId (rq_envelope a)) (event_ids d)" "db_idempotency d' = db_idempotency d"
    using append_one_Inr[OF assms(1)[unfolded x] assms(2)] by (auto simp: event_ids_def final_row_def final_envelope_def Let_def)
qed

lemma serve_applies:
  assumes w: "wired S d" and p: "plan_of S cmd tick md d = Inr (Append [a] ex)"
    and v: "rq_expected_version a = aggregate_version d (rq_stream_id a)"
    and i: "ev_eventId (rq_envelope a) \<notin> event_ids d" and k: "md_idempotencyKey md \<notin> keys_of d"
    and ok: "\<And>v n. hs_validate (en_hashing (sv_env S)) (final_envelope (en_hashing (sv_env S)) a v n) = []"
  obtains d' r where "serve S [] (cmd, tick, md) d x = (d', x, Inr (Committed r ex))"
    "wired S d'" "load_state d' = (load_state d)(rq_stream_id a \<mapsto> rq_state a)"
    "event_ids d' = insert (ev_eventId (rq_envelope a)) (event_ids d)" "keys_of d' = insert (md_idempotencyKey md) (keys_of d)"
    "facts d' = insert (fact_of (rq_envelope a)) (facts d)"
proof -
  let ?H = "en_hashing (sv_env S)"
  from w have inv: "ledger_inv ?H d" by (simp add: wired_def)
  obtain d1 c e where one: "append_one ?H a (head_chain d) d = (d1, Inr (c, e))" by (rule append_one_applies[OF inv v i ok])
  note id = event_ids_after[OF one below_autoinc_inv[OF inv]]
  have free: "map_of (db_idempotency d) (md_idempotencyKey md) = None" using k by (simp add: keys_of_None)
  have all: "append_all ?H [a] (head_chain d) d = (d1, Inr [e])" using one by (simp add: sret_def)
  define row where "row = \<lparr>ir_fingerprint = md_operationFingerprint md, ir_command_id = md_commandId md,
    ir_result = result_of (md_commandId md) [e], ir_sequence = Some (ev_globalSequence e)\<rparr>"
  have ins: "insert_idempotency (md_idempotencyKey md) row d1 = (d1\<lparr>db_idempotency := db_idempotency d1 @ [(md_idempotencyKey md, row)]\<rparr>, Inr ())"
    using free id(2) by (simp add: insert_idempotency_def)
  have "commit_body ?H [a] (md_idempotencyKey md) (md_operationFingerprint md) (md_commandId md) d
      = (d1\<lparr>db_idempotency := db_idempotency d1 @ [(md_idempotencyKey md, row)]\<rparr>, Inr (result_of (md_commandId md) [e]))"
    unfolding commit_body_def free using all ins by (simp add: Let_def sret_def row_def del: append_all.simps)
  then have c: "commit_command ?H [a] (md_idempotencyKey md) (md_operationFingerprint md) (md_commandId md) d
      = (d1\<lparr>db_idempotency := db_idempotency d1 @ [(md_idempotencyKey md, row)]\<rparr>, Inr (result_of (md_commandId md) [e]))"
    by (simp add: commit_command_def free transaction_def)
  define d2 where "d2 = d1\<lparr>db_idempotency := db_idempotency d1 @ [(md_idempotencyKey md, row)]\<rparr>"
  have s: "same_ledger d1 d2" by (simp add: d2_def same_ledger_def)
  then have w2: "wired S d2" using same_ledger_view append_one_view(1)[OF w one] by blast
  then have inv2: "ledger_inv ?H d2" by (simp add: wired_def)
  obtain d3 n where d: "dispatch [] d2 x = (d3, x, Inr n)" using dispatch_none[OF inv2, of x] by (elim exE) rule
  have s3: "same_ledger d2 d3" using dispatch_keeps_ledger[of d2 "[]" "pending_outbox d2" x 0] d by (simp add: dispatch_def)
  have k3: "db_idempotency d3 = db_idempotency d2" using same_keys_of_dispatch[of "[]" d2 x] d by simp
  have sv: "serve S [] (cmd, tick, md) d x = (d3, x, Inr (Committed (result_of (md_commandId md) [e]) ex))"
    using c d by (simp add: serve_def perform_def p d2_def)
  have "load_state d3 = (load_state d)(rq_stream_id a \<mapsto> rq_state a)"
    using same_ledger_view[OF s] same_ledger_view[OF s3] append_one_view(2)[OF w one] by simp
  moreover have "facts d3 = insert (fact_of (rq_envelope a)) (facts d)"
    using same_ledger_view[OF s] same_ledger_view[OF s3] append_one_view(3)[OF w one] by simp
  moreover have "wired S d3" using same_ledger_view[OF s3] w2 by blast
  moreover have "event_ids d3 = insert (ev_eventId (rq_envelope a)) (event_ids d)"
    using s s3 id(1) by (simp add: event_ids_def same_ledger_def)
  moreover have "keys_of d3 = insert (md_idempotencyKey md) (keys_of d)" by (simp add: keys_of_def k3 d2_def id(2))
  ultimately show ?thesis using that[OF sv] by blast
qed

text \<open>What the progress of a run depends on: the states, the event ids, the keys and the facts of its database.\<close>

definition sits :: "services \<Rightarrow> (string \<Rightarrow> agg option) \<Rightarrow> string set \<Rightarrow> string set \<Rightarrow> fact set \<Rightarrow> rt_db \<Rightarrow> bool" where
  "sits S ld ids ks fs d \<longleftrightarrow> wired S d \<and> load_state d = ld \<and> event_ids d = ids \<and> keys_of d = ks \<and> facts d = fs"

lemma sits_empty: "sits S Map.empty {} {} {} empty_db"
  by (simp add: sits_def wired_empty event_ids_def keys_of_def) (simp add: empty_db_def load_state_def facts_def opened_ledger_def opened_def fun_eq_iff)

lemma call_applies:
  assumes "sits S ld ids ks fs d" and "plan_of S cmd tick md d = Inr (Append [append_to s kind (aggregate_version d s) env st] ex)"
    and "ev_eventId env \<notin> ids" and "md_idempotencyKey md \<notin> ks" and "hs_validate (en_hashing (sv_env S)) = (\<lambda>_. [])"
  obtains d' r where "serve S [] (cmd, tick, md) d x = (d', x, Inr (Committed r ex))"
    "sits S (ld(s \<mapsto> st)) (insert (ev_eventId env) ids) (insert (md_idempotencyKey md) ks) (insert (fact_of env) fs) d'"
proof -
  define a where "a = append_to s kind (aggregate_version d s) env st"
  have a: "rq_stream_id a = s" "rq_state a = st" "rq_envelope a = env" "rq_expected_version a = aggregate_version d s"
    by (simp_all add: a_def append_to_def)
  from assms(1) have d: "wired S d" "load_state d = ld" "event_ids d = ids" "keys_of d = ks" "facts d = fs" by (simp_all add: sits_def)
  show ?thesis
  proof (rule serve_applies[OF d(1) assms(2)[folded a_def], where x = x])
    fix d' r
    assume "serve S [] (cmd, tick, md) d x = (d', x, Inr (Committed r ex))" and "wired S d'"
      "load_state d' = (load_state d)(rq_stream_id a \<mapsto> rq_state a)" "event_ids d' = insert (ev_eventId (rq_envelope a)) (event_ids d)"
      "keys_of d' = insert (md_idempotencyKey md) (keys_of d)" "facts d' = insert (fact_of (rq_envelope a)) (facts d)"
    then show thesis using that[of d' r] unfolding a d sits_def by blast
  qed (simp_all add: a d assms(3-5))
qed

end
