(* ===== verification/Broker_Samples.thy ===== *)
theory Broker_Samples
  imports Broker_Properties Runtime_Samples Store_Progress
begin

text \<open>
  A run of the broker: a mission, a policy decision, a grant and a lease in the database, one registered tool, a
  consequential request, and a process that dies after the adapter ran, before the use is settled. The run is worked
  out step by step from the progress of the store (\<^verbatim>\<open>Store_Progress\<close>). The hash is the identity: it is injective,
  and the truncated identifiers of the stages stay apart.
\<close>

section \<open>A broker with one tool\<close>

definition tool_services :: services where
  "tool_services = sample_services\<lparr>sv_env := (sv_env sample_services)\<lparr>en_hashing := sample_hashing\<lparr>hs_sha := (\<lambda>x. x)\<rparr>\<rparr>\<rparr>"

definition tool_descriptor :: descriptor where
  "tool_descriptor = \<lparr>dc_toolId = ''fs'', dc_operations = [''write''], dc_requiredCapabilities = [''write''],
     dc_operationEffects = [(''write'', ''reversible'')], dc_terminalBackends = [''local''], dc_worldReceiptOperations = [], dc_rest = []\<rparr>"

text \<open>The world of the adapter is the number of its runs.\<close>

definition tool_adapter :: "nat adapter" where
  "tool_adapter = \<lparr>ad_adapterId = None, ad_execute = (\<lambda>r n. (Suc n, Inr [(''status'', JStr ''succeeded'')])), ad_execute_observed = None,
     ad_execute_world_effect = None, ad_prepare_effect = None, ad_preflight = None, ad_verify_receipt = None, ad_supports_reconciliation = False,
     ad_reconcile = None, ad_verify_reversal_handle = None, ad_sandbox = None, ad_persistent_exec = None\<rparr>"

definition tool_probe :: "(nat, dict) hook" where
  "tool_probe n = (n, Inr (readiness_record ''fs'' ''available'' ''r'' ''2026-01-05T00:00:00Z''))"

definition tool_registry :: "nat registry" where
  "tool_registry = (case register (\<lambda>x. x) (\<lambda>_ _. []) tool_descriptor tool_adapter (Some tool_probe) [] of Inr (R, _) \<Rightarrow> R)"

definition tool_broker :: "(nat, unit) broker" where
  "tool_broker = \<lparr>bk_services = tool_services, bk_handlers = [], bk_registry = tool_registry, bk_now = (\<lambda>_. ''2026-01-05T00:00:00Z''),
     bk_requestContract = (\<lambda>_. [])\<rparr>"

definition write_fields :: tool_request where
  "write_fields = \<lparr>tr_toolRequestId = ''r1'', tr_toolId = ''fs'', tr_operation = ''write'', tr_arguments = [], tr_consequential = True,
     tr_idempotencyKey = ''k1'', tr_operationFingerprint = [], tr_replayPolicy = ''never'', tr_requestedAt = ''2026-01-05T00:00:00Z'',
     tr_leaseId = Some ''l1'', tr_reservationId = None, tr_grantId = Some ''g1'', tr_backendId = Some ''local'', tr_targetIdentity = None,
     tr_filesystemScope = None\<rparr>"

definition write_request :: tool_request where
  "write_request = write_fields\<lparr>tr_operationFingerprint := tool_request_fingerprint (\<lambda>x. x) write_fields\<rparr>"

section \<open>Its database\<close>

definition tool_policy :: policy_decision where
  "tool_policy = sample_policy\<lparr>pd_requestedOperations := [''write''], pd_requestedScope := scope_json (ToolScope [''fs''])\<rparr>"

definition tool_grant :: grant where
  "tool_grant = sample_approved_grant\<lparr>gr_capabilityId := ''fs.write'', gr_operations := [''write''], gr_scope := ToolScope [''fs''],
     gr_approvalRequestId := None\<rparr>"

definition tool_lease :: lease_req where
  "tool_lease = \<lparr>lq_leaseId = ''l1'', lq_grantId = ''g1'', lq_missionId = ''m1'', lq_taskId = ''t1'', lq_executionContextId = ''x1'',
     lq_operations = [''write''], lq_scope = ToolScope [''fs''], lq_maxUses = Some 1, lq_validFrom = ''2026-01-03T00:00:00Z'',
     lq_validUntil = ''2026-01-30T00:00:00Z''\<rparr>"

definition tool_author :: "string \<Rightarrow> string \<Rightarrow> metadata" where
  "tool_author i kind = (sample_author i kind)\<lparr>md_operationFingerprint := ''governed''\<rparr>"

definition tool_machine :: "rt_db \<Rightarrow> nat \<Rightarrow> nat \<Rightarrow> nat \<Rightarrow> string option \<Rightarrow> effect list \<Rightarrow> (nat, unit) machine" where
  "tool_machine d x t n i fx = \<lparr>mc_db = d, mc_subscribers = (), mc_world = x, mc_ticks = t, mc_power = n, mc_observed = i, mc_effects = fx\<rparr>"

lemma tool_machine_simps [simp]: "mc_db (tool_machine d x t n i fx) = d" "mc_observed (tool_machine d x t n i fx) = i"
  by (simp_all add: tool_machine_def)

definition idle_machine :: "rt_db \<Rightarrow> (nat, unit) machine" where "idle_machine d = tool_machine d 0 0 0 None []"

lemma tool_env [simp]:
  "sv_env tool_services = \<lparr>en_hashing = sample_hashing\<lparr>hs_sha := \<lambda>x. x\<rparr>, en_contracts = en_contracts (sv_env sample_services)\<rparr>"
  "hs_validate sample_hashing = (\<lambda>_. [])"
  by (simp_all add: tool_services_def sample_services_def sample_hashing_def)

lemma no_contracts [simp]:
  "ct_metadata (en_contracts (sv_env sample_services)) = (\<lambda>_. [])" "ct_missionSpec (en_contracts (sv_env sample_services)) = (\<lambda>_. [])"
  "ct_policyDecision (en_contracts (sv_env sample_services)) = (\<lambda>_. [])" "ct_grant (en_contracts (sv_env sample_services)) = (\<lambda>_. [])"
  "ct_lease (en_contracts (sv_env sample_services)) = (\<lambda>_. [])" "ct_reservation (en_contracts (sv_env sample_services)) = (\<lambda>_. [])"
  "ct_consumption (en_contracts (sv_env sample_services)) = (\<lambda>_. [])" "ct_dict (en_contracts (sv_env sample_services)) = (\<lambda>_ _. [])"
  by (simp_all add: sample_services_def)

definition tool_mission :: mission where
  "tool_mission = projr (policy_step tool_policy (mission_create sample_spec))"

definition tool_capability :: capability where
  "tool_capability = projr (cap_activate_lease (cap_grant tool_grant) tool_lease)"

lemma tool_steps:
  "policy_step tool_policy (mission_create sample_spec) = Inr tool_mission"
  "cap_activate_lease (cap_grant tool_grant) tool_lease = Inr tool_capability"
  by code_simp+

lemma plain_plan: "plan_of S cmd tick md d = Inr (Append [append_to s k v env st] ex) \<Longrightarrow>
    ev_payload env \<notin> range ToolExecutionPrepared \<Longrightarrow> st \<notin> range AToolExecution \<Longrightarrow>
    prepares_nothing S cmd tick md d \<and> admits_nothing S cmd tick md d"
  by (auto simp: prepares_nothing_def admits_nothing_def unprepared_def unadmitted_def append_to_def)

lemma tool_permits [simp]:
  "require_authority ''create_mission'' ''human'' = Inr ()" "require_authority ''evaluate_policy'' ''governance_kernel'' = Inr ()"
  "require_authority ''issue_grant'' ''governance_kernel'' = Inr ()" "require_authority ''activate_lease'' ''governance_kernel'' = Inr ()"
  by code_simp+

lemma tool_authored [simp]:
  "md_commandId (tool_author i k) = i" "md_idempotencyKey (tool_author i k) = i" "ac_kind (md_actor (tool_author i k)) = k"
  "md_operationFingerprint (tool_author i k) = ''governed''"
  by (simp_all add: tool_author_def sample_author_def)

lemmas tool_plans = contract_def contract_dict_def require_def admit_def permit_def once_def amend_def fetch_def require_state_def
  keys_of_None[symmetric] find_idempotent_def raise_if_def ev1_def Let_def

lemma mission_planned:
  "plan_of tool_services (CreateMission sample_spec) tick (tool_author ''c0'' ''human'') d = Inr (Append [append_to ''mission-m1'' ''mission'' (aggregate_version d ''mission-m1'')
     (envelope ''c0-ev1'' ''mission-m1'' (MissionCreated sample_spec) (tool_author ''c0'' ''human'') (about_none\<lparr>ab_mission := Some ''m1''\<rparr>)) (AMission (mission_create sample_spec))] [])"
proof -
  have "sp_missionId sample_spec = ''m1''" by (simp add: sample_spec_def)
  then show ?thesis by (simp add: tool_plans service_create_mission_def append_create_mission_def mission_stream_id_def)
qed

lemma policy_planned:
  assumes "load_state d ''mission-m1'' = Some (AMission (mission_create sample_spec))" and "''c1'' \<notin> keys_of d"
  shows "plan_of tool_services (EvaluatePolicy tool_policy) tick (tool_author ''c1'' ''governance_kernel'') d =
    Inr (Append [append_to ''mission-m1'' ''mission'' (aggregate_version d ''mission-m1'')
     (envelope ''c1-ev1'' ''mission-m1'' (PolicyEvaluated tool_policy) (tool_author ''c1'' ''governance_kernel'') (about_none\<lparr>ab_mission := Some ''m1''\<rparr>)) (AMission tool_mission)] [])"
proof -
  have "pd_missionId tool_policy = ''m1''" "ac_kind (pd_decidedBy tool_policy) = ''governance_kernel''"
    by (simp_all add: tool_policy_def sample_policy_def sample_kernel_def)
  then show ?thesis using assms by (simp add: tool_plans service_evaluate_policy_def mission_stream_id_def tool_steps)
qed

lemma grant_planned:
  assumes "find_policy_decision d ''p1'' \<noteq> None"
  shows "plan_of tool_services (IssueGrant tool_grant) tick (tool_author ''c2'' ''governance_kernel'') d =
    Inr (Append [append_to ''capability-g1'' ''capability'' (aggregate_version d ''capability-g1'')
     (envelope ''c2-ev1'' ''capability-g1'' (CapabilityGranted tool_grant) (tool_author ''c2'' ''governance_kernel'') about_none) (ACapability (cap_grant tool_grant))] [])"
proof -
  have "gr_grantId tool_grant = ''g1''" "ac_kind (gr_issuedBy tool_grant) = ''governance_kernel''" "gr_conditions tool_grant = []"
      "gr_approvalRequestId tool_grant = None" "gr_policyDecisionId tool_grant = ''p1''"
    by (simp_all add: tool_grant_def sample_approved_grant_def sample_kernel_def)
  then show ?thesis using assms by (simp add: tool_plans service_issue_grant_def capability_stream_id_def given_def)
qed

lemma lease_planned:
  assumes "load_state d ''capability-g1'' = Some (ACapability (cap_grant tool_grant))" and "''c3'' \<notin> keys_of d"
  shows "plan_of tool_services (ActivateTheLease tool_lease) tick (tool_author ''c3'' ''governance_kernel'') d =
    Inr (Append [append_to ''capability-g1'' ''capability'' (aggregate_version d ''capability-g1'')
     (envelope ''c3-ev1'' ''capability-g1'' (CapabilityLeaseActivated tool_lease) (tool_author ''c3'' ''governance_kernel'')
       (about_none\<lparr>ab_mission := Some ''m1'', ab_task := Some ''t1''\<rparr>)) (ACapability tool_capability)] [])"
proof -
  have "lq_grantId tool_lease = ''g1''" "lq_missionId tool_lease = ''m1''" "lq_taskId tool_lease = ''t1''" by (simp_all add: tool_lease_def)
  then show ?thesis using assms by (simp add: tool_plans service_activate_lease_def capability_stream_id_def tool_steps)
qed

lemma policy_is_found:
  assumes "wired S d" and "(s, PolicyEvaluated p, k) \<in> facts d"
  shows "find_policy_decision d (pd_policyDecisionId p) \<noteq> None"
proof -
  have "read_events d 0 = opened_ledger d" using assms(1) read_opened unfolding wired_def by blast
  moreover obtain e where "e \<in> set (opened_ledger d)" "ev_payload e = PolicyEvaluated p"
    using assms(2) by (auto simp: facts_def fact_of_def)
  ultimately have "p \<in> set (List.map_filter (\<lambda>e. the_policy (ev_payload e)) (read_events d 0))"
    by (force simp: map_filter_def)
  then show ?thesis by (auto simp: find_policy_decision_def find_None_iff)
qed

lemma not_a_stage: "''governed'' \<noteq> stage_fingerprint sha e s"
  by (simp add: stage_fingerprint_def fingerprint_def digest_def)

text \<open>A call of another client that the store applies takes the machine on.\<close>

lemma governed_step:
  assumes at: "sits tool_services ld ids ks fs d" and ran: "broker_run tool_broker (idle_machine d)"
    and p: "plan_of tool_services cmd (\<lambda>_. []) (tool_author i who) d = Inr (Append [append_to s kind (aggregate_version d s) env st] ex)"
    and fresh: "ev_eventId env \<notin> ids" "i \<notin> ks"
    and plain: "ev_payload env \<notin> range ToolExecutionPrepared" "st \<notin> range AToolExecution"
  shows "\<exists>d'. broker_run tool_broker (idle_machine d') \<and> sits tool_services (ld(s \<mapsto> st)) (insert (ev_eventId env) ids) (insert i ks) (insert (fact_of env) fs) d'"
proof -
  obtain d' r where v: "serve tool_services [] (cmd, \<lambda>_. [], tool_author i who) d () = (d', (), Inr (Committed r ex))"
    and s': "sits tool_services (ld(s \<mapsto> st)) (insert (ev_eventId env) ids) (insert i ks) (insert (fact_of env) fs) d'"
    using call_applies[OF at p fresh(1), where x = "()"] fresh(2) by (auto simp: sample_hashing_def)
  have S: "bk_services tool_broker = tool_services" by (simp add: tool_broker_def)
  have "other_client tool_broker cmd (\<lambda>_. []) (tool_author i who) (mc_db (idle_machine d))"
    using plain_plan[OF p plain] by (simp add: other_client_def S idle_machine_def tool_machine_def not_a_stage)
  from broker_run.served[OF ran this, of "[]" "()" d' "()"] v
  have "broker_run tool_broker ((idle_machine d)\<lparr>mc_db := d'\<rparr>)" by (simp add: S idle_machine_def tool_machine_def)
  then show ?thesis using s' by (auto simp: idle_machine_def tool_machine_def)
qed

definition governed :: "rt_db \<Rightarrow> bool" where
  "governed d \<longleftrightarrow> (\<exists>fs. sits tool_services [''mission-m1'' \<mapsto> AMission tool_mission, ''capability-g1'' \<mapsto> ACapability tool_capability]
     {''c0-ev1'', ''c1-ev1'', ''c2-ev1'', ''c3-ev1''} {''c0'', ''c1'', ''c2'', ''c3''} fs d)"

lemma governed_exists: "\<exists>d. broker_run tool_broker (idle_machine d) \<and> governed d"
proof -
  have "broker_run tool_broker (idle_machine empty_db)" by (rule broker_run.begun) (simp_all add: idle_machine_def tool_machine_def)
  from governed_step[OF sits_empty this mission_planned] obtain d1 f1 where d1: "broker_run tool_broker (idle_machine d1)"
    "sits tool_services [''mission-m1'' \<mapsto> AMission (mission_create sample_spec)] {''c0-ev1''} {''c0''} f1 d1" by auto
  then have m1: "load_state d1 ''mission-m1'' = Some (AMission (mission_create sample_spec))" "''c1'' \<notin> keys_of d1" by (simp_all add: sits_def)
  from governed_step[OF d1(2,1) policy_planned[OF m1]] obtain d2 k f2 where d2: "broker_run tool_broker (idle_machine d2)"
    "sits tool_services [''mission-m1'' \<mapsto> AMission tool_mission] {''c0-ev1'', ''c1-ev1''} {''c0'', ''c1''}
      (insert (''mission-m1'', PolicyEvaluated tool_policy, k) f2) d2"
    by (auto simp: fact_of_def insert_commute)
  have "find_policy_decision d2 (pd_policyDecisionId tool_policy) \<noteq> None"
    using policy_is_found[of tool_services d2] d2(2) by (auto simp: sits_def)
  then have p: "find_policy_decision d2 ''p1'' \<noteq> None" by (simp add: tool_policy_def sample_policy_def)
  from governed_step[OF d2(2,1) grant_planned[OF p]] obtain d3 f3 where d3: "broker_run tool_broker (idle_machine d3)"
    "sits tool_services [''mission-m1'' \<mapsto> AMission tool_mission, ''capability-g1'' \<mapsto> ACapability (cap_grant tool_grant)]
      {''c0-ev1'', ''c1-ev1'', ''c2-ev1''} {''c0'', ''c1'', ''c2''} f3 d3"
    by (auto simp: insert_commute)
  then have l3: "load_state d3 ''capability-g1'' = Some (ACapability (cap_grant tool_grant))" "''c3'' \<notin> keys_of d3" by (simp_all add: sits_def)
  from governed_step[OF d3(2,1) lease_planned[OF l3]] show ?thesis by (auto simp: governed_def insert_commute)
qed

section \<open>The request is executed\<close>

abbreviation noon :: string where "noon \<equiv> ''2026-01-05T00:00:00Z''"

definition tool_md :: "string \<Rightarrow> metadata" where
  "tool_md s = \<lparr>md_commandId = ''toolcmd-'' @ take 24 (''tool-exec-k1:'' @ s), md_idempotencyKey = ''toolidem-'' @ take 24 (''tool-exec-k1:'' @ s),
     md_operationFingerprint = stage_fingerprint (\<lambda>x. x) ''tool-exec-k1'' s, md_correlationId = ''toolcorr-tool-exec-k1'', md_causationId = None,
     md_actor = \<lparr>ac_actorId = ''tool-broker'', ac_kind = ''execution_plane''\<rparr>, md_issuedAt = noon, md_replayPolicy = ''never'', md_attempt = 1\<rparr>"

lemma tool_broker_simps [simp]:
  "bk_services tool_broker = tool_services" "bk_handlers tool_broker = []" "bk_now tool_broker = (\<lambda>_. noon)"
  "bk_registry tool_broker = tool_registry" "bk_requestContract tool_broker = (\<lambda>_. [])"
  by (simp_all add: tool_broker_def)

lemma stage_command:
  "stage tool_broker ''tool-exec-k1'' s cmd (tool_machine d x t n i fx) = invoke tool_broker cmd (tool_md s) (tool_machine d x (Suc t) n i fx)"
  by (simp add: stage_def stage_metadata_def seq_def ask_now_def give_def tool_machine_def command_def require_def raise_if_def stable_id_def
      tool_md_def)

text \<open>A stage of the broker that the store applies.\<close>

lemma stage_applied:
  assumes at: "sits tool_services ld ids ks fs d"
    and p: "plan_of tool_services cmd (\<lambda>_. noon) (tool_md s) d = Inr (Append [append_to z kind (aggregate_version d z) env st] ex)"
    and fresh: "ev_eventId env \<notin> ids" "md_idempotencyKey (tool_md s) \<notin> ks"
  obtains d' where "stage tool_broker ''tool-exec-k1'' s cmd (tool_machine d x t (Suc n) i fx) = (tool_machine d' x (Suc t) n i fx, Some (Inr ()))"
    "sits tool_services (ld(z \<mapsto> st)) (insert (ev_eventId env) ids) (insert (md_idempotencyKey (tool_md s)) ks) (insert (fact_of env) fs) d'"
proof -
  obtain d' r where v: "serve tool_services [] (cmd, \<lambda>_. noon, tool_md s) d () = (d', (), Inr (Committed r ex))"
    and s': "sits tool_services (ld(z \<mapsto> st)) (insert (ev_eventId env) ids) (insert (md_idempotencyKey (tool_md s)) ks) (insert (fact_of env) fs) d'"
    using call_applies[OF at p fresh(1), where x = "()"] fresh(2) by (auto simp: sample_hashing_def)
  have "stage tool_broker ''tool-exec-k1'' s cmd (tool_machine d x t (Suc n) i fx) = (tool_machine d' x (Suc t) n i fx, Some (Inr ()))"
    by (simp add: stage_command invoke_def v) (simp add: tool_machine_def v)
  then show ?thesis using s' that by blast
qed

definition tool_registration :: "nat registration" where
  "tool_registration = \<lparr>rg_descriptor = tool_descriptor, rg_descriptorDigest = digest (\<lambda>x. x) (descriptor_json tool_descriptor),
     rg_adapter = tool_adapter, rg_probe = Some tool_probe\<rparr>"

lemma tool_registered: "tool_registry = [(''fs'', tool_registration)]"
proof -
  have "dc_toolId tool_descriptor = ''fs''" "validate_operation_effects tool_descriptor = Inr ()"
    by (simp_all add: tool_descriptor_def validate_operation_effects_def raise_if_def Let_def)
  then show ?thesis by (simp add: tool_registry_def register_def require_def raise_if_def Let_def registry_require_def tool_registration_def)
qed

lemma request_fields [simp]:
  "tr_toolRequestId write_request = ''r1''" "tr_toolId write_request = ''fs''" "tr_operation write_request = ''write''"
  "tr_consequential write_request" "tr_idempotencyKey write_request = ''k1''" "tr_leaseId write_request = Some ''l1''"
  "tr_reservationId write_request = None" "tr_grantId write_request = Some ''g1''" "tr_backendId write_request = Some ''local''"
  "tr_filesystemScope write_request = None"
  by (simp_all add: write_request_def write_fields_def)

lemma request_fingerprint [simp]: "tool_request_fingerprint (\<lambda>x. x) write_request = tr_operationFingerprint write_request"
  by (simp add: write_request_def tool_request_fingerprint_def)

lemma the_execution_id [simp]: "execution_id tool_broker ''k1'' = ''tool-exec-k1''"
  by (simp add: execution_id_def stable_id_def)

lemma request_enters: "entry_checks tool_broker write_request = Inr ()"
  by (simp add: entry_checks_def contract_def require_def raise_if_def)

lemma request_valid:
  "validate_request tool_broker write_request (tool_machine d x t n i fx) = (tool_machine d x (Suc t) n i fx, Some (Inr tool_registration))"
  by (simp add: validate_request_def seq_def give_def ask_now_def adapt_def check_def request_enters tool_registered registry_require_def
      descriptor_checks_def refuse.simps effect_checks_def effect_class_def readiness_def tool_machine_def filled_def)
     (simp add: tool_registration_def tool_descriptor_def tool_probe_def readiness_record_def require_def raise_if_def dreq_def dget_def Let_def seq_def give_def)

definition written :: dict where
  "written = execution_fields tool_broker write_request ''op'' ''s1'' tool_registration ''reversible'' JNull noon noon"

lemma execution_built:
  "build_execution tool_broker write_request ''op'' ''s1'' (tool_machine d x t n i fx) = (tool_machine d x (Suc (Suc (Suc t))) n i fx, Some (Inr written))"
proof -
  have "\<not> receipt_required (rg_descriptor tool_registration) ''write''" "effect_class tool_registry ''fs'' ''write'' = Inr ''reversible''"
    by (simp_all add: tool_registered effect_class_def registry_require_def) (simp_all add: receipt_required_def tool_registration_def tool_descriptor_def)
  then show ?thesis
    by (simp add: build_execution_def seq_def request_valid prepare_intent_def give_def) (simp add: ask_now_def tool_machine_def require_def raise_if_def written_def give_def)
qed

lemma written_fields [simp]:
  "dlook written ''toolExecutionId'' = Some (JStr ''tool-exec-k1'')" "dlook written ''state'' = Some (JStr ''prepared'')"
  "dlook written ''reservationId'' = Some JNull" "dlook written ''effectIntent'' = Some JNull" "dlook written ''toolRequestId'' = Some (JStr ''r1'')"
  "dlook written ''toolId'' = Some (JStr ''fs'')" "dlook written ''grantId'' = Some (JStr ''g1'')" "dlook written ''leaseId'' = Some (JStr ''l1'')"
  "dlook written ''dispatchBoundary'' = Some (JStr ''not_started'')" "dlook written ''sideEffectIdentity'' = Some JNull"
  by (simp_all add: written_def execution_fields_def opt_text_def)

lemma broker_permits [simp]:
  "require_authority ''prepare_tool_execution'' ''execution_plane'' = Inr ()" "require_authority ''transition_tool_execution'' ''execution_plane'' = Inr ()"
  "require_authority ''reserve_use'' ''execution_plane'' = Inr ()" "require_authority ''finalize_use'' ''execution_plane'' = Inr ()"
  by code_simp+

lemma tool_md_simps [simp]: "ac_kind (md_actor (tool_md s)) = ''execution_plane''" "md_issuedAt (tool_md s) = noon"
  by (simp_all add: tool_md_def)

lemma prepare_planned:
  "plan_of tool_services (PrepareTool written) tick (tool_md s) d = Inr (Append [append_to ''tool_execution-tool-exec-k1'' ''tool_execution''
     (aggregate_version d ''tool_execution-tool-exec-k1'') (envelope (ev1 (tool_md s)) ''tool_execution-tool-exec-k1'' (ToolExecutionPrepared written) (tool_md s) about_none)
     (AToolExecution written)] [])"
  by (simp add: tool_plans service_prepare_tool_execution_def text_item_def dreq_def tool_create_def tool_stream_id_def)

lemma stage_ids:
  "md_commandId (tool_md ''prepared'') = ''toolcmd-tool-exec-k1:prepared''" "md_idempotencyKey (tool_md ''prepared'') = ''toolidem-tool-exec-k1:prepared''"
  "md_commandId (tool_md ''reserve-capability'') = ''toolcmd-tool-exec-k1:reserve-cap''" "md_idempotencyKey (tool_md ''reserve-capability'') = ''toolidem-tool-exec-k1:reserve-cap''"
  "md_commandId (tool_md ''admitted'') = ''toolcmd-tool-exec-k1:admitted''" "md_idempotencyKey (tool_md ''admitted'') = ''toolidem-tool-exec-k1:admitted''"
  "md_commandId (tool_md ''dispatching'') = ''toolcmd-tool-exec-k1:dispatching''" "md_idempotencyKey (tool_md ''dispatching'') = ''toolidem-tool-exec-k1:dispatching''"
  by (simp_all add: tool_md_def)

text \<open>The request is prepared.\<close>

abbreviation WRITING :: string where "WRITING \<equiv> ''tool_execution-tool-exec-k1''"

definition prepared_db :: "rt_db \<Rightarrow> bool" where
  "prepared_db d \<longleftrightarrow> (\<exists>fs. sits tool_services [''mission-m1'' \<mapsto> AMission tool_mission, ''capability-g1'' \<mapsto> ACapability tool_capability,
       WRITING \<mapsto> AToolExecution written]
     {''toolcmd-tool-exec-k1:prepared-ev1'', ''c0-ev1'', ''c1-ev1'', ''c2-ev1'', ''c3-ev1''} {''toolidem-tool-exec-k1:prepared'', ''c0'', ''c1'', ''c2'', ''c3''} fs d)"

lemma request_admitted:
  assumes "governed d"
  obtains d' t' where "prepared_db d'" "admit_execution tool_broker write_request ''op'' ''s1'' (tool_machine d x t (Suc n) i fx) =
    (tool_machine d' x t' n i fx, Some (Inr (Going_on (tool_registration, written))))"
proof -
  obtain fs where at: "sits tool_services [''mission-m1'' \<mapsto> AMission tool_mission, ''capability-g1'' \<mapsto> ACapability tool_capability]
     {''c0-ev1'', ''c1-ev1'', ''c2-ev1'', ''c3-ev1''} {''c0'', ''c1'', ''c2'', ''c3''} fs d"
    using assms by (auto simp: governed_def)
  obtain d' where d': "stage tool_broker ''tool-exec-k1'' ''prepared'' (PrepareTool written) (tool_machine d x (Suc (Suc (Suc (Suc t)))) (Suc n) i fx) =
      (tool_machine d' x (Suc (Suc (Suc (Suc (Suc t))))) n i fx, Some (Inr ()))" "prepared_db d'"
    by (rule stage_applied[OF at prepare_planned[where s = "''prepared''"], where x = x and t = "Suc (Suc (Suc (Suc t)))" and n = n and i = i and fx = fx]) (auto simp: prepared_db_def stage_ids ev1_def)
  have "load_state d WRITING = None" using at by (simp add: sits_def)
  then have "admit_execution tool_broker write_request ''op'' ''s1'' (tool_machine d x t (Suc n) i fx) =
      (tool_machine d' x (Suc (Suc (Suc (Suc (Suc t))))) n i fx, Some (Inr (Going_on (tool_registration, written))))"
    using d'(1)
    by (simp add: admit_execution_def seq_def give_def look_def request_enters request_valid execution_built tool_stream_id_def Let_def)
  then show ?thesis using that d'(2) by blast
qed

text \<open>Its authority is checked.\<close>

lemma tool_capability_facts:
  "cap_check_lease tool_capability ''l1'' ''write'' (ToolScope [''fs'']) noon = Inr ()" "cs_reservations tool_capability = []"
  "map_option cl_scope (cs_lease tool_capability) = Some (ToolScope [''fs''])" "cs_externalCommitments tool_capability = []"
  by code_simp+

lemma adapter_has_no_hooks [simp]:
  "rg_adapter tool_registration = tool_adapter" "ad_sandbox tool_adapter = None" "ad_persistent_exec tool_adapter = None" "ad_preflight tool_adapter = None"
  "ad_execute_observed tool_adapter = None" "ad_execute tool_adapter r = (\<lambda>n. (Suc n, Inr [(''status'', JStr ''succeeded'')]))"
  by (simp_all add: tool_registration_def tool_adapter_def)

lemma request_authorised:
  assumes "prepared_db d"
  shows "authority_checks tool_broker write_request written (tool_machine d x t n i fx) = (tool_machine d x (Suc t) n i fx, Some (Inr (Going_on ())))"
proof -
  have c: "load_state d (capability_stream_id ''g1'') = Some (ACapability tool_capability)"
    using assms by (auto simp: prepared_db_def sits_def capability_stream_id_def)
  then have "commitment_denied d write_request fp = Inr False" for fp
    by (simp add: commitment_denied_def capability_at_def request_commitments_def tool_capability_facts map_filter_def)
  moreover have "lease_denial write_request noon d = Inr None"
    using c by (simp add: lease_denial_def lease_checked_def service_check_lease_def fetch_def require_state_def scope_for_def tool_capability_facts)
  ultimately show ?thesis
    by (simp add: authority_checks_def intent_expired_def dget_def seq_def give_def look_def ask_now_def) (simp add: tool_machine_def)
qed

lemma hooks_accept:
  "hooks_validated tool_broker write_request ''op'' ''s1'' tool_adapter m = (m, Some (Inr ()))"
  "preflight tool_broker write_request written tool_adapter m = (m, Some (Inr (Going_on ())))"
  by (simp_all add: hooks_validated_def preflight_def seq_def give_def dreq_def)

text \<open>The use is reserved.\<close>

definition tool_reservation :: reservation_req where
  "tool_reservation = \<lparr>rq_reservationId = ''tool-res-tool-exec-k1'', rq_leaseId = ''l1'', rq_operation = ''write'',
     rq_operationFingerprint = tr_operationFingerprint write_request, rq_idempotencyKey = ''tool-use-tool-exec-k1'', rq_reservedAt = noon\<rparr>"

definition reserved_capability :: capability where
  "reserved_capability = projr (cap_reserve tool_capability tool_reservation noon)"

lemma use_reserved: "cap_reserve tool_capability tool_reservation noon = Inr reserved_capability"
proof -
  obtain l where "cs_lease tool_capability = Some l" "cl_scope l = ToolScope [''fs'']" using tool_capability_facts(3) by (auto simp: map_option_eq_Some)
  then show ?thesis
    using tool_capability_facts(1,2) by (simp add: reserved_capability_def cap_reserve_def) (simp add: tool_reservation_def)
qed

lemma reserve_planned:
  assumes "load_state d ''capability-g1'' = Some (ACapability tool_capability)" and "md_idempotencyKey (tool_md s) \<notin> keys_of d"
  shows "plan_of tool_services (ReserveUse ''g1'' tool_reservation) tick (tool_md s) d = Inr (Append [append_to ''capability-g1'' ''capability''
     (aggregate_version d ''capability-g1'') (envelope (ev1 (tool_md s)) ''capability-g1'' (CapabilityUseReserved tool_reservation) (tool_md s) about_none)
     (ACapability reserved_capability)] [])"
  using assms by (simp add: tool_plans service_reserve_use_def capability_stream_id_def use_reserved)

definition reserved_db :: "rt_db \<Rightarrow> bool" where
  "reserved_db d \<longleftrightarrow> (\<exists>fs. sits tool_services [''mission-m1'' \<mapsto> AMission tool_mission, ''capability-g1'' \<mapsto> ACapability reserved_capability,
       WRITING \<mapsto> AToolExecution written]
     {''toolcmd-tool-exec-k1:reserve-cap-ev1'', ''toolcmd-tool-exec-k1:prepared-ev1'', ''c0-ev1'', ''c1-ev1'', ''c2-ev1'', ''c3-ev1''}
     {''toolidem-tool-exec-k1:reserve-cap'', ''toolidem-tool-exec-k1:prepared'', ''c0'', ''c1'', ''c2'', ''c3''} fs d)"

lemma request_reserved:
  assumes "prepared_db d"
  obtains d' t' where "reserved_db d'" "reserve tool_broker write_request written (tool_machine d x t (Suc n) i fx) =
    (tool_machine d' x t' n i fx, Some (Inr (Some ''tool-res-tool-exec-k1'')))"
proof -
  obtain fs where at: "sits tool_services [''mission-m1'' \<mapsto> AMission tool_mission, ''capability-g1'' \<mapsto> ACapability tool_capability,
       WRITING \<mapsto> AToolExecution written]
     {''toolcmd-tool-exec-k1:prepared-ev1'', ''c0-ev1'', ''c1-ev1'', ''c2-ev1'', ''c3-ev1''} {''toolidem-tool-exec-k1:prepared'', ''c0'', ''c1'', ''c2'', ''c3''} fs d"
    using assms by (auto simp: prepared_db_def)
  have c: "load_state d ''capability-g1'' = Some (ACapability tool_capability)" "md_idempotencyKey (tool_md ''reserve-capability'') \<notin> keys_of d"
    using at by (simp_all add: sits_def stage_ids)
  obtain d' where d': "stage tool_broker ''tool-exec-k1'' ''reserve-capability'' (ReserveUse ''g1'' tool_reservation) (tool_machine d x (Suc t) (Suc n) i fx) =
      (tool_machine d' x (Suc (Suc t)) n i fx, Some (Inr ()))" "reserved_db d'"
    by (rule stage_applied[OF at reserve_planned[OF c], where x = x and t = "Suc t" and n = n and i = i and fx = fx])
       (auto simp: reserved_db_def stage_ids ev1_def fun_upd_twist)
  have v: "reservation_of tool_broker write_request ''l1'' ''tool-exec-k1'' (tool_machine d x t (Suc n) i fx)
      = (tool_machine d x (Suc t) (Suc n) i fx, Some (Inr tool_reservation))"
    by (simp add: reservation_of_def seq_def ask_now_def give_def reservation_id_def stable_id_def tool_reservation_def) (simp add: tool_machine_def)
  have "rq_reservationId tool_reservation = ''tool-res-tool-exec-k1''" by (simp add: tool_reservation_def)
  then have "reserve tool_broker write_request written (tool_machine d x t (Suc n) i fx) =
      (tool_machine d' x (Suc (Suc t)) n i fx, Some (Inr (Some ''tool-res-tool-exec-k1'')))"
    using d'(1) v by (simp add: reserve_def seq_def give_def text_of_def Let_def dget_def)
  then show ?thesis using that d'(2) by blast
qed

text \<open>The dispatch is recorded.\<close>

definition admitted_write :: dict where
  "admitted_write = dput (dupdate written [(''reservationId'', JStr ''tool-res-tool-exec-k1''), (''updatedAt'', JStr noon)]) ''state'' (JStr ''admitted'')"

definition dispatching_write :: dict where
  "dispatching_write = dput (dupdate admitted_write [(''dispatchBoundary'', JStr ''started''), (''updatedAt'', JStr noon)]) ''state'' (JStr ''dispatching'')"

lemma write_moves:
  "tool_transition (\<lambda>_ _. []) written ''admitted'' (dsetdefault [(''reservationId'', JStr ''tool-res-tool-exec-k1'')] ''updatedAt'' (JStr noon)) = Inr admitted_write"
  "tool_transition (\<lambda>_ _. []) admitted_write ''dispatching'' (dsetdefault [(''dispatchBoundary'', JStr ''started'')] ''updatedAt'' (JStr noon)) = Inr dispatching_write"
proof -
  have moves: "allowed TOOL_TRANSITIONS ''prepared'' ''admitted''" "allowed TOOL_TRANSITIONS ''admitted'' ''dispatching''"
      "''prepared'' \<notin> set TOOL_TERMINAL" "''admitted'' \<notin> set TOOL_TERMINAL"
    by code_simp+
  have patch: "dsetdefault [(''reservationId'', JStr ''tool-res-tool-exec-k1'')] ''updatedAt'' (JStr noon)
      = [(''reservationId'', JStr ''tool-res-tool-exec-k1''), (''updatedAt'', JStr noon)]"
    "dsetdefault [(''dispatchBoundary'', JStr ''started'')] ''updatedAt'' (JStr noon) = [(''dispatchBoundary'', JStr ''started''), (''updatedAt'', JStr noon)]"
    by (simp_all add: dsetdefault_def dput_def dhas_def)
  show "tool_transition (\<lambda>_ _. []) written ''admitted'' (dsetdefault [(''reservationId'', JStr ''tool-res-tool-exec-k1'')] ''updatedAt'' (JStr noon)) = Inr admitted_write"
    unfolding tool_transition_Inr patch
    using moves by (simp add: state_label_def dreq_def str_of_def TOOL_MUTABLE_FIELDS_def dkeys_def evidence_for_def admitted_write_def)
  show "tool_transition (\<lambda>_ _. []) admitted_write ''dispatching'' (dsetdefault [(''dispatchBoundary'', JStr ''started'')] ''updatedAt'' (JStr noon)) = Inr dispatching_write"
    unfolding tool_transition_Inr patch
    using moves by (simp add: admitted_write_def TOOL_MUTABLE_FIELDS_def dkeys_def evidence_for_def) (simp add: dispatching_write_def admitted_write_def)
qed

lemma transition_planned:
  assumes "load_state d WRITING = Some (AToolExecution t)"
    and "tool_transition (\<lambda>_ _. []) t to_state (dsetdefault patch ''updatedAt'' (JStr noon)) = Inr t'"
  shows "plan_of tool_services (TransitionTool ''tool-exec-k1'' to_state patch) tick (tool_md s) d = Inr (Append [append_to WRITING ''tool_execution''
     (aggregate_version d WRITING) (envelope (ev1 (tool_md s)) WRITING (ToolExecutionChanged (tool_event_of to_state) t') (tool_md s) about_none)
     (AToolExecution t')] [])"
  using assms by (simp add: tool_plans service_transition_tool_execution_def tool_stream_id_def)

definition dispatched_db :: "rt_db \<Rightarrow> bool" where
  "dispatched_db d \<longleftrightarrow> (\<exists>ids ks fs. sits tool_services [''mission-m1'' \<mapsto> AMission tool_mission, ''capability-g1'' \<mapsto> ACapability reserved_capability,
       WRITING \<mapsto> AToolExecution dispatching_write] ids ks fs d)"

lemma request_dispatched:
  assumes "reserved_db d"
  obtains d' t' where "dispatched_db d'"
    "dispatching tool_broker ''tool-exec-k1'' written (Some ''tool-res-tool-exec-k1'') (tool_machine d x t (Suc (Suc n)) i fx)
      = (tool_machine d' x t' n i fx, Some (Inr ()))"
proof -
  obtain fs where at: "sits tool_services [''mission-m1'' \<mapsto> AMission tool_mission, ''capability-g1'' \<mapsto> ACapability reserved_capability,
       WRITING \<mapsto> AToolExecution written]
     {''toolcmd-tool-exec-k1:reserve-cap-ev1'', ''toolcmd-tool-exec-k1:prepared-ev1'', ''c0-ev1'', ''c1-ev1'', ''c2-ev1'', ''c3-ev1''}
     {''toolidem-tool-exec-k1:reserve-cap'', ''toolidem-tool-exec-k1:prepared'', ''c0'', ''c1'', ''c2'', ''c3''} fs d"
    using assms by (auto simp: reserved_db_def)
  then have t0: "load_state d WRITING = Some (AToolExecution written)" by (simp add: sits_def)
  obtain d1 fs1 where d1: "stage tool_broker ''tool-exec-k1'' ''admitted'' (TransitionTool ''tool-exec-k1'' ''admitted'' [(''reservationId'', JStr ''tool-res-tool-exec-k1'')])
      (tool_machine d x t (Suc (Suc n)) i fx) = (tool_machine d1 x (Suc t) (Suc n) i fx, Some (Inr ()))"
    and at1: "sits tool_services [''mission-m1'' \<mapsto> AMission tool_mission, ''capability-g1'' \<mapsto> ACapability reserved_capability,
       WRITING \<mapsto> AToolExecution admitted_write]
     {''toolcmd-tool-exec-k1:admitted-ev1'', ''toolcmd-tool-exec-k1:reserve-cap-ev1'', ''toolcmd-tool-exec-k1:prepared-ev1'', ''c0-ev1'', ''c1-ev1'', ''c2-ev1'', ''c3-ev1''}
     {''toolidem-tool-exec-k1:admitted'', ''toolidem-tool-exec-k1:reserve-cap'', ''toolidem-tool-exec-k1:prepared'', ''c0'', ''c1'', ''c2'', ''c3''} fs1 d1"
    by (rule stage_applied[OF at transition_planned[where s = "''admitted''", OF t0 write_moves(1)], where x = x and t = t and n = "Suc n" and i = i and fx = fx])
       (auto simp: stage_ids ev1_def)
  from at1 have t1: "load_state d1 WRITING = Some (AToolExecution admitted_write)" by (simp add: sits_def)
  obtain d2 where d2: "stage tool_broker ''tool-exec-k1'' ''dispatching'' (TransitionTool ''tool-exec-k1'' ''dispatching'' [(''dispatchBoundary'', JStr ''started'')])
      (tool_machine d1 x (Suc t) (Suc n) i fx) = (tool_machine d2 x (Suc (Suc t)) n i fx, Some (Inr ()))" "dispatched_db d2"
    by (rule stage_applied[OF at1 transition_planned[where s = "''dispatching''", OF t1 write_moves(2)], where x = x and t = "Suc t" and n = n and i = i and fx = fx])
       (auto simp: stage_ids ev1_def dispatched_db_def)
  have "dispatching tool_broker ''tool-exec-k1'' written (Some ''tool-res-tool-exec-k1'') (tool_machine d x t (Suc (Suc n)) i fx)
      = (tool_machine d2 x (Suc (Suc t)) n i fx, Some (Inr ()))"
    using d1 d2(1) by (simp add: dispatching_def seq_def give_def dreq_def opt_text_def)
  then show ?thesis using that d2(2) by blast
qed

text \<open>The adapter runs, and the process dies at the command that would settle the use.\<close>

definition write_effect :: "rt_db \<Rightarrow> effect" where
  "write_effect d = \<lparr>ef_execution = ''tool-exec-k1'', ef_request = write_request, ef_database = d\<rparr>"

lemma request_takes_effect:
  obtains y t' where "run_effect tool_broker write_request tool_adapter JNull (tool_machine d x t n None fx)
    = (tool_machine d (Suc x) t' n None (fx @ [write_effect d]), Some (Inr (y, JNull)))"
proof -
  have ran: "run_adapter tool_broker write_request tool_adapter JNull (tool_machine d x t n None fx)
      = (tool_machine d (Suc x) t n None (fx @ [write_effect d]), Some (Inr [(''status'', JStr ''succeeded'')]))"
    by (simp add: run_adapter_def seq_def log_effect_def adapt_def) (simp add: tool_machine_def write_effect_def)
  obtain y where "result_from_adapter tool_broker write_request [(''status'', JStr ''succeeded'')] (tool_machine d x' t n None fx')
      = (tool_machine d x' (Suc t) n None fx', Some (Inr y))" for x' fx'
    by (simp add: result_from_adapter_def tool_result_def seq_def give_def ask_now_def check_def require_def raise_if_def dget_def Let_def)
       (simp add: tool_machine_def)
  then show ?thesis
    using that[of "Suc t" y] ran
    by (simp add: run_effect_def seq_def give_def catch_def observed_def with_identity_def receipt_of_def)
qed

lemma settlement_dies:
  "settle tool_broker write_request tool_adapter (Some ''tool-res-tool-exec-k1'') (y, JNull) (tool_machine d x t 0 i fx) = (tool_machine d x (Suc (Suc t)) 0 i fx, None)"
proof -
  have dies: "stage tool_broker ''tool-exec-k1'' s cmd (tool_machine d x t 0 i fx) = (tool_machine d x (Suc t) 0 i fx, None)" for s cmd t
    by (simp add: stage_command invoke_def) (simp add: tool_machine_def)
  have fin: "finalize_capability tool_broker write_request ''tool-exec-k1'' g z y (tool_machine d x t 0 i fx) = (tool_machine d x (Suc t) 0 i fx, None)" for g z t
    by (simp add: finalize_capability_def catch_def seq_def dies)
  obtain z where "consumption_of tool_broker ''tool-exec-k1'' ''tool-res-tool-exec-k1'' ''l1'' (outcome_of (dget y ''status'')) (dget y ''sideEffectIdentity'')
      (tool_machine d x t 0 i fx) = (tool_machine d x (Suc t) 0 i fx, Some (Inr z))"
    by (simp add: consumption_of_def seq_def ask_now_def give_def) (simp add: tool_machine_def)
  then have "settle_capability tool_broker write_request (Some ''tool-res-tool-exec-k1'') y None None (tool_machine d x t 0 i fx)
      = (tool_machine d x (Suc (Suc t)) 0 i fx, None)"
    by (simp add: settle_capability_def seq_def give_def text_of_def Let_def fin)
  then show ?thesis by (simp add: settle_def seq_def give_def Let_def)
qed

lemma execution_dies:
  assumes "governed d"
  obtains d' t' where "dispatched_db d'"
    "execute tool_broker write_request ''op'' ''s1'' (tool_machine d 0 0 (Suc (Suc (Suc (Suc 0)))) None []) = (tool_machine d' (Suc 0) t' 0 None [write_effect d'], None)"
proof -
  obtain d1 t1 where 1: "prepared_db d1" "admit_execution tool_broker write_request ''op'' ''s1'' (tool_machine d 0 0 (Suc (Suc (Suc (Suc 0)))) None []) =
    (tool_machine d1 0 t1 (Suc (Suc (Suc 0))) None [], Some (Inr (Going_on (tool_registration, written))))"
    using request_admitted[OF assms, where x = 0 and t = 0 and n = "Suc (Suc (Suc 0))" and i = None and fx = "[]"] by blast
  obtain d2 t2 where 2: "reserved_db d2" "reserve tool_broker write_request written (tool_machine d1 0 (Suc t1) (Suc (Suc (Suc 0))) None []) =
    (tool_machine d2 0 t2 (Suc (Suc 0)) None [], Some (Inr (Some ''tool-res-tool-exec-k1'')))"
    using request_reserved[OF 1(1), where x = 0 and t = "Suc t1" and n = "Suc (Suc 0)" and i = None and fx = "[]"] by blast
  obtain d3 t3 where 3: "dispatched_db d3" "dispatching tool_broker ''tool-exec-k1'' written (Some ''tool-res-tool-exec-k1'') (tool_machine d2 0 t2 (Suc (Suc 0)) None [])
      = (tool_machine d3 0 t3 0 None [], Some (Inr ()))"
    using request_dispatched[OF 2(1), where x = 0 and t = t2 and n = 0 and i = None and fx = "[]"] by blast
  obtain y t4 where 4: "run_effect tool_broker write_request tool_adapter JNull (tool_machine d3 0 t3 0 None [])
    = (tool_machine d3 (Suc 0) t4 0 None [write_effect d3], Some (Inr (y, JNull)))"
    using request_takes_effect[where d = d3 and x = 0 and t = t3 and n = 0 and fx = "[]", unfolded append_Nil] by blast
  have idle: "set_observed None (tool_machine d3 0 t3 0 None []) = (tool_machine d3 0 t3 0 None [], Some (Inr ()))"
    by (simp add: set_observed_def tool_machine_def)
  have "dispatch_effect tool_broker write_request ''op'' ''s1'' written tool_adapter (tool_machine d1 0 (Suc t1) (Suc (Suc (Suc 0))) None [])
      = (tool_machine d3 (Suc 0) (Suc (Suc t4)) 0 None [write_effect d3], None)"
    using 2(2) 3(2) 4 idle by (simp add: dispatch_effect_def seq_def give_def Let_def dget_def settlement_dies)
  then have "execute tool_broker write_request ''op'' ''s1'' (tool_machine d 0 0 (Suc (Suc (Suc (Suc 0)))) None []) = (tool_machine d3 (Suc 0) (Suc (Suc t4)) 0 None [write_effect d3], None)"
    by (simp add: execute_def then_on_def seq_def give_def 1(2) request_authorised[OF 1(1)] hooks_accept)
  then show ?thesis using that 3(1) by blast
qed

section \<open>What was proved of the broker, on this run\<close>

lemma tool_sha: "inj (broker_sha tool_broker)"
  by (simp add: inj_on_def)

lemma the_run_dies: "\<exists>m d. broker_run tool_broker m \<and> mc_effects m = [write_effect d] \<and> dispatched_db (mc_db m)"
proof -
  obtain d where d: "broker_run tool_broker (idle_machine d)" "governed d" using governed_exists by blast
  from execution_dies[OF d(2)] obtain d' t' where e: "dispatched_db d'"
    "execute tool_broker write_request ''op'' ''s1'' (tool_machine d 0 0 (Suc (Suc (Suc (Suc 0)))) None []) = (tool_machine d' (Suc 0) t' 0 None [write_effect d'], None)"
    by blast
  have "broker_run tool_broker (tool_machine d 0 0 (Suc (Suc (Suc (Suc 0)))) None [])"
    by (rule broker_run.restarted[OF d(1)]) (simp_all add: idle_machine_def tool_machine_def)
  from broker_run.executed[OF this, of tool_registry write_request "''op''" "''s1''"] e
  have "broker_run tool_broker (tool_machine d' (Suc 0) t' 0 None [write_effect d'])" by (simp add: tool_broker_def)
  then show ?thesis using e(1) by (intro exI[of _ "tool_machine d' (Suc 0) t' 0 None [write_effect d']"] exI[of _ d']) (simp add: tool_machine_def)
qed

lemma at_most_one_effect_witness:
  "\<exists>m. broker_run tool_broker m \<and> length (mc_effects m) = 1 \<and> crossed (mc_db m) ''tool-exec-k1'' \<and> distinct (map ef_execution (mc_effects m))"
proof -
  obtain m d where m: "broker_run tool_broker m" "mc_effects m = [write_effect d]" using the_run_dies by blast
  from at_most_one_effect[OF m(1) tool_sha] m(2)
  have "crossed (mc_db m) ''tool-exec-k1'' \<and> distinct (map ef_execution (mc_effects m))" by (simp add: write_effect_def)
  with m show ?thesis by (intro exI[of _ m]) simp
qed

lemma effects_are_warranted_witness:
  "\<exists>d c. load_state d (capability_stream_id ''g1'') = Some (ACapability c) \<and> vouched (load_state d) (facts d) c \<and> crossed d ''tool-exec-k1''
     \<and> (\<exists>v g who. (capability_stream_id g, CapabilityUseReserved v, who) \<in> facts d \<and> rq_reservationId v = reservation_id tool_broker ''tool-exec-k1'')"
proof -
  obtain m d where m: "broker_run tool_broker m" "mc_effects m = [write_effect d]" using the_run_dies by blast
  then have "write_effect d \<in> set (mc_effects m)" by simp
  from effects_are_warranted[OF m(1) tool_sha this] have
    "(\<exists>c. load_state d (capability_stream_id ''g1'') = Some (ACapability c) \<and> vouched (load_state d) (facts d) c) \<and> crossed d ''tool-exec-k1''
     \<and> (\<exists>v g who. (capability_stream_id g, CapabilityUseReserved v, who) \<in> facts d \<and> rq_reservationId v = reservation_id tool_broker ''tool-exec-k1'')"
    by (simp add: write_effect_def Let_def) blast
  then show ?thesis by blast
qed

lemma recovery_settles_all_witness:
  "\<exists>m m' r. broker_run tool_broker m \<and> stranded (mc_db m) ''tool-exec-k1'' \<and> reconcile_stranded tool_broker m = (m', Some r)
     \<and> mc_effects m' = mc_effects m \<and> (\<forall>ts. r = Inr ts \<longrightarrow> \<not> stranded (mc_db m') ''tool-exec-k1'')"
proof -
  obtain m d where m: "broker_run tool_broker m" "dispatched_db (mc_db m)" using the_run_dies by blast
  define u where "u = m\<lparr>mc_power := 6 * length (executions (mc_db m))\<rparr>"
  have u: "broker_run tool_broker u" by (rule broker_run.restarted[OF m(1)]) (simp_all add: u_def)
  have "load_state (mc_db m) WRITING = Some (AToolExecution dispatching_write)" using m(2) by (auto simp: dispatched_db_def sits_def)
  then have s: "stranded (mc_db u) ''tool-exec-k1''"
    by (simp add: u_def stranded_def tool_at_def tool_stream_id_def dispatching_write_def)
  obtain m' r where e: "reconcile_stranded tool_broker u = (m', r)" by force
  have "tool_broker\<lparr>bk_registry := tool_registry\<rparr> = tool_broker" by (simp add: tool_broker_def)
  from recovery_settles_all[OF u tool_sha, of tool_registry m' r, unfolded this, OF e]
  have "mc_effects m' = mc_effects u" "\<forall>ts. r = Some (Inr ts) \<longrightarrow> \<not> stranded (mc_db m') ''tool-exec-k1''" "r \<noteq> None"
    by (blast, blast, simp add: u_def)
  then show ?thesis using u s e by blast
qed

end
