(* ===== verification/Spec2Isabelle.thy ===== *)
theory Spec2Isabelle
  imports Authority Capability_Safety Claims Driver_Runs Approvals Artifacts_Prompts Sandbox_Lease Cohorts Coordination Store_Safety
    Council_Safety Replay_Safety Checkpoint_Safety Broker_Samples
begin

text \<open>
  The governed runtime of CAPT: the Python package \<^verbatim>\<open>capt_runtime\<close>, a state machine over an append-only ledger of
  events. A command carries its author, an idempotency key and an operation fingerprint. The service layer checks the
  author against the authority planes, loads the aggregates the command is about, lets their state machines accept or
  refuse the operation, and commits the resulting events, states and outbox entries with the outcome of the key in one
  transaction of the event store; subscribers are told after the commit. Checkpoints and replay rebuild the states from the
  ledger. The tool broker is the client that makes effects in the world: it runs an adapter only between commands that
  record the intent, reserve a use of a capability and record the dispatch, and after a crash it recovers from the ledger.

  Parts and theories (file names are under \<^verbatim>\<open>src/capt_runtime\<close>):

  \<^item> foundations. \<open>Prelude\<close>: the exceptions of \<^verbatim>\<open>errors.py\<close> as the datatype \<open>py_error\<close>, results \<open>'a res\<close> (\<open>Inl\<close> an exception),
    strings. \<open>Json\<close>: values, Python dictionaries as association lists, and \<^verbatim>\<open>contracts.py\<close>. \<open>Json_Text\<close>: the text of a JSON string
    can be read back. \<open>Authority\<close>: the table of \<^verbatim>\<open>authority.py\<close>. \<open>Lifecycle\<close>: the contract of an aggregate state machine as the locales
    \<open>lifecycle\<close> and \<open>lifecycle_inv\<close>, interpreted in the theory of every aggregate on its own operations.

  \<^item> aggregates, one group of definitions per file of \<^verbatim>\<open>aggregates/\<close>: a record for the keys of the snapshot (or the JSON object
    itself, where the code keeps the object of a contract), a table, one definition per operation. \<open>Mission_Task\<close>; \<open>Capability\<close> and
    \<open>Capability_Safety\<close>; \<open>Claims\<close>; \<open>Driver_Runs\<close> (with \<^verbatim>\<open>driver_run.py\<close>); \<open>Approvals\<close>; \<open>Artifacts_Prompts\<close>; \<open>Tool_Execution\<close>;
    \<open>Sandbox_Lease\<close>; \<open>Cohorts\<close>; \<open>Coordination\<close> (bots, candidates, delegates, lab board, skills, forks, resource bindings); \<open>Council\<close> (with
    \<^verbatim>\<open>council.py\<close>) and \<open>Council_Safety\<close>. Their properties range over histories of attempted operations: the table is followed,
    terminal states are final, identities and bound facts never change, budgets hold, evidence is in place where a state demands it.

  \<^item> the event store, \<^verbatim>\<open>store.py\<close>. \<open>Store\<close>: the tables as a record of lists, a statement as a function from the database to database and
    result, transactions with rollback, the append loop, idempotency, the hash chain, outbox dispatch, receipts. \<open>Store_Safety\<close>:
    atomicity, one execution per key, the ledger invariant, evidence of tampering (two different ledgers with one head
    yield a collision of the hash), dispatch in order. \<open>Store_Progress\<close>: a fresh command at the current version is committed.

  \<^item> replay and checkpoints, \<^verbatim>\<open>replay.py\<close> and \<^verbatim>\<open>checkpoint.py\<close>. \<open>Replay\<close>, \<open>Replay_Safety\<close> (locale \<open>event_reducer\<close>), \<open>Checkpoint\<close>, \<open>Checkpoint_Safety\<close>:
    replay is a refinement of the store, and replay from a checkpoint equals full replay.

  \<^item> the service layer, \<^verbatim>\<open>commands.py\<close> and \<^verbatim>\<open>services.py\<close>. A handler is a function from the metadata and the database to a
    plan (appends, or an answer) or an exception, and \<open>perform\<close> commits and dispatches it. \<open>Services\<close>, \<open>Service_Capability\<close>,
    \<open>Service_Approvals\<close>, \<open>Service_Claims\<close>, \<open>Service_Tools\<close>, \<open>Service_Settlement\<close>, \<open>Service_Missions\<close>, \<open>Service_Disposition\<close> hold the
    handlers; \<open>Service_Runtime\<close> the datatype of all commands, \<open>plan_of\<close> and \<open>serve\<close>.
    \<open>Service_Records\<close> states what a command may append as a step relation \<open>records\<close>; \<open>Service_Plans\<close>, \<open>Service_Tool_Plans\<close> and
    \<open>Service_Mission_Plans\<close> show that every handler obeys it. \<open>Services_Safety\<close> lifts a predicate of states and facts from \<open>records\<close> to every
    history of calls (locale \<open>ledger_invariant\<close>), interpreted for the typing of streams, the custody of capabilities, and
    the refinement of states by histories; \<open>Disposition_Safety\<close> interprets it once more for the disposition of missions.
    \<open>Runtime_Samples\<close> evaluates a run.

  \<^item> the tool broker, \<^verbatim>\<open>world_receipt.py\<close>, \<^verbatim>\<open>tools/registry.py\<close>, \<^verbatim>\<open>tools/sandbox_broker_hooks.py\<close> and \<^verbatim>\<open>tool_broker.py\<close>. \<open>World_Receipt\<close>,
    \<open>Tool_Registry\<close>, \<open>Tool_Broker\<close>: a method is a program on a machine of database, subscribers, world of the adapters,
    clock readings and the number of commands the process lives to complete (\<open>mc_power\<close>); a program returns, raises, or is cut
    off at a command when the process dies. The machine logs each run of an adapter with the database of that moment.
    \<open>Broker_Plans\<close> and \<open>Broker_Logic\<close>: what a command of the broker changes, and triples that keep an invariant through every
    outcome, death included. \<open>Broker_Safety\<close>: the invariant \<open>broker_inv\<close>, and that calls of other clients keep it. \<open>Broker_Steps\<close>,
    \<open>Broker_Recovery\<close>, \<open>Broker_Execution\<close>: the programs keep it. \<open>Broker_Bounds\<close>: how many commands a program takes.
    \<open>Broker_Properties\<close>: the machines the broker reaches under any adapters, crashes, restarts, recoveries and other clients
    (\<open>broker_run\<close>), at most one effect per key, every effect warranted, and the recovery ends and settles everything.
    \<open>Broker_Samples\<close>: a run that dies after its adapter ran, worked out step by step.

  Parameters. SHA-256 is a function on strings; where injectivity is needed it is a hypothesis of the theorem (the broker), or the
  conclusion exhibits a collision (the chain). The generated contract validators, the digests of payloads and states, path
  resolution, the projections for display, clocks, subscribers and adapters are functions the definitions take; the theorems
  about the broker hold for all of them. The other clients of the broker's theorems prepare and admit no tool executions and do not
  use the fingerprints of the broker's stages: only the broker issues these commands in the code.

  Bounds. Loops over lists are structural recursion, so every definition is total. A script of an adapter is well-founded, an adapter
  returns or raises. The recovery takes at most six commands per execution: three to prove or close an effect,
  and three more when that proof fails midway.

  Simplifications. Integers of Python are \<open>int\<close>; a float is kept as its text, a confidence or spending limit as a rational.
  Messages of exceptions are kept, except for arguments printed with \<^verbatim>\<open>%r\<close>. Locks have no counterpart: a plan is computed and committed on
  one database, as under the lock. Strings are compared as lists of code points.

  Not modelled, with the reason: sealing of rows at rest and file permissions (operating system), providers, drivers and
  adapters (network and processes; parameters here), the generated contracts (parameters), dispatch of councils and cohorts to
  providers, assembly of prompts and memory retrieval (text processing outside the ledger), the desktop and command-line
  surfaces and the single-user product \<^verbatim>\<open>capt_solo\<close> (clients, or separate programs).
\<close>

end
